(* ===== verification/Heirloom_Prelude.thy ===== *)
theory Heirloom_Prelude
  imports Main
begin

section \<open>Prelude: handlers that may fail, their weakest preconditions, checked arithmetic\<close>

text \<open>
  Every entry point of the contracts is a transaction: it reads and writes the ledger, and when
  it panics or returns \<open>Err\<close> the host discards every change it made. A handler is therefore a
  function from the state to either a failure or a result together with the next state.
  This theory holds the combinators the handlers are written with, a weakest-precondition
  calculus for them (the collection \<open>wp_simps\<close>, used by every component proof), symbolic
  execution rules (the collection \<open>exec\<close>, used where a proof needs the failure itself), loops
  over host vectors, and the checked machine arithmetic of a build with
  \<open>overflow-checks = true\<close>.
\<close>

named_theorems wp_simps
named_theorems exec

subsection \<open>The failing state monad\<close>

type_synonym ('e, 's, 'a) act = "'s \<Rightarrow> 'e + ('a \<times> 's)"

definition returnM :: "'a \<Rightarrow> ('e, 's, 'a) act" where
  "returnM x s = Inr (x, s)"

definition bindM :: "('e, 's, 'a) act \<Rightarrow> ('a \<Rightarrow> ('e, 's, 'b) act) \<Rightarrow> ('e, 's, 'b) act" where
  "bindM m f s = (case m s of Inl e \<Rightarrow> Inl e | Inr (x, t) \<Rightarrow> f x t)"

abbreviation thenM :: "('e, 's, 'a) act \<Rightarrow> ('e, 's, 'b) act \<Rightarrow> ('e, 's, 'b) act" where
  "thenM m n \<equiv> bindM m (\<lambda>_. n)"

definition throw :: "'e \<Rightarrow> ('e, 's, 'a) act" where
  "throw e s = Inl e"

definition gets :: "('s \<Rightarrow> 'a) \<Rightarrow> ('e, 's, 'a) act" where
  "gets f s = Inr (f s, s)"

definition modify :: "('s \<Rightarrow> 's) \<Rightarrow> ('e, 's, unit) act" where
  "modify f s = Inr ((), f s)"

text \<open>\<open>guard b e\<close> is the source's \<open>if !b { return Err(e) }\<close> (or the panic with the same error).\<close>

definition guard :: "bool \<Rightarrow> 'e \<Rightarrow> ('e, 's, unit) act" where
  "guard b e s = (if b then Inr ((), s) else Inl e)"

text \<open>\<open>ok_or\<close> is \<open>Option::ok_or\<close> followed by \<open>?\<close>, and \<open>unwrap_or_else\<close> with a panic.\<close>

definition ok_or :: "'a option \<Rightarrow> 'e \<Rightarrow> ('e, 's, 'a) act" where
  "ok_or x e s = (case x of None \<Rightarrow> Inl e | Some v \<Rightarrow> Inr (v, s))"

definition whenM :: "bool \<Rightarrow> ('e, 's, unit) act \<Rightarrow> ('e, 's, unit) act" where
  "whenM b m = (if b then m else returnM ())"

text \<open>A loop over a vector for its effects, and one that threads local variables.\<close>

fun forM :: "'x list \<Rightarrow> ('x \<Rightarrow> ('e, 's, unit) act) \<Rightarrow> ('e, 's, unit) act" where
  "forM [] f = returnM ()"
| "forM (x # xs) f = thenM (f x) (forM xs f)"

fun foldM :: "('x \<Rightarrow> 'a \<Rightarrow> ('e, 's, 'a) act) \<Rightarrow> 'x list \<Rightarrow> 'a \<Rightarrow> ('e, 's, 'a) act" where
  "foldM f [] a = returnM a"
| "foldM f (x # xs) a = bindM (f x a) (foldM f xs)"

subsection \<open>Weakest preconditions\<close>

text \<open>
  \<open>wp m Q s\<close>: if \<open>m\<close> commits from \<open>s\<close>, then its result and next state satisfy \<open>Q\<close>. A
  failing transaction leaves the ledger as it was, so it satisfies every \<open>wp\<close>; that a handler
  does commit is stated separately, as an equation or with \<open>commits\<close>.
\<close>

definition wp :: "('e, 's, 'a) act \<Rightarrow> ('a \<Rightarrow> 's \<Rightarrow> bool) \<Rightarrow> 's \<Rightarrow> bool" where
  "wp m Q s = (case m s of Inl e \<Rightarrow> True | Inr (x, t) \<Rightarrow> Q x t)"

definition commits :: "('e, 's, 'a) act \<Rightarrow> 's \<Rightarrow> bool" where
  "commits m s = (case m s of Inl e \<Rightarrow> False | Inr r \<Rightarrow> True)"

text \<open>The ledger after a transaction: unchanged when it failed.\<close>

definition after :: "('e, 's, 'a) act \<Rightarrow> 's \<Rightarrow> 's" where
  "after m s = (case m s of Inl e \<Rightarrow> s | Inr (x, t) \<Rightarrow> t)"

lemma wpD: "wp m Q s \<Longrightarrow> m s = Inr (x, t) \<Longrightarrow> Q x t"
  by (simp add: wp_def)

lemma wpI: "(\<And>x t. m s = Inr (x, t) \<Longrightarrow> Q x t) \<Longrightarrow> wp m Q s"
  by (auto simp: wp_def split: sum.splits)

lemma wp_mono: "wp m Q s \<Longrightarrow> (\<And>x t. Q x t \<Longrightarrow> R x t) \<Longrightarrow> wp m R s"
  by (auto simp: wp_def split: sum.splits)

lemma wp_after: "wp m (\<lambda>_. P) s \<Longrightarrow> P s \<Longrightarrow> P (after m s)"
  by (auto simp: wp_def after_def split: sum.splits)

lemma wp_conj: "wp m (\<lambda>x t. Q x t \<and> R x t) s \<longleftrightarrow> wp m Q s \<and> wp m R s"
  by (auto simp: wp_def split: sum.splits)

lemma wp_True [wp_simps, simp]: "wp m (\<lambda>_ _. True) s"
  by (auto simp: wp_def split: sum.splits)

lemma wp_returnM [wp_simps]: "wp (returnM x) Q s = Q x s"
  by (simp add: wp_def returnM_def)

lemma wp_bindM [wp_simps]: "wp (bindM m f) Q s = wp m (\<lambda>x. wp (f x) Q) s"
  by (auto simp: wp_def bindM_def split: sum.splits)

lemma wp_throw [wp_simps]: "wp (throw e) Q s"
  by (simp add: wp_def throw_def)

lemma wp_gets [wp_simps]: "wp (gets f) Q s = Q (f s) s"
  by (simp add: wp_def gets_def)

lemma wp_modify [wp_simps]: "wp (modify f) Q s = Q () (f s)"
  by (simp add: wp_def modify_def)

lemma wp_guard [wp_simps]: "wp (guard b e) Q s = (b \<longrightarrow> Q () s)"
  by (simp add: wp_def guard_def)

lemma wp_ok_or [wp_simps]: "wp (ok_or x e) Q s = (\<forall>v. x = Some v \<longrightarrow> Q v s)"
  by (simp add: wp_def ok_or_def split: option.splits)

lemma wp_whenM [wp_simps]: "wp (whenM b m) Q s = (if b then wp m Q s else Q () s)"
  by (simp add: whenM_def wp_returnM)

lemma wp_if [wp_simps]:
  "wp (if b then m else n) Q s = (if b then wp m Q s else wp n Q s)"
  by simp

lemma wp_case_option [wp_simps]:
  "wp (case x of None \<Rightarrow> m | Some v \<Rightarrow> f v) Q s =
     ((x = None \<longrightarrow> wp m Q s) \<and> (\<forall>v. x = Some v \<longrightarrow> wp (f v) Q s))"
  by (simp split: option.splits)

lemma wp_Let [wp_simps]: "wp (let x = v in f x) Q s = wp (f v) Q s"
  by (simp add: Let_def)

lemma wp_case_prod [wp_simps]:
  "wp (case p of (a, b) \<Rightarrow> f a b) Q s = wp (f (fst p) (snd p)) Q s"
  by (simp split: prod.splits)

text \<open>Loops by an invariant on the ledger (and, for \<open>foldM\<close>, on the local variables).\<close>

lemma wp_forM:
  assumes "I s" and "\<And>x t. x \<in> set xs \<Longrightarrow> I t \<Longrightarrow> wp (f x) (\<lambda>_. I) t"
  shows "wp (forM xs f) (\<lambda>_. I) s"
  using assms
proof (induction xs arbitrary: s)
  case Nil
  then show ?case by (simp add: wp_returnM)
next
  case (Cons x xs)
  have "wp (f x) (\<lambda>_. I) s" using Cons.prems by simp
  then have "wp (f x) (\<lambda>_. wp (forM xs f) (\<lambda>_. I)) s"
    by (rule wp_mono) (use Cons in simp)
  then show ?case by (simp add: wp_bindM)
qed

lemma wp_foldM:
  assumes "I a s" and "\<And>x b t. x \<in> set xs \<Longrightarrow> I b t \<Longrightarrow> wp (f x b) I t"
  shows "wp (foldM f xs a) I s"
  using assms
proof (induction xs arbitrary: a s)
  case Nil
  then show ?case by (simp add: wp_returnM)
next
  case (Cons x xs)
  have "wp (f x a) I s" using Cons.prems by simp
  then have "wp (f x a) (\<lambda>b. wp (foldM f xs b) I) s"
    by (rule wp_mono) (use Cons in simp)
  then show ?case by (simp add: wp_bindM)
qed

lemma wp_forM_pre:
  assumes "I s" and "\<And>x t. x \<in> set xs \<Longrightarrow> I t \<Longrightarrow> wp (f x) (\<lambda>_. I) t"
    and "\<And>t. I t \<Longrightarrow> Q () t"
  shows "wp (forM xs f) Q s"
proof (rule wp_mono [where Q = "\<lambda>_. I"])
  show "wp (forM xs f) (\<lambda>_. I) s" by (rule wp_forM) (fact assms)+
qed (use assms(3) in simp)

lemma wp_foldM_pre:
  assumes "I a s" and "\<And>x b t. x \<in> set xs \<Longrightarrow> I b t \<Longrightarrow> wp (f x b) I t"
    and "\<And>b t. I b t \<Longrightarrow> Q b t"
  shows "wp (foldM f xs a) Q s"
proof (rule wp_mono [where Q = I])
  show "wp (foldM f xs a) I s" by (rule wp_foldM) (fact assms)+
qed (rule assms(3))

subsection \<open>Total correctness\<close>

text \<open>
  \<open>runs m Q s\<close>: \<open>m\<close> commits from \<open>s\<close> and its result and next state satisfy \<open>Q\<close>. The rules in
  \<open>run_simps\<close> execute a handler symbolically; the properties that say that a call succeeds, and
  the concrete runs, are proved with them.
\<close>

named_theorems run_simps

definition runs :: "('e, 's, 'a) act \<Rightarrow> ('a \<Rightarrow> 's \<Rightarrow> bool) \<Rightarrow> 's \<Rightarrow> bool" where
  "runs m Q s = (case m s of Inl e \<Rightarrow> False | Inr (x, t) \<Rightarrow> Q x t)"

lemma runs_iff: "runs m Q s \<longleftrightarrow> commits m s \<and> wp m Q s"
  by (simp add: runs_def commits_def wp_def split: sum.splits)

lemma runs_value:
  assumes "runs m (\<lambda>x t. x = y \<and> P t) s"
  shows "m s = Inr (y, after m s)" "P (after m s)"
  using assms by (auto simp: runs_def after_def split: sum.splits)

lemma runs_after: "runs m (\<lambda>_. P) s \<Longrightarrow> P (after m s)"
  by (auto simp: runs_def after_def split: sum.splits)

lemma runsE: "runs m Q s \<Longrightarrow> (\<And>x t. m s = Inr (x, t) \<Longrightarrow> Q x t \<Longrightarrow> thesis) \<Longrightarrow> thesis"
  by (auto simp: runs_def split: sum.splits)

lemma runs_mono: "runs m Q s \<Longrightarrow> (\<And>x t. Q x t \<Longrightarrow> R x t) \<Longrightarrow> runs m R s"
  by (auto simp: runs_def split: sum.splits)

lemma runs_returnM [run_simps]: "runs (returnM x) Q s = Q x s"
  by (simp add: runs_def returnM_def)

lemma runs_bindM [run_simps]: "runs (bindM m f) Q s = runs m (\<lambda>x. runs (f x) Q) s"
  by (auto simp: runs_def bindM_def split: sum.splits)

lemma runs_throw [run_simps]: "runs (throw e) Q s = False"
  by (simp add: runs_def throw_def)

lemma runs_gets [run_simps]: "runs (gets f) Q s = Q (f s) s"
  by (simp add: runs_def gets_def)

lemma runs_modify [run_simps]: "runs (modify f) Q s = Q () (f s)"
  by (simp add: runs_def modify_def)

lemma runs_guard [run_simps]: "runs (guard b e) Q s = (b \<and> Q () s)"
  by (simp add: runs_def guard_def)

lemma runs_ok_or [run_simps]: "runs (ok_or x e) Q s = (\<exists>v. x = Some v \<and> Q v s)"
  by (simp add: runs_def ok_or_def split: option.splits)

lemma runs_whenM [run_simps]: "runs (whenM b m) Q s = (if b then runs m Q s else Q () s)"
  by (simp add: whenM_def runs_returnM)

lemma runs_if [run_simps]: "runs (if b then m else n) Q s = (if b then runs m Q s else runs n Q s)"
  by simp

lemma runs_case_option [run_simps]:
  "runs (case x of None \<Rightarrow> m | Some v \<Rightarrow> f v) Q s =
     (case x of None \<Rightarrow> runs m Q s | Some v \<Rightarrow> runs (f v) Q s)"
  by (simp split: option.splits)

lemma runs_Let [run_simps]: "runs (let x = v in f x) Q s = runs (f v) Q s"
  by (simp add: Let_def)

lemma runs_case_prod [run_simps]:
  "runs (case p of (a, b) \<Rightarrow> f a b) Q s = runs (f (fst p) (snd p)) Q s"
  by (simp split: prod.splits)

subsection \<open>Frames\<close>

text \<open>
  \<open>keeps f m\<close>: whenever \<open>m\<close> commits, the part \<open>f\<close> of the state is what it was. Logging,
  events and rent extension keep the accounts; a frame fact becomes a \<open>wp\<close> rule by \<open>wp_keeps\<close>.
\<close>

named_theorems frame

definition keeps :: "('s \<Rightarrow> 'v) \<Rightarrow> ('e, 's, 'a) act \<Rightarrow> bool" where
  "keeps f m \<longleftrightarrow> (\<forall>s x t. m s = Inr (x, t) \<longrightarrow> f t = f s)"

lemma wp_keeps: "keeps f m \<Longrightarrow> (\<And>x t. f t = f s \<Longrightarrow> Q x t) \<Longrightarrow> wp m Q s"
  by (auto simp: keeps_def intro: wpI)

lemma keeps_wpI: "(\<And>s. wp m (\<lambda>_ t. f t = f s) s) \<Longrightarrow> keeps f m"
  by (auto simp: keeps_def dest: wpD)

lemma keeps_returnM [frame]: "keeps f (returnM x)"
  by (simp add: keeps_def returnM_def)

lemma keeps_throw [frame]: "keeps f (throw e)"
  by (simp add: keeps_def throw_def)

lemma keeps_gets [frame]: "keeps f (gets g)"
  by (simp add: keeps_def gets_def)

lemma keeps_guard [frame]: "keeps f (guard b e)"
  by (simp add: keeps_def guard_def)

lemma keeps_ok_or [frame]: "keeps f (ok_or x e)"
  by (simp add: keeps_def ok_or_def split: option.splits)

lemma keeps_modify: "(\<And>s. f (g s) = f s) \<Longrightarrow> keeps f (modify g)"
  by (simp add: keeps_def modify_def)

lemma keeps_bindM [frame]: "keeps f m \<Longrightarrow> (\<And>x. keeps f (g x)) \<Longrightarrow> keeps f (bindM m g)"
  unfolding keeps_def bindM_def by (fastforce split: sum.splits)

lemma keeps_if [frame]: "keeps f m \<Longrightarrow> keeps f n \<Longrightarrow> keeps f (if b then m else n)"
  by simp

lemma keeps_whenM [frame]: "keeps f m \<Longrightarrow> keeps f (whenM b m)"
  by (simp add: whenM_def keeps_returnM)

lemma keeps_case_option [frame]:
  "keeps f m \<Longrightarrow> (\<And>v. keeps f (g v)) \<Longrightarrow> keeps f (case x of None \<Rightarrow> m | Some v \<Rightarrow> g v)"
  by (simp split: option.splits)

lemma keeps_case_prod [frame]:
  "(\<And>a b. keeps f (g a b)) \<Longrightarrow> keeps f (case p of (a, b) \<Rightarrow> g a b)"
  by (simp split: prod.splits)

lemma keeps_Let [frame]: "(\<And>x. keeps f (g x)) \<Longrightarrow> keeps f (let x = v in g x)"
  by simp

lemma keeps_forM [frame]: "(\<And>x. keeps f (g x)) \<Longrightarrow> keeps f (forM xs g)"
  by (induction xs) (auto intro: frame)

lemma keeps_foldM [frame]: "(\<And>x a. keeps f (g x a)) \<Longrightarrow> keeps f (foldM g xs a)"
  by (induction xs arbitrary: a) (auto intro: frame)

subsection \<open>Symbolic execution\<close>

lemma exec_return [exec]: "returnM x s = Inr (x, s)"
  by (simp add: returnM_def)

lemma exec_throw [exec]: "throw e s = Inl e" "bindM (throw e) f s = Inl e"
  by (simp_all add: throw_def bindM_def)

lemma exec_bind_return [exec]: "bindM (returnM x) f s = f x s"
  by (simp add: bindM_def returnM_def)

lemma exec_bind_assoc [exec]: "bindM (bindM m f) g s = bindM m (\<lambda>x. bindM (f x) g) s"
  by (simp add: bindM_def split: sum.splits)

lemma exec_gets [exec]: "gets g s = Inr (g s, s)" "bindM (gets g) f s = f (g s) s"
  by (simp_all add: gets_def bindM_def)

lemma exec_modify [exec]: "modify g s = Inr ((), g s)" "bindM (modify g) f s = f () (g s)"
  by (simp_all add: modify_def bindM_def)

lemma exec_guard [exec]:
  "guard b e s = (if b then Inr ((), s) else Inl e)"
  "bindM (guard b e) f s = (if b then f () s else Inl e)"
  by (simp_all add: guard_def bindM_def)

lemma exec_ok_or [exec]:
  "ok_or x e s = (case x of None \<Rightarrow> Inl e | Some v \<Rightarrow> Inr (v, s))"
  "bindM (ok_or x e) f s = (case x of None \<Rightarrow> Inl e | Some v \<Rightarrow> f v s)"
  by (simp_all add: ok_or_def bindM_def split: option.splits)

lemma exec_if [exec]:
  "bindM (if b then m else n) f s = (if b then bindM m f s else bindM n f s)"
  by simp

lemma exec_when [exec]:
  "whenM b m s = (if b then m s else Inr ((), s))"
  "bindM (whenM b m) f s = (if b then bindM m f s else f () s)"
  by (simp_all add: whenM_def bindM_def returnM_def)

lemma exec_case_option [exec]:
  "bindM (case x of None \<Rightarrow> m | Some v \<Rightarrow> g v) f s =
     (case x of None \<Rightarrow> bindM m f s | Some v \<Rightarrow> bindM (g v) f s)"
  by (simp split: option.splits)

lemma exec_Let [exec]: "bindM (let x = v in g x) f s = bindM (g v) f s"
  by (simp add: Let_def)

lemma exec_forM [exec]:
  "bindM (forM [] g) f s = f () s"
  "bindM (forM (x # xs) g) f s = bindM (g x) (\<lambda>_. bindM (forM xs g) f) s"
  by (simp_all add: bindM_def returnM_def split: sum.splits)

lemma exec_foldM [exec]:
  "bindM (foldM g [] a) f s = f a s"
  "bindM (foldM g (x # xs) a) f s = bindM (g x a) (\<lambda>b. bindM (foldM g xs b) f) s"
  by (simp_all add: bindM_def returnM_def split: sum.splits)

subsection \<open>Machine integers of the contracts\<close>

text \<open>
  \<open>u32\<close> and \<open>u64\<close> values are natural numbers and \<open>i128\<close> values integers; the width is enforced
  where the code computes. The release profile keeps \<open>overflow-checks\<close> on, so \<open>+\<close>, \<open>-\<close> and
  \<open>*\<close> trap instead of wrapping; \<open>/\<close> truncates towards zero and traps on zero.
\<close>

abbreviation (input) U32_MAX :: nat where "U32_MAX \<equiv> 4294967295"
abbreviation (input) U64_MAX :: nat where "U64_MAX \<equiv> 18446744073709551615"
abbreviation (input) I128_MAX :: int where "I128_MAX \<equiv> 170141183460469231731687303715884105727"
abbreviation (input) I128_MIN :: int where "I128_MIN \<equiv> -170141183460469231731687303715884105728"

definition in_i128 :: "int \<Rightarrow> bool" where
  "in_i128 x \<longleftrightarrow> I128_MIN \<le> x \<and> x \<le> I128_MAX"

definition checked_add_i :: "int \<Rightarrow> int \<Rightarrow> int option" where
  "checked_add_i a b = (if in_i128 (a + b) then Some (a + b) else None)"

definition checked_mul_i :: "int \<Rightarrow> int \<Rightarrow> int option" where
  "checked_mul_i a b = (if in_i128 (a * b) then Some (a * b) else None)"

text \<open>Rust's integer division: the quotient is rounded towards zero.\<close>

definition tdiv :: "int \<Rightarrow> int \<Rightarrow> int" where
  "tdiv a b = sgn a * sgn b * (\<bar>a\<bar> div \<bar>b\<bar>)"

definition sat_mul :: "nat \<Rightarrow> nat \<Rightarrow> nat \<Rightarrow> nat" where
  "sat_mul mx a b = min mx (a * b)"

definition sat_add :: "nat \<Rightarrow> nat \<Rightarrow> nat \<Rightarrow> nat" where
  "sat_add mx a b = min mx (a + b)"

lemma tdiv_nonneg: "0 \<le> a \<Longrightarrow> 0 < b \<Longrightarrow> tdiv a b = a div b"
  by (cases "a = 0") (simp_all add: tdiv_def)

lemma tdiv_nonneg_ge: "0 \<le> a \<Longrightarrow> 0 < b \<Longrightarrow> 0 \<le> tdiv a b"
  by (simp add: tdiv_nonneg pos_imp_zdiv_nonneg_iff)

lemma tdiv_mult_le: "0 \<le> a \<Longrightarrow> 0 < b \<Longrightarrow> tdiv a b * b \<le> a"
  by (simp add: tdiv_nonneg) (metis minus_mod_eq_div_mult pos_mod_sign diff_left_mono diff_zero)

text \<open>A proportional share \<open>a * p / q\<close> with \<open>p \<le> q\<close> never exceeds the whole.\<close>

lemma tdiv_share_le:
  assumes "0 \<le> a" "0 \<le> p" "p \<le> q" "0 < q"
  shows "tdiv (a * p) q \<le> a"
proof -
  have "a * p \<le> a * q" using assms by (simp add: mult_left_mono)
  then have "(a * p) div q \<le> (a * q) div q" using assms(4) by (rule zdiv_mono1)
  also have "\<dots> = a" using assms(4) by simp
  finally show ?thesis using assms by (simp add: tdiv_nonneg)
qed

end
