(* ===== verification/Vault_Types.thy ===== *)
theory Vault_Types
  imports Heirloom_Prelude "HOL-Library.Word"
begin

section \<open>Data model of the vault contract\<close>

text \<open>
  The data of \<open>ttl_vault/src/types.rs\<close>: every \<open>contracttype\<close> struct a handler of the model
  reads or writes is a record with the fields of the source, every enum a datatype. The
  contract's storage is the record \<open>world\<close>: one map per family of \<open>DataKey\<close>, grouped by the
  part of the contract that owns it, plus the token contracts' state, the published events and
  the log of \<open>extend_ttl\<close> requests (the host's rent bookkeeping, which no handler reads).
  What a handler takes from the host is the record \<open>env\<close>: the ledger's clock and sequence
  number, who authorised the invocation, the contract's own address, and the code outside the
  repository (token contracts, release oracles, SHA-256) as function-valued parameters.
\<close>

subsection \<open>Host types\<close>

type_synonym address = nat
type_synonym byte = nat
type_synonym bytes = "byte list"

subsection \<open>Errors\<close>

text \<open>The error enum is \<open>#[repr(u32)]\<close>: an error is its code, named as in the source.\<close>

datatype contract_error = ContractError nat

abbreviation AlreadyInitialized :: contract_error where "AlreadyInitialized \<equiv> ContractError 1"
abbreviation InvalidInterval :: contract_error where "InvalidInterval \<equiv> ContractError 2"
abbreviation VaultNotFound :: contract_error where "VaultNotFound \<equiv> ContractError 3"
abbreviation EmptyVault :: contract_error where "EmptyVault \<equiv> ContractError 4"
abbreviation InvalidAmount :: contract_error where "InvalidAmount \<equiv> ContractError 5"
abbreviation NotOwner :: contract_error where "NotOwner \<equiv> ContractError 6"
abbreviation AlreadyReleased :: contract_error where "AlreadyReleased \<equiv> ContractError 7"
abbreviation InsufficientBalance :: contract_error where "InsufficientBalance \<equiv> ContractError 8"
abbreviation NotAdmin :: contract_error where "NotAdmin \<equiv> ContractError 9"
abbreviation Paused :: contract_error where "Paused \<equiv> ContractError 10"
abbreviation NoPendingAdmin :: contract_error where "NoPendingAdmin \<equiv> ContractError 11"
abbreviation InvalidBps :: contract_error where "InvalidBps \<equiv> ContractError 12"
abbreviation NotExpiringSoon :: contract_error where "NotExpiringSoon \<equiv> ContractError 13"
abbreviation IntervalTooLow :: contract_error where "IntervalTooLow \<equiv> ContractError 14"
abbreviation IntervalTooHigh :: contract_error where "IntervalTooHigh \<equiv> ContractError 15"
abbreviation NotExpired :: contract_error where "NotExpired \<equiv> ContractError 16"
abbreviation InvalidBeneficiary :: contract_error where "InvalidBeneficiary \<equiv> ContractError 17"
abbreviation BalanceOverflow :: contract_error where "BalanceOverflow \<equiv> ContractError 18"
abbreviation VaultExpired :: contract_error where "VaultExpired \<equiv> ContractError 19"
abbreviation InvalidAdmin :: contract_error where "InvalidAdmin \<equiv> ContractError 20"
abbreviation NotInitialized :: contract_error where "NotInitialized \<equiv> ContractError 21"
abbreviation VestingNotFound :: contract_error where "VestingNotFound \<equiv> ContractError 22"
abbreviation NothingToClaimYet :: contract_error where "NothingToClaimYet \<equiv> ContractError 23"
abbreviation VestingAlreadyComplete :: contract_error where "VestingAlreadyComplete \<equiv> ContractError 24"
abbreviation MaxTtlExceeded :: contract_error where "MaxTtlExceeded \<equiv> ContractError 25"
abbreviation InvalidPasskey :: contract_error where "InvalidPasskey \<equiv> ContractError 26"
abbreviation PasskeyNotFound :: contract_error where "PasskeyNotFound \<equiv> ContractError 27"
abbreviation InvalidBackupCode :: contract_error where "InvalidBackupCode \<equiv> ContractError 28"
abbreviation BackupCodeAlreadyUsed :: contract_error where "BackupCodeAlreadyUsed \<equiv> ContractError 29"
abbreviation NotBeneficiary :: contract_error where "NotBeneficiary \<equiv> ContractError 30"
abbreviation DisputeFiled :: contract_error where "DisputeFiled \<equiv> ContractError 31"
abbreviation NoScheduledWithdrawals :: contract_error where "NoScheduledWithdrawals \<equiv> ContractError 32"
abbreviation ConditionsNotApproved :: contract_error where "ConditionsNotApproved \<equiv> ContractError 33"
abbreviation NoPendingOwnershipTransfer :: contract_error where "NoPendingOwnershipTransfer \<equiv> ContractError 34"
abbreviation OwnershipTransferExpired :: contract_error where "OwnershipTransferExpired \<equiv> ContractError 35"
abbreviation OwnershipTransferTimeLocked :: contract_error where "OwnershipTransferTimeLocked \<equiv> ContractError 36"
abbreviation UpgradeInvalidHash :: contract_error where "UpgradeInvalidHash \<equiv> ContractError 37"
abbreviation DepositLimitExceeded :: contract_error where "DepositLimitExceeded \<equiv> ContractError 38"
abbreviation WithdrawalNotApproved :: contract_error where "WithdrawalNotApproved \<equiv> ContractError 39"
abbreviation NotRecoveryContact :: contract_error where "NotRecoveryContact \<equiv> ContractError 40"
abbreviation InvalidThreshold :: contract_error where "InvalidThreshold \<equiv> ContractError 41"
abbreviation MultiSigRequired :: contract_error where "MultiSigRequired \<equiv> ContractError 42"
abbreviation NotASigner :: contract_error where "NotASigner \<equiv> ContractError 43"
abbreviation ProposalNotFound :: contract_error where "ProposalNotFound \<equiv> ContractError 44"
abbreviation ProposalExpired :: contract_error where "ProposalExpired \<equiv> ContractError 45"
abbreviation AlreadyApproved :: contract_error where "AlreadyApproved \<equiv> ContractError 46"
abbreviation ProposalNotApproved :: contract_error where "ProposalNotApproved \<equiv> ContractError 47"
abbreviation MetadataVersionNotFound :: contract_error where "MetadataVersionNotFound \<equiv> ContractError 48"
abbreviation VaultCapacityExceeded :: contract_error where "VaultCapacityExceeded \<equiv> ContractError 49"
abbreviation IncompatibleVaultToken :: contract_error where "IncompatibleVaultToken \<equiv> ContractError 50"
abbreviation ProofOfLifeRequired :: contract_error where "ProofOfLifeRequired \<equiv> ContractError 51"
abbreviation ProofOfLifeExpired :: contract_error where "ProofOfLifeExpired \<equiv> ContractError 52"
abbreviation AlreadyVoted :: contract_error where "AlreadyVoted \<equiv> ContractError 53"
abbreviation VotingNotEnabled :: contract_error where "VotingNotEnabled \<equiv> ContractError 54"
abbreviation AlreadyHibernating :: contract_error where "AlreadyHibernating \<equiv> ContractError 55"
abbreviation NotHibernating :: contract_error where "NotHibernating \<equiv> ContractError 56"
abbreviation DuplicateVault :: contract_error where "DuplicateVault \<equiv> ContractError 57"
abbreviation CheckInTooFrequent :: contract_error where "CheckInTooFrequent \<equiv> ContractError 58"
abbreviation VaultFrozen :: contract_error where "VaultFrozen \<equiv> ContractError 59"
abbreviation CliffNotReached :: contract_error where "CliffNotReached \<equiv> ContractError 60"
abbreviation InsufficientTtlToAccelerate :: contract_error where "InsufficientTtlToAccelerate \<equiv> ContractError 61"
abbreviation TtlBorrowNotFound :: contract_error where "TtlBorrowNotFound \<equiv> ContractError 62"
abbreviation TtlBorrowAlreadyRepaid :: contract_error where "TtlBorrowAlreadyRepaid \<equiv> ContractError 63"
abbreviation OverlappingWithdrawalSchedule :: contract_error where "OverlappingWithdrawalSchedule \<equiv> ContractError 64"
abbreviation ConflictingWithdrawalSchedule :: contract_error where "ConflictingWithdrawalSchedule \<equiv> ContractError 65"
abbreviation DailyWithdrawalLimitExceeded :: contract_error where "DailyWithdrawalLimitExceeded \<equiv> ContractError 66"
abbreviation WeeklyWithdrawalLimitExceeded :: contract_error where "WeeklyWithdrawalLimitExceeded \<equiv> ContractError 67"
abbreviation MonthlyWithdrawalLimitExceeded :: contract_error where "MonthlyWithdrawalLimitExceeded \<equiv> ContractError 68"
abbreviation WithdrawalDestinationNotWhitelisted :: contract_error where "WithdrawalDestinationNotWhitelisted \<equiv> ContractError 69"
abbreviation WithdrawalReversalGracePeriodExpired :: contract_error where "WithdrawalReversalGracePeriodExpired \<equiv> ContractError 70"
abbreviation WithdrawalAlreadyReversed :: contract_error where "WithdrawalAlreadyReversed \<equiv> ContractError 71"
abbreviation CatchUpNotEnabled :: contract_error where "CatchUpNotEnabled \<equiv> ContractError 72"
abbreviation BonusNotEnabled :: contract_error where "BonusNotEnabled \<equiv> ContractError 73"
abbreviation TokenNotWhitelisted :: contract_error where "TokenNotWhitelisted \<equiv> ContractError 74"
abbreviation NotReleased :: contract_error where "NotReleased \<equiv> ContractError 75"
abbreviation GracePeriodExpired :: contract_error where "GracePeriodExpired \<equiv> ContractError 76"
abbreviation NothingToClawback :: contract_error where "NothingToClawback \<equiv> ContractError 77"
abbreviation AuctionNotFound :: contract_error where "AuctionNotFound \<equiv> ContractError 78"
abbreviation AuctionAlreadyExists :: contract_error where "AuctionAlreadyExists \<equiv> ContractError 79"
abbreviation AuctionEnded :: contract_error where "AuctionEnded \<equiv> ContractError 80"
abbreviation AuctionNotEnded :: contract_error where "AuctionNotEnded \<equiv> ContractError 81"
abbreviation InvalidVestingSchedule :: contract_error where "InvalidVestingSchedule \<equiv> ContractError 82"
abbreviation InvalidNonce :: contract_error where "InvalidNonce \<equiv> ContractError 83"
abbreviation AdminCannotOwnVault :: contract_error where "AdminCannotOwnVault \<equiv> ContractError 84"
abbreviation AdminTransferTimeLocked :: contract_error where "AdminTransferTimeLocked \<equiv> ContractError 85"
abbreviation AlreadyOwner :: contract_error where "AlreadyOwner \<equiv> ContractError 86"
abbreviation BeneficiaryAlreadyRevealed :: contract_error where "BeneficiaryAlreadyRevealed \<equiv> ContractError 87"
abbreviation BeneficiaryCapacityExceeded :: contract_error where "BeneficiaryCapacityExceeded \<equiv> ContractError 88"
abbreviation BeneficiaryVetoReleaseCondition :: contract_error where "BeneficiaryVetoReleaseCondition \<equiv> ContractError 89"
abbreviation CommitmentAlreadySet :: contract_error where "CommitmentAlreadySet \<equiv> ContractError 90"
abbreviation CommitmentNotFound :: contract_error where "CommitmentNotFound \<equiv> ContractError 91"
abbreviation GracePeriodActive :: contract_error where "GracePeriodActive \<equiv> ContractError 92"
abbreviation InvalidConfig :: contract_error where "InvalidConfig \<equiv> ContractError 93"
abbreviation InvalidMetadataEncoding :: contract_error where "InvalidMetadataEncoding \<equiv> ContractError 94"
abbreviation InvalidRecoveryCode :: contract_error where "InvalidRecoveryCode \<equiv> ContractError 95"
abbreviation InvalidWithdrawDestination :: contract_error where "InvalidWithdrawDestination \<equiv> ContractError 96"
abbreviation InvalidZkProof :: contract_error where "InvalidZkProof \<equiv> ContractError 97"
abbreviation NoPendingProtocolConfig :: contract_error where "NoPendingProtocolConfig \<equiv> ContractError 98"
abbreviation PasskeyCompromised :: contract_error where "PasskeyCompromised \<equiv> ContractError 99"
abbreviation PasskeyExpired :: contract_error where "PasskeyExpired \<equiv> ContractError 100"
abbreviation ProtocolConfigTimeLocked :: contract_error where "ProtocolConfigTimeLocked \<equiv> ContractError 101"
abbreviation RecoveryCodeNotSet :: contract_error where "RecoveryCodeNotSet \<equiv> ContractError 102"
abbreviation SnapshotNotFound :: contract_error where "SnapshotNotFound \<equiv> ContractError 103"
abbreviation TwoFactorNotEnabled :: contract_error where "TwoFactorNotEnabled \<equiv> ContractError 104"
abbreviation UnauthorizedDepositor :: contract_error where "UnauthorizedDepositor \<equiv> ContractError 105"
abbreviation VestingAlreadyAccelerated :: contract_error where "VestingAlreadyAccelerated \<equiv> ContractError 106"
abbreviation VestingReversalExpired :: contract_error where "VestingReversalExpired \<equiv> ContractError 107"
abbreviation VestingReversalNotFound :: contract_error where "VestingReversalNotFound \<equiv> ContractError 108"
abbreviation VestingStaggerNotFound :: contract_error where "VestingStaggerNotFound \<equiv> ContractError 109"
abbreviation InvalidPercentage :: contract_error where "InvalidPercentage \<equiv> ContractError 110"
abbreviation LiquidationExceedsLimit :: contract_error where "LiquidationExceedsLimit \<equiv> ContractError 111"
abbreviation AlreadyInEscrow :: contract_error where "AlreadyInEscrow \<equiv> ContractError 112"
abbreviation PasskeyInEscrow :: contract_error where "PasskeyInEscrow \<equiv> ContractError 113"
abbreviation RuleNotFound :: contract_error where "RuleNotFound \<equiv> ContractError 114"
abbreviation InvalidCredentialState :: contract_error where "InvalidCredentialState \<equiv> ContractError 115"
abbreviation InvalidStateTransition :: contract_error where "InvalidStateTransition \<equiv> ContractError 116"
abbreviation InvalidSlice :: contract_error where "InvalidSlice \<equiv> ContractError 117"
abbreviation FailoverAlreadyActive :: contract_error where "FailoverAlreadyActive \<equiv> ContractError 118"
abbreviation AnchorAlreadyExists :: contract_error where "AnchorAlreadyExists \<equiv> ContractError 120"
abbreviation AnchorNotFound :: contract_error where "AnchorNotFound \<equiv> ContractError 121"
abbreviation InvalidExternalId :: contract_error where "InvalidExternalId \<equiv> ContractError 122"
abbreviation InvalidAnchorSystem :: contract_error where "InvalidAnchorSystem \<equiv> ContractError 123"
abbreviation TemplateNotFound :: contract_error where "TemplateNotFound \<equiv> ContractError 124"
abbreviation InheritanceCycleDetected :: contract_error where "InheritanceCycleDetected \<equiv> ContractError 125"
abbreviation InsufficientQuorum :: contract_error where "InsufficientQuorum \<equiv> ContractError 126"

text \<open>
  A transaction fails with a contract error (\<open>Err(..)\<close> or \<open>panic_with_error!\<close>, which the host
  treats alike at the entry point), or traps: a missing authorisation, an arithmetic overflow
  or division by zero, a failing token transfer, or a host error (\<open>unwrap\<close>, \<open>expect\<close>, index
  out of range).
\<close>

datatype failure = Err contract_error | AuthTrap | OverflowTrap | DivTrap | TokenTrap | HostTrap

subsection \<open>Enumerations\<close>

datatype ReleaseStatus = Locked | Released | Cancelled | EmergencyFrozen

datatype ReleaseCondition = TTLExpiry | OwnerInitiated | Oracle address

datatype BeneficiaryStatus = Pending | Accepted | Declined

datatype ReleaseTrigger = Expiry | Manual

subsection \<open>Structs\<close>

record BeneficiaryEntry =
  be_address :: address
  be_bps :: nat
  be_minimum_threshold :: int

record Vault =
  v_owner :: address
  v_beneficiary :: address
  v_balance :: int
  v_check_in_interval :: nat
  v_last_check_in :: nat
  v_created_at :: nat
  v_status :: ReleaseStatus
  v_beneficiaries :: "BeneficiaryEntry list"
  v_metadata :: string
  v_token_address :: address
  v_custom_metadata :: bytes
  v_is_paused :: bool
  v_release_condition :: ReleaseCondition
  v_parent_vault_id :: "nat option"
  v_passkey_hash :: "bytes option"
  v_max_deposit_amount :: "int option"
  v_withdrawal_approval_threshold :: "int option"
  v_spending_limit :: "int option"
  v_inactivity_penalty_bps :: "nat option"
  v_burn_percentage :: nat
  v_penalty_recipient :: "address option"

record AuditEntry =
  ae_action :: string
  ae_caller :: address
  ae_timestamp :: nat
  ae_operation :: string
  ae_actor :: address
  ae_details :: string

record StateTransitionEntry =
  ste_from_status :: ReleaseStatus
  ste_to_status :: ReleaseStatus
  ste_actor :: address
  ste_timestamp :: nat

record CheckInHistoryEntry =
  ci_timestamp :: nat

record CheckInStreak =
  cs_current :: nat
  cs_best :: nat
  cs_last_timestamp :: nat

record PauseRecord =
  pr_paused_by :: address
  pr_reason :: bytes
  pr_paused_at :: nat

record ProtocolConfig =
  pc_min_check_in_interval :: "nat option"
  pc_max_check_in_interval :: "nat option"
  pc_max_ttl_seconds :: nat
  pc_ttl_decay_rate :: nat
  pc_require_utf8_metadata :: bool
  pc_max_vaults_per_owner :: nat

record BridgeConfig =
  bc_chain_id :: nat
  bc_bridge_address :: address
  bc_is_active :: bool

record PasskeyHash =
  pk_hash :: bytes
  pk_added_at :: nat
  pk_biometric_hash :: "bytes option"

record PasskeyDelegation =
  pd_delegate :: address
  pd_expires_at :: nat

record PasskeyEscrowRecord =
  pe_recovery_contact :: address
  pe_escrowed_at :: nat

record BackupCode =
  bk_code :: string
  bk_used :: bool

record PasskeyUsageEntry =
  pu_passkey_hash :: bytes
  pu_timestamp :: nat

record PasskeyAuditEntry =
  pa_operation :: string
  pa_actor :: address
  pa_passkey_hash :: bytes
  pa_timestamp :: nat

record WithdrawalAuditEntry =
  wa_vault_id :: nat
  wa_caller :: address
  wa_amount :: int
  wa_timestamp :: nat
  wa_success :: bool
  wa_error_reason :: string

record WithdrawalProof =
  wp_vault_id :: nat
  wp_amount :: int
  wp_timestamp :: nat
  wp_proof_hash :: bytes
  wp_nonce :: nat

record WithdrawalEscrow =
  we_vault_id :: nat
  we_amount :: int
  we_timestamp :: nat
  we_beneficiary :: address
  we_verified :: bool

record WithdrawalRollback =
  wr_vault_id :: nat
  wr_original_amount :: int
  wr_rollback_amount :: int
  wr_timestamp :: nat
  wr_reason :: string

record WithdrawalRateLimit =
  wl_vault_id :: nat
  wl_last_withdrawal_time :: nat
  wl_withdrawal_count :: nat
  wl_cooldown_seconds :: nat

record WithdrawalScheduleEntry =
  ws_timestamp :: nat
  ws_amount :: int

record WithdrawalLimit =
  wl_daily_limit :: int
  wl_weekly_limit :: int
  wl_monthly_limit :: int

record WithdrawalTracker =
  wt_daily_withdrawn :: int
  wt_daily_reset_at :: nat
  wt_weekly_withdrawn :: int
  wt_weekly_reset_at :: nat
  wt_monthly_withdrawn :: int
  wt_monthly_reset_at :: nat

record WhitelistEntry =
  we_address :: address
  we_added_at :: nat
  we_label :: string

record WithdrawalReversal =
  rv_withdrawal_id :: nat
  rv_amount :: int
  rv_withdrawn_at :: nat
  rv_grace_period_until :: nat
  rv_reversed :: bool

record HibernationEntry =
  h_started_at :: nat
  h_duration_seconds :: nat

record TtlBorrowRecord =
  tb_borrower_vault_id :: nat
  tb_lender_vault_id :: nat
  tb_borrowed_seconds :: nat
  tb_borrowed_at :: nat
  tb_repaid :: bool

record ProofOfLifeEntry =
  pol_beneficiary :: address
  pol_submitted_at :: nat
  pol_valid_until :: nat

record ReleaseVoteEntry =
  rve_voter :: address
  rve_approve :: bool
  rve_voted_at :: nat

record BeneficiaryRotationEntry =
  br_effective_timestamp :: nat
  br_new_beneficiaries :: "BeneficiaryEntry list"

record ConditionalAcceptanceEntry =
  ca_conditions :: string
  ca_approved_by_owner :: bool
  ca_acceptance_deadline :: "nat option"
  ca_min_balance_threshold :: "int option"

record BeneficiaryConditionalAcceptance =
  bca_min_balance_threshold :: int
  bca_accepted_at :: nat

record OwnershipTransferRequest =
  ot_new_owner :: address
  ot_initiated_at :: nat
  ot_unlocks_at :: nat
  ot_expires_at :: nat

record PendingBeneficiaryUpdate =
  pb_new_beneficiary :: address
  pb_initiated_at :: nat
  pb_unlocks_at :: nat

record VestingSchedule =
  vs_start_time :: nat
  vs_interval :: nat
  vs_num_installments :: nat
  vs_claimed_installments :: nat
  vs_total_amount :: int
  vs_cliff_period :: nat

record VestingPenaltyConfig =
  vp_penalty_bps :: nat
  vp_grace_period_seconds :: nat

record VestingPendingClaim =
  vc_amount :: int
  vc_beneficiary :: address
  vc_initiated_at :: nat
  vc_reversal_deadline :: nat
  vc_new_installments_claimed :: nat
  vc_prev_installments_claimed :: nat

record VestingRolloverConfig =
  vr_enabled :: bool
  vr_rolled_amount :: int

record VestingAccelerationConfig =
  va_oracle :: address
  va_accelerated :: bool

record VestingStaggerEntry =
  sg_beneficiary :: address
  sg_bps :: nat
  sg_start_time :: nat
  sg_interval :: nat
  sg_num_installments :: nat
  sg_claimed_installments :: nat

record VestingCatchUpConfig =
  cu_enabled :: bool
  cu_max_catchup_installments :: nat

record VestingBonusConfig =
  vb_bonus_bps :: nat
  vb_on_time_window_seconds :: nat

record VestingForfeitureConfig =
  vf_forfeiture_recipient :: address
  vf_forfeited :: bool

record MilestoneEntry =
  me_label :: string
  me_target_value :: int
  me_current_value :: int
  me_bps :: nat
  me_is_fulfilled :: bool
  me_claimed :: bool

record MilestoneVestingSchedule =
  mv_total_amount :: int
  mv_milestones :: "MilestoneEntry list"
  mv_claimed_amount :: int
  mv_oracle :: address
  mv_paused :: bool

record BeneficiaryVestingSchedule =
  bv_beneficiary :: address
  bv_vault_id :: nat
  bv_start_time :: nat
  bv_interval :: nat
  bv_num_installments :: nat
  bv_claimed_installments :: nat
  bv_total_amount :: int
  bv_cliff_period :: nat

datatype MultiSigOperation =
  Withdraw | UpdateBeneficiary | CancelVault | UpdateCheckInInterval | TransferOwnership

datatype ProposalStatus =
  PendingProposal | ApprovedProposal | RejectedProposal | ExecutedProposal | ExpiredProposal
  | VetoedProposal

record MultiSigConfig =
  ms_signers :: "address list"
  ms_threshold :: nat

record MultiSigProposal =
  mp_id :: nat
  mp_operation :: MultiSigOperation
  mp_approvals :: "address list"
  mp_status :: ProposalStatus
  mp_expires_at :: nat
  mp_vault_id :: nat
  mp_payload :: bytes
  mp_address_payload :: "address option"
  mp_created_at :: nat

subsection \<open>Storage keys and events\<close>

text \<open>
  Values as events and keys carry them, and the persistent keys of \<open>DataKey\<close> whose rent a
  handler of the model extends: a key is its variant's name with the variant's arguments.
\<close>

datatype val = VU nat | VI int | VA address | VS string | VB bytes | VFlag bool | VStatus ReleaseStatus

datatype data_key = DataKey string "val list"

abbreviation K_Vault :: "nat \<Rightarrow> data_key" where "K_Vault x \<equiv> DataKey ''Vault'' [VU x]"
abbreviation K_OwnerVaults :: "address \<Rightarrow> data_key" where "K_OwnerVaults x \<equiv> DataKey ''OwnerVaults'' [VA x]"
abbreviation K_BeneficiaryVaults :: "address \<Rightarrow> data_key" where "K_BeneficiaryVaults x \<equiv> DataKey ''BeneficiaryVaults'' [VA x]"
abbreviation K_VaultCount :: "data_key" where "K_VaultCount \<equiv> DataKey ''VaultCount'' []"
abbreviation K_VaultDuplicate :: "address \<Rightarrow> address \<Rightarrow> nat \<Rightarrow> data_key" where "K_VaultDuplicate x y z \<equiv> DataKey ''VaultDuplicate'' [VA x, VA y, VU z]"
abbreviation K_VaultPasskeys :: "nat \<Rightarrow> data_key" where "K_VaultPasskeys x \<equiv> DataKey ''VaultPasskeys'' [VU x]"
abbreviation K_BackupCodes :: "nat \<Rightarrow> data_key" where "K_BackupCodes x \<equiv> DataKey ''BackupCodes'' [VU x]"
abbreviation K_TokenWhitelist :: "address \<Rightarrow> data_key" where "K_TokenWhitelist x \<equiv> DataKey ''TokenWhitelist'' [VA x]"
abbreviation K_WrappedToken :: "address \<Rightarrow> data_key" where "K_WrappedToken x \<equiv> DataKey ''WrappedToken'' [VA x]"
abbreviation K_BridgeConfig :: "nat \<Rightarrow> data_key" where "K_BridgeConfig x \<equiv> DataKey ''BridgeConfig'' [VU x]"
abbreviation K_DelegateNonce :: "nat \<Rightarrow> address \<Rightarrow> data_key" where "K_DelegateNonce x y \<equiv> DataKey ''DelegateNonce'' [VU x, VA y]"
abbreviation K_LastCheckInTime :: "nat \<Rightarrow> data_key" where "K_LastCheckInTime x \<equiv> DataKey ''LastCheckInTime'' [VU x]"
abbreviation K_PasskeyUsage :: "nat \<Rightarrow> data_key" where "K_PasskeyUsage x \<equiv> DataKey ''PasskeyUsage'' [VU x]"
abbreviation K_PasskeyAuditLog :: "nat \<Rightarrow> data_key" where "K_PasskeyAuditLog x \<equiv> DataKey ''PasskeyAuditLog'' [VU x]"
abbreviation K_CheckInHistoryLen :: "nat \<Rightarrow> data_key" where "K_CheckInHistoryLen x \<equiv> DataKey ''CheckInHistoryLen'' [VU x]"
abbreviation K_CheckInHistoryHead :: "nat \<Rightarrow> data_key" where "K_CheckInHistoryHead x \<equiv> DataKey ''CheckInHistoryHead'' [VU x]"
abbreviation K_CheckInStreak :: "nat \<Rightarrow> data_key" where "K_CheckInStreak x \<equiv> DataKey ''CheckInStreak'' [VU x]"
abbreviation K_VaultAuditLog :: "nat \<Rightarrow> data_key" where "K_VaultAuditLog x \<equiv> DataKey ''VaultAuditLog'' [VU x]"
abbreviation K_WithdrawalAuditLog :: "nat \<Rightarrow> data_key" where "K_WithdrawalAuditLog x \<equiv> DataKey ''WithdrawalAuditLog'' [VU x]"
abbreviation K_WithdrawalProof :: "nat \<Rightarrow> nat \<Rightarrow> data_key" where "K_WithdrawalProof x y \<equiv> DataKey ''WithdrawalProof'' [VU x, VU y]"
abbreviation K_WithdrawalEscrow :: "nat \<Rightarrow> data_key" where "K_WithdrawalEscrow x \<equiv> DataKey ''WithdrawalEscrow'' [VU x]"
abbreviation K_WithdrawalRollback :: "nat \<Rightarrow> data_key" where "K_WithdrawalRollback x \<equiv> DataKey ''WithdrawalRollback'' [VU x]"
abbreviation K_WithdrawalRateLimit :: "nat \<Rightarrow> data_key" where "K_WithdrawalRateLimit x \<equiv> DataKey ''WithdrawalRateLimit'' [VU x]"
abbreviation K_WithdrawalScheduleValidation :: "nat \<Rightarrow> data_key" where "K_WithdrawalScheduleValidation x \<equiv> DataKey ''WithdrawalScheduleValidation'' [VU x]"
abbreviation K_WithdrawalLimit :: "nat \<Rightarrow> data_key" where "K_WithdrawalLimit x \<equiv> DataKey ''WithdrawalLimit'' [VU x]"
abbreviation K_WithdrawalTracker :: "nat \<Rightarrow> data_key" where "K_WithdrawalTracker x \<equiv> DataKey ''WithdrawalTracker'' [VU x]"
abbreviation K_WithdrawalWhitelist :: "nat \<Rightarrow> data_key" where "K_WithdrawalWhitelist x \<equiv> DataKey ''WithdrawalWhitelist'' [VU x]"
abbreviation K_WithdrawalReversal :: "nat \<Rightarrow> nat \<Rightarrow> data_key" where "K_WithdrawalReversal x y \<equiv> DataKey ''WithdrawalReversal'' [VU x, VU y]"
abbreviation K_WithdrawalReversalCounter :: "nat \<Rightarrow> data_key" where "K_WithdrawalReversalCounter x \<equiv> DataKey ''WithdrawalReversalCounter'' [VU x]"
abbreviation K_ReleaseAttempted :: "nat \<Rightarrow> data_key" where "K_ReleaseAttempted x \<equiv> DataKey ''ReleaseAttempted'' [VU x]"
abbreviation K_ArchivedVault :: "nat \<Rightarrow> data_key" where "K_ArchivedVault x \<equiv> DataKey ''ArchivedVault'' [VU x]"
abbreviation K_Hibernation :: "nat \<Rightarrow> data_key" where "K_Hibernation x \<equiv> DataKey ''Hibernation'' [VU x]"
abbreviation K_PendingOwnership :: "nat \<Rightarrow> data_key" where "K_PendingOwnership x \<equiv> DataKey ''PendingOwnership'' [VU x]"
abbreviation K_PendingBeneficiaryUpdate :: "nat \<Rightarrow> data_key" where "K_PendingBeneficiaryUpdate x \<equiv> DataKey ''PendingBeneficiaryUpdate'' [VU x]"
abbreviation K_VestingSchedule :: "nat \<Rightarrow> nat \<Rightarrow> data_key" where "K_VestingSchedule x y \<equiv> DataKey ''VestingSchedule'' [VU x, VU y]"
abbreviation K_VestingScheduleCount :: "nat \<Rightarrow> data_key" where "K_VestingScheduleCount x \<equiv> DataKey ''VestingScheduleCount'' [VU x]"
abbreviation K_VestingPenalty :: "nat \<Rightarrow> nat \<Rightarrow> data_key" where "K_VestingPenalty x y \<equiv> DataKey ''VestingPenalty'' [VU x, VU y]"
abbreviation K_VestingPendingClaim :: "nat \<Rightarrow> nat \<Rightarrow> data_key" where "K_VestingPendingClaim x y \<equiv> DataKey ''VestingPendingClaim'' [VU x, VU y]"
abbreviation K_MilestoneVestingSchedule :: "nat \<Rightarrow> data_key" where "K_MilestoneVestingSchedule x \<equiv> DataKey ''MilestoneVestingSchedule'' [VU x]"
abbreviation K_VestingRollover :: "nat \<Rightarrow> data_key" where "K_VestingRollover x \<equiv> DataKey ''VestingRollover'' [VU x]"
abbreviation K_VestingAcceleration :: "nat \<Rightarrow> data_key" where "K_VestingAcceleration x \<equiv> DataKey ''VestingAcceleration'' [VU x]"
abbreviation K_VestingStagger :: "nat \<Rightarrow> data_key" where "K_VestingStagger x \<equiv> DataKey ''VestingStagger'' [VU x]"
abbreviation K_VestingCatchUp :: "nat \<Rightarrow> data_key" where "K_VestingCatchUp x \<equiv> DataKey ''VestingCatchUp'' [VU x]"
abbreviation K_VestingBonus :: "nat \<Rightarrow> data_key" where "K_VestingBonus x \<equiv> DataKey ''VestingBonus'' [VU x]"
abbreviation K_VestingForfeiture :: "nat \<Rightarrow> data_key" where "K_VestingForfeiture x \<equiv> DataKey ''VestingForfeiture'' [VU x]"
abbreviation K_BeneficiaryVestingSchedule :: "nat \<Rightarrow> address \<Rightarrow> data_key" where "K_BeneficiaryVestingSchedule x y \<equiv> DataKey ''BeneficiaryVestingSchedule'' [VU x, VA y]"
abbreviation K_MultiSigConfig :: "nat \<Rightarrow> data_key" where "K_MultiSigConfig x \<equiv> DataKey ''MultiSigConfig'' [VU x]"
abbreviation K_MultiSigProposal :: "nat \<Rightarrow> nat \<Rightarrow> data_key" where "K_MultiSigProposal x y \<equiv> DataKey ''MultiSigProposal'' [VU x, VU y]"
abbreviation K_MultiSigProposalCount :: "nat \<Rightarrow> data_key" where "K_MultiSigProposalCount x \<equiv> DataKey ''MultiSigProposalCount'' [VU x]"
abbreviation K_OpenProposals :: "nat \<Rightarrow> data_key" where "K_OpenProposals x \<equiv> DataKey ''OpenProposals'' [VU x]"
abbreviation K_CountdownConfig :: "nat \<Rightarrow> data_key" where "K_CountdownConfig x \<equiv> DataKey ''CountdownConfig'' [VU x]"
abbreviation K_CountdownFired :: "nat \<Rightarrow> data_key" where "K_CountdownFired x \<equiv> DataKey ''CountdownFired'' [VU x]"
abbreviation K_TtlBorrow :: "nat \<Rightarrow> data_key" where "K_TtlBorrow x \<equiv> DataKey ''TtlBorrow'' [VU x]"
abbreviation K_BeneficiaryReleaseConditionVeto :: "nat \<Rightarrow> data_key" where "K_BeneficiaryReleaseConditionVeto x \<equiv> DataKey ''BeneficiaryReleaseConditionVeto'' [VU x]"
abbreviation K_BeneficiaryStatus :: "nat \<Rightarrow> data_key" where "K_BeneficiaryStatus x \<equiv> DataKey ''BeneficiaryStatus'' [VU x]"
abbreviation K_ConditionalAcceptance :: "nat \<Rightarrow> data_key" where "K_ConditionalAcceptance x \<equiv> DataKey ''ConditionalAcceptance'' [VU x]"
abbreviation K_BeneficiaryConditionalAcceptance :: "nat \<Rightarrow> data_key" where "K_BeneficiaryConditionalAcceptance x \<equiv> DataKey ''BeneficiaryConditionalAcceptance'' [VU x]"
abbreviation K_ProofOfLife :: "nat \<Rightarrow> data_key" where "K_ProofOfLife x \<equiv> DataKey ''ProofOfLife'' [VU x]"
abbreviation K_ReleaseVoteThreshold :: "nat \<Rightarrow> data_key" where "K_ReleaseVoteThreshold x \<equiv> DataKey ''ReleaseVoteThreshold'' [VU x]"
abbreviation K_ReleaseVotes :: "nat \<Rightarrow> data_key" where "K_ReleaseVotes x \<equiv> DataKey ''ReleaseVotes'' [VU x]"
abbreviation K_CheckInDelegates :: "nat \<Rightarrow> data_key" where "K_CheckInDelegates x \<equiv> DataKey ''CheckInDelegates'' [VU x]"
abbreviation K_BeneficiaryStatusEntry :: "nat \<Rightarrow> address \<Rightarrow> data_key" where "K_BeneficiaryStatusEntry x y \<equiv> DataKey ''BeneficiaryStatusEntry'' [VU x, VA y]"
abbreviation K_Instance :: "data_key" where "K_Instance \<equiv> DataKey ''Instance'' []"

record event =
  ev_topic :: string
  ev_keys :: "val list"
  ev_data :: "val list"

end
