(* ===== verification/Feature_Types.thy ===== *)
theory Feature_Types
  imports Vault_Types
begin

section \<open>Structs of the features around the vault\<close>

text \<open>
  The structs and enums of \<open>types.rs\<close> for passkey recovery, two-factor codes, metadata, snapshots,
  auctions, disputes, withdrawal approvals and the token features, with the fields of the source.
\<close>

record PasskeyRecoveryRequest =
  pr_new_passkey_hash :: bytes
  pr_initiated_at :: nat
  pr_recovery_code :: string
  pr_approved_contacts :: "address list"
  pr_required_contacts :: nat

record PasskeyLockout =
  pl_locked_at :: nat
  pl_unlock_at :: nat
  pl_failed_attempts :: nat

record PasskeyRotationPolicy =
  rp_rotation_period_days :: nat
  rp_enforce :: bool

record TwoFactorConfigData =
  tf_enabled :: bool
  tf_method :: nat

record WithdrawalApprovalRequest =
  ap_amount :: int
  ap_requested_at :: nat
  ap_approvals :: "address list"
  ap_required_approvals :: nat
  ap_expires_at :: nat

record VaultSnapshot =
  sn_vault :: Vault
  sn_taken_at :: nat
  sn_content_hash :: bytes

record CustomMetadataEntry =
  cm_metadata :: bytes
  cm_timestamp :: nat

record MetadataVersionEntry =
  mv_version :: nat
  mv_metadata :: string
  mv_updated_at :: nat
  mv_updated_by :: address

record GeoCheckInEntry =
  ge_latitude_micro :: int
  ge_longitude_micro :: int
  ge_country_code :: string
  ge_timestamp :: nat

record BeneficiaryAuctionBid =
  bd_auction_id :: nat
  bd_bidder :: address
  bd_bid_amount :: int
  bd_desired_allocation_bps :: nat
  bd_bid_timestamp :: nat
  bd_accepted :: bool

record BeneficiaryAuction =
  au_auction_id :: nat
  au_vault_id :: nat
  au_start_time :: nat
  au_end_time :: nat
  au_total_allocation_bps :: nat
  au_minimum_bid :: int
  au_bids :: "BeneficiaryAuctionBid list"
  au_finalized :: bool
  au_winner :: "address option"

record BeneficiaryCommitment =
  co_commitment :: bytes
  co_committed_at :: nat

datatype VaultDisputeStatus = NoDispute | Filed | Resolved

datatype ConflictResolution = ConflictPending | ApprovedClaim address | RejectedClaim

record BeneficiaryConflictClaim =
  cc_claimant :: address
  cc_reason :: string
  cc_filed_at :: nat

record BeneficiaryConflict =
  bf_vault_id :: nat
  bf_claims :: "BeneficiaryConflictClaim list"
  bf_resolution :: ConflictResolution
  bf_resolved_at :: "nat option"

record BeneficiaryPool =
  bp_pool_id :: nat
  bp_members :: "address list"
  bp_total_bps :: nat

record OwnershipProof =
  op_vault_id :: nat
  op_owner_hash :: bytes
  op_timestamp :: nat
  op_is_active :: bool

record IntegrityReport =
  ig_vault_id :: nat
  ig_checksum :: bytes
  ig_is_valid :: bool
  ig_timestamp :: nat

record VaultStatusSummary =
  vu_vault_id :: nat
  vu_status :: ReleaseStatus
  vu_balance :: int
  vu_last_check_in :: nat
  vu_is_expired :: bool

datatype RoundingMode = Floor | Ceil | Round

record TokenConversion =
  tc_vault_id :: nat
  tc_from_token :: address
  tc_to_token :: address
  tc_conversion_rate :: int
  tc_enabled :: bool
  tc_created_at :: nat

record TokenStaking =
  ts_vault_id :: nat
  ts_staking_pool :: address
  ts_staked_amount :: int
  ts_staking_start :: nat
  ts_annual_yield_bps :: nat
  ts_is_active :: bool

datatype YieldDistributionMode = DistributeToBeneficiary | Reinvest | Split nat

record YieldDistributionConfig =
  yd_vault_id :: nat
  yd_mode :: YieldDistributionMode
  yd_last_distribution :: nat
  yd_total_distributed :: int
  yd_total_reinvested :: int

record TokenLending =
  tl_vault_id :: nat
  tl_borrower :: address
  tl_amount :: int
  tl_interest_rate_bps :: nat
  tl_lent_at :: nat
  tl_due_at :: nat
  tl_repaid :: bool
  tl_interest_earned :: int

record TokenCollateral =
  tk_vault_id :: nat
  tk_collateral_amount :: int
  tk_loan_amount :: int
  tk_collateral_ratio_bps :: nat
  tk_active :: bool
  tk_created_at :: nat

record TokenHedge =
  th_vault_id :: nat
  th_hedge_token :: address
  th_notional_amount :: int
  th_strike_price_bps :: nat
  th_expiry :: nat
  th_active :: bool
  th_created_at :: nat

record TokenWeight =
  tw_token :: address
  tw_target_bps :: nat

record TokenRebalanceConfig =
  tr_vault_id :: nat
  tr_target_weights :: "TokenWeight list"
  tr_last_rebalance :: nat
  tr_rebalance_threshold_bps :: nat
  tr_total_rebalances :: nat

end
