(* ===== verification/Vault_Ledger.thy ===== *)
theory Vault_Ledger
  imports Feature_Types
begin

section \<open>The ledger\<close>

text \<open>
  The contract's storage: one map per family of \<open>DataKey\<close>, grouped by the part of the contract that
  uses it, and the environment an invocation gets from the host.
\<close>

text \<open>Instance storage.\<close>

record instance_store =
  i_TokenAddress :: "address option"
  i_Admin :: "address option"
  i_Paused :: "bool option"
  i_PauseRecord :: "PauseRecord option"
  i_PendingAdmin :: "address option"
  i_AdminTransferProposedAt :: "nat option"
  i_Version :: "string option"
  i_MinCheckInInterval :: "nat option"
  i_MaxCheckInInterval :: "nat option"
  i_MaxTtlSeconds :: "nat option"
  i_TtlDecayRate :: "nat option"
  i_RequireUtf8Metadata :: "bool option"
  i_MaxVaultsPerOwner :: "nat option"
  i_OwnerVaultCount :: "nat option"
  i_BeneficiaryVaultLimit :: "nat option"
  i_MinCheckInCooldown :: "nat option"
  i_ReleaseGracePeriodSeconds :: "nat option"
  i_PendingProtocolConfig :: "ProtocolConfig option"
  i_ProtocolConfigProposedAt :: "nat option"
  i_wasm_hash :: "bytes option"

text \<open>Vault indexes and the token and bridge registries.\<close>

record index_store =
  p_VaultCount :: "nat option"
  p_OwnerVaults :: "address \<Rightarrow> nat list option"
  p_BeneficiaryVaults :: "address \<Rightarrow> nat list option"
  p_VaultDuplicate :: "address \<times> address \<times> nat \<Rightarrow> nat option"
  p_TokenWhitelist :: "address \<Rightarrow> bool option"
  p_WrappedToken :: "address \<Rightarrow> address option"
  p_BridgeConfig :: "nat \<Rightarrow> BridgeConfig option"

text \<open>Logs and check-in history.\<close>

record log_store =
  p_VaultAuditLog :: "nat \<Rightarrow> AuditEntry list option"
  p_StateTransitionLog :: "nat \<Rightarrow> StateTransitionEntry list option"
  p_CheckInEntry :: "nat \<times> nat \<Rightarrow> CheckInHistoryEntry option"
  p_CheckInHistoryHead :: "nat \<Rightarrow> nat option"
  p_CheckInHistoryLen :: "nat \<Rightarrow> nat option"
  p_CheckInStreak :: "nat \<Rightarrow> CheckInStreak option"
  p_LastCheckInTime :: "nat \<Rightarrow> nat option"
  p_CountdownConfig :: "nat \<Rightarrow> nat list option"
  p_CountdownFired :: "nat \<Rightarrow> 32 word option"
  p_TtlBorrow :: "nat \<Rightarrow> TtlBorrowRecord option"

text \<open>Passkeys and check-in delegation.\<close>

record passkey_store =
  p_VaultPasskeys :: "nat \<Rightarrow> PasskeyHash list option"
  p_BackupCodes :: "nat \<Rightarrow> BackupCode list option"
  p_CompromisedPasskeys :: "nat \<Rightarrow> bytes list option"
  p_PasskeyEscrow :: "nat \<times> bytes \<Rightarrow> PasskeyEscrowRecord option"
  p_PasskeyExpiry :: "nat \<times> bytes \<Rightarrow> nat option"
  p_PasskeyDelegation :: "nat \<times> bytes \<Rightarrow> PasskeyDelegation option"
  p_PasskeyUsage :: "nat \<Rightarrow> PasskeyUsageEntry list option"
  p_PasskeyAuditLog :: "nat \<Rightarrow> PasskeyAuditEntry list option"
  p_CheckInDelegates :: "nat \<Rightarrow> address list option"
  p_DelegateNonce :: "nat \<times> address \<Rightarrow> nat option"

text \<open>Withdrawal features.\<close>

record withdrawal_store =
  p_WithdrawalAuditLog :: "nat \<Rightarrow> WithdrawalAuditEntry list option"
  p_WithdrawalProof :: "nat \<times> nat \<Rightarrow> WithdrawalProof option"
  p_WithdrawalEscrow :: "nat \<Rightarrow> WithdrawalEscrow option"
  p_WithdrawalRollback :: "nat \<Rightarrow> WithdrawalRollback option"
  p_WithdrawalRateLimit :: "nat \<Rightarrow> WithdrawalRateLimit option"
  p_WithdrawalScheduleValidation :: "nat \<Rightarrow> WithdrawalScheduleEntry list option"
  p_WithdrawalLimit :: "nat \<Rightarrow> WithdrawalLimit option"
  p_WithdrawalTracker :: "nat \<Rightarrow> WithdrawalTracker option"
  p_WithdrawalWhitelist :: "nat \<Rightarrow> WhitelistEntry list option"
  p_WithdrawalReversal :: "nat \<times> nat \<Rightarrow> WithdrawalReversal option"
  p_WithdrawalReversalCounter :: "nat \<Rightarrow> nat option"

text \<open>Release, beneficiary and ownership features.\<close>

record release_store =
  p_ReleaseAttempted :: "nat \<Rightarrow> bool option"
  p_ReleaseConditions :: "nat \<Rightarrow> ReleaseCondition list option"
  p_ArchivedVault :: "nat \<Rightarrow> Vault option"
  p_Hibernation :: "nat \<Rightarrow> HibernationEntry option"
  p_BeneficiaryReleaseConditionVeto :: "nat \<Rightarrow> bool option"
  p_BeneficiaryStatus :: "nat \<Rightarrow> BeneficiaryStatus option"
  p_BeneficiaryStatusEntry :: "nat \<times> address \<Rightarrow> BeneficiaryStatus option"
  p_BeneficiaryReleaseTriggers :: "nat \<Rightarrow> (address \<times> ReleaseTrigger list) list option"
  p_BeneficiaryTierThreshold :: "nat \<times> address \<Rightarrow> int option"
  p_BeneficiaryConditionalAcceptance :: "nat \<Rightarrow> BeneficiaryConditionalAcceptance option"
  p_ConditionalAcceptance :: "nat \<Rightarrow> ConditionalAcceptanceEntry option"
  p_ProofOfLife :: "nat \<Rightarrow> ProofOfLifeEntry option"
  p_ReleaseVoteThreshold :: "nat \<Rightarrow> nat option"
  p_ReleaseVotes :: "nat \<Rightarrow> ReleaseVoteEntry list option"
  p_BeneficiaryRotationSchedule :: "nat \<Rightarrow> BeneficiaryRotationEntry list option"
  p_PendingOwnership :: "nat \<Rightarrow> OwnershipTransferRequest option"
  p_PendingBeneficiaryUpdate :: "nat \<Rightarrow> PendingBeneficiaryUpdate option"

text \<open>Vesting.\<close>

record vesting_store =
  p_VestingSchedule :: "nat \<times> nat \<Rightarrow> VestingSchedule option"
  p_VestingScheduleCount :: "nat \<Rightarrow> nat option"
  p_VestingPenalty :: "nat \<times> nat \<Rightarrow> VestingPenaltyConfig option"
  p_VestingForfeiture :: "nat \<Rightarrow> VestingForfeitureConfig option"
  p_VestingPendingClaim :: "nat \<times> nat \<Rightarrow> VestingPendingClaim option"
  p_MilestoneVestingSchedule :: "nat \<Rightarrow> MilestoneVestingSchedule option"
  p_BeneficiaryVestingSchedule :: "nat \<times> address \<Rightarrow> BeneficiaryVestingSchedule option"
  p_VestingRollover :: "nat \<Rightarrow> VestingRolloverConfig option"
  p_VestingAcceleration :: "nat \<Rightarrow> VestingAccelerationConfig option"
  p_VestingStagger :: "nat \<Rightarrow> VestingStaggerEntry list option"
  p_VestingCatchUp :: "nat \<Rightarrow> VestingCatchUpConfig option"
  p_VestingBonus :: "nat \<Rightarrow> VestingBonusConfig option"

text \<open>Multi-signature control.\<close>

record multisig_store =
  p_MultiSigConfig :: "nat \<Rightarrow> MultiSigConfig option"
  p_MultiSigProposal :: "nat \<times> nat \<Rightarrow> MultiSigProposal option"
  p_MultiSigProposalCount :: "nat \<Rightarrow> nat option"
  p_OpenProposals :: "nat \<Rightarrow> nat list option"

text \<open>Metadata, snapshots, auctions, disputes, passkey recovery, two-factor codes and the token features.\<close>

record feature_store =
  p_VaultSnapshot :: "nat \<times> nat \<Rightarrow> VaultSnapshot option"
  p_VaultSnapshotTimestamps :: "nat \<Rightarrow> nat list option"
  p_CustomMetadataHistory :: "nat \<Rightarrow> CustomMetadataEntry list option"
  p_MetadataHistory :: "nat \<Rightarrow> MetadataVersionEntry list option"
  p_CheckInGeoLog :: "nat \<Rightarrow> GeoCheckInEntry list option"
  p_BeneficiaryAuction :: "nat \<Rightarrow> BeneficiaryAuction option"
  p_BeneficiaryAuctionCount :: "nat option"
  p_BeneficiaryCommitment :: "nat \<Rightarrow> BeneficiaryCommitment option"
  p_RevealedBeneficiary :: "nat \<Rightarrow> address option"
  p_BeneficiaryDelegationChain :: "nat \<Rightarrow> address list option"
  p_BeneficiaryDelegate :: "nat \<Rightarrow> address option"
  p_DisputeStatus :: "nat \<Rightarrow> VaultDisputeStatus option"
  p_BeneficiaryConflict :: "nat \<Rightarrow> BeneficiaryConflict option"
  p_BeneficiaryPool :: "nat \<Rightarrow> BeneficiaryPool option"
  p_ClawbackReleaseTs :: "nat \<times> address \<Rightarrow> nat option"
  p_VaultRoundingMode :: "nat \<Rightarrow> RoundingMode option"
  p_WithdrawalApprovalRequest :: "nat \<Rightarrow> WithdrawalApprovalRequest option"
  p_WithdrawalApprovers :: "nat \<Rightarrow> address list option"
  p_WithdrawalSchedule :: "nat \<Rightarrow> WithdrawalScheduleEntry list option"
  p_PasskeyRecoveryRequest :: "nat \<Rightarrow> PasskeyRecoveryRequest option"
  p_RecoveryContacts :: "nat \<Rightarrow> address list option"
  p_RecoveryCodeHash :: "nat \<Rightarrow> bytes option"
  p_PasskeyLockout :: "nat \<Rightarrow> PasskeyLockout option"
  p_PasskeyRotationPolicy :: "nat \<Rightarrow> PasskeyRotationPolicy option"
  p_LastPasskeyRotation :: "nat \<times> bytes \<Rightarrow> nat option"
  p_TwoFactorConfig :: "nat \<Rightarrow> TwoFactorConfigData option"
  p_TwoFactorVerified :: "nat \<Rightarrow> nat option"
  p_TokenConversion :: "nat \<Rightarrow> TokenConversion option"
  p_TokenStaking :: "nat \<Rightarrow> TokenStaking option"
  p_YieldDistributionConfig :: "nat \<Rightarrow> YieldDistributionConfig option"
  p_TokenLending :: "nat \<Rightarrow> TokenLending option"
  p_TokenCollateral :: "nat \<Rightarrow> TokenCollateral option"
  p_TokenHedge :: "nat \<Rightarrow> TokenHedge option"
  p_TokenRebalance :: "nat \<Rightarrow> TokenRebalanceConfig option"

text \<open>The ledger as the vault contract sees it; \<open>'tok\<close> is the state of the token contracts.\<close>

record 'tok world =
  tokens :: 'tok
  p_Vault :: "nat \<Rightarrow> Vault option"
  inst :: instance_store
  idx :: index_store
  logs :: log_store
  pks :: passkey_store
  wdr :: withdrawal_store
  rel :: release_store
  vest :: vesting_store
  msig :: multisig_store
  feat :: feature_store
  events :: "event list"
  ttl_log :: "(data_key \<times> nat \<times> nat) list"

text \<open>
  What the host supplies to one invocation. \<open>token_transfer t from to n\<close> is the SEP-41
  \<open>transfer\<close> of the token contract at \<open>t\<close> (\<open>None\<close> when it panics); \<open>query_release\<close> the outcome
  of the oracle call (\<open>None\<close> when the invocation fails).
\<close>

record 'tok env =
  ledger_timestamp :: nat
  ledger_sequence :: nat
  authorized :: "address \<Rightarrow> bool"
  current_contract_address :: address
  token_transfer :: "address \<Rightarrow> address \<Rightarrow> address \<Rightarrow> int \<Rightarrow> 'tok \<Rightarrow> 'tok option"
  query_release :: "address \<Rightarrow> bool option"
  sha256 :: "bytes \<Rightarrow> bytes"

type_synonym ('tok, 'a) handler = "(failure, 'tok world, 'a) act"

end
