(* ===== verification/Vault_Topics.thy ===== *)
theory Vault_Topics
  imports Main
begin

section \<open>Event topics\<close>

text \<open>The \<open>Symbol\<close> constants of \<open>types.rs\<close> under which the modelled handlers publish.\<close>

definition RELEASE_TOPIC :: string where "RELEASE_TOPIC = ''release''"
definition VAULT_CREATED_TOPIC :: string where "VAULT_CREATED_TOPIC = ''v_created''"
definition PING_EXPIRY_TOPIC :: string where "PING_EXPIRY_TOPIC = ''ping_exp''"
definition PASSKEY_EXPIRY_WARNING_TOPIC :: string where "PASSKEY_EXPIRY_WARNING_TOPIC = ''pk_expwrn''"
definition DEPOSIT_TOPIC :: string where "DEPOSIT_TOPIC = ''deposit''"
definition WITHDRAW_TOPIC :: string where "WITHDRAW_TOPIC = ''withdraw''"
definition CHECK_IN_TOPIC :: string where "CHECK_IN_TOPIC = ''check_in''"
definition CANCEL_TOPIC :: string where "CANCEL_TOPIC = ''cancel''"
definition OWNERSHIP_TOPIC :: string where "OWNERSHIP_TOPIC = ''own_xfer''"
definition OWNERSHIP_INITIATED_TOPIC :: string where "OWNERSHIP_INITIATED_TOPIC = ''own_init''"
definition OWNERSHIP_ACCEPTED_TOPIC :: string where "OWNERSHIP_ACCEPTED_TOPIC = ''own_acc''"
definition OWNERSHIP_CANCELLED_TOPIC :: string where "OWNERSHIP_CANCELLED_TOPIC = ''own_can''"
definition OWNERSHIP_TRANSFER_EXPIRED_TOPIC :: string where "OWNERSHIP_TRANSFER_EXPIRED_TOPIC = ''own_exp''"
definition BENEFICIARY_UPDATED_TOPIC :: string where "BENEFICIARY_UPDATED_TOPIC = ''ben_upd''"
definition SET_BENEFICIARIES_TOPIC :: string where "SET_BENEFICIARIES_TOPIC = ''set_bens''"
definition UPDATE_INTERVAL_TOPIC :: string where "UPDATE_INTERVAL_TOPIC = ''upd_intv''"
definition SET_MIN_INTERVAL_TOPIC :: string where "SET_MIN_INTERVAL_TOPIC = ''set_min''"
definition SET_MAX_INTERVAL_TOPIC :: string where "SET_MAX_INTERVAL_TOPIC = ''set_max''"
definition PAUSE_TOPIC :: string where "PAUSE_TOPIC = ''pause''"
definition UNPAUSE_TOPIC :: string where "UNPAUSE_TOPIC = ''unpause''"
definition SET_VESTING_TOPIC :: string where "SET_VESTING_TOPIC = ''set_vest''"
definition CLAIM_VEST_TOPIC :: string where "CLAIM_VEST_TOPIC = ''clm_vest''"
definition VESTING_CANCELLED_TOPIC :: string where "VESTING_CANCELLED_TOPIC = ''vest_can''"
definition CLIFF_REACHED_TOPIC :: string where "CLIFF_REACHED_TOPIC = ''clif_rch''"
definition PAUSE_VAULT_TOPIC :: string where "PAUSE_VAULT_TOPIC = ''v_pause''"
definition RESUME_VAULT_TOPIC :: string where "RESUME_VAULT_TOPIC = ''v_resume''"
definition ADD_PASSKEY_TOPIC :: string where "ADD_PASSKEY_TOPIC = ''add_pk''"
definition REMOVE_PASSKEY_TOPIC :: string where "REMOVE_PASSKEY_TOPIC = ''rm_pk''"
definition ROTATE_PASSKEY_TOPIC :: string where "ROTATE_PASSKEY_TOPIC = ''rot_pk''"
definition PASSKEY_ESCROWED_TOPIC :: string where "PASSKEY_ESCROWED_TOPIC = ''pk_esc''"
definition PASSKEY_ESCROW_RELEASED_TOPIC :: string where "PASSKEY_ESCROW_RELEASED_TOPIC = ''pk_escrel''"
definition PASSKEY_ESCROW_CANCELLED_TOPIC :: string where "PASSKEY_ESCROW_CANCELLED_TOPIC = ''pk_esccan''"
definition BACKUP_CODE_USED_TOPIC :: string where "BACKUP_CODE_USED_TOPIC = ''bk_used''"
definition BACKUP_CODES_GENERATED_TOPIC :: string where "BACKUP_CODES_GENERATED_TOPIC = ''bk_gen''"
definition CONDITIONS_ACCEPTED_TOPIC :: string where "CONDITIONS_ACCEPTED_TOPIC = ''cond_acc''"
definition SET_SPENDING_LIMIT_TOPIC :: string where "SET_SPENDING_LIMIT_TOPIC = ''set_slmt''"
definition SET_MAX_TTL_TOPIC :: string where "SET_MAX_TTL_TOPIC = ''set_ttl''"
definition SET_DECAY_RATE_TOPIC :: string where "SET_DECAY_RATE_TOPIC = ''set_dec''"
definition ACCEPTANCE_DEADLINE_EXPIRED_TOPIC :: string where "ACCEPTANCE_DEADLINE_EXPIRED_TOPIC = ''acc_exp''"
definition TTL_DECAY_TOPIC :: string where "TTL_DECAY_TOPIC = ''ttl_dec''"
definition SET_BURN_PERCENTAGE_TOPIC :: string where "SET_BURN_PERCENTAGE_TOPIC = ''set_brnp''"
definition BURN_EVENT_TOPIC :: string where "BURN_EVENT_TOPIC = ''burn_evt''"
definition SYNC_TTL_TOPIC :: string where "SYNC_TTL_TOPIC = ''sync_ttl''"
definition PASSKEY_EXPIRY_EXTENDED_TOPIC :: string where "PASSKEY_EXPIRY_EXTENDED_TOPIC = ''pk_exp''"
definition BENEFICIARY_ACCEPTED_TOPIC :: string where "BENEFICIARY_ACCEPTED_TOPIC = ''ben_acc''"
definition BENEFICIARY_DECLINED_TOPIC :: string where "BENEFICIARY_DECLINED_TOPIC = ''ben_dec''"
definition BENEFICIARY_CONDITION_ACCEPTED_TOPIC :: string where "BENEFICIARY_CONDITION_ACCEPTED_TOPIC = ''ben_cond''"
definition SET_RECOVERY_TOPIC :: string where "SET_RECOVERY_TOPIC = ''set_rec''"
definition RECOVERY_EXTEND_TOPIC :: string where "RECOVERY_EXTEND_TOPIC = ''rec_ext''"
definition EMERGENCY_RECOVERY_GENERATED_TOPIC :: string where "EMERGENCY_RECOVERY_GENERATED_TOPIC = ''erc_gen''"
definition EMERGENCY_RECOVERY_USED_TOPIC :: string where "EMERGENCY_RECOVERY_USED_TOPIC = ''erc_used''"
definition RESTORE_VAULT_TOPIC :: string where "RESTORE_VAULT_TOPIC = ''restore''"
definition PASSKEY_USAGE_TOPIC :: string where "PASSKEY_USAGE_TOPIC = ''pk_usage''"
definition BIND_PASSKEY_BIOMETRIC_TOPIC :: string where "BIND_PASSKEY_BIOMETRIC_TOPIC = ''bind_pk''"
definition UNBIND_PASSKEY_BIOMETRIC_TOPIC :: string where "UNBIND_PASSKEY_BIOMETRIC_TOPIC = ''ubind_pk''"
definition BIO_CHECKIN_TOPIC :: string where "BIO_CHECKIN_TOPIC = ''bio_ci''"
definition MULTISIG_CONFIG_TOPIC :: string where "MULTISIG_CONFIG_TOPIC = ''ms_cfg''"
definition MULTISIG_PROPOSED_TOPIC :: string where "MULTISIG_PROPOSED_TOPIC = ''ms_prop''"
definition MULTISIG_APPROVED_TOPIC :: string where "MULTISIG_APPROVED_TOPIC = ''ms_app''"
definition MULTISIG_REJECTED_TOPIC :: string where "MULTISIG_REJECTED_TOPIC = ''ms_rej''"
definition MULTISIG_EXECUTED_TOPIC :: string where "MULTISIG_EXECUTED_TOPIC = ''ms_exec''"
definition MULTISIG_VETOED_TOPIC :: string where "MULTISIG_VETOED_TOPIC = ''ms_veto''"
definition MULTISIG_SIGNER_REMOVED_TOPIC :: string where "MULTISIG_SIGNER_REMOVED_TOPIC = ''ms_rm_sig''"
definition VAULT_ARCHIVED_TOPIC :: string where "VAULT_ARCHIVED_TOPIC = ''v_arch''"
definition VAULT_CAP_TOPIC :: string where "VAULT_CAP_TOPIC = ''v_cap''"
definition DELEGATE_CHECKIN_TOPIC :: string where "DELEGATE_CHECKIN_TOPIC = ''del_ci''"
definition REVOKE_DELEGATE_TOPIC :: string where "REVOKE_DELEGATE_TOPIC = ''rev_del''"
definition CHECKIN_POW_TOPIC :: string where "CHECKIN_POW_TOPIC = ''ci_pow''"
definition TTL_PREDICTED_TOPIC :: string where "TTL_PREDICTED_TOPIC = ''ttl_pred''"
definition BATCH_CHECKIN_TOPIC :: string where "BATCH_CHECKIN_TOPIC = ''b_ci''"
definition STATE_TRANSITION_TOPIC :: string where "STATE_TRANSITION_TOPIC = ''st_trans''"
definition PROOF_OF_LIFE_TOPIC :: string where "PROOF_OF_LIFE_TOPIC = ''pol_sub''"
definition RELEASE_VOTE_TOPIC :: string where "RELEASE_VOTE_TOPIC = ''rel_vote''"
definition RELEASE_VOTE_PASSED_TOPIC :: string where "RELEASE_VOTE_PASSED_TOPIC = ''vote_ok''"
definition HIBERNATION_ENTERED_TOPIC :: string where "HIBERNATION_ENTERED_TOPIC = ''hib_ent''"
definition HIBERNATION_EXITED_TOPIC :: string where "HIBERNATION_EXITED_TOPIC = ''hib_ext''"
definition DUPLICATE_VAULT_TOPIC :: string where "DUPLICATE_VAULT_TOPIC = ''dup_vault''"
definition MIN_THRESHOLD_SET_TOPIC :: string where "MIN_THRESHOLD_SET_TOPIC = ''min_thr''"
definition MIN_THRESHOLD_SKIP_TOPIC :: string where "MIN_THRESHOLD_SKIP_TOPIC = ''min_skip''"
definition MIN_THRESHOLD_REDISTRIBUTE_TOPIC :: string where "MIN_THRESHOLD_REDISTRIBUTE_TOPIC = ''min_rdst''"
definition WITHDRAWAL_VALIDATION_TOPIC :: string where "WITHDRAWAL_VALIDATION_TOPIC = ''wd_val''"
definition WITHDRAWAL_LIMIT_SET_TOPIC :: string where "WITHDRAWAL_LIMIT_SET_TOPIC = ''wd_lim''"
definition WHITELIST_ADDED_TOPIC :: string where "WHITELIST_ADDED_TOPIC = ''wl_add''"
definition WHITELIST_REMOVED_TOPIC :: string where "WHITELIST_REMOVED_TOPIC = ''wl_rem''"
definition TOKEN_WHITELIST_VALIDATED_TOPIC :: string where "TOKEN_WHITELIST_VALIDATED_TOPIC = ''tok_wl''"
definition WRAPPED_TOKEN_REGISTERED_TOPIC :: string where "WRAPPED_TOKEN_REGISTERED_TOPIC = ''wrp_reg''"
definition WRAPPED_TOKEN_UNREGISTERED_TOPIC :: string where "WRAPPED_TOKEN_UNREGISTERED_TOPIC = ''wrp_unr''"
definition WITHDRAWAL_REVERSED_TOPIC :: string where "WITHDRAWAL_REVERSED_TOPIC = ''wd_rev''"
definition VESTING_PENALTY_TOPIC :: string where "VESTING_PENALTY_TOPIC = ''vest_pen''"
definition VESTING_REVERSED_TOPIC :: string where "VESTING_REVERSED_TOPIC = ''vest_rev''"
definition VESTING_FINALIZED_TOPIC :: string where "VESTING_FINALIZED_TOPIC = ''vest_fin''"
definition MILESTONE_VEST_TOPIC :: string where "MILESTONE_VEST_TOPIC = ''ms_vest''"
definition MILESTONE_PAUSE_TOPIC :: string where "MILESTONE_PAUSE_TOPIC = ''ms_paus''"
definition MILESTONE_RESUME_TOPIC :: string where "MILESTONE_RESUME_TOPIC = ''ms_resm''"
definition MILESTONE_ADJUST_TOPIC :: string where "MILESTONE_ADJUST_TOPIC = ''ms_adj''"
definition MILESTONE_EMERGENCY_TOPIC :: string where "MILESTONE_EMERGENCY_TOPIC = ''ms_emer''"
definition MILESTONE_PROGRESS_TOPIC :: string where "MILESTONE_PROGRESS_TOPIC = ''ms_prog''"
definition MILESTONE_CLAIM_TOPIC :: string where "MILESTONE_CLAIM_TOPIC = ''ms_clam''"
definition VESTING_SCHEDULE_ADDED_TOPIC :: string where "VESTING_SCHEDULE_ADDED_TOPIC = ''vs_add''"
definition CLAWBACK_UNVESTED_TOPIC :: string where "CLAWBACK_UNVESTED_TOPIC = ''clawback''"
definition PASSKEY_EXPIRED_TOPIC :: string where "PASSKEY_EXPIRED_TOPIC = ''pk_expd''"
definition PASSKEY_COMPROMISED_TOPIC :: string where "PASSKEY_COMPROMISED_TOPIC = ''pk_comp''"
definition PASSKEY_RECOVERY_INITIATED_TOPIC :: string where "PASSKEY_RECOVERY_INITIATED_TOPIC = ''pk_rec''"
definition PASSKEY_RECOVERED_TOPIC :: string where "PASSKEY_RECOVERED_TOPIC = ''pk_rcvd''"
definition PASSKEY_LOCKOUT_TOPIC :: string where "PASSKEY_LOCKOUT_TOPIC = ''pk_lock''"
definition PASSKEY_UNLOCKED_TOPIC :: string where "PASSKEY_UNLOCKED_TOPIC = ''pk_unlk''"
definition PASSKEY_AUDIT_TOPIC :: string where "PASSKEY_AUDIT_TOPIC = ''pk_audit''"
definition PASSKEY_ROTATION_REQUIRED_TOPIC :: string where "PASSKEY_ROTATION_REQUIRED_TOPIC = ''pk_rot_r''"
definition PASSKEY_ROTATION_ENFORCED_TOPIC :: string where "PASSKEY_ROTATION_ENFORCED_TOPIC = ''pk_rot_e''"
definition PASSKEY_DELEGATED_TOPIC :: string where "PASSKEY_DELEGATED_TOPIC = ''pk_del''"
definition PASSKEY_DELEGATION_REVOKED_TOPIC :: string where "PASSKEY_DELEGATION_REVOKED_TOPIC = ''pk_del_rv''"
definition TTL_BORROW_TOPIC :: string where "TTL_BORROW_TOPIC = ''ttl_bor''"
definition TTL_REPAY_TOPIC :: string where "TTL_REPAY_TOPIC = ''ttl_rep''"
definition VESTING_ROLLOVER_TOPIC :: string where "VESTING_ROLLOVER_TOPIC = ''vest_rol''"
definition VESTING_FORFEITURE_TOPIC :: string where "VESTING_FORFEITURE_TOPIC = ''vest_frf''"
definition VESTING_ACCELERATED_TOPIC :: string where "VESTING_ACCELERATED_TOPIC = ''vest_acc''"
definition VESTING_STAGGER_TOPIC :: string where "VESTING_STAGGER_TOPIC = ''vest_stg''"
definition VESTING_CATCHUP_SET_TOPIC :: string where "VESTING_CATCHUP_SET_TOPIC = ''vest_cu''"
definition VESTING_CATCHUP_CLAIMED_TOPIC :: string where "VESTING_CATCHUP_CLAIMED_TOPIC = ''vest_cuc''"
definition VESTING_BONUS_SET_TOPIC :: string where "VESTING_BONUS_SET_TOPIC = ''vest_bon''"
definition VESTING_BONUS_CLAIMED_TOPIC :: string where "VESTING_BONUS_CLAIMED_TOPIC = ''vest_bonc''"
definition ADMIN_TRANSFER_PROPOSED_TOPIC :: string where "ADMIN_TRANSFER_PROPOSED_TOPIC = ''adm_prop''"
definition ADMIN_TRANSFER_COMPLETED_TOPIC :: string where "ADMIN_TRANSFER_COMPLETED_TOPIC = ''adm_done''"
definition COUNTDOWN_NOTIF_TOPIC :: string where "COUNTDOWN_NOTIF_TOPIC = ''cd_notif''"
definition SET_COUNTDOWN_TOPIC :: string where "SET_COUNTDOWN_TOPIC = ''set_cd''"
definition TWO_FACTOR_ENABLED_TOPIC :: string where "TWO_FACTOR_ENABLED_TOPIC = ''2fa_en''"
definition TWO_FACTOR_DISABLED_TOPIC :: string where "TWO_FACTOR_DISABLED_TOPIC = ''2fa_dis''"
definition TWO_FACTOR_VERIFIED_TOPIC :: string where "TWO_FACTOR_VERIFIED_TOPIC = ''2fa_vrf''"
definition CHECKIN_RATE_LIMITED_TOPIC :: string where "CHECKIN_RATE_LIMITED_TOPIC = ''ci_rl''"
definition BENEFICIARY_CAP_TOPIC :: string where "BENEFICIARY_CAP_TOPIC = ''ben_cap''"
definition TTL_ACCELERATE_TOPIC :: string where "TTL_ACCELERATE_TOPIC = ''ttl_acc''"
definition BEN_ROTATION_TOPIC :: string where "BEN_ROTATION_TOPIC = ''ben_rot''"
definition INACTIVITY_PENALTY_TOPIC :: string where "INACTIVITY_PENALTY_TOPIC = ''inact_pen''"
definition WITHDRAWAL_AUDIT_TOPIC :: string where "WITHDRAWAL_AUDIT_TOPIC = ''wd_audit''"
definition WITHDRAWAL_FAILED_TOPIC :: string where "WITHDRAWAL_FAILED_TOPIC = ''wd_fail''"
definition WITHDRAWAL_NOTIF_TOPIC :: string where "WITHDRAWAL_NOTIF_TOPIC = ''wd_notif''"
definition BENEFICIARY_TRIGGER_SET_TOPIC :: string where "BENEFICIARY_TRIGGER_SET_TOPIC = ''ben_trg''"
definition BENEFICIARY_TIER_SET_TOPIC :: string where "BENEFICIARY_TIER_SET_TOPIC = ''ben_tier''"
definition BENEFICIARY_WATERFALL_TOPIC :: string where "BENEFICIARY_WATERFALL_TOPIC = ''ben_wfl''"
definition BENEFICIARY_REBALANCED_TOPIC :: string where "BENEFICIARY_REBALANCED_TOPIC = ''ben_reb''"
definition WITHDRAWAL_PROOF_TOPIC :: string where "WITHDRAWAL_PROOF_TOPIC = ''wd_prf''"
definition WITHDRAWAL_ROLLBACK_TOPIC :: string where "WITHDRAWAL_ROLLBACK_TOPIC = ''wd_rbk''"
definition WITHDRAWAL_RATE_LIMITED_TOPIC :: string where "WITHDRAWAL_RATE_LIMITED_TOPIC = ''wd_rl''"
definition WITHDRAWAL_ESCROW_CREATED_TOPIC :: string where "WITHDRAWAL_ESCROW_CREATED_TOPIC = ''wd_esc''"
definition WITHDRAWAL_ESCROW_VERIFIED_TOPIC :: string where "WITHDRAWAL_ESCROW_VERIFIED_TOPIC = ''wd_ver''"
definition PARTIAL_LIQUIDATE_TOPIC :: string where "PARTIAL_LIQUIDATE_TOPIC = ''part_lq''"
definition SET_BENEFICIARY_VESTING_TOPIC :: string where "SET_BENEFICIARY_VESTING_TOPIC = ''set_bvst''"
definition CLAIM_BENEFICIARY_VESTING_TOPIC :: string where "CLAIM_BENEFICIARY_VESTING_TOPIC = ''clm_bvst''"
definition PROTOCOL_CONFIG_PROPOSED_TOPIC :: string where "PROTOCOL_CONFIG_PROPOSED_TOPIC = ''pc_prop''"
definition PROTOCOL_CONFIG_APPLIED_TOPIC :: string where "PROTOCOL_CONFIG_APPLIED_TOPIC = ''pc_apply''"

end
