(* ===== verification/Vault_Storage.thy ===== *)
theory Vault_Storage
  imports Vault_Ledger Vault_Topics
begin

section \<open>Storage access, authorisation and logs\<close>

text \<open>
  The private helpers of \<open>ttl_vault/src/lib.rs\<close> that every handler goes through: checked
  arithmetic as handler steps, authorisation, token transfers, rent extension, events, loading
  and saving vaults and their owner and beneficiary indexes, the audit and activity logs and
  the state transition log. Their weakest preconditions are in \<open>wp_simps\<close>, so that the proofs
  of the handlers never unfold them again. The theory ends with the accounting quantities the
  safety properties speak about: the sum of the vault balances held in a token, and the
  contract of a SEP-41 token.
\<close>

subsection \<open>Constants\<close>

definition VAULT_TTL_THRESHOLD :: nat where "VAULT_TTL_THRESHOLD = 1000"
definition VAULT_TTL_LEDGERS :: nat where "VAULT_TTL_LEDGERS = 200000"
definition INSTANCE_TTL_THRESHOLD :: nat where "INSTANCE_TTL_THRESHOLD = 1000"
definition INSTANCE_TTL_LEDGERS :: nat where "INSTANCE_TTL_LEDGERS = 200000"
definition LEDGER_SECOND :: nat where "LEDGER_SECOND = 5"
definition MAX_PERSISTENT_TTL :: nat where "MAX_PERSISTENT_TTL = 3110400"
definition OWNERSHIP_TRANSFER_TIMELOCK :: nat where "OWNERSHIP_TRANSFER_TIMELOCK = 86400"
definition OWNERSHIP_TRANSFER_EXPIRY :: nat where "OWNERSHIP_TRANSFER_EXPIRY = 604800"
definition DEFAULT_MIN_CHECKIN_COOLDOWN :: nat where "DEFAULT_MIN_CHECKIN_COOLDOWN = 60"
definition MAX_ACCELERATE_SECONDS :: nat where "MAX_ACCELERATE_SECONDS = 2592000"
definition ADMIN_TRANSFER_TIMELOCK :: nat where "ADMIN_TRANSFER_TIMELOCK = 86400"
definition PROTOCOL_CONFIG_TIMELOCK :: nat where "PROTOCOL_CONFIG_TIMELOCK = 86400"
definition MAX_BENEFICIARIES :: nat where "MAX_BENEFICIARIES = 20"
definition MAX_PASSKEY_USAGE_ENTRIES :: nat where "MAX_PASSKEY_USAGE_ENTRIES = 1000"
definition MAX_PASSKEY_AUDIT_ENTRIES :: nat where "MAX_PASSKEY_AUDIT_ENTRIES = 1000"
definition MAX_METADATA_LEN :: nat where "MAX_METADATA_LEN = 256"

text \<open>\<open>vault_ttl_ledgers\<close>: twice the interval in ledgers, saturating in \<open>u32\<close>, clamped.\<close>

definition vault_ttl_ledgers :: "nat \<Rightarrow> nat" where
  "vault_ttl_ledgers check_in_interval =
     (let interval_u32 = min check_in_interval U32_MAX;
          ledgers = sat_mul U32_MAX interval_u32 2 div LEDGER_SECOND
      in max VAULT_TTL_LEDGERS (min MAX_PERSISTENT_TTL ledgers))"

subsection \<open>Host steps\<close>

definition require_auth :: "'tok env \<Rightarrow> address \<Rightarrow> ('tok, unit) handler" where
  "require_auth e a = guard (authorized e a) AuthTrap"

definition publish :: "string \<Rightarrow> val list \<Rightarrow> val list \<Rightarrow> ('tok, unit) handler" where
  "publish topic keys data =
     modify (\<lambda>w. w\<lparr>events := events w @ [\<lparr>ev_topic = topic, ev_keys = keys, ev_data = data\<rparr>]\<rparr>)"

definition extend_ttl :: "data_key \<Rightarrow> nat \<Rightarrow> nat \<Rightarrow> ('tok, unit) handler" where
  "extend_ttl k threshold extend_to =
     modify (\<lambda>w. w\<lparr>ttl_log := ttl_log w @ [(k, threshold, extend_to)]\<rparr>)"

definition extend_instance_ttl :: "('tok, unit) handler" where
  "extend_instance_ttl = extend_ttl K_Instance INSTANCE_TTL_THRESHOLD INSTANCE_TTL_LEDGERS"

definition transfer ::
  "'tok env \<Rightarrow> address \<Rightarrow> address \<Rightarrow> address \<Rightarrow> int \<Rightarrow> ('tok, unit) handler" where
  "transfer e token from to amount w =
     (case token_transfer e token from to amount (tokens w) of
        None \<Rightarrow> Inl TokenTrap
      | Some tk \<Rightarrow> Inr ((), w\<lparr>tokens := tk\<rparr>))"

text \<open>Checked arithmetic.\<close>

definition add64 :: "nat \<Rightarrow> nat \<Rightarrow> (failure, 's, nat) act" where
  "add64 a b = thenM (guard (a + b \<le> U64_MAX) OverflowTrap) (returnM (a + b))"

definition sub64 :: "nat \<Rightarrow> nat \<Rightarrow> (failure, 's, nat) act" where
  "sub64 a b = thenM (guard (b \<le> a) OverflowTrap) (returnM (a - b))"

definition mul64 :: "nat \<Rightarrow> nat \<Rightarrow> (failure, 's, nat) act" where
  "mul64 a b = thenM (guard (a * b \<le> U64_MAX) OverflowTrap) (returnM (a * b))"

definition div64 :: "nat \<Rightarrow> nat \<Rightarrow> (failure, 's, nat) act" where
  "div64 a b = thenM (guard (b \<noteq> 0) DivTrap) (returnM (a div b))"

definition add32 :: "nat \<Rightarrow> nat \<Rightarrow> (failure, 's, nat) act" where
  "add32 a b = thenM (guard (a + b \<le> U32_MAX) OverflowTrap) (returnM (a + b))"

definition addi :: "int \<Rightarrow> int \<Rightarrow> (failure, 's, int) act" where
  "addi a b = thenM (guard (in_i128 (a + b)) OverflowTrap) (returnM (a + b))"

definition subi :: "int \<Rightarrow> int \<Rightarrow> (failure, 's, int) act" where
  "subi a b = thenM (guard (in_i128 (a - b)) OverflowTrap) (returnM (a - b))"

definition muli :: "int \<Rightarrow> int \<Rightarrow> (failure, 's, int) act" where
  "muli a b = thenM (guard (in_i128 (a * b)) OverflowTrap) (returnM (a * b))"

definition divi :: "int \<Rightarrow> int \<Rightarrow> (failure, 's, int) act" where
  "divi a b = thenM (guard (b \<noteq> 0) DivTrap)
     (thenM (guard (in_i128 (tdiv a b)) OverflowTrap) (returnM (tdiv a b)))"

lemmas arith64_defs = add64_def sub64_def mul64_def div64_def add32_def
lemmas arith128_defs = addi_def subi_def muli_def divi_def

lemma wp_require_auth [wp_simps]: "wp (require_auth e a) Q w = (authorized e a \<longrightarrow> Q () w)"
  by (simp add: require_auth_def wp_simps)

lemma wp_publish [wp_simps]:
  "wp (publish t k d) Q w =
     Q () (w\<lparr>events := events w @ [\<lparr>ev_topic = t, ev_keys = k, ev_data = d\<rparr>]\<rparr>)"
  by (simp add: publish_def wp_simps)

lemma wp_extend_ttl [wp_simps]:
  "wp (extend_ttl k t n) Q w = Q () (w\<lparr>ttl_log := ttl_log w @ [(k, t, n)]\<rparr>)"
  by (simp add: extend_ttl_def wp_simps)

lemma wp_extend_instance_ttl [wp_simps]:
  "wp extend_instance_ttl Q w =
     Q () (w\<lparr>ttl_log := ttl_log w @ [(K_Instance, INSTANCE_TTL_THRESHOLD, INSTANCE_TTL_LEDGERS)]\<rparr>)"
  by (simp add: extend_instance_ttl_def wp_simps)

lemma wp_transfer [wp_simps]:
  "wp (transfer e t from to n) Q w =
     (\<forall>tk. token_transfer e t from to n (tokens w) = Some tk \<longrightarrow> Q () (w\<lparr>tokens := tk\<rparr>))"
  by (auto simp: wp_def transfer_def split: option.splits)

lemma wp_arith64 [wp_simps]:
  "wp (add64 a b) Q1 w = (a + b \<le> U64_MAX \<longrightarrow> Q1 (a + b) w)"
  "wp (sub64 a b) Q1 w = (b \<le> a \<longrightarrow> Q1 (a - b) w)"
  "wp (mul64 a b) Q1 w = (a * b \<le> U64_MAX \<longrightarrow> Q1 (a * b) w)"
  "wp (div64 a b) Q1 w = (b \<noteq> 0 \<longrightarrow> Q1 (a div b) w)"
  "wp (add32 a b) Q1 w = (a + b \<le> U32_MAX \<longrightarrow> Q1 (a + b) w)"
  by (simp_all add: arith64_defs wp_simps)

lemma wp_arith128 [wp_simps]:
  "wp (addi x y) Q2 w = (in_i128 (x + y) \<longrightarrow> Q2 (x + y) w)"
  "wp (subi x y) Q2 w = (in_i128 (x - y) \<longrightarrow> Q2 (x - y) w)"
  "wp (muli x y) Q2 w = (in_i128 (x * y) \<longrightarrow> Q2 (x * y) w)"
  "wp (divi x y) Q2 w = (y \<noteq> 0 \<longrightarrow> in_i128 (tdiv x y) \<longrightarrow> Q2 (tdiv x y) w)"
  by (simp_all add: arith128_defs wp_simps)

lemma runs_host [run_simps]:
  "runs (require_auth e a) Q w = (authorized e a \<and> Q () w)"
  "runs (publish tp ks d) Q w =
     Q () (w\<lparr>events := events w @ [\<lparr>ev_topic = tp, ev_keys = ks, ev_data = d\<rparr>]\<rparr>)"
  "runs (extend_ttl k th n) Q w = Q () (w\<lparr>ttl_log := ttl_log w @ [(k, th, n)]\<rparr>)"
  "runs (transfer e t from to x) Q w =
     (\<exists>tk. token_transfer e t from to x (tokens w) = Some tk \<and> Q () (w\<lparr>tokens := tk\<rparr>))"
  by (auto simp: require_auth_def publish_def extend_ttl_def run_simps)
    (auto simp: runs_def transfer_def split: option.splits)

lemma runs_arith [run_simps]:
  "runs (add64 a b) Q1 w = (a + b \<le> U64_MAX \<and> Q1 (a + b) w)"
  "runs (sub64 a b) Q1 w = (b \<le> a \<and> Q1 (a - b) w)"
  "runs (mul64 a b) Q1 w = (a * b \<le> U64_MAX \<and> Q1 (a * b) w)"
  "runs (div64 a b) Q1 w = (b \<noteq> 0 \<and> Q1 (a div b) w)"
  "runs (add32 a b) Q1 w = (a + b \<le> U32_MAX \<and> Q1 (a + b) w)"
  "runs (addi x y) Q2 w = (in_i128 (x + y) \<and> Q2 (x + y) w)"
  "runs (subi x y) Q2 w = (in_i128 (x - y) \<and> Q2 (x - y) w)"
  "runs (muli x y) Q2 w = (in_i128 (x * y) \<and> Q2 (x * y) w)"
  "runs (divi x y) Q2 w = (y \<noteq> 0 \<and> in_i128 (tdiv x y) \<and> Q2 (tdiv x y) w)"
  by (simp_all add: arith64_defs arith128_defs run_simps)

lemmas host_defs = require_auth_def publish_def extend_ttl_def extend_instance_ttl_def

subsection \<open>Instance state\<close>

definition load_paused :: "('tok, bool) handler" where
  "load_paused = gets (\<lambda>w. case i_Paused (inst w) of None \<Rightarrow> False | Some b \<Rightarrow> b)"

definition assert_not_paused :: "('tok, unit) handler" where
  "assert_not_paused = (bindM (load_paused) (\<lambda>paused.
                       guard (\<not> paused) (Err Paused)))"

definition load_admin :: "('tok, address) handler" where
  "load_admin = (bindM (gets (\<lambda>w. i_Admin (inst w))) (\<lambda>a.
                ok_or a (Err NotInitialized)))"

definition require_admin :: "'tok env \<Rightarrow> ('tok, unit) handler" where
  "require_admin e = (bindM (load_admin) (\<lambda>admin.
                     require_auth e admin))"

definition require_initialized :: "('tok, unit) handler" where
  "require_initialized = (bindM (gets (\<lambda>w. i_Admin (inst w))) (\<lambda>a.
                         guard (a \<noteq> None) (Err NotInitialized)))"

definition load_token :: "('tok, address) handler" where
  "load_token = (bindM (gets (\<lambda>w. i_TokenAddress (inst w))) (\<lambda>t.
                ok_or t (Err NotInitialized)))"

text \<open>Instance storage writes.\<close>

definition set_inst :: "(instance_store \<Rightarrow> instance_store) \<Rightarrow> ('tok, unit) handler" where
  "set_inst f = modify (\<lambda>w. w\<lparr>inst := f (inst w)\<rparr>)"

definition is_paused_w :: "'tok world \<Rightarrow> bool" where
  "is_paused_w w \<longleftrightarrow> i_Paused (inst w) = Some True"

lemma wp_load_paused [wp_simps]: "wp load_paused Q w = Q (is_paused_w w) w"
  by (auto simp: load_paused_def is_paused_w_def wp_simps split: option.splits)

lemma wp_assert_not_paused [wp_simps]:
  "wp assert_not_paused Q w = (\<not> is_paused_w w \<longrightarrow> Q () w)"
  by (simp add: assert_not_paused_def wp_simps)

lemma wp_load_admin [wp_simps]:
  "wp load_admin Q w = (\<forall>a. i_Admin (inst w) = Some a \<longrightarrow> Q a w)"
  by (simp add: load_admin_def wp_simps)

lemma wp_require_admin [wp_simps]:
  "wp (require_admin e) Q w = (\<forall>a. i_Admin (inst w) = Some a \<longrightarrow> authorized e a \<longrightarrow> Q () w)"
  by (simp add: require_admin_def wp_simps)

lemma wp_require_initialized [wp_simps]:
  "wp require_initialized Q w = (i_Admin (inst w) \<noteq> None \<longrightarrow> Q () w)"
  by (simp add: require_initialized_def wp_simps)

lemma wp_load_token [wp_simps]:
  "wp load_token Q w = (\<forall>t. i_TokenAddress (inst w) = Some t \<longrightarrow> Q t w)"
  by (simp add: load_token_def wp_simps)

lemma wp_set_inst [wp_simps]: "wp (set_inst f) Q w = Q () (w\<lparr>inst := f (inst w)\<rparr>)"
  by (simp add: set_inst_def wp_simps)

lemmas inst_defs = load_paused_def assert_not_paused_def load_admin_def require_admin_def
  require_initialized_def load_token_def set_inst_def

subsection \<open>Persistent storage writes, one setter per group\<close>

definition set_idx :: "(index_store \<Rightarrow> index_store) \<Rightarrow> ('tok, unit) handler" where
  "set_idx f = modify (\<lambda>w. w\<lparr>idx := f (idx w)\<rparr>)"

definition set_logs :: "(log_store \<Rightarrow> log_store) \<Rightarrow> ('tok, unit) handler" where
  "set_logs f = modify (\<lambda>w. w\<lparr>logs := f (logs w)\<rparr>)"

definition set_pks :: "(passkey_store \<Rightarrow> passkey_store) \<Rightarrow> ('tok, unit) handler" where
  "set_pks f = modify (\<lambda>w. w\<lparr>pks := f (pks w)\<rparr>)"

definition set_wdr :: "(withdrawal_store \<Rightarrow> withdrawal_store) \<Rightarrow> ('tok, unit) handler" where
  "set_wdr f = modify (\<lambda>w. w\<lparr>wdr := f (wdr w)\<rparr>)"

definition set_rel :: "(release_store \<Rightarrow> release_store) \<Rightarrow> ('tok, unit) handler" where
  "set_rel f = modify (\<lambda>w. w\<lparr>rel := f (rel w)\<rparr>)"

definition set_vest :: "(vesting_store \<Rightarrow> vesting_store) \<Rightarrow> ('tok, unit) handler" where
  "set_vest f = modify (\<lambda>w. w\<lparr>vest := f (vest w)\<rparr>)"

definition set_msig :: "(multisig_store \<Rightarrow> multisig_store) \<Rightarrow> ('tok, unit) handler" where
  "set_msig f = modify (\<lambda>w. w\<lparr>msig := f (msig w)\<rparr>)"

definition set_feat :: "(feature_store \<Rightarrow> feature_store) \<Rightarrow> ('tok, unit) handler" where
  "set_feat f = modify (\<lambda>w. w\<lparr>feat := f (feat w)\<rparr>)"

lemmas set_defs = set_idx_def set_logs_def set_pks_def set_wdr_def set_rel_def set_vest_def
  set_msig_def set_feat_def

lemma wp_set [wp_simps]:
  "wp (set_idx f1) Q w = Q () (w\<lparr>idx := f1 (idx w)\<rparr>)"
  "wp (set_logs f2) Q w = Q () (w\<lparr>logs := f2 (logs w)\<rparr>)"
  "wp (set_pks f3) Q w = Q () (w\<lparr>pks := f3 (pks w)\<rparr>)"
  "wp (set_wdr f4) Q w = Q () (w\<lparr>wdr := f4 (wdr w)\<rparr>)"
  "wp (set_rel f5) Q w = Q () (w\<lparr>rel := f5 (rel w)\<rparr>)"
  "wp (set_vest f6) Q w = Q () (w\<lparr>vest := f6 (vest w)\<rparr>)"
  "wp (set_msig f7) Q w = Q () (w\<lparr>msig := f7 (msig w)\<rparr>)"
  "wp (set_feat f8) Q w = Q () (w\<lparr>feat := f8 (feat w)\<rparr>)"
  by (simp_all add: set_defs wp_simps)

subsection \<open>Vaults\<close>

definition load_vault :: "nat \<Rightarrow> ('tok, Vault) handler" where
  "load_vault vault_id = (bindM (gets (\<lambda>w. p_Vault w vault_id)) (\<lambda>v.
                         ok_or v (Err VaultNotFound)))"

definition try_load_vault :: "nat \<Rightarrow> ('tok, Vault option) handler" where
  "try_load_vault vault_id = gets (\<lambda>w. p_Vault w vault_id)"

definition save_vault :: "nat \<Rightarrow> Vault \<Rightarrow> ('tok, unit) handler" where
  "save_vault vault_id vault = (thenM (modify (\<lambda>w. w\<lparr>p_Vault := (p_Vault w)(vault_id \<mapsto> vault)\<rparr>)) (
                               extend_ttl (K_Vault vault_id) VAULT_TTL_THRESHOLD
       (vault_ttl_ledgers (v_check_in_interval vault))))"

definition extend_vault_ttl :: "nat \<Rightarrow> nat \<Rightarrow> ('tok, unit) handler" where
  "extend_vault_ttl vault_id check_in_interval =
     extend_ttl (K_Vault vault_id) VAULT_TTL_THRESHOLD (vault_ttl_ledgers check_in_interval)"

definition count_of :: "index_store \<Rightarrow> nat" where
  "count_of x = (case p_VaultCount x of None \<Rightarrow> 0 | Some n \<Rightarrow> n)"

definition vault_count :: "('tok, nat) handler" where
  "vault_count = gets (\<lambda>w. count_of (idx w))"

lemma count_of_upd [simp]:
  "count_of (x\<lparr>p_VaultCount := c\<rparr>) = (case c of None \<Rightarrow> 0 | Some n \<Rightarrow> n)"
  "count_of (x\<lparr>p_OwnerVaults := a1\<rparr>) = count_of x"
  "count_of (x\<lparr>p_BeneficiaryVaults := a2\<rparr>) = count_of x"
  "count_of (x\<lparr>p_VaultDuplicate := a3\<rparr>) = count_of x"
  "count_of (x\<lparr>p_TokenWhitelist := a4\<rparr>) = count_of x"
  "count_of (x\<lparr>p_WrappedToken := a5\<rparr>) = count_of x"
  "count_of (x\<lparr>p_BridgeConfig := a6\<rparr>) = count_of x"
  by (simp_all add: count_of_def)

lemma wp_load_vault [wp_simps]:
  "wp (load_vault i) Q w = (\<forall>v. p_Vault w i = Some v \<longrightarrow> Q v w)"
  by (simp add: load_vault_def wp_simps)

lemma wp_try_load_vault [wp_simps]: "wp (try_load_vault i) Q w = Q (p_Vault w i) w"
  by (simp add: try_load_vault_def wp_simps)

lemma wp_save_vault [wp_simps]:
  "wp (save_vault i v) Q w =
     Q () (w\<lparr>p_Vault := (p_Vault w)(i \<mapsto> v),
             ttl_log := ttl_log w @ [(K_Vault i, VAULT_TTL_THRESHOLD,
               vault_ttl_ledgers (v_check_in_interval v))]\<rparr>)"
  by (simp add: save_vault_def wp_simps)

lemma wp_vault_count [wp_simps]: "wp vault_count Q w = Q (count_of (idx w)) w"
  by (simp add: vault_count_def wp_simps)

lemma wp_extend_vault_ttl [wp_simps]:
  "wp (extend_vault_ttl i n) Q w =
     Q () (w\<lparr>ttl_log := ttl_log w @ [(K_Vault i, VAULT_TTL_THRESHOLD, vault_ttl_ledgers n)]\<rparr>)"
  by (simp add: extend_vault_ttl_def wp_simps)

lemmas vault_defs = load_vault_def try_load_vault_def save_vault_def extend_vault_ttl_def
  vault_count_def

subsection \<open>Owner and beneficiary indexes\<close>

definition ids_of :: "nat list option \<Rightarrow> nat list" where
  "ids_of x = (case x of None \<Rightarrow> [] | Some xs \<Rightarrow> xs)"

definition load_owner_vault_ids :: "address \<Rightarrow> ('tok, nat list) handler" where
  "load_owner_vault_ids owner = gets (\<lambda>w. ids_of (p_OwnerVaults (idx w) owner))"

definition save_owner_vault_ids ::
  "address \<Rightarrow> nat list \<Rightarrow> nat \<Rightarrow> ('tok, unit) handler" where
  "save_owner_vault_ids owner vault_ids check_in_interval = (thenM (set_idx (\<lambda>x. x\<lparr>p_OwnerVaults := (p_OwnerVaults x)(owner \<mapsto> vault_ids)\<rparr>)) (
                                                            extend_ttl (K_OwnerVaults owner) VAULT_TTL_THRESHOLD (vault_ttl_ledgers check_in_interval)))"

definition add_owner_vault_id :: "address \<Rightarrow> nat \<Rightarrow> nat \<Rightarrow> ('tok, unit) handler" where
  "add_owner_vault_id owner vault_id check_in_interval = (bindM (load_owner_vault_ids owner) (\<lambda>vault_ids.
                                                         save_owner_vault_ids owner (vault_ids @ [vault_id]) check_in_interval))"

definition remove_owner_vault_id :: "address \<Rightarrow> nat \<Rightarrow> nat \<Rightarrow> ('tok, unit) handler" where
  "remove_owner_vault_id owner vault_id check_in_interval = (bindM (load_owner_vault_ids owner) (\<lambda>vault_ids.
                                                            (let next_ids = filter (\<lambda>i. i \<noteq> vault_id) vault_ids in
                                                            if next_ids = []
     then set_idx (\<lambda>x. x\<lparr>p_OwnerVaults := (p_OwnerVaults x)(owner := None)\<rparr>)
     else save_owner_vault_ids owner next_ids check_in_interval)))"

definition load_beneficiary_vault_ids :: "address \<Rightarrow> ('tok, nat list) handler" where
  "load_beneficiary_vault_ids beneficiary =
     gets (\<lambda>w. ids_of (p_BeneficiaryVaults (idx w) beneficiary))"

definition save_beneficiary_vault_ids ::
  "address \<Rightarrow> nat list \<Rightarrow> nat \<Rightarrow> ('tok, unit) handler" where
  "save_beneficiary_vault_ids beneficiary vault_ids check_in_interval = (thenM (set_idx (\<lambda>x. x\<lparr>p_BeneficiaryVaults := (p_BeneficiaryVaults x)(beneficiary \<mapsto> vault_ids)\<rparr>)) (
                                                                        extend_ttl (K_BeneficiaryVaults beneficiary) VAULT_TTL_THRESHOLD
       (vault_ttl_ledgers check_in_interval)))"

definition add_beneficiary_vault_id :: "address \<Rightarrow> nat \<Rightarrow> nat \<Rightarrow> ('tok, unit) handler" where
  "add_beneficiary_vault_id beneficiary vault_id check_in_interval = (bindM (load_beneficiary_vault_ids beneficiary) (\<lambda>vault_ids.
                                                                     save_beneficiary_vault_ids beneficiary (vault_ids @ [vault_id]) check_in_interval))"

definition remove_beneficiary_vault_id :: "address \<Rightarrow> nat \<Rightarrow> nat \<Rightarrow> ('tok, unit) handler" where
  "remove_beneficiary_vault_id beneficiary vault_id check_in_interval = (bindM (load_beneficiary_vault_ids beneficiary) (\<lambda>vault_ids.
                                                                        (let next_ids = filter (\<lambda>i. i \<noteq> vault_id) vault_ids in
                                                                        if next_ids = []
     then set_idx (\<lambda>x. x\<lparr>p_BeneficiaryVaults := (p_BeneficiaryVaults x)(beneficiary := None)\<rparr>)
     else save_beneficiary_vault_ids beneficiary next_ids check_in_interval)))"

lemma wp_load_ids [wp_simps]:
  "wp (load_owner_vault_ids a) Q w = Q (ids_of (p_OwnerVaults (idx w) a)) w"
  "wp (load_beneficiary_vault_ids a) Q w = Q (ids_of (p_BeneficiaryVaults (idx w) a)) w"
  by (simp_all add: load_owner_vault_ids_def load_beneficiary_vault_ids_def wp_simps)

lemmas index_defs = load_owner_vault_ids_def save_owner_vault_ids_def add_owner_vault_id_def
  remove_owner_vault_id_def load_beneficiary_vault_ids_def save_beneficiary_vault_ids_def
  add_beneficiary_vault_id_def remove_beneficiary_vault_id_def

subsection \<open>Logs\<close>

definition log_of :: "'a list option \<Rightarrow> 'a list" where
  "log_of x = (case x of None \<Rightarrow> [] | Some xs \<Rightarrow> xs)"

definition append_activity_log :: "'tok env \<Rightarrow> nat \<Rightarrow> string \<Rightarrow> address \<Rightarrow> ('tok, unit) handler" where
  "append_activity_log e vault_id action caller =
     set_logs (\<lambda>l. l\<lparr>p_VaultAuditLog := (p_VaultAuditLog l)(vault_id \<mapsto>
       log_of (p_VaultAuditLog l vault_id) @
         [\<lparr>ae_action = action, ae_caller = caller, ae_timestamp = ledger_timestamp e,
           ae_operation = [], ae_actor = caller, ae_details = []\<rparr>])\<rparr>)"

definition log_audit_entry ::
  "'tok env \<Rightarrow> nat \<Rightarrow> string \<Rightarrow> address \<Rightarrow> string \<Rightarrow> ('tok, unit) handler" where
  "log_audit_entry e vault_id operation actor details = (thenM (set_logs (\<lambda>l. l\<lparr>p_VaultAuditLog := (p_VaultAuditLog l)(vault_id \<mapsto>
       log_of (p_VaultAuditLog l vault_id) @
         [\<lparr>ae_action = operation, ae_caller = actor, ae_timestamp = ledger_timestamp e,
           ae_operation = operation, ae_actor = actor, ae_details = details\<rparr>])\<rparr>)) (
                                                        bindM (load_vault vault_id) (\<lambda>vault.
                                                        extend_ttl (K_VaultAuditLog vault_id) VAULT_TTL_THRESHOLD
       (vault_ttl_ledgers (v_check_in_interval vault)))))"

definition record_state_transition ::
  "'tok env \<Rightarrow> nat \<Rightarrow> ReleaseStatus \<Rightarrow> ReleaseStatus \<Rightarrow> address \<Rightarrow> ('tok, unit) handler" where
  "record_state_transition e vault_id from to actor = (thenM (set_logs (\<lambda>l. l\<lparr>p_StateTransitionLog := (p_StateTransitionLog l)(vault_id \<mapsto>
       log_of (p_StateTransitionLog l vault_id) @
         [\<lparr>ste_from_status = from, ste_to_status = to, ste_actor = actor,
           ste_timestamp = ledger_timestamp e\<rparr>])\<rparr>)) (
                                                      publish STATE_TRANSITION_TOPIC [VU vault_id] [VStatus from, VStatus to, VA actor]))"

lemmas log_defs = append_activity_log_def log_audit_entry_def record_state_transition_def

subsection \<open>Accounting\<close>

text \<open>
  The money a vault records in token \<open>t\<close>, and the sum over the vaults \<open>1\<close> up to \<open>n\<close>.
\<close>

definition held :: "(nat \<Rightarrow> Vault option) \<Rightarrow> address \<Rightarrow> nat \<Rightarrow> int" where
  "held vs t i = (case vs i of None \<Rightarrow> 0
     | Some v \<Rightarrow> if v_token_address v = t then v_balance v else 0)"

definition total_held :: "(nat \<Rightarrow> Vault option) \<Rightarrow> nat \<Rightarrow> address \<Rightarrow> int" where
  "total_held vs n t = (\<Sum>i\<leftarrow>[1..<Suc n]. held vs t i)"

text \<open>
  The documented behaviour of a SEP-41 token the contract relies on: \<open>bal\<close> reads balances; a
  successful transfer moves exactly the amount, which is not negative and not more than the
  sender has, and touches no other balance.
\<close>

definition sep41 :: "'tok env \<Rightarrow> ('tok \<Rightarrow> address \<Rightarrow> address \<Rightarrow> int) \<Rightarrow> bool" where
  "sep41 e bal \<longleftrightarrow> (\<forall>t from to n tk tk'. token_transfer e t from to n tk = Some tk' \<longrightarrow>
     0 \<le> n \<and> n \<le> bal tk t from \<and>
     (\<forall>t' a. bal tk' t' a = bal tk t' a - (if t' = t \<and> a = from then n else 0)
                                       + (if t' = t \<and> a = to then n else 0)))"

text \<open>
  What the proofs assume of the host of one invocation: its tokens are SEP-41, and nobody can
  present an authorisation of the vault contract itself (Soroban does not let a contract be
  re-entered, so it never invokes itself).
\<close>

definition host_ok :: "'tok env \<Rightarrow> address \<Rightarrow> ('tok \<Rightarrow> address \<Rightarrow> address \<Rightarrow> int) \<Rightarrow> bool" where
  "host_ok e self bal \<longleftrightarrow>
     sep41 e bal \<and> current_contract_address e = self \<and> \<not> authorized e self"

text \<open>
  The accounts are in order: every vault has an identifier handed out by the counter, no vault
  has a negative balance, and for every token the contract owns at least what its vaults
  record.
\<close>

definition accounts_ok ::
  "('tok \<Rightarrow> address \<Rightarrow> address \<Rightarrow> int) \<Rightarrow> address \<Rightarrow> (nat \<Rightarrow> Vault option) \<Rightarrow> nat \<Rightarrow> 'tok \<Rightarrow> bool" where
  "accounts_ok bal self vs n tk \<longleftrightarrow>
     (\<forall>i v. vs i = Some v \<longrightarrow> 1 \<le> i \<and> i \<le> n \<and> 0 \<le> v_balance v) \<and>
     (\<forall>t. total_held vs n t \<le> bal tk t self)"

definition solvent ::
  "('tok \<Rightarrow> address \<Rightarrow> address \<Rightarrow> int) \<Rightarrow> address \<Rightarrow> 'tok world \<Rightarrow> bool" where
  "solvent bal self w \<longleftrightarrow> accounts_ok bal self (p_Vault w) (count_of (idx w)) (tokens w)"

text \<open>
  The part of the ledger the accounts depend on. Helpers that only write logs, indexes, events
  or rent keep it; their frame facts are collected in \<open>frame\<close>.
\<close>

definition rotations :: "'tok world \<Rightarrow> nat \<Rightarrow> BeneficiaryRotationEntry list option" where
  "rotations w = p_BeneficiaryRotationSchedule (rel w)"

definition vesting_plans ::
  "'tok world \<Rightarrow> (nat \<times> nat \<Rightarrow> VestingSchedule option) \<times> (nat \<times> nat \<Rightarrow> VestingPenaltyConfig option) \<times>
     (nat \<Rightarrow> MilestoneVestingSchedule option) \<times> (nat \<Rightarrow> VestingStaggerEntry list option)" where
  "vesting_plans w = (p_VestingSchedule (vest w), p_VestingPenalty (vest w), p_MilestoneVestingSchedule (vest w),
     p_VestingStagger (vest w))"

definition plans where "plans w = (rotations w, vesting_plans w)"

lemmas plan_defs = plans_def rotations_def vesting_plans_def

definition accts where "accts w = (p_Vault w, count_of (idx w), tokens w, plans w)"

lemma rotations_upd [simp]:
  "rotations (w\<lparr>tokens := x0\<rparr>) = rotations w"
  "rotations (w\<lparr>p_Vault := x1\<rparr>) = rotations w"
  "rotations (w\<lparr>inst := x2\<rparr>) = rotations w"
  "rotations (w\<lparr>idx := x3\<rparr>) = rotations w"
  "rotations (w\<lparr>logs := x4\<rparr>) = rotations w"
  "rotations (w\<lparr>pks := x5\<rparr>) = rotations w"
  "rotations (w\<lparr>wdr := x6\<rparr>) = rotations w"
  "rotations (w\<lparr>msig := x7\<rparr>) = rotations w"
  "rotations (w\<lparr>events := x8\<rparr>) = rotations w"
  "rotations (w\<lparr>ttl_log := x9\<rparr>) = rotations w"
  "rotations (w\<lparr>vest := x10\<rparr>) = rotations w"
  "rotations (w\<lparr>feat := x11\<rparr>) = rotations w"
  "rotations (w\<lparr>rel := x12\<rparr>) = p_BeneficiaryRotationSchedule x12"
  by (simp_all add: rotations_def)

lemma plans_upd [simp]:
  "plans (w\<lparr>tokens := x0\<rparr>) = plans w"
  "plans (w\<lparr>p_Vault := x1\<rparr>) = plans w"
  "plans (w\<lparr>inst := x2\<rparr>) = plans w"
  "plans (w\<lparr>idx := x3\<rparr>) = plans w"
  "plans (w\<lparr>logs := x4\<rparr>) = plans w"
  "plans (w\<lparr>pks := x5\<rparr>) = plans w"
  "plans (w\<lparr>wdr := x6\<rparr>) = plans w"
  "plans (w\<lparr>msig := x7\<rparr>) = plans w"
  "plans (w\<lparr>events := x8\<rparr>) = plans w"
  "plans (w\<lparr>ttl_log := x9\<rparr>) = plans w"
  "plans (w\<lparr>feat := x10\<rparr>) = plans w"
  by (simp_all add: plan_defs)

lemma plans_rotations: "plans t = plans w \<Longrightarrow> rotations t = rotations w"
  by (simp add: plans_def)

lemma keeps_host [frame]:
  "keeps accts (require_auth e a)" "keeps accts (publish t k d)" "keeps accts (extend_ttl k' n m)"
  "keeps accts extend_instance_ttl"
  by (simp_all add: require_auth_def publish_def extend_instance_ttl_def extend_ttl_def
      keeps_guard keeps_modify accts_def)

lemma keeps_arith [frame]:
  "keeps f (add64 a b)" "keeps f (sub64 a b)" "keeps f (mul64 a b)" "keeps f (div64 a b)"
  "keeps f (add32 a b)" "keeps f (addi x y)" "keeps f (subi x y)" "keeps f (muli x y)"
  "keeps f (divi x y)"
  unfolding arith64_defs arith128_defs by (intro frame)+

lemma keeps_set [frame]:
  "keeps accts (set_inst f0)" "keeps accts (set_logs f2)" "keeps accts (set_pks f3)"
  "keeps accts (set_wdr f4)" "keeps accts (set_msig f7)" "keeps accts (set_feat f8)"
  by (simp_all add: set_defs set_inst_def keeps_modify accts_def)

lemma keeps_set_rel:
  "(\<And>x. p_BeneficiaryRotationSchedule (f5 x) = p_BeneficiaryRotationSchedule x) \<Longrightarrow>
     keeps accts (set_rel f5)"
  by (simp add: set_rel_def keeps_modify accts_def plan_defs)

lemma keeps_set_vest:
  "(\<And>x. p_VestingSchedule (f6 x) = p_VestingSchedule x) \<Longrightarrow> (\<And>x. p_VestingPenalty (f6 x) = p_VestingPenalty x) \<Longrightarrow>
     (\<And>x. p_MilestoneVestingSchedule (f6 x) = p_MilestoneVestingSchedule x) \<Longrightarrow>
     (\<And>x. p_VestingStagger (f6 x) = p_VestingStagger x) \<Longrightarrow> keeps accts (set_vest f6)"
  by (simp add: set_vest_def keeps_modify accts_def plan_defs)

lemma keeps_set_idx: "(\<And>x. count_of (f1 x) = count_of x) \<Longrightarrow> keeps accts (set_idx f1)"
  by (simp add: set_idx_def keeps_modify accts_def)

lemma keeps_inst [frame]:
  "keeps f load_paused" "keeps f assert_not_paused" "keeps f load_admin"
  "keeps f require_initialized" "keeps f load_token" "keeps accts (require_admin e)"
  unfolding inst_defs by (intro frame)+

lemma keeps_load [frame]:
  "keeps f (load_vault i)" "keeps f (try_load_vault i)" "keeps f vault_count"
  "keeps f (load_owner_vault_ids a)" "keeps f (load_beneficiary_vault_ids b)"
  "keeps accts (extend_vault_ttl i n)"
  unfolding vault_defs index_defs by (intro frame)+

lemma keeps_index [frame]:
  "keeps accts (save_owner_vault_ids a is n)" "keeps accts (add_owner_vault_id a i n)"
  "keeps accts (remove_owner_vault_id a i n)" "keeps accts (save_beneficiary_vault_ids a is n)"
  "keeps accts (add_beneficiary_vault_id a i n)" "keeps accts (remove_beneficiary_vault_id a i n)"
  unfolding index_defs by (intro frame keeps_set_idx; simp)+

lemma keeps_log [frame]:
  "keeps accts (append_activity_log e i a c)" "keeps accts (log_audit_entry e i a c d)"
  "keeps accts (record_state_transition e i f t c)"
  unfolding log_defs by (intro frame)+

lemmas wp_frame = keeps_log [THEN wp_keeps] keeps_index [THEN wp_keeps]

text \<open>
  The other half of safety: no vault and no scheduled rotation promises its beneficiaries more
  than the whole, 10000 basis points; nothing burns more than the whole; a spending limit is
  positive.
\<close>

definition bps_total :: "BeneficiaryEntry list \<Rightarrow> nat" where
  "bps_total bs = sum_list (map be_bps bs)"

definition heir_terms :: "Vault \<Rightarrow> BeneficiaryEntry list \<times> nat \<times> int option" where
  "heir_terms v = (v_beneficiaries v, v_burn_percentage v, v_spending_limit v)"

definition sane :: "Vault \<Rightarrow> bool" where
  "sane v \<longleftrightarrow> bps_total (v_beneficiaries v) \<le> 10000 \<and> v_burn_percentage v \<le> 10000 \<and>
     (\<forall>l. v_spending_limit v = Some l \<longrightarrow> 0 < l)"

text \<open>
  The same of the plans for later: rotations, time schedules of non-negative amounts with a
  penalty of at most the whole, and milestone schedules whose shares add up to at most the whole
  and that have paid no more than the shares of the claimed milestones while the last milestone,
  which takes the rest, is unclaimed, and staggered tranches of at most the whole.
\<close>

definition milestone_share :: "int \<Rightarrow> MilestoneEntry \<Rightarrow> int" where
  "milestone_share n m = tdiv (n * int (me_bps m)) 10000"

definition milestones_ok :: "MilestoneVestingSchedule \<Rightarrow> bool" where
  "milestones_ok s \<longleftrightarrow> 0 \<le> mv_total_amount s \<and> mv_milestones s \<noteq> [] \<and> sum_list (map me_bps (mv_milestones s)) \<le> 10000 \<and>
     (\<not> me_claimed (last (mv_milestones s)) \<longrightarrow> mv_claimed_amount s \<le>
        sum_list (map (milestone_share (mv_total_amount s)) (filter me_claimed (mv_milestones s))))"

definition plans_ok where
  "plans_ok p \<longleftrightarrow> (case p of (rots, (vs, pen, ms, sg)) \<Rightarrow>
     (\<forall>i s r. rots i = Some s \<longrightarrow> r \<in> set s \<longrightarrow> bps_total (br_new_beneficiaries r) \<le> 10000) \<and>
     (\<forall>k s. vs k = Some s \<longrightarrow> 0 \<le> vs_total_amount s) \<and>
     (\<forall>k c. pen k = Some c \<longrightarrow> vp_penalty_bps c \<le> 10000) \<and>
     (\<forall>i m. ms i = Some m \<longrightarrow> milestones_ok m) \<and>
     (\<forall>i s x. sg i = Some s \<longrightarrow> x \<in> set s \<longrightarrow> sg_bps x \<le> 10000))"

definition splits_ok :: "'tok world \<Rightarrow> bool" where
  "splits_ok w \<longleftrightarrow> (\<forall>i v. p_Vault w i = Some v \<longrightarrow> sane v) \<and> plans_ok (plans w)"

lemma plans_okD:
  assumes "plans_ok (plans w)"
  shows "rotations w i = Some s \<Longrightarrow> r \<in> set s \<Longrightarrow> bps_total (br_new_beneficiaries r) \<le> 10000"
    "p_VestingSchedule (vest w) k = Some x \<Longrightarrow> 0 \<le> vs_total_amount x"
    "p_VestingPenalty (vest w) k = Some c \<Longrightarrow> vp_penalty_bps c \<le> 10000"
    "p_MilestoneVestingSchedule (vest w) i = Some m \<Longrightarrow> milestones_ok m"
    "p_VestingStagger (vest w) i = Some es \<Longrightarrow> y \<in> set es \<Longrightarrow> sg_bps y \<le> 10000"
  using assms unfolding plans_ok_def plans_def vesting_plans_def prod.case by blast+

lemma sane_cong: "heir_terms v' = heir_terms v \<Longrightarrow> sane v' = sane v"
  by (simp add: heir_terms_def sane_def)

lemma splits_okD:
  assumes "splits_ok w"
  shows "p_Vault w i = Some v \<Longrightarrow> sane v"
    "rotations w i = Some s \<Longrightarrow> r \<in> set s \<Longrightarrow> bps_total (br_new_beneficiaries r) \<le> 10000"
  using assms plans_okD(1) unfolding splits_ok_def by blast+

lemma splits_save:
  assumes "splits_ok w" "p_Vault t = (p_Vault w)(i \<mapsto> v)" "plans t = plans w" "sane v"
  shows "splits_ok t"
  using assms by (auto simp: splits_ok_def)

lemma splits_accts: "accts t = accts w \<Longrightarrow> splits_ok t = splits_ok w"
  by (simp add: accts_def splits_ok_def)

lemma keeps_splits: "keeps accts m \<Longrightarrow> splits_ok w \<Longrightarrow> wp m (\<lambda>_. splits_ok) w"
  by (erule wp_keeps) (drule splits_accts [THEN iffD2], assumption+)

text \<open>A transaction that keeps the accounts keeps the contract solvent.\<close>

lemma solvent_accts: "accts t = accts w \<Longrightarrow> solvent bal self t = solvent bal self w"
  by (simp add: accts_def solvent_def)

lemma keeps_solvent: "keeps accts m \<Longrightarrow> solvent bal self w \<Longrightarrow> wp m (\<lambda>_. solvent bal self) w"
  by (erule wp_keeps) (drule solvent_accts [THEN iffD2], assumption+)

lemma sep41D:
  assumes "sep41 e bal" "token_transfer e t from to n tk = Some tk'"
  shows "0 \<le> n" "n \<le> bal tk t from"
    "bal tk' t' a = bal tk t' a - (if t' = t \<and> a = from then n else 0)
                                + (if t' = t \<and> a = to then n else 0)"
  using assms unfolding sep41_def by blast+

lemma accounts_okD:
  assumes "accounts_ok bal self vs n tk"
  shows "vs i = Some v \<Longrightarrow> 1 \<le> i" "vs i = Some v \<Longrightarrow> i \<le> n" "vs i = Some v \<Longrightarrow> 0 \<le> v_balance v"
    "total_held vs n t \<le> bal tk t self"
  using assms unfolding accounts_ok_def by blast+

lemma sum_list_upd:
  fixes f g :: "nat \<Rightarrow> int"
  assumes "i \<in> set xs" "distinct xs" "\<And>j. j \<noteq> i \<Longrightarrow> g j = f j"
  shows "(\<Sum>j\<leftarrow>xs. g j) = (\<Sum>j\<leftarrow>xs. f j) - f i + g i"
  using assms
proof (induction xs)
  case (Cons x xs)
  show ?case
  proof (cases "x = i")
    case True
    then have "map g xs = map f xs" using Cons.prems by (auto intro!: Cons.prems(3))
    then have "sum_list (map g xs) = sum_list (map f xs)" by (rule arg_cong)
    then show ?thesis using True by simp
  next
    case False
    then show ?thesis using Cons by simp
  qed
qed simp

text \<open>Saving an existing vault changes the total of its token by the change of its balance.\<close>

lemma total_held_save:
  assumes "1 \<le> i" "i \<le> n" "vs i = Some v" "v_token_address v' = v_token_address v"
  shows "total_held (vs(i \<mapsto> v')) n t =
    total_held vs n t + (if v_token_address v = t then v_balance v' - v_balance v else 0)"
proof -
  have "(\<Sum>j\<leftarrow>[1..<Suc n]. held (vs(i \<mapsto> v')) t j) =
      (\<Sum>j\<leftarrow>[1..<Suc n]. held vs t j) - held vs t i + held (vs(i \<mapsto> v')) t i"
    by (rule sum_list_upd) (use assms in \<open>auto simp: held_def\<close>)
  then show ?thesis
    using assms by (simp add: total_held_def held_def)
qed

text \<open>A fresh vault extends the sum by its own balance.\<close>

lemma total_held_fresh:
  "total_held (vs(Suc n \<mapsto> v)) (Suc n) t =
     total_held vs n t + (if v_token_address v = t then v_balance v else 0)"
proof -
  have "map (held (vs(Suc n \<mapsto> v)) t) [1..<Suc n] = map (held vs t) [1..<Suc n]"
    by (auto simp: held_def)
  then have "sum_list (map (held (vs(Suc n \<mapsto> v)) t) [1..<Suc n]) =
      sum_list (map (held vs t) [1..<Suc n])"
    by (rule arg_cong)
  moreover have "[1..<Suc (Suc n)] = [1..<Suc n] @ [Suc n]"
    by simp
  ultimately show ?thesis
    by (simp add: total_held_def held_def [of _ _ "Suc n"] del: upt_Suc)
qed

lemma accounts_fresh:
  assumes "accounts_ok bal self vs n tk" "v_balance v = 0"
  shows "accounts_ok bal self (vs(Suc n \<mapsto> v)) (Suc n) tk"
  using assms by (auto simp: accounts_ok_def total_held_fresh le_Suc_eq)

text \<open>The three ways a handler touches the accounts: no money, money out, money in.\<close>

lemma accounts_save:
  assumes "accounts_ok bal self vs n tk" "vs i = Some v"
    "v_token_address v' = v_token_address v" "v_balance v' = v_balance v"
  shows "accounts_ok bal self (vs(i \<mapsto> v')) n tk"
proof -
  have "total_held (vs(i \<mapsto> v')) n t = total_held vs n t" for t
    using assms accounts_okD(1,2) [OF assms(1,2)] by (simp add: total_held_save)
  then show ?thesis
    using assms by (auto simp: accounts_ok_def)
qed

lemma accounts_pay:
  assumes "accounts_ok bal self vs n tk" "vs i = Some v" "host_ok e self bal"
    "token_transfer e (v_token_address v) self to amt tk = Some tk'"
    "v_token_address v' = v_token_address v" "v_balance v' = v_balance v - amt"
    "amt \<le> v_balance v"
  shows "accounts_ok bal self (vs(i \<mapsto> v')) n tk'"
proof -
  have tok: "sep41 e bal" using assms(3) by (simp add: host_ok_def)
  note mv = sep41D [OF tok assms(4)]
  note total = total_held_save [where vs = vs and i = i and v = v, OF
      accounts_okD(1,2) [OF assms(1,2)] assms(2,5)]
  have "total_held (vs(i \<mapsto> v')) n t \<le> bal tk' t self" for t
    using accounts_okD(4) [OF assms(1), of t] assms(6) mv(1) mv(3) [of t self]
    by (auto simp: total)
  then show ?thesis
    using assms by (auto simp: accounts_ok_def)
qed

lemma accounts_receive:
  assumes "accounts_ok bal self vs n tk" "vs i = Some v" "host_ok e self bal"
    "token_transfer e (v_token_address v) from self amt tk = Some tk'" "from \<noteq> self"
    "v_token_address v' = v_token_address v" "v_balance v' = v_balance v + amt"
  shows "accounts_ok bal self (vs(i \<mapsto> v')) n tk'"
proof -
  have tok: "sep41 e bal" using assms(3) by (simp add: host_ok_def)
  note mv = sep41D [OF tok assms(4)]
  note total = total_held_save [where vs = vs and i = i and v = v, OF
      accounts_okD(1,2) [OF assms(1,2)] assms(2,6)]
  have "total_held (vs(i \<mapsto> v')) n t \<le> bal tk' t self" for t
    using accounts_okD(4) [OF assms(1), of t] assms(5,7) mv(3) [of t self]
    by (auto simp: total)
  then show ?thesis
    using assms mv(1) by (auto simp: accounts_ok_def)
qed

subsection \<open>Views that decide the two halves of safety\<close>

text \<open>
  Solvency depends only on the token and the balance of each vault (\<open>purse\<close>), the splits only
  on the beneficiaries, the burn percentage, the spending limit and the scheduled rotations
  (\<open>heirs\<close>). A handler that keeps a view keeps what depends on it. The third view is the
  status of every vault.
\<close>

definition purse :: "'tok world \<Rightarrow> (nat \<Rightarrow> (address \<times> int) option) \<times> nat \<times> 'tok" where
  "purse w = (\<lambda>i. map_option (\<lambda>v. (v_token_address v, v_balance v)) (p_Vault w i),
     count_of (idx w), tokens w)"

definition heirs where
  "heirs w = (\<lambda>i. map_option heir_terms (p_Vault w i), plans w)"

definition statuses :: "'tok world \<Rightarrow> nat \<Rightarrow> ReleaseStatus option" where
  "statuses w i = map_option v_status (p_Vault w i)"

lemmas view_defs = purse_def heirs_def heir_terms_def statuses_def

lemma keeps_accts_views:
  "keeps accts m \<Longrightarrow> keeps purse m" "keeps accts m \<Longrightarrow> keeps heirs m" "keeps accts m \<Longrightarrow> keeps statuses m"
  unfolding keeps_def accts_def purse_def heirs_def statuses_def by (auto simp: fun_eq_iff)

lemma vault_purse:
  assumes "purse t = purse w" "p_Vault t i = Some v"
  shows "\<exists>u. p_Vault w i = Some u \<and> v_token_address u = v_token_address v \<and> v_balance u = v_balance v"
proof -
  have "map_option (\<lambda>v. (v_token_address v, v_balance v)) (p_Vault w i) =
      map_option (\<lambda>v. (v_token_address v, v_balance v)) (p_Vault t i)"
    using assms(1) by (simp add: purse_def fun_eq_iff)
  then show ?thesis using assms(2) by (cases "p_Vault w i") auto
qed

lemma held_purse:
  assumes "purse t = purse w"
  shows "held (p_Vault t) = held (p_Vault w)"
proof (intro ext)
  fix d i
  show "held (p_Vault t) d i = held (p_Vault w) d i"
    using vault_purse [OF assms, of i] vault_purse [OF assms [symmetric], of i]
    by (cases "p_Vault t i"; cases "p_Vault w i") (auto simp: held_def)
qed

lemma solvent_purse:
  assumes eq: "purse t = purse w" and sol: "solvent bal self w"
  shows "solvent bal self t"
proof -
  have "total_held (p_Vault t) n d = total_held (p_Vault w) n d" for n d
    by (simp add: total_held_def held_purse [OF eq])
  moreover have "1 \<le> i \<and> i \<le> count_of (idx w) \<and> 0 \<le> v_balance v" if "p_Vault t i = Some v" for i v
  proof -
    from vault_purse [OF eq that] obtain u where u: "p_Vault w i = Some u" "v_balance u = v_balance v"
      by blast
    show ?thesis
      using accounts_okD(1-3) [OF sol [unfolded solvent_def] u(1)] u(2) by simp
  qed
  moreover have "count_of (idx t) = count_of (idx w)" "tokens t = tokens w"
    using eq by (simp_all add: purse_def)
  ultimately show ?thesis
    using sol unfolding solvent_def accounts_ok_def by simp
qed

lemma splits_heirs:
  assumes "heirs t = heirs w" "splits_ok w"
  shows "splits_ok t"
proof -
  have "sane v" if "p_Vault t i = Some v" for i v
  proof -
    have "map_option heir_terms (p_Vault w i) = map_option heir_terms (p_Vault t i)"
      using assms(1) by (simp add: heirs_def fun_eq_iff)
    then have "\<exists>u. p_Vault w i = Some u \<and> heir_terms v = heir_terms u"
      using that by (cases "p_Vault w i") simp_all
    then show ?thesis using splits_okD(1) [OF assms(2)] sane_cong by blast
  qed
  moreover have "plans t = plans w" using assms(1) by (simp add: heirs_def)
  ultimately show ?thesis using assms(2) by (auto simp: splits_ok_def)
qed

lemma keeps_purse_solvent:
  "keeps purse m \<Longrightarrow> solvent bal self w \<Longrightarrow> wp m (\<lambda>_. solvent bal self) w"
  by (erule wp_keeps) (rule solvent_purse)

lemma keeps_heirs_splits: "keeps heirs m \<Longrightarrow> splits_ok w \<Longrightarrow> wp m (\<lambda>_. splits_ok) w"
  by (erule wp_keeps) (rule splits_heirs)

end
