(* ===== verification/Vault_Admin.thy ===== *)
theory Vault_Admin
  imports Vault_Storage
begin

section \<open>Administration: initialisation, pause, limits, protocol configuration, admin transfer\<close>

text \<open>
  The \<open>admin/config\<close> part of \<open>ttl_vault/src/lib.rs\<close> (lines 419 to 902, 1203 to 1410, 8015 to
  8033, 11973 to 12035): initialisation, the contract-wide pause with its record, the check-in
  interval bounds, TTL limits, the token whitelist with wrapped tokens, bridges, upgrades, the
  capacity limits, the two-step protocol configuration and the two-step admin transfer with
  their 24-hour timelocks.
\<close>

subsection \<open>Initialisation and pause\<close>

definition initialize :: "'tok env \<Rightarrow> address \<Rightarrow> address \<Rightarrow> ('tok, unit) handler" where
  "initialize e xlm_token admin = (bindM (gets (\<lambda>w. i_TokenAddress (inst w))) (\<lambda>t.
                                  bindM (gets (\<lambda>w. i_Admin (inst w))) (\<lambda>a.
                                  thenM (guard (t = None \<and> a = None) (Err AlreadyInitialized)) (
                                  thenM (guard (xlm_token \<noteq> admin) (Err InvalidAdmin)) (
                                  thenM (require_auth e admin) (
                                  thenM (set_inst (\<lambda>i. i\<lparr>i_TokenAddress := Some xlm_token\<rparr>)) (
                                  thenM (set_inst (\<lambda>i. i\<lparr>i_Admin := Some admin\<rparr>)) (
                                  thenM (set_inst (\<lambda>i. i\<lparr>i_Paused := Some False\<rparr>)) (
                                  thenM (set_inst (\<lambda>i. i\<lparr>i_Version := Some ''1.0.0''\<rparr>)) (
                                  extend_instance_ttl))))))))))"

definition pause :: "'tok env \<Rightarrow> bytes \<Rightarrow> ('tok, unit) handler" where
  "pause e reason = (thenM (require_admin e) (
                    bindM (load_admin) (\<lambda>paused_by.
                    thenM (set_inst (\<lambda>i. i\<lparr>i_Paused := Some True\<rparr>)) (
                    thenM (set_inst (\<lambda>i. i\<lparr>i_PauseRecord := Some \<lparr>pr_paused_by = paused_by, pr_reason = reason,
        pr_paused_at = ledger_timestamp e\<rparr>\<rparr>)) (
                    thenM (publish PAUSE_TOPIC [] [VFlag True, VA paused_by, VB reason]) (
                    extend_instance_ttl))))))"

definition get_pause_record :: "('tok, PauseRecord option) handler" where
  "get_pause_record = gets (\<lambda>w. i_PauseRecord (inst w))"

definition unpause :: "'tok env \<Rightarrow> ('tok, unit) handler" where
  "unpause e = (thenM (require_admin e) (
               thenM (set_inst (\<lambda>i. i\<lparr>i_Paused := Some False\<rparr>)) (
               thenM (set_inst (\<lambda>i. i\<lparr>i_PauseRecord := None\<rparr>)) (
               thenM (publish UNPAUSE_TOPIC [] [VFlag False]) (
               extend_instance_ttl)))))"

subsection \<open>Interval bounds and TTL limits\<close>

definition set_min_check_in_interval :: "'tok env \<Rightarrow> nat \<Rightarrow> ('tok, unit) handler" where
  "set_min_check_in_interval e min_interval = (thenM (require_admin e) (
                                              thenM (guard (min_interval \<noteq> 0) (Err InvalidConfig)) (
                                              bindM (gets (\<lambda>w. i_MaxCheckInInterval (inst w))) (\<lambda>mx.
                                              thenM ((case mx of None \<Rightarrow> returnM () | Some m \<Rightarrow> guard (min_interval \<le> m) (Err InvalidConfig))) (
                                              thenM (set_inst (\<lambda>i. i\<lparr>i_MinCheckInInterval := Some min_interval\<rparr>)) (
                                              thenM (extend_instance_ttl) (
                                              publish SET_MIN_INTERVAL_TOPIC [] [VU min_interval])))))))"

definition set_max_check_in_interval :: "'tok env \<Rightarrow> nat \<Rightarrow> ('tok, unit) handler" where
  "set_max_check_in_interval e max_interval = (thenM (require_admin e) (
                                              thenM (guard (max_interval \<noteq> 0) (Err InvalidConfig)) (
                                              bindM (gets (\<lambda>w. i_MinCheckInInterval (inst w))) (\<lambda>mn.
                                              thenM ((case mn of None \<Rightarrow> returnM () | Some m \<Rightarrow> guard (m \<le> max_interval) (Err InvalidConfig))) (
                                              thenM (set_inst (\<lambda>i. i\<lparr>i_MaxCheckInInterval := Some max_interval\<rparr>)) (
                                              thenM (extend_instance_ttl) (
                                              publish SET_MAX_INTERVAL_TOPIC [] [VU max_interval])))))))"

definition get_min_check_in_interval :: "('tok, nat option) handler" where
  "get_min_check_in_interval = gets (\<lambda>w. i_MinCheckInInterval (inst w))"

definition get_max_check_in_interval :: "('tok, nat option) handler" where
  "get_max_check_in_interval = gets (\<lambda>w. i_MaxCheckInInterval (inst w))"

definition set_max_ttl_seconds :: "'tok env \<Rightarrow> nat \<Rightarrow> ('tok, unit) handler" where
  "set_max_ttl_seconds e max_ttl = (thenM (require_admin e) (
                                   thenM (guard (max_ttl \<noteq> 0) (Err InvalidInterval)) (
                                   thenM (set_inst (\<lambda>i. i\<lparr>i_MaxTtlSeconds := Some max_ttl\<rparr>)) (
                                   thenM (extend_instance_ttl) (
                                   publish SET_MAX_TTL_TOPIC [] [VU max_ttl])))))"

definition max_ttl_of :: "instance_store \<Rightarrow> nat" where
  "max_ttl_of i = (case i_MaxTtlSeconds i of None \<Rightarrow> 315360000 | Some n \<Rightarrow> n)"

definition get_max_ttl_seconds :: "('tok, nat) handler" where
  "get_max_ttl_seconds = gets (\<lambda>w. max_ttl_of (inst w))"

definition set_ttl_decay_rate :: "'tok env \<Rightarrow> nat \<Rightarrow> ('tok, unit) handler" where
  "set_ttl_decay_rate e decay_rate = (thenM (require_admin e) (
                                     thenM (guard (\<not> (decay_rate = 0 \<or> 10000 < decay_rate)) (Err InvalidBps)) (
                                     thenM (set_inst (\<lambda>i. i\<lparr>i_TtlDecayRate := Some decay_rate\<rparr>)) (
                                     thenM (extend_instance_ttl) (
                                     publish SET_DECAY_RATE_TOPIC [] [VU decay_rate])))))"

definition get_ttl_decay_rate :: "('tok, nat) handler" where
  "get_ttl_decay_rate = gets (\<lambda>w. case i_TtlDecayRate (inst w) of None \<Rightarrow> 0 | Some n \<Rightarrow> n)"

definition assert_interval_in_bounds :: "nat \<Rightarrow> ('tok, unit) handler" where
  "assert_interval_in_bounds interval = (bindM (gets (\<lambda>w. i_MinCheckInInterval (inst w))) (\<lambda>mn.
                                        thenM ((case mn of None \<Rightarrow> returnM () | Some m \<Rightarrow> guard (m \<le> interval) (Err IntervalTooLow))) (
                                        bindM (gets (\<lambda>w. i_MaxCheckInInterval (inst w))) (\<lambda>mx.
                                        (case mx of None \<Rightarrow> returnM () | Some m \<Rightarrow> guard (interval \<le> m) (Err IntervalTooHigh))))))"

definition set_min_checkin_cooldown :: "'tok env \<Rightarrow> nat \<Rightarrow> ('tok, unit) handler" where
  "set_min_checkin_cooldown e cooldown_seconds = (thenM (require_admin e) (
                                                 thenM (set_inst (\<lambda>i. i\<lparr>i_MinCheckInCooldown := Some cooldown_seconds\<rparr>)) (
                                                 thenM (extend_instance_ttl) (
                                                 publish CHECKIN_RATE_LIMITED_TOPIC [] [VU cooldown_seconds]))))"

definition cooldown_of :: "instance_store \<Rightarrow> nat" where
  "cooldown_of i =
     (case i_MinCheckInCooldown i of None \<Rightarrow> DEFAULT_MIN_CHECKIN_COOLDOWN | Some n \<Rightarrow> n)"

definition get_min_checkin_cooldown :: "('tok, nat) handler" where
  "get_min_checkin_cooldown = gets (\<lambda>w. cooldown_of (inst w))"

subsection \<open>Token whitelist, wrapped tokens, bridges, upgrade\<close>

definition whitelist_token :: "'tok env \<Rightarrow> address \<Rightarrow> ('tok, unit) handler" where
  "whitelist_token e token_address = (thenM (require_admin e) (
                                     thenM (set_idx (\<lambda>x. x\<lparr>p_TokenWhitelist := (p_TokenWhitelist x)(token_address \<mapsto> True)\<rparr>)) (
                                     thenM (extend_ttl (K_TokenWhitelist token_address) VAULT_TTL_THRESHOLD VAULT_TTL_LEDGERS) (
                                     extend_instance_ttl))))"

definition remove_token_whitelist :: "'tok env \<Rightarrow> address \<Rightarrow> ('tok, unit) handler" where
  "remove_token_whitelist e token_address = (thenM (require_admin e) (
                                            thenM (set_idx (\<lambda>x. x\<lparr>p_TokenWhitelist := (p_TokenWhitelist x)(token_address := None)\<rparr>)) (
                                            extend_instance_ttl)))"

definition get_wrapped_token :: "address \<Rightarrow> ('tok, address option) handler" where
  "get_wrapped_token wrapped_token_address =
     gets (\<lambda>w. p_WrappedToken (idx w) wrapped_token_address)"

definition resolve_canonical_token :: "address \<Rightarrow> ('tok, address) handler" where
  "resolve_canonical_token token_address = (bindM (get_wrapped_token token_address) (\<lambda>c.
                                           returnM (case c of None \<Rightarrow> token_address | Some a \<Rightarrow> a)))"

definition is_token_whitelisted :: "address \<Rightarrow> ('tok, bool) handler" where
  "is_token_whitelisted token_address = (bindM (load_token) (\<lambda>default_token.
                                        if token_address = default_token then returnM True
     else (bindM (gets (\<lambda>w. p_TokenWhitelist (idx w) token_address = Some True)) (\<lambda>white.
          if white then returnM True
       else (bindM (get_wrapped_token token_address) (\<lambda>wrapped.
            (case wrapped of
            None \<Rightarrow> returnM False
          | Some canonical_token \<Rightarrow>
              if canonical_token = default_token then returnM True
              else gets (\<lambda>w. p_TokenWhitelist (idx w) canonical_token = Some True))))))))"

definition assert_token_whitelisted :: "address \<Rightarrow> ('tok, unit) handler" where
  "assert_token_whitelisted token_address = (bindM (is_token_whitelisted token_address) (\<lambda>b.
                                            guard b (Err TokenNotWhitelisted)))"

definition register_wrapped_token ::
  "'tok env \<Rightarrow> address \<Rightarrow> address \<Rightarrow> ('tok, unit) handler" where
  "register_wrapped_token e wrapped_token_address canonical_token_address = (thenM (require_admin e) (
                                                                            thenM (guard (wrapped_token_address \<noteq> canonical_token_address) (Err InvalidAmount)) (
                                                                            thenM (assert_token_whitelisted canonical_token_address) (
                                                                            thenM (set_idx (\<lambda>x. x\<lparr>p_WrappedToken :=
        (p_WrappedToken x)(wrapped_token_address \<mapsto> canonical_token_address)\<rparr>)) (
                                                                            thenM (extend_ttl (K_WrappedToken wrapped_token_address) VAULT_TTL_THRESHOLD VAULT_TTL_LEDGERS) (
                                                                            thenM (extend_instance_ttl) (
                                                                            publish WRAPPED_TOKEN_REGISTERED_TOPIC []
       [VA wrapped_token_address, VA canonical_token_address])))))))"

definition unregister_wrapped_token :: "'tok env \<Rightarrow> address \<Rightarrow> ('tok, unit) handler" where
  "unregister_wrapped_token e wrapped_token_address = (thenM (require_admin e) (
                                                      thenM (set_idx (\<lambda>x. x\<lparr>p_WrappedToken := (p_WrappedToken x)(wrapped_token_address := None)\<rparr>)) (
                                                      thenM (extend_instance_ttl) (
                                                      publish WRAPPED_TOKEN_UNREGISTERED_TOPIC [] [VA wrapped_token_address]))))"

definition register_bridge :: "'tok env \<Rightarrow> nat \<Rightarrow> address \<Rightarrow> ('tok, unit) handler" where
  "register_bridge e chain_id bridge_address = (thenM (require_admin e) (
                                               thenM (set_idx (\<lambda>x. x\<lparr>p_BridgeConfig := (p_BridgeConfig x)(chain_id \<mapsto>
        \<lparr>bc_chain_id = chain_id, bc_bridge_address = bridge_address, bc_is_active = True\<rparr>)\<rparr>)) (
                                               thenM (extend_ttl (K_BridgeConfig chain_id) VAULT_TTL_THRESHOLD VAULT_TTL_LEDGERS) (
                                               thenM (extend_instance_ttl) (
                                               publish ''br_reg'' [] [VU chain_id, VA bridge_address])))))"

definition deactivate_bridge :: "'tok env \<Rightarrow> nat \<Rightarrow> ('tok, unit) handler" where
  "deactivate_bridge e chain_id = (thenM (require_admin e) (
                                  bindM (gets (\<lambda>w. p_BridgeConfig (idx w) chain_id)) (\<lambda>c.
                                  thenM ((case c of None \<Rightarrow> returnM () | Some config \<Rightarrow> (thenM (set_idx (\<lambda>x. x\<lparr>p_BridgeConfig := (p_BridgeConfig x)(chain_id \<mapsto>
           config\<lparr>bc_is_active := False\<rparr>)\<rparr>)) (
                                                                          extend_ttl (K_BridgeConfig chain_id) VAULT_TTL_THRESHOLD VAULT_TTL_LEDGERS)))) (
                                  thenM (extend_instance_ttl) (
                                  publish ''br_deact'' [] [VU chain_id])))))"

definition get_bridge_config :: "nat \<Rightarrow> ('tok, BridgeConfig option) handler" where
  "get_bridge_config chain_id = gets (\<lambda>w. p_BridgeConfig (idx w) chain_id)"

definition is_bridge_active :: "nat \<Rightarrow> ('tok, bool) handler" where
  "is_bridge_active chain_id = (bindM (get_bridge_config chain_id) (\<lambda>c.
                               returnM (case c of None \<Rightarrow> False | Some config \<Rightarrow> bc_is_active config)))"

definition validate_upgrade :: "bytes \<Rightarrow> ('tok, unit) handler" where
  "validate_upgrade new_wasm_hash =
     guard (new_wasm_hash \<noteq> replicate 32 0) (Err UpgradeInvalidHash)"

definition upgrade :: "'tok env \<Rightarrow> bytes \<Rightarrow> ('tok, unit) handler" where
  "upgrade e new_wasm_hash = (thenM (require_admin e) (
                             thenM (validate_upgrade new_wasm_hash) (
                             thenM (set_inst (\<lambda>i. i\<lparr>i_wasm_hash := Some new_wasm_hash\<rparr>)) (
                             extend_instance_ttl))))"

subsection \<open>Capacity limits\<close>

definition set_owner_vault_limit :: "'tok env \<Rightarrow> nat \<Rightarrow> ('tok, unit) handler" where
  "set_owner_vault_limit e limit = (thenM (require_admin e) (
                                   thenM (set_inst (\<lambda>i. i\<lparr>i_OwnerVaultCount := Some limit\<rparr>)) (
                                   thenM (extend_instance_ttl) (
                                   publish VAULT_CAP_TOPIC [] [VU limit]))))"

definition owner_limit_of :: "instance_store \<Rightarrow> nat" where
  "owner_limit_of i = (case i_OwnerVaultCount i of None \<Rightarrow> 0 | Some n \<Rightarrow> n)"

definition get_owner_vault_limit :: "('tok, nat) handler" where
  "get_owner_vault_limit = gets (\<lambda>w. owner_limit_of (inst w))"

definition set_beneficiary_vault_limit :: "'tok env \<Rightarrow> nat \<Rightarrow> ('tok, unit) handler" where
  "set_beneficiary_vault_limit e limit = (thenM (require_admin e) (
                                         thenM (set_inst (\<lambda>i. i\<lparr>i_BeneficiaryVaultLimit := Some limit\<rparr>)) (
                                         thenM (extend_instance_ttl) (
                                         publish BENEFICIARY_CAP_TOPIC [] [VU limit]))))"

definition beneficiary_limit_of :: "instance_store \<Rightarrow> nat" where
  "beneficiary_limit_of i = (case i_BeneficiaryVaultLimit i of None \<Rightarrow> 0 | Some n \<Rightarrow> n)"

definition get_beneficiary_vault_limit :: "('tok, nat) handler" where
  "get_beneficiary_vault_limit = gets (\<lambda>w. beneficiary_limit_of (inst w))"

definition assert_beneficiary_capacity :: "address \<Rightarrow> ('tok, unit) handler" where
  "assert_beneficiary_capacity beneficiary = (bindM (get_beneficiary_vault_limit) (\<lambda>limit.
                                             whenM (0 < limit) (bindM (load_beneficiary_vault_ids beneficiary) (\<lambda>ids.
                       guard (length ids < limit) (Err BeneficiaryCapacityExceeded)))))"

subsection \<open>Two-step protocol configuration\<close>

definition get_protocol_config :: "('tok, ProtocolConfig) handler" where
  "get_protocol_config = gets (\<lambda>w. let i = inst w in
     \<lparr>pc_min_check_in_interval = i_MinCheckInInterval i,
      pc_max_check_in_interval = i_MaxCheckInInterval i,
      pc_max_ttl_seconds = max_ttl_of i,
      pc_ttl_decay_rate = (case i_TtlDecayRate i of None \<Rightarrow> 0 | Some n \<Rightarrow> n),
      pc_require_utf8_metadata = (case i_RequireUtf8Metadata i of None \<Rightarrow> False | Some b \<Rightarrow> b),
      pc_max_vaults_per_owner = (case i_MaxVaultsPerOwner i of None \<Rightarrow> 0 | Some n \<Rightarrow> n)\<rparr>)"

definition propose_protocol_config :: "'tok env \<Rightarrow> ProtocolConfig \<Rightarrow> ('tok, unit) handler" where
  "propose_protocol_config e config = (thenM (require_admin e) (
                                      thenM (guard (pc_min_check_in_interval config \<noteq> Some 0) (Err InvalidInterval)) (
                                      thenM (guard (pc_max_check_in_interval config \<noteq> Some 0) (Err InvalidInterval)) (
                                      thenM ((case (pc_min_check_in_interval config, pc_max_check_in_interval config) of
        (Some mn, Some mx) \<Rightarrow> guard (mn \<le> mx) (Err InvalidInterval)
      | _ \<Rightarrow> returnM ())) (
                                      thenM (guard (pc_max_ttl_seconds config \<noteq> 0) (Err InvalidInterval)) (
                                      thenM (guard (pc_ttl_decay_rate config \<le> 10000) (Err InvalidBps)) (
                                      thenM (set_inst (\<lambda>i. i\<lparr>i_PendingProtocolConfig := Some config\<rparr>)) (
                                      thenM (set_inst (\<lambda>i. i\<lparr>i_ProtocolConfigProposedAt := Some (ledger_timestamp e)\<rparr>)) (
                                      thenM (extend_instance_ttl) (
                                      publish PROTOCOL_CONFIG_PROPOSED_TOPIC [] [VU (ledger_timestamp e)]))))))))))"

definition apply_protocol_config :: "'tok env \<Rightarrow> ('tok, unit) handler" where
  "apply_protocol_config e = (thenM (require_admin e) (
                             bindM (gets (\<lambda>w. i_PendingProtocolConfig (inst w))) (\<lambda>c.
                             bindM (ok_or c (Err NoPendingProtocolConfig)) (\<lambda>config.
                             bindM (gets (\<lambda>w. i_ProtocolConfigProposedAt (inst w))) (\<lambda>p.
                             bindM (ok_or p (Err NoPendingProtocolConfig)) (\<lambda>proposed_at.
                             bindM (add64 proposed_at PROTOCOL_CONFIG_TIMELOCK) (\<lambda>unlock.
                             thenM (guard (unlock \<le> ledger_timestamp e) (Err ProtocolConfigTimeLocked)) (
                             thenM (set_inst (\<lambda>i. i\<lparr>i_MinCheckInInterval := pc_min_check_in_interval config\<rparr>)) (
                             thenM (set_inst (\<lambda>i. i\<lparr>i_MaxCheckInInterval := pc_max_check_in_interval config\<rparr>)) (
                             thenM (set_inst (\<lambda>i. i\<lparr>i_MaxTtlSeconds := Some (pc_max_ttl_seconds config)\<rparr>)) (
                             thenM (set_inst (\<lambda>i. i\<lparr>i_TtlDecayRate := Some (pc_ttl_decay_rate config)\<rparr>)) (
                             thenM (set_inst (\<lambda>i. i\<lparr>i_PendingProtocolConfig := None\<rparr>)) (
                             thenM (set_inst (\<lambda>i. i\<lparr>i_ProtocolConfigProposedAt := None\<rparr>)) (
                             thenM (extend_instance_ttl) (
                             publish PROTOCOL_CONFIG_APPLIED_TOPIC [] [VU (ledger_timestamp e)])))))))))))))))"

subsection \<open>Two-step admin transfer\<close>

definition is_paused :: "('tok, bool) handler" where
  "is_paused = load_paused"

definition get_admin :: "('tok, address) handler" where
  "get_admin = (bindM (gets (\<lambda>w. i_Admin (inst w))) (\<lambda>a.
               ok_or a (Err NotInitialized)))"

definition get_contract_version :: "('tok, string) handler" where
  "get_contract_version = (bindM (gets (\<lambda>w. i_Version (inst w))) (\<lambda>a.
                          ok_or a (Err NotInitialized)))"

definition propose_new_admin :: "'tok env \<Rightarrow> address \<Rightarrow> ('tok, unit) handler" where
  "propose_new_admin e new_admin = (thenM (require_admin e) (
                                   thenM (set_inst (\<lambda>i. i\<lparr>i_PendingAdmin := Some new_admin\<rparr>)) (
                                   thenM (set_inst (\<lambda>i. i\<lparr>i_AdminTransferProposedAt := Some (ledger_timestamp e)\<rparr>)) (
                                   thenM (extend_instance_ttl) (
                                   publish ADMIN_TRANSFER_PROPOSED_TOPIC [] [VA new_admin, VU (ledger_timestamp e)])))))"

definition propose_admin :: "'tok env \<Rightarrow> address \<Rightarrow> ('tok, unit) handler" where
  "propose_admin e new_admin = propose_new_admin e new_admin"

definition get_pending_admin :: "('tok, address option) handler" where
  "get_pending_admin = gets (\<lambda>w. i_PendingAdmin (inst w))"

definition accept_admin :: "'tok env \<Rightarrow> ('tok, unit) handler" where
  "accept_admin e = (bindM (gets (\<lambda>w. i_PendingAdmin (inst w))) (\<lambda>p.
                    bindM (ok_or p (Err NoPendingAdmin)) (\<lambda>pending.
                    thenM (require_auth e pending) (
                    bindM (gets (\<lambda>w. i_AdminTransferProposedAt (inst w))) (\<lambda>at.
                    bindM (add64 (case at of None \<Rightarrow> 0 | Some n \<Rightarrow> n) ADMIN_TRANSFER_TIMELOCK) (\<lambda>unlock.
                    thenM (guard (unlock \<le> ledger_timestamp e) (Err AdminTransferTimeLocked)) (
                    thenM (set_inst (\<lambda>i. i\<lparr>i_Admin := Some pending\<rparr>)) (
                    thenM (set_inst (\<lambda>i. i\<lparr>i_PendingAdmin := None\<rparr>)) (
                    thenM (set_inst (\<lambda>i. i\<lparr>i_AdminTransferProposedAt := None\<rparr>)) (
                    thenM (extend_instance_ttl) (
                    publish ADMIN_TRANSFER_COMPLETED_TOPIC [] [VA pending])))))))))))"

lemmas admin_defs = initialize_def pause_def unpause_def set_min_check_in_interval_def
  set_max_check_in_interval_def set_max_ttl_seconds_def set_ttl_decay_rate_def
  set_min_checkin_cooldown_def whitelist_token_def remove_token_whitelist_def
  register_wrapped_token_def unregister_wrapped_token_def register_bridge_def
  deactivate_bridge_def upgrade_def validate_upgrade_def set_owner_vault_limit_def
  set_beneficiary_vault_limit_def propose_protocol_config_def apply_protocol_config_def
  propose_new_admin_def propose_admin_def accept_admin_def

subsection \<open>Weakest preconditions of the readers\<close>

definition token_allowed :: "address \<Rightarrow> index_store \<Rightarrow> address \<Rightarrow> bool" where
  "token_allowed dflt x t \<longleftrightarrow> t = dflt \<or> p_TokenWhitelist x t = Some True \<or>
     (\<exists>c. p_WrappedToken x t = Some c \<and> (c = dflt \<or> p_TokenWhitelist x c = Some True))"

lemma wp_is_token_whitelisted [wp_simps]:
  "wp (is_token_whitelisted t) Q w =
     (\<forall>d. i_TokenAddress (inst w) = Some d \<longrightarrow> Q (token_allowed d (idx w) t) w)"
  by (cases "i_TokenAddress (inst w)"; cases "p_WrappedToken (idx w) t")
    (simp_all add: is_token_whitelisted_def get_wrapped_token_def token_allowed_def wp_simps)

lemma wp_assert_token_whitelisted [wp_simps]:
  "wp (assert_token_whitelisted t) Q w =
     (\<forall>d. i_TokenAddress (inst w) = Some d \<longrightarrow> token_allowed d (idx w) t \<longrightarrow> Q () w)"
  by (auto simp: assert_token_whitelisted_def wp_simps)

lemma wp_get_max_ttl_seconds [wp_simps]:
  "wp get_max_ttl_seconds Q w = Q (max_ttl_of (inst w)) w"
  by (simp add: get_max_ttl_seconds_def wp_simps)

definition interval_in_bounds :: "instance_store \<Rightarrow> nat \<Rightarrow> bool" where
  "interval_in_bounds i n \<longleftrightarrow>
     (case i_MinCheckInInterval i of None \<Rightarrow> True | Some m \<Rightarrow> m \<le> n) \<and>
     (case i_MaxCheckInInterval i of None \<Rightarrow> True | Some m \<Rightarrow> n \<le> m)"

lemma wp_assert_interval_in_bounds [wp_simps]:
  "wp (assert_interval_in_bounds n) Q w = (interval_in_bounds (inst w) n \<longrightarrow> Q () w)"
  by (auto simp: assert_interval_in_bounds_def interval_in_bounds_def wp_simps split: option.splits)

lemma wp_assert_beneficiary_capacity [wp_simps]:
  "wp (assert_beneficiary_capacity b) Q w =
     ((beneficiary_limit_of (inst w) = 0 \<or>
       length (ids_of (p_BeneficiaryVaults (idx w) b)) < beneficiary_limit_of (inst w)) \<longrightarrow> Q () w)"
  by (auto simp: assert_beneficiary_capacity_def get_beneficiary_vault_limit_def
      load_beneficiary_vault_ids_def wp_simps)

subsection \<open>Frames: administration never touches the vaults\<close>

lemma keeps_admin_readers [frame]:
  "keeps f (is_token_whitelisted tk)" "keeps f (assert_token_whitelisted tk)"
  "keeps f (assert_interval_in_bounds n)" "keeps f (assert_beneficiary_capacity a)"
  "keeps f get_owner_vault_limit" "keeps f get_beneficiary_vault_limit"
  unfolding is_token_whitelisted_def assert_token_whitelisted_def get_wrapped_token_def
    assert_interval_in_bounds_def assert_beneficiary_capacity_def get_owner_vault_limit_def
    get_beneficiary_vault_limit_def
  by (intro frame)+

lemma keeps_admin [frame]:
  "keeps accts (initialize e tk a)" "keeps accts (pause e r)" "keeps accts (unpause e)"
  "keeps accts (set_min_check_in_interval e n)" "keeps accts (set_max_check_in_interval e n)"
  "keeps accts (set_max_ttl_seconds e n)" "keeps accts (set_ttl_decay_rate e n)"
  "keeps accts (set_min_checkin_cooldown e n)" "keeps accts (whitelist_token e tk)"
  "keeps accts (remove_token_whitelist e tk)" "keeps accts (register_wrapped_token e tk b)"
  "keeps accts (unregister_wrapped_token e tk)" "keeps accts (register_bridge e n b)"
  "keeps accts (deactivate_bridge e n)" "keeps accts (upgrade e r)"
  "keeps accts (set_owner_vault_limit e n)" "keeps accts (set_beneficiary_vault_limit e n)"
  "keeps accts (propose_protocol_config e pc)" "keeps accts (apply_protocol_config e)"
  "keeps accts (propose_new_admin e a)" "keeps accts (propose_admin e a)" "keeps accts (accept_admin e)"
  unfolding admin_defs by (intro frame keeps_set_idx; simp)+

end
