(* ===== verification/Vault_CheckIn.thy ===== *)
theory Vault_CheckIn
  imports Vault_Admin
begin

section \<open>Vault creation and check-in\<close>

text \<open>
  \<open>create_vault\<close> and \<open>check_in\<close> of \<open>ttl_vault/src/lib.rs\<close> with everything they call: the
  passkey gate (registration, compromise, escrow, expiry), the passkey usage and audit logs
  with their 1000-entry caps, check-in delegates with replay nonces, the scheduled beneficiary
  rotation, the inactivity penalty, the 50-entry ring buffer of check-in times and the streak
  counter.
\<close>

subsection \<open>Creation\<close>

definition assert_metadata_len :: "string \<Rightarrow> ('tok, unit) handler" where
  "assert_metadata_len metadata = guard (length metadata \<le> MAX_METADATA_LEN) (Err InvalidAmount)"

definition new_vault ::
  "address \<Rightarrow> address \<Rightarrow> nat \<Rightarrow> nat \<Rightarrow> address \<Rightarrow> Vault" where
  "new_vault owner beneficiary check_in_interval timestamp vault_token =
     \<lparr>v_owner = owner, v_beneficiary = beneficiary, v_balance = 0,
      v_check_in_interval = check_in_interval, v_last_check_in = timestamp,
      v_created_at = timestamp, v_status = Locked, v_beneficiaries = [], v_metadata = [],
      v_token_address = vault_token, v_custom_metadata = [], v_is_paused = False,
      v_release_condition = TTLExpiry, v_parent_vault_id = None, v_passkey_hash = None,
      v_max_deposit_amount = None, v_withdrawal_approval_threshold = None,
      v_spending_limit = None, v_inactivity_penalty_bps = None, v_burn_percentage = 0,
      v_penalty_recipient = None\<rparr>"

definition create_vault ::
  "'tok env \<Rightarrow> address \<Rightarrow> address \<Rightarrow> nat \<Rightarrow> address option \<Rightarrow> ('tok, nat) handler" where
  "create_vault e owner beneficiary check_in_interval token_address = (thenM (require_auth e owner) (
                                                                      thenM (require_initialized) (
                                                                      bindM (load_admin) (\<lambda>admin.
                                                                      thenM (guard (owner \<noteq> admin) (Err AdminCannotOwnVault)) (
                                                                      thenM (guard (check_in_interval \<noteq> 0) (Err InvalidInterval)) (
                                                                      thenM (assert_interval_in_bounds check_in_interval) (
                                                                      thenM (guard (owner \<noteq> beneficiary) (Err InvalidBeneficiary)) (
                                                                      bindM (gets (\<lambda>w. p_VaultDuplicate (idx w) (owner, beneficiary, check_in_interval))) (\<lambda>dup.
                                                                      thenM ((case dup of None \<Rightarrow> returnM () | Some existing_id \<Rightarrow> (thenM (publish DUPLICATE_VAULT_TOPIC []
          [VA owner, VA beneficiary, VU check_in_interval, VU existing_id]) (
                                                                                 throw (Err DuplicateVault))))) (
                                                                      bindM (get_owner_vault_limit) (\<lambda>limit.
                                                                      thenM (whenM (0 < limit) (bindM (load_owner_vault_ids owner) (\<lambda>ids.
                       guard (length ids < limit) (Err VaultCapacityExceeded)))) (
                                                                      thenM (assert_beneficiary_capacity beneficiary) (
                                                                      bindM ((case token_address of
        Some addr \<Rightarrow> (thenM (assert_token_whitelisted addr) (
                                returnM addr))
      | None \<Rightarrow> load_token)) (\<lambda>vault_token.
                                                                      bindM (vault_count) (\<lambda>count.
                                                                      bindM (add64 count 1) (\<lambda>vault_id.
                                                                      thenM (assert_metadata_len []) (
                                                                      thenM (save_vault vault_id
       (new_vault owner beneficiary check_in_interval (ledger_timestamp e) vault_token)) (
                                                                      thenM (add_owner_vault_id owner vault_id check_in_interval) (
                                                                      thenM (add_beneficiary_vault_id beneficiary vault_id check_in_interval) (
                                                                      thenM (set_pks (\<lambda>p. p\<lparr>p_VaultPasskeys := (p_VaultPasskeys p)(vault_id \<mapsto> [])\<rparr>)) (
                                                                      thenM (set_pks (\<lambda>p. p\<lparr>p_BackupCodes := (p_BackupCodes p)(vault_id \<mapsto> [])\<rparr>)) (
                                                                      thenM (extend_ttl (K_VaultPasskeys vault_id) VAULT_TTL_THRESHOLD
       (vault_ttl_ledgers check_in_interval)) (
                                                                      thenM (extend_ttl (K_BackupCodes vault_id) VAULT_TTL_THRESHOLD
       (vault_ttl_ledgers check_in_interval)) (
                                                                      thenM (set_idx (\<lambda>x. x\<lparr>p_VaultCount := Some vault_id\<rparr>)) (
                                                                      thenM (extend_ttl K_VaultCount VAULT_TTL_THRESHOLD VAULT_TTL_LEDGERS) (
                                                                      thenM (extend_instance_ttl) (
                                                                      thenM (append_activity_log e vault_id ''create_vault'' owner) (
                                                                      thenM (set_idx (\<lambda>x. x\<lparr>p_VaultDuplicate :=
        (p_VaultDuplicate x)((owner, beneficiary, check_in_interval) \<mapsto> vault_id)\<rparr>)) (
                                                                      thenM (extend_ttl (K_VaultDuplicate owner beneficiary check_in_interval) VAULT_TTL_THRESHOLD
       (vault_ttl_ledgers check_in_interval)) (
                                                                      thenM (publish VAULT_CREATED_TOPIC [] [VU vault_id, VA owner, VA beneficiary,
       VU check_in_interval, VU (ledger_timestamp e)]) (
                                                                      returnM vault_id)))))))))))))))))))))))))))))))"

subsection \<open>Passkeys at check-in\<close>

definition validate_passkey_for_checkin ::
  "nat \<Rightarrow> Vault \<Rightarrow> bytes \<Rightarrow> nat \<Rightarrow> ('tok, unit) handler" where
  "validate_passkey_for_checkin vault_id vault passkey_hash now = (bindM (gets (\<lambda>w. log_of (p_VaultPasskeys (pks w) vault_id))) (\<lambda>passkeys.
                                                                  thenM ((if passkeys \<noteq> [] then
        guard (\<exists>p \<in> set passkeys. pk_hash p = passkey_hash) (Err InvalidPasskey)
      else (case v_passkey_hash vault of
          None \<Rightarrow> returnM ()
        | Some primary \<Rightarrow> guard (primary = passkey_hash) (Err InvalidPasskey)))) (
                                                                  bindM (gets (\<lambda>w. log_of (p_CompromisedPasskeys (pks w) vault_id))) (\<lambda>compromised.
                                                                  thenM (whenM (passkey_hash \<in> set compromised) (thenM (publish PASSKEY_COMPROMISED_TOPIC [VU vault_id] [VB passkey_hash]) (
                                                throw (Err PasskeyCompromised)))) (
                                                                  bindM (gets (\<lambda>w. p_PasskeyEscrow (pks w) (vault_id, passkey_hash))) (\<lambda>escrow.
                                                                  thenM (guard (escrow = None) (Err PasskeyInEscrow)) (
                                                                  bindM (gets (\<lambda>w. p_PasskeyExpiry (pks w) (vault_id, passkey_hash))) (\<lambda>expiry.
                                                                  (case expiry of None \<Rightarrow> returnM () | Some t \<Rightarrow>
        whenM (t < now) (thenM (publish PASSKEY_EXPIRED_TOPIC [VU vault_id] [VB passkey_hash]) (
                        throw (Err PasskeyExpired))))))))))))"

text \<open>How often the passkey changes along a window of the usage log, the first entry included.\<close>

fun switches :: "bytes option \<Rightarrow> PasskeyUsageEntry list \<Rightarrow> nat" where
  "switches prev [] = 0"
| "switches prev (u # us) =
     (if prev \<noteq> Some (pu_passkey_hash u) then Suc (switches (Some (pu_passkey_hash u)) us)
      else switches prev us)"

definition detect_passkey_anomaly :: "nat \<Rightarrow> bytes \<Rightarrow> ('tok, unit) handler" where
  "detect_passkey_anomaly vault_id current_hash = (bindM (gets (\<lambda>w. log_of (p_PasskeyUsage (pks w) vault_id))) (\<lambda>usage.
                                                  if length usage < 3 then returnM ()
     else whenM (3 \<le> switches None (drop (length usage - 5) usage))
       (publish PASSKEY_COMPROMISED_TOPIC [VU vault_id] [VB current_hash])))"

definition log_passkey_usage :: "nat \<Rightarrow> bytes \<Rightarrow> nat \<Rightarrow> ('tok, unit) handler" where
  "log_passkey_usage vault_id passkey_hash timestamp = (bindM (gets (\<lambda>w. log_of (p_PasskeyUsage (pks w) vault_id))) (\<lambda>usage.
                                                       thenM (detect_passkey_anomaly vault_id passkey_hash) (
                                                       (let pushed = usage @ [\<lparr>pu_passkey_hash = passkey_hash, pu_timestamp = timestamp\<rparr>] in
                                                       (let kept = (if MAX_PASSKEY_USAGE_ENTRIES < length pushed then tl pushed else pushed) in
                                                       thenM (set_pks (\<lambda>p. p\<lparr>p_PasskeyUsage := (p_PasskeyUsage p)(vault_id \<mapsto> kept)\<rparr>)) (
                                                       bindM (load_vault vault_id) (\<lambda>vault.
                                                       thenM (extend_ttl (K_PasskeyUsage vault_id) VAULT_TTL_THRESHOLD
       (vault_ttl_ledgers (v_check_in_interval vault))) (
                                                       publish PASSKEY_USAGE_TOPIC [VU vault_id] [VB passkey_hash, VU timestamp]))))))))"

definition log_passkey_audit_entry ::
  "'tok env \<Rightarrow> nat \<Rightarrow> string \<Rightarrow> address \<Rightarrow> bytes \<Rightarrow> ('tok, unit) handler" where
  "log_passkey_audit_entry e vault_id operation actor passkey_hash = (bindM (gets (\<lambda>w. log_of (p_PasskeyAuditLog (pks w) vault_id))) (\<lambda>log.
                                                                     (let pushed = log @ [\<lparr>pa_operation = operation, pa_actor = actor,
        pa_passkey_hash = passkey_hash, pa_timestamp = ledger_timestamp e\<rparr>] in
                                                                     (let kept = (if MAX_PASSKEY_AUDIT_ENTRIES < length pushed then tl pushed else pushed) in
                                                                     thenM (set_pks (\<lambda>p. p\<lparr>p_PasskeyAuditLog := (p_PasskeyAuditLog p)(vault_id \<mapsto> kept)\<rparr>)) (
                                                                     bindM (load_vault vault_id) (\<lambda>vault.
                                                                     thenM (extend_ttl (K_PasskeyAuditLog vault_id) VAULT_TTL_THRESHOLD
       (vault_ttl_ledgers (v_check_in_interval vault))) (
                                                                     publish PASSKEY_AUDIT_TOPIC [VU vault_id]
       [VS operation, VA actor, VB passkey_hash, VU (ledger_timestamp e)])))))))"

definition is_check_in_delegate :: "nat \<Rightarrow> address \<Rightarrow> ('tok, bool) handler" where
  "is_check_in_delegate vault_id addr =
     gets (\<lambda>w. addr \<in> set (log_of (p_CheckInDelegates (pks w) vault_id)))"

definition is_valid_passkey_delegate ::
  "'tok env \<Rightarrow> nat \<Rightarrow> bytes \<Rightarrow> address \<Rightarrow> ('tok, bool) handler" where
  "is_valid_passkey_delegate e vault_id passkey_hash addr =
     gets (\<lambda>w. case p_PasskeyDelegation (pks w) (vault_id, passkey_hash) of
        None \<Rightarrow> False
      | Some d \<Rightarrow> pd_delegate d = addr \<and> ledger_timestamp e < pd_expires_at d)"

subsection \<open>Check-in history and streak\<close>

definition record_check_in_history :: "nat \<Rightarrow> nat \<Rightarrow> ('tok, unit) handler" where
  "record_check_in_history vault_id timestamp = (bindM (gets (\<lambda>w. case p_CheckInHistoryLen (logs w) vault_id of None \<Rightarrow> 0 | Some n \<Rightarrow> n)) (\<lambda>len.
                                                bindM (gets (\<lambda>w. case p_CheckInHistoryHead (logs w) vault_id of None \<Rightarrow> 0 | Some n \<Rightarrow> n)) (\<lambda>head.
                                                bindM ((if len < 50 then (thenM (set_logs (\<lambda>l. l\<lparr>p_CheckInEntry :=
            (p_CheckInEntry l)((vault_id, len) \<mapsto> \<lparr>ci_timestamp = timestamp\<rparr>)\<rparr>)) (
                                        bindM (add32 len 1) (\<lambda>n.
                                        returnM (n, head)))) else (thenM (set_logs (\<lambda>l. l\<lparr>p_CheckInEntry :=
            (p_CheckInEntry l)((vault_id, head) \<mapsto> \<lparr>ci_timestamp = timestamp\<rparr>)\<rparr>)) (
              bindM (add32 head 1) (\<lambda>n.
              returnM (len, n mod 50)))))) (\<lambda>(len', head').
                                                bindM (load_vault vault_id) (\<lambda>vault.
                                                thenM (set_logs (\<lambda>l. l\<lparr>p_CheckInHistoryLen := (p_CheckInHistoryLen l)(vault_id \<mapsto> len')\<rparr>)) (
                                                thenM (extend_ttl (K_CheckInHistoryLen vault_id) VAULT_TTL_THRESHOLD
       (vault_ttl_ledgers (v_check_in_interval vault))) (
                                                thenM (set_logs (\<lambda>l. l\<lparr>p_CheckInHistoryHead := (p_CheckInHistoryHead l)(vault_id \<mapsto> head')\<rparr>)) (
                                                extend_ttl (K_CheckInHistoryHead vault_id) VAULT_TTL_THRESHOLD
       (vault_ttl_ledgers (v_check_in_interval vault))))))))))"

definition next_streak :: "CheckInStreak \<Rightarrow> nat \<Rightarrow> nat \<Rightarrow> CheckInStreak" where
  "next_streak streak interval now =
     (let deadline = sat_add U64_MAX (cs_last_timestamp streak) interval;
          current = (if cs_last_timestamp streak = 0 \<or> now \<le> deadline
                     then sat_add U32_MAX (cs_current streak) 1 else 1)
      in \<lparr>cs_current = current, cs_best = max (cs_best streak) current, cs_last_timestamp = now\<rparr>)"

definition update_check_in_streak :: "nat \<Rightarrow> Vault \<Rightarrow> nat \<Rightarrow> ('tok, unit) handler" where
  "update_check_in_streak vault_id vault now = (bindM (gets (\<lambda>w. case p_CheckInStreak (logs w) vault_id of
        None \<Rightarrow> \<lparr>cs_current = 0, cs_best = 0, cs_last_timestamp = 0\<rparr> | Some s \<Rightarrow> s)) (\<lambda>streak.
                                               thenM (set_logs (\<lambda>l. l\<lparr>p_CheckInStreak := (p_CheckInStreak l)(vault_id \<mapsto>
        next_streak streak (v_check_in_interval vault) now)\<rparr>)) (
                                               extend_ttl (K_CheckInStreak vault_id) VAULT_TTL_THRESHOLD
       (vault_ttl_ledgers (v_check_in_interval vault)))))"

subsection \<open>Check-in\<close>

text \<open>The scheduled rotation that applies: the latest entry not later than \<open>now\<close>, first on ties.\<close>

fun applied_rotation ::
  "nat \<Rightarrow> BeneficiaryRotationEntry option \<Rightarrow> BeneficiaryRotationEntry list
     \<Rightarrow> BeneficiaryRotationEntry option" where
  "applied_rotation now a [] = a"
| "applied_rotation now a (r # rs) =
     applied_rotation now
       (if br_effective_timestamp r \<le> now \<and>
           (case a of None \<Rightarrow> True | Some x \<Rightarrow> br_effective_timestamp x < br_effective_timestamp r)
        then Some r else a) rs"

definition apply_rotation :: "nat \<Rightarrow> nat \<Rightarrow> Vault \<Rightarrow> ('tok, Vault) handler" where
  "apply_rotation vault_id now vault = (bindM (gets (\<lambda>w. p_BeneficiaryRotationSchedule (rel w) vault_id)) (\<lambda>s.
                                       (case s of None \<Rightarrow> returnM vault | Some schedule \<Rightarrow>
       (case applied_rotation now None schedule of None \<Rightarrow> returnM vault | Some rotation \<Rightarrow> (thenM (publish BEN_ROTATION_TOPIC [VU vault_id] [VU (br_effective_timestamp rotation)]) (
                                                                                                                  returnM (if br_new_beneficiaries rotation = [] then vault
                   else vault\<lparr>v_beneficiaries := br_new_beneficiaries rotation\<rparr>)))))))"

definition apply_inactivity_penalty ::
  "'tok env \<Rightarrow> nat \<Rightarrow> nat \<Rightarrow> nat \<Rightarrow> Vault \<Rightarrow> ('tok, Vault) handler" where
  "apply_inactivity_penalty e vault_id original_last_check_in now vault =
     (case v_inactivity_penalty_bps vault of None \<Rightarrow> returnM vault | Some penalty_bps \<Rightarrow>
      (case v_penalty_recipient vault of None \<Rightarrow> returnM vault | Some recipient \<Rightarrow> ((let elapsed = now - original_last_check_in in
                                                                                                         bindM (div64 elapsed (v_check_in_interval vault)) (\<lambda>periods.
                                                                                                         (let missed = periods - 1 in
                                                                                                         if 0 < missed \<and> 0 < v_balance vault then (bindM (muli (v_balance vault) (int penalty_bps)) (\<lambda>scaled.
                                                      bindM (divi scaled 10000) (\<lambda>penalty_per.
                                                      bindM (muli penalty_per (int missed)) (\<lambda>raw.
                                                      (let total_penalty = min raw (v_balance vault) in
                                                      if 0 < total_penalty then (thenM (transfer e (v_token_address vault) (current_contract_address e) recipient
              total_penalty) (
                                    bindM (subi (v_balance vault) total_penalty) (\<lambda>balance.
                                    thenM (publish INACTIVITY_PENALTY_TOPIC [VU vault_id] [VI total_penalty, VA recipient]) (
                                    returnM (vault\<lparr>v_balance := balance\<rparr>))))) else returnM vault))))) else returnM vault))))))"

definition bump_delegate_nonce :: "nat \<Rightarrow> Vault \<Rightarrow> address \<Rightarrow> nat \<Rightarrow> ('tok, unit) handler" where
  "bump_delegate_nonce vault_id vault caller nonce = (bindM (gets (\<lambda>w. case p_DelegateNonce (pks w) (vault_id, caller) of
        None \<Rightarrow> 0 | Some n \<Rightarrow> n)) (\<lambda>expected.
                                                     thenM (guard (nonce = expected) (Err InvalidNonce)) (
                                                     bindM (add64 expected 1) (\<lambda>n.
                                                     thenM (set_pks (\<lambda>p. p\<lparr>p_DelegateNonce := (p_DelegateNonce p)((vault_id, caller) \<mapsto> n)\<rparr>)) (
                                                     extend_ttl (K_DelegateNonce vault_id caller) VAULT_TTL_THRESHOLD
       (vault_ttl_ledgers (v_check_in_interval vault)))))))"

definition check_cooldown :: "nat \<Rightarrow> nat \<Rightarrow> ('tok, unit) handler" where
  "check_cooldown vault_id now = (bindM (gets (\<lambda>w. cooldown_of (inst w))) (\<lambda>cooldown.
                                 whenM (0 < cooldown) (bindM (gets (\<lambda>w. p_LastCheckInTime (logs w) vault_id)) (\<lambda>l.
                          (case l of None \<Rightarrow> returnM () | Some last_time \<Rightarrow> (bindM (add64 last_time cooldown) (\<lambda>t.
                                                                               guard (t \<le> now) (Err InvalidInterval))))))))"

definition check_in ::
  "'tok env \<Rightarrow> nat \<Rightarrow> address \<Rightarrow> bytes \<Rightarrow> nat \<Rightarrow> ('tok, unit) handler" where
  "check_in e vault_id caller passkey_hash nonce = (bindM (load_paused) (\<lambda>paused.
                                                   thenM (guard (\<not> paused) (Err Paused)) (
                                                   thenM (require_auth e caller) (
                                                   bindM (load_vault vault_id) (\<lambda>vault.
                                                   thenM (guard (\<not> v_is_paused vault) (Err Paused)) (
                                                   bindM (is_check_in_delegate vault_id caller) (\<lambda>delegate.
                                                   (let is_delegate = (caller \<noteq> v_owner vault \<and> delegate) in
                                                   bindM (is_valid_passkey_delegate e vault_id passkey_hash caller) (\<lambda>passkey_delegate.
                                                   (let is_passkey_delegate = (caller \<noteq> v_owner vault \<and> \<not> is_delegate \<and> passkey_delegate) in
                                                   thenM (guard (\<not> (caller \<noteq> v_owner vault \<and> \<not> is_delegate \<and> \<not> is_passkey_delegate)) (Err NotOwner)) (
                                                   thenM (whenM is_delegate (bump_delegate_nonce vault_id vault caller nonce)) (
                                                   thenM (guard (v_status vault = Locked) (Err AlreadyReleased)) (
                                                   (let original_last_check_in = v_last_check_in vault in
                                                   (let now = ledger_timestamp e in
                                                   thenM (check_cooldown vault_id now) (
                                                   thenM (validate_passkey_for_checkin vault_id vault passkey_hash now) (
                                                   bindM (apply_rotation vault_id now (vault\<lparr>v_last_check_in := now\<rparr>)) (\<lambda>rotated.
                                                   bindM (apply_inactivity_penalty e vault_id original_last_check_in now rotated) (\<lambda>final.
                                                   bindM (get_max_ttl_seconds) (\<lambda>max_ttl.
                                                   bindM (add64 now (v_check_in_interval final)) (\<lambda>deadline.
                                                   bindM (add64 now max_ttl) (\<lambda>max_deadline.
                                                   thenM (guard (deadline \<le> max_deadline) (Err MaxTtlExceeded)) (
                                                   thenM (save_vault vault_id final) (
                                                   bindM (load_owner_vault_ids (v_owner final)) (\<lambda>owner_ids.
                                                   thenM (save_owner_vault_ids (v_owner final) owner_ids (v_check_in_interval final)) (
                                                   thenM (log_passkey_usage vault_id passkey_hash now) (
                                                   thenM (log_passkey_audit_entry e vault_id ''use'' caller passkey_hash) (
                                                   thenM (set_logs (\<lambda>l. l\<lparr>p_LastCheckInTime := (p_LastCheckInTime l)(vault_id \<mapsto> now)\<rparr>)) (
                                                   thenM (extend_ttl (K_LastCheckInTime vault_id) VAULT_TTL_THRESHOLD
       (vault_ttl_ledgers (v_check_in_interval final))) (
                                                   thenM (record_check_in_history vault_id now) (
                                                   thenM (update_check_in_streak vault_id final now) (
                                                   thenM (log_audit_entry e vault_id ''check_in'' caller []) (
                                                   thenM (append_activity_log e vault_id ''check_in'' caller) (
                                                   thenM (set_logs (\<lambda>l. l\<lparr>p_CountdownFired := (p_CountdownFired l)(vault_id := None)\<rparr>)) (
                                                   thenM (extend_instance_ttl) (
                                                   publish CHECK_IN_TOPIC [VU vault_id] [VU (v_last_check_in final)]))))))))))))))))))))))))))))))))))))"

subsection \<open>Frames\<close>

lemma keeps_checkin [frame]:
  "keeps accts (bump_delegate_nonce i v c n)"
  "keeps accts (check_cooldown i now)"
  "keeps accts (validate_passkey_for_checkin i v h now)"
  "keeps accts (detect_passkey_anomaly i h)"
  "keeps accts (log_passkey_audit_entry e i s c h)"
  "keeps accts (record_check_in_history i now)"
  "keeps accts (update_check_in_streak i v now)"
  "keeps accts (apply_rotation i now v)"
  "keeps accts (is_check_in_delegate i c)"
  "keeps accts (is_valid_passkey_delegate e i h c)"
  unfolding bump_delegate_nonce_def check_cooldown_def validate_passkey_for_checkin_def
    detect_passkey_anomaly_def log_passkey_audit_entry_def
    record_check_in_history_def update_check_in_streak_def apply_rotation_def
    is_check_in_delegate_def is_valid_passkey_delegate_def
  by (intro frame)+

lemma keeps_log_passkey_usage [frame]: "keeps accts (log_passkey_usage i h now)"
  unfolding log_passkey_usage_def by (intro frame)

lemmas wp_checkin_frame = keeps_checkin [THEN wp_keeps] keeps_log_passkey_usage [THEN wp_keeps]

subsection \<open>What a check-in does to the vault and the money\<close>

text \<open>
  \<open>same_vault v v'\<close>: the fields that identify a vault and its terms are unchanged.
  \<open>penalty_paid\<close>: the new balance is the old one less what was transferred out, if anything.
\<close>

definition same_terms :: "Vault \<Rightarrow> Vault \<Rightarrow> bool" where
  "same_terms v v' \<longleftrightarrow> v_owner v' = v_owner v \<and> v_beneficiary v' = v_beneficiary v \<and>
     v_token_address v' = v_token_address v \<and> v_check_in_interval v' = v_check_in_interval v \<and>
     v_status v' = v_status v \<and> v_created_at v' = v_created_at v"

definition penalty_paid :: "'tok env \<Rightarrow> Vault \<Rightarrow> Vault \<Rightarrow> 'tok \<Rightarrow> 'tok \<Rightarrow> bool" where
  "penalty_paid e v v' tk tk' \<longleftrightarrow>
     v_balance v' = v_balance v \<and> tk' = tk \<or>
     0 \<le> v_balance v' \<and> v_balance v' < v_balance v \<and>
     (\<exists>to. v_penalty_recipient v = Some to \<and>
        token_transfer e (v_token_address v) (current_contract_address e) to
          (v_balance v - v_balance v') tk = Some tk')"

definition rotated ::
  "(nat \<Rightarrow> BeneficiaryRotationEntry list option) \<times> 'p \<Rightarrow> nat \<Rightarrow> Vault \<Rightarrow> Vault \<Rightarrow> bool" where
  "rotated rs i v v' \<longleftrightarrow> v_burn_percentage v' = v_burn_percentage v \<and>
     v_spending_limit v' = v_spending_limit v \<and> (v_beneficiaries v' = v_beneficiaries v \<or>
     (\<exists>s r. fst rs i = Some s \<and> r \<in> set s \<and> v_beneficiaries v' = br_new_beneficiaries r))"

lemma rotated_splits:
  "splits_ok w \<Longrightarrow> p_Vault w i = Some v \<Longrightarrow> rotated (plans w) i v v' \<Longrightarrow> sane v'"
  by (auto simp: rotated_def splits_ok_def sane_def plans_def dest: plans_okD(1) [unfolded plans_def])

lemma rotated_last: "rotated rs i (v\<lparr>v_last_check_in := n\<rparr>) v' = rotated rs i v v'"
  by (simp add: rotated_def)

lemma applied_rotation_mem:
  "applied_rotation now a s = Some r \<Longrightarrow> a = Some r \<or> r \<in> set s"
  by (induction now a s rule: applied_rotation.induct) (auto split: if_splits)

lemma wp_apply_rotation_events:
  assumes "\<And>v' es. same_terms v v' \<Longrightarrow> v_balance v' = v_balance v \<Longrightarrow>
     v_penalty_recipient v' = v_penalty_recipient v \<Longrightarrow>
     v_last_check_in v' = v_last_check_in v \<Longrightarrow> rotated (plans w) i v v' \<Longrightarrow>
     Q v' (w\<lparr>events := es\<rparr>)"
  shows "wp (apply_rotation i now v) Q w"
  using assms [of v "events w"]
  by (auto simp: apply_rotation_def wp_simps same_terms_def rotated_def plan_defs
      split: option.splits intro!: assms dest!: applied_rotation_mem)

lemma wp_apply_rotation:
  assumes "\<And>v' t. accts t = accts w \<Longrightarrow> same_terms v v' \<Longrightarrow> v_balance v' = v_balance v \<Longrightarrow>
     v_penalty_recipient v' = v_penalty_recipient v \<Longrightarrow>
     v_last_check_in v' = v_last_check_in v \<Longrightarrow> rotated (plans w) i v v' \<Longrightarrow> Q v' t"
  shows "wp (apply_rotation i now v) Q w"
  by (rule wp_apply_rotation_events) (rule assms, simp_all add: accts_def)

lemma wp_apply_inactivity_penalty:
  assumes "\<And>v' t. p_Vault t = p_Vault w \<Longrightarrow> idx t = idx w \<Longrightarrow> inst t = inst w \<Longrightarrow>
     penalty_paid e v v' (tokens w) (tokens t) \<Longrightarrow> same_terms v v' \<Longrightarrow>
     v_last_check_in v' = v_last_check_in v \<Longrightarrow> plans t = plans w \<Longrightarrow>
     heir_terms v' = heir_terms v \<Longrightarrow> Q v' t"
  shows "wp (apply_inactivity_penalty e i l now v) Q w"
  by (auto simp: apply_inactivity_penalty_def wp_simps Let_def penalty_paid_def same_terms_def
      heir_terms_def split: option.splits intro!: assms)

definition checked_in ::
  "'tok env \<Rightarrow> nat \<Rightarrow> address \<Rightarrow> Vault \<Rightarrow> Vault \<Rightarrow> 'tok world \<Rightarrow> 'tok world \<Rightarrow> bool" where
  "checked_in e i caller v v' w t \<longleftrightarrow>
     \<not> is_paused_w w \<and> authorized e caller \<and> p_Vault w i = Some v \<and> \<not> v_is_paused v \<and>
     v_status v = Locked \<and> p_Vault t = (p_Vault w)(i \<mapsto> v') \<and> count_of (idx t) = count_of (idx w) \<and>
     same_terms v v' \<and> v_last_check_in v' = ledger_timestamp e \<and>
     penalty_paid e v v' (tokens w) (tokens t) \<and>
     plans t = plans w \<and> rotated (plans w) i v v'"

lemma checked_inI:
  assumes "same_terms (v\<lparr>v_last_check_in := ledger_timestamp e\<rparr>) v1" "same_terms v1 v'"
    "v_balance v1 = v_balance (v\<lparr>v_last_check_in := ledger_timestamp e\<rparr>)"
    "v_penalty_recipient v1 = v_penalty_recipient (v\<lparr>v_last_check_in := ledger_timestamp e\<rparr>)"
    "v_last_check_in v' = ledger_timestamp e"
    "penalty_paid e v1 v' (tokens w) (tokens t)"
    "\<not> is_paused_w w" "authorized e caller" "p_Vault w i = Some v" "\<not> v_is_paused v"
    "v_status v = Locked" "p_Vault t = (p_Vault w)(i \<mapsto> v')" "count_of (idx t) = count_of (idx w)"
    "plans t = plans w" "rotated (plans w) i (v\<lparr>v_last_check_in := ledger_timestamp e\<rparr>) v1"
    "heir_terms v' = heir_terms v1"
  shows "\<exists>v v'. checked_in e i caller v v' w t"
proof -
  have "penalty_paid e v v' (tokens w) (tokens t)" "same_terms v v'" "rotated (plans w) i v v'"
    using assms(1-4,6,15,16) by (auto simp: penalty_paid_def same_terms_def rotated_def heir_terms_def)
  with assms(5,7-) show ?thesis
    unfolding checked_in_def by blast
qed

lemma check_in_effect:
  "wp (check_in e i caller h n) (\<lambda>_ t. \<exists>v v'. checked_in e i caller v v' w t) w"
  unfolding check_in_def wp_simps is_check_in_delegate_def is_valid_passkey_delegate_def
  by (auto simp: wp_simps accts_def Let_def simp del: fun_upd_apply Vault.simps
      intro!: wp_checkin_frame wp_frame wp_apply_rotation wp_apply_inactivity_penalty
      intro: checked_inI)

lemma accounts_penalty:
  assumes "accounts_ok bal self vs n tk" "vs i = Some v" "host_ok e self bal"
    "v_token_address v' = v_token_address v" "penalty_paid e v v' tk tk'"
  shows "accounts_ok bal self (vs(i \<mapsto> v')) n tk'"
proof (cases "v_balance v' = v_balance v \<and> tk' = tk")
  case True
  then show ?thesis using assms by (auto intro: accounts_save)
next
  case False
  then obtain to where pay: "token_transfer e (v_token_address v) (current_contract_address e) to
         (v_balance v - v_balance v') tk = Some tk'" and le: "0 \<le> v_balance v'"
    using assms(5) by (auto simp: penalty_paid_def)
  from pay have "token_transfer e (v_token_address v) self to (v_balance v - v_balance v') tk
      = Some tk'"
    using assms(3) by (simp add: host_ok_def)
  from accounts_pay [OF assms(1,2,3) this assms(4)] le show ?thesis by simp
qed

lemma check_in_solvent:
  assumes "solvent bal self w" "host_ok e self bal"
  shows "wp (check_in e i caller h n) (\<lambda>_. solvent bal self) w"
  by (rule wp_mono [OF check_in_effect])
    (use assms in \<open>auto simp: checked_in_def solvent_def same_terms_def intro: accounts_penalty\<close>)

lemma check_in_splits:
  assumes "splits_ok w"
  shows "wp (check_in e i caller h n) (\<lambda>_. splits_ok) w"
  by (rule wp_mono [OF check_in_effect])
    (use assms in \<open>auto simp: checked_in_def intro: splits_save rotated_splits\<close>)

lemma create_vault_splits:
  assumes "splits_ok w"
  shows "wp (create_vault e owner ben n tok) (\<lambda>_. splits_ok) w"
  using assms
  by (auto simp: create_vault_def wp_simps index_defs log_defs assert_metadata_len_def
      get_owner_vault_limit_def splits_ok_def sane_def new_vault_def bps_total_def split: option.splits)

lemma create_vault_solvent:
  assumes "solvent bal self w"
  shows "wp (create_vault e owner ben n tok) (\<lambda>_. solvent bal self) w"
  using assms
  by (auto simp: create_vault_def wp_simps index_defs log_defs assert_metadata_len_def
      get_owner_vault_limit_def solvent_def new_vault_def intro!: accounts_fresh
      split: option.splits)

end
