(* ===== verification/Vault_Funds.thy ===== *)
theory Vault_Funds
  imports Vault_CheckIn
begin

section \<open>Deposits and withdrawals\<close>

text \<open>
  The money-moving handlers of \<open>ttl_vault/src/lib.rs\<close>: \<open>deposit\<close>, \<open>batch_deposit\<close>, \<open>withdraw\<close>
  with its audit trail, periodic limits, destination whitelist and reversal records,
  \<open>partial_liquidate\<close>, \<open>batch_withdraw\<close>, withdrawal proofs, escrow, rollback, rate limits and
  schedules. A failing withdrawal writes an audit record and then returns \<open>Err\<close>; the host
  discards the record together with the rest of the failed invocation, which is what the
  model's failing branch says.
\<close>

subsection \<open>Deposits\<close>

definition deposit :: "'tok env \<Rightarrow> nat \<Rightarrow> address \<Rightarrow> int \<Rightarrow> ('tok, unit) handler" where
  "deposit e vault_id from amount = (thenM (assert_not_paused) (
                                    thenM (require_initialized) (
                                    thenM (guard (0 < amount) (Err InvalidAmount)) (
                                    thenM (require_auth e from) (
                                    bindM (load_vault vault_id) (\<lambda>vault.
                                    thenM (guard (from = v_owner vault) (Err UnauthorizedDepositor)) (
                                    thenM (guard (\<not> v_is_paused vault) (Err Paused)) (
                                    thenM (guard (v_status vault = Locked) (Err AlreadyReleased)) (
                                    bindM (add64 (v_last_check_in vault) (v_check_in_interval vault)) (\<lambda>deadline.
                                    thenM (guard (ledger_timestamp e < deadline) (Err VaultExpired)) (
                                    thenM ((case v_max_deposit_amount vault of None \<Rightarrow> returnM () | Some max_deposit \<Rightarrow> (bindM (ok_or (checked_add_i (v_balance vault) amount) (Err BalanceOverflow)) (\<lambda>new_balance.
                                                                                                        guard (new_balance \<le> max_deposit) (Err DepositLimitExceeded))))) (
                                    thenM (transfer e (v_token_address vault) from (current_contract_address e) amount) (
                                    bindM (ok_or (checked_add_i (v_balance vault) amount) (Err BalanceOverflow)) (\<lambda>balance.
                                    thenM (save_vault vault_id (vault\<lparr>v_balance := balance\<rparr>)) (
                                    thenM (log_audit_entry e vault_id ''deposit'' from []) (
                                    thenM (append_activity_log e vault_id ''deposit'' from) (
                                    thenM (extend_instance_ttl) (
                                    publish DEPOSIT_TOPIC [VU vault_id] [VI amount, VI balance]))))))))))))))))))"

text \<open>
  The validation loop of \<open>batch_deposit\<close>: it collects each vault as it was read, together with
  the amount, and sums the amounts.
\<close>

definition validate_deposit ::
  "'tok env \<Rightarrow> nat \<times> int \<Rightarrow> (nat \<times> Vault \<times> int) list \<times> int
     \<Rightarrow> ('tok, (nat \<times> Vault \<times> int) list \<times> int) handler" where
  "validate_deposit e d acc = ((let vault_id = fst d in
                              (let amount = snd d in
                              thenM (guard (0 < amount) (Err InvalidAmount)) (
                              bindM (load_vault vault_id) (\<lambda>vault.
                              thenM (guard (v_status vault = Locked) (Err AlreadyReleased)) (
                              bindM (add64 (v_last_check_in vault) (v_check_in_interval vault)) (\<lambda>deadline.
                              thenM (guard (ledger_timestamp e < deadline) (Err VaultExpired)) (
                              thenM (assert_token_whitelisted (v_token_address vault)) (
                              bindM (ok_or (checked_add_i (snd acc) amount) (Err InvalidAmount)) (\<lambda>total.
                              returnM (fst acc @ [(vault_id, vault, amount)], total)))))))))))"

definition credit_deposit ::
  "address \<Rightarrow> nat \<times> Vault \<times> int \<Rightarrow> ('tok, unit) handler" where
  "credit_deposit default_token d = ((let vault_id = fst d in
                                    (let vault = fst (snd d) in
                                    (let amount = snd (snd d) in
                                    thenM (guard (v_token_address vault = default_token) (Err InvalidAmount)) (
                                    bindM (ok_or (checked_add_i (v_balance vault) amount) (Err BalanceOverflow)) (\<lambda>balance.
                                    thenM (save_vault vault_id (vault\<lparr>v_balance := balance\<rparr>)) (
                                    publish TOKEN_WHITELIST_VALIDATED_TOPIC [VU vault_id] [VA (v_token_address vault), VI amount])))))))"

definition batch_deposit :: "'tok env \<Rightarrow> address \<Rightarrow> (nat \<times> int) list \<Rightarrow> ('tok, unit) handler" where
  "batch_deposit e from deposits = (thenM (assert_not_paused) (
                                   thenM (require_auth e from) (
                                   bindM (load_token) (\<lambda>default_token.
                                   bindM (foldM (validate_deposit e) deposits ([], 0)) (\<lambda>validated_total.
                                   (let validated = fst validated_total in
                                   (let total_amount = snd validated_total in
                                   if total_amount = 0 then extend_instance_ttl
     else (thenM (transfer e default_token from (current_contract_address e) total_amount) (
          thenM (forM validated (credit_deposit default_token)) (
          extend_instance_ttl))))))))))"

subsection \<open>Withdrawal records\<close>

definition record_withdrawal_audit ::
  "'tok env \<Rightarrow> nat \<Rightarrow> address \<Rightarrow> int \<Rightarrow> bool \<Rightarrow> string \<Rightarrow> ('tok, unit) handler" where
  "record_withdrawal_audit e vault_id caller amount success error_reason = (bindM (gets (\<lambda>w. log_of (p_WithdrawalAuditLog (wdr w) vault_id))) (\<lambda>log.
                                                                           bindM (load_vault vault_id) (\<lambda>vault.
                                                                           thenM (set_wdr (\<lambda>s. s\<lparr>p_WithdrawalAuditLog := (p_WithdrawalAuditLog s)(vault_id \<mapsto> log @
        [\<lparr>wa_vault_id = vault_id, wa_caller = caller, wa_amount = amount,
          wa_timestamp = ledger_timestamp e, wa_success = success,
          wa_error_reason = error_reason\<rparr>])\<rparr>)) (
                                                                           thenM (extend_ttl (K_WithdrawalAuditLog vault_id) VAULT_TTL_THRESHOLD
       (vault_ttl_ledgers (v_check_in_interval vault))) (
                                                                           thenM (publish WITHDRAWAL_AUDIT_TOPIC [VU vault_id]
       [VA caller, VI amount, VFlag success, VU (ledger_timestamp e)]) (
                                                                           whenM (\<not> success)
       (publish WITHDRAWAL_FAILED_TOPIC [VU vault_id] [VA caller, VI amount, VS error_reason])))))))"

text \<open>
  \<open>reject\<close>: the early return of a withdrawal handler: when the condition holds, the failed
  attempt is written to the audit trail and the error returned.
\<close>

definition reject ::
  "'tok env \<Rightarrow> nat \<Rightarrow> address \<Rightarrow> int \<Rightarrow> bool \<Rightarrow> string \<Rightarrow> contract_error \<Rightarrow> ('tok, unit) handler" where
  "reject e vault_id caller amount cond reason err =
     whenM cond (thenM (record_withdrawal_audit e vault_id caller amount False reason) (
                throw (Err err)))"

definition record_withdrawal_for_reversal ::
  "'tok env \<Rightarrow> nat \<Rightarrow> int \<Rightarrow> nat \<Rightarrow> ('tok, unit) handler" where
  "record_withdrawal_for_reversal e vault_id amount grace_period_seconds = (bindM (gets (\<lambda>w. case p_WithdrawalReversalCounter (wdr w) vault_id of
        None \<Rightarrow> 0 | Some n \<Rightarrow> n)) (\<lambda>withdrawal_id.
                                                                           bindM (add64 (ledger_timestamp e) grace_period_seconds) (\<lambda>until.
                                                                           bindM (load_vault vault_id) (\<lambda>vault.
                                                                           thenM (set_wdr (\<lambda>s. s\<lparr>p_WithdrawalReversal := (p_WithdrawalReversal s)((vault_id, withdrawal_id) \<mapsto>
        \<lparr>rv_withdrawal_id = withdrawal_id, rv_amount = amount,
         rv_withdrawn_at = ledger_timestamp e, rv_grace_period_until = until,
         rv_reversed = False\<rparr>)\<rparr>)) (
                                                                           thenM (extend_ttl (K_WithdrawalReversal vault_id withdrawal_id) VAULT_TTL_THRESHOLD
       (vault_ttl_ledgers (v_check_in_interval vault))) (
                                                                           bindM (add64 withdrawal_id 1) (\<lambda>next_id.
                                                                           thenM (set_wdr (\<lambda>s. s\<lparr>p_WithdrawalReversalCounter :=
        (p_WithdrawalReversalCounter s)(vault_id \<mapsto> next_id)\<rparr>)) (
                                                                           extend_ttl (K_WithdrawalReversalCounter vault_id) VAULT_TTL_THRESHOLD
       (vault_ttl_ledgers (v_check_in_interval vault))))))))))"

subsection \<open>Limits and whitelist\<close>

definition set_withdrawal_limits ::
  "'tok env \<Rightarrow> nat \<Rightarrow> address \<Rightarrow> int \<Rightarrow> int \<Rightarrow> int \<Rightarrow> ('tok, unit) handler" where
  "set_withdrawal_limits e vault_id caller daily_limit weekly_limit monthly_limit = (bindM (load_paused) (\<lambda>paused.
                                                                                    thenM (guard (\<not> paused) (Err Paused)) (
                                                                                    thenM (require_auth e caller) (
                                                                                    bindM (load_vault vault_id) (\<lambda>vault.
                                                                                    thenM (guard (caller = v_owner vault) (Err NotOwner)) (
                                                                                    thenM (set_wdr (\<lambda>s. s\<lparr>p_WithdrawalLimit := (p_WithdrawalLimit s)(vault_id \<mapsto>
        \<lparr>wl_daily_limit = daily_limit, wl_weekly_limit = weekly_limit,
         wl_monthly_limit = monthly_limit\<rparr>)\<rparr>)) (
                                                                                    thenM (extend_ttl (K_WithdrawalLimit vault_id) VAULT_TTL_THRESHOLD
       (vault_ttl_ledgers (v_check_in_interval vault))) (
                                                                                    thenM (extend_instance_ttl) (
                                                                                    publish WITHDRAWAL_LIMIT_SET_TOPIC [VU vault_id]
       [VI daily_limit, VI weekly_limit, VI monthly_limit])))))))))"

definition get_withdrawal_limits :: "nat \<Rightarrow> ('tok, WithdrawalLimit option) handler" where
  "get_withdrawal_limits vault_id = gets (\<lambda>w. p_WithdrawalLimit (wdr w) vault_id)"

text \<open>The tracker at the time of a withdrawal: created on first use, each window reset when over.\<close>

definition current_tracker ::
  "nat \<Rightarrow> WithdrawalTracker option \<Rightarrow> ('tok, WithdrawalTracker) handler" where
  "current_tracker now stored = (bindM ((case stored of Some t \<Rightarrow> returnM t | None \<Rightarrow> (bindM (add64 now 86400) (\<lambda>d.
                                                                               bindM (add64 now 604800) (\<lambda>wk.
                                                                               bindM (add64 now 2592000) (\<lambda>m.
                                                                               returnM \<lparr>wt_daily_withdrawn = 0, wt_daily_reset_at = d, wt_weekly_withdrawn = 0,
          wt_weekly_reset_at = wk, wt_monthly_withdrawn = 0, wt_monthly_reset_at = m\<rparr>)))))) (\<lambda>t0.
                                bindM ((if wt_daily_reset_at t0 \<le> now then (bindM (add64 now 86400) (\<lambda>d.
                                                   returnM (t0\<lparr>wt_daily_withdrawn := 0, wt_daily_reset_at := d\<rparr>))) else returnM t0)) (\<lambda>t1.
                                bindM ((if wt_weekly_reset_at t1 \<le> now then (bindM (add64 now 604800) (\<lambda>wk.
                                                    returnM (t1\<lparr>wt_weekly_withdrawn := 0, wt_weekly_reset_at := wk\<rparr>))) else returnM t1)) (\<lambda>t2.
                                if wt_monthly_reset_at t2 \<le> now then (bindM (add64 now 2592000) (\<lambda>m.
                                              returnM (t2\<lparr>wt_monthly_withdrawn := 0, wt_monthly_reset_at := m\<rparr>))) else returnM t2))))"

definition check_withdrawal_limits :: "'tok env \<Rightarrow> nat \<Rightarrow> int \<Rightarrow> ('tok, unit) handler" where
  "check_withdrawal_limits e vault_id amount = (bindM (gets (\<lambda>w. p_WithdrawalLimit (wdr w) vault_id)) (\<lambda>l.
                                               (case l of None \<Rightarrow> returnM () | Some limits \<Rightarrow> (bindM (gets (\<lambda>w. p_WithdrawalTracker (wdr w) vault_id)) (\<lambda>stored.
                                                                          bindM (current_tracker (ledger_timestamp e) stored) (\<lambda>tracker.
                                                                          bindM (addi (wt_daily_withdrawn tracker) amount) (\<lambda>daily.
                                                                          thenM (guard (daily \<le> wl_daily_limit limits) (Err DailyWithdrawalLimitExceeded)) (
                                                                          bindM (addi (wt_weekly_withdrawn tracker) amount) (\<lambda>weekly.
                                                                          thenM (guard (weekly \<le> wl_weekly_limit limits) (Err WeeklyWithdrawalLimitExceeded)) (
                                                                          bindM (addi (wt_monthly_withdrawn tracker) amount) (\<lambda>monthly.
                                                                          thenM (guard (monthly \<le> wl_monthly_limit limits) (Err MonthlyWithdrawalLimitExceeded)) (
                                                                          bindM (load_vault vault_id) (\<lambda>vault.
                                                                          thenM (set_wdr (\<lambda>s. s\<lparr>p_WithdrawalTracker := (p_WithdrawalTracker s)(vault_id \<mapsto>
           tracker\<lparr>wt_daily_withdrawn := daily, wt_weekly_withdrawn := weekly,
             wt_monthly_withdrawn := monthly\<rparr>)\<rparr>)) (
                                                                          extend_ttl (K_WithdrawalTracker vault_id) VAULT_TTL_THRESHOLD
          (vault_ttl_ledgers (v_check_in_interval vault))))))))))))))))"

definition add_whitelist_address ::
  "'tok env \<Rightarrow> nat \<Rightarrow> address \<Rightarrow> address \<Rightarrow> string \<Rightarrow> ('tok, unit) handler" where
  "add_whitelist_address e vault_id caller addr label = (bindM (load_paused) (\<lambda>paused.
                                                        thenM (guard (\<not> paused) (Err Paused)) (
                                                        thenM (require_auth e caller) (
                                                        bindM (load_vault vault_id) (\<lambda>vault.
                                                        thenM (guard (caller = v_owner vault) (Err NotOwner)) (
                                                        bindM (gets (\<lambda>w. log_of (p_WithdrawalWhitelist (wdr w) vault_id))) (\<lambda>whitelist.
                                                        thenM (set_wdr (\<lambda>s. s\<lparr>p_WithdrawalWhitelist := (p_WithdrawalWhitelist s)(vault_id \<mapsto> whitelist @
        [\<lparr>we_address = addr, we_added_at = ledger_timestamp e, we_label = label\<rparr>])\<rparr>)) (
                                                        thenM (extend_ttl (K_WithdrawalWhitelist vault_id) VAULT_TTL_THRESHOLD
       (vault_ttl_ledgers (v_check_in_interval vault))) (
                                                        thenM (extend_instance_ttl) (
                                                        publish WHITELIST_ADDED_TOPIC [VU vault_id] [VA addr]))))))))))"

definition remove_whitelist_address ::
  "'tok env \<Rightarrow> nat \<Rightarrow> address \<Rightarrow> address \<Rightarrow> ('tok, unit) handler" where
  "remove_whitelist_address e vault_id caller addr = (bindM (load_paused) (\<lambda>paused.
                                                     thenM (guard (\<not> paused) (Err Paused)) (
                                                     thenM (require_auth e caller) (
                                                     bindM (load_vault vault_id) (\<lambda>vault.
                                                     thenM (guard (caller = v_owner vault) (Err NotOwner)) (
                                                     bindM (gets (\<lambda>w. p_WithdrawalWhitelist (wdr w) vault_id)) (\<lambda>l.
                                                     thenM ((case l of None \<Rightarrow> returnM () | Some whitelist \<Rightarrow> (thenM (set_wdr (\<lambda>s. s\<lparr>p_WithdrawalWhitelist := (p_WithdrawalWhitelist s)(vault_id \<mapsto>
           filter (\<lambda>x. we_address x \<noteq> addr) whitelist)\<rparr>)) (
                                                                             thenM (extend_ttl (K_WithdrawalWhitelist vault_id) VAULT_TTL_THRESHOLD
          (vault_ttl_ledgers (v_check_in_interval vault))) (
                                                                             extend_instance_ttl))))) (
                                                     publish WHITELIST_REMOVED_TOPIC [VU vault_id] [VA addr]))))))))"

definition get_whitelist :: "nat \<Rightarrow> ('tok, WhitelistEntry list option) handler" where
  "get_whitelist vault_id = gets (\<lambda>w. p_WithdrawalWhitelist (wdr w) vault_id)"

definition is_whitelisted :: "nat \<Rightarrow> address \<Rightarrow> ('tok, bool) handler" where
  "is_whitelisted vault_id addr =
     gets (\<lambda>w. case p_WithdrawalWhitelist (wdr w) vault_id of
        None \<Rightarrow> True
      | Some whitelist \<Rightarrow> \<exists>x \<in> set whitelist. we_address x = addr)"

subsection \<open>Withdrawals\<close>

definition withdraw :: "'tok env \<Rightarrow> nat \<Rightarrow> address \<Rightarrow> int \<Rightarrow> ('tok, unit) handler" where
  "withdraw e vault_id caller amount = (bindM (load_paused) (\<lambda>paused.
                                       thenM (reject e vault_id caller amount paused ''Contract paused'' Paused) (
                                       thenM (reject e vault_id caller amount (amount \<le> 0) ''Invalid amount'' InvalidAmount) (
                                       thenM (require_auth e caller) (
                                       bindM (load_vault vault_id) (\<lambda>vault.
                                       thenM (reject e vault_id caller amount (v_is_paused vault) ''Vault paused'' Paused) (
                                       thenM (reject e vault_id caller amount (caller \<noteq> v_owner vault) ''Not owner'' NotOwner) (
                                       thenM (reject e vault_id caller amount (v_status vault = EmergencyFrozen) ''Vault frozen'' VaultFrozen) (
                                       thenM (reject e vault_id caller amount (v_status vault \<noteq> Locked) ''Vault already released''
       AlreadyReleased) (
                                       thenM (reject e vault_id caller amount (v_owner vault = current_contract_address e)
       ''Invalid withdraw destination'' InvalidWithdrawDestination) (
                                       thenM (reject e vault_id caller amount (v_balance vault < amount) ''Insufficient balance''
       InsufficientBalance) (
                                       thenM ((case v_withdrawal_approval_threshold vault of None \<Rightarrow> returnM () | Some thr \<Rightarrow>
        reject e vault_id caller amount (thr < amount) ''Withdrawal not approved''
          WithdrawalNotApproved)) (
                                       thenM (check_withdrawal_limits e vault_id amount) (
                                       bindM (is_whitelisted vault_id (v_owner vault)) (\<lambda>listed.
                                       thenM (guard listed (Err WithdrawalDestinationNotWhitelisted)) (
                                       thenM (transfer e (v_token_address vault) (current_contract_address e) (v_owner vault) amount) (
                                       bindM (subi (v_balance vault) amount) (\<lambda>balance.
                                       thenM (record_withdrawal_for_reversal e vault_id amount 86400) (
                                       thenM (save_vault vault_id (vault\<lparr>v_balance := balance\<rparr>)) (
                                       thenM (log_audit_entry e vault_id ''withdraw'' caller []) (
                                       thenM (append_activity_log e vault_id ''withdraw'' caller) (
                                       thenM (record_withdrawal_audit e vault_id caller amount True []) (
                                       thenM (publish WITHDRAWAL_NOTIF_TOPIC [VU vault_id] [VA caller, VI amount, VU (ledger_timestamp e)]) (
                                       thenM (extend_instance_ttl) (
                                       publish WITHDRAW_TOPIC [VU vault_id] [VI amount, VI balance])))))))))))))))))))))))))"

definition get_ttl_remaining :: "'tok env \<Rightarrow> nat \<Rightarrow> ('tok, nat option) handler" where
  "get_ttl_remaining e vault_id = (bindM (try_load_vault vault_id) (\<lambda>v.
                                  (case v of None \<Rightarrow> returnM None | Some vault \<Rightarrow> (bindM (add64 (v_last_check_in vault) (v_check_in_interval vault)) (\<lambda>deadline.
                                                                           if deadline \<le> ledger_timestamp e then returnM None
        else returnM (Some (deadline - ledger_timestamp e)))))))"

definition partial_liquidate ::
  "'tok env \<Rightarrow> nat \<Rightarrow> int \<Rightarrow> nat \<Rightarrow> ('tok, unit) handler" where
  "partial_liquidate e vault_id amount percentage_allowed = (bindM (load_paused) (\<lambda>paused.
                                                            thenM (guard (\<not> paused) (Err Paused)) (
                                                            thenM (guard (0 < amount) (Err InvalidAmount)) (
                                                            thenM (guard (\<not> (percentage_allowed = 0 \<or> 100 < percentage_allowed)) (Err InvalidPercentage)) (
                                                            bindM (load_vault vault_id) (\<lambda>vault.
                                                            thenM (guard (\<not> v_is_paused vault) (Err Paused)) (
                                                            thenM (require_auth e (v_owner vault)) (
                                                            thenM (guard (v_status vault \<noteq> EmergencyFrozen) (Err VaultFrozen)) (
                                                            thenM (guard (v_status vault = Locked) (Err AlreadyReleased)) (
                                                            bindM (get_ttl_remaining e vault_id) (\<lambda>r.
                                                            (let ttl_remaining_before = (case r of None \<Rightarrow> 0 | Some n \<Rightarrow> n) in
                                                            bindM (ok_or (checked_mul_i (v_balance vault) (int percentage_allowed))
       (Err LiquidationExceedsLimit)) (\<lambda>scaled.
                                                            (let max_allowed = tdiv scaled 100 in
                                                            thenM (guard (amount \<le> max_allowed) (Err LiquidationExceedsLimit)) (
                                                            thenM (guard (amount \<le> v_balance vault) (Err InsufficientBalance)) (
                                                            thenM (transfer e (v_token_address vault) (current_contract_address e) (v_owner vault) amount) (
                                                            bindM (subi (v_balance vault) amount) (\<lambda>balance.
                                                            thenM (save_vault vault_id (vault\<lparr>v_balance := balance\<rparr>)) (
                                                            thenM (log_audit_entry e vault_id ''partial_liquidate'' (v_owner vault) ''partial_liquidation'') (
                                                            thenM (append_activity_log e vault_id ''partial_liquidate'' (v_owner vault)) (
                                                            thenM (publish PARTIAL_LIQUIDATE_TOPIC [VU vault_id]
       [VU vault_id, VI amount, VU ttl_remaining_before]) (
                                                            extend_instance_ttl))))))))))))))))))))))"

definition validate_withdrawal ::
  "'tok env \<Rightarrow> address \<Rightarrow> nat \<times> int \<Rightarrow> ('tok, unit) handler" where
  "validate_withdrawal e caller d = ((let vault_id = fst d in
                                    (let amount = snd d in
                                    thenM (reject e vault_id caller amount (amount \<le> 0) ''Invalid amount'' InvalidAmount) (
                                    bindM (try_load_vault vault_id) (\<lambda>v.
                                    bindM (ok_or v (Err VaultNotFound)) (\<lambda>vault.
                                    thenM (reject e vault_id caller amount (caller \<noteq> v_owner vault) ''Not owner'' NotOwner) (
                                    thenM (reject e vault_id caller amount (v_status vault \<noteq> Locked) ''Vault already released''
       AlreadyReleased) (
                                    reject e vault_id caller amount (v_balance vault < amount) ''Insufficient balance''
       InsufficientBalance))))))))"

definition apply_withdrawal ::
  "'tok env \<Rightarrow> address \<Rightarrow> address \<Rightarrow> nat \<times> int \<Rightarrow> ('tok, unit) handler" where
  "apply_withdrawal e caller default_token d = ((let vault_id = fst d in
                                               (let amount = snd d in
                                               bindM (load_vault vault_id) (\<lambda>vault.
                                               thenM (reject e vault_id caller amount (v_token_address vault \<noteq> default_token)
       ''Incompatible token'' InvalidAmount) (
                                               thenM (transfer e default_token (current_contract_address e) (v_owner vault) amount) (
                                               bindM (subi (v_balance vault) amount) (\<lambda>remaining.
                                               thenM (save_vault vault_id (vault\<lparr>v_balance := remaining\<rparr>)) (
                                               thenM (record_withdrawal_audit e vault_id caller amount True []) (
                                               thenM (publish WITHDRAWAL_NOTIF_TOPIC [VU vault_id] [VA caller, VI amount, VU (ledger_timestamp e)]) (
                                               publish WITHDRAW_TOPIC [VU vault_id] [VI amount, VI remaining]))))))))))"

definition batch_withdraw ::
  "'tok env \<Rightarrow> nat list \<Rightarrow> int list \<Rightarrow> address \<Rightarrow> ('tok, unit) handler" where
  "batch_withdraw e vault_ids amounts caller = (bindM (load_paused) (\<lambda>paused.
                                               thenM (guard (\<not> paused) (Err Paused)) (
                                               thenM (guard (length vault_ids = length amounts) (Err InvalidAmount)) (
                                               thenM (require_auth e caller) (
                                               thenM (forM (zip vault_ids amounts) (validate_withdrawal e caller)) (
                                               bindM (load_token) (\<lambda>default_token.
                                               thenM (forM (zip vault_ids amounts) (apply_withdrawal e caller default_token)) (
                                               extend_instance_ttl))))))))"

subsection \<open>Withdrawal proof, escrow, rollback, reversal\<close>

definition generate_withdrawal_proof ::
  "'tok env \<Rightarrow> nat \<Rightarrow> int \<Rightarrow> ('tok, WithdrawalProof) handler" where
  "generate_withdrawal_proof e vault_id amount = (thenM (guard (0 < amount) (Err InvalidAmount)) (
                                                 bindM (try_load_vault vault_id) (\<lambda>v.
                                                 bindM (ok_or v (Err VaultNotFound)) (\<lambda>vault.
                                                 thenM (guard (amount \<le> v_balance vault) (Err InsufficientBalance)) (
                                                 (let nonce = ledger_sequence e in
                                                 (let proof = \<lparr>wp_vault_id = vault_id, wp_amount = amount,
        wp_timestamp = ledger_timestamp e, wp_proof_hash = sha256 e (replicate 32 0),
        wp_nonce = nonce\<rparr> in
                                                 thenM (set_wdr (\<lambda>s. s\<lparr>p_WithdrawalProof := (p_WithdrawalProof s)((vault_id, nonce) \<mapsto> proof)\<rparr>)) (
                                                 thenM (extend_ttl (K_WithdrawalProof vault_id nonce) VAULT_TTL_THRESHOLD
       (vault_ttl_ledgers (v_check_in_interval vault))) (
                                                 thenM (publish WITHDRAWAL_PROOF_TOPIC [VU vault_id] [VI amount, VU nonce]) (
                                                 returnM proof))))))))))"

definition create_withdrawal_escrow ::
  "'tok env \<Rightarrow> nat \<Rightarrow> int \<Rightarrow> address \<Rightarrow> address \<Rightarrow> ('tok, unit) handler" where
  "create_withdrawal_escrow e vault_id amount beneficiary caller = (thenM (guard (0 < amount) (Err InvalidAmount)) (
                                                                   thenM (require_auth e caller) (
                                                                   bindM (try_load_vault vault_id) (\<lambda>v.
                                                                   bindM (ok_or v (Err VaultNotFound)) (\<lambda>vault.
                                                                   thenM (guard (caller = v_owner vault) (Err NotOwner)) (
                                                                   thenM (guard (amount \<le> v_balance vault) (Err InsufficientBalance)) (
                                                                   thenM (set_wdr (\<lambda>s. s\<lparr>p_WithdrawalEscrow := (p_WithdrawalEscrow s)(vault_id \<mapsto>
        \<lparr>we_vault_id = vault_id, we_amount = amount, we_timestamp = ledger_timestamp e,
         we_beneficiary = beneficiary, we_verified = False\<rparr>)\<rparr>)) (
                                                                   thenM (extend_ttl (K_WithdrawalEscrow vault_id) VAULT_TTL_THRESHOLD
       (vault_ttl_ledgers (v_check_in_interval vault))) (
                                                                   publish WITHDRAWAL_ESCROW_CREATED_TOPIC [VU vault_id] [VI amount, VA beneficiary])))))))))"

definition verify_withdrawal_escrow :: "'tok env \<Rightarrow> nat \<Rightarrow> address \<Rightarrow> ('tok, unit) handler" where
  "verify_withdrawal_escrow e vault_id caller = (thenM (require_auth e caller) (
                                                bindM (load_vault vault_id) (\<lambda>vault.
                                                bindM (gets (\<lambda>w. p_WithdrawalEscrow (wdr w) vault_id)) (\<lambda>x.
                                                bindM (ok_or x (Err VaultNotFound)) (\<lambda>escrow.
                                                thenM (guard (caller = we_beneficiary escrow) (Err NotBeneficiary)) (
                                                thenM (guard (\<not> we_verified escrow) (Err InvalidAmount)) (
                                                thenM (transfer e (v_token_address vault) (current_contract_address e) (we_beneficiary escrow)
       (we_amount escrow)) (
                                                bindM (subi (v_balance vault) (we_amount escrow)) (\<lambda>balance.
                                                thenM (save_vault vault_id (vault\<lparr>v_balance := balance\<rparr>)) (
                                                thenM (set_wdr (\<lambda>s. s\<lparr>p_WithdrawalEscrow := (p_WithdrawalEscrow s)(vault_id := None)\<rparr>)) (
                                                publish WITHDRAWAL_ESCROW_VERIFIED_TOPIC [VU vault_id] [VI (we_amount escrow)])))))))))))"

definition rollback_withdrawal ::
  "'tok env \<Rightarrow> nat \<Rightarrow> int \<Rightarrow> string \<Rightarrow> address \<Rightarrow> ('tok, unit) handler" where
  "rollback_withdrawal e vault_id rollback_amount reason caller = (thenM (guard (0 < rollback_amount) (Err InvalidAmount)) (
                                                                  thenM (require_auth e caller) (
                                                                  bindM (load_vault vault_id) (\<lambda>vault.
                                                                  thenM (guard (caller = v_owner vault) (Err NotOwner)) (
                                                                  bindM (addi (v_balance vault) rollback_amount) (\<lambda>balance.
                                                                  thenM (save_vault vault_id (vault\<lparr>v_balance := balance\<rparr>)) (
                                                                  thenM (set_wdr (\<lambda>s. s\<lparr>p_WithdrawalRollback := (p_WithdrawalRollback s)(vault_id \<mapsto>
        \<lparr>wr_vault_id = vault_id, wr_original_amount = rollback_amount,
         wr_rollback_amount = rollback_amount, wr_timestamp = ledger_timestamp e,
         wr_reason = reason\<rparr>)\<rparr>)) (
                                                                  thenM (extend_ttl (K_WithdrawalRollback vault_id) VAULT_TTL_THRESHOLD
       (vault_ttl_ledgers (v_check_in_interval vault))) (
                                                                  publish WITHDRAWAL_ROLLBACK_TOPIC [VU vault_id] [VI rollback_amount])))))))))"

definition reverse_withdrawal ::
  "'tok env \<Rightarrow> nat \<Rightarrow> address \<Rightarrow> nat \<Rightarrow> ('tok, unit) handler" where
  "reverse_withdrawal e vault_id caller withdrawal_id = (bindM (load_paused) (\<lambda>paused.
                                                        thenM (guard (\<not> paused) (Err Paused)) (
                                                        thenM (require_auth e caller) (
                                                        bindM (load_vault vault_id) (\<lambda>vault.
                                                        thenM (guard (caller = v_owner vault) (Err NotOwner)) (
                                                        bindM (gets (\<lambda>w. p_WithdrawalReversal (wdr w) (vault_id, withdrawal_id))) (\<lambda>x.
                                                        bindM (ok_or x (Err VaultNotFound)) (\<lambda>reversal.
                                                        thenM (guard (\<not> rv_reversed reversal) (Err WithdrawalAlreadyReversed)) (
                                                        thenM (guard (ledger_timestamp e \<le> rv_grace_period_until reversal)
       (Err WithdrawalReversalGracePeriodExpired)) (
                                                        bindM (addi (v_balance vault) (rv_amount reversal)) (\<lambda>balance.
                                                        thenM (save_vault vault_id (vault\<lparr>v_balance := balance\<rparr>)) (
                                                        thenM (set_wdr (\<lambda>s. s\<lparr>p_WithdrawalReversal := (p_WithdrawalReversal s)((vault_id, withdrawal_id) \<mapsto>
        reversal\<lparr>rv_reversed := True\<rparr>)\<rparr>)) (
                                                        thenM (extend_instance_ttl) (
                                                        publish WITHDRAWAL_REVERSED_TOPIC [VU vault_id] [VU withdrawal_id, VI (rv_amount reversal)]))))))))))))))"

definition get_withdrawal_reversal :: "nat \<Rightarrow> nat \<Rightarrow> ('tok, WithdrawalReversal option) handler" where
  "get_withdrawal_reversal vault_id withdrawal_id =
     gets (\<lambda>w. p_WithdrawalReversal (wdr w) (vault_id, withdrawal_id))"

subsection \<open>Rate limit and schedule\<close>

definition set_withdrawal_rate_limit ::
  "'tok env \<Rightarrow> nat \<Rightarrow> nat \<Rightarrow> address \<Rightarrow> ('tok, unit) handler" where
  "set_withdrawal_rate_limit e vault_id cooldown_seconds caller = (thenM (require_auth e caller) (
                                                                  bindM (load_vault vault_id) (\<lambda>vault.
                                                                  thenM (guard (caller = v_owner vault) (Err NotOwner)) (
                                                                  thenM (set_wdr (\<lambda>s. s\<lparr>p_WithdrawalRateLimit := (p_WithdrawalRateLimit s)(vault_id \<mapsto>
        \<lparr>wl_vault_id = vault_id, wl_last_withdrawal_time = ledger_timestamp e,
         wl_withdrawal_count = 0, wl_cooldown_seconds = cooldown_seconds\<rparr>)\<rparr>)) (
                                                                  extend_ttl (K_WithdrawalRateLimit vault_id) VAULT_TTL_THRESHOLD
       (vault_ttl_ledgers (v_check_in_interval vault)))))))"

definition is_withdrawal_allowed :: "'tok env \<Rightarrow> nat \<Rightarrow> ('tok, bool) handler" where
  "is_withdrawal_allowed e vault_id = (bindM (gets (\<lambda>w. p_WithdrawalRateLimit (wdr w) vault_id)) (\<lambda>r.
                                      (case r of None \<Rightarrow> returnM True | Some rate_limit \<Rightarrow> ((let time_since_last = ledger_timestamp e - wl_last_withdrawal_time rate_limit in
                                                                                if time_since_last < wl_cooldown_seconds rate_limit then (thenM (publish WITHDRAWAL_RATE_LIMITED_TOPIC [VU vault_id] [VU time_since_last]) (
                                                                 returnM False)) else returnM True)))))"

definition validate_withdrawal_schedule :: "nat \<Rightarrow> nat \<Rightarrow> ('tok, bool) handler" where
  "validate_withdrawal_schedule vault_id new_timestamp =
     gets (\<lambda>w. case p_WithdrawalScheduleValidation (wdr w) vault_id of
        None \<Rightarrow> True
      | Some schedules \<Rightarrow>
          \<forall>s \<in> set schedules. \<not> \<bar>int new_timestamp - int (ws_timestamp s)\<bar> < 3600)"

definition schedule_withdrawal ::
  "'tok env \<Rightarrow> nat \<Rightarrow> address \<Rightarrow> nat \<Rightarrow> int \<Rightarrow> ('tok, unit) handler" where
  "schedule_withdrawal e vault_id caller timestamp amount = (bindM (load_paused) (\<lambda>paused.
                                                            thenM (guard (\<not> paused) (Err Paused)) (
                                                            thenM (guard (0 < amount) (Err InvalidAmount)) (
                                                            thenM (require_auth e caller) (
                                                            bindM (load_vault vault_id) (\<lambda>vault.
                                                            thenM (guard (caller = v_owner vault) (Err NotOwner)) (
                                                            thenM (guard (v_status vault = Locked) (Err AlreadyReleased)) (
                                                            bindM (validate_withdrawal_schedule vault_id timestamp) (\<lambda>valid.
                                                            thenM (guard valid (Err ConflictingWithdrawalSchedule)) (
                                                            bindM (gets (\<lambda>w. log_of (p_WithdrawalScheduleValidation (wdr w) vault_id))) (\<lambda>schedules.
                                                            thenM (set_wdr (\<lambda>s. s\<lparr>p_WithdrawalScheduleValidation :=
        (p_WithdrawalScheduleValidation s)(vault_id \<mapsto>
           schedules @ [\<lparr>ws_timestamp = timestamp, ws_amount = amount\<rparr>])\<rparr>)) (
                                                            thenM (extend_ttl (K_WithdrawalScheduleValidation vault_id) VAULT_TTL_THRESHOLD
       (vault_ttl_ledgers (v_check_in_interval vault))) (
                                                            thenM (extend_instance_ttl) (
                                                            publish WITHDRAWAL_VALIDATION_TOPIC [VU vault_id] [VU timestamp, VI amount]))))))))))))))"

definition do_withdraw :: "'tok env \<Rightarrow> nat \<Rightarrow> Vault \<Rightarrow> int \<Rightarrow> ('tok, unit) handler" where
  "do_withdraw e vault_id vault amount = (thenM (guard (0 < amount) (Err InvalidAmount)) (
                                         thenM (guard (amount \<le> v_balance vault) (Err InsufficientBalance)) (
                                         thenM (transfer e (v_token_address vault) (current_contract_address e) (v_owner vault) amount) (
                                         bindM (subi (v_balance vault) amount) (\<lambda>balance.
                                         thenM (save_vault vault_id (vault\<lparr>v_balance := balance\<rparr>)) (
                                         publish WITHDRAW_TOPIC [VU vault_id] [VI amount, VI balance]))))))"

subsection \<open>Frames and effects\<close>

lemma wp_reject [wp_simps]: "wp (reject e i c a cond r err) Q w = (\<not> cond \<longrightarrow> Q () w)"
  by (auto simp: reject_def whenM_def wp_def bindM_def throw_def returnM_def split: sum.splits)

lemma wp_is_whitelisted [wp_simps]:
  "wp (is_whitelisted i a) Q w =
     Q (case p_WithdrawalWhitelist (wdr w) i of None \<Rightarrow> True
        | Some l \<Rightarrow> \<exists>x \<in> set l. we_address x = a) w"
  by (simp add: is_whitelisted_def wp_simps)

lemma keeps_current_tracker [frame]: "keeps f (current_tracker now st)"
  unfolding current_tracker_def by (intro frame)

lemma keeps_withdrawal [frame]:
  "keeps accts (record_withdrawal_audit e i c a s r)"
  "keeps accts (record_withdrawal_for_reversal e i a g)"
  "keeps accts (check_withdrawal_limits e i a)"
  "keeps accts (set_withdrawal_limits e i c l1 l2 l3)"
  "keeps accts (add_whitelist_address e i c b l)"
  "keeps accts (remove_whitelist_address e i c b)"
  "keeps accts (generate_withdrawal_proof e i a)"
  "keeps accts (create_withdrawal_escrow e i a b c)"
  "keeps accts (set_withdrawal_rate_limit e i n c)"
  "keeps accts (is_withdrawal_allowed e i)"
  "keeps accts (schedule_withdrawal e i c n a)"
  "keeps accts (get_ttl_remaining e i)"
  unfolding record_withdrawal_audit_def record_withdrawal_for_reversal_def
    check_withdrawal_limits_def set_withdrawal_limits_def add_whitelist_address_def
    remove_whitelist_address_def generate_withdrawal_proof_def create_withdrawal_escrow_def
    set_withdrawal_rate_limit_def is_withdrawal_allowed_def schedule_withdrawal_def
    get_ttl_remaining_def validate_withdrawal_schedule_def
  by (intro frame)+

lemmas wp_withdrawal_frame = keeps_withdrawal [THEN wp_keeps]

text \<open>
  \<open>paid_out\<close>: the handler took \<open>amt\<close> from vault \<open>i\<close> and sent exactly that to \<open>to\<close>; no other
  vault changed. \<open>paid_in\<close>: it received \<open>amt\<close> from \<open>from\<close> and credited exactly that.
\<close>

definition paid_out ::
  "'tok env \<Rightarrow> nat \<Rightarrow> Vault \<Rightarrow> address \<Rightarrow> int \<Rightarrow> 'tok world \<Rightarrow> 'tok world \<Rightarrow> bool" where
  "paid_out e i v to amt w t \<longleftrightarrow>
     p_Vault w i = Some v \<and> p_Vault t = (p_Vault w)(i \<mapsto> v\<lparr>v_balance := v_balance v - amt\<rparr>) \<and>
     count_of (idx t) = count_of (idx w) \<and> plans t = plans w \<and>
     token_transfer e (v_token_address v) (current_contract_address e) to amt (tokens w)
       = Some (tokens t)"

definition paid_in ::
  "'tok env \<Rightarrow> nat \<Rightarrow> Vault \<Rightarrow> address \<Rightarrow> int \<Rightarrow> 'tok world \<Rightarrow> 'tok world \<Rightarrow> bool" where
  "paid_in e i v from amt w t \<longleftrightarrow>
     p_Vault w i = Some v \<and> p_Vault t = (p_Vault w)(i \<mapsto> v\<lparr>v_balance := v_balance v + amt\<rparr>) \<and>
     count_of (idx t) = count_of (idx w) \<and> plans t = plans w \<and>
     token_transfer e (v_token_address v) from (current_contract_address e) amt (tokens w)
       = Some (tokens t)"

lemma paid_out_solvent:
  assumes "solvent bal self w" "host_ok e self bal" "paid_out e i v to amt w t" "amt \<le> v_balance v"
  shows "solvent bal self t"
proof -
  have pay: "token_transfer e (v_token_address v) self to amt (tokens w) = Some (tokens t)"
    using assms(2,3) by (simp add: paid_out_def host_ok_def)
  have "accounts_ok bal self ((p_Vault w)(i \<mapsto> v\<lparr>v_balance := v_balance v - amt\<rparr>))
      (count_of (idx w)) (tokens t)"
    by (rule accounts_pay [OF _ _ assms(2) pay])
      (use assms in \<open>simp_all add: paid_out_def solvent_def\<close>)
  then show ?thesis using assms(3) by (simp add: paid_out_def solvent_def)
qed

lemma paid_in_solvent:
  assumes "solvent bal self w" "host_ok e self bal" "paid_in e i v from amt w t" "from \<noteq> self"
  shows "solvent bal self t"
proof -
  have pay: "token_transfer e (v_token_address v) from self amt (tokens w) = Some (tokens t)"
    using assms(2,3) by (simp add: paid_in_def host_ok_def)
  have "accounts_ok bal self ((p_Vault w)(i \<mapsto> v\<lparr>v_balance := v_balance v + amt\<rparr>))
      (count_of (idx w)) (tokens t)"
    by (rule accounts_receive [OF _ _ assms(2) pay])
      (use assms in \<open>simp_all add: paid_in_def solvent_def\<close>)
  then show ?thesis using assms(3) by (simp add: paid_in_def solvent_def)
qed

lemma paid_splits:
  assumes "splits_ok w"
  shows "paid_out e i v to amt w t \<Longrightarrow> splits_ok t" "paid_in e i v to amt w t \<Longrightarrow> splits_ok t"
  using splits_save [OF assms, of t i] splits_okD(1) [OF assms, of i v]
  by (simp_all add: paid_out_def paid_in_def sane_def)

definition live :: "'tok env \<Rightarrow> Vault \<Rightarrow> bool" where
  "live e v \<longleftrightarrow> v_status v = Locked \<and>
     ledger_timestamp e < v_last_check_in v + v_check_in_interval v"

lemma deposit_effect:
  "wp (deposit e i from amt) (\<lambda>_ t. \<exists>v. paid_in e i v from amt w t \<and> 0 < amt \<and>
      authorized e from \<and> from = v_owner v \<and> \<not> is_paused_w w \<and> \<not> v_is_paused v \<and> live e v \<and>
      in_i128 (v_balance v + amt) \<and>
      (\<forall>m. v_max_deposit_amount v = Some m \<longrightarrow> v_balance v + amt \<le> m)) w"
  unfolding deposit_def
  by (auto simp: wp_simps accts_def checked_add_i_def paid_in_def live_def
      split: if_splits option.splits simp del: fun_upd_apply intro!: wp_frame)

lemma withdraw_effect:
  "wp (withdraw e i caller amt) (\<lambda>_ t. \<exists>v. paid_out e i v (v_owner v) amt w t \<and> 0 < amt \<and>
      amt \<le> v_balance v \<and> authorized e caller \<and> caller = v_owner v \<and> \<not> is_paused_w w \<and>
      \<not> v_is_paused v \<and> v_status v = Locked \<and>
      (\<forall>m. v_withdrawal_approval_threshold v = Some m \<longrightarrow> amt \<le> m)) w"
  unfolding withdraw_def
  by (auto simp: wp_simps accts_def paid_out_def split: if_splits option.splits
      simp del: fun_upd_apply intro!: wp_frame wp_withdrawal_frame)

lemma partial_liquidate_effect:
  "wp (partial_liquidate e i amt pct) (\<lambda>_ t. \<exists>v. paid_out e i v (v_owner v) amt w t \<and> 0 < amt \<and>
      amt \<le> v_balance v \<and> amt \<le> tdiv (v_balance v * int pct) 100 \<and> 0 < pct \<and> pct \<le> 100 \<and>
      authorized e (v_owner v) \<and> \<not> is_paused_w w \<and> \<not> v_is_paused v \<and> v_status v = Locked) w"
  unfolding partial_liquidate_def
  by (auto simp: wp_simps accts_def paid_out_def Let_def checked_mul_i_def
      split: if_splits option.splits
      simp del: fun_upd_apply intro!: wp_frame wp_withdrawal_frame)

lemma verify_withdrawal_escrow_effect:
  "wp (verify_withdrawal_escrow e i caller) (\<lambda>_ t. \<exists>v x. p_WithdrawalEscrow (wdr w) i = Some x \<and>
      paid_out e i v caller (we_amount x) w t \<and> authorized e caller \<and> caller = we_beneficiary x \<and>
      \<not> we_verified x \<and> p_WithdrawalEscrow (wdr t) i = None) w"
  unfolding verify_withdrawal_escrow_def
  by (auto simp: wp_simps paid_out_def)

lemma do_withdraw_effect:
  assumes "p_Vault w i = Some v"
  shows "wp (do_withdraw e i v amt) (\<lambda>_ t. paid_out e i v (v_owner v) amt w t \<and> 0 < amt \<and>
      amt \<le> v_balance v) w"
  unfolding do_withdraw_def using assms
  by (auto simp: wp_simps paid_out_def)

lemma deposit_solvent:
  assumes "solvent bal self w" "host_ok e self bal"
  shows "wp (deposit e i from amt) (\<lambda>_. solvent bal self) w"
  by (rule wp_mono [OF deposit_effect])
    (use assms in \<open>auto simp: host_ok_def dest!: paid_in_solvent [OF assms]\<close>)

lemma withdraw_solvent:
  assumes "solvent bal self w" "host_ok e self bal"
  shows "wp (withdraw e i caller amt) (\<lambda>_. solvent bal self) w"
  by (rule wp_mono [OF withdraw_effect]) (auto dest!: paid_out_solvent [OF assms])

lemma partial_liquidate_solvent:
  assumes "solvent bal self w" "host_ok e self bal"
  shows "wp (partial_liquidate e i amt pct) (\<lambda>_. solvent bal self) w"
  by (rule wp_mono [OF partial_liquidate_effect]) (auto dest!: paid_out_solvent [OF assms])

lemma deposit_splits:
  assumes "splits_ok w"
  shows "wp (deposit e i from amt) (\<lambda>_. splits_ok) w"
  by (rule wp_mono [OF deposit_effect]) (auto dest!: paid_splits [OF assms])

lemma withdraw_splits:
  assumes "splits_ok w"
  shows "wp (withdraw e i caller amt) (\<lambda>_. splits_ok) w"
  by (rule wp_mono [OF withdraw_effect]) (auto dest!: paid_splits [OF assms])

lemma partial_liquidate_splits:
  assumes "splits_ok w"
  shows "wp (partial_liquidate e i amt pct) (\<lambda>_. splits_ok) w"
  by (rule wp_mono [OF partial_liquidate_effect]) (auto dest!: paid_splits [OF assms])

subsection \<open>Batches\<close>

text \<open>The validation loop of \<open>batch_deposit\<close> changes nothing and returns what it read.\<close>

lemma validate_deposits_effect:
  "wp (foldM (validate_deposit e) ds acc) (\<lambda>r t. t = w \<and>
      fst r = fst acc @ map (\<lambda>(i, a). (i, the (p_Vault w i), a)) ds \<and>
      snd r = snd acc + sum_list (map snd ds) \<and>
      (\<forall>(i, a) \<in> set ds. 0 < a \<and> p_Vault w i \<noteq> None)) w"
proof (induction ds arbitrary: acc)
  case Nil
  show ?case by (simp add: wp_simps)
next
  case (Cons d ds)
  obtain i a where d: "d = (i, a)" by fastforce
  show ?case
    unfolding foldM.simps d validate_deposit_def [of e "(i, a)"]
    by (auto simp: wp_simps checked_add_i_def split: if_splits
        intro!: wp_mono [OF Cons.IH])
qed

text \<open>
  Crediting while money is already in the contract: \<open>accounts_slack\<close> says that \<open>r\<close> of token \<open>d\<close>
  is not yet booked.
\<close>

definition accounts_slack ::
  "('tok \<Rightarrow> address \<Rightarrow> address \<Rightarrow> int) \<Rightarrow> address \<Rightarrow> address \<Rightarrow> int \<Rightarrow> 'tok world \<Rightarrow> bool" where
  "accounts_slack bal self d r w \<longleftrightarrow>
     (\<forall>i v. p_Vault w i = Some v \<longrightarrow> 1 \<le> i \<and> i \<le> count_of (idx w) \<and> 0 \<le> v_balance v) \<and>
     (\<forall>t. total_held (p_Vault w) (count_of (idx w)) t + (if t = d then r else 0)
        \<le> bal (tokens w) t self)"

lemma accounts_slack_0: "accounts_slack bal self d 0 w = solvent bal self w"
  by (simp add: accounts_slack_def solvent_def accounts_ok_def)

lemma accounts_slack_credit:
  assumes "accounts_slack bal self d r w" "p_Vault w i = Some c" "v_token_address v' = v_token_address c"
    "v_token_address c = d" "0 \<le> v_balance v'" "v_balance v' \<le> v_balance c + a"
    "p_Vault t = (p_Vault w)(i \<mapsto> v')" "count_of (idx t) = count_of (idx w)" "tokens t = tokens w"
  shows "accounts_slack bal self d (r - a) t"
proof -
  have i: "1 \<le> i" "i \<le> count_of (idx w)"
    using assms(1,2) by (auto simp: accounts_slack_def)
  note total = total_held_save [where vs = "p_Vault w" and i = i and v = c, OF i assms(2,3)]
  have "total_held (p_Vault w) (count_of (idx w)) t' + (if t' = d then r else 0)
      \<le> bal (tokens w) t' self" for t'
    using assms(1) by (simp add: accounts_slack_def)
  then have "total_held (p_Vault t) (count_of (idx t)) t' + (if t' = d then r - a else 0)
      \<le> bal (tokens t) t' self" for t'
    using assms(4,6,8,9) unfolding assms(7) by (fastforce simp: total split: if_splits)
  then show ?thesis
    using assms by (auto simp: accounts_slack_def)
qed

text \<open>
  A collected entry \<open>(i, v, a)\<close>: \<open>v\<close> is vault \<open>i\<close> as the validation loop read it (in \<open>vs\<close>); the
  stored vault may have grown since, when the batch names \<open>i\<close> more than once.
\<close>

definition stale_ok :: "(nat \<Rightarrow> Vault option) \<Rightarrow> 'tok world \<Rightarrow> nat \<times> Vault \<times> int \<Rightarrow> bool" where
  "stale_ok vs w = (\<lambda>(i, v, a). 0 < a \<and> 0 \<le> v_balance v \<and> vs i = Some v \<and>
     (\<exists>c. p_Vault w i = Some c \<and> v_token_address c = v_token_address v \<and>
        v_balance v \<le> v_balance c))"

lemma stale_ok_credit:
  assumes "stale_ok vs w (i, v, a)" "stale_ok vs w x"
    "p_Vault t = (p_Vault w)(i \<mapsto> v\<lparr>v_balance := v_balance v + a\<rparr>)"
  shows "stale_ok vs t x"
proof (cases "fst x = i")
  case True
  then show ?thesis using assms by (cases x) (auto simp: stale_ok_def)
next
  case False
  then show ?thesis using assms by (cases x) (auto simp: stale_ok_def)
qed

lemma credit_deposits_slack:
  assumes "accounts_slack bal self d (sum_list (map (\<lambda>x. snd (snd x)) xs)) w" "list_all (stale_ok vs w) xs"
  shows "wp (forM xs (credit_deposit d)) (\<lambda>_. solvent bal self) w"
  using assms
proof (induction xs arbitrary: w)
  case Nil
  then show ?case by (simp add: wp_simps accounts_slack_0)
next
  case (Cons x xs)
  obtain i v a where x: "x = (i, v, a)" by (cases x)
  obtain c where c: "p_Vault w i = Some c" "v_token_address c = v_token_address v"
      "v_balance v \<le> v_balance c" and a: "0 < a" "0 \<le> v_balance v"
    using Cons.prems(2) x by (auto simp: stale_ok_def)
  have step: "wp (forM xs (credit_deposit d)) (\<lambda>_. solvent bal self) t"
    if "v_token_address v = d" "p_Vault t = (p_Vault w)(i \<mapsto> v\<lparr>v_balance := v_balance v + a\<rparr>)"
      "count_of (idx t) = count_of (idx w)" "tokens t = tokens w" for t
  proof (rule Cons.IH)
    show "accounts_slack bal self d (sum_list (map (\<lambda>x. snd (snd x)) xs)) t"
      using accounts_slack_credit [OF Cons.prems(1) c(1), where a = a
          and v' = "v\<lparr>v_balance := v_balance v + a\<rparr>" and t = t] c a that x
      by simp
    show "list_all (stale_ok vs t) xs"
      using Cons.prems(2) that(2) x by (auto simp: list_all_iff intro: stale_ok_credit)
  qed
  show ?case
    unfolding forM.simps x credit_deposit_def [of d "(i, v, a)"]
    by (simp add: wp_simps checked_add_i_def step)
qed

lemma batch_deposit_solvent:
  assumes sol: "solvent bal self w" and host: "host_ok e self bal"
  shows "wp (batch_deposit e from ds) (\<lambda>_. solvent bal self) w"
proof -
  let ?xs = "map (\<lambda>(i, a). (i, the (p_Vault w i), a)) ds"
  have sum: "sum_list (map (\<lambda>x. snd (snd x)) ?xs) = sum_list (map snd ds)"
    by (simp add: case_prod_beta o_def)
  have slack: "accounts_slack bal self d (sum_list (map snd ds)) (w\<lparr>tokens := tk\<rparr>)"
    if pay: "token_transfer e d from (current_contract_address e) (sum_list (map snd ds)) (tokens w)
        = Some tk" and auth: "authorized e from" for d tk
  proof -
    have "sep41 e bal" "from \<noteq> self" "current_contract_address e = self"
      using host auth by (auto simp: host_ok_def)
    then show ?thesis
      using sol sep41D(3) [OF _ pay, of bal _ self]
      by (auto simp: accounts_slack_def solvent_def accounts_ok_def)
  qed
  have stale: "list_all (stale_ok (p_Vault w) w') ?xs"
    if "\<forall>(i, a) \<in> set ds. 0 < a \<and> p_Vault w i \<noteq> None" "p_Vault w' = p_Vault w" for w' :: "'a world"
    using that sol by (fastforce simp: list_all_iff stale_ok_def solvent_def accounts_ok_def)
  have frame: "wp (forM ?xs (credit_deposit d)) (\<lambda>_. wp extend_instance_ttl (\<lambda>_. solvent bal self)) w'"
    if "accounts_slack bal self d (sum_list (map snd ds)) w'"
      "list_all (stale_ok (p_Vault w) w') ?xs" for d w'
    by (rule wp_mono [OF credit_deposits_slack])
      (use that sum in \<open>auto simp: solvent_def wp_simps\<close>)
  show ?thesis
    unfolding batch_deposit_def
    by (auto simp: wp_simps Let_def sol keeps_solvent frame slack stale
        intro!: wp_mono [OF validate_deposits_effect])
      (use sol in \<open>simp add: solvent_def\<close>)
qed

text \<open>\<open>batch_withdraw\<close>: the first loop only checks; the second pays vault by vault.\<close>

lemma validate_withdrawals_effect:
  "wp (forM xs (validate_withdrawal e caller)) (\<lambda>_ t. t = w \<and>
      (\<forall>(i, a) \<in> set xs. \<exists>v. p_Vault w i = Some v \<and> 0 < a \<and> a \<le> v_balance v \<and>
         v_owner v = caller \<and> v_status v = Locked)) w"
proof (induction xs arbitrary: caller)
  case (Cons x xs)
  show ?case
    unfolding forM.simps validate_withdrawal_def [of e caller x]
    by (auto simp: wp_simps case_prod_beta intro!: wp_mono [OF Cons.IH])
qed (simp add: wp_simps)

lemma apply_withdrawal_effect:
  "wp (apply_withdrawal e caller d (i, a))
     (\<lambda>_ t. \<exists>v. paid_out e i v (v_owner v) a w t \<and> v_token_address v = d) w"
  unfolding apply_withdrawal_def
  by (auto simp: wp_simps accts_def paid_out_def simp del: fun_upd_apply
      intro!: wp_withdrawal_frame)

lemma apply_withdrawals_solvent:
  assumes "solvent bal self w" "host_ok e self bal" "distinct (map fst xs)"
    "\<forall>(i, a) \<in> set xs. \<exists>v. p_Vault w i = Some v \<and> a \<le> v_balance v"
  shows "wp (forM xs (apply_withdrawal e caller d)) (\<lambda>_. solvent bal self) w"
  using assms(1,3,4)
proof (induction xs arbitrary: w)
  case (Cons x xs)
  obtain i a where x: "x = (i, a)" by fastforce
  have "wp (forM xs (apply_withdrawal e caller d)) (\<lambda>_. solvent bal self) t"
    if "paid_out e i v (v_owner v) a w t" for v t
  proof (rule Cons.IH)
    show "solvent bal self t"
      using paid_out_solvent [OF Cons.prems(1) assms(2) that] Cons.prems(3) that x
      by (auto simp: paid_out_def)
    show "\<forall>(j, b) \<in> set xs. \<exists>v. p_Vault t j = Some v \<and> b \<le> v_balance v"
    proof clarify
      fix j b assume jb: "(j, b) \<in> set xs"
      then have "j \<noteq> i" using Cons.prems(2) x by (auto simp: image_iff)
      then show "\<exists>v. p_Vault t j = Some v \<and> b \<le> v_balance v"
        using Cons.prems(3) that jb by (auto simp: paid_out_def dest: bspec)
    qed
  qed (use Cons.prems in simp)
  then show ?case
    unfolding forM.simps x by (auto simp: wp_simps intro!: wp_mono [OF apply_withdrawal_effect])
qed (simp add: wp_simps)

lemma batch_withdraw_solvent:
  assumes "solvent bal self w" "host_ok e self bal" "distinct ids"
  shows "wp (batch_withdraw e ids amts caller) (\<lambda>_. solvent bal self) w"
proof -
  have main: "wp (forM (zip ids amts) (apply_withdrawal e caller d))
      (\<lambda>_. wp extend_instance_ttl (\<lambda>_. solvent bal self)) w"
    if "\<forall>(i, a) \<in> set (zip ids amts). \<exists>v. p_Vault w i = Some v \<and> 0 < a \<and> a \<le> v_balance v \<and>
         v_owner v = caller \<and> v_status v = Locked" "length ids = length amts" for d
    by (rule wp_mono [OF apply_withdrawals_solvent [OF assms(1,2)]])
      (use that assms(3) in \<open>auto simp: solvent_def wp_simps\<close>)
  show ?thesis
    unfolding batch_withdraw_def
    by (auto simp: wp_simps intro!: wp_mono [OF validate_withdrawals_effect] main)
qed

lemma credit_deposits_splits:
  assumes "splits_ok w" "\<forall>(i, v, a) \<in> set xs. sane v"
  shows "wp (forM xs (credit_deposit d)) (\<lambda>_. splits_ok) w"
  using assms(1)
proof (rule wp_forM)
  fix x and t :: "'a world" assume "x \<in> set xs" "splits_ok t"
  then show "wp (credit_deposit d x) (\<lambda>_. splits_ok) t"
    using assms(2) by (cases x) (auto simp: credit_deposit_def wp_simps splits_ok_def sane_def)
qed

lemma batch_deposit_splits:
  assumes "splits_ok w"
  shows "wp (batch_deposit e from ds) (\<lambda>_. splits_ok) w"
proof -
  let ?xs = "map (\<lambda>(i, a). (i, the (p_Vault w i), a)) ds"
  have "wp (forM ?xs (credit_deposit d)) (\<lambda>_. wp extend_instance_ttl (\<lambda>_. splits_ok)) (w\<lparr>tokens := tk\<rparr>)"
    if "\<forall>(i, a) \<in> set ds. 0 < a \<and> p_Vault w i \<noteq> None" for d tk
    by (rule wp_mono [OF credit_deposits_splits])
      (use that assms in \<open>fastforce simp: splits_ok_def wp_simps\<close>)+
  then show ?thesis
    unfolding batch_deposit_def
    by (auto simp: wp_simps Let_def assms keeps_splits intro!: wp_mono [OF validate_deposits_effect])
      (use assms in \<open>simp add: splits_ok_def\<close>)
qed

lemma batch_withdraw_splits:
  assumes "splits_ok w"
  shows "wp (batch_withdraw e ids amts caller) (\<lambda>_. splits_ok) w"
proof -
  have main: "wp (forM (zip ids amts) (apply_withdrawal e caller d))
      (\<lambda>_. wp extend_instance_ttl (\<lambda>_. splits_ok)) w" for d
  proof (rule wp_forM_pre [where I = splits_ok])
    fix x and t :: "'a world" assume "splits_ok t"
    then show "wp (apply_withdrawal e caller d x) (\<lambda>_. splits_ok) t"
      by (cases x) (blast intro: wp_mono [OF apply_withdrawal_effect] dest: paid_splits(1))
  qed (use assms in \<open>simp_all add: wp_simps splits_ok_def\<close>)
  show ?thesis
    unfolding batch_withdraw_def
    by (auto simp: wp_simps intro!: wp_mono [OF validate_withdrawals_effect] main)
qed

end
