(* ===== verification/Vault_Ttl.thy ===== *)
theory Vault_Ttl
  imports Vault_Funds
begin

section \<open>The dead-man's timer\<close>

text \<open>
  The handlers of \<open>ttl_vault/src/lib.rs\<close> that read or move a vault's deadline: expiry,
  hibernation, the batched check-ins, the proof-of-work check-in, TTL decay, acceleration and
  borrowing, the interval update, check-in delegates, expiry pings and countdown notifications,
  and the readers of the check-in history.
\<close>

unbundle bit_operations_syntax

subsection \<open>Expiry and hibernation\<close>

definition is_expired :: "'tok env \<Rightarrow> nat \<Rightarrow> ('tok, bool) handler" where
  "is_expired e vault_id = (bindM (load_vault vault_id) (\<lambda>vault.
                           (let now = ledger_timestamp e in
                           bindM (gets (\<lambda>w. p_Hibernation (rel w) vault_id)) (\<lambda>h.
                           if (case h of None \<Rightarrow> False
         | Some x \<Rightarrow> min (now - h_started_at x) (h_duration_seconds x) < h_duration_seconds x)
     then returnM False
     else ((let hibernated = (case h of None \<Rightarrow> 0 | Some x \<Rightarrow> h_duration_seconds x) in
          bindM (add64 (v_last_check_in vault) (v_check_in_interval vault)) (\<lambda>d.
          bindM (add64 d hibernated) (\<lambda>deadline.
          returnM (deadline \<le> now)))))))))"

definition enter_hibernation :: "'tok env \<Rightarrow> nat \<Rightarrow> address \<Rightarrow> nat \<Rightarrow> ('tok, unit) handler" where
  "enter_hibernation e vault_id caller duration_seconds = (thenM (require_auth e caller) (
                                                          thenM (guard (duration_seconds \<noteq> 0) (Err InvalidInterval)) (
                                                          bindM (load_vault vault_id) (\<lambda>vault.
                                                          thenM (guard (caller = v_owner vault) (Err NotOwner)) (
                                                          thenM (guard (v_status vault = Locked) (Err AlreadyReleased)) (
                                                          bindM (gets (\<lambda>w. p_Hibernation (rel w) vault_id)) (\<lambda>h.
                                                          thenM (guard (h = None) (Err AlreadyHibernating)) (
                                                          (let now = ledger_timestamp e in
                                                          bindM (add64 (v_check_in_interval vault) duration_seconds) (\<lambda>total.
                                                          (let ttl = vault_ttl_ledgers total in
                                                          thenM (set_rel (\<lambda>r. r\<lparr>p_Hibernation := (p_Hibernation r)(vault_id \<mapsto>
        \<lparr>h_started_at = now, h_duration_seconds = duration_seconds\<rparr>)\<rparr>)) (
                                                          thenM (extend_ttl (K_Hibernation vault_id) VAULT_TTL_THRESHOLD ttl) (
                                                          thenM (extend_instance_ttl) (
                                                          publish HIBERNATION_ENTERED_TOPIC [VU vault_id] [VA caller, VU now, VU duration_seconds]))))))))))))))"

definition exit_hibernation :: "'tok env \<Rightarrow> nat \<Rightarrow> address \<Rightarrow> ('tok, unit) handler" where
  "exit_hibernation e vault_id caller = (thenM (require_auth e caller) (
                                        bindM (load_vault vault_id) (\<lambda>vault.
                                        thenM (guard (caller = v_owner vault) (Err NotOwner)) (
                                        thenM (guard (v_status vault = Locked) (Err AlreadyReleased)) (
                                        bindM (gets (\<lambda>w. p_Hibernation (rel w) vault_id)) (\<lambda>h.
                                        bindM (ok_or h (Err NotHibernating)) (\<lambda>entry.
                                        (let now = ledger_timestamp e in
                                        (let elapsed = min (now - h_started_at entry) (h_duration_seconds entry) in
                                        thenM (set_rel (\<lambda>r. r\<lparr>p_Hibernation := (p_Hibernation r)(vault_id := None)\<rparr>)) (
                                        thenM (save_vault vault_id (vault\<lparr>v_last_check_in :=
       sat_add U64_MAX (v_last_check_in vault) elapsed\<rparr>)) (
                                        thenM (extend_instance_ttl) (
                                        publish HIBERNATION_EXITED_TOPIC [VU vault_id] [VA caller, VU now, VU elapsed]))))))))))))"

definition get_hibernation :: "nat \<Rightarrow> ('tok, HibernationEntry option) handler" where
  "get_hibernation vault_id = gets (\<lambda>w. p_Hibernation (rel w) vault_id)"

subsection \<open>Batched check-ins\<close>

definition validate_check_in :: "address \<Rightarrow> nat \<Rightarrow> ('tok, unit) handler" where
  "validate_check_in caller vault_id = (bindM (try_load_vault vault_id) (\<lambda>v.
                                       bindM (ok_or v (Err VaultNotFound)) (\<lambda>vault.
                                       thenM (guard (\<not> v_is_paused vault) (Err Paused)) (
                                       thenM (guard (caller = v_owner vault) (Err NotOwner)) (
                                       guard (v_status vault = Locked) (Err AlreadyReleased))))))"

definition apply_check_in :: "nat \<Rightarrow> nat \<Rightarrow> ('tok, unit) handler" where
  "apply_check_in now vault_id = (bindM (load_vault vault_id) (\<lambda>vault.
                                 bindM (apply_rotation vault_id now (vault\<lparr>v_last_check_in := now\<rparr>)) (\<lambda>rotated.
                                 thenM (save_vault vault_id rotated) (
                                 publish CHECK_IN_TOPIC [VU vault_id] [VU now]))))"

definition batch_check_in :: "'tok env \<Rightarrow> nat list \<Rightarrow> address \<Rightarrow> ('tok, unit) handler" where
  "batch_check_in e vault_ids caller = (bindM (load_paused) (\<lambda>paused.
                                       thenM (guard (\<not> paused) (Err Paused)) (
                                       thenM (require_auth e caller) (
                                       thenM (forM vault_ids (validate_check_in caller)) (
                                       (let now = ledger_timestamp e in
                                       thenM (forM vault_ids (apply_check_in now)) (
                                       extend_instance_ttl)))))))"

definition validate_sync :: "'tok env \<Rightarrow> address \<Rightarrow> nat \<Rightarrow> ('tok, unit) handler" where
  "validate_sync e caller vault_id = (bindM (try_load_vault vault_id) (\<lambda>v.
                                     bindM (ok_or v (Err VaultNotFound)) (\<lambda>vault.
                                     thenM (guard (caller = v_owner vault) (Err NotOwner)) (
                                     thenM (guard (v_status vault = Locked) (Err AlreadyReleased)) (
                                     bindM (get_max_ttl_seconds) (\<lambda>max_ttl.
                                     (let now = ledger_timestamp e in
                                     bindM (add64 now (v_check_in_interval vault)) (\<lambda>deadline.
                                     bindM (add64 now max_ttl) (\<lambda>max_deadline.
                                     guard (deadline \<le> max_deadline) (Err MaxTtlExceeded))))))))))"

definition apply_sync :: "nat \<Rightarrow> nat \<Rightarrow> ('tok, unit) handler" where
  "apply_sync now vault_id = (bindM (load_vault vault_id) (\<lambda>vault.
                             thenM (save_vault vault_id (vault\<lparr>v_last_check_in := now\<rparr>)) (
                             publish CHECK_IN_TOPIC [VU vault_id] [VU now])))"

definition sync_vault_ttls :: "'tok env \<Rightarrow> nat list \<Rightarrow> address \<Rightarrow> ('tok, unit) handler" where
  "sync_vault_ttls e vault_ids caller = (bindM (load_paused) (\<lambda>paused.
                                        thenM (guard (\<not> paused) (Err Paused)) (
                                        thenM (require_auth e caller) (
                                        thenM (forM vault_ids (validate_sync e caller)) (
                                        (let now = ledger_timestamp e in
                                        thenM (forM vault_ids (apply_sync now)) (
                                        thenM (extend_instance_ttl) (
                                        publish SYNC_TTL_TOPIC [] [VU (length vault_ids)]))))))))"

definition validate_check_in_v2 ::
  "'tok env \<Rightarrow> address \<Rightarrow> bytes \<Rightarrow> nat \<Rightarrow> nat \<Rightarrow> ('tok, unit) handler" where
  "validate_check_in_v2 e caller passkey_hash max_ttl vault_id = (bindM (try_load_vault vault_id) (\<lambda>v.
                                                                 bindM (ok_or v (Err VaultNotFound)) (\<lambda>vault.
                                                                 thenM (guard (\<not> v_is_paused vault) (Err Paused)) (
                                                                 bindM ((if caller \<noteq> v_owner vault then is_check_in_delegate vault_id caller
                  else returnM True)) (\<lambda>delegate.
                                                                 thenM (guard delegate (Err NotOwner)) (
                                                                 thenM (guard (v_status vault = Locked) (Err AlreadyReleased)) (
                                                                 bindM (load_vault vault_id) (\<lambda>vault_inner.
                                                                 thenM (validate_passkey_for_checkin vault_id vault_inner passkey_hash (ledger_timestamp e)) (
                                                                 bindM (add64 (ledger_timestamp e) (v_check_in_interval vault)) (\<lambda>deadline.
                                                                 bindM (add64 (ledger_timestamp e) max_ttl) (\<lambda>max_deadline.
                                                                 guard (deadline \<le> max_deadline) (Err MaxTtlExceeded))))))))))))"

definition apply_check_in_v2 ::
  "'tok env \<Rightarrow> address \<Rightarrow> bytes \<Rightarrow> nat \<Rightarrow> ('tok, unit) handler" where
  "apply_check_in_v2 e caller passkey_hash vault_id = ((let now = ledger_timestamp e in
                                                      bindM (load_vault vault_id) (\<lambda>vault.
                                                      thenM (save_vault vault_id (vault\<lparr>v_last_check_in := now\<rparr>)) (
                                                      thenM (record_check_in_history vault_id now) (
                                                      thenM (update_check_in_streak vault_id (vault\<lparr>v_last_check_in := now\<rparr>) now) (
                                                      thenM (log_passkey_usage vault_id passkey_hash now) (
                                                      thenM (log_passkey_audit_entry e vault_id ''use'' caller passkey_hash) (
                                                      publish CHECK_IN_TOPIC [VU vault_id] [VU now]))))))))"

definition batch_check_in_v2 ::
  "'tok env \<Rightarrow> nat list \<Rightarrow> address \<Rightarrow> bytes \<Rightarrow> ('tok, unit) handler" where
  "batch_check_in_v2 e vault_ids caller passkey_hash = (bindM (load_paused) (\<lambda>paused.
                                                       thenM (guard (\<not> paused) (Err Paused)) (
                                                       thenM (require_auth e caller) (
                                                       bindM (get_max_ttl_seconds) (\<lambda>max_ttl.
                                                       thenM (forM vault_ids (validate_check_in_v2 e caller passkey_hash max_ttl)) (
                                                       thenM (forM vault_ids (apply_check_in_v2 e caller passkey_hash)) (
                                                       thenM (extend_instance_ttl) (
                                                       publish BATCH_CHECKIN_TOPIC [] [VU (length vault_ids)]))))))))"

subsection \<open>Check-in with proof of work\<close>

fun to_le_bytes :: "nat \<Rightarrow> nat \<Rightarrow> bytes" where
  "to_le_bytes 0 x = []"
| "to_le_bytes (Suc n) x = x mod 256 # to_le_bytes n (x div 256)"

text \<open>\<open>u8::leading_zeros\<close>.\<close>

fun byte_leading_zeros :: "nat \<Rightarrow> nat \<Rightarrow> nat" where
  "byte_leading_zeros 0 b = 0"
| "byte_leading_zeros (Suc n) b = (if b < 2 ^ n then Suc (byte_leading_zeros n b) else 0)"

fun leading_zero_bits :: "bytes \<Rightarrow> nat" where
  "leading_zero_bits [] = 0"
| "leading_zero_bits (b # bs) =
     (if b = 0 then 8 + leading_zero_bits bs else byte_leading_zeros 8 b)"

definition verify_pow :: "'tok env \<Rightarrow> nat \<Rightarrow> nat \<Rightarrow> nat \<Rightarrow> nat \<Rightarrow> bool" where
  "verify_pow e vault_id last_check_in nonce difficulty =
     (if difficulty = 0 then True
      else difficulty \<le> leading_zero_bits
        (sha256 e (to_le_bytes 8 vault_id @ to_le_bytes 8 last_check_in @ to_le_bytes 8 nonce)))"

definition check_in_with_pow ::
  "'tok env \<Rightarrow> nat \<Rightarrow> address \<Rightarrow> bytes \<Rightarrow> nat \<Rightarrow> nat \<Rightarrow> ('tok, unit) handler" where
  "check_in_with_pow e vault_id caller passkey_hash nonce difficulty = (bindM (load_paused) (\<lambda>paused.
                                                                       thenM (guard (\<not> paused) (Err Paused)) (
                                                                       thenM (require_auth e caller) (
                                                                       bindM (load_vault vault_id) (\<lambda>vault.
                                                                       thenM (guard (\<not> v_is_paused vault) (Err Paused)) (
                                                                       bindM ((if caller \<noteq> v_owner vault then is_check_in_delegate vault_id caller
                  else returnM True)) (\<lambda>delegate.
                                                                       thenM (guard delegate (Err NotOwner)) (
                                                                       thenM (guard (v_status vault = Locked) (Err AlreadyReleased)) (
                                                                       (let now = ledger_timestamp e in
                                                                       thenM (validate_passkey_for_checkin vault_id vault passkey_hash now) (
                                                                       thenM (guard (verify_pow e vault_id (v_last_check_in vault) nonce (min difficulty 20))
       (Err InvalidPasskey)) (
                                                                       bindM (get_max_ttl_seconds) (\<lambda>max_ttl.
                                                                       bindM (add64 now (v_check_in_interval vault)) (\<lambda>deadline.
                                                                       bindM (add64 now max_ttl) (\<lambda>max_deadline.
                                                                       thenM (guard (deadline \<le> max_deadline) (Err MaxTtlExceeded)) (
                                                                       (let vault' = vault\<lparr>v_last_check_in := now\<rparr> in
                                                                       thenM (save_vault vault_id vault') (
                                                                       bindM (load_owner_vault_ids (v_owner vault)) (\<lambda>owner_ids.
                                                                       thenM (save_owner_vault_ids (v_owner vault) owner_ids (v_check_in_interval vault)) (
                                                                       thenM (log_passkey_usage vault_id passkey_hash now) (
                                                                       thenM (log_passkey_audit_entry e vault_id ''use'' caller passkey_hash) (
                                                                       thenM (record_check_in_history vault_id now) (
                                                                       thenM (update_check_in_streak vault_id vault' now) (
                                                                       thenM (log_audit_entry e vault_id ''check_in_pow'' caller []) (
                                                                       thenM (extend_instance_ttl) (
                                                                       publish CHECKIN_POW_TOPIC [VU vault_id] [VU now, VU nonce]))))))))))))))))))))))))))"

subsection \<open>Check-in delegates\<close>

definition add_check_in_delegate ::
  "'tok env \<Rightarrow> nat \<Rightarrow> address \<Rightarrow> address \<Rightarrow> ('tok, unit) handler" where
  "add_check_in_delegate e vault_id caller delegate = (thenM (require_auth e caller) (
                                                      bindM (load_vault vault_id) (\<lambda>vault.
                                                      thenM (guard (caller = v_owner vault) (Err NotOwner)) (
                                                      thenM (guard (v_status vault = Locked) (Err AlreadyReleased)) (
                                                      bindM (gets (\<lambda>w. log_of (p_CheckInDelegates (pks w) vault_id))) (\<lambda>delegates.
                                                      thenM (guard (delegate \<notin> set delegates) (Err InvalidBeneficiary)) (
                                                      thenM (set_pks (\<lambda>p. p\<lparr>p_CheckInDelegates :=
       (p_CheckInDelegates p)(vault_id \<mapsto> delegates @ [delegate])\<rparr>)) (
                                                      thenM (extend_ttl (K_CheckInDelegates vault_id) VAULT_TTL_THRESHOLD
       (vault_ttl_ledgers (v_check_in_interval vault))) (
                                                      thenM (extend_instance_ttl) (
                                                      publish DELEGATE_CHECKIN_TOPIC [VU vault_id] [VA delegate]))))))))))"

definition remove_check_in_delegate ::
  "'tok env \<Rightarrow> nat \<Rightarrow> address \<Rightarrow> address \<Rightarrow> ('tok, unit) handler" where
  "remove_check_in_delegate e vault_id caller delegate = (thenM (require_auth e caller) (
                                                         bindM (load_vault vault_id) (\<lambda>vault.
                                                         thenM (guard (caller = v_owner vault) (Err NotOwner)) (
                                                         bindM (gets (\<lambda>w. log_of (p_CheckInDelegates (pks w) vault_id))) (\<lambda>delegates.
                                                         thenM (guard (delegate \<in> set delegates) (Err PasskeyNotFound)) (
                                                         thenM (set_pks (\<lambda>p. p\<lparr>p_CheckInDelegates :=
       (p_CheckInDelegates p)(vault_id \<mapsto> filter (\<lambda>d. d \<noteq> delegate) delegates)\<rparr>)) (
                                                         thenM (extend_ttl (K_CheckInDelegates vault_id) VAULT_TTL_THRESHOLD
       (vault_ttl_ledgers (v_check_in_interval vault))) (
                                                         thenM (extend_instance_ttl) (
                                                         publish REVOKE_DELEGATE_TOPIC [VU vault_id] [VA delegate])))))))))"

subsection \<open>Decay, acceleration and borrowing\<close>

definition ttl_remaining_or_0 :: "'tok env \<Rightarrow> nat \<Rightarrow> ('tok, nat) handler" where
  "ttl_remaining_or_0 e vault_id = (bindM (get_ttl_remaining e vault_id) (\<lambda>r.
                                   returnM (case r of None \<Rightarrow> 0 | Some n \<Rightarrow> n)))"

definition apply_ttl_decay :: "'tok env \<Rightarrow> nat \<Rightarrow> ('tok, nat) handler" where
  "apply_ttl_decay e vault_id = (bindM (try_load_vault vault_id) (\<lambda>v.
                                bindM (ok_or v (Err VaultNotFound)) (\<lambda>vault.
                                thenM (guard (v_status vault = Locked) (Err AlreadyReleased)) (
                                bindM (get_ttl_decay_rate) (\<lambda>decay_rate.
                                if decay_rate = 0 then ttl_remaining_or_0 e vault_id else ((let now = ledger_timestamp e in
                                                               (let last_check_in = v_last_check_in vault in
                                                               bindM (add64 last_check_in 2592000) (\<lambda>thirty.
                                                               if now < thirty then ttl_remaining_or_0 e vault_id else (bindM (add64 last_check_in (v_check_in_interval vault)) (\<lambda>current_deadline.
                                                               (let remaining = current_deadline - now in
                                                               bindM (sub64 10000 decay_rate) (\<lambda>kept.
                                                               bindM (mul64 remaining kept) (\<lambda>scaled.
                                                               (let decayed_ttl = scaled div 10000 in
                                                               bindM (add64 now decayed_ttl) (\<lambda>new_deadline.
                                                               bindM (sub64 new_deadline (v_check_in_interval vault)) (\<lambda>new_last.
                                                               thenM (save_vault vault_id (vault\<lparr>v_last_check_in := new_last\<rparr>)) (
                                                               thenM (extend_instance_ttl) (
                                                               thenM (publish TTL_DECAY_TOPIC [VU vault_id] [VU remaining, VU decayed_ttl]) (
                                                               returnM decayed_ttl))))))))))))))))))))"

definition accelerate_ttl_decay :: "'tok env \<Rightarrow> nat \<Rightarrow> address \<Rightarrow> nat \<Rightarrow> ('tok, unit) handler" where
  "accelerate_ttl_decay e vault_id caller accelerate_by_seconds = (bindM (load_paused) (\<lambda>paused.
                                                                  thenM (guard (\<not> paused) (Err Paused)) (
                                                                  thenM (require_auth e caller) (
                                                                  thenM (guard (\<not> (accelerate_by_seconds = 0 \<or> MAX_ACCELERATE_SECONDS < accelerate_by_seconds))
       (Err InvalidAmount)) (
                                                                  bindM (load_vault vault_id) (\<lambda>vault.
                                                                  thenM (guard (caller = v_owner vault) (Err NotOwner)) (
                                                                  thenM (guard (v_status vault = Locked) (Err AlreadyReleased)) (
                                                                  (let now = ledger_timestamp e in
                                                                  bindM (add64 (v_last_check_in vault) (v_check_in_interval vault)) (\<lambda>current_deadline.
                                                                  (let remaining = current_deadline - now in
                                                                  thenM (guard (accelerate_by_seconds < remaining) (Err InsufficientTtlToAccelerate)) (
                                                                  thenM (save_vault vault_id
       (vault\<lparr>v_last_check_in := v_last_check_in vault - accelerate_by_seconds\<rparr>)) (
                                                                  thenM (extend_instance_ttl) (
                                                                  publish TTL_ACCELERATE_TOPIC [VU vault_id]
       [VU accelerate_by_seconds, VU (remaining - accelerate_by_seconds)]))))))))))))))"

definition borrow_ttl :: "'tok env \<Rightarrow> nat \<Rightarrow> nat \<Rightarrow> address \<Rightarrow> nat \<Rightarrow> ('tok, unit) handler" where
  "borrow_ttl e borrower_vault_id lender_vault_id caller borrow_seconds = (bindM (load_paused) (\<lambda>paused.
                                                                          thenM (guard (\<not> paused) (Err Paused)) (
                                                                          thenM (require_auth e caller) (
                                                                          thenM (guard (\<not> (borrow_seconds = 0 \<or> borrower_vault_id = lender_vault_id)) (Err InvalidAmount)) (
                                                                          bindM (load_vault borrower_vault_id) (\<lambda>borrower.
                                                                          thenM (guard (caller = v_owner borrower) (Err NotOwner)) (
                                                                          thenM (guard (v_status borrower = Locked) (Err AlreadyReleased)) (
                                                                          bindM (load_vault lender_vault_id) (\<lambda>lender.
                                                                          thenM (guard (v_status lender = Locked) (Err AlreadyReleased)) (
                                                                          (let now = ledger_timestamp e in
                                                                          bindM (add64 (v_last_check_in lender) (v_check_in_interval lender)) (\<lambda>lender_deadline.
                                                                          (let lender_remaining = lender_deadline - now in
                                                                          thenM (guard (borrow_seconds < lender_remaining) (Err InsufficientBalance)) (
                                                                          (let borrower' = borrower\<lparr>v_last_check_in :=
       sat_add U64_MAX (v_last_check_in borrower) borrow_seconds\<rparr> in
                                                                          (let lender' = lender\<lparr>v_last_check_in := v_last_check_in lender - borrow_seconds\<rparr> in
                                                                          thenM (set_logs (\<lambda>l. l\<lparr>p_TtlBorrow := (p_TtlBorrow l)(borrower_vault_id \<mapsto>
       \<lparr>tb_borrower_vault_id = borrower_vault_id, tb_lender_vault_id = lender_vault_id,
        tb_borrowed_seconds = borrow_seconds, tb_borrowed_at = now, tb_repaid = False\<rparr>)\<rparr>)) (
                                                                          thenM (extend_ttl (K_TtlBorrow borrower_vault_id) VAULT_TTL_THRESHOLD
       (vault_ttl_ledgers (v_check_in_interval borrower))) (
                                                                          thenM (save_vault borrower_vault_id borrower') (
                                                                          thenM (save_vault lender_vault_id lender') (
                                                                          thenM (extend_instance_ttl) (
                                                                          publish TTL_BORROW_TOPIC [VU borrower_vault_id]
       [VU lender_vault_id, VU borrow_seconds, VU now])))))))))))))))))))))"

definition repay_ttl_borrow :: "'tok env \<Rightarrow> nat \<Rightarrow> address \<Rightarrow> ('tok, unit) handler" where
  "repay_ttl_borrow e borrower_vault_id caller = (thenM (require_auth e caller) (
                                                 bindM (load_vault borrower_vault_id) (\<lambda>borrower.
                                                 thenM (guard (caller = v_owner borrower) (Err NotOwner)) (
                                                 bindM (gets (\<lambda>w. p_TtlBorrow (logs w) borrower_vault_id)) (\<lambda>r.
                                                 bindM (ok_or r (Err TtlBorrowNotFound)) (\<lambda>record.
                                                 thenM (guard (\<not> tb_repaid record) (Err TtlBorrowAlreadyRepaid)) (
                                                 bindM (load_vault (tb_lender_vault_id record)) (\<lambda>lender.
                                                 thenM (save_vault (tb_lender_vault_id record) (lender\<lparr>v_last_check_in :=
       sat_add U64_MAX (v_last_check_in lender) (tb_borrowed_seconds record)\<rparr>)) (
                                                 thenM (set_logs (\<lambda>l. l\<lparr>p_TtlBorrow :=
       (p_TtlBorrow l)(borrower_vault_id \<mapsto> record\<lparr>tb_repaid := True\<rparr>)\<rparr>)) (
                                                 thenM (extend_instance_ttl) (
                                                 publish TTL_REPAY_TOPIC [VU borrower_vault_id]
       [VU (tb_lender_vault_id record), VU (tb_borrowed_seconds record)])))))))))))"

definition update_check_in_interval :: "'tok env \<Rightarrow> nat \<Rightarrow> nat \<Rightarrow> ('tok, unit) handler" where
  "update_check_in_interval e vault_id new_interval = (bindM (load_paused) (\<lambda>paused.
                                                      thenM (guard (\<not> paused) (Err Paused)) (
                                                      thenM (guard (new_interval \<noteq> 0) (Err InvalidInterval)) (
                                                      thenM (assert_interval_in_bounds new_interval) (
                                                      bindM (load_vault vault_id) (\<lambda>vault.
                                                      thenM (require_auth e (v_owner vault)) (
                                                      thenM (guard (v_status vault = Locked) (Err AlreadyReleased)) (
                                                      (let old_interval = v_check_in_interval vault in
                                                      thenM (save_vault vault_id
       (vault\<lparr>v_check_in_interval := new_interval, v_last_check_in := ledger_timestamp e\<rparr>)) (
                                                      thenM (extend_ttl (K_Vault vault_id) VAULT_TTL_THRESHOLD (vault_ttl_ledgers new_interval)) (
                                                      thenM (log_audit_entry e vault_id ''update_check_in_interval'' (v_owner vault) []) (
                                                      thenM (append_activity_log e vault_id ''update_check_in_interval'' (v_owner vault)) (
                                                      thenM (extend_instance_ttl) (
                                                      publish UPDATE_INTERVAL_TOPIC [VU vault_id] [VU old_interval, VU new_interval]))))))))))))))"

subsection \<open>Forecasts, pings and countdown notifications\<close>

definition forecast_expiry :: "'tok env \<Rightarrow> nat \<Rightarrow> nat \<Rightarrow> ('tok, nat) handler" where
  "forecast_expiry e vault_id check_in_frequency_days = (bindM (try_load_vault vault_id) (\<lambda>v.
                                                        bindM (ok_or v (Err VaultNotFound)) (\<lambda>vault.
                                                        thenM (guard (v_status vault = Locked) (Err AlreadyReleased)) (
                                                        thenM (guard (check_in_frequency_days \<noteq> 0) (Err InvalidInterval)) (
                                                        (let now = ledger_timestamp e in
                                                        bindM (mul64 check_in_frequency_days 24) (\<lambda>hours.
                                                        bindM (mul64 hours 60) (\<lambda>minutes.
                                                        bindM (mul64 minutes 60) (\<lambda>frequency.
                                                        bindM (add64 (v_last_check_in vault) (v_check_in_interval vault)) (\<lambda>current_deadline.
                                                        if current_deadline \<le> now then returnM now else ((let remaining = current_deadline - now in
                                                         (let num_check_ins = (remaining + (frequency - 1)) div frequency in
                                                         bindM (mul64 num_check_ins (v_check_in_interval vault)) (\<lambda>total_extension.
                                                         add64 now total_extension))))))))))))))"

definition EXPIRY_WARNING_THRESHOLD :: nat where "EXPIRY_WARNING_THRESHOLD = 86400"

definition check_passkey_expiry_warnings :: "nat \<Rightarrow> nat \<Rightarrow> ('tok, unit) handler" where
  "check_passkey_expiry_warnings vault_id now = (bindM (gets (\<lambda>w. log_of (p_VaultPasskeys (pks w) vault_id))) (\<lambda>passkeys.
                                                forM passkeys (\<lambda>pk. (bindM (gets (\<lambda>w. p_PasskeyExpiry (pks w) (vault_id, pk_hash pk))) (\<lambda>x.
                                 (case x of None \<Rightarrow> returnM () | Some expiry \<Rightarrow> ((let seconds_remaining = expiry - now in
                                                                            whenM (seconds_remaining < EXPIRY_WARNING_THRESHOLD)
            (publish PASSKEY_EXPIRY_WARNING_TOPIC [VU vault_id]
               [VB (pk_hash pk), VU seconds_remaining])))))))))"

definition ping_expiry :: "'tok env \<Rightarrow> nat \<Rightarrow> ('tok, nat) handler" where
  "ping_expiry e vault_id = (bindM (try_load_vault vault_id) (\<lambda>v.
                            bindM (ok_or v (Err VaultNotFound)) (\<lambda>vault.
                            if v_status vault \<noteq> Locked then returnM 0 else (bindM (ttl_remaining_or_0 e vault_id) (\<lambda>ttl.
                                                           thenM (whenM (ttl < EXPIRY_WARNING_THRESHOLD) (publish PING_EXPIRY_TOPIC [VU vault_id] [VU ttl])) (
                                                           thenM (check_passkey_expiry_warnings vault_id (ledger_timestamp e)) (
                                                           returnM ttl)))))))"

definition set_countdown_config :: "'tok env \<Rightarrow> nat \<Rightarrow> address \<Rightarrow> nat list \<Rightarrow> ('tok, unit) handler" where
  "set_countdown_config e vault_id caller thresholds = (thenM (require_auth e caller) (
                                                       bindM (load_vault vault_id) (\<lambda>vault.
                                                       thenM (guard (caller = v_owner vault) (Err NotOwner)) (
                                                       thenM (set_logs (\<lambda>l. l\<lparr>p_CountdownConfig := (p_CountdownConfig l)(vault_id \<mapsto> thresholds)\<rparr>)) (
                                                       thenM (extend_ttl (K_CountdownConfig vault_id) VAULT_TTL_THRESHOLD
       (vault_ttl_ledgers (v_check_in_interval vault))) (
                                                       thenM (set_logs (\<lambda>l. l\<lparr>p_CountdownFired := (p_CountdownFired l)(vault_id := None)\<rparr>)) (
                                                       thenM (extend_instance_ttl) (
                                                       publish SET_COUNTDOWN_TOPIC [VU vault_id] (map VU thresholds)))))))))"

definition get_countdown_config :: "nat \<Rightarrow> ('tok, nat list) handler" where
  "get_countdown_config vault_id = gets (\<lambda>w. case p_CountdownConfig (logs w) vault_id of
     None \<Rightarrow> [604800, 259200, 86400] | Some t \<Rightarrow> t)"

text \<open>One step of the notification loop: \<open>1u32 << i\<close> traps when \<open>i\<close> is 32 or more.\<close>

definition countdown_step ::
  "nat \<Rightarrow> nat \<Rightarrow> nat \<times> nat \<Rightarrow> 32 word \<times> bool \<Rightarrow> ('tok, 32 word \<times> bool) handler" where
  "countdown_step vault_id ttl = (\<lambda>(i, limit) (fired, updated). (thenM (guard (i < 32) OverflowTrap) (
                                                                        (let bit = push_bit i (1 :: 32 word) in
                                                                        if fired AND bit = 0 \<and> ttl \<le> limit then (thenM (publish COUNTDOWN_NOTIF_TOPIC [VU vault_id] [VU limit, VU ttl]) (
                                                      returnM (fired OR bit, True))) else returnM (fired, updated)))))"

definition check_countdown :: "'tok env \<Rightarrow> nat \<Rightarrow> ('tok, nat) handler" where
  "check_countdown e vault_id = (bindM (try_load_vault vault_id) (\<lambda>v.
                                bindM (ok_or v (Err VaultNotFound)) (\<lambda>vault.
                                if v_status vault \<noteq> Locked then returnM 0 else (bindM (ttl_remaining_or_0 e vault_id) (\<lambda>ttl.
                                                           bindM (get_countdown_config vault_id) (\<lambda>config.
                                                           bindM (gets (\<lambda>w. case p_CountdownFired (logs w) vault_id of None \<Rightarrow> 0 | Some m \<Rightarrow> m)) (\<lambda>fired.
                                                           bindM (foldM (countdown_step vault_id ttl) (enumerate 0 config) (fired, False)) (\<lambda>(fired', updated).
                                                           thenM (whenM updated (thenM (set_logs (\<lambda>l. l\<lparr>p_CountdownFired := (p_CountdownFired l)(vault_id \<mapsto> fired')\<rparr>)) (
                     thenM (extend_ttl (K_CountdownFired vault_id) VAULT_TTL_THRESHOLD
           (vault_ttl_ledgers (v_check_in_interval vault))) (
                     extend_instance_ttl)))) (
                                                           returnM ttl)))))))))"

subsection \<open>Readers of the check-in history\<close>

definition history_len :: "'tok world \<Rightarrow> nat \<Rightarrow> nat" where
  "history_len w vault_id = (case p_CheckInHistoryLen (logs w) vault_id of None \<Rightarrow> 0 | Some n \<Rightarrow> n)"

definition history_head :: "'tok world \<Rightarrow> nat \<Rightarrow> nat" where
  "history_head w vault_id = (case p_CheckInHistoryHead (logs w) vault_id of None \<Rightarrow> 0 | Some n \<Rightarrow> n)"

text \<open>The entries at the logical positions \<open>is\<close>, oldest first; a missing slot is skipped.\<close>

definition history_slots :: "'tok world \<Rightarrow> nat \<Rightarrow> nat list \<Rightarrow> CheckInHistoryEntry list" where
  "history_slots w vault_id is =
     (let len = history_len w vault_id; head = history_head w vault_id in
      List.map_filter (\<lambda>i. p_CheckInEntry (logs w)
        (vault_id, if len < 50 then i else (head + i) mod 50)) is)"

definition get_check_in_history :: "nat \<Rightarrow> ('tok, CheckInHistoryEntry list) handler" where
  "get_check_in_history vault_id = gets (\<lambda>w. history_slots w vault_id [0..<history_len w vault_id])"

definition get_check_in_history_page ::
  "nat \<Rightarrow> nat \<Rightarrow> nat \<Rightarrow> ('tok, CheckInHistoryEntry list) handler" where
  "get_check_in_history_page vault_id page page_size = (bindM (gets (\<lambda>w. history_len w vault_id)) (\<lambda>len.
                                                       thenM (guard (page * page_size \<le> U32_MAX) OverflowTrap) (
                                                       (let start = page * page_size in
                                                       if len \<le> start then returnM [] else (bindM (add32 start page_size) (\<lambda>sum.
                                             gets (\<lambda>w. history_slots w vault_id [start..<min sum len])))))))"

definition get_check_in_streak :: "nat \<Rightarrow> ('tok, CheckInStreak) handler" where
  "get_check_in_streak vault_id = gets (\<lambda>w. case p_CheckInStreak (logs w) vault_id of
     None \<Rightarrow> \<lparr>cs_current = 0, cs_best = 0, cs_last_timestamp = 0\<rparr> | Some s \<Rightarrow> s)"

definition predict_expiry :: "nat \<Rightarrow> ('tok, nat) handler" where
  "predict_expiry vault_id = (bindM (load_vault vault_id) (\<lambda>vault.
                             bindM (gets (\<lambda>w. history_len w vault_id)) (\<lambda>len.
                             bindM (gets (\<lambda>w. history_head w vault_id)) (\<lambda>head.
                             bindM ((if 2 \<le> len then ((let n = min len 10 in
                                                (let first_logical = len - n in
                                                (let first_phys = (if len < 50 then first_logical else (head + first_logical) mod 50) in
                                                (let last_phys = (if len < 50 then len - 1 else (head + len - 1) mod 50) in
                                                bindM (gets (\<lambda>w. p_CheckInEntry (logs w) (vault_id, first_phys))) (\<lambda>first_entry.
                                                bindM (gets (\<lambda>w. p_CheckInEntry (logs w) (vault_id, last_phys))) (\<lambda>last_entry.
                                                (case first_entry of None \<Rightarrow> returnM (v_check_in_interval vault) | Some f \<Rightarrow>
          (case last_entry of None \<Rightarrow> returnM (v_check_in_interval vault) | Some l \<Rightarrow> (bindM (sub64 (ci_timestamp l) (ci_timestamp f)) (\<lambda>d.
                                                                                                            returnM (max (d div (n - 1)) 1)))))))))))) else returnM (v_check_in_interval vault))) (\<lambda>predicted_interval.
                             (let predicted = sat_add U64_MAX (v_last_check_in vault) predicted_interval in
                             thenM (publish TTL_PREDICTED_TOPIC [VU vault_id] [VU predicted]) (
                             returnM predicted)))))))"

subsection \<open>When a vault is expired\<close>

definition hibernating :: "nat \<Rightarrow> HibernationEntry option \<Rightarrow> bool" where
  "hibernating now h \<longleftrightarrow>
     (case h of None \<Rightarrow> False | Some x \<Rightarrow> now - h_started_at x < h_duration_seconds x)"

definition deadline_of :: "Vault \<Rightarrow> HibernationEntry option \<Rightarrow> nat" where
  "deadline_of v h = v_last_check_in v + v_check_in_interval v +
     (case h of None \<Rightarrow> 0 | Some x \<Rightarrow> h_duration_seconds x)"

definition expired :: "nat \<Rightarrow> Vault \<Rightarrow> HibernationEntry option \<Rightarrow> bool" where
  "expired now v h \<longleftrightarrow> \<not> hibernating now h \<and> deadline_of v h \<le> now"

lemma wp_is_expired [wp_simps]:
  "wp (is_expired e i) Q w = (\<forall>v. p_Vault w i = Some v \<longrightarrow>
     hibernating (ledger_timestamp e) (p_Hibernation (rel w) i) \<or>
       deadline_of v (p_Hibernation (rel w) i) \<le> U64_MAX \<longrightarrow>
     Q (expired (ledger_timestamp e) v (p_Hibernation (rel w) i)) w)"
  by (cases "p_Hibernation (rel w) i"; cases "p_Vault w i";
      cases "hibernating (ledger_timestamp e) (p_Hibernation (rel w) i)")
    (auto simp: is_expired_def wp_simps Let_def hibernating_def expired_def deadline_of_def
      min_less_iff_disj)

subsection \<open>Frames: the timer never touches money or heirs\<close>

lemma keeps_delegates [frame]:
  "keeps accts (add_check_in_delegate e i c d)" "keeps accts (remove_check_in_delegate e i c d)"
  "keeps accts (set_countdown_config e i c ts)" "keeps f (get_countdown_config i)"
  "keeps accts (ttl_remaining_or_0 e i)" "keeps accts (check_passkey_expiry_warnings i now)"
  "keeps accts (predict_expiry i)"
  "keeps f (get_check_in_history i)" "keeps f (get_check_in_history_page i p n)"
  unfolding add_check_in_delegate_def remove_check_in_delegate_def set_countdown_config_def
    get_countdown_config_def ttl_remaining_or_0_def check_passkey_expiry_warnings_def
    predict_expiry_def get_check_in_history_def get_check_in_history_page_def
  by (intro frame)+

lemma keeps_countdown_step [frame]: "keeps accts (countdown_step i ttl x y)"
  unfolding countdown_step_def by (cases x; cases y) (simp, intro conjI impI frame)

lemma keeps_notify [frame]:
  "keeps accts (ping_expiry e i)" "keeps accts (check_countdown e i)" "keeps f (is_expired e i)"
  "keeps accts (forecast_expiry e i n)"
  unfolding ping_expiry_def check_countdown_def is_expired_def forecast_expiry_def
  by (intro frame)+

lemma keeps_validate [frame]:
  "keeps accts (validate_check_in c i)" "keeps accts (validate_sync e c i)"
  "keeps accts (validate_check_in_v2 e c h n i)" "keeps f get_max_ttl_seconds"
  unfolding validate_check_in_def validate_sync_def validate_check_in_v2_def
    get_max_ttl_seconds_def by (intro frame)+

lemma keeps_enter_hibernation [frame]: "keeps accts (enter_hibernation e i c n)"
  unfolding enter_hibernation_def by (intro frame keeps_set_rel) simp

text \<open>
  The handlers that save a vault with a new timer: what they keep is every vault's token and
  balance, and its beneficiaries.
\<close>

lemma keeps_exit_hibernation:
  "keeps purse (exit_hibernation e i c)" "keeps heirs (exit_hibernation e i c)"
  "keeps statuses (exit_hibernation e i c)"
  unfolding exit_hibernation_def
  by (rule keeps_wpI; auto simp: wp_simps view_defs fun_eq_iff plan_defs Let_def)+

lemma keeps_accelerate:
  "keeps purse (accelerate_ttl_decay e i c n)" "keeps heirs (accelerate_ttl_decay e i c n)"
  "keeps statuses (accelerate_ttl_decay e i c n)"
  unfolding accelerate_ttl_decay_def
  by (rule keeps_wpI; auto simp: wp_simps view_defs fun_eq_iff plan_defs Let_def)+

lemma keeps_borrow:
  "keeps purse (borrow_ttl e i j c n)" "keeps heirs (borrow_ttl e i j c n)"
  "keeps statuses (borrow_ttl e i j c n)"
  unfolding borrow_ttl_def
  by (rule keeps_wpI; auto simp: wp_simps view_defs fun_eq_iff plan_defs Let_def)+

lemma keeps_repay:
  "keeps purse (repay_ttl_borrow e i c)" "keeps heirs (repay_ttl_borrow e i c)"
  "keeps statuses (repay_ttl_borrow e i c)"
  unfolding repay_ttl_borrow_def
  by (rule keeps_wpI; auto simp: wp_simps view_defs fun_eq_iff plan_defs Let_def)+

lemma wp_ttl_remaining:
  "(\<And>x. Q x w) \<Longrightarrow> wp (ttl_remaining_or_0 e i) Q w"
  unfolding ttl_remaining_or_0_def get_ttl_remaining_def
  by (auto simp: wp_simps split: option.splits)

lemma keeps_decay:
  "keeps purse (apply_ttl_decay e i)" "keeps heirs (apply_ttl_decay e i)"
  "keeps statuses (apply_ttl_decay e i)"
  unfolding apply_ttl_decay_def get_ttl_decay_rate_def
  by (rule keeps_wpI; auto simp: wp_simps view_defs fun_eq_iff plan_defs Let_def
      intro!: wp_ttl_remaining)+

lemma wp_views:
  "accts t = accts w \<Longrightarrow> purse t = purse w" "accts t = accts w \<Longrightarrow> heirs t = heirs w"
  by (simp_all add: accts_def view_defs)

lemma keeps_apply:
  "keeps purse (apply_sync now i)" "keeps heirs (apply_sync now i)"
  "keeps statuses (apply_sync now i)"
  "keeps purse (apply_check_in_v2 e c h i)" "keeps heirs (apply_check_in_v2 e c h i)"
  "keeps statuses (apply_check_in_v2 e c h i)"
  unfolding apply_sync_def apply_check_in_v2_def
  by (rule keeps_wpI; auto simp: wp_simps accts_def view_defs fun_eq_iff Let_def
      intro!: wp_checkin_frame)+

lemma keeps_apply_check_in:
  "keeps purse (apply_check_in now i)" "keeps statuses (apply_check_in now i)"
  unfolding apply_check_in_def
  by (rule keeps_wpI; auto simp: wp_simps accts_def view_defs fun_eq_iff same_terms_def
      intro!: wp_apply_rotation)+

lemma keeps_batches:
  "keeps purse (sync_vault_ttls e is c)" "keeps heirs (sync_vault_ttls e is c)"
  "keeps statuses (sync_vault_ttls e is c)"
  "keeps purse (batch_check_in e is c)" "keeps statuses (batch_check_in e is c)"
  "keeps purse (batch_check_in_v2 e is c h)" "keeps heirs (batch_check_in_v2 e is c h)"
  "keeps statuses (batch_check_in_v2 e is c h)"
  unfolding sync_vault_ttls_def batch_check_in_def batch_check_in_v2_def
  by (intro frame keeps_apply keeps_apply_check_in keeps_accts_views)+

lemma keeps_check_in_with_pow:
  "keeps purse (check_in_with_pow e i c h n d)" "keeps heirs (check_in_with_pow e i c h n d)"
  "keeps statuses (check_in_with_pow e i c h n d)"
  unfolding check_in_with_pow_def is_check_in_delegate_def
  by (rule keeps_wpI; auto simp: wp_simps accts_def view_defs fun_eq_iff Let_def
      intro!: wp_checkin_frame wp_frame)+

lemma keeps_update_interval:
  "keeps purse (update_check_in_interval e i n)" "keeps heirs (update_check_in_interval e i n)"
  "keeps statuses (update_check_in_interval e i n)"
  unfolding update_check_in_interval_def
  by (rule keeps_wpI; auto simp: wp_simps accts_def view_defs fun_eq_iff Let_def
      intro!: wp_frame)+

lemma batch_check_in_splits:
  assumes "splits_ok w"
  shows "wp (batch_check_in e is c) (\<lambda>_. splits_ok) w"
proof -
  have step: "wp (apply_check_in now i) (\<lambda>_. splits_ok) t" if "splits_ok t" for now i and t :: "'a world"
    unfolding apply_check_in_def
    by (auto simp: wp_simps accts_def simp del: fun_upd_apply intro!: wp_apply_rotation
        splits_save [OF that] rotated_splits [OF that] simp: rotated_last)
  have loop: "wp (forM is (apply_check_in now)) (\<lambda>_. wp extend_instance_ttl (\<lambda>_. splits_ok)) t"
    if "accts t = accts w" for now t
    by (rule wp_forM_pre [where I = splits_ok])
      (use splits_accts [OF that] assms step in \<open>simp_all add: wp_simps splits_ok_def\<close>)
  have check: "keeps accts (forM is (validate_check_in c))" by (intro frame)
  show ?thesis
    unfolding batch_check_in_def
    by (auto simp: wp_simps intro!: wp_keeps [OF check] loop)
qed

subsection \<open>Countdown notifications fire once per cycle\<close>

text \<open>
  The positions of the thresholds already notified are the bits of the mask. \<open>due\<close> lists the
  thresholds a call notifies: those crossed and not in the mask.
\<close>

fun due :: "nat \<Rightarrow> nat \<Rightarrow> 32 word \<Rightarrow> nat list \<Rightarrow> nat list" where
  "due n ttl fired [] = []"
| "due n ttl fired (l # ls) =
     (if \<not> bit fired n \<and> ttl \<le> l then [l] else []) @ due (Suc n) ttl fired ls"

definition countdown_event :: "nat \<Rightarrow> nat \<Rightarrow> nat \<Rightarrow> event" where
  "countdown_event i ttl l =
     \<lparr>ev_topic = COUNTDOWN_NOTIF_TOPIC, ev_keys = [VU i], ev_data = [VU l, VU ttl]\<rparr>"

lemma mask_set: "n < 32 \<Longrightarrow> bit (fired OR (2 :: 32 word) ^ n) k = (bit fired k \<or> k = n)"
  by (auto simp: bit_or_iff bit_exp_iff)

lemma mask_test:
  assumes "n < 32"
  shows "(fired AND (2 :: 32 word) ^ n = 0) = (\<not> bit fired n)"
proof
  assume "fired AND 2 ^ n = 0"
  then have "\<not> bit (fired AND 2 ^ n) n" by simp
  then show "\<not> bit fired n" using assms by (simp add: bit_and_iff bit_exp_iff)
next
  assume "\<not> bit fired n"
  then have "bit (fired AND 2 ^ n) k = bit (0 :: 32 word) k" for k
    by (cases "k = n") (simp_all add: bit_and_iff bit_exp_iff)
  then show "fired AND 2 ^ n = 0" by (intro bit_eqI) simp
qed

lemma due_cong: "(\<And>k. n \<le> k \<Longrightarrow> bit f k = bit g k) \<Longrightarrow> due n ttl f ls = due n ttl g ls"
  by (induction ls arbitrary: n) auto

lemma wp_countdown_step:
  "wp (countdown_step i ttl (n, l) (fired, u)) Q w = (n < 32 \<longrightarrow>
     (if \<not> bit fired n \<and> ttl \<le> l
      then Q (fired OR 2 ^ n, True) (w\<lparr>events := events w @ [countdown_event i ttl l]\<rparr>)
      else Q (fired, u) w))"
  by (auto simp: countdown_step_def wp_simps mask_test countdown_event_def)

definition crossed :: "nat \<Rightarrow> nat \<Rightarrow> nat list \<Rightarrow> nat \<Rightarrow> bool" where
  "crossed n ttl ls k \<longleftrightarrow> n \<le> k \<and> k < n + length ls \<and> ttl \<le> ls ! (k - n)"

lemma crossed_simps:
  "crossed n ttl [] k = False"
  "crossed n ttl (l # ls) k = (k = n \<and> ttl \<le> l \<or> crossed (Suc n) ttl ls k)"
  by (auto simp: crossed_def nth_Cons' Suc_le_eq)

lemma countdown_loop:
  "wp (foldM (countdown_step i ttl) (enumerate n ls) (fired, u)) (\<lambda>r t.
     t = w\<lparr>events := events w @ map (countdown_event i ttl) (due n ttl fired ls)\<rparr> \<and>
     snd r = (u \<or> due n ttl fired ls \<noteq> []) \<and>
     (\<forall>k. bit (fst r) k \<longleftrightarrow> bit fired k \<or> crossed n ttl ls k)) w"
proof (induction ls arbitrary: n fired u w)
  case Nil
  then show ?case by (auto simp: wp_simps crossed_simps)
next
  case (Cons l ls)
  have d: "due (Suc n) ttl (fired OR 2 ^ n) ls = due (Suc n) ttl fired ls" if "n < 32"
    using that by (intro due_cong) (simp add: mask_set)
  show ?case
  proof (cases "\<not> bit fired n \<and> ttl \<le> l")
    case True
    have bits: "(bit (fired OR 2 ^ n) k \<or> crossed (Suc n) ttl ls k) =
        (bit fired k \<or> crossed n ttl (l # ls) k)" if "n < 32" for k
      using True that by (auto simp: crossed_simps mask_set)
    show ?thesis
      unfolding enumerate_simps foldM.simps wp_bindM wp_countdown_step
      using True by (simp add: wp_mono [OF Cons.IH] d bits)
  next
    case False
    then have "(bit fired k \<or> crossed n ttl (l # ls) k) = (bit fired k \<or> crossed (Suc n) ttl ls k)" for k
      by (auto simp: crossed_simps)
    with False show ?thesis
      unfolding enumerate_simps foldM.simps wp_bindM wp_countdown_step
      by (auto intro!: wp_mono [OF Cons.IH])
  qed
qed

end
