(* ===== verification/Vault_Release.thy ===== *)
theory Vault_Release
  imports Vault_Ttl
begin

section \<open>Release\<close>

text \<open>
  The release of a vault: the release conditions and the oracle query (\<open>oracle.rs\<close>), the gates
  a release has to pass, the refund after a missed acceptance deadline, the waterfall that
  splits the amount between the qualifying beneficiaries, the release itself with its
  spending limit and burn percentage, and the owner's partial and panic releases.
\<close>

subsection \<open>Conditions\<close>

text \<open>\<open>oracle::query\<close>: a failed invocation counts as "condition not met".\<close>

definition query :: "'tok env \<Rightarrow> address \<Rightarrow> bool" where
  "query e addr = (case query_release e addr of None \<Rightarrow> False | Some b \<Rightarrow> b)"

definition set_release_condition ::
  "'tok env \<Rightarrow> nat \<Rightarrow> address \<Rightarrow> ReleaseCondition \<Rightarrow> ('tok, unit) handler" where
  "set_release_condition e vault_id caller condition = (thenM (require_auth e caller) (
                                                       bindM (load_vault vault_id) (\<lambda>vault.
                                                       thenM (guard (caller = v_owner vault) (Err NotOwner)) (
                                                       thenM (guard (v_status vault = Locked) (Err AlreadyReleased)) (
                                                       thenM (save_vault vault_id (vault\<lparr>v_release_condition := condition\<rparr>)) (
                                                       extend_instance_ttl))))))"

definition set_release_conditions ::
  "'tok env \<Rightarrow> nat \<Rightarrow> address \<Rightarrow> ReleaseCondition list \<Rightarrow> ('tok, unit) handler" where
  "set_release_conditions e vault_id caller conditions = (thenM (require_auth e caller) (
                                                         bindM (load_vault vault_id) (\<lambda>vault.
                                                         thenM (guard (caller = v_owner vault) (Err NotOwner)) (
                                                         thenM (guard (v_status vault = Locked) (Err AlreadyReleased)) (
                                                         thenM (set_rel (\<lambda>r. r\<lparr>p_ReleaseConditions := (p_ReleaseConditions r)(vault_id \<mapsto> conditions)\<rparr>)) (
                                                         extend_instance_ttl))))))"

definition get_release_conditions :: "nat \<Rightarrow> ('tok, ReleaseCondition list) handler" where
  "get_release_conditions vault_id = (bindM (gets (\<lambda>w. p_ReleaseConditions (rel w) vault_id)) (\<lambda>c.
                                     (case c of Some conditions \<Rightarrow> returnM conditions
      | None \<Rightarrow> (bindM (load_vault vault_id) (\<lambda>vault.
                           returnM [v_release_condition vault])))))"

definition condition_step ::
  "'tok env \<Rightarrow> nat \<Rightarrow> ReleaseTrigger \<Rightarrow> ReleaseCondition \<Rightarrow> bool \<Rightarrow> ('tok, bool) handler" where
  "condition_step e vault_id mode cond condition_met =
     (case cond of
        TTLExpiry \<Rightarrow> (bindM (is_expired e vault_id) (\<lambda>x.
                                returnM (condition_met \<or> x)))
      | OwnerInitiated \<Rightarrow> returnM (condition_met \<or> mode = Manual)
      | Oracle addr \<Rightarrow> returnM (condition_met \<or> query e addr))"

subsection \<open>Restoration and acceptance\<close>

definition try_restore_archived_vault :: "nat \<Rightarrow> ('tok, unit) handler" where
  "try_restore_archived_vault vault_id = (bindM (gets (\<lambda>w. p_ArchivedVault (rel w) vault_id)) (\<lambda>a.
                                         whenM (a \<noteq> None) (bindM (try_load_vault vault_id) (\<lambda>v.
                             (case v of None \<Rightarrow> returnM () | Some vault \<Rightarrow> (thenM (extend_ttl (K_Vault vault_id) VAULT_TTL_THRESHOLD
            (vault_ttl_ledgers (v_check_in_interval vault))) (
                                                                           thenM (set_rel (\<lambda>r. r\<lparr>p_ArchivedVault := (p_ArchivedVault r)(vault_id := None)\<rparr>)) (
                                                                           publish RESTORE_VAULT_TOPIC [VU vault_id] [VU vault_id]))))))))"

definition restore_vault :: "nat \<Rightarrow> ('tok, unit) handler" where
  "restore_vault vault_id = (bindM (load_vault vault_id) (\<lambda>vault.
                            thenM (extend_ttl (K_Vault vault_id) VAULT_TTL_THRESHOLD
       (vault_ttl_ledgers (v_check_in_interval vault))) (
                            thenM (set_rel (\<lambda>r. r\<lparr>p_ArchivedVault := (p_ArchivedVault r)(vault_id := None)\<rparr>)) (
                            thenM (extend_instance_ttl) (
                            publish RESTORE_VAULT_TOPIC [VU vault_id] [VU vault_id])))))"

definition archive_vault :: "'tok env \<Rightarrow> nat \<Rightarrow> address \<Rightarrow> ('tok, unit) handler" where
  "archive_vault e vault_id caller = (thenM (require_auth e caller) (
                                     bindM (load_vault vault_id) (\<lambda>vault.
                                     bindM (load_admin) (\<lambda>admin.
                                     thenM (guard (\<not> (caller \<noteq> v_owner vault \<and> caller \<noteq> admin)) (Err NotOwner)) (
                                     thenM (guard (v_status vault \<noteq> Locked) (Err NotExpired)) (
                                     thenM (set_rel (\<lambda>r. r\<lparr>p_ArchivedVault := (p_ArchivedVault r)(vault_id \<mapsto> vault)\<rparr>)) (
                                     thenM (extend_ttl (K_ArchivedVault vault_id) VAULT_TTL_THRESHOLD VAULT_TTL_LEDGERS) (
                                     thenM (extend_instance_ttl) (
                                     publish VAULT_ARCHIVED_TOPIC [VU vault_id] [VU vault_id, VStatus (v_status vault)])))))))))"

definition get_beneficiary_status :: "nat \<Rightarrow> ('tok, BeneficiaryStatus) handler" where
  "get_beneficiary_status vault_id = gets (\<lambda>w. case p_BeneficiaryStatus (rel w) vault_id of
     None \<Rightarrow> Pending | Some s \<Rightarrow> s)"

definition check_conditional_acceptance_threshold :: "nat \<Rightarrow> int \<Rightarrow> ('tok, bool) handler" where
  "check_conditional_acceptance_threshold vault_id current_balance =
     gets (\<lambda>w. case p_BeneficiaryConditionalAcceptance (rel w) vault_id of
       None \<Rightarrow> True | Some a \<Rightarrow> bca_min_balance_threshold a \<le> current_balance)"

definition mark_release_attempted :: "nat \<Rightarrow> ('tok, unit) handler" where
  "mark_release_attempted vault_id = (thenM (set_rel (\<lambda>r. r\<lparr>p_ReleaseAttempted := (p_ReleaseAttempted r)(vault_id \<mapsto> True)\<rparr>)) (
                                     extend_ttl (K_ReleaseAttempted vault_id) VAULT_TTL_THRESHOLD VAULT_TTL_LEDGERS))"

subsection \<open>The waterfall\<close>

fun lookup_triggers :: "(address \<times> ReleaseTrigger list) list \<Rightarrow> address \<Rightarrow> ReleaseTrigger list" where
  "lookup_triggers [] a = []"
| "lookup_triggers ((b, ts) # ms) a = (if b = a then ts else lookup_triggers ms a)"

definition waterfall_event :: "nat \<Rightarrow> address \<Rightarrow> string \<Rightarrow> ('tok, unit) handler" where
  "waterfall_event vault_id addr reason =
     publish BENEFICIARY_WATERFALL_TOPIC [VU vault_id] [VU vault_id, VA addr, VS reason]"

text \<open>One beneficiary of the first loop: skipped with an event, or added to the qualifying ones.\<close>

definition qualify_step ::
  "nat \<Rightarrow> int \<Rightarrow> ReleaseTrigger \<Rightarrow> (address \<times> ReleaseTrigger list) list \<Rightarrow> BeneficiaryEntry
     \<Rightarrow> BeneficiaryEntry list \<times> nat \<Rightarrow> ('tok, BeneficiaryEntry list \<times> nat) handler" where
  "qualify_step vault_id release_amount mode triggers_map entry acc = ((let ben_triggers = lookup_triggers triggers_map (be_address entry) in
                                                                      (let mode_allowed = (ben_triggers = [] \<or> mode \<in> set ben_triggers) in
                                                                      if \<not> mode_allowed then (thenM (waterfall_event vault_id (be_address entry) ''trigger'') (
                                 returnM acc)) else (bindM (gets (\<lambda>w. p_BeneficiaryStatusEntry (rel w) (vault_id, be_address entry))) (\<lambda>s.
            if s = Some Declined then (thenM (waterfall_event vault_id (be_address entry) ''declined'') (
                                 returnM acc)) else (bindM (gets (\<lambda>w. p_BeneficiaryTierThreshold (rel w) (vault_id, be_address entry))) (\<lambda>t.
              (let tier_threshold = (case t of None \<Rightarrow> 0 | Some x \<Rightarrow> x) in
              if 0 < tier_threshold \<and> release_amount < tier_threshold then (thenM (waterfall_event vault_id (be_address entry) ''tier'') (
                                                                           returnM acc)) else (bindM (muli release_amount (int (be_bps entry))) (\<lambda>scaled.
                bindM (divi scaled 10000) (\<lambda>initial_share.
                if 0 < be_minimum_threshold entry \<and> initial_share < be_minimum_threshold entry then (thenM (publish MIN_THRESHOLD_SKIP_TOPIC []
               [VU vault_id, VA (be_address entry), VI initial_share, VI (be_minimum_threshold entry)]) (
                                                                                                    returnM acc)) else returnM (fst acc @ [entry], sat_add U32_MAX (snd acc) (be_bps entry)))))))))))))"

text \<open>One beneficiary of the payout loop; the last one takes what is left.\<close>

definition pay_step ::
  "'tok env \<Rightarrow> nat \<Rightarrow> address \<Rightarrow> int \<Rightarrow> nat \<Rightarrow> nat \<Rightarrow> nat \<times> BeneficiaryEntry \<Rightarrow> int
     \<Rightarrow> ('tok, int) handler" where
  "pay_step e vault_id token release_amount total_qualifying_bps last_idx = (\<lambda>(i, entry) distributed. (bindM ((if i = last_idx then subi release_amount distributed
       else (bindM (muli release_amount (int (be_bps entry))) (\<lambda>scaled.
            divi scaled (int total_qualifying_bps))))) (\<lambda>share.
                                                                                                              thenM (whenM (0 < share) (thenM (transfer e token (current_contract_address e) (be_address entry) share) (
                       publish RELEASE_TOPIC [] [VU vault_id, VA (be_address entry), VI share]))) (
                                                                                                              bindM (addi distributed share) (\<lambda>next_distributed.
                                                                                                              thenM (publish MIN_THRESHOLD_REDISTRIBUTE_TOPIC [] [VU vault_id, VA (be_address entry), VI share]) (
                                                                                                              returnM next_distributed))))))"

definition distribute_release_amount ::
  "'tok env \<Rightarrow> nat \<Rightarrow> Vault \<Rightarrow> int \<Rightarrow> ReleaseTrigger \<Rightarrow> ('tok, unit) handler" where
  "distribute_release_amount e vault_id vault release_amount mode = (bindM (gets (\<lambda>w. log_of (p_BeneficiaryReleaseTriggers (rel w) vault_id))) (\<lambda>triggers_map.
                                                                    bindM (foldM (qualify_step vault_id release_amount mode triggers_map) (v_beneficiaries vault) ([], 0)) (\<lambda>(qualifying, total_qualifying_bps).
                                                                    if qualifying = [] then (thenM (transfer e (v_token_address vault) (current_contract_address e) (v_owner vault) release_amount) (
                             publish RELEASE_TOPIC [] [VU vault_id, VA (v_owner vault), VI release_amount])) else (thenM (whenM (total_qualifying_bps < 10000 \<and> 0 < total_qualifying_bps)
         (publish BENEFICIARY_REBALANCED_TOPIC [VU vault_id] [VU vault_id, VU total_qualifying_bps])) (
            bindM (foldM (pay_step e vault_id (v_token_address vault) release_amount
           total_qualifying_bps (length qualifying - 1)) (enumerate 0 qualifying) 0) (\<lambda>total.
            returnM ()))))))"

subsection \<open>The release transaction\<close>

text \<open>The head of \<open>trigger_release_internal\<close>: has the vault been released, is a condition met?\<close>

definition release_conditions_met :: "'tok env \<Rightarrow> nat \<Rightarrow> ReleaseTrigger \<Rightarrow> ('tok, unit) handler" where
  "release_conditions_met e vault_id mode = (thenM (assert_not_paused) (
                                            thenM (try_restore_archived_vault vault_id) (
                                            bindM (load_vault vault_id) (\<lambda>vault.
                                            bindM (gets (\<lambda>w. p_ReleaseAttempted (rel w) vault_id)) (\<lambda>attempted.
                                            thenM (guard (\<not> (attempted \<noteq> None \<or> v_status vault \<noteq> Locked)) (Err AlreadyReleased)) (
                                            thenM (guard (v_balance vault \<noteq> 0) (Err EmptyVault)) (
                                            bindM (get_release_conditions vault_id) (\<lambda>conditions.
                                            bindM (foldM (condition_step e vault_id mode) conditions False) (\<lambda>condition_met.
                                            guard condition_met (Err ConditionsNotApproved))))))))))"

text \<open>Expiry, hibernation and grace period.\<close>

definition release_expiry_gate :: "'tok env \<Rightarrow> nat \<Rightarrow> Vault \<Rightarrow> ('tok, unit) handler" where
  "release_expiry_gate e vault_id vault = (bindM (is_expired e vault_id) (\<lambda>x.
                                          thenM (guard x (Err NotExpired)) (
                                          (let now = ledger_timestamp e in
                                          bindM (gets (\<lambda>w. p_Hibernation (rel w) vault_id)) (\<lambda>h.
                                          (let hibernated = (case h of None \<Rightarrow> 0
       | Some y \<Rightarrow> min (now - h_started_at y) (h_duration_seconds y)) in
                                          bindM (add64 (v_last_check_in vault) (v_check_in_interval vault)) (\<lambda>d.
                                          bindM (add64 d hibernated) (\<lambda>expiry_time.
                                          bindM (gets (\<lambda>w. i_ReleaseGracePeriodSeconds (inst w))) (\<lambda>g.
                                          (let grace_period = (case g of None \<Rightarrow> 0 | Some n \<Rightarrow> n) in
                                          bindM (add64 expiry_time grace_period) (\<lambda>limit.
                                          guard (limit \<le> now) (Err GracePeriodActive))))))))))))"

text \<open>Veto, declined beneficiary, balance threshold, proof of life and vote.\<close>

definition release_gates :: "'tok env \<Rightarrow> nat \<Rightarrow> Vault \<Rightarrow> ('tok, unit) handler" where
  "release_gates e vault_id vault = (thenM (guard (v_balance vault \<noteq> 0) (Err EmptyVault)) (
                                    bindM (is_expired e vault_id) (\<lambda>x.
                                    thenM (whenM (\<not> x) (bindM (gets (\<lambda>w. p_BeneficiaryReleaseConditionVeto (rel w) vault_id)) (\<lambda>vetoed.
                      guard (vetoed \<noteq> Some True) (Err BeneficiaryVetoReleaseCondition)))) (
                                    thenM (whenM (v_beneficiaries vault = []) (bindM (get_beneficiary_status vault_id) (\<lambda>beneficiary_status.
                                        guard (beneficiary_status \<noteq> Declined) (Err InvalidBeneficiary)))) (
                                    bindM (check_conditional_acceptance_threshold vault_id (v_balance vault)) (\<lambda>ok.
                                    thenM (guard ok (Err InsufficientBalance)) (
                                    (let now = ledger_timestamp e in
                                    bindM (gets (\<lambda>w. p_ProofOfLife (rel w) vault_id)) (\<lambda>pol.
                                    bindM (gets (\<lambda>w. p_ReleaseVoteThreshold (rel w) vault_id)) (\<lambda>t.
                                    thenM ((case pol of Some p \<Rightarrow> guard (now \<le> pol_valid_until p) (Err ProofOfLifeRequired)
      | None \<Rightarrow> guard (t = None) (Err ProofOfLifeRequired))) (
                                    (case t of None \<Rightarrow> returnM () | Some vote_threshold \<Rightarrow> (bindM (gets (\<lambda>w. log_of (p_ReleaseVotes (rel w) vault_id))) (\<lambda>votes.
                                                                                  (let approvals = length (filter rve_approve votes) in
                                                                                  guard (vote_threshold \<le> approvals) (Err VotingNotEnabled))))))))))))))))"

definition acceptance_expired :: "'tok env \<Rightarrow> nat \<Rightarrow> 'tok world \<Rightarrow> bool" where
  "acceptance_expired e vault_id w = (case p_ConditionalAcceptance (rel w) vault_id of None \<Rightarrow> False
     | Some entry \<Rightarrow> (case ca_acceptance_deadline entry of None \<Rightarrow> False
       | Some deadline \<Rightarrow> deadline < ledger_timestamp e \<and> \<not> ca_approved_by_owner entry))"

definition refund_owner :: "'tok env \<Rightarrow> nat \<Rightarrow> Vault \<Rightarrow> ('tok, unit) handler" where
  "refund_owner e vault_id vault = ((let total = v_balance vault in
                                   thenM (transfer e (v_token_address vault) (current_contract_address e) (v_owner vault) total) (
                                   thenM (save_vault vault_id (vault\<lparr>v_balance := 0, v_status := Cancelled\<rparr>)) (
                                   thenM (record_state_transition e vault_id Locked Cancelled (v_owner vault)) (
                                   thenM (extend_instance_ttl) (
                                   publish ACCEPTANCE_DEADLINE_EXPIRED_TOPIC [] [VU vault_id, VA (v_owner vault), VI total]))))))"

definition has_any_vesting :: "nat \<Rightarrow> Vault \<Rightarrow> 'tok world \<Rightarrow> bool" where
  "has_any_vesting vault_id vault w \<longleftrightarrow>
     p_VestingSchedule (vest w) (vault_id, 0) \<noteq> None \<or>
     p_MilestoneVestingSchedule (vest w) vault_id \<noteq> None \<or>
     p_BeneficiaryVestingSchedule (vest w) (vault_id, v_beneficiary vault) \<noteq> None \<or>
     (\<exists>b \<in> set (v_beneficiaries vault).
        p_BeneficiaryVestingSchedule (vest w) (vault_id, be_address b) \<noteq> None)"

text \<open>With a vesting schedule the vault is only marked: the money stays until it is claimed.\<close>

definition release_vested :: "'tok env \<Rightarrow> nat \<Rightarrow> Vault \<Rightarrow> ('tok, unit) handler" where
  "release_vested e vault_id vault = (thenM (save_vault vault_id (vault\<lparr>v_status := Released\<rparr>)) (
                                     thenM (record_state_transition e vault_id Locked Released (v_owner vault)) (
                                     thenM (extend_instance_ttl) (
                                     publish RELEASE_TOPIC [] [VU vault_id, VA (v_beneficiary vault), VI 0]))))"

text \<open>The archive step after a full release.\<close>

definition archive_released :: "nat \<Rightarrow> Vault \<Rightarrow> ('tok, unit) handler" where
  "archive_released vault_id vault = (thenM (set_rel (\<lambda>r. r\<lparr>p_ArchivedVault := (p_ArchivedVault r)(vault_id \<mapsto> vault)\<rparr>)) (
                                     thenM (extend_ttl (K_ArchivedVault vault_id) VAULT_TTL_THRESHOLD VAULT_TTL_LEDGERS) (
                                     thenM (set_idx (\<lambda>x. x\<lparr>p_VaultDuplicate := (p_VaultDuplicate x)
       ((v_owner vault, v_beneficiary vault, v_check_in_interval vault) := None)\<rparr>)) (
                                     publish VAULT_ARCHIVED_TOPIC [VU vault_id] [VU vault_id, VStatus Released]))))"

definition release_now :: "'tok env \<Rightarrow> nat \<Rightarrow> ReleaseTrigger \<Rightarrow> Vault \<Rightarrow> ('tok, unit) handler" where
  "release_now e vault_id mode vault = ((let total = v_balance vault in
                                       (let release_amount = (case v_spending_limit vault of None \<Rightarrow> total | Some limit \<Rightarrow> min total limit) in
                                       bindM (muli release_amount (int (v_burn_percentage vault))) (\<lambda>scaled.
                                       bindM (divi scaled 10000) (\<lambda>burn_amount.
                                       bindM (subi release_amount burn_amount) (\<lambda>net_amount.
                                       thenM (whenM (0 < burn_amount) (publish BURN_EVENT_TOPIC [VU vault_id] [VI burn_amount])) (
                                       thenM (if v_beneficiaries vault = [] then (thenM (transfer e (v_token_address vault) (current_contract_address e) (v_beneficiary vault)
         release_amount) (
                                        publish RELEASE_TOPIC [] [VU vault_id, VA (v_beneficiary vault), VI release_amount])) else distribute_release_amount e vault_id vault net_amount mode) (
                                       bindM (subi total release_amount) (\<lambda>balance.
                                       (let vault' = vault\<lparr>v_balance := balance,
         v_status := (if balance = 0 then Released else v_status vault)\<rparr> in
                                       thenM (save_vault vault_id vault') (
                                       thenM (whenM (v_status vault' = Released)
       (record_state_transition e vault_id Locked Released (v_owner vault))) (
                                       thenM (append_activity_log e vault_id ''trigger_release'' (v_owner vault)) (
                                       thenM (whenM (v_status vault' = Released) (archive_released vault_id vault')) (
                                       extend_instance_ttl))))))))))))))"

text \<open>The tail of \<open>trigger_release_internal\<close>, once every check has passed.\<close>

definition execute_release :: "'tok env \<Rightarrow> nat \<Rightarrow> ReleaseTrigger \<Rightarrow> Vault \<Rightarrow> ('tok, unit) handler" where
  "execute_release e vault_id mode vault = (bindM (gets (acceptance_expired e vault_id)) (\<lambda>missed.
                                           if missed then refund_owner e vault_id vault
     else (bindM (apply_rotation vault_id (ledger_timestamp e) vault) (\<lambda>rotated.
          bindM (gets (has_any_vesting vault_id rotated)) (\<lambda>vested.
          thenM (mark_release_attempted vault_id) (
          if vested then release_vested e vault_id rotated else release_now e vault_id mode rotated))))))"

definition trigger_release_internal :: "'tok env \<Rightarrow> nat \<Rightarrow> ReleaseTrigger \<Rightarrow> ('tok, unit) handler" where
  "trigger_release_internal e vault_id mode = (thenM (release_conditions_met e vault_id mode) (
                                              thenM (assert_not_paused) (
                                              thenM (try_restore_archived_vault vault_id) (
                                              bindM (load_vault vault_id) (\<lambda>vault.
                                              thenM (guard (v_status vault = Locked) (Err AlreadyReleased)) (
                                              thenM (release_expiry_gate e vault_id vault) (
                                              thenM (release_gates e vault_id vault) (
                                              execute_release e vault_id mode vault))))))))"

definition trigger_release :: "'tok env \<Rightarrow> nat \<Rightarrow> ('tok, unit) handler" where
  "trigger_release e vault_id = trigger_release_internal e vault_id Expiry"

definition trigger_release_manual :: "'tok env \<Rightarrow> nat \<Rightarrow> ('tok, unit) handler" where
  "trigger_release_manual e vault_id = trigger_release_internal e vault_id Manual"

definition panic_release :: "'tok env \<Rightarrow> nat \<Rightarrow> address \<Rightarrow> ('tok, unit) handler" where
  "panic_release e vault_id caller = (thenM (require_auth e caller) (
                                     bindM (load_vault vault_id) (\<lambda>vault.
                                     thenM (guard (caller = v_owner vault) (Err NotOwner)) (
                                     trigger_release_internal e vault_id Manual))))"

subsection \<open>Partial release\<close>

definition partial_step ::
  "'tok env \<Rightarrow> nat \<Rightarrow> address \<Rightarrow> int \<Rightarrow> nat \<Rightarrow> nat \<times> BeneficiaryEntry \<Rightarrow> int \<Rightarrow> ('tok, int) handler" where
  "partial_step e vault_id token amount last_idx = (\<lambda>(i, entry) distributed. (bindM ((if i = last_idx then subi amount distributed
       else (bindM (muli amount (int (be_bps entry))) (\<lambda>scaled.
            divi scaled 10000)))) (\<lambda>share.
                                                                                     thenM (whenM (0 < share) (transfer e token (current_contract_address e) (be_address entry) share)) (
                                                                                     bindM (addi distributed share) (\<lambda>next_distributed.
                                                                                     thenM (publish ''partial'' [VU vault_id] [VA (be_address entry), VI share]) (
                                                                                     returnM next_distributed))))))"

definition partial_release :: "'tok env \<Rightarrow> nat \<Rightarrow> int \<Rightarrow> ('tok, unit) handler" where
  "partial_release e vault_id amount = (thenM (assert_not_paused) (
                                       thenM (guard (0 < amount) (Err InvalidAmount)) (
                                       bindM (load_vault vault_id) (\<lambda>vault.
                                       thenM (require_auth e (v_owner vault)) (
                                       thenM (guard (v_status vault = Locked) (Err AlreadyReleased)) (
                                       bindM (is_expired e vault_id) (\<lambda>x.
                                       thenM (guard (\<not> x) (Err VaultExpired)) (
                                       thenM (guard (amount \<le> v_balance vault) (Err InsufficientBalance)) (
                                       thenM (if v_beneficiaries vault = [] then (thenM (transfer e (v_token_address vault) (current_contract_address e) (v_beneficiary vault) amount) (
                                        publish ''partial'' [VU vault_id] [VA (v_beneficiary vault), VI amount])) else (bindM (foldM (partial_step e vault_id (v_token_address vault) amount
           (length (v_beneficiaries vault) - 1)) (enumerate 0 (v_beneficiaries vault)) 0) (\<lambda>total.
            returnM ()))) (
                                       bindM (subi (v_balance vault) amount) (\<lambda>balance.
                                       thenM (save_vault vault_id (vault\<lparr>v_balance := balance\<rparr>)) (
                                       extend_instance_ttl))))))))))))"

definition set_spending_limit :: "'tok env \<Rightarrow> nat \<Rightarrow> int option \<Rightarrow> ('tok, unit) handler" where
  "set_spending_limit e vault_id limit = (bindM (load_vault vault_id) (\<lambda>vault.
                                         thenM (require_auth e (v_owner vault)) (
                                         thenM ((case limit of None \<Rightarrow> returnM () | Some l \<Rightarrow> guard (0 < l) (Err InvalidAmount))) (
                                         thenM (save_vault vault_id (vault\<lparr>v_spending_limit := limit\<rparr>)) (
                                         thenM (extend_instance_ttl) (
                                         publish SET_SPENDING_LIMIT_TOPIC [VU vault_id] (case limit of None \<Rightarrow> [] | Some l \<Rightarrow> [VI l])))))))"

definition set_burn_percentage :: "'tok env \<Rightarrow> nat \<Rightarrow> nat \<Rightarrow> ('tok, unit) handler" where
  "set_burn_percentage e vault_id percentage = (bindM (load_vault vault_id) (\<lambda>vault.
                                               thenM (require_auth e (v_owner vault)) (
                                               thenM (guard (percentage \<le> 10000) (Err InvalidAmount)) (
                                               thenM (save_vault vault_id (vault\<lparr>v_burn_percentage := percentage\<rparr>)) (
                                               thenM (extend_instance_ttl) (
                                               publish SET_BURN_PERCENTAGE_TOPIC [VU vault_id] [VU percentage]))))))"

subsection \<open>Frames\<close>

lemma keeps_release_readers [frame]:
  "keeps f (get_release_conditions i)" "keeps f (get_beneficiary_status i)"
  "keeps f (check_conditional_acceptance_threshold i n)"
  "keeps f (release_expiry_gate e i v)" "keeps f (release_gates e i v)"
  unfolding get_release_conditions_def get_beneficiary_status_def
    check_conditional_acceptance_threshold_def release_expiry_gate_def release_gates_def
  by (intro frame)+

lemma keeps_condition_step [frame]: "keeps f (condition_step e i mode c b)"
  unfolding condition_step_def by (cases c) (simp_all, (intro frame)+)

lemma keeps_release_writers [frame]:
  "keeps accts (try_restore_archived_vault i)" "keeps accts (restore_vault i)"
  "keeps accts (archive_vault e i c)" "keeps accts (mark_release_attempted i)"
  "keeps accts (set_release_conditions e i c cs)" "keeps accts (archive_released i v)"
  unfolding try_restore_archived_vault_def restore_vault_def archive_vault_def
    mark_release_attempted_def set_release_conditions_def archive_released_def
  by (intro frame keeps_set_rel keeps_set_idx; simp)+

lemma keeps_release_terms:
  "keeps purse (set_release_condition e i c x)" "keeps heirs (set_release_condition e i c x)"
  "keeps statuses (set_release_condition e i c x)"
  "keeps purse (set_spending_limit e i l)" "keeps statuses (set_spending_limit e i l)"
  "keeps purse (set_burn_percentage e i n)" "keeps statuses (set_burn_percentage e i n)"
  unfolding set_release_condition_def set_spending_limit_def set_burn_percentage_def
  by (rule keeps_wpI; auto simp: wp_simps view_defs fun_eq_iff split: option.splits)+

lemma set_limits_splits:
  assumes "splits_ok w"
  shows "wp (set_spending_limit e i l) (\<lambda>_. splits_ok) w"
    "wp (set_burn_percentage e i n) (\<lambda>_. splits_ok) w"
  unfolding set_spending_limit_def set_burn_percentage_def using assms
  by (auto simp: wp_simps splits_ok_def sane_def split: option.splits)

subsection \<open>The waterfall as a function\<close>

text \<open>
  Which beneficiaries qualify, as a filter; what each of them gets: the floor of the
  proportional share, the last one what is left.
\<close>

definition qualifies ::
  "release_store \<Rightarrow> nat \<Rightarrow> int \<Rightarrow> ReleaseTrigger \<Rightarrow> BeneficiaryEntry \<Rightarrow> bool" where
  "qualifies r i n mode b \<longleftrightarrow>
     (let ts = lookup_triggers (log_of (p_BeneficiaryReleaseTriggers r i)) (be_address b)
      in ts = [] \<or> mode \<in> set ts) \<and>
     p_BeneficiaryStatusEntry r (i, be_address b) \<noteq> Some Declined \<and>
     (case p_BeneficiaryTierThreshold r (i, be_address b) of None \<Rightarrow> True
        | Some x \<Rightarrow> x \<le> 0 \<or> x \<le> n) \<and>
     (be_minimum_threshold b \<le> 0 \<or> be_minimum_threshold b \<le> tdiv (n * int (be_bps b)) 10000)"

fun shares :: "int \<Rightarrow> nat \<Rightarrow> int \<Rightarrow> BeneficiaryEntry list \<Rightarrow> int list" where
  "shares n whole d [] = []"
| "shares n whole d [b] = [n - d]"
| "shares n whole d (b # c # bs) =
     (let s = tdiv (n * int (be_bps b)) (int whole) in s # shares n whole (d + s) (c # bs))"

definition payouts :: "int \<Rightarrow> nat \<Rightarrow> int \<Rightarrow> BeneficiaryEntry list \<Rightarrow> (address \<times> int) list" where
  "payouts n whole d bs = filter (\<lambda>p. 0 < snd p) (zip (map be_address bs) (shares n whole d bs))"

definition waterfall ::
  "release_store \<Rightarrow> nat \<Rightarrow> Vault \<Rightarrow> int \<Rightarrow> ReleaseTrigger \<Rightarrow> (address \<times> int) list" where
  "waterfall r i v n mode =
     (let q = filter (qualifies r i n mode) (v_beneficiaries v)
      in if q = [] then [(v_owner v, n)] else payouts n (bps_total q) 0 q)"

fun run_payments ::
  "'tok env \<Rightarrow> address \<Rightarrow> (address \<times> int) list \<Rightarrow> 'tok \<Rightarrow> 'tok option" where
  "run_payments e token [] tk = Some tk"
| "run_payments e token ((a, n) # ps) tk =
     (case token_transfer e token (current_contract_address e) a n tk of
        None \<Rightarrow> None | Some tk' \<Rightarrow> run_payments e token ps tk')"

lemma shares_length: "length (shares n whole d bs) = length bs"
  by (induction n whole d bs rule: shares.induct) (simp_all add: Let_def)

lemma shares_sum: "bs \<noteq> [] \<Longrightarrow> sum_list (shares n whole d bs) = n - d"
  by (induction n whole d bs rule: shares.induct) (auto simp: Let_def)

text \<open>No share is negative when the promised parts do not exceed the whole.\<close>

lemma shares_nonneg:
  assumes "0 \<le> n" "d * int whole \<le> n * (int whole - int (bps_total bs))" "d \<le> n"
  shows "\<forall>s \<in> set (shares n whole d bs). 0 \<le> s"
  using assms
proof (induction n whole d bs rule: shares.induct)
  case (3 n whole d b c bs)
  define s where "s = tdiv (n * int (be_bps b)) (int whole)"
  have s0: "0 \<le> s"
    using 3(2) tdiv_nonneg_ge [of "n * int (be_bps b)" "int whole"]
    by (cases "whole = 0") (simp_all add: s_def tdiv_def)
  have st: "s * int whole \<le> n * int (be_bps b)"
    using 3(2) by (cases "whole = 0") (simp_all add: s_def tdiv_mult_le)
  have bps: "int (bps_total (b # c # bs)) = int (be_bps b) + int (bps_total (c # bs))"
    by (simp add: bps_total_def)
  have inv: "(d + s) * int whole \<le> n * (int whole - int (bps_total (c # bs)))"
    using st 3(3) unfolding bps by (simp add: algebra_simps)
  have "d + s \<le> n"
  proof (cases "whole = 0")
    case True
    then show ?thesis using 3(4) by (simp add: s_def tdiv_def)
  next
    case False
    have "(d + s) * int whole \<le> n * int whole"
      using inv 3(2) by (smt (verit) mult_left_mono of_nat_0_le_iff)
    then show ?thesis using False by simp
  qed
  then show ?case
    using 3(1) [OF s_def 3(2) inv] s0 by (simp add: s_def Let_def)
qed simp_all

subsection \<open>The loops compute the waterfall\<close>

lemma wp_qualify_step:
  assumes "\<And>es. \<not> qualifies (rel w) i n mode b \<Longrightarrow> Q acc (w\<lparr>events := es\<rparr>)"
    "qualifies (rel w) i n mode b \<Longrightarrow> Q (fst acc @ [b], sat_add U32_MAX (snd acc) (be_bps b)) w"
  shows "wp (qualify_step i n mode (log_of (p_BeneficiaryReleaseTriggers (rel w) i)) b acc) Q w"
  unfolding qualify_step_def waterfall_event_def
  by (auto simp: wp_simps Let_def intro!: assms simp: qualifies_def split: option.splits)

lemma qualify_loop:
  assumes "whole + bps_total bs \<le> U32_MAX"
  shows "wp (foldM (qualify_step i n mode (log_of (p_BeneficiaryReleaseTriggers (rel w) i))) bs (qs, whole))
    (\<lambda>r t. \<exists>es. t = w\<lparr>events := es\<rparr> \<and> fst r = qs @ filter (qualifies (rel w) i n mode) bs \<and>
       snd r = whole + bps_total (filter (qualifies (rel w) i n mode) bs)) w"
  using assms
proof (induction bs arbitrary: qs whole w)
  case Nil
  then show ?case by (auto simp: wp_simps bps_total_def intro!: exI [of _ "events w"])
next
  case (Cons b bs)
  have le: "whole + be_bps b \<le> U32_MAX" "whole + bps_total bs \<le> U32_MAX"
    "whole + be_bps b + bps_total bs \<le> U32_MAX"
    using Cons.prems by (simp_all add: bps_total_def)
  show ?case
    unfolding foldM.simps wp_bindM
  proof (rule wp_qualify_step)
    fix es assume "\<not> qualifies (rel w) i n mode b"
    then show "wp (foldM (qualify_step i n mode (log_of (p_BeneficiaryReleaseTriggers (rel w) i))) bs (qs, whole))
      (\<lambda>r t. \<exists>es. t = w\<lparr>events := es\<rparr> \<and> fst r = qs @ filter (qualifies (rel w) i n mode) (b # bs) \<and>
         snd r = whole + bps_total (filter (qualifies (rel w) i n mode) (b # bs))) (w\<lparr>events := es\<rparr>)"
      using Cons.IH [of whole "w\<lparr>events := es\<rparr>" qs, OF le(2)] by simp
  next
    assume "qualifies (rel w) i n mode b"
    then show "wp (foldM (qualify_step i n mode (log_of (p_BeneficiaryReleaseTriggers (rel w) i))) bs
          (fst (qs, whole) @ [b], sat_add U32_MAX (snd (qs, whole)) (be_bps b)))
      (\<lambda>r t. \<exists>es. t = w\<lparr>events := es\<rparr> \<and> fst r = qs @ filter (qualifies (rel w) i n mode) (b # bs) \<and>
         snd r = whole + bps_total (filter (qualifies (rel w) i n mode) (b # bs))) w"
      using Cons.IH [of "whole + be_bps b" w "qs @ [b]", OF le(3)] le(1)
      by (simp add: sat_add_def bps_total_def add.assoc)
  qed
qed

text \<open>
  Both payout loops of the contract (the release and the owner's partial release) pay every
  beneficiary but the last its floored share of the whole and the last one the rest. The locale
  states what one iteration has to do; the loop then makes exactly the transfers of \<open>payouts\<close>.
\<close>

definition positive :: "address \<Rightarrow> int \<Rightarrow> (address \<times> int) list" where
  "positive a s = (if 0 < s then [(a, s)] else [])"

lemma payouts_Cons:
  "payouts n whole d [b] = positive (be_address b) (n - d)"
  "payouts n whole d (b # c # bs) =
     (let s = tdiv (n * int (be_bps b)) (int whole)
      in positive (be_address b) s @ payouts n whole (d + s) (c # bs))"
  by (simp_all add: payouts_def positive_def Let_def)

lemma run_payments_append:
  "run_payments e token (ps @ qs) tk =
     (case run_payments e token ps tk of None \<Rightarrow> None | Some tk' \<Rightarrow> run_payments e token qs tk')"
  by (induction e token ps tk rule: run_payments.induct) (simp_all split: option.splits)

definition payments_made ::
  "'tok env \<Rightarrow> address \<Rightarrow> (address \<times> int) list \<Rightarrow> 'tok world \<Rightarrow> 'tok world \<Rightarrow> bool" where
  "payments_made e token ps w t \<longleftrightarrow> (\<exists>tk es. t = w\<lparr>tokens := tk, events := es\<rparr> \<and>
     run_payments e token ps (tokens w) = Some tk)"

locale payout_loop =
  fixes step :: "nat \<Rightarrow> nat \<times> BeneficiaryEntry \<Rightarrow> int \<Rightarrow> ('tok, int) handler"
    and e :: "'tok env" and token :: address and n :: int and whole :: nat
  assumes inner: "\<And>k l b d s Q w. k \<noteq> l \<Longrightarrow> s = tdiv (n * int (be_bps b)) (int whole) \<Longrightarrow>
      (\<And>tk es. run_payments e token (positive (be_address b) s) (tokens w) = Some tk \<Longrightarrow>
         Q (d + s) (w\<lparr>tokens := tk, events := es\<rparr>)) \<Longrightarrow> wp (step l (k, b) d) Q w"
    and final: "\<And>l b d Q w.
      (\<And>tk es x. run_payments e token (positive (be_address b) (n - d)) (tokens w) = Some tk \<Longrightarrow>
         Q x (w\<lparr>tokens := tk, events := es\<rparr>)) \<Longrightarrow> wp (step l (l, b) d) Q w"
begin

lemma loop:
  "bs \<noteq> [] \<Longrightarrow> wp (foldM (step (k + length bs - 1)) (enumerate k bs) d)
    (\<lambda>_. payments_made e token (payouts n whole d bs) w) w"
proof (induction bs arbitrary: d k w)
  case (Cons b bs)
  show ?case
  proof (cases bs)
    case Nil
    then show ?thesis by (auto simp: wp_simps payouts_Cons payments_made_def intro!: final)
  next
    case (Cons c cs)
    define s where "s = tdiv (n * int (be_bps b)) (int whole)"
    have unroll: "foldM f (enumerate k (b # bs)) d =
        bindM (f (k, b) d) (foldM f (enumerate (Suc k) bs))"
      for f :: "nat \<times> BeneficiaryEntry \<Rightarrow> int \<Rightarrow> ('tok, int) handler"
      by simp
    show ?thesis
      unfolding unroll wp_bindM
    proof (rule inner [OF _ s_def])
      show "k \<noteq> k + length (b # bs) - 1" using Cons by simp
    next
      fix tk es
      assume first: "run_payments e token (positive (be_address b) s) (tokens w) = Some tk"
      have run: "run_payments e token (payouts n whole d (b # bs)) (tokens w) =
          run_payments e token (payouts n whole (d + s) bs) tk"
        by (simp add: Cons payouts_Cons run_payments_append s_def [symmetric] first Let_def)
      have made: "payments_made e token (payouts n whole (d + s) bs) (w\<lparr>tokens := tk, events := es\<rparr>) =
          payments_made e token (payouts n whole d (b # bs)) w"
        by (intro ext) (simp add: payments_made_def run)
      show "wp (foldM (step (k + length (b # bs) - 1)) (enumerate (Suc k) bs) (d + s))
         (\<lambda>_. payments_made e token (payouts n whole d (b # bs)) w) (w\<lparr>tokens := tk, events := es\<rparr>)"
        using Cons.IH [of "Suc k" "d + s" "w\<lparr>tokens := tk, events := es\<rparr>"] Cons
        unfolding made by simp
    qed
  qed
qed simp

end

interpretation pay: payout_loop "pay_step e i token n whole" e token n whole for e i token n whole
proof
  fix k l :: nat and b :: BeneficiaryEntry and d s and Q :: "int \<Rightarrow> 'a world \<Rightarrow> bool" and w :: "'a world"
  assume kl: "k \<noteq> l" and s: "s = tdiv (n * int (be_bps b)) (int whole)"
    and Q: "\<And>tk es. run_payments e token (positive (be_address b) s) (tokens w) = Some tk \<Longrightarrow>
       Q (d + s) (w\<lparr>tokens := tk, events := es\<rparr>)"
  from kl Q Q [of "tokens w"] show "wp (pay_step e i token n whole l (k, b) d) Q w"
    unfolding pay_step_def s by (auto simp: wp_simps positive_def)
next
  fix l :: nat and b :: BeneficiaryEntry and d and Q :: "int \<Rightarrow> 'a world \<Rightarrow> bool" and w :: "'a world"
  assume Q: "\<And>tk es x. run_payments e token (positive (be_address b) (n - d)) (tokens w) = Some tk \<Longrightarrow>
       Q x (w\<lparr>tokens := tk, events := es\<rparr>)"
  from Q Q [of "tokens w"] show "wp (pay_step e i token n whole l (l, b) d) Q w"
    unfolding pay_step_def by (auto simp: wp_simps positive_def)
qed

interpretation partial: payout_loop "partial_step e i token n" e token n 10000 for e i token n
proof
  fix k l :: nat and b :: BeneficiaryEntry and d s and Q :: "int \<Rightarrow> 'a world \<Rightarrow> bool" and w :: "'a world"
  assume kl: "k \<noteq> l" and s: "s = tdiv (n * int (be_bps b)) (int 10000)"
    and Q: "\<And>tk es. run_payments e token (positive (be_address b) s) (tokens w) = Some tk \<Longrightarrow>
       Q (d + s) (w\<lparr>tokens := tk, events := es\<rparr>)"
  from kl Q Q [of "tokens w"] show "wp (partial_step e i token n l (k, b) d) Q w"
    unfolding partial_step_def s by (auto simp: wp_simps positive_def)
next
  fix l :: nat and b :: BeneficiaryEntry and d and Q :: "int \<Rightarrow> 'a world \<Rightarrow> bool" and w :: "'a world"
  assume Q: "\<And>tk es x. run_payments e token (positive (be_address b) (n - d)) (tokens w) = Some tk \<Longrightarrow>
       Q x (w\<lparr>tokens := tk, events := es\<rparr>)"
  from Q Q [of "tokens w"] show "wp (partial_step e i token n l (l, b) d) Q w"
    unfolding partial_step_def by (auto simp: wp_simps positive_def)
qed

lemma distribute_effect:
  assumes "bps_total (v_beneficiaries v) \<le> 10000"
  shows "wp (distribute_release_amount e i v n mode)
    (\<lambda>_. payments_made e (v_token_address v) (waterfall (rel w) i v n mode) w) w"
proof -
  let ?q = "filter (qualifies (rel w) i n mode) (v_beneficiaries v)"
  let ?R = "payments_made e (v_token_address v) (waterfall (rel w) i v n mode) w"
  have pay: "wp (foldM (pay_step e i (v_token_address v) n (bps_total ?q) (length ?q - Suc 0)) (enumerate 0 ?q) 0)
     (\<lambda>_. wp (returnM ()) (\<lambda>_. ?R)) (w\<lparr>events := es\<rparr>)" if "?q \<noteq> []" for es
    using pay.loop [OF that, of e i "v_token_address v" n "bps_total ?q" 0 0 "w\<lparr>events := es\<rparr>"]
    unfolding add_0 One_nat_def
    by (rule wp_mono) (use that in \<open>auto simp: waterfall_def Let_def wp_simps payments_made_def\<close>)
  have none: "?R (w\<lparr>tokens := tk, events := es\<rparr>)"
    if "?q = []" "token_transfer e (v_token_address v) (current_contract_address e) (v_owner v) n (tokens w)
      = Some tk" for tk es
    using that by (auto simp: waterfall_def payments_made_def)
  have whole: "0 + bps_total (v_beneficiaries v) \<le> U32_MAX" using assms by simp
  show ?thesis
    unfolding distribute_release_amount_def wp_bindM wp_gets
    by (rule wp_mono [OF qualify_loop [OF whole]])
      (auto simp: wp_simps intro!: pay none)
qed

subsection \<open>What the payments do to the token balances\<close>

definition received :: "address \<Rightarrow> (address \<times> int) list \<Rightarrow> int" where
  "received a ps = sum_list (map (\<lambda>p. if fst p = a then snd p else 0) ps)"

lemma run_payments_bal:
  assumes "sep41 e bal" "run_payments e token ps tk = Some tk'"
  shows "bal tk' d a = bal tk d a
      - (if d = token \<and> a = current_contract_address e then sum_list (map snd ps) else 0)
      + (if d = token then received a ps else 0)"
  using assms(2)
proof (induction ps arbitrary: tk)
  case Nil
  then show ?case by (simp add: received_def)
next
  case (Cons p ps)
  obtain b n where p: "p = (b, n)" by fastforce
  with Cons.prems obtain tk1 where
    pay: "token_transfer e token (current_contract_address e) b n tk = Some tk1"
    and rest: "run_payments e token ps tk1 = Some tk'"
    by (auto split: option.splits)
  show ?case
    using sep41D(3) [OF assms(1) pay, of d a] Cons.IH [OF rest] p
    by (auto simp: received_def)
qed

lemma run_payments_nonneg:
  "sep41 e bal \<Longrightarrow> run_payments e token ps tk = Some tk' \<Longrightarrow> \<forall>p \<in> set ps. 0 \<le> snd p"
  by (induction ps arbitrary: tk) (fastforce split: option.splits dest: sep41D(1))+

lemma received_nonneg: "\<forall>p \<in> set ps. 0 \<le> snd p \<Longrightarrow> 0 \<le> received a ps"
  unfolding received_def by (rule sum_list_nonneg) auto

lemma accounts_payments:
  assumes "accounts_ok bal self vs n tk" "vs i = Some v" "host_ok e self bal"
    "run_payments e (v_token_address v) ps tk = Some tk'"
    "v_token_address v' = v_token_address v" "v_balance v' = v_balance v - amt"
    "sum_list (map snd ps) \<le> amt" "amt \<le> v_balance v"
  shows "accounts_ok bal self (vs(i \<mapsto> v')) n tk'"
proof -
  have tok: "sep41 e bal" "current_contract_address e = self" using assms(3) by (simp_all add: host_ok_def)
  note total = total_held_save [where vs = vs and i = i and v = v, OF
      accounts_okD(1,2) [OF assms(1,2)] assms(2,5)]
  have "total_held (vs(i \<mapsto> v')) n t \<le> bal tk' t self" for t
    using accounts_okD(4) [OF assms(1), of t] assms(6,7)
      run_payments_bal [OF tok(1) assms(4), of t self]
      received_nonneg [OF run_payments_nonneg [OF tok(1) assms(4)], of self] tok(2)
    by (auto simp: total split: if_splits)
  then show ?thesis
    using assms by (auto simp: accounts_ok_def)
qed

text \<open>The waterfall pays out exactly the amount it is given.\<close>

lemma filter_positive_sum:
  "length xs = length ys \<Longrightarrow> \<forall>y \<in> set ys. 0 \<le> y \<Longrightarrow>
     sum_list (map snd (filter (\<lambda>p. 0 < snd p) (zip xs ys))) = sum_list (ys :: int list)"
  by (induction xs ys rule: list_induct2) auto

lemma payouts_sum:
  assumes "0 \<le> n" "bs \<noteq> []" "bps_total bs \<le> whole"
  shows "sum_list (map snd (payouts n whole 0 bs)) = n"
proof -
  have "0 \<le> n * (int whole - int (bps_total bs))" using assms by simp
  then have "\<forall>s \<in> set (shares n whole 0 bs). 0 \<le> s"
    using assms(1) by (intro shares_nonneg) simp_all
  then show ?thesis
    using assms(2) by (simp add: payouts_def filter_positive_sum shares_length shares_sum)
qed

lemma waterfall_sum: "0 \<le> n \<Longrightarrow> sum_list (map snd (waterfall r i v n mode)) = n"
  by (simp add: waterfall_def Let_def payouts_sum)

subsection \<open>When a release is allowed\<close>

definition cond_holds ::
  "'tok env \<Rightarrow> 'tok world \<Rightarrow> nat \<Rightarrow> ReleaseTrigger \<Rightarrow> Vault \<Rightarrow> ReleaseCondition \<Rightarrow> bool" where
  "cond_holds e w i mode v c = (case c of
     TTLExpiry \<Rightarrow> expired (ledger_timestamp e) v (p_Hibernation (rel w) i)
   | OwnerInitiated \<Rightarrow> mode = Manual
   | Oracle a \<Rightarrow> query e a)"

definition conditions_of :: "'tok world \<Rightarrow> nat \<Rightarrow> Vault \<Rightarrow> ReleaseCondition list" where
  "conditions_of w i v =
     (case p_ReleaseConditions (rel w) i of None \<Rightarrow> [v_release_condition v] | Some cs \<Rightarrow> cs)"

definition grace_of :: "instance_store \<Rightarrow> nat" where
  "grace_of x = (case i_ReleaseGracePeriodSeconds x of None \<Rightarrow> 0 | Some n \<Rightarrow> n)"

definition gates_passed :: "'tok env \<Rightarrow> 'tok world \<Rightarrow> nat \<Rightarrow> Vault \<Rightarrow> bool" where
  "gates_passed e w i v \<longleftrightarrow>
     (v_beneficiaries v = [] \<longrightarrow> p_BeneficiaryStatus (rel w) i \<noteq> Some Declined) \<and>
     (\<forall>a. p_BeneficiaryConditionalAcceptance (rel w) i = Some a \<longrightarrow>
        bca_min_balance_threshold a \<le> v_balance v) \<and>
     (\<forall>p. p_ProofOfLife (rel w) i = Some p \<longrightarrow> ledger_timestamp e \<le> pol_valid_until p) \<and>
     (\<forall>n. p_ReleaseVoteThreshold (rel w) i = Some n \<longrightarrow> p_ProofOfLife (rel w) i \<noteq> None \<and>
        n \<le> length (filter rve_approve (log_of (p_ReleaseVotes (rel w) i))))"

definition release_allowed :: "'tok env \<Rightarrow> 'tok world \<Rightarrow> nat \<Rightarrow> ReleaseTrigger \<Rightarrow> Vault \<Rightarrow> bool" where
  "release_allowed e w i mode v \<longleftrightarrow>
     \<not> is_paused_w w \<and> p_Vault w i = Some v \<and> v_status v = Locked \<and> v_balance v \<noteq> 0 \<and>
     p_ReleaseAttempted (rel w) i = None \<and>
     (\<exists>c \<in> set (conditions_of w i v). cond_holds e w i mode v c) \<and>
     expired (ledger_timestamp e) v (p_Hibernation (rel w) i) \<and>
     deadline_of v (p_Hibernation (rel w) i) + grace_of (inst w) \<le> ledger_timestamp e \<and>
     gates_passed e w i v"

text \<open>The only trace the checks leave: the archive marker, rent and events.\<close>

definition restored :: "'tok world \<Rightarrow> 'tok world \<Rightarrow> bool" where
  "restored w t \<longleftrightarrow> (\<exists>x l es. t = w\<lparr>rel := (rel w)\<lparr>p_ArchivedVault := x\<rparr>, ttl_log := l, events := es\<rparr>)"

lemma restoredI:
  "t = w\<lparr>rel := (rel w)\<lparr>p_ArchivedVault := x\<rparr>, ttl_log := l, events := es\<rparr> \<Longrightarrow> restored w t"
  unfolding restored_def by blast

lemma restored_refl: "restored w w"
  by (rule restoredI [where x = "p_ArchivedVault (rel w)" and l = "ttl_log w" and es = "events w"]) simp

lemma restored_trans:
  assumes "restored w t" "restored t u"
  shows "restored w u"
proof -
  obtain x l es y k fs where
    "t = w\<lparr>rel := (rel w)\<lparr>p_ArchivedVault := x\<rparr>, ttl_log := l, events := es\<rparr>"
    "u = t\<lparr>rel := (rel t)\<lparr>p_ArchivedVault := y\<rparr>, ttl_log := k, events := fs\<rparr>"
    using assms by (auto simp: restored_def)
  then show ?thesis
    by (intro restoredI [where x = y and l = k and es = fs]) simp
qed

lemma qualifies_restored: "qualifies (r\<lparr>p_ArchivedVault := x\<rparr>) = qualifies r"
  by (intro ext) (simp add: qualifies_def)

lemma restoredD:
  assumes "restored w t"
  shows "p_Vault t = p_Vault w" "idx t = idx w" "tokens t = tokens w" "inst t = inst w"
    "vest t = vest w" "plans t = plans w"
    "p_Hibernation (rel t) = p_Hibernation (rel w)"
    "p_ReleaseAttempted (rel t) = p_ReleaseAttempted (rel w)"
    "conditions_of t = conditions_of w" "cond_holds e t = cond_holds e w"
    "gates_passed e t = gates_passed e w" "acceptance_expired e i t = acceptance_expired e i w"
    "has_any_vesting i v t = has_any_vesting i v w" "waterfall (rel t) = waterfall (rel w)"
    "is_paused_w t = is_paused_w w" "rotations t = rotations w"
    "p_BeneficiaryRotationSchedule (rel t) = p_BeneficiaryRotationSchedule (rel w)"
  using assms
  by (auto simp: restored_def plan_defs conditions_of_def cond_holds_def gates_passed_def
      acceptance_expired_def has_any_vesting_def waterfall_def qualifies_restored is_paused_w_def fun_eq_iff
      cong: ReleaseCondition.case_cong)

lemma wp_try_restore:
  assumes Q: "\<And>t. restored w t \<Longrightarrow> Q () t"
  shows "wp (try_restore_archived_vault i) Q w"
proof -
  have "restored w (w\<lparr>ttl_log := l, rel := (rel w)\<lparr>p_ArchivedVault := x\<rparr>, events := es\<rparr>)" for l x es
    by (rule restoredI [where x = x and l = l and es = es]) simp
  then show ?thesis
    unfolding try_restore_archived_vault_def
    by (auto simp: wp_simps restored_refl split: option.splits intro!: Q)
qed

lemma condition_loop:
  assumes "p_Vault w i = Some v"
  shows "wp (foldM (condition_step e i mode) cs b)
    (\<lambda>r t. t = w \<and> r = (b \<or> (\<exists>c \<in> set cs. cond_holds e w i mode v c))) w"
proof (induction cs arbitrary: b)
  case (Cons c cs)
  show ?case
    unfolding foldM.simps condition_step_def [of e i mode c]
    using assms
    by (cases c) (auto simp: wp_simps cond_holds_def intro!: wp_mono [OF Cons.IH])
qed (simp add: wp_simps)

lemma wp_release_expiry_gate:
  assumes "p_Vault w i = Some v"
    "expired (ledger_timestamp e) v (p_Hibernation (rel w) i) \<Longrightarrow>
     deadline_of v (p_Hibernation (rel w) i) + grace_of (inst w) \<le> ledger_timestamp e \<Longrightarrow> Q () w"
  shows "wp (release_expiry_gate e i v) Q w"
  using assms unfolding release_expiry_gate_def
  by (auto simp: wp_simps Let_def expired_def deadline_of_def hibernating_def grace_of_def
      min_def split: option.splits if_splits)

lemma wp_release_gates:
  assumes "v_balance v \<noteq> 0 \<Longrightarrow> gates_passed e w i v \<Longrightarrow> Q () w"
  shows "wp (release_gates e i v) Q w"
  unfolding release_gates_def get_beneficiary_status_def check_conditional_acceptance_threshold_def
  by (auto simp: wp_simps Let_def gates_passed_def intro!: assms split: option.splits)

lemma wp_get_release_conditions:
  "p_Vault w i = Some v \<Longrightarrow> wp (get_release_conditions i) Q w = Q (conditions_of w i v) w"
  by (simp add: get_release_conditions_def conditions_of_def wp_simps split: option.splits)

lemma wp_release_conditions_met:
  assumes Q: "\<And>t v. restored w t \<Longrightarrow> p_Vault w i = Some v \<Longrightarrow> \<not> is_paused_w w \<Longrightarrow> v_status v = Locked \<Longrightarrow>
     v_balance v \<noteq> 0 \<Longrightarrow> p_ReleaseAttempted (rel w) i = None \<Longrightarrow>
     \<exists>c \<in> set (conditions_of w i v). cond_holds e w i mode v c \<Longrightarrow> Q () t"
  shows "wp (release_conditions_met e i mode) Q w"
proof -
  have loop: "wp (foldM (condition_step e i mode) (conditions_of w i v) False)
      (\<lambda>b. wp (guard b (Err ConditionsNotApproved)) Q) t"
    if "restored w t" "p_Vault w i = Some v" "\<not> is_paused_w w" "v_status v = Locked"
     "v_balance v \<noteq> 0" "p_ReleaseAttempted (rel w) i = None" for t v
    by (rule wp_mono [OF condition_loop [where v = v]])
      (use that in \<open>auto simp: wp_simps restoredD intro!: Q\<close>)
  show ?thesis
    unfolding release_conditions_met_def
    by (auto simp: wp_simps restoredD wp_get_release_conditions intro!: wp_try_restore loop)
qed

subsection \<open>What a release does\<close>

definition release_amount :: "Vault \<Rightarrow> int" where
  "release_amount v =
     (case v_spending_limit v of None \<Rightarrow> v_balance v | Some l \<Rightarrow> min (v_balance v) l)"

definition burn_amount :: "Vault \<Rightarrow> int" where
  "burn_amount v = tdiv (release_amount v * int (v_burn_percentage v)) 10000"

definition release_payments :: "release_store \<Rightarrow> nat \<Rightarrow> Vault \<Rightarrow> ReleaseTrigger \<Rightarrow> (address \<times> int) list" where
  "release_payments r i v mode =
     (if v_beneficiaries v = [] then [(v_beneficiary v, release_amount v)]
      else waterfall r i v (release_amount v - burn_amount v) mode)"

definition released_vault :: "Vault \<Rightarrow> Vault" where
  "released_vault v = v\<lparr>v_balance := v_balance v - release_amount v,
     v_status := (if v_balance v - release_amount v = 0 then Released else v_status v)\<rparr>"

definition released ::
  "'tok env \<Rightarrow> nat \<Rightarrow> ReleaseTrigger \<Rightarrow> Vault \<Rightarrow> 'tok world \<Rightarrow> 'tok world \<Rightarrow> bool" where
  "released e i mode v w t \<longleftrightarrow>
     p_Vault t = (p_Vault w)(i \<mapsto> released_vault v) \<and> count_of (idx t) = count_of (idx w) \<and>
     plans t = plans w \<and> p_ReleaseAttempted (rel t) = p_ReleaseAttempted (rel w) \<and>
     run_payments e (v_token_address v) (release_payments (rel w) i v mode) (tokens w)
       = Some (tokens t)"

lemma release_now_effect:
  assumes "bps_total (v_beneficiaries v) \<le> 10000"
  shows "wp (release_now e i mode v) (\<lambda>_ t. released e i mode v w t) w"
proof -
  have dist: "wp (distribute_release_amount e i v (release_amount v - burn_amount v) mode) Q (w\<lparr>events := es\<rparr>)"
    if "v_beneficiaries v \<noteq> []" "\<And>tk es. run_payments e (v_token_address v) (release_payments (rel w) i v mode) (tokens w)
      = Some tk \<Longrightarrow> Q () (w\<lparr>tokens := tk, events := es\<rparr>)" for Q es
    by (rule wp_mono [OF distribute_effect [OF assms]])
      (use that in \<open>auto simp: payments_made_def release_payments_def\<close>)
  show ?thesis
    unfolding release_now_def
    by (auto simp: wp_simps Let_def release_amount_def [symmetric] burn_amount_def [symmetric]
        log_defs archive_released_def released_def released_vault_def release_payments_def
        plan_defs split: option.splits intro!: dist dist [where es = "events w", simplified])
qed

text \<open>The outcomes of a successful release of vault \<open>i\<close>.\<close>

definition refunded :: "'tok env \<Rightarrow> nat \<Rightarrow> Vault \<Rightarrow> 'tok world \<Rightarrow> 'tok world \<Rightarrow> bool" where
  "refunded e i v w t \<longleftrightarrow> acceptance_expired e i w \<and>
     p_Vault t = (p_Vault w)(i \<mapsto> v\<lparr>v_balance := 0, v_status := Cancelled\<rparr>) \<and>
     count_of (idx t) = count_of (idx w) \<and> plans t = plans w \<and>
     token_transfer e (v_token_address v) (current_contract_address e) (v_owner v) (v_balance v)
       (tokens w) = Some (tokens t)"

definition vested :: "nat \<Rightarrow> Vault \<Rightarrow> 'tok world \<Rightarrow> 'tok world \<Rightarrow> bool" where
  "vested i r w t \<longleftrightarrow> has_any_vesting i r w \<and>
     p_Vault t = (p_Vault w)(i \<mapsto> r\<lparr>v_status := Released\<rparr>) \<and> tokens t = tokens w \<and>
     count_of (idx t) = count_of (idx w) \<and> plans t = plans w"

definition paid_release ::
  "'tok env \<Rightarrow> nat \<Rightarrow> ReleaseTrigger \<Rightarrow> Vault \<Rightarrow> 'tok world \<Rightarrow> 'tok world \<Rightarrow> bool" where
  "paid_release e i mode r w t \<longleftrightarrow> \<not> has_any_vesting i r w \<and>
     p_Vault t = (p_Vault w)(i \<mapsto> released_vault r) \<and>
     count_of (idx t) = count_of (idx w) \<and> plans t = plans w \<and>
     run_payments e (v_token_address r) (release_payments (rel w) i r mode) (tokens w) = Some (tokens t)"

definition release_outcome ::
  "'tok env \<Rightarrow> nat \<Rightarrow> ReleaseTrigger \<Rightarrow> Vault \<Rightarrow> 'tok world \<Rightarrow> 'tok world \<Rightarrow> bool" where
  "release_outcome e i mode v w t \<longleftrightarrow> refunded e i v w t \<or>
     (p_ReleaseAttempted (rel t) i = Some True \<and> \<not> acceptance_expired e i w \<and>
      (\<exists>r. same_terms v r \<and> v_balance r = v_balance v \<and> rotated (plans w) i v r \<and>
         (vested i r w t \<or> paid_release e i mode r w t)))"

lemma release_payments_cong:
  "waterfall a = waterfall b \<Longrightarrow> release_payments a = release_payments b"
  by (intro ext) (simp add: release_payments_def)

lemma waterfall_attempted: "waterfall (r\<lparr>p_ReleaseAttempted := x\<rparr>) = waterfall r"
proof -
  have "qualifies (r\<lparr>p_ReleaseAttempted := x\<rparr>) = qualifies r"
    by (intro ext) (simp add: qualifies_def)
  then show ?thesis by (intro ext) (simp add: waterfall_def)
qed

lemma outcome_refunded: "refunded e i v w t \<Longrightarrow> release_outcome e i mode v w t"
  by (simp add: release_outcome_def)

lemma outcome_vested:
  assumes "p_ReleaseAttempted (rel t) i = Some True" "\<not> acceptance_expired e i w" "same_terms v r"
    "v_balance r = v_balance v" "rotated (plans w) i v r" "vested i r w t"
  shows "release_outcome e i mode v w t"
  unfolding release_outcome_def using assms by blast

lemma has_any_vesting_events: "has_any_vesting i r (u\<lparr>events := es\<rparr>) = has_any_vesting i r u"
  by (simp add: has_any_vesting_def)

text \<open>The tail, from a state that differs from the first one only by the archive marker.\<close>

lemma wp_execute_release:
  assumes "restored w u" "splits_ok w" "p_Vault w i = Some v"
  shows "wp (execute_release e i mode v) (\<lambda>_ t. release_outcome e i mode v w t) u"
proof -
  note same = restoredD [OF assms(1)]
  have pay: "release_payments (rel u\<lparr>p_ReleaseAttempted := x\<rparr>) = release_payments (rel w)" for x
    by (rule release_payments_cong) (simp add: waterfall_attempted same)
  have now: "wp (release_now e i mode r) (\<lambda>_ t. release_outcome e i mode v w t)
      (u\<lparr>events := es, rel := (rel u)\<lparr>p_ReleaseAttempted := (p_ReleaseAttempted (rel w))(i \<mapsto> True)\<rparr>, ttl_log := l\<rparr>)"
    if "same_terms v r" "v_balance r = v_balance v" "rotated (plans w) i v r"
      "\<not> has_any_vesting i r w" "\<not> acceptance_expired e i w" for r es l
  proof (rule wp_mono [OF release_now_effect])
    show "bps_total (v_beneficiaries r) \<le> 10000"
      using rotated_splits [OF assms(2,3) that(3)] by (simp add: sane_def)
  next
    fix x t
    assume "released e i mode r (u\<lparr>events := es,
      rel := (rel u)\<lparr>p_ReleaseAttempted := (p_ReleaseAttempted (rel w))(i \<mapsto> True)\<rparr>, ttl_log := l\<rparr>) t"
    then show "release_outcome e i mode v w t"
      using that same(6) unfolding release_outcome_def paid_release_def released_def
      by (intro disjI2) (auto simp: same pay plan_defs)
  qed
  show ?thesis
    unfolding execute_release_def mark_release_attempted_def refund_owner_def release_vested_def
    using assms(1)
    by (auto simp: wp_simps same log_defs has_any_vesting_events intro!: wp_apply_rotation_events now)
      (rule outcome_refunded outcome_vested; simp add: refunded_def vested_def same plan_defs;
       use same(6) in \<open>simp add: plan_defs\<close>)+
qed

lemma trigger_effect:
  assumes "splits_ok w"
  shows "wp (trigger_release_internal e i mode)
    (\<lambda>_ t. \<exists>v. release_allowed e w i mode v \<and> release_outcome e i mode v w t) w"
proof -
  have exec: "wp (execute_release e i mode v)
      (\<lambda>_ t. \<exists>v. release_allowed e w i mode v \<and> release_outcome e i mode v w t) u"
    if "restored w t" "restored t u" "p_Vault w i = Some v" "\<not> is_paused_w w" "v_status v = Locked"
      "p_ReleaseAttempted (rel w) i = None" "c \<in> set (conditions_of w i v)"
      "cond_holds e w i mode v c" "expired (ledger_timestamp e) v (p_Hibernation (rel w) i)"
      "deadline_of v (p_Hibernation (rel w) i) + grace_of (inst w) \<le> ledger_timestamp e"
      "v_balance v \<noteq> 0" "gates_passed e w i v" for t u v c
    by (rule wp_mono [OF wp_execute_release [OF restored_trans [OF that(1,2)] assms that(3)]])
      (use that in \<open>auto simp: release_allowed_def\<close>)
  show ?thesis
    unfolding trigger_release_internal_def
    by (auto simp: wp_simps restoredD intro!: wp_release_conditions_met wp_try_restore
       wp_release_expiry_gate wp_release_gates) (rule exec)
qed

subsection \<open>Releases keep the contract safe\<close>

lemma release_amount_bounds:
  assumes "0 \<le> v_balance v" "sane v"
  shows "0 \<le> release_amount v" "release_amount v \<le> v_balance v"
    "0 \<le> burn_amount v" "burn_amount v \<le> release_amount v"
proof -
  show r: "0 \<le> release_amount v" "release_amount v \<le> v_balance v"
    using assms by (auto simp: release_amount_def sane_def split: option.splits)
  show "0 \<le> burn_amount v"
    using r(1) by (simp add: burn_amount_def tdiv_nonneg_ge)
  show "burn_amount v \<le> release_amount v"
    using r(1) assms(2) tdiv_share_le [of "release_amount v" "int (v_burn_percentage v)" 10000]
    by (simp add: burn_amount_def sane_def)
qed

lemma release_payments_sum:
  assumes "0 \<le> v_balance v" "sane v"
  shows "sum_list (map snd (release_payments r i v mode)) =
    (if v_beneficiaries v = [] then release_amount v else release_amount v - burn_amount v)"
  using release_amount_bounds [OF assms] by (simp add: release_payments_def waterfall_sum)

lemma paid_release_solvent:
  assumes "solvent bal self w" "host_ok e self bal" "p_Vault w i = Some v" "sane r" "same_terms v r"
    "v_balance r = v_balance v" "paid_release e i mode r w t"
  shows "solvent bal self t"
proof -
  have acc: "accounts_ok bal self (p_Vault w) (count_of (idx w)) (tokens w)"
    using assms(1) by (simp add: solvent_def)
  have bal: "0 \<le> v_balance r" using accounts_okD(3) [OF acc assms(3)] assms(6) by simp
  note bounds = release_amount_bounds [OF bal assms(4)]
  have tok: "v_token_address r = v_token_address v" using assms(5) by (simp add: same_terms_def)
  have "accounts_ok bal self ((p_Vault w)(i \<mapsto> released_vault r)) (count_of (idx w)) (tokens t)"
    by (rule accounts_payments [OF acc assms(3,2), where amt = "release_amount r"])
      (use assms(6,7) tok bounds release_payments_sum [OF bal assms(4), of "rel w" i mode] in
        \<open>auto simp: paid_release_def released_vault_def\<close>)
  then show ?thesis using assms(7) by (simp add: paid_release_def solvent_def)
qed

lemma refunded_solvent:
  assumes "solvent bal self w" "host_ok e self bal" "p_Vault w i = Some v" "refunded e i v w t"
  shows "solvent bal self t"
proof -
  have pay: "token_transfer e (v_token_address v) self (v_owner v) (v_balance v) (tokens w) = Some (tokens t)"
    using assms(2,4) by (simp add: refunded_def host_ok_def)
  have "accounts_ok bal self ((p_Vault w)(i \<mapsto> v\<lparr>v_balance := 0, v_status := Cancelled\<rparr>))
      (count_of (idx w)) (tokens t)"
    by (rule accounts_pay [where vs = "p_Vault w" and v = v and e = e and to = "v_owner v"
        and amt = "v_balance v" and tk = "tokens w"])
      (use assms(1-3) pay in \<open>simp_all add: solvent_def\<close>)
  then show ?thesis using assms(4) by (simp add: refunded_def solvent_def)
qed

lemma vested_solvent:
  assumes "solvent bal self w" "p_Vault w i = Some v" "same_terms v r"
    "v_balance r = v_balance v" "vested i r w t"
  shows "solvent bal self t"
  using assms accounts_save [of bal self "p_Vault w" "count_of (idx w)" "tokens w" i v]
  by (auto simp: vested_def solvent_def same_terms_def)

lemma trigger_solvent:
  assumes "solvent bal self w" "splits_ok w" "host_ok e self bal"
  shows "wp (trigger_release_internal e i mode) (\<lambda>_. solvent bal self) w"
  by (rule wp_mono [OF trigger_effect [OF assms(2)]])
    (auto simp: release_outcome_def release_allowed_def
      dest: refunded_solvent [OF assms(1,3)] vested_solvent [OF assms(1)]
        paid_release_solvent [OF assms(1,3)] intro: rotated_splits [OF assms(2)])

lemma trigger_splits:
  assumes "splits_ok w"
  shows "wp (trigger_release_internal e i mode) (\<lambda>_. splits_ok) w"
proof (rule wp_mono [OF trigger_effect [OF assms]])
  fix x t assume "\<exists>v. release_allowed e w i mode v \<and> release_outcome e i mode v w t"
  then obtain v where v: "p_Vault w i = Some v" "release_outcome e i mode v w t"
    by (auto simp: release_allowed_def)
  have keep: "sane (u\<lparr>v_status := x\<rparr>) = sane u" "sane (u\<lparr>v_balance := y\<rparr>) = sane u"
      "sane (released_vault u) = sane u" for u x y
    by (simp_all add: sane_def released_vault_def)
  note save = splits_save [OF assms, of t i] and sane = rotated_splits [OF assms v(1)]
  from v(2) consider "refunded e i v w t" | r where "rotated (plans w) i v r" "vested i r w t"
    | r where "rotated (plans w) i v r" "paid_release e i mode r w t"
    by (auto simp: release_outcome_def)
  then show "splits_ok t"
  proof cases
    case 1
    then show ?thesis
      using save [of "v\<lparr>v_balance := 0, v_status := Cancelled\<rparr>"] splits_okD(1) [OF assms v(1)]
      by (simp add: refunded_def keep)
  next
    case 2
    then show ?thesis using save [of "r\<lparr>v_status := Released\<rparr>"] sane by (simp add: vested_def keep)
  next
    case 3
    then show ?thesis using save [of "released_vault r"] sane by (simp add: paid_release_def keep)
  qed
qed

subsection \<open>Partial release\<close>

definition partial_payments :: "Vault \<Rightarrow> int \<Rightarrow> (address \<times> int) list" where
  "partial_payments v n = (if v_beneficiaries v = [] then [(v_beneficiary v, n)]
     else payouts n 10000 0 (v_beneficiaries v))"

definition partially_released :: "'tok env \<Rightarrow> nat \<Rightarrow> Vault \<Rightarrow> int \<Rightarrow> 'tok world \<Rightarrow> 'tok world \<Rightarrow> bool" where
  "partially_released e i v n w t \<longleftrightarrow>
     p_Vault t = (p_Vault w)(i \<mapsto> v\<lparr>v_balance := v_balance v - n\<rparr>) \<and>
     count_of (idx t) = count_of (idx w) \<and> plans t = plans w \<and>
     run_payments e (v_token_address v) (partial_payments v n) (tokens w) = Some (tokens t)"

lemma partial_release_effect:
  "wp (partial_release e i n) (\<lambda>_ t. \<exists>v. p_Vault w i = Some v \<and> \<not> is_paused_w w \<and> 0 < n \<and>
      n \<le> v_balance v \<and> authorized e (v_owner v) \<and> v_status v = Locked \<and>
      \<not> expired (ledger_timestamp e) v (p_Hibernation (rel w) i) \<and> partially_released e i v n w t) w"
proof -
  have loop: "wp (foldM (partial_step e i (v_token_address v) n (length (v_beneficiaries v) - Suc 0))
        (enumerate 0 (v_beneficiaries v)) 0) Q w"
    if "v_beneficiaries v \<noteq> []"
      "\<And>x tk es. run_payments e (v_token_address v) (partial_payments v n) (tokens w) = Some tk \<Longrightarrow>
         Q x (w\<lparr>tokens := tk, events := es\<rparr>)" for v Q
    using partial.loop [OF that(1), of e i "v_token_address v" n 0 0 w]
    unfolding add_0 One_nat_def
    by (rule wp_mono) (use that in \<open>auto simp: partial_payments_def payments_made_def\<close>)
  show ?thesis
    unfolding partial_release_def
    by (auto simp: wp_simps partially_released_def simp del: fun_upd_apply intro!: loop)
      (auto simp: partial_payments_def split: option.splits)
qed

lemma partial_release_solvent:
  assumes "solvent bal self w" "splits_ok w" "host_ok e self bal"
  shows "wp (partial_release e i n) (\<lambda>_. solvent bal self) w"
proof (rule wp_mono [OF partial_release_effect], elim exE conjE)
  fix t v assume v: "p_Vault w i = Some v" "0 < n" "n \<le> v_balance v" "partially_released e i v n w t"
  have acc: "accounts_ok bal self (p_Vault w) (count_of (idx w)) (tokens w)"
    using assms(1) by (simp add: solvent_def)
  have "sum_list (map snd (partial_payments v n)) = n"
    using splits_okD(1) [OF assms(2) v(1)] v(2) by (simp add: partial_payments_def payouts_sum sane_def)
  then have "accounts_ok bal self ((p_Vault w)(i \<mapsto> v\<lparr>v_balance := v_balance v - n\<rparr>))
      (count_of (idx w)) (tokens t)"
    using v by (intro accounts_payments [OF acc v(1) assms(3), where amt = n])
      (auto simp: partially_released_def)
  then show "solvent bal self t"
    using v(4) by (simp add: partially_released_def solvent_def)
qed

lemma partial_release_splits:
  assumes "splits_ok w"
  shows "wp (partial_release e i n) (\<lambda>_. splits_ok) w"
  by (rule wp_mono [OF partial_release_effect])
    (auto simp: partially_released_def sane_def dest: splits_okD(1) [OF assms]
      intro!: splits_save [OF assms])

lemma panic_release_safe:
  assumes "solvent bal self w" "splits_ok w" "host_ok e self bal"
  shows "wp (panic_release e i c) (\<lambda>_. solvent bal self) w" "wp (panic_release e i c) (\<lambda>_. splits_ok) w"
  unfolding panic_release_def
  by (simp_all add: wp_simps trigger_solvent [OF assms] trigger_splits [OF assms(2)])

end
