(* ===== verification/Vault_Beneficiaries.thy ===== *)
theory Vault_Beneficiaries
  imports Vault_Release
begin

section \<open>Beneficiaries\<close>

text \<open>
  The handlers that set who inherits and under which conditions: the split in basis points and
  its scheduled rotations, per-beneficiary thresholds, triggers and tiers, acceptance, decline
  (with vesting forfeiture), veto, proof of life, release votes and conditional acceptance.
\<close>

subsection \<open>The split\<close>

definition sum_bps :: "BeneficiaryEntry list \<Rightarrow> ('tok, nat) handler" where
  "sum_bps bs = foldM (\<lambda>b acc. add32 acc (be_bps b)) bs 0"

definition entry_vals :: "BeneficiaryEntry list \<Rightarrow> val list" where
  "entry_vals bs = concat (map (\<lambda>b. [VA (be_address b), VU (be_bps b), VI (be_minimum_threshold b)]) bs)"

definition set_beneficiaries ::
  "'tok env \<Rightarrow> nat \<Rightarrow> address \<Rightarrow> BeneficiaryEntry list \<Rightarrow> ('tok, unit) handler" where
  "set_beneficiaries e vault_id caller beneficiaries = (thenM (require_auth e caller) (
                                                       thenM (guard (beneficiaries \<noteq> []) (Err InvalidBps)) (
                                                       bindM (load_vault vault_id) (\<lambda>vault.
                                                       thenM (guard (caller = v_owner vault) (Err NotOwner)) (
                                                       thenM (guard (v_status vault = Locked) (Err AlreadyReleased)) (
                                                       bindM (sum_bps beneficiaries) (\<lambda>total_bps.
                                                       thenM (guard (total_bps = 10000) (Err InvalidBps)) (
                                                       thenM (forM beneficiaries (\<lambda>b. guard (be_address b \<noteq> v_owner vault) (Err InvalidBeneficiary))) (
                                                       thenM (save_vault vault_id (vault\<lparr>v_beneficiaries := beneficiaries\<rparr>)) (
                                                       thenM (extend_instance_ttl) (
                                                       publish SET_BENEFICIARIES_TOPIC [VU vault_id] (entry_vals beneficiaries))))))))))))"

definition schedule_beneficiary_rotation ::
  "'tok env \<Rightarrow> nat \<Rightarrow> address \<Rightarrow> nat \<Rightarrow> BeneficiaryEntry list \<Rightarrow> ('tok, unit) handler" where
  "schedule_beneficiary_rotation e vault_id caller effective_timestamp new_beneficiaries = (thenM (require_auth e caller) (
                                                                                           bindM (load_vault vault_id) (\<lambda>vault.
                                                                                           thenM (guard (caller = v_owner vault) (Err NotOwner)) (
                                                                                           thenM (guard (v_status vault = Locked) (Err AlreadyReleased)) (
                                                                                           thenM (guard (new_beneficiaries \<noteq> []) (Err InvalidBps)) (
                                                                                           bindM (sum_bps new_beneficiaries) (\<lambda>total_bps.
                                                                                           thenM (guard (total_bps = 10000) (Err InvalidBps)) (
                                                                                           thenM (forM new_beneficiaries (\<lambda>b. guard (be_address b \<noteq> v_owner vault) (Err InvalidBeneficiary))) (
                                                                                           thenM (set_rel (\<lambda>r. r\<lparr>p_BeneficiaryRotationSchedule := (p_BeneficiaryRotationSchedule r)(vault_id \<mapsto>
       log_of (p_BeneficiaryRotationSchedule r vault_id) @
         [\<lparr>br_effective_timestamp = effective_timestamp, br_new_beneficiaries = new_beneficiaries\<rparr>])\<rparr>)) (
                                                                                           thenM (extend_instance_ttl) (
                                                                                           publish BENEFICIARY_TRIGGER_SET_TOPIC [VU vault_id]
       (VU effective_timestamp # entry_vals new_beneficiaries))))))))))))"

definition add_beneficiary ::
  "'tok env \<Rightarrow> nat \<Rightarrow> address \<Rightarrow> address \<Rightarrow> nat \<Rightarrow> ('tok, unit) handler" where
  "add_beneficiary e vault_id caller address percentage = (thenM (require_auth e caller) (
                                                          bindM (load_vault vault_id) (\<lambda>vault.
                                                          thenM (guard (caller = v_owner vault) (Err NotOwner)) (
                                                          thenM (guard (v_status vault = Locked) (Err AlreadyReleased)) (
                                                          thenM (guard (address \<noteq> v_owner vault) (Err InvalidBeneficiary)) (
                                                          thenM (guard (address \<notin> be_address ` set (v_beneficiaries vault)) (Err InvalidBeneficiary)) (
                                                          bindM (sum_bps (v_beneficiaries vault)) (\<lambda>current_total.
                                                          bindM (add32 current_total percentage) (\<lambda>next_total.
                                                          thenM (guard (next_total \<le> 10000) (Err InvalidBps)) (
                                                          thenM (save_vault vault_id (vault\<lparr>v_beneficiaries := v_beneficiaries vault @
       [\<lparr>be_address = address, be_bps = percentage, be_minimum_threshold = 0\<rparr>]\<rparr>)) (
                                                          thenM (extend_instance_ttl) (
                                                          publish BENEFICIARY_UPDATED_TOPIC [VU vault_id] [VA address, VU percentage]))))))))))))"

definition remove_beneficiary ::
  "'tok env \<Rightarrow> nat \<Rightarrow> address \<Rightarrow> address \<Rightarrow> ('tok, unit) handler" where
  "remove_beneficiary e vault_id caller address = (thenM (require_auth e caller) (
                                                  bindM (load_vault vault_id) (\<lambda>vault.
                                                  thenM (guard (caller = v_owner vault) (Err NotOwner)) (
                                                  thenM (guard (v_status vault = Locked) (Err AlreadyReleased)) (
                                                  thenM (guard (address \<in> be_address ` set (v_beneficiaries vault)) (Err InvalidBeneficiary)) (
                                                  thenM (save_vault vault_id (vault\<lparr>v_beneficiaries :=
       filter (\<lambda>b. be_address b \<noteq> address) (v_beneficiaries vault)\<rparr>)) (
                                                  thenM (extend_instance_ttl) (
                                                  publish BENEFICIARY_UPDATED_TOPIC [VU vault_id] [VA address]))))))))"

definition set_ben_min_threshold ::
  "'tok env \<Rightarrow> nat \<Rightarrow> address \<Rightarrow> address \<Rightarrow> int \<Rightarrow> ('tok, unit) handler" where
  "set_ben_min_threshold e vault_id caller beneficiary_address minimum_threshold = (thenM (require_auth e caller) (
                                                                                   bindM (load_vault vault_id) (\<lambda>vault.
                                                                                   thenM (guard (caller = v_owner vault) (Err NotOwner)) (
                                                                                   thenM (guard (v_status vault = Locked) (Err AlreadyReleased)) (
                                                                                   thenM (guard (0 \<le> minimum_threshold) (Err InvalidAmount)) (
                                                                                   thenM (guard (beneficiary_address \<in> be_address ` set (v_beneficiaries vault)) (Err InvalidBeneficiary)) (
                                                                                   thenM (save_vault vault_id (vault\<lparr>v_beneficiaries := map (\<lambda>b.
        if be_address b = beneficiary_address then b\<lparr>be_minimum_threshold := minimum_threshold\<rparr> else b)
        (v_beneficiaries vault)\<rparr>)) (
                                                                                   thenM (append_activity_log e vault_id ''set_ben_min_threshold'' caller) (
                                                                                   thenM (extend_instance_ttl) (
                                                                                   publish MIN_THRESHOLD_SET_TOPIC [VU vault_id] [VA beneficiary_address, VI minimum_threshold]))))))))))"

subsection \<open>Triggers and tiers\<close>

definition set_beneficiary_release_triggers ::
  "'tok env \<Rightarrow> nat \<Rightarrow> address \<Rightarrow> address \<Rightarrow> ReleaseTrigger list \<Rightarrow> ('tok, unit) handler" where
  "set_beneficiary_release_triggers e vault_id caller beneficiary triggers = (thenM (require_auth e caller) (
                                                                             bindM (load_vault vault_id) (\<lambda>vault.
                                                                             thenM (guard (caller = v_owner vault) (Err NotOwner)) (
                                                                             thenM (guard (v_status vault = Locked) (Err AlreadyReleased)) (
                                                                             thenM (guard (beneficiary \<in> be_address ` set (v_beneficiaries vault)) (Err InvalidBeneficiary)) (
                                                                             thenM (guard (triggers \<noteq> []) (Err InvalidAmount)) (
                                                                             bindM (gets (\<lambda>w. log_of (p_BeneficiaryReleaseTriggers (rel w) vault_id))) (\<lambda>mappings.
                                                                             (let updated = filter (\<lambda>m. fst m \<noteq> beneficiary) mappings @ [(beneficiary, triggers)] in
                                                                             thenM (set_rel (\<lambda>r. r\<lparr>p_BeneficiaryReleaseTriggers :=
       (p_BeneficiaryReleaseTriggers r)(vault_id \<mapsto> updated)\<rparr>)) (
                                                                             thenM (extend_instance_ttl) (
                                                                             publish BENEFICIARY_TRIGGER_SET_TOPIC [VU vault_id]
       ([VU vault_id, VA beneficiary] @ map (\<lambda>t. VFlag (t = Manual)) triggers))))))))))))"

definition get_beneficiary_release_triggers ::
  "nat \<Rightarrow> address \<Rightarrow> ('tok, ReleaseTrigger list) handler" where
  "get_beneficiary_release_triggers vault_id beneficiary = (bindM (gets (\<lambda>w. log_of (p_BeneficiaryReleaseTriggers (rel w) vault_id))) (\<lambda>mappings.
                                                           returnM (case map_of mappings beneficiary of None \<Rightarrow> [Expiry, Manual] | Some ts \<Rightarrow> ts)))"

definition set_beneficiary_tier_threshold ::
  "'tok env \<Rightarrow> nat \<Rightarrow> address \<Rightarrow> address \<Rightarrow> int \<Rightarrow> ('tok, unit) handler" where
  "set_beneficiary_tier_threshold e vault_id caller beneficiary tier_threshold = (thenM (require_auth e caller) (
                                                                                 bindM (load_vault vault_id) (\<lambda>vault.
                                                                                 thenM (guard (caller = v_owner vault) (Err NotOwner)) (
                                                                                 thenM (guard (v_status vault = Locked) (Err AlreadyReleased)) (
                                                                                 thenM (guard (beneficiary \<in> be_address ` set (v_beneficiaries vault)) (Err InvalidBeneficiary)) (
                                                                                 thenM (guard (0 \<le> tier_threshold) (Err InvalidAmount)) (
                                                                                 thenM (set_rel (\<lambda>r. r\<lparr>p_BeneficiaryTierThreshold :=
       (p_BeneficiaryTierThreshold r)((vault_id, beneficiary) \<mapsto> tier_threshold)\<rparr>)) (
                                                                                 thenM (extend_instance_ttl) (
                                                                                 publish BENEFICIARY_TIER_SET_TOPIC [VU vault_id] [VU vault_id, VA beneficiary, VI tier_threshold])))))))))"

subsection \<open>Acceptance, decline and veto\<close>

definition accept_beneficiary_role :: "'tok env \<Rightarrow> nat \<Rightarrow> address \<Rightarrow> ('tok, unit) handler" where
  "accept_beneficiary_role e vault_id caller = (thenM (require_auth e caller) (
                                               bindM (load_vault vault_id) (\<lambda>vault.
                                               thenM (guard (caller = v_beneficiary vault) (Err NotOwner)) (
                                               thenM (set_rel (\<lambda>r. r\<lparr>p_BeneficiaryStatus := (p_BeneficiaryStatus r)(vault_id \<mapsto> Accepted)\<rparr>)) (
                                               thenM (extend_ttl (K_BeneficiaryStatus vault_id) VAULT_TTL_THRESHOLD VAULT_TTL_LEDGERS) (
                                               publish BENEFICIARY_ACCEPTED_TOPIC [VU vault_id] [VA caller]))))))"

text \<open>The forfeiture part of \<open>decline_beneficiary_role\<close>.\<close>

definition forfeit_unvested :: "'tok env \<Rightarrow> nat \<Rightarrow> Vault \<Rightarrow> ('tok, unit) handler" where
  "forfeit_unvested e vault_id vault = (bindM (gets (\<lambda>w. p_VestingForfeiture (vest w) vault_id)) (\<lambda>f.
                                       (case f of None \<Rightarrow> returnM () | Some forfeit_cfg \<Rightarrow>
       whenM (\<not> vf_forfeited forfeit_cfg) (bindM (gets (\<lambda>w. p_VestingSchedule (vest w) (vault_id, 0))) (\<lambda>s.
                                               (case s of None \<Rightarrow> returnM () | Some schedule \<Rightarrow> ((let total_vested = vs_total_amount schedule in
                                                                                bindM (divi total_vested (int (vs_num_installments schedule))) (\<lambda>per_inst.
                                                                                bindM (muli per_inst (int (vs_claimed_installments schedule))) (\<lambda>claimed_amount.
                                                                                bindM (subi total_vested claimed_amount) (\<lambda>unvested.
                                                                                whenM (0 < unvested) (thenM (transfer e (v_token_address vault) (current_contract_address e)
                (vf_forfeiture_recipient forfeit_cfg) unvested) (
                                 bindM (subi (v_balance vault) unvested) (\<lambda>balance.
                                 thenM (set_vest (\<lambda>x. x\<lparr>p_VestingForfeiture := (p_VestingForfeiture x)(vault_id \<mapsto>
                forfeit_cfg\<lparr>vf_forfeited := True\<rparr>)\<rparr>)) (
                                 thenM (save_vault vault_id (vault\<lparr>v_balance := balance\<rparr>)) (
                                 publish VESTING_FORFEITURE_TOPIC [VU vault_id] [VI unvested]))))))))))))))))"

definition decline_beneficiary_role :: "'tok env \<Rightarrow> nat \<Rightarrow> address \<Rightarrow> ('tok, unit) handler" where
  "decline_beneficiary_role e vault_id caller = (thenM (require_auth e caller) (
                                                bindM (load_vault vault_id) (\<lambda>vault.
                                                (let is_primary = (caller = v_beneficiary vault) in
                                                (let is_listed = (caller \<in> be_address ` set (v_beneficiaries vault)) in
                                                thenM (guard (\<not> (\<not> is_primary \<and> \<not> is_listed)) (Err NotBeneficiary)) (
                                                thenM (set_rel (\<lambda>r. r\<lparr>p_BeneficiaryStatusEntry :=
       (p_BeneficiaryStatusEntry r)((vault_id, caller) \<mapsto> Declined)\<rparr>)) (
                                                thenM (extend_ttl (K_BeneficiaryStatusEntry vault_id caller) VAULT_TTL_THRESHOLD VAULT_TTL_LEDGERS) (
                                                thenM (whenM (is_primary \<and> v_beneficiaries vault = []) (thenM (set_rel (\<lambda>r. r\<lparr>p_BeneficiaryStatus := (p_BeneficiaryStatus r)(vault_id \<mapsto> Declined)\<rparr>)) (
                                                          extend_ttl (K_BeneficiaryStatus vault_id) VAULT_TTL_THRESHOLD VAULT_TTL_LEDGERS))) (
                                                thenM (forfeit_unvested e vault_id vault) (
                                                publish BENEFICIARY_DECLINED_TOPIC [VU vault_id] [VA caller]))))))))))"

definition veto_release_condition :: "'tok env \<Rightarrow> nat \<Rightarrow> address \<Rightarrow> ('tok, unit) handler" where
  "veto_release_condition e vault_id caller = (thenM (require_auth e caller) (
                                              bindM (load_vault vault_id) (\<lambda>vault.
                                              thenM (guard (caller = v_beneficiary vault) (Err NotBeneficiary)) (
                                              bindM (is_expired e vault_id) (\<lambda>x.
                                              thenM (guard (\<not> x) (Err NotExpired)) (
                                              thenM (set_rel (\<lambda>r. r\<lparr>p_BeneficiaryReleaseConditionVeto :=
       (p_BeneficiaryReleaseConditionVeto r)(vault_id \<mapsto> True)\<rparr>)) (
                                              extend_ttl (K_BeneficiaryReleaseConditionVeto vault_id) VAULT_TTL_THRESHOLD VAULT_TTL_LEDGERS)))))))"

definition revoke_veto_release_condition :: "'tok env \<Rightarrow> nat \<Rightarrow> address \<Rightarrow> ('tok, unit) handler" where
  "revoke_veto_release_condition e vault_id caller = (thenM (require_auth e caller) (
                                                     bindM (load_vault vault_id) (\<lambda>vault.
                                                     thenM (guard (caller = v_beneficiary vault) (Err NotBeneficiary)) (
                                                     set_rel (\<lambda>r. r\<lparr>p_BeneficiaryReleaseConditionVeto :=
       (p_BeneficiaryReleaseConditionVeto r)(vault_id := None)\<rparr>)))))"

subsection \<open>Proof of life and votes\<close>

definition is_beneficiary :: "Vault \<Rightarrow> address \<Rightarrow> bool" where
  "is_beneficiary v a \<longleftrightarrow> a = v_beneficiary v \<or> a \<in> be_address ` set (v_beneficiaries v)"

definition submit_proof_of_life ::
  "'tok env \<Rightarrow> nat \<Rightarrow> address \<Rightarrow> nat \<Rightarrow> ('tok, unit) handler" where
  "submit_proof_of_life e vault_id caller validity_window = (thenM (require_auth e caller) (
                                                            bindM (load_vault vault_id) (\<lambda>vault.
                                                            thenM (guard (is_beneficiary vault caller) (Err NotBeneficiary)) (
                                                            (let now = ledger_timestamp e in
                                                            (let window = min validity_window 2592000 in
                                                            thenM (set_rel (\<lambda>r. r\<lparr>p_ProofOfLife := (p_ProofOfLife r)(vault_id \<mapsto>
       \<lparr>pol_beneficiary = caller, pol_submitted_at = now, pol_valid_until = sat_add U64_MAX now window\<rparr>)\<rparr>)) (
                                                            thenM (extend_ttl (K_ProofOfLife vault_id) VAULT_TTL_THRESHOLD
       (vault_ttl_ledgers (v_check_in_interval vault))) (
                                                            thenM (extend_instance_ttl) (
                                                            publish PROOF_OF_LIFE_TOPIC [VU vault_id] [VA caller, VU now, VU (sat_add U64_MAX now window)])))))))))"

definition set_release_vote_threshold ::
  "'tok env \<Rightarrow> nat \<Rightarrow> address \<Rightarrow> nat \<Rightarrow> ('tok, unit) handler" where
  "set_release_vote_threshold e vault_id caller vote_threshold = (thenM (require_auth e caller) (
                                                                 bindM (load_vault vault_id) (\<lambda>vault.
                                                                 thenM (guard (caller = v_owner vault) (Err NotOwner)) (
                                                                 thenM (if vote_threshold = 0 then
       set_rel (\<lambda>r. r\<lparr>p_ReleaseVoteThreshold := (p_ReleaseVoteThreshold r)(vault_id := None)\<rparr>)
     else (thenM (set_rel (\<lambda>r. r\<lparr>p_ReleaseVoteThreshold :=
         (p_ReleaseVoteThreshold r)(vault_id \<mapsto> vote_threshold)\<rparr>)) (
          extend_ttl (K_ReleaseVoteThreshold vault_id) VAULT_TTL_THRESHOLD
         (vault_ttl_ledgers (v_check_in_interval vault))))) (
                                                                 extend_instance_ttl)))))"

definition cast_release_vote :: "'tok env \<Rightarrow> nat \<Rightarrow> address \<Rightarrow> bool \<Rightarrow> ('tok, unit) handler" where
  "cast_release_vote e vault_id caller approve = (thenM (require_auth e caller) (
                                                 bindM (load_vault vault_id) (\<lambda>vault.
                                                 bindM (gets (\<lambda>w. p_ReleaseVoteThreshold (rel w) vault_id)) (\<lambda>t.
                                                 bindM (ok_or t (Err VotingNotEnabled)) (\<lambda>vote_threshold.
                                                 thenM (guard (is_beneficiary vault caller) (Err NotBeneficiary)) (
                                                 bindM (gets (\<lambda>w. log_of (p_ReleaseVotes (rel w) vault_id))) (\<lambda>votes.
                                                 thenM (guard (caller \<notin> rve_voter ` set votes) (Err VotingNotEnabled)) (
                                                 (let now = ledger_timestamp e in
                                                 (let votes' = votes @ [\<lparr>rve_voter = caller, rve_approve = approve, rve_voted_at = now\<rparr>] in
                                                 thenM (set_rel (\<lambda>r. r\<lparr>p_ReleaseVotes := (p_ReleaseVotes r)(vault_id \<mapsto> votes')\<rparr>)) (
                                                 thenM (extend_ttl (K_ReleaseVotes vault_id) VAULT_TTL_THRESHOLD
       (vault_ttl_ledgers (v_check_in_interval vault))) (
                                                 thenM (extend_instance_ttl) (
                                                 thenM (publish RELEASE_VOTE_TOPIC [VU vault_id] [VA caller, VFlag approve, VU now]) (
                                                 (let approvals = length (filter rve_approve votes') in
                                                 whenM (vote_threshold \<le> approvals)
       (publish RELEASE_VOTE_PASSED_TOPIC [VU vault_id] [VU approvals]))))))))))))))))"

subsection \<open>Conditional acceptance\<close>

definition accept_with_conditions :: "'tok env \<Rightarrow> nat \<Rightarrow> string \<Rightarrow> ('tok, unit) handler" where
  "accept_with_conditions e vault_id conditions = (thenM (assert_not_paused) (
                                                  bindM (load_vault vault_id) (\<lambda>vault.
                                                  thenM (require_auth e (v_beneficiary vault)) (
                                                  thenM (guard (conditions \<noteq> []) (Err InvalidAmount)) (
                                                  thenM (set_rel (\<lambda>r. r\<lparr>p_ConditionalAcceptance := (p_ConditionalAcceptance r)(vault_id \<mapsto>
       \<lparr>ca_conditions = conditions, ca_approved_by_owner = False, ca_acceptance_deadline = None,
        ca_min_balance_threshold = None\<rparr>)\<rparr>)) (
                                                  thenM (publish CONDITIONS_ACCEPTED_TOPIC [] [VU vault_id, VA (v_beneficiary vault)]) (
                                                  extend_ttl (K_ConditionalAcceptance vault_id) VAULT_TTL_THRESHOLD
       (vault_ttl_ledgers (v_check_in_interval vault)))))))))"

definition approve_conditional_acceptance :: "'tok env \<Rightarrow> nat \<Rightarrow> ('tok, unit) handler" where
  "approve_conditional_acceptance e vault_id = (thenM (assert_not_paused) (
                                               bindM (load_vault vault_id) (\<lambda>vault.
                                               thenM (require_auth e (v_owner vault)) (
                                               bindM (gets (\<lambda>w. p_ConditionalAcceptance (rel w) vault_id)) (\<lambda>c.
                                               bindM (ok_or c (Err InvalidBeneficiary)) (\<lambda>entry.
                                               set_rel (\<lambda>r. r\<lparr>p_ConditionalAcceptance := (p_ConditionalAcceptance r)(vault_id \<mapsto>
       entry\<lparr>ca_approved_by_owner := True\<rparr>)\<rparr>)))))))"

definition set_acceptance_deadline :: "'tok env \<Rightarrow> nat \<Rightarrow> nat \<Rightarrow> ('tok, unit) handler" where
  "set_acceptance_deadline e vault_id deadline_timestamp = (thenM (assert_not_paused) (
                                                           bindM (load_vault vault_id) (\<lambda>vault.
                                                           thenM (require_auth e (v_owner vault)) (
                                                           thenM (guard (v_status vault = Locked) (Err AlreadyReleased)) (
                                                           bindM (gets (\<lambda>w. p_ConditionalAcceptance (rel w) vault_id)) (\<lambda>c.
                                                           bindM (ok_or c (Err InvalidBeneficiary)) (\<lambda>entry.
                                                           thenM (set_rel (\<lambda>r. r\<lparr>p_ConditionalAcceptance := (p_ConditionalAcceptance r)(vault_id \<mapsto>
       entry\<lparr>ca_acceptance_deadline := Some deadline_timestamp\<rparr>)\<rparr>)) (
                                                           thenM (extend_ttl (K_ConditionalAcceptance vault_id) VAULT_TTL_THRESHOLD
       (vault_ttl_ledgers (v_check_in_interval vault))) (
                                                           extend_instance_ttl)))))))))"

definition accept_with_threshold :: "'tok env \<Rightarrow> nat \<Rightarrow> int \<Rightarrow> ('tok, unit) handler" where
  "accept_with_threshold e vault_id min_balance_threshold = (thenM (assert_not_paused) (
                                                            bindM (load_vault vault_id) (\<lambda>vault.
                                                            thenM (require_auth e (v_beneficiary vault)) (
                                                            thenM (guard (0 < min_balance_threshold) (Err InvalidAmount)) (
                                                            thenM (set_rel (\<lambda>r. r\<lparr>p_BeneficiaryConditionalAcceptance :=
       (p_BeneficiaryConditionalAcceptance r)(vault_id \<mapsto>
       \<lparr>bca_min_balance_threshold = min_balance_threshold, bca_accepted_at = ledger_timestamp e\<rparr>)\<rparr>)) (
                                                            thenM (publish BENEFICIARY_CONDITION_ACCEPTED_TOPIC []
       [VU vault_id, VA (v_beneficiary vault), VI min_balance_threshold]) (
                                                            extend_ttl (K_BeneficiaryConditionalAcceptance vault_id) VAULT_TTL_THRESHOLD
       (vault_ttl_ledgers (v_check_in_interval vault)))))))))"

subsection \<open>Frames and safety\<close>

text \<open>Basis points are added up in 32 bits; an overflow traps.\<close>

lemma wp_add32_loop:
  "n \<le> U32_MAX \<Longrightarrow> wp (foldM (\<lambda>b acc. add32 acc (f b)) bs n) Q w =
     (n + sum_list (map f bs) \<le> U32_MAX \<longrightarrow> Q (n + sum_list (map f bs)) w)"
  by (induction bs arbitrary: n) (auto simp: wp_simps add.assoc)

lemma wp_sum_bps [wp_simps]:
  "wp (sum_bps bs) Q w = (bps_total bs \<le> U32_MAX \<longrightarrow> Q (bps_total bs) w)"
  by (simp add: sum_bps_def wp_add32_loop bps_total_def)

lemma keeps_heir_settings [frame]:
  "keeps accts (set_beneficiary_release_triggers e i c b ts)"
  "keeps accts (set_beneficiary_tier_threshold e i c b n)"
  "keeps accts (accept_beneficiary_role e i c)"
  "keeps accts (veto_release_condition e i c)"
  "keeps accts (revoke_veto_release_condition e i c)"
  "keeps accts (submit_proof_of_life e i c m)"
  "keeps accts (set_release_vote_threshold e i c m)"
  "keeps accts (cast_release_vote e i c y)"
  "keeps accts (accept_with_conditions e i s)"
  "keeps accts (approve_conditional_acceptance e i)"
  "keeps accts (set_acceptance_deadline e i m)"
  "keeps accts (accept_with_threshold e i x)"
  unfolding set_beneficiary_release_triggers_def set_beneficiary_tier_threshold_def
    accept_beneficiary_role_def veto_release_condition_def revoke_veto_release_condition_def
    submit_proof_of_life_def set_release_vote_threshold_def cast_release_vote_def
    accept_with_conditions_def approve_conditional_acceptance_def set_acceptance_deadline_def
    accept_with_threshold_def
  by (intro frame keeps_set_rel; simp)+

text \<open>The checking loop over the new beneficiaries.\<close>

lemma wp_forM_guard [wp_simps]:
  "wp (forM xs (\<lambda>x. guard (P x) err)) Q w = ((\<forall>x \<in> set xs. P x) \<longrightarrow> Q () w)"
  by (induction xs) (auto simp: wp_simps)

lemma keeps_split_purse:
  "keeps purse (set_beneficiaries e i c bs)" "keeps statuses (set_beneficiaries e i c bs)"
  "keeps purse (add_beneficiary e i c a n)" "keeps statuses (add_beneficiary e i c a n)"
  "keeps purse (remove_beneficiary e i c a)" "keeps statuses (remove_beneficiary e i c a)"
  "keeps purse (set_ben_min_threshold e i c a m)" "keeps statuses (set_ben_min_threshold e i c a m)"
  "keeps purse (schedule_beneficiary_rotation e i c t bs)"
  "keeps statuses (schedule_beneficiary_rotation e i c t bs)"
  unfolding set_beneficiaries_def add_beneficiary_def remove_beneficiary_def
    set_ben_min_threshold_def schedule_beneficiary_rotation_def
  by (rule keeps_wpI; auto simp: wp_simps view_defs accts_def fun_eq_iff intro!: wp_frame)+

lemma bps_total_filter: "bps_total (filter P bs) \<le> bps_total bs"
  by (induction bs) (auto simp: bps_total_def)

lemma bps_total_map: "(\<And>b. be_bps (f b) = be_bps b) \<Longrightarrow> bps_total (map f bs) = bps_total bs"
  by (induction bs) (auto simp: bps_total_def)

lemma set_beneficiaries_splits:
  assumes "splits_ok w"
  shows "wp (set_beneficiaries e i c bs) (\<lambda>_. splits_ok) w"
  unfolding set_beneficiaries_def using assms
  by (auto simp: wp_simps splits_ok_def sane_def)

lemma add_beneficiary_splits:
  assumes "splits_ok w"
  shows "wp (add_beneficiary e i c a n) (\<lambda>_. splits_ok) w"
  unfolding add_beneficiary_def using assms
  by (auto simp: wp_simps splits_ok_def sane_def bps_total_def)

lemma remove_beneficiary_splits:
  assumes "splits_ok w"
  shows "wp (remove_beneficiary e i c a) (\<lambda>_. splits_ok) w"
  unfolding remove_beneficiary_def using assms
  by (auto simp: wp_simps splits_ok_def sane_def intro: order_trans [OF bps_total_filter])

lemma set_ben_min_threshold_splits:
  assumes "splits_ok w"
  shows "wp (set_ben_min_threshold e i c a m) (\<lambda>_. splits_ok) w"
proof -
  have eq: "bps_total (map (\<lambda>b. if be_address b = a then b\<lparr>be_minimum_threshold := m\<rparr> else b) bs) =
      bps_total bs" for bs
    by (rule bps_total_map) simp
  show ?thesis
    unfolding set_ben_min_threshold_def using assms
    by (auto simp: wp_simps log_defs splits_ok_def sane_def eq)
qed

lemma schedule_rotation_splits:
  assumes "splits_ok w"
  shows "wp (schedule_beneficiary_rotation e i c t bs) (\<lambda>_. splits_ok) w"
  unfolding schedule_beneficiary_rotation_def using assms
  by (cases "p_BeneficiaryRotationSchedule (rel w) i")
    (auto simp: wp_simps splits_ok_def plans_ok_def plan_defs log_of_def split: if_splits)

end
