(* ===== verification/Vault_Ownership.thy ===== *)
theory Vault_Ownership
  imports Vault_Beneficiaries
begin

section \<open>Ownership, the primary beneficiary and cancellation\<close>

text \<open>
  The two-step, time-locked ownership transfer and its one-step variant, the time-locked update
  of the primary beneficiary, cancellation, the per-vault pause switch, and the owner and
  beneficiary indexes these operations keep up to date.
\<close>

subsection \<open>Beneficiary update\<close>

definition update_beneficiary ::
  "'tok env \<Rightarrow> nat \<Rightarrow> address \<Rightarrow> address \<Rightarrow> ('tok, unit) handler" where
  "update_beneficiary e vault_id caller new_beneficiary = (thenM (require_auth e caller) (
                                                          bindM (load_vault vault_id) (\<lambda>vault.
                                                          thenM (guard (caller = v_owner vault) (Err NotOwner)) (
                                                          thenM (guard (v_status vault \<noteq> EmergencyFrozen) (Err VaultFrozen)) (
                                                          thenM (guard (v_status vault = Locked) (Err AlreadyReleased)) (
                                                          thenM (guard (v_owner vault \<noteq> new_beneficiary) (Err InvalidBeneficiary)) (
                                                          (let now = ledger_timestamp e in
                                                          bindM (add64 now 86400) (\<lambda>unlocks_at.
                                                          thenM (set_rel (\<lambda>r. r\<lparr>p_PendingBeneficiaryUpdate := (p_PendingBeneficiaryUpdate r)(vault_id \<mapsto>
       \<lparr>pb_new_beneficiary = new_beneficiary, pb_initiated_at = now, pb_unlocks_at = unlocks_at\<rparr>)\<rparr>)) (
                                                          thenM (extend_ttl (K_PendingBeneficiaryUpdate vault_id) VAULT_TTL_THRESHOLD
       (vault_ttl_ledgers (v_check_in_interval vault))) (
                                                          publish ''ben_init'' [VU vault_id] [VA new_beneficiary, VU unlocks_at])))))))))))"

definition apply_beneficiary_update :: "'tok env \<Rightarrow> nat \<Rightarrow> address \<Rightarrow> ('tok, unit) handler" where
  "apply_beneficiary_update e vault_id caller = (thenM (require_auth e caller) (
                                                bindM (load_vault vault_id) (\<lambda>vault.
                                                thenM (guard (caller = v_owner vault) (Err NotOwner)) (
                                                bindM (gets (\<lambda>w. p_PendingBeneficiaryUpdate (rel w) vault_id)) (\<lambda>p.
                                                bindM (ok_or p (Err NoPendingAdmin)) (\<lambda>pending.
                                                thenM (guard (pb_unlocks_at pending \<le> ledger_timestamp e) (Err OwnershipTransferTimeLocked)) (
                                                (let old_beneficiary = v_beneficiary vault in
                                                (let new_beneficiary = pb_new_beneficiary pending in
                                                thenM (whenM (old_beneficiary \<noteq> new_beneficiary) (assert_beneficiary_capacity new_beneficiary)) (
                                                (let vault' = vault\<lparr>v_beneficiary := new_beneficiary\<rparr> in
                                                thenM (save_vault vault_id vault') (
                                                thenM (whenM (old_beneficiary \<noteq> new_beneficiary) (thenM (remove_beneficiary_vault_id old_beneficiary vault_id (v_check_in_interval vault')) (
                                                      add_beneficiary_vault_id new_beneficiary vault_id (v_check_in_interval vault')))) (
                                                thenM (set_rel (\<lambda>r. r\<lparr>p_PendingBeneficiaryUpdate := (p_PendingBeneficiaryUpdate r)(vault_id := None)\<rparr>)) (
                                                thenM (append_activity_log e vault_id ''apply_beneficiary_update'' caller) (
                                                publish BENEFICIARY_UPDATED_TOPIC [VU vault_id] [VA old_beneficiary, VA new_beneficiary])))))))))))))))"

subsection \<open>Cancellation and pausing\<close>

definition cancel_vault :: "'tok env \<Rightarrow> nat \<Rightarrow> address \<Rightarrow> ('tok, unit) handler" where
  "cancel_vault e vault_id caller = (bindM (load_paused) (\<lambda>paused.
                                    thenM (guard (\<not> paused) (Err Paused)) (
                                    thenM (require_auth e caller) (
                                    bindM (load_vault vault_id) (\<lambda>vault.
                                    thenM (guard (caller = v_owner vault) (Err NotOwner)) (
                                    thenM (guard (v_status vault \<noteq> EmergencyFrozen) (Err VaultFrozen)) (
                                    thenM (guard (v_status vault = Locked) (Err AlreadyReleased)) (
                                    bindM (gets (\<lambda>w. p_MultiSigConfig (msig w) vault_id)) (\<lambda>multisig.
                                    thenM (guard (multisig = None) (Err MultiSigRequired)) (
                                    (let refund_amount = v_balance vault in
                                    thenM (whenM (0 < refund_amount)
       (transfer e (v_token_address vault) (current_contract_address e) (v_owner vault) refund_amount)) (
                                    (let v = vault\<lparr>v_balance := 0, v_status := Cancelled\<rparr> in
                                    thenM (save_vault vault_id v) (
                                    thenM (remove_owner_vault_id (v_owner v) vault_id (v_check_in_interval v)) (
                                    thenM (remove_beneficiary_vault_id (v_beneficiary v) vault_id (v_check_in_interval v)) (
                                    thenM (set_idx (\<lambda>x. x\<lparr>p_VaultDuplicate := (p_VaultDuplicate x)
       ((v_owner v, v_beneficiary v, v_check_in_interval v) := None)\<rparr>)) (
                                    thenM (record_state_transition e vault_id Locked Cancelled caller) (
                                    thenM (log_audit_entry e vault_id ''cancel_vault'' caller []) (
                                    thenM (append_activity_log e vault_id ''cancel_vault'' caller) (
                                    thenM (extend_instance_ttl) (
                                    publish CANCEL_TOPIC [VU vault_id] [VA (v_owner v), VI refund_amount])))))))))))))))))))))"

definition pause_vault :: "'tok env \<Rightarrow> nat \<Rightarrow> address \<Rightarrow> ('tok, unit) handler" where
  "pause_vault e vault_id caller = (thenM (require_auth e caller) (
                                   bindM (load_vault vault_id) (\<lambda>vault.
                                   thenM (guard (caller = v_owner vault) (Err NotOwner)) (
                                   thenM (guard (v_status vault = Locked) (Err AlreadyReleased)) (
                                   thenM (save_vault vault_id (vault\<lparr>v_is_paused := True\<rparr>)) (
                                   thenM (extend_instance_ttl) (
                                   publish PAUSE_VAULT_TOPIC [VU vault_id] [VFlag True])))))))"

definition resume_vault :: "'tok env \<Rightarrow> nat \<Rightarrow> address \<Rightarrow> ('tok, unit) handler" where
  "resume_vault e vault_id caller = (thenM (require_auth e caller) (
                                    bindM (load_vault vault_id) (\<lambda>vault.
                                    thenM (guard (caller = v_owner vault) (Err NotOwner)) (
                                    thenM (guard (v_status vault = Locked) (Err AlreadyReleased)) (
                                    thenM (save_vault vault_id (vault\<lparr>v_is_paused := False\<rparr>)) (
                                    thenM (extend_instance_ttl) (
                                    publish RESUME_VAULT_TOPIC [VU vault_id] [VFlag False])))))))"

subsection \<open>Ownership transfer\<close>

definition initiate_ownership_transfer ::
  "'tok env \<Rightarrow> nat \<Rightarrow> address \<Rightarrow> address \<Rightarrow> ('tok, nat) handler" where
  "initiate_ownership_transfer e vault_id caller new_owner = (bindM (load_paused) (\<lambda>paused.
                                                             thenM (guard (\<not> paused) (Err Paused)) (
                                                             thenM (require_auth e caller) (
                                                             bindM (load_vault vault_id) (\<lambda>vault.
                                                             thenM (guard (caller = v_owner vault) (Err NotOwner)) (
                                                             thenM (guard (v_status vault = Locked) (Err AlreadyReleased)) (
                                                             thenM (guard (new_owner \<noteq> v_beneficiary vault) (Err InvalidBeneficiary)) (
                                                             thenM (guard (new_owner \<noteq> v_owner vault) (Err AlreadyOwner)) (
                                                             (let now = ledger_timestamp e in
                                                             bindM (add64 now OWNERSHIP_TRANSFER_TIMELOCK) (\<lambda>unlocks_at.
                                                             bindM (add64 now OWNERSHIP_TRANSFER_EXPIRY) (\<lambda>expires_at.
                                                             thenM (set_rel (\<lambda>r. r\<lparr>p_PendingOwnership := (p_PendingOwnership r)(vault_id \<mapsto>
       \<lparr>ot_new_owner = new_owner, ot_initiated_at = now, ot_unlocks_at = unlocks_at,
        ot_expires_at = expires_at\<rparr>)\<rparr>)) (
                                                             thenM (extend_ttl (K_PendingOwnership vault_id) VAULT_TTL_THRESHOLD
       (vault_ttl_ledgers (v_check_in_interval vault))) (
                                                             thenM (log_audit_entry e vault_id ''initiate_ownership_transfer'' caller []) (
                                                             thenM (extend_instance_ttl) (
                                                             thenM (publish OWNERSHIP_INITIATED_TOPIC [VU vault_id] [VA caller, VA new_owner, VU unlocks_at]) (
                                                             returnM unlocks_at)))))))))))))))))"

text \<open>The part the two transfers share: the index move and the new owner.\<close>

definition move_owner :: "nat \<Rightarrow> Vault \<Rightarrow> address \<Rightarrow> ('tok, unit) handler" where
  "move_owner vault_id vault new_owner = (thenM (whenM (v_owner vault \<noteq> new_owner) (thenM (remove_owner_vault_id (v_owner vault) vault_id (v_check_in_interval vault)) (
                                              add_owner_vault_id new_owner vault_id (v_check_in_interval vault)))) (
                                         save_vault vault_id (vault\<lparr>v_owner := new_owner\<rparr>)))"

definition accept_ownership_transfer :: "'tok env \<Rightarrow> nat \<Rightarrow> address \<Rightarrow> ('tok, unit) handler" where
  "accept_ownership_transfer e vault_id new_owner = (bindM (load_paused) (\<lambda>paused.
                                                    thenM (guard (\<not> paused) (Err Paused)) (
                                                    thenM (require_auth e new_owner) (
                                                    bindM (gets (\<lambda>w. p_PendingOwnership (rel w) vault_id)) (\<lambda>r.
                                                    bindM (ok_or r (Err NoPendingOwnershipTransfer)) (\<lambda>request.
                                                    thenM (guard (new_owner = ot_new_owner request) (Err NotOwner)) (
                                                    (let now = ledger_timestamp e in
                                                    thenM (guard (ot_unlocks_at request \<le> now) (Err OwnershipTransferTimeLocked)) (
                                                    thenM (guard (now \<le> ot_expires_at request) (Err OwnershipTransferExpired)) (
                                                    bindM (load_vault vault_id) (\<lambda>vault.
                                                    thenM (guard (v_status vault = Locked) (Err AlreadyReleased)) (
                                                    thenM (move_owner vault_id vault new_owner) (
                                                    thenM (set_rel (\<lambda>r. r\<lparr>p_PendingOwnership := (p_PendingOwnership r)(vault_id := None)\<rparr>)) (
                                                    thenM (log_audit_entry e vault_id ''accept_ownership_transfer'' new_owner []) (
                                                    thenM (extend_instance_ttl) (
                                                    thenM (publish OWNERSHIP_ACCEPTED_TOPIC [VU vault_id] [VA (v_owner vault), VA new_owner]) (
                                                    publish OWNERSHIP_TOPIC [VU vault_id] [VA (v_owner vault), VA new_owner])))))))))))))))))"

definition cancel_ownership_transfer :: "'tok env \<Rightarrow> nat \<Rightarrow> address \<Rightarrow> ('tok, unit) handler" where
  "cancel_ownership_transfer e vault_id caller = (thenM (require_auth e caller) (
                                                 bindM (load_vault vault_id) (\<lambda>vault.
                                                 bindM (gets (\<lambda>w. p_PendingOwnership (rel w) vault_id)) (\<lambda>r.
                                                 bindM (ok_or r (Err NoPendingOwnershipTransfer)) (\<lambda>request.
                                                 thenM (guard (caller = v_owner vault \<or> caller = ot_new_owner request) (Err NotOwner)) (
                                                 (let reason = (if caller = v_owner vault then ''cancelled'' else ''declined'') in
                                                 thenM (set_rel (\<lambda>r. r\<lparr>p_PendingOwnership := (p_PendingOwnership r)(vault_id := None)\<rparr>)) (
                                                 thenM (log_audit_entry e vault_id ''cancel_ownership_transfer'' caller []) (
                                                 thenM (extend_instance_ttl) (
                                                 publish OWNERSHIP_CANCELLED_TOPIC [VU vault_id] [VA caller, VA (ot_new_owner request), VS reason]))))))))))"

definition expire_ownership_transfer :: "'tok env \<Rightarrow> nat \<Rightarrow> ('tok, unit) handler" where
  "expire_ownership_transfer e vault_id = (bindM (gets (\<lambda>w. p_PendingOwnership (rel w) vault_id)) (\<lambda>r.
                                          bindM (ok_or r (Err NoPendingOwnershipTransfer)) (\<lambda>request.
                                          thenM (guard (ot_expires_at request < ledger_timestamp e) (Err NotExpired)) (
                                          thenM (set_rel (\<lambda>r. r\<lparr>p_PendingOwnership := (p_PendingOwnership r)(vault_id := None)\<rparr>)) (
                                          thenM (extend_instance_ttl) (
                                          publish OWNERSHIP_TRANSFER_EXPIRED_TOPIC [VU vault_id] [VA (ot_new_owner request)]))))))"

definition get_pending_ownership_transfer :: "nat \<Rightarrow> ('tok, OwnershipTransferRequest option) handler" where
  "get_pending_ownership_transfer vault_id = gets (\<lambda>w. p_PendingOwnership (rel w) vault_id)"

definition transfer_ownership :: "'tok env \<Rightarrow> nat \<Rightarrow> address \<Rightarrow> address \<Rightarrow> ('tok, unit) handler" where
  "transfer_ownership e vault_id caller new_owner = (bindM (load_paused) (\<lambda>paused.
                                                    thenM (guard (\<not> paused) (Err Paused)) (
                                                    thenM (require_auth e caller) (
                                                    bindM (load_vault vault_id) (\<lambda>vault.
                                                    thenM (guard (caller = v_owner vault) (Err NotOwner)) (
                                                    thenM (guard (v_status vault = Locked) (Err AlreadyReleased)) (
                                                    thenM (guard (new_owner \<noteq> v_beneficiary vault) (Err InvalidBeneficiary)) (
                                                    thenM (move_owner vault_id vault new_owner) (
                                                    thenM (log_audit_entry e vault_id ''transfer_ownership'' caller []) (
                                                    thenM (append_activity_log e vault_id ''transfer_ownership'' caller) (
                                                    thenM (extend_instance_ttl) (
                                                    publish OWNERSHIP_TOPIC [VU vault_id] [VA (v_owner vault), VA new_owner]))))))))))))"

subsection \<open>Frames and safety\<close>

lemma keeps_requests [frame]:
  "keeps accts (update_beneficiary e i c b)" "keeps accts (initiate_ownership_transfer e i c b)"
  "keeps accts (cancel_ownership_transfer e i c)" "keeps accts (expire_ownership_transfer e i)"
  unfolding update_beneficiary_def initiate_ownership_transfer_def cancel_ownership_transfer_def
    expire_ownership_transfer_def
  by (intro frame keeps_set_rel; simp)+

lemma keeps_pause_vault:
  "keeps purse (pause_vault e i c)" "keeps heirs (pause_vault e i c)"
  "keeps statuses (pause_vault e i c)"
  "keeps purse (resume_vault e i c)" "keeps heirs (resume_vault e i c)"
  "keeps statuses (resume_vault e i c)"
  unfolding pause_vault_def resume_vault_def
  by (rule keeps_wpI; auto simp: wp_simps view_defs fun_eq_iff)+

lemma keeps_apply_beneficiary_update:
  "keeps purse (apply_beneficiary_update e i c)" "keeps heirs (apply_beneficiary_update e i c)"
  "keeps statuses (apply_beneficiary_update e i c)"
  unfolding apply_beneficiary_update_def
  by (rule keeps_wpI; auto simp: wp_simps view_defs accts_def fun_eq_iff plan_defs Let_def
      intro!: wp_frame)+

lemma wp_move_owner:
  assumes "\<And>t. p_Vault t = (p_Vault w)(i \<mapsto> v\<lparr>v_owner := a\<rparr>) \<Longrightarrow> tokens t = tokens w \<Longrightarrow>
     count_of (idx t) = count_of (idx w) \<Longrightarrow> plans t = plans w \<Longrightarrow> Q () t"
  shows "wp (move_owner i v a) Q w"
  unfolding move_owner_def
  by (auto simp: wp_simps accts_def intro!: wp_frame assms)

lemma keeps_transfers:
  "keeps purse (accept_ownership_transfer e i a)" "keeps heirs (accept_ownership_transfer e i a)"
  "keeps statuses (accept_ownership_transfer e i a)"
  "keeps purse (transfer_ownership e i c a)" "keeps heirs (transfer_ownership e i c a)"
  "keeps statuses (transfer_ownership e i c a)"
  unfolding accept_ownership_transfer_def transfer_ownership_def
  by (rule keeps_wpI; auto simp: wp_simps view_defs accts_def fun_eq_iff plan_defs Let_def
      intro!: wp_frame wp_move_owner)+

text \<open>\<open>cancelled\<close>: the whole balance goes back to the owner and the vault is closed.\<close>

definition cancelled :: "'tok env \<Rightarrow> nat \<Rightarrow> Vault \<Rightarrow> 'tok world \<Rightarrow> 'tok world \<Rightarrow> bool" where
  "cancelled e i v w t \<longleftrightarrow>
     p_Vault t = (p_Vault w)(i \<mapsto> v\<lparr>v_balance := 0, v_status := Cancelled\<rparr>) \<and>
     count_of (idx t) = count_of (idx w) \<and> plans t = plans w \<and>
     (if 0 < v_balance v
      then token_transfer e (v_token_address v) (current_contract_address e) (v_owner v) (v_balance v)
        (tokens w) = Some (tokens t)
      else tokens t = tokens w)"

lemma cancel_vault_effect:
  "wp (cancel_vault e i c) (\<lambda>_ t. \<exists>v. p_Vault w i = Some v \<and> \<not> is_paused_w w \<and> authorized e c \<and>
     c = v_owner v \<and> v_status v = Locked \<and> p_MultiSigConfig (msig w) i = None \<and> cancelled e i v w t) w"
  unfolding cancel_vault_def
  by (auto simp: wp_simps accts_def cancelled_def Let_def simp del: fun_upd_apply
      intro!: wp_frame)

lemma cancelled_solvent:
  assumes "solvent bal self w" "host_ok e self bal" "p_Vault w i = Some v" "cancelled e i v w t"
  shows "solvent bal self t"
proof -
  have acc: "accounts_ok bal self (p_Vault w) (count_of (idx w)) (tokens w)"
    using assms(1) by (simp add: solvent_def)
  have "accounts_ok bal self ((p_Vault w)(i \<mapsto> v\<lparr>v_balance := 0, v_status := Cancelled\<rparr>))
      (count_of (idx w)) (tokens t)"
  proof (cases "0 < v_balance v")
    case True
    then show ?thesis
      using assms(2-4) acc
      by (intro accounts_pay [where vs = "p_Vault w" and v = v and e = e and to = "v_owner v"
          and amt = "v_balance v" and tk = "tokens w"]) (simp_all add: cancelled_def host_ok_def)
  next
    case False
    then show ?thesis
      using assms(3,4) acc accounts_okD(3) [OF acc assms(3)]
      by (intro accounts_save [where v = v]) (simp_all add: cancelled_def)
  qed
  then show ?thesis using assms(4) by (simp add: cancelled_def solvent_def)
qed

lemma cancel_vault_solvent:
  assumes "solvent bal self w" "host_ok e self bal"
  shows "wp (cancel_vault e i c) (\<lambda>_. solvent bal self) w"
  by (rule wp_mono [OF cancel_vault_effect]) (auto dest: cancelled_solvent [OF assms])

lemma cancel_vault_splits:
  assumes "splits_ok w"
  shows "wp (cancel_vault e i c) (\<lambda>_. splits_ok) w"
  by (rule wp_mono [OF cancel_vault_effect])
    (auto simp: cancelled_def sane_def dest: splits_okD(1) [OF assms] intro!: splits_save [OF assms])

end
