(* ===== verification/Vault_Multisig.thy ===== *)
theory Vault_Multisig
  imports Vault_Ownership
begin

section \<open>Multi-signature control\<close>

text \<open>
  Proposals of the owner that co-signers approve and the owner executes: configuration,
  proposing, approving, rejecting, vetoing and executing, with the little-endian payloads the
  operations carry. An error return after a write is a failed call: the host drops the write,
  so the \<open>Expired\<close> status the source stores before returning \<open>ProposalExpired\<close> never lasts.
\<close>

definition MULTISIG_PROPOSAL_EXPIRY :: nat where
  "MULTISIG_PROPOSAL_EXPIRY = 604800"

subsection \<open>Payloads\<close>

definition from_le_bytes :: "bytes \<Rightarrow> nat" where
  "from_le_bytes bs = foldr (\<lambda>b n. b + 256 * n) bs 0"

definition decode_i128 :: "bytes \<Rightarrow> ('tok, int) handler" where
  "decode_i128 payload = (thenM (guard (16 \<le> length payload) (Err InvalidAmount)) (
                         (let n = int (from_le_bytes (take 16 payload)) in
                         returnM (if n < 2 ^ 127 then n else n - 2 ^ 128))))"

definition decode_u64 :: "bytes \<Rightarrow> ('tok, nat) handler" where
  "decode_u64 payload = (thenM (guard (8 \<le> length payload) (Err InvalidAmount)) (
                        returnM (from_le_bytes (take 8 payload))))"

definition encode_i128_payload :: "int \<Rightarrow> bytes" where
  "encode_i128_payload value = to_le_bytes 16 (nat (value mod 2 ^ 128))"

definition encode_u64_payload :: "nat \<Rightarrow> bytes" where
  "encode_u64_payload value = to_le_bytes 8 value"

subsection \<open>Configuration\<close>

definition configure_multisig ::
  "'tok env \<Rightarrow> nat \<Rightarrow> address \<Rightarrow> address list \<Rightarrow> nat \<Rightarrow> ('tok, unit) handler" where
  "configure_multisig e vault_id caller signers threshold = (thenM (require_auth e caller) (
                                                            bindM (load_vault vault_id) (\<lambda>vault.
                                                            thenM (guard (caller = v_owner vault) (Err NotOwner)) (
                                                            thenM (guard (v_status vault = Locked) (Err AlreadyReleased)) (
                                                            bindM (add32 (length signers) 1) (\<lambda>total_signers.
                                                            thenM (guard (\<not> (threshold = 0 \<or> total_signers < threshold)) (Err InvalidThreshold)) (
                                                            thenM (guard (v_owner vault \<notin> set signers) (Err InvalidBeneficiary)) (
                                                            thenM (set_msig (\<lambda>m. m\<lparr>p_MultiSigConfig := (p_MultiSigConfig m)(vault_id \<mapsto>
       \<lparr>ms_signers = signers, ms_threshold = threshold\<rparr>)\<rparr>)) (
                                                            thenM (extend_ttl (K_MultiSigConfig vault_id) VAULT_TTL_THRESHOLD
       (vault_ttl_ledgers (v_check_in_interval vault))) (
                                                            thenM (extend_instance_ttl) (
                                                            publish MULTISIG_CONFIG_TOPIC [VU vault_id] [VU threshold])))))))))))"

definition remove_multisig :: "'tok env \<Rightarrow> nat \<Rightarrow> address \<Rightarrow> ('tok, unit) handler" where
  "remove_multisig e vault_id caller = (thenM (require_auth e caller) (
                                       bindM (load_vault vault_id) (\<lambda>vault.
                                       thenM (guard (caller = v_owner vault) (Err NotOwner)) (
                                       thenM (set_msig (\<lambda>m. m\<lparr>p_MultiSigConfig := (p_MultiSigConfig m)(vault_id := None)\<rparr>)) (
                                       extend_instance_ttl)))))"

text \<open>One turn of the loop that rejects pending proposals short of approvals.\<close>

definition reject_short :: "nat \<Rightarrow> address \<Rightarrow> nat \<Rightarrow> nat \<Rightarrow> ('tok, unit) handler" where
  "reject_short vault_id signer_to_remove threshold proposal_id = (bindM (gets (\<lambda>w. p_MultiSigProposal (msig w) (vault_id, proposal_id))) (\<lambda>p.
                                                                  (case p of None \<Rightarrow> returnM () | Some proposal \<Rightarrow>
        whenM (mp_status proposal = PendingProposal \<and>
            length (filter (\<lambda>a. a \<noteq> signer_to_remove) (mp_approvals proposal)) < threshold)
          (set_msig (\<lambda>m. m\<lparr>p_MultiSigProposal := (p_MultiSigProposal m)((vault_id, proposal_id) \<mapsto>
             proposal\<lparr>mp_status := RejectedProposal\<rparr>)\<rparr>)))))"

definition remove_multisig_signer ::
  "'tok env \<Rightarrow> nat \<Rightarrow> address \<Rightarrow> address \<Rightarrow> ('tok, unit) handler" where
  "remove_multisig_signer e vault_id caller signer_to_remove = (thenM (require_auth e caller) (
                                                               bindM (load_vault vault_id) (\<lambda>vault.
                                                               thenM (guard (caller = v_owner vault) (Err NotOwner)) (
                                                               bindM (gets (\<lambda>w. p_MultiSigConfig (msig w) vault_id)) (\<lambda>c.
                                                               bindM (ok_or c (Err MultiSigRequired)) (\<lambda>config.
                                                               (let new_signers = filter (\<lambda>s. s \<noteq> signer_to_remove) (ms_signers config) in
                                                               thenM (guard (signer_to_remove \<in> set (ms_signers config)) (Err NotASigner)) (
                                                               bindM (add32 (length new_signers) 1) (\<lambda>total_signers.
                                                               (let threshold = (if total_signers < ms_threshold config then total_signers else ms_threshold config) in
                                                               thenM (set_msig (\<lambda>m. m\<lparr>p_MultiSigConfig := (p_MultiSigConfig m)(vault_id \<mapsto>
       \<lparr>ms_signers = new_signers, ms_threshold = threshold\<rparr>)\<rparr>)) (
                                                               thenM (extend_ttl (K_MultiSigConfig vault_id) VAULT_TTL_THRESHOLD
       (vault_ttl_ledgers (v_check_in_interval vault))) (
                                                               bindM (gets (\<lambda>w. p_MultiSigProposalCount (msig w) vault_id)) (\<lambda>n.
                                                               (let proposal_count = (case n of None \<Rightarrow> 0 | Some k \<Rightarrow> k) in
                                                               thenM (forM [1..<Suc proposal_count] (reject_short vault_id signer_to_remove threshold)) (
                                                               thenM (extend_instance_ttl) (
                                                               publish MULTISIG_SIGNER_REMOVED_TOPIC [VU vault_id] [VA signer_to_remove]))))))))))))))))"

definition get_multisig_config :: "nat \<Rightarrow> ('tok, MultiSigConfig option) handler" where
  "get_multisig_config vault_id = gets (\<lambda>w. p_MultiSigConfig (msig w) vault_id)"

definition has_multisig :: "nat \<Rightarrow> ('tok, bool) handler" where
  "has_multisig vault_id = gets (\<lambda>w. p_MultiSigConfig (msig w) vault_id \<noteq> None)"

subsection \<open>Proposals\<close>

fun operation_symbol :: "MultiSigOperation \<Rightarrow> string" where
  "operation_symbol Withdraw = ''Withdraw''"
| "operation_symbol UpdateBeneficiary = ''UpdateBeneficiary''"
| "operation_symbol CancelVault = ''CancelVault''"
| "operation_symbol UpdateCheckInInterval = ''UpdateCheckInInterval''"
| "operation_symbol TransferOwnership = ''TransferOwnership''"

definition propose_multisig ::
  "'tok env \<Rightarrow> nat \<Rightarrow> address \<Rightarrow> MultiSigOperation \<Rightarrow> bytes \<Rightarrow> address option \<Rightarrow> ('tok, nat) handler" where
  "propose_multisig e vault_id caller operation payload address_payload = (thenM (require_auth e caller) (
                                                                          bindM (load_vault vault_id) (\<lambda>vault.
                                                                          thenM (guard (caller = v_owner vault) (Err NotOwner)) (
                                                                          thenM (guard (v_status vault = Locked) (Err AlreadyReleased)) (
                                                                          bindM (gets (\<lambda>w. p_MultiSigConfig (msig w) vault_id)) (\<lambda>c.
                                                                          thenM (guard (c \<noteq> None) (Err MultiSigRequired)) (
                                                                          bindM (gets (\<lambda>w. p_MultiSigProposalCount (msig w) vault_id)) (\<lambda>n.
                                                                          bindM (add64 (case n of None \<Rightarrow> 0 | Some k \<Rightarrow> k) 1) (\<lambda>proposal_id.
                                                                          (let now = ledger_timestamp e in
                                                                          bindM (add64 now MULTISIG_PROPOSAL_EXPIRY) (\<lambda>expires_at.
                                                                          thenM (set_msig (\<lambda>m. m\<lparr>p_MultiSigProposal := (p_MultiSigProposal m)((vault_id, proposal_id) \<mapsto>
       \<lparr>mp_id = proposal_id, mp_operation = operation, mp_approvals = [caller],
        mp_status = PendingProposal, mp_expires_at = expires_at, mp_vault_id = vault_id,
        mp_payload = payload, mp_address_payload = address_payload, mp_created_at = now\<rparr>)\<rparr>)) (
                                                                          (let ttl = vault_ttl_ledgers (v_check_in_interval vault) in
                                                                          thenM (extend_ttl (K_MultiSigProposal vault_id proposal_id) VAULT_TTL_THRESHOLD ttl) (
                                                                          thenM (set_msig (\<lambda>m. m\<lparr>p_MultiSigProposalCount := (p_MultiSigProposalCount m)(vault_id \<mapsto> proposal_id)\<rparr>)) (
                                                                          thenM (extend_ttl (K_MultiSigProposalCount vault_id) VAULT_TTL_THRESHOLD ttl) (
                                                                          thenM (set_msig (\<lambda>m. m\<lparr>p_OpenProposals := (p_OpenProposals m)(vault_id \<mapsto>
       log_of (p_OpenProposals m vault_id) @ [proposal_id])\<rparr>)) (
                                                                          thenM (extend_ttl (K_OpenProposals vault_id) VAULT_TTL_THRESHOLD ttl) (
                                                                          thenM (extend_instance_ttl) (
                                                                          thenM (publish MULTISIG_PROPOSED_TOPIC [VU vault_id]
       [VU proposal_id, VS (operation_symbol operation), VU expires_at]) (
                                                                          returnM proposal_id))))))))))))))))))))"

text \<open>The check that the caller is the owner or a co-signer, shared by approval and veto.\<close>

definition load_as_signer :: "nat \<Rightarrow> address \<Rightarrow> ('tok, MultiSigConfig \<times> Vault) handler" where
  "load_as_signer vault_id caller = (bindM (gets (\<lambda>w. p_MultiSigConfig (msig w) vault_id)) (\<lambda>c.
                                    bindM (ok_or c (Err MultiSigRequired)) (\<lambda>config.
                                    bindM (load_vault vault_id) (\<lambda>vault.
                                    thenM (guard (caller = v_owner vault \<or> caller \<in> set (ms_signers config)) (Err NotASigner)) (
                                    returnM (config, vault))))))"

definition load_proposal :: "nat \<Rightarrow> nat \<Rightarrow> ('tok, MultiSigProposal) handler" where
  "load_proposal vault_id proposal_id = (bindM (gets (\<lambda>w. p_MultiSigProposal (msig w) (vault_id, proposal_id))) (\<lambda>p.
                                        ok_or p (Err ProposalNotFound)))"

definition save_proposal :: "nat \<Rightarrow> nat \<Rightarrow> MultiSigProposal \<Rightarrow> ('tok, unit) handler" where
  "save_proposal vault_id proposal_id proposal = set_msig (\<lambda>m. m\<lparr>p_MultiSigProposal :=
     (p_MultiSigProposal m)((vault_id, proposal_id) \<mapsto> proposal)\<rparr>)"

definition approve_multisig :: "'tok env \<Rightarrow> nat \<Rightarrow> nat \<Rightarrow> address \<Rightarrow> ('tok, unit) handler" where
  "approve_multisig e vault_id proposal_id caller = (thenM (require_auth e caller) (
                                                    bindM (load_as_signer vault_id caller) (\<lambda>(config, vault).
                                                    bindM (load_proposal vault_id proposal_id) (\<lambda>proposal.
                                                    thenM (guard (mp_status proposal = PendingProposal) (Err ProposalNotFound)) (
                                                    thenM (guard (ledger_timestamp e \<le> mp_expires_at proposal) (Err ProposalExpired)) (
                                                    thenM (guard (caller \<notin> set (mp_approvals proposal)) (Err InvalidAmount)) (
                                                    (let approvals = mp_approvals proposal @ [caller] in
                                                    (let status = (if ms_threshold config \<le> length approvals then ApprovedProposal else mp_status proposal) in
                                                    thenM (save_proposal vault_id proposal_id (proposal\<lparr>mp_approvals := approvals, mp_status := status\<rparr>)) (
                                                    thenM (extend_ttl (K_MultiSigProposal vault_id proposal_id) VAULT_TTL_THRESHOLD
       (vault_ttl_ledgers (v_check_in_interval vault))) (
                                                    thenM (extend_instance_ttl) (
                                                    publish MULTISIG_APPROVED_TOPIC [VU vault_id] [VU proposal_id, VA caller, VU (length approvals)]))))))))))))"

text \<open>Removing a proposal from the list of open ones, if there is a list.\<close>

definition close_proposal :: "nat \<Rightarrow> nat \<Rightarrow> ('tok, unit) handler" where
  "close_proposal vault_id proposal_id = (bindM (gets (\<lambda>w. p_OpenProposals (msig w) vault_id)) (\<lambda>op.
                                         (case op of None \<Rightarrow> returnM () | Some open_proposals \<Rightarrow>
        set_msig (\<lambda>m. m\<lparr>p_OpenProposals := (p_OpenProposals m)(vault_id \<mapsto>
          filter (\<lambda>n. n \<noteq> proposal_id) open_proposals)\<rparr>))))"

definition reject_multisig :: "'tok env \<Rightarrow> nat \<Rightarrow> nat \<Rightarrow> address \<Rightarrow> ('tok, unit) handler" where
  "reject_multisig e vault_id proposal_id caller = (thenM (require_auth e caller) (
                                                   bindM (load_vault vault_id) (\<lambda>vault.
                                                   thenM (guard (caller = v_owner vault) (Err NotOwner)) (
                                                   bindM (load_proposal vault_id proposal_id) (\<lambda>proposal.
                                                   thenM (guard (mp_status proposal = PendingProposal) (Err ProposalNotFound)) (
                                                   thenM (save_proposal vault_id proposal_id (proposal\<lparr>mp_status := RejectedProposal\<rparr>)) (
                                                   thenM (close_proposal vault_id proposal_id) (
                                                   thenM (extend_instance_ttl) (
                                                   publish MULTISIG_REJECTED_TOPIC [VU vault_id] [VU proposal_id])))))))))"

definition veto_proposal :: "'tok env \<Rightarrow> nat \<Rightarrow> nat \<Rightarrow> address \<Rightarrow> ('tok, unit) handler" where
  "veto_proposal e vault_id proposal_id caller = (thenM (require_auth e caller) (
                                                 bindM (load_as_signer vault_id caller) (\<lambda>(config, vault).
                                                 bindM (load_proposal vault_id proposal_id) (\<lambda>proposal.
                                                 thenM (guard (\<not> (mp_status proposal = ExecutedProposal \<or> mp_status proposal = ExpiredProposal)) (Err ProposalNotFound)) (
                                                 thenM (save_proposal vault_id proposal_id (proposal\<lparr>mp_status := VetoedProposal\<rparr>)) (
                                                 thenM (extend_instance_ttl) (
                                                 publish MULTISIG_VETOED_TOPIC [VU vault_id] [VU proposal_id, VA caller])))))))"

subsection \<open>Execution\<close>

text \<open>The five operations, on the vault as it was loaded.\<close>

definition multisig_set_beneficiary :: "nat \<Rightarrow> Vault \<Rightarrow> address option \<Rightarrow> ('tok, unit) handler" where
  "multisig_set_beneficiary vault_id vault address_payload = (bindM (ok_or address_payload (Err InvalidAmount)) (\<lambda>new_beneficiary.
                                                             thenM (guard (new_beneficiary \<noteq> v_owner vault) (Err InvalidBeneficiary)) (
                                                             (let old = v_beneficiary vault in
                                                             thenM (save_vault vault_id (vault\<lparr>v_beneficiary := new_beneficiary\<rparr>)) (
                                                             thenM (whenM (old \<noteq> new_beneficiary) (thenM (remove_beneficiary_vault_id old vault_id (v_check_in_interval vault)) (
                                          add_beneficiary_vault_id new_beneficiary vault_id (v_check_in_interval vault)))) (
                                                             publish BENEFICIARY_UPDATED_TOPIC [VU vault_id] [VA old, VA new_beneficiary]))))))"

definition multisig_cancel :: "'tok env \<Rightarrow> nat \<Rightarrow> Vault \<Rightarrow> ('tok, unit) handler" where
  "multisig_cancel e vault_id vault = ((let refund = v_balance vault in
                                      thenM (whenM (0 < refund)
       (transfer e (v_token_address vault) (current_contract_address e) (v_owner vault) refund)) (
                                      thenM (save_vault vault_id (vault\<lparr>v_balance := 0, v_status := Cancelled\<rparr>)) (
                                      thenM (remove_owner_vault_id (v_owner vault) vault_id (v_check_in_interval vault)) (
                                      thenM (remove_beneficiary_vault_id (v_beneficiary vault) vault_id (v_check_in_interval vault)) (
                                      publish CANCEL_TOPIC [VU vault_id] [VA (v_owner vault), VI refund]))))))"

definition multisig_transfer :: "nat \<Rightarrow> Vault \<Rightarrow> address option \<Rightarrow> ('tok, unit) handler" where
  "multisig_transfer vault_id vault address_payload = (bindM (ok_or address_payload (Err InvalidAmount)) (\<lambda>new_owner.
                                                      thenM (guard (new_owner \<noteq> v_beneficiary vault) (Err InvalidBeneficiary)) (
                                                      thenM (move_owner vault_id vault new_owner) (
                                                      publish OWNERSHIP_TOPIC [VU vault_id] [VA (v_owner vault), VA new_owner]))))"

definition multisig_set_interval :: "nat \<Rightarrow> nat \<Rightarrow> Vault \<Rightarrow> bytes \<Rightarrow> ('tok, unit) handler" where
  "multisig_set_interval now vault_id vault payload = (bindM (decode_u64 payload) (\<lambda>new_interval.
                                                      thenM (guard (new_interval \<noteq> 0) (Err InvalidInterval)) (
                                                      thenM (assert_interval_in_bounds new_interval) (
                                                      thenM (save_vault vault_id (vault\<lparr>v_check_in_interval := new_interval, v_last_check_in := now\<rparr>)) (
                                                      thenM (extend_ttl (K_Vault vault_id) VAULT_TTL_THRESHOLD (vault_ttl_ledgers new_interval)) (
                                                      publish UPDATE_INTERVAL_TOPIC [VU vault_id] [VU (v_check_in_interval vault), VU new_interval]))))))"

definition perform_operation :: "'tok env \<Rightarrow> nat \<Rightarrow> Vault \<Rightarrow> MultiSigProposal \<Rightarrow> ('tok, unit) handler" where
  "perform_operation e vault_id vault proposal = (case mp_operation proposal of
     Withdraw \<Rightarrow> (bindM (decode_i128 (mp_payload proposal)) (\<lambda>amount.
                            do_withdraw e vault_id vault amount))
   | UpdateBeneficiary \<Rightarrow> multisig_set_beneficiary vault_id vault (mp_address_payload proposal)
   | CancelVault \<Rightarrow> multisig_cancel e vault_id vault
   | TransferOwnership \<Rightarrow> multisig_transfer vault_id vault (mp_address_payload proposal)
   | UpdateCheckInInterval \<Rightarrow> multisig_set_interval (ledger_timestamp e) vault_id vault (mp_payload proposal))"

definition execute_multisig :: "'tok env \<Rightarrow> nat \<Rightarrow> nat \<Rightarrow> address \<Rightarrow> ('tok, unit) handler" where
  "execute_multisig e vault_id proposal_id caller = (thenM (require_auth e caller) (
                                                    bindM (load_vault vault_id) (\<lambda>vault.
                                                    thenM (guard (caller = v_owner vault) (Err NotOwner)) (
                                                    bindM (load_proposal vault_id proposal_id) (\<lambda>proposal.
                                                    thenM (guard (mp_status proposal = ApprovedProposal) (Err InvalidThreshold)) (
                                                    thenM (guard (ledger_timestamp e \<le> mp_expires_at proposal) (Err ProposalExpired)) (
                                                    thenM (save_proposal vault_id proposal_id (proposal\<lparr>mp_status := ExecutedProposal\<rparr>)) (
                                                    thenM (perform_operation e vault_id vault proposal) (
                                                    thenM (close_proposal vault_id proposal_id) (
                                                    thenM (extend_instance_ttl) (
                                                    publish MULTISIG_EXECUTED_TOPIC [VU vault_id] [VU proposal_id])))))))))))"

definition get_multisig_proposal :: "nat \<Rightarrow> nat \<Rightarrow> ('tok, MultiSigProposal option) handler" where
  "get_multisig_proposal vault_id proposal_id = gets (\<lambda>w. p_MultiSigProposal (msig w) (vault_id, proposal_id))"

definition get_multisig_proposal_count :: "nat \<Rightarrow> ('tok, nat) handler" where
  "get_multisig_proposal_count vault_id =
     gets (\<lambda>w. case p_MultiSigProposalCount (msig w) vault_id of None \<Rightarrow> 0 | Some n \<Rightarrow> n)"

definition list_open_proposals :: "nat \<Rightarrow> ('tok, nat list) handler" where
  "list_open_proposals vault_id = gets (\<lambda>w. log_of (p_OpenProposals (msig w) vault_id))"

lemmas proposal_defs = load_as_signer_def load_proposal_def save_proposal_def close_proposal_def

lemmas operation_defs = multisig_set_beneficiary_def multisig_cancel_def multisig_transfer_def
  multisig_set_interval_def

subsection \<open>Frames and safety\<close>

lemma keeps_proposal [frame]:
  "keeps f (load_as_signer i c)" "keeps f (load_proposal i n)"
  "keeps accts (save_proposal i n p)" "keeps accts (close_proposal i n)" "keeps accts (reject_short i a k n)"
  unfolding proposal_defs reject_short_def by (intro frame)+

lemma keeps_multisig [frame]:
  "keeps accts (configure_multisig e i c ss k)" "keeps accts (remove_multisig e i c)"
  "keeps accts (remove_multisig_signer e i c a)" "keeps accts (propose_multisig e i c op pl ap)"
  "keeps accts (approve_multisig e i n c)" "keeps accts (reject_multisig e i n c)"
  "keeps accts (veto_proposal e i n c)"
  unfolding configure_multisig_def remove_multisig_def remove_multisig_signer_def propose_multisig_def
    approve_multisig_def reject_multisig_def veto_proposal_def
  by (intro frame)+

text \<open>
  What an executed proposal does to the accounts: it pays the owner, cancels the vault, or saves
  the vault with the same money, heirs and status.
\<close>

definition same_estate :: "Vault \<Rightarrow> Vault \<Rightarrow> bool" where
  "same_estate v v' \<longleftrightarrow> v_token_address v' = v_token_address v \<and> v_balance v' = v_balance v \<and>
     v_status v' = v_status v \<and> heir_terms v' = heir_terms v"

definition operated :: "'tok env \<Rightarrow> nat \<Rightarrow> Vault \<Rightarrow> 'tok world \<Rightarrow> 'tok world \<Rightarrow> bool" where
  "operated e i v w t \<longleftrightarrow>
     (\<exists>amt. paid_out e i v (v_owner v) amt w t \<and> 0 < amt \<and> amt \<le> v_balance v) \<or> cancelled e i v w t \<or>
     (\<exists>v'. p_Vault t = (p_Vault w)(i \<mapsto> v') \<and> tokens t = tokens w \<and>
        count_of (idx t) = count_of (idx w) \<and> plans t = plans w \<and> same_estate v v')"

lemma same_estate_upd [simp, intro!]:
  "same_estate v v" "same_estate v (v\<lparr>v_beneficiary := a\<rparr>)" "same_estate v (v\<lparr>v_owner := a\<rparr>)"
  "same_estate v (v\<lparr>v_check_in_interval := n, v_last_check_in := m\<rparr>)"
  by (simp_all add: same_estate_def heir_terms_def)

lemma operatedI:
  "paid_out e i v (v_owner v) amt w t \<Longrightarrow> 0 < amt \<Longrightarrow> amt \<le> v_balance v \<Longrightarrow> operated e i v w t"
  "cancelled e i v w t \<Longrightarrow> operated e i v w t"
  "p_Vault t = (p_Vault w)(i \<mapsto> v') \<Longrightarrow> tokens t = tokens w \<Longrightarrow> count_of (idx t) = count_of (idx w) \<Longrightarrow>
     plans t = plans w \<Longrightarrow> same_estate v v' \<Longrightarrow> operated e i v w t"
  unfolding operated_def by blast+

lemma operated_upd [simp]:
  "operated e i v w (t\<lparr>msig := m\<rparr>) = operated e i v w t" "operated e i v w (t\<lparr>events := es\<rparr>) = operated e i v w t"
  "operated e i v w (t\<lparr>ttl_log := l\<rparr>) = operated e i v w t" "operated e i v (w\<lparr>msig := m\<rparr>) t = operated e i v w t"
  by (simp_all add: operated_def paid_out_def cancelled_def cong: if_cong)

lemma wp_decode [wp_simps]:
  "wp (decode_i128 p) Q w = (16 \<le> length p \<longrightarrow> Q (let n = int (from_le_bytes (take 16 p)) in
     if n < 2 ^ 127 then n else n - 2 ^ 128) w)"
  "wp (decode_u64 p) R w = (8 \<le> length p \<longrightarrow> R (from_le_bytes (take 8 p)) w)"
  by (simp_all add: decode_i128_def decode_u64_def wp_simps Let_def)

lemma multisig_cancel_effect: "wp (multisig_cancel e i v) (\<lambda>_. operated e i v w) w"
  unfolding multisig_cancel_def
  by (auto simp: wp_simps accts_def cancelled_def Let_def simp del: fun_upd_apply intro!: wp_frame operatedI(2))

lemma operation_effects:
  "wp (multisig_set_beneficiary i v a) (\<lambda>_. operated e i v w) w"
  "wp (multisig_transfer i v a) (\<lambda>_. operated e i v w) w"
  "wp (multisig_set_interval now i v p) (\<lambda>_. operated e i v w) w"
  using operatedI(3) [of "w\<lparr>p_Vault := (p_Vault w)(i \<mapsto> v)\<rparr>" w i v v e]
  unfolding operation_defs
  by (auto simp: wp_simps accts_def Let_def simp del: fun_upd_apply
      intro!: wp_frame wp_move_owner intro: operatedI(3))

lemma perform_effect:
  assumes "p_Vault w i = Some v"
  shows "wp (perform_operation e i v p) (\<lambda>_. operated e i v w) w"
  unfolding perform_operation_def
  by (cases "mp_operation p")
    (auto simp: wp_simps operation_effects multisig_cancel_effect intro!: wp_mono [OF do_withdraw_effect [OF assms]] operatedI(1))

text \<open>The proposal an execution uses and how it marks it.\<close>

definition executes :: "'tok env \<Rightarrow> nat \<Rightarrow> nat \<Rightarrow> address \<Rightarrow> Vault \<Rightarrow> MultiSigProposal \<Rightarrow> 'tok world \<Rightarrow> bool" where
  "executes e i n c v p w \<longleftrightarrow> authorized e c \<and> p_Vault w i = Some v \<and> c = v_owner v \<and>
     p_MultiSigProposal (msig w) (i, n) = Some p \<and> mp_status p = ApprovedProposal \<and>
     ledger_timestamp e \<le> mp_expires_at p"

lemma wp_close_proposal:
  assumes "\<And>op. Q () (w\<lparr>msig := (msig w)\<lparr>p_OpenProposals := op\<rparr>\<rparr>)"
  shows "wp (close_proposal i n) Q w"
  using assms [of "p_OpenProposals (msig w)"] assms
  by (auto simp: close_proposal_def wp_simps split: option.splits)

lemma execute_effect:
  "wp (execute_multisig e i n c) (\<lambda>_ t. \<exists>v p. executes e i n c v p w \<and> operated e i v w t) w"
  unfolding execute_multisig_def load_proposal_def save_proposal_def extend_instance_ttl_def publish_def
  by (auto simp: wp_simps executes_def extend_ttl_def intro!: wp_mono [OF perform_effect] wp_close_proposal)

lemma operated_solvent:
  assumes "solvent bal self w" "host_ok e self bal" "p_Vault w i = Some v" "operated e i v w t"
  shows "solvent bal self t"
  using assms(4) unfolding operated_def
proof (elim disjE exE conjE)
  fix v' assume "p_Vault t = (p_Vault w)(i \<mapsto> v')" "tokens t = tokens w"
    "count_of (idx t) = count_of (idx w)" "plans t = plans w" "same_estate v v'"
  then show ?thesis
    using assms(1,3) accounts_save [of bal self "p_Vault w" "count_of (idx w)" "tokens w" i v v']
    by (simp add: solvent_def same_estate_def)
qed (use assms in \<open>blast intro: paid_out_solvent cancelled_solvent\<close>)+

lemma execute_solvent:
  assumes "solvent bal self w" "host_ok e self bal"
  shows "wp (execute_multisig e i n c) (\<lambda>_. solvent bal self) w"
  by (rule wp_mono [OF execute_effect]) (auto simp: executes_def intro: operated_solvent [OF assms])

lemma operated_splits:
  assumes "splits_ok w" "p_Vault w i = Some v" "operated e i v w t"
  shows "splits_ok t"
proof -
  have "sane v" using splits_okD(1) [OF assms(1,2)] .
  then show ?thesis
    using assms(3) paid_splits(1) [OF assms(1)] unfolding operated_def
    by (auto simp: cancelled_def sane_def same_estate_def heir_terms_def intro: splits_save [OF assms(1)])
qed

lemma execute_splits:
  assumes "splits_ok w"
  shows "wp (execute_multisig e i n c) (\<lambda>_. splits_ok) w"
  by (rule wp_mono [OF execute_effect]) (auto simp: executes_def intro: operated_splits [OF assms])

end
