(* ===== verification/Vault_Vesting.thy ===== *)
theory Vault_Vesting
  imports Vault_Multisig
begin

section \<open>Vesting\<close>

text \<open>
  Schedules that pay a released vault out in installments: the time schedule with cliff, late
  penalty, rollover, acceleration, catch-up and bonus, the claim that can be reversed, clawback,
  the milestone schedule an oracle reports on, staggered tranches, and schedules per beneficiary.
\<close>

definition MAX_VESTING_SCHEDULES :: nat where
  "MAX_VESTING_SCHEDULES = 20"

text \<open>Saturation of \<open>i128\<close> arithmetic.\<close>

definition sat_i128 :: "int \<Rightarrow> int" where
  "sat_i128 x = max I128_MIN (min I128_MAX x)"

definition schedule_count :: "nat \<Rightarrow> ('tok, nat) handler" where
  "schedule_count vault_id =
     gets (\<lambda>w. case p_VestingScheduleCount (vest w) vault_id of None \<Rightarrow> 0 | Some n \<Rightarrow> n)"

definition save_schedule :: "nat \<Rightarrow> nat \<Rightarrow> VestingSchedule \<Rightarrow> ('tok, unit) handler" where
  "save_schedule vault_id k schedule =
     set_vest (\<lambda>x. x\<lparr>p_VestingSchedule := (p_VestingSchedule x)((vault_id, k) \<mapsto> schedule)\<rparr>)"

subsection \<open>Time schedules\<close>

text \<open>One turn of the loop that adds up the schedules of a vault.\<close>

definition add_scheduled :: "nat \<Rightarrow> nat \<Rightarrow> int \<Rightarrow> ('tok, int) handler" where
  "add_scheduled vault_id k total_scheduled = (bindM (gets (\<lambda>w. p_VestingSchedule (vest w) (vault_id, k))) (\<lambda>s.
                                              (case s of None \<Rightarrow> returnM total_scheduled
      | Some x \<Rightarrow> ok_or (checked_add_i total_scheduled (vs_total_amount x)) (Err BalanceOverflow))))"

definition set_vesting_schedule ::
  "'tok env \<Rightarrow> nat \<Rightarrow> address \<Rightarrow> nat \<Rightarrow> nat \<Rightarrow> nat \<Rightarrow> int \<Rightarrow> nat \<Rightarrow> ('tok, nat) handler" where
  "set_vesting_schedule e vault_id caller start_time interval num_installments amount cliff_period = (thenM (assert_not_paused) (
                                                                                                     thenM (require_auth e caller) (
                                                                                                     bindM (load_vault vault_id) (\<lambda>vault.
                                                                                                     thenM (guard (caller = v_owner vault) (Err NotOwner)) (
                                                                                                     thenM (guard (v_status vault = Locked) (Err AlreadyReleased)) (
                                                                                                     thenM (guard (\<not> (interval = 0 \<or> num_installments = 0)) (Err InvalidInterval)) (
                                                                                                     bindM (mul64 interval num_installments) (\<lambda>span.
                                                                                                     bindM (add64 start_time span) (\<lambda>end_time.
                                                                                                     thenM (guard (start_time < end_time) (Err InvalidVestingSchedule)) (
                                                                                                     thenM (guard (v_balance vault \<noteq> 0) (Err EmptyVault)) (
                                                                                                     thenM (guard (0 < amount) (Err InvalidAmount)) (
                                                                                                     bindM (schedule_count vault_id) (\<lambda>count.
                                                                                                     bindM (foldM (add_scheduled vault_id) [0..<count] amount) (\<lambda>total_scheduled.
                                                                                                     thenM (guard (total_scheduled \<le> v_balance vault) (Err InsufficientBalance)) (
                                                                                                     thenM (guard (count < MAX_VESTING_SCHEDULES) (Err VaultCapacityExceeded)) (
                                                                                                     thenM (save_schedule vault_id count
       \<lparr>vs_start_time = start_time, vs_interval = interval, vs_num_installments = num_installments,
        vs_claimed_installments = 0, vs_total_amount = amount, vs_cliff_period = cliff_period\<rparr>) (
                                                                                                     (let ttl = vault_ttl_ledgers (v_check_in_interval vault) in
                                                                                                     thenM (extend_ttl (K_VestingSchedule vault_id count) VAULT_TTL_THRESHOLD ttl) (
                                                                                                     bindM (add32 count 1) (\<lambda>next_count.
                                                                                                     thenM (set_vest (\<lambda>x. x\<lparr>p_VestingScheduleCount := (p_VestingScheduleCount x)(vault_id \<mapsto> next_count)\<rparr>)) (
                                                                                                     thenM (extend_ttl (K_VestingScheduleCount vault_id) VAULT_TTL_THRESHOLD ttl) (
                                                                                                     thenM (extend_instance_ttl) (
                                                                                                     thenM (publish SET_VESTING_TOPIC [VU vault_id] [VU start_time, VU interval, VU num_installments, VI amount,
       VU cliff_period, VU count]) (
                                                                                                     thenM (publish VESTING_SCHEDULE_ADDED_TOPIC [VU vault_id] [VU count, VI amount]) (
                                                                                                     returnM count)))))))))))))))))))))))))"

definition get_vesting_schedule :: "nat \<Rightarrow> ('tok, VestingSchedule option) handler" where
  "get_vesting_schedule vault_id = gets (\<lambda>w. p_VestingSchedule (vest w) (vault_id, 0))"

definition cancel_vesting_schedule :: "'tok env \<Rightarrow> nat \<Rightarrow> nat \<Rightarrow> address \<Rightarrow> ('tok, unit) handler" where
  "cancel_vesting_schedule e vault_id schedule_id caller = (thenM (require_auth e caller) (
                                                           bindM (load_vault vault_id) (\<lambda>vault.
                                                           thenM (guard (caller = v_owner vault) (Err NotOwner)) (
                                                           bindM (gets (\<lambda>w. p_VestingSchedule (vest w) (vault_id, schedule_id))) (\<lambda>s.
                                                           bindM (ok_or s (Err VestingNotFound)) (\<lambda>schedule.
                                                           bindM (divi (vs_total_amount schedule) (int (vs_num_installments schedule))) (\<lambda>per_installment.
                                                           bindM (muli per_installment (int (vs_claimed_installments schedule))) (\<lambda>claimed_amount.
                                                           (let unclaimed = sat_i128 (vs_total_amount schedule - claimed_amount) in
                                                           thenM (save_vault vault_id (vault\<lparr>v_balance := sat_i128 (v_balance vault + unclaimed)\<rparr>)) (
                                                           thenM (set_vest (\<lambda>x. x\<lparr>p_VestingSchedule := (p_VestingSchedule x)((vault_id, schedule_id) := None)\<rparr>)) (
                                                           thenM (extend_instance_ttl) (
                                                           publish VESTING_CANCELLED_TOPIC [VU vault_id] [VU schedule_id, VI unclaimed]))))))))))))"

definition set_vesting_penalty ::
  "'tok env \<Rightarrow> nat \<Rightarrow> address \<Rightarrow> nat \<Rightarrow> nat \<Rightarrow> ('tok, unit) handler" where
  "set_vesting_penalty e vault_id caller penalty_bps grace_period_seconds = (thenM (require_auth e caller) (
                                                                            bindM (load_vault vault_id) (\<lambda>vault.
                                                                            thenM (guard (caller = v_owner vault) (Err NotOwner)) (
                                                                            bindM (gets (\<lambda>w. p_VestingSchedule (vest w) (vault_id, 0))) (\<lambda>s.
                                                                            thenM (guard (s \<noteq> None) (Err VestingNotFound)) (
                                                                            thenM (guard (\<not> (penalty_bps = 0 \<or> 10000 < penalty_bps)) (Err InvalidBps)) (
                                                                            thenM (set_vest (\<lambda>x. x\<lparr>p_VestingPenalty := (p_VestingPenalty x)((vault_id, 0) \<mapsto>
       \<lparr>vp_penalty_bps = penalty_bps, vp_grace_period_seconds = grace_period_seconds\<rparr>)\<rparr>)) (
                                                                            thenM (extend_ttl (K_VestingPenalty vault_id 0) VAULT_TTL_THRESHOLD (vault_ttl_ledgers (v_check_in_interval vault))) (
                                                                            thenM (extend_instance_ttl) (
                                                                            publish VESTING_PENALTY_TOPIC [VU vault_id] [VU penalty_bps, VU grace_period_seconds]))))))))))"

definition get_vesting_penalty :: "nat \<Rightarrow> ('tok, VestingPenaltyConfig option) handler" where
  "get_vesting_penalty vault_id = gets (\<lambda>w. p_VestingPenalty (vest w) (vault_id, 0))"

text \<open>
  The installments a schedule has unlocked, \<open>((now - start) / interval + 1).min(num)\<close>, and the
  first schedule of a vault if it is not complete and has started.
\<close>

definition unlocked_at :: "nat \<Rightarrow> nat \<Rightarrow> nat \<Rightarrow> nat \<Rightarrow> ('tok, nat) handler" where
  "unlocked_at now start_time interval num_installments = (bindM (div64 (now - start_time) interval) (\<lambda>q.
                                                          bindM (add64 q 1) (\<lambda>n.
                                                          returnM (min n num_installments))))"

definition load_open_schedule :: "nat \<Rightarrow> nat \<Rightarrow> ('tok, VestingSchedule) handler" where
  "load_open_schedule now vault_id = (bindM (gets (\<lambda>w. p_VestingSchedule (vest w) (vault_id, 0))) (\<lambda>s.
                                     bindM (ok_or s (Err VestingNotFound)) (\<lambda>schedule.
                                     thenM (guard (vs_claimed_installments schedule < vs_num_installments schedule) (Err VestingAlreadyComplete)) (
                                     thenM (guard (vs_start_time schedule \<le> now) (Err NothingToClaimYet)) (
                                     returnM schedule)))))"

definition enforce_cliff :: "nat \<Rightarrow> VestingSchedule \<Rightarrow> ('tok, unit) handler" where
  "enforce_cliff now schedule = whenM (0 < vs_cliff_period schedule) (bindM (add64 (vs_start_time schedule) (vs_cliff_period schedule)) (\<lambda>cliff.
                                                                     guard (cliff \<le> now) (Err CliffNotReached)))"

text \<open>What the installments up to \<open>reached\<close> pay: the last one takes the whole balance.\<close>

definition installment_amount :: "VestingSchedule \<Rightarrow> Vault \<Rightarrow> nat \<Rightarrow> nat \<Rightarrow> int \<Rightarrow> ('tok, int) handler" where
  "installment_amount schedule vault reached claimable per_installment =
     (if vs_num_installments schedule \<le> reached then returnM (v_balance vault)
      else muli per_installment (int claimable))"

subsection \<open>Claims that can be reversed\<close>

definition initiate_vesting_claim :: "'tok env \<Rightarrow> nat \<Rightarrow> nat \<Rightarrow> ('tok, int) handler" where
  "initiate_vesting_claim e vault_id reversal_window_seconds = (thenM (assert_not_paused) (
                                                               thenM (guard (reversal_window_seconds \<noteq> 0) (Err InvalidInterval)) (
                                                               bindM (gets (\<lambda>w. p_VestingPendingClaim (vest w) (vault_id, 0))) (\<lambda>p.
                                                               thenM (guard (p = None) (Err InvalidAmount)) (
                                                               bindM (load_vault vault_id) (\<lambda>vault.
                                                               thenM (guard (v_status vault = Released) (Err AlreadyReleased)) (
                                                               (let now = ledger_timestamp e in
                                                               bindM (load_open_schedule now vault_id) (\<lambda>schedule.
                                                               bindM (unlocked_at now (vs_start_time schedule) (vs_interval schedule) (vs_num_installments schedule)) (\<lambda>unlocked.
                                                               (let claimable = unlocked - vs_claimed_installments schedule in
                                                               thenM (guard (claimable \<noteq> 0) (Err NothingToClaimYet)) (
                                                               bindM (divi (vs_total_amount schedule) (int (vs_num_installments schedule))) (\<lambda>per_installment.
                                                               bindM (installment_amount schedule vault unlocked claimable per_installment) (\<lambda>amount.
                                                               (let beneficiary = (case v_beneficiaries vault of [] \<Rightarrow> v_beneficiary vault | b # bs \<Rightarrow> be_address b) in
                                                               thenM (save_schedule vault_id 0 (schedule\<lparr>vs_claimed_installments := unlocked\<rparr>)) (
                                                               (let ttl = vault_ttl_ledgers (v_check_in_interval vault) in
                                                               thenM (extend_ttl (K_VestingSchedule vault_id 0) VAULT_TTL_THRESHOLD ttl) (
                                                               bindM (add64 now reversal_window_seconds) (\<lambda>deadline.
                                                               thenM (set_vest (\<lambda>x. x\<lparr>p_VestingPendingClaim := (p_VestingPendingClaim x)((vault_id, 0) \<mapsto>
       \<lparr>vc_amount = amount, vc_beneficiary = beneficiary, vc_initiated_at = now, vc_reversal_deadline = deadline,
        vc_new_installments_claimed = unlocked, vc_prev_installments_claimed = vs_claimed_installments schedule\<rparr>)\<rparr>)) (
                                                               thenM (extend_ttl (K_VestingPendingClaim vault_id 0) VAULT_TTL_THRESHOLD ttl) (
                                                               thenM (extend_instance_ttl) (
                                                               returnM amount))))))))))))))))))))))"

definition reverse_vesting_claim :: "'tok env \<Rightarrow> nat \<Rightarrow> address \<Rightarrow> ('tok, unit) handler" where
  "reverse_vesting_claim e vault_id caller = (thenM (require_auth e caller) (
                                             bindM (load_vault vault_id) (\<lambda>vault.
                                             thenM (guard (caller = v_owner vault) (Err NotOwner)) (
                                             bindM (gets (\<lambda>w. p_VestingPendingClaim (vest w) (vault_id, 0))) (\<lambda>p.
                                             bindM (ok_or p (Err VestingReversalNotFound)) (\<lambda>pending.
                                             thenM (guard (ledger_timestamp e \<le> vc_reversal_deadline pending) (Err VestingReversalExpired)) (
                                             bindM (gets (\<lambda>w. p_VestingSchedule (vest w) (vault_id, 0))) (\<lambda>s.
                                             thenM ((case s of None \<Rightarrow> returnM () | Some schedule \<Rightarrow> (thenM (save_schedule vault_id 0 (schedule\<lparr>vs_claimed_installments := vc_prev_installments_claimed pending\<rparr>)) (
                                                                            extend_ttl (K_VestingSchedule vault_id 0) VAULT_TTL_THRESHOLD
          (vault_ttl_ledgers (v_check_in_interval vault)))))) (
                                             thenM (set_vest (\<lambda>x. x\<lparr>p_VestingPendingClaim := (p_VestingPendingClaim x)((vault_id, 0) := None)\<rparr>)) (
                                             thenM (extend_instance_ttl) (
                                             publish VESTING_REVERSED_TOPIC [VU vault_id] [VI (vc_amount pending)])))))))))))"

definition finalize_vesting_claim :: "'tok env \<Rightarrow> nat \<Rightarrow> ('tok, int) handler" where
  "finalize_vesting_claim e vault_id = (thenM (assert_not_paused) (
                                       bindM (gets (\<lambda>w. p_VestingPendingClaim (vest w) (vault_id, 0))) (\<lambda>p.
                                       bindM (ok_or p (Err VestingReversalNotFound)) (\<lambda>pending.
                                       thenM (guard (vc_reversal_deadline pending < ledger_timestamp e) (Err InvalidInterval)) (
                                       bindM (load_vault vault_id) (\<lambda>vault.
                                       thenM (guard (vc_amount pending \<le> v_balance vault) (Err InsufficientBalance)) (
                                       thenM (transfer e (v_token_address vault) (current_contract_address e) (vc_beneficiary pending) (vc_amount pending)) (
                                       bindM (subi (v_balance vault) (vc_amount pending)) (\<lambda>balance.
                                       thenM (save_vault vault_id (vault\<lparr>v_balance := balance\<rparr>)) (
                                       thenM (set_vest (\<lambda>x. x\<lparr>p_VestingPendingClaim := (p_VestingPendingClaim x)((vault_id, 0) := None)\<rparr>)) (
                                       thenM (extend_instance_ttl) (
                                       thenM (publish VESTING_FINALIZED_TOPIC [VU vault_id] [VI (vc_amount pending)]) (
                                       returnM (vc_amount pending))))))))))))))"

definition get_pending_vesting_claim :: "nat \<Rightarrow> ('tok, VestingPendingClaim option) handler" where
  "get_pending_vesting_claim vault_id = gets (\<lambda>w. p_VestingPendingClaim (vest w) (vault_id, 0))"

subsection \<open>Immediate claims\<close>

text \<open>
  Every claim pays the primary beneficiary, or splits the amount over the listed beneficiaries:
  each but the last gets its rounded share, the last one the rest. The events differ, so the
  extra data of an event is an argument.
\<close>

definition share_step ::
  "'tok env \<Rightarrow> string \<Rightarrow> (int \<Rightarrow> ('tok, val list) handler) \<Rightarrow> nat \<Rightarrow> address \<Rightarrow> int \<Rightarrow> nat
     \<Rightarrow> nat \<times> BeneficiaryEntry \<Rightarrow> int \<Rightarrow> ('tok, int) handler" where
  "share_step e topic extra vault_id token amount last_idx = (\<lambda>(i, entry) distributed. (bindM ((if i = last_idx then subi amount distributed
       else (bindM (muli amount (int (be_bps entry))) (\<lambda>scaled.
            divi scaled 10000)))) (\<lambda>share.
                                                                                               thenM (whenM (0 < share) (transfer e token (current_contract_address e) (be_address entry) share)) (
                                                                                               bindM (addi distributed share) (\<lambda>next_distributed.
                                                                                               bindM (extra share) (\<lambda>more.
                                                                                               thenM (publish topic [VU vault_id] ([VA (be_address entry), VI share] @ more)) (
                                                                                               returnM next_distributed)))))))"

definition pay_claim ::
  "'tok env \<Rightarrow> string \<Rightarrow> val list \<Rightarrow> (int \<Rightarrow> ('tok, val list) handler) \<Rightarrow> nat \<Rightarrow> Vault \<Rightarrow> int \<Rightarrow> ('tok, unit) handler" where
  "pay_claim e topic sole extra vault_id vault amount =
     (if v_beneficiaries vault = [] then (thenM (transfer e (v_token_address vault) (current_contract_address e) (v_beneficiary vault) amount) (
                                         publish topic [VU vault_id] ([VA (v_beneficiary vault), VI amount] @ sole))) else (bindM (foldM (share_step e topic extra vault_id (v_token_address vault) amount
            (length (v_beneficiaries vault) - 1)) (enumerate 0 (v_beneficiaries vault)) 0) (\<lambda>distributed.
             returnM ())))"

text \<open>
  The end of every claim of the first schedule: pay, save the vault, announce a penalty, record
  the installments.
\<close>

definition finish_claim ::
  "'tok env \<Rightarrow> string \<Rightarrow> val list \<Rightarrow> (int \<Rightarrow> ('tok, val list) handler) \<Rightarrow> ('tok, unit) handler \<Rightarrow> nat \<Rightarrow> Vault
     \<Rightarrow> VestingSchedule \<Rightarrow> nat \<Rightarrow> int \<Rightarrow> ('tok, int) handler" where
  "finish_claim e topic sole extra notify vault_id vault schedule claimed amount = (thenM (pay_claim e topic sole extra vault_id vault amount) (
                                                                                   bindM (subi (v_balance vault) amount) (\<lambda>balance.
                                                                                   thenM (save_vault vault_id (vault\<lparr>v_balance := balance\<rparr>)) (
                                                                                   thenM (notify) (
                                                                                   thenM (save_schedule vault_id 0 (schedule\<lparr>vs_claimed_installments := claimed\<rparr>)) (
                                                                                   thenM (extend_ttl (K_VestingSchedule vault_id 0) VAULT_TTL_THRESHOLD
       (vault_ttl_ledgers (v_check_in_interval vault))) (
                                                                                   thenM (extend_instance_ttl) (
                                                                                   returnM amount))))))))"

text \<open>The rolled-over amount a claim adds, and its reset.\<close>

definition take_rollover :: "nat \<Rightarrow> int \<Rightarrow> ('tok, int) handler" where
  "take_rollover vault_id base_amount = (bindM (gets (\<lambda>w. p_VestingRollover (vest w) vault_id)) (\<lambda>c.
                                        (case c of None \<Rightarrow> returnM base_amount | Some cfg \<Rightarrow>
       if vr_enabled cfg \<and> 0 < vr_rolled_amount cfg then (bindM (addi base_amount (vr_rolled_amount cfg)) (\<lambda>total.
                                                              thenM (set_vest (\<lambda>x. x\<lparr>p_VestingRollover := (p_VestingRollover x)(vault_id \<mapsto> cfg\<lparr>vr_rolled_amount := 0\<rparr>)\<rparr>)) (
                                                              returnM total))) else returnM base_amount)))"

text \<open>Installments unlocked before \<open>cutoff\<close> among those being claimed.\<close>

definition unlock_time :: "VestingSchedule \<Rightarrow> nat \<Rightarrow> nat" where
  "unlock_time schedule i = sat_add U64_MAX (vs_start_time schedule) (sat_mul U64_MAX (i - 1) (vs_interval schedule))"

definition late_count :: "VestingSchedule \<Rightarrow> nat \<Rightarrow> nat \<Rightarrow> nat" where
  "late_count schedule unlocked cutoff =
     length (filter (\<lambda>i. unlock_time schedule i < cutoff) [vs_claimed_installments schedule + 1..<Suc unlocked])"

definition apply_penalty ::
  "nat \<Rightarrow> nat \<Rightarrow> Vault \<Rightarrow> VestingSchedule \<Rightarrow> nat \<Rightarrow> nat \<Rightarrow> int \<Rightarrow> int \<Rightarrow> ('tok, int) handler" where
  "apply_penalty now vault_id vault schedule unlocked claimable per_installment base_amount = (bindM (gets (\<lambda>w. p_VestingPenalty (vest w) (vault_id, 0))) (\<lambda>c.
                                                                                              (case c of None \<Rightarrow> returnM base_amount | Some penalty_cfg \<Rightarrow> ((let late = late_count schedule unlocked (now - vp_grace_period_seconds penalty_cfg) in
                                                                                        if 0 < late then (bindM (muli per_installment (int (claimable - late))) (\<lambda>on_time_amount.
                        bindM (muli per_installment (int late)) (\<lambda>late_amount.
                        bindM (muli late_amount (int (vp_penalty_bps penalty_cfg))) (\<lambda>scaled.
                        bindM (divi scaled 10000) (\<lambda>penalty.
                        bindM (addi on_time_amount late_amount) (\<lambda>total.
                        bindM (subi total penalty) (\<lambda>penalized.
                        returnM (if vs_num_installments schedule \<le> unlocked then min penalized (v_balance vault) else penalized)))))))) else returnM base_amount)))))"

definition claim_vested_installment :: "'tok env \<Rightarrow> nat \<Rightarrow> ('tok, int) handler" where
  "claim_vested_installment e vault_id = (thenM (assert_not_paused) (
                                         bindM (load_vault vault_id) (\<lambda>vault.
                                         thenM (guard (v_status vault \<noteq> Cancelled) (Err AlreadyReleased)) (
                                         thenM (guard (v_status vault = Released) (Err AlreadyReleased)) (
                                         (let now = ledger_timestamp e in
                                         bindM (load_open_schedule now vault_id) (\<lambda>schedule.
                                         thenM (enforce_cliff now schedule) (
                                         thenM (whenM (0 < vs_cliff_period schedule \<and> vs_claimed_installments schedule = 0)
       (publish CLIFF_REACHED_TOPIC [VU vault_id] [VU now])) (
                                         bindM (gets (\<lambda>w. p_VestingAcceleration (vest w) vault_id)) (\<lambda>a.
                                         (let accelerated = (case a of None \<Rightarrow> False | Some c \<Rightarrow> va_accelerated c) in
                                         bindM ((if accelerated then returnM (vs_num_installments schedule)
       else unlocked_at now (vs_start_time schedule) (vs_interval schedule) (vs_num_installments schedule))) (\<lambda>unlocked.
                                         (let claimable = unlocked - vs_claimed_installments schedule in
                                         thenM (whenM (claimable = 0) (bindM (gets (\<lambda>w. p_VestingRollover (vest w) vault_id)) (\<lambda>r.
                           guard (\<not> (case r of None \<Rightarrow> True | Some c \<Rightarrow> \<not> vr_enabled c \<or> vr_rolled_amount c = 0)) (Err NothingToClaimYet)))) (
                                         bindM (divi (vs_total_amount schedule) (int (vs_num_installments schedule))) (\<lambda>per_installment.
                                         bindM (installment_amount schedule vault unlocked claimable per_installment) (\<lambda>first_amount.
                                         bindM (take_rollover vault_id first_amount) (\<lambda>base_amount.
                                         bindM (apply_penalty now vault_id vault schedule unlocked claimable per_installment base_amount) (\<lambda>amount.
                                         thenM (guard (amount \<le> v_balance vault) (Err InsufficientBalance)) (
                                         finish_claim e CLAIM_VEST_TOPIC [VU unlocked] (\<lambda>_. returnM [VU unlocked])
       (whenM (amount < base_amount) (bindM (subi base_amount amount) (\<lambda>lost.
                                     publish VESTING_PENALTY_TOPIC [VU vault_id] [VI lost, VI amount])))
       vault_id vault schedule unlocked amount)))))))))))))))))))"

text \<open>One turn of each of the two loops of \<open>clawback_unvested\<close>.\<close>

definition add_unvested :: "nat \<Rightarrow> nat \<Rightarrow> int \<Rightarrow> ('tok, int) handler" where
  "add_unvested vault_id k total_unvested = (bindM (gets (\<lambda>w. p_VestingSchedule (vest w) (vault_id, k))) (\<lambda>s.
                                            (case s of None \<Rightarrow> returnM total_unvested | Some schedule \<Rightarrow> (bindM (sub64 (vs_num_installments schedule) (vs_claimed_installments schedule)) (\<lambda>remaining.
                                                                                        if 0 < remaining then (bindM (divi (vs_total_amount schedule) (int (vs_num_installments schedule))) (\<lambda>per_installment.
                             bindM (muli per_installment (int remaining)) (\<lambda>part.
                             addi total_unvested part))) else returnM total_unvested)))))"

definition mark_claimed :: "nat \<Rightarrow> nat \<Rightarrow> nat \<Rightarrow> ('tok, unit) handler" where
  "mark_claimed vault_id ttl k = (bindM (gets (\<lambda>w. p_VestingSchedule (vest w) (vault_id, k))) (\<lambda>s.
                                 (case s of None \<Rightarrow> returnM () | Some schedule \<Rightarrow> (thenM (save_schedule vault_id k (schedule\<lparr>vs_claimed_installments := vs_num_installments schedule\<rparr>)) (
                                                                            extend_ttl (K_VestingSchedule vault_id k) VAULT_TTL_THRESHOLD ttl)))))"

definition clawback_unvested :: "'tok env \<Rightarrow> nat \<Rightarrow> address \<Rightarrow> ('tok, int) handler" where
  "clawback_unvested e vault_id caller = (thenM (assert_not_paused) (
                                         thenM (require_auth e caller) (
                                         bindM (load_vault vault_id) (\<lambda>vault.
                                         thenM (guard (caller = v_owner vault) (Err NotOwner)) (
                                         thenM (guard (v_status vault = Released) (Err AlreadyReleased)) (
                                         bindM (schedule_count vault_id) (\<lambda>count.
                                         thenM (guard (count \<noteq> 0) (Err VestingNotFound)) (
                                         bindM (foldM (add_unvested vault_id) [0..<count] 0) (\<lambda>total_unvested.
                                         thenM (guard (total_unvested \<noteq> 0) (Err NothingToClawback)) (
                                         thenM (guard (total_unvested \<le> v_balance vault) (Err InsufficientBalance)) (
                                         thenM (transfer e (v_token_address vault) (current_contract_address e) (v_owner vault) total_unvested) (
                                         bindM (subi (v_balance vault) total_unvested) (\<lambda>balance.
                                         thenM (forM [0..<count] (mark_claimed vault_id (vault_ttl_ledgers (v_check_in_interval vault)))) (
                                         thenM (save_vault vault_id (vault\<lparr>v_balance := balance\<rparr>)) (
                                         thenM (extend_instance_ttl) (
                                         thenM (publish CLAWBACK_UNVESTED_TOPIC [VU vault_id] [VI total_unvested, VI balance]) (
                                         returnM total_unvested)))))))))))))))))"

subsection \<open>Owner settings\<close>

definition set_vesting_rollover :: "'tok env \<Rightarrow> nat \<Rightarrow> address \<Rightarrow> bool \<Rightarrow> ('tok, unit) handler" where
  "set_vesting_rollover e vault_id caller enabled = (thenM (assert_not_paused) (
                                                    thenM (require_auth e caller) (
                                                    bindM (load_vault vault_id) (\<lambda>vault.
                                                    thenM (guard (caller = v_owner vault) (Err NotOwner)) (
                                                    thenM (set_vest (\<lambda>x. x\<lparr>p_VestingRollover := (p_VestingRollover x)(vault_id \<mapsto>
       \<lparr>vr_enabled = enabled, vr_rolled_amount = 0\<rparr>)\<rparr>)) (
                                                    thenM (extend_ttl (K_VestingRollover vault_id) VAULT_TTL_THRESHOLD (vault_ttl_ledgers (v_check_in_interval vault))) (
                                                    publish VESTING_ROLLOVER_TOPIC [VU vault_id] [VFlag enabled])))))))"

definition get_vesting_rollover :: "nat \<Rightarrow> ('tok, VestingRolloverConfig option) handler" where
  "get_vesting_rollover vault_id = gets (\<lambda>w. p_VestingRollover (vest w) vault_id)"

definition set_vesting_forfeiture :: "'tok env \<Rightarrow> nat \<Rightarrow> address \<Rightarrow> address \<Rightarrow> ('tok, unit) handler" where
  "set_vesting_forfeiture e vault_id caller forfeiture_recipient = (thenM (assert_not_paused) (
                                                                   thenM (require_auth e caller) (
                                                                   bindM (load_vault vault_id) (\<lambda>vault.
                                                                   thenM (guard (caller = v_owner vault) (Err NotOwner)) (
                                                                   thenM (set_vest (\<lambda>x. x\<lparr>p_VestingForfeiture := (p_VestingForfeiture x)(vault_id \<mapsto>
       \<lparr>vf_forfeiture_recipient = forfeiture_recipient, vf_forfeited = False\<rparr>)\<rparr>)) (
                                                                   thenM (extend_ttl (K_VestingForfeiture vault_id) VAULT_TTL_THRESHOLD (vault_ttl_ledgers (v_check_in_interval vault))) (
                                                                   publish VESTING_FORFEITURE_TOPIC [VU vault_id] [VA forfeiture_recipient])))))))"

definition get_vesting_forfeiture :: "nat \<Rightarrow> ('tok, VestingForfeitureConfig option) handler" where
  "get_vesting_forfeiture vault_id = gets (\<lambda>w. p_VestingForfeiture (vest w) vault_id)"

definition set_vesting_acceleration :: "'tok env \<Rightarrow> nat \<Rightarrow> address \<Rightarrow> address \<Rightarrow> ('tok, unit) handler" where
  "set_vesting_acceleration e vault_id caller oracle = (thenM (assert_not_paused) (
                                                       thenM (require_auth e caller) (
                                                       bindM (load_vault vault_id) (\<lambda>vault.
                                                       thenM (guard (caller = v_owner vault) (Err NotOwner)) (
                                                       thenM (set_vest (\<lambda>x. x\<lparr>p_VestingAcceleration := (p_VestingAcceleration x)(vault_id \<mapsto>
       \<lparr>va_oracle = oracle, va_accelerated = False\<rparr>)\<rparr>)) (
                                                       thenM (extend_ttl (K_VestingAcceleration vault_id) VAULT_TTL_THRESHOLD (vault_ttl_ledgers (v_check_in_interval vault))) (
                                                       publish VESTING_ACCELERATED_TOPIC [VU vault_id] [VA oracle])))))))"

definition get_vesting_acceleration :: "nat \<Rightarrow> ('tok, VestingAccelerationConfig option) handler" where
  "get_vesting_acceleration vault_id = gets (\<lambda>w. p_VestingAcceleration (vest w) vault_id)"

definition accelerate_vesting :: "'tok env \<Rightarrow> nat \<Rightarrow> address \<Rightarrow> ('tok, unit) handler" where
  "accelerate_vesting e vault_id caller = (thenM (assert_not_paused) (
                                          thenM (require_auth e caller) (
                                          bindM (gets (\<lambda>w. p_VestingAcceleration (vest w) vault_id)) (\<lambda>c.
                                          bindM (ok_or c (Err VestingNotFound)) (\<lambda>config.
                                          thenM (guard (caller = va_oracle config) (Err NotOwner)) (
                                          thenM (guard (\<not> va_accelerated config) (Err VestingAlreadyAccelerated)) (
                                          thenM (set_vest (\<lambda>x. x\<lparr>p_VestingAcceleration := (p_VestingAcceleration x)(vault_id \<mapsto> config\<lparr>va_accelerated := True\<rparr>)\<rparr>)) (
                                          publish VESTING_ACCELERATED_TOPIC [VU vault_id] [VFlag True]))))))))"

definition set_vesting_catchup :: "'tok env \<Rightarrow> nat \<Rightarrow> address \<Rightarrow> bool \<Rightarrow> nat \<Rightarrow> ('tok, unit) handler" where
  "set_vesting_catchup e vault_id caller enabled max_catchup_installments = (thenM (assert_not_paused) (
                                                                            thenM (require_auth e caller) (
                                                                            bindM (load_vault vault_id) (\<lambda>vault.
                                                                            thenM (guard (caller = v_owner vault) (Err NotOwner)) (
                                                                            thenM (set_vest (\<lambda>x. x\<lparr>p_VestingCatchUp := (p_VestingCatchUp x)(vault_id \<mapsto>
       \<lparr>cu_enabled = enabled, cu_max_catchup_installments = max_catchup_installments\<rparr>)\<rparr>)) (
                                                                            thenM (extend_ttl (K_VestingCatchUp vault_id) VAULT_TTL_THRESHOLD (vault_ttl_ledgers (v_check_in_interval vault))) (
                                                                            thenM (extend_instance_ttl) (
                                                                            publish VESTING_CATCHUP_SET_TOPIC [VU vault_id] [VFlag enabled, VU max_catchup_installments]))))))))"

definition get_vesting_catchup :: "nat \<Rightarrow> ('tok, VestingCatchUpConfig option) handler" where
  "get_vesting_catchup vault_id = gets (\<lambda>w. p_VestingCatchUp (vest w) vault_id)"

definition set_vesting_bonus :: "'tok env \<Rightarrow> nat \<Rightarrow> address \<Rightarrow> nat \<Rightarrow> nat \<Rightarrow> ('tok, unit) handler" where
  "set_vesting_bonus e vault_id caller bonus_bps on_time_window_seconds = (thenM (assert_not_paused) (
                                                                          thenM (require_auth e caller) (
                                                                          bindM (load_vault vault_id) (\<lambda>vault.
                                                                          thenM (guard (caller = v_owner vault) (Err NotOwner)) (
                                                                          thenM (guard (\<not> (bonus_bps = 0 \<or> 10000 < bonus_bps)) (Err InvalidBps)) (
                                                                          thenM (set_vest (\<lambda>x. x\<lparr>p_VestingBonus := (p_VestingBonus x)(vault_id \<mapsto>
       \<lparr>vb_bonus_bps = bonus_bps, vb_on_time_window_seconds = on_time_window_seconds\<rparr>)\<rparr>)) (
                                                                          thenM (extend_ttl (K_VestingBonus vault_id) VAULT_TTL_THRESHOLD (vault_ttl_ledgers (v_check_in_interval vault))) (
                                                                          thenM (extend_instance_ttl) (
                                                                          publish VESTING_BONUS_SET_TOPIC [VU vault_id] [VU bonus_bps, VU on_time_window_seconds])))))))))"

definition get_vesting_bonus :: "nat \<Rightarrow> ('tok, VestingBonusConfig option) handler" where
  "get_vesting_bonus vault_id = gets (\<lambda>w. p_VestingBonus (vest w) vault_id)"

text \<open>One turn of the sum of \<open>get_total_unvested_amount\<close>, which saturates.\<close>

definition unvested_step :: "nat \<Rightarrow> nat \<Rightarrow> int \<Rightarrow> ('tok, int) handler" where
  "unvested_step vault_id k acc = (bindM (gets (\<lambda>w. p_VestingSchedule (vest w) (vault_id, k))) (\<lambda>s.
                                  (case s of None \<Rightarrow> returnM acc | Some schedule \<Rightarrow> (bindM (divi (vs_total_amount schedule) (int (vs_num_installments schedule))) (\<lambda>per_installment.
                                                                             bindM (muli per_installment (int (vs_claimed_installments schedule))) (\<lambda>claimed_amount.
                                                                             (let unclaimed = sat_i128 (vs_total_amount schedule - claimed_amount) in
                                                                             returnM (sat_i128 (acc + unclaimed)))))))))"

definition get_total_unvested_amount :: "nat \<Rightarrow> ('tok, int) handler" where
  "get_total_unvested_amount vault_id = (bindM (schedule_count vault_id) (\<lambda>count.
                                        foldM (unvested_step vault_id) [0..<count] 0))"

subsection \<open>Catch-up and bonus claims\<close>

definition claim_catchup_vesting :: "'tok env \<Rightarrow> nat \<Rightarrow> ('tok, int) handler" where
  "claim_catchup_vesting e vault_id = (thenM (assert_not_paused) (
                                      bindM (load_vault vault_id) (\<lambda>vault.
                                      thenM (guard (v_status vault = Released) (Err AlreadyReleased)) (
                                      bindM (gets (\<lambda>w. p_VestingCatchUp (vest w) vault_id)) (\<lambda>c.
                                      bindM (ok_or c (Err CatchUpNotEnabled)) (\<lambda>catchup_cfg.
                                      thenM (guard (cu_enabled catchup_cfg) (Err CatchUpNotEnabled)) (
                                      (let now = ledger_timestamp e in
                                      bindM (load_open_schedule now vault_id) (\<lambda>schedule.
                                      thenM (enforce_cliff now schedule) (
                                      bindM (unlocked_at now (vs_start_time schedule) (vs_interval schedule) (vs_num_installments schedule)) (\<lambda>unlocked.
                                      (let missed = unlocked - vs_claimed_installments schedule in
                                      thenM (guard (missed \<noteq> 0) (Err NothingToClaimYet)) (
                                      (let claimable = (if 0 < cu_max_catchup_installments catchup_cfg
       then min missed (cu_max_catchup_installments catchup_cfg) else missed) in
                                      bindM (add32 (vs_claimed_installments schedule) claimable) (\<lambda>new_claimed.
                                      bindM (divi (vs_total_amount schedule) (int (vs_num_installments schedule))) (\<lambda>per_installment.
                                      bindM (installment_amount schedule vault new_claimed claimable per_installment) (\<lambda>amount.
                                      thenM (guard (amount \<le> v_balance vault) (Err InsufficientBalance)) (
                                      finish_claim e VESTING_CATCHUP_CLAIMED_TOPIC [VU claimable] (\<lambda>_. returnM [VU claimable]) (returnM ())
       vault_id vault schedule new_claimed amount))))))))))))))))))"

text \<open>
  Whether every installment being claimed is on time: the loop stops at the first that is not,
  and the sum it compares with can overflow.
\<close>

fun all_on_time :: "nat \<Rightarrow> VestingSchedule \<Rightarrow> nat \<Rightarrow> nat list \<Rightarrow> ('tok, bool) handler" where
  "all_on_time now schedule window [] = returnM True"
| "all_on_time now schedule window (i # is) = (bindM (add64 (unlock_time schedule i) window) (\<lambda>limit.
                                              if limit < now then returnM False else all_on_time now schedule window is))"

definition claim_with_bonus :: "'tok env \<Rightarrow> nat \<Rightarrow> ('tok, int) handler" where
  "claim_with_bonus e vault_id = (thenM (assert_not_paused) (
                                 bindM (load_vault vault_id) (\<lambda>vault.
                                 thenM (guard (v_status vault = Released) (Err AlreadyReleased)) (
                                 bindM (gets (\<lambda>w. p_VestingBonus (vest w) vault_id)) (\<lambda>c.
                                 bindM (ok_or c (Err BonusNotEnabled)) (\<lambda>bonus_cfg.
                                 (let now = ledger_timestamp e in
                                 bindM (load_open_schedule now vault_id) (\<lambda>schedule.
                                 thenM (enforce_cliff now schedule) (
                                 bindM (unlocked_at now (vs_start_time schedule) (vs_interval schedule) (vs_num_installments schedule)) (\<lambda>unlocked.
                                 (let claimable = unlocked - vs_claimed_installments schedule in
                                 thenM (guard (claimable \<noteq> 0) (Err NothingToClaimYet)) (
                                 bindM (divi (vs_total_amount schedule) (int (vs_num_installments schedule))) (\<lambda>per_installment.
                                 bindM (installment_amount schedule vault unlocked claimable per_installment) (\<lambda>base_amount.
                                 bindM (all_on_time now schedule (vb_on_time_window_seconds bonus_cfg)
       [vs_claimed_installments schedule + 1..<Suc unlocked]) (\<lambda>on_time.
                                 bindM ((if on_time then (bindM (muli base_amount (int (vb_bonus_bps bonus_cfg))) (\<lambda>scaled.
                               divi scaled 10000)) else returnM 0)) (\<lambda>bonus.
                                 bindM (addi base_amount bonus) (\<lambda>total_amount.
                                 if v_balance vault < total_amount then ((let fallback = min base_amount (v_balance vault) in
                                            thenM (guard (fallback \<le> v_balance vault) (Err InsufficientBalance)) (
                                            finish_claim e VESTING_BONUS_CLAIMED_TOPIC [VI 0] (\<lambda>_. returnM [VI 0]) (returnM ())
         vault_id vault schedule unlocked fallback))) else
       finish_claim e VESTING_BONUS_CLAIMED_TOPIC [VI bonus]
         (\<lambda>share. if on_time then (bindM (muli share (int (vb_bonus_bps bonus_cfg))) (\<lambda>scaled.
                                          bindM (divi scaled (10000 + int (vb_bonus_bps bonus_cfg))) (\<lambda>entry_bonus.
                                          returnM [VI entry_bonus]))) else returnM [VI 0])
         (returnM ()) vault_id vault schedule unlocked total_amount)))))))))))))))))"

subsection \<open>Staggered tranches\<close>

definition set_vesting_stagger ::
  "'tok env \<Rightarrow> nat \<Rightarrow> address \<Rightarrow> VestingStaggerEntry list \<Rightarrow> ('tok, unit) handler" where
  "set_vesting_stagger e vault_id caller entries = (thenM (assert_not_paused) (
                                                   thenM (require_auth e caller) (
                                                   bindM (load_vault vault_id) (\<lambda>vault.
                                                   thenM (guard (caller = v_owner vault) (Err NotOwner)) (
                                                   thenM (guard (v_status vault = Locked) (Err AlreadyReleased)) (
                                                   bindM (foldM (\<lambda>s acc. add32 acc (sg_bps s)) entries 0) (\<lambda>total_bps.
                                                   thenM (guard (total_bps = 10000) (Err InvalidBps)) (
                                                   thenM (set_vest (\<lambda>x. x\<lparr>p_VestingStagger := (p_VestingStagger x)(vault_id \<mapsto> entries)\<rparr>)) (
                                                   thenM (extend_ttl (K_VestingStagger vault_id) VAULT_TTL_THRESHOLD (vault_ttl_ledgers (v_check_in_interval vault))) (
                                                   publish VESTING_STAGGER_TOPIC [VU vault_id] [VU (length entries)]))))))))))"

definition get_vesting_stagger :: "nat \<Rightarrow> ('tok, VestingStaggerEntry list) handler" where
  "get_vesting_stagger vault_id = gets (\<lambda>w. log_of (p_VestingStagger (vest w) vault_id))"

text \<open>One turn of the loop over the tranches: balance, tranches, amount paid, tranche found.\<close>

definition stagger_step ::
  "'tok env \<Rightarrow> address \<Rightarrow> Vault \<Rightarrow> nat \<Rightarrow> int \<times> VestingStaggerEntry list \<times> int \<times> bool
     \<Rightarrow> ('tok, int \<times> VestingStaggerEntry list \<times> int \<times> bool) handler" where
  "stagger_step e caller vault i = (\<lambda>(balance, entries, total_amount, entry_found).
     let entry = entries ! i; now = ledger_timestamp e in
     if sg_beneficiary entry \<noteq> caller then returnM (balance, entries, total_amount, entry_found)
     else if sg_num_installments entry \<le> sg_claimed_installments entry then returnM (balance, entries, total_amount, True)
     else if now < sg_start_time entry then returnM (balance, entries, total_amount, True)
     else (bindM (unlocked_at now (sg_start_time entry) (sg_interval entry) (sg_num_installments entry)) (\<lambda>unlocked.
          (let claimable = unlocked - sg_claimed_installments entry in
          if claimable = 0 then returnM (balance, entries, total_amount, True)
       else (bindM (muli balance (int (sg_bps entry))) (\<lambda>scaled.
            bindM (divi scaled 10000) (\<lambda>part.
            bindM (divi part (int (sg_num_installments entry))) (\<lambda>per_installment.
            bindM ((if sg_num_installments entry \<le> unlocked then returnM part
           else muli per_installment (int claimable))) (\<lambda>amount.
            if 0 < amount then (thenM (transfer e (v_token_address vault) (current_contract_address e) caller amount) (
                            bindM (subi balance amount) (\<lambda>rest.
                            bindM (addi total_amount amount) (\<lambda>paid.
                            returnM (rest, entries[i := entry\<lparr>sg_claimed_installments := unlocked\<rparr>], paid, True))))) else returnM (balance, entries, total_amount, True))))))))))"

definition claim_staggered_vesting :: "'tok env \<Rightarrow> nat \<Rightarrow> address \<Rightarrow> ('tok, int) handler" where
  "claim_staggered_vesting e vault_id caller = (thenM (assert_not_paused) (
                                               thenM (require_auth e caller) (
                                               bindM (load_vault vault_id) (\<lambda>vault.
                                               thenM (guard (v_status vault = Released) (Err AlreadyReleased)) (
                                               bindM (gets (\<lambda>w. p_VestingStagger (vest w) vault_id)) (\<lambda>s.
                                               bindM (ok_or s (Err VestingStaggerNotFound)) (\<lambda>entries.
                                               bindM (foldM (stagger_step e caller vault) [0..<length entries] (v_balance vault, entries, 0, False)) (\<lambda>(balance, updated, total_amount, entry_found).
                                               thenM (guard entry_found (Err NotBeneficiary)) (
                                               thenM (guard (total_amount \<noteq> 0) (Err NothingToClaimYet)) (
                                               thenM (save_vault vault_id (vault\<lparr>v_balance := balance\<rparr>)) (
                                               thenM (set_vest (\<lambda>x. x\<lparr>p_VestingStagger := (p_VestingStagger x)(vault_id \<mapsto> updated)\<rparr>)) (
                                               thenM (publish CLAIM_VEST_TOPIC [VU vault_id] [VA caller, VI total_amount]) (
                                               returnM total_amount)))))))))))))"

subsection \<open>Milestones\<close>

definition load_milestones :: "nat \<Rightarrow> ('tok, MilestoneVestingSchedule) handler" where
  "load_milestones vault_id = (bindM (gets (\<lambda>w. p_MilestoneVestingSchedule (vest w) vault_id)) (\<lambda>s.
                              ok_or s (Err VestingNotFound)))"

definition save_milestones :: "nat \<Rightarrow> Vault \<Rightarrow> MilestoneVestingSchedule \<Rightarrow> ('tok, unit) handler" where
  "save_milestones vault_id vault schedule = (thenM (set_vest (\<lambda>x. x\<lparr>p_MilestoneVestingSchedule := (p_MilestoneVestingSchedule x)(vault_id \<mapsto> schedule)\<rparr>)) (
                                             thenM (extend_ttl (K_MilestoneVestingSchedule vault_id) VAULT_TTL_THRESHOLD
       (vault_ttl_ledgers (v_check_in_interval vault))) (
                                             extend_instance_ttl)))"

definition set_milestone_vesting ::
  "'tok env \<Rightarrow> nat \<Rightarrow> address \<Rightarrow> MilestoneEntry list \<Rightarrow> address \<Rightarrow> ('tok, unit) handler" where
  "set_milestone_vesting e vault_id caller milestones oracle = (thenM (assert_not_paused) (
                                                               thenM (require_auth e caller) (
                                                               bindM (load_vault vault_id) (\<lambda>vault.
                                                               thenM (guard (caller = v_owner vault) (Err NotOwner)) (
                                                               thenM (guard (v_status vault = Locked) (Err AlreadyReleased)) (
                                                               thenM (guard (v_balance vault \<noteq> 0) (Err EmptyVault)) (
                                                               bindM (gets (\<lambda>w. p_VestingSchedule (vest w) (vault_id, 0))) (\<lambda>s.
                                                               thenM (guard (s = None) (Err AlreadyReleased)) (
                                                               thenM (guard (milestones \<noteq> []) (Err InvalidBps)) (
                                                               bindM (foldM (\<lambda>m acc. add32 acc (me_bps m)) milestones 0) (\<lambda>total_bps.
                                                               thenM (guard (total_bps = 10000) (Err InvalidBps)) (
                                                               thenM (guard (\<forall>m \<in> set milestones. \<not> me_is_fulfilled m) (Err InvalidAmount)) (
                                                               thenM (save_milestones vault_id vault \<lparr>mv_total_amount = v_balance vault, mv_milestones = milestones,
       mv_claimed_amount = 0, mv_oracle = oracle, mv_paused = False\<rparr>) (
                                                               publish MILESTONE_VEST_TOPIC [VU vault_id] [VI (v_balance vault), VA oracle]))))))))))))))"

definition get_milestone_vesting_schedule :: "nat \<Rightarrow> ('tok, MilestoneVestingSchedule option) handler" where
  "get_milestone_vesting_schedule vault_id = gets (\<lambda>w. p_MilestoneVestingSchedule (vest w) vault_id)"

definition pause_milestone_vesting :: "'tok env \<Rightarrow> nat \<Rightarrow> address \<Rightarrow> ('tok, unit) handler" where
  "pause_milestone_vesting e vault_id caller = (thenM (assert_not_paused) (
                                               thenM (require_auth e caller) (
                                               bindM (load_vault vault_id) (\<lambda>vault.
                                               thenM (guard (caller = v_owner vault) (Err NotOwner)) (
                                               bindM (load_milestones vault_id) (\<lambda>schedule.
                                               thenM (guard (\<not> mv_paused schedule) (Err Paused)) (
                                               thenM (save_milestones vault_id vault (schedule\<lparr>mv_paused := True\<rparr>)) (
                                               publish MILESTONE_PAUSE_TOPIC [VU vault_id] [VFlag True]))))))))"

definition resume_milestone_vesting :: "'tok env \<Rightarrow> nat \<Rightarrow> address \<Rightarrow> ('tok, unit) handler" where
  "resume_milestone_vesting e vault_id caller = (thenM (assert_not_paused) (
                                                thenM (require_auth e caller) (
                                                bindM (load_vault vault_id) (\<lambda>vault.
                                                thenM (guard (caller = v_owner vault) (Err NotOwner)) (
                                                bindM (load_milestones vault_id) (\<lambda>schedule.
                                                thenM (guard (mv_paused schedule) (Err Paused)) (
                                                thenM (save_milestones vault_id vault (schedule\<lparr>mv_paused := False\<rparr>)) (
                                                publish MILESTONE_RESUME_TOPIC [VU vault_id] [VFlag False]))))))))"

text \<open>
  The three loops that rewrite open milestones by index share their guards: an index out of
  range and a fulfilled milestone are refused.
\<close>

definition update_open ::
  "(MilestoneEntry \<Rightarrow> MilestoneEntry) \<Rightarrow> nat \<Rightarrow> MilestoneEntry list \<Rightarrow> ('tok, MilestoneEntry list) handler" where
  "update_open f k milestones = (thenM (guard (k < length milestones) (Err InvalidAmount)) (
                                thenM (guard (\<not> me_is_fulfilled (milestones ! k)) (Err InvalidAmount)) (
                                returnM (milestones[k := f (milestones ! k)]))))"

definition adjust_milestone_targets ::
  "'tok env \<Rightarrow> nat \<Rightarrow> address \<Rightarrow> (nat \<times> int) list \<Rightarrow> ('tok, unit) handler" where
  "adjust_milestone_targets e vault_id caller adjustments = (thenM (assert_not_paused) (
                                                            thenM (require_auth e caller) (
                                                            bindM (load_vault vault_id) (\<lambda>vault.
                                                            thenM (guard (caller = v_owner vault) (Err NotOwner)) (
                                                            bindM (load_milestones vault_id) (\<lambda>schedule.
                                                            bindM (foldM (\<lambda>(k, new_target). update_open (\<lambda>m. m\<lparr>me_target_value := new_target\<rparr>) k)
       adjustments (mv_milestones schedule)) (\<lambda>milestones.
                                                            thenM (save_milestones vault_id vault (schedule\<lparr>mv_milestones := milestones\<rparr>)) (
                                                            publish MILESTONE_ADJUST_TOPIC [VU vault_id] []))))))))"

definition emergency_fulfill_milestones ::
  "'tok env \<Rightarrow> nat \<Rightarrow> address \<Rightarrow> nat list \<Rightarrow> ('tok, unit) handler" where
  "emergency_fulfill_milestones e vault_id caller milestone_indices = (thenM (assert_not_paused) (
                                                                      thenM (require_auth e caller) (
                                                                      bindM (load_vault vault_id) (\<lambda>vault.
                                                                      thenM (guard (caller = v_owner vault) (Err NotOwner)) (
                                                                      bindM (load_milestones vault_id) (\<lambda>schedule.
                                                                      bindM (foldM (update_open (\<lambda>m. m\<lparr>me_current_value := max (me_current_value m) (me_target_value m),
         me_is_fulfilled := True\<rparr>))
       milestone_indices (mv_milestones schedule)) (\<lambda>milestones.
                                                                      thenM (guard (milestone_indices \<noteq> []) (Err InvalidAmount)) (
                                                                      thenM (save_milestones vault_id vault (schedule\<lparr>mv_milestones := milestones\<rparr>)) (
                                                                      publish MILESTONE_EMERGENCY_TOPIC [VU vault_id] [VFlag True])))))))))"

definition reported :: "int \<Rightarrow> MilestoneEntry \<Rightarrow> MilestoneEntry" where
  "reported value m =
     (let was_fulfilled = me_target_value m \<le> me_current_value m;
          new_value = max value 0;
          updated = m\<lparr>me_current_value := new_value\<rparr>
      in if me_target_value m \<le> new_value \<and> \<not> was_fulfilled then updated\<lparr>me_is_fulfilled := True\<rparr>
         else if new_value < me_target_value m then updated\<lparr>me_is_fulfilled := False\<rparr>
         else updated)"

definition report_milestone_progress ::
  "'tok env \<Rightarrow> nat \<Rightarrow> nat list \<Rightarrow> int list \<Rightarrow> ('tok, unit) handler" where
  "report_milestone_progress e vault_id milestone_indices current_values = (thenM (assert_not_paused) (
                                                                           thenM (guard (length milestone_indices = length current_values) (Err InvalidAmount)) (
                                                                           bindM (load_milestones vault_id) (\<lambda>schedule.
                                                                           thenM (guard (\<not> mv_paused schedule) (Err Paused)) (
                                                                           thenM (require_auth e (mv_oracle schedule)) (
                                                                           bindM (foldM (\<lambda>(k, value). update_open (reported value) k) (zip milestone_indices current_values)
       (mv_milestones schedule)) (\<lambda>milestones.
                                                                           whenM (milestone_indices \<noteq> []) (bindM (load_vault vault_id) (\<lambda>vault.
                                           thenM (save_milestones vault_id vault (schedule\<lparr>mv_milestones := milestones\<rparr>)) (
                                           forM milestone_indices (\<lambda>k. let m = milestones ! k in
         publish MILESTONE_PROGRESS_TOPIC [VU vault_id]
           [VU k, VI (me_current_value m), VI (me_target_value m), VFlag (me_is_fulfilled m)])))))))))))"

text \<open>One turn of the loop that adds up the claimable shares; the last milestone takes the rest.\<close>

definition open_claim :: "MilestoneEntry \<Rightarrow> bool" where
  "open_claim m \<longleftrightarrow> me_is_fulfilled m \<and> \<not> me_claimed m"

definition milestone_step ::
  "MilestoneVestingSchedule \<Rightarrow> nat \<Rightarrow> nat \<times> MilestoneEntry \<Rightarrow> int \<Rightarrow> ('tok, int) handler" where
  "milestone_step schedule last_idx = (\<lambda>(i, milestone) total_claimable.
     if open_claim milestone then (bindM ((if i = last_idx then (bindM (subi (mv_total_amount schedule) total_claimable) (\<lambda>rest.
                                      subi rest (mv_claimed_amount schedule))) else (bindM (muli (mv_total_amount schedule) (int (me_bps milestone))) (\<lambda>scaled.
                divi scaled 10000)))) (\<lambda>share.
                                  addi total_claimable share)) else returnM total_claimable)"

definition claim_milestone_installments :: "'tok env \<Rightarrow> nat \<Rightarrow> ('tok, int) handler" where
  "claim_milestone_installments e vault_id = (thenM (assert_not_paused) (
                                             bindM (load_vault vault_id) (\<lambda>vault.
                                             thenM (guard (v_status vault = Released) (Err AlreadyReleased)) (
                                             bindM (load_milestones vault_id) (\<lambda>schedule.
                                             thenM (guard (\<not> mv_paused schedule) (Err Paused)) (
                                             bindM (foldM (milestone_step schedule (length (mv_milestones schedule) - 1))
       (enumerate 0 (mv_milestones schedule)) 0) (\<lambda>total_claimable.
                                             thenM (guard (\<exists>m \<in> set (mv_milestones schedule). open_claim m) (Err NothingToClaimYet)) (
                                             thenM (guard (total_claimable \<le> v_balance vault) (Err InsufficientBalance)) (
                                             bindM (addi (mv_claimed_amount schedule) total_claimable) (\<lambda>new_claimed.
                                             thenM (pay_claim e MILESTONE_CLAIM_TOPIC [VI new_claimed] (\<lambda>_. returnM [VI new_claimed]) vault_id vault total_claimable) (
                                             bindM (subi (v_balance vault) total_claimable) (\<lambda>balance.
                                             thenM (save_vault vault_id (vault\<lparr>v_balance := balance\<rparr>)) (
                                             thenM (save_milestones vault_id vault (schedule\<lparr>mv_milestones :=
         map (\<lambda>m. if open_claim m then m\<lparr>me_claimed := True\<rparr> else m) (mv_milestones schedule),
       mv_claimed_amount := new_claimed\<rparr>)) (
                                             returnM total_claimable))))))))))))))"

subsection \<open>Schedules per beneficiary\<close>

definition set_beneficiary_vesting ::
  "'tok env \<Rightarrow> nat \<Rightarrow> address \<Rightarrow> address \<Rightarrow> nat \<Rightarrow> nat \<Rightarrow> nat \<Rightarrow> nat \<Rightarrow> ('tok, unit) handler" where
  "set_beneficiary_vesting e vault_id caller beneficiary start_time interval num_installments cliff_period = (thenM (require_auth e caller) (
                                                                                                             bindM (load_vault vault_id) (\<lambda>vault.
                                                                                                             thenM (guard (caller = v_owner vault) (Err NotOwner)) (
                                                                                                             thenM (guard (\<not> (interval = 0 \<or> num_installments = 0)) (Err InvalidAmount)) (
                                                                                                             thenM (set_vest (\<lambda>x. x\<lparr>p_BeneficiaryVestingSchedule := (p_BeneficiaryVestingSchedule x)((vault_id, beneficiary) \<mapsto>
       \<lparr>bv_beneficiary = beneficiary, bv_vault_id = vault_id, bv_start_time = start_time, bv_interval = interval,
        bv_num_installments = num_installments, bv_claimed_installments = 0, bv_total_amount = v_balance vault,
        bv_cliff_period = cliff_period\<rparr>)\<rparr>)) (
                                                                                                             thenM (extend_ttl (K_BeneficiaryVestingSchedule vault_id beneficiary) VAULT_TTL_THRESHOLD VAULT_TTL_LEDGERS) (
                                                                                                             publish SET_BENEFICIARY_VESTING_TOPIC [VU vault_id] [VA beneficiary, VU start_time, VU interval, VU num_installments])))))))"

definition get_beneficiary_vesting :: "nat \<Rightarrow> address \<Rightarrow> ('tok, BeneficiaryVestingSchedule option) handler" where
  "get_beneficiary_vesting vault_id beneficiary = gets (\<lambda>w. p_BeneficiaryVestingSchedule (vest w) (vault_id, beneficiary))"

definition claim_beneficiary_vesting :: "'tok env \<Rightarrow> nat \<Rightarrow> address \<Rightarrow> ('tok, int) handler" where
  "claim_beneficiary_vesting e vault_id beneficiary = (bindM (load_vault vault_id) (\<lambda>vault.
                                                      thenM (guard (v_status vault = Released) (Err AlreadyReleased)) (
                                                      bindM (gets (\<lambda>w. p_BeneficiaryVestingSchedule (vest w) (vault_id, beneficiary))) (\<lambda>s.
                                                      bindM (ok_or s (Err VestingNotFound)) (\<lambda>schedule.
                                                      (let now = ledger_timestamp e in
                                                      bindM (add64 (bv_start_time schedule) (bv_cliff_period schedule)) (\<lambda>cliff.
                                                      thenM (guard (cliff \<le> now) (Err CliffNotReached)) (
                                                      bindM (unlocked_at now (bv_start_time schedule) (bv_interval schedule) (bv_num_installments schedule)) (\<lambda>available.
                                                      thenM (guard (bv_claimed_installments schedule < available) (Err NothingToClaimYet)) (
                                                      bindM (divi (bv_total_amount schedule) (int (bv_num_installments schedule))) (\<lambda>per_installment.
                                                      bindM (muli per_installment (int (available - bv_claimed_installments schedule))) (\<lambda>part.
                                                      (let amount = (if available = bv_num_installments schedule then v_balance vault else part) in
                                                      thenM (guard (\<not> (amount \<le> 0 \<or> v_balance vault < amount)) (Err InvalidAmount)) (
                                                      bindM (subi (v_balance vault) amount) (\<lambda>balance.
                                                      thenM (save_vault vault_id (vault\<lparr>v_balance := balance\<rparr>)) (
                                                      thenM (set_vest (\<lambda>x. x\<lparr>p_BeneficiaryVestingSchedule := (p_BeneficiaryVestingSchedule x)((vault_id, beneficiary) \<mapsto>
       schedule\<lparr>bv_claimed_installments := available\<rparr>)\<rparr>)) (
                                                      thenM (extend_ttl (K_BeneficiaryVestingSchedule vault_id beneficiary) VAULT_TTL_THRESHOLD VAULT_TTL_LEDGERS) (
                                                      thenM (transfer e (v_token_address vault) (current_contract_address e) beneficiary amount) (
                                                      thenM (publish CLAIM_BENEFICIARY_VESTING_TOPIC [VU vault_id] [VA beneficiary, VI amount]) (
                                                      returnM amount))))))))))))))))))))"

end
