(* ===== verification/Vesting_Effects.thy ===== *)
theory Vesting_Effects
  imports Vault_Vesting
begin

section \<open>What vesting does to the accounts\<close>

text \<open>
  The payments of a vesting claim as a list computed from the vault and the amount, the effect of
  every claim on the vault, the schedule and the tokens, and that each vesting call keeps the
  contract solvent and its plans in order. \<open>cancel_vesting_schedule\<close> is the exception.
\<close>

subsection \<open>Paying a claim\<close>

definition claim_payments :: "Vault \<Rightarrow> int \<Rightarrow> (address \<times> int) list" where
  "claim_payments v n =
     (if v_beneficiaries v = [] then [(v_beneficiary v, n)] else payouts n 10000 0 (v_beneficiaries v))"

lemma claim_payments_sum:
  "0 \<le> n \<Longrightarrow> bps_total (v_beneficiaries v) \<le> 10000 \<Longrightarrow> sum_list (map snd (claim_payments v n)) = n"
  by (simp add: claim_payments_def payouts_sum)

text \<open>The extra event data of a share may trap, but writes nothing.\<close>

definition readonly :: "('tok, 'a) handler \<Rightarrow> bool" where
  "readonly m \<longleftrightarrow> (\<forall>Q w. (\<forall>x. Q x w) \<longrightarrow> wp m Q w)"

lemma readonlyD: "readonly m \<Longrightarrow> (\<And>x. Q x w) \<Longrightarrow> wp m Q w"
  by (simp add: readonly_def)

lemma share_loop:
  assumes "\<And>s. readonly (extra s)"
  shows "payout_loop (share_step e topic extra i token n) e token n 10000"
proof
  fix k l :: nat and b :: BeneficiaryEntry and d s and Q :: "int \<Rightarrow> 'a world \<Rightarrow> bool" and w :: "'a world"
  assume kl: "k \<noteq> l" and s: "s = tdiv (n * int (be_bps b)) (int 10000)"
    and Q: "\<And>tk es. run_payments e token (positive (be_address b) s) (tokens w) = Some tk \<Longrightarrow>
       Q (d + s) (w\<lparr>tokens := tk, events := es\<rparr>)"
  from kl Q Q [of "tokens w"] show "wp (share_step e topic extra i token n l (k, b) d) Q w"
    unfolding share_step_def s by (auto simp: wp_simps positive_def intro!: readonlyD [OF assms])
next
  fix l :: nat and b :: BeneficiaryEntry and d and Q :: "int \<Rightarrow> 'a world \<Rightarrow> bool" and w :: "'a world"
  assume Q: "\<And>tk es x. run_payments e token (positive (be_address b) (n - d)) (tokens w) = Some tk \<Longrightarrow>
       Q x (w\<lparr>tokens := tk, events := es\<rparr>)"
  from Q Q [of "tokens w"] show "wp (share_step e topic extra i token n l (l, b) d) Q w"
    unfolding share_step_def by (auto simp: wp_simps positive_def intro!: readonlyD [OF assms])
qed

lemma pay_claim_effect:
  assumes "\<And>s. readonly (extra s)"
  shows "wp (pay_claim e topic sole extra i v n)
    (\<lambda>_. payments_made e (v_token_address v) (claim_payments v n) w) w"
proof (cases "v_beneficiaries v = []")
  case True
  then show ?thesis
    unfolding pay_claim_def by (auto simp: wp_simps claim_payments_def payments_made_def)
next
  case False
  show ?thesis
  proof -
    let ?bs = "v_beneficiaries v"
    have "wp (foldM (share_step e topic extra i (v_token_address v) n (length ?bs - 1)) (enumerate 0 ?bs) 0)
        (\<lambda>_. payments_made e (v_token_address v) (payouts n 10000 0 ?bs) w) w"
      using payout_loop.loop [OF share_loop [of extra, OF assms] False, where d = 0 and k = 0 and w = w] by simp
    then show ?thesis
      unfolding pay_claim_def if_not_P [OF False] wp_bindM
      by (rule wp_mono) (use False in \<open>simp add: wp_simps claim_payments_def\<close>)
  qed
qed

text \<open>The form in which the claims use it.\<close>

lemma wp_pay_claim:
  assumes "\<And>s. readonly (extra s)"
    "\<And>tk es. run_payments e (v_token_address v) (claim_payments v n) (tokens w) = Some tk \<Longrightarrow>
       Q () (w\<lparr>tokens := tk, events := es\<rparr>)"
  shows "wp (pay_claim e topic sole extra i v n) Q w"
  by (rule wp_mono [OF pay_claim_effect [OF assms(1)]]) (auto simp: payments_made_def intro: assms(2))

lemma readonly_const [simp]: "readonly (returnM x)"
  by (simp add: readonly_def wp_simps)

subsection \<open>Amounts\<close>

lemma wp_unlocked_at:
  assumes "\<And>n. n \<le> num \<Longrightarrow> Q n w"
  shows "wp (unlocked_at now start interval num) Q w"
  using assms by (simp add: unlocked_at_def wp_simps)

lemma wp_load_open_schedule:
  assumes "\<And>s. p_VestingSchedule (vest w) (i, 0) = Some s \<Longrightarrow> vs_claimed_installments s < vs_num_installments s \<Longrightarrow>
    vs_start_time s \<le> now \<Longrightarrow> Q s w"
  shows "wp (load_open_schedule now i) Q w"
  using assms by (simp add: load_open_schedule_def wp_simps)

lemma wp_enforce_cliff:
  assumes "0 < vs_cliff_period s \<longrightarrow> vs_start_time s + vs_cliff_period s \<le> now \<Longrightarrow> Q () w"
  shows "wp (enforce_cliff now s) Q w"
  using assms by (simp add: enforce_cliff_def wp_simps)

lemma wp_installment_amount:
  assumes "\<And>x. 0 \<le> x \<Longrightarrow> Q x w"
    "0 \<le> v_balance v" "0 \<le> per"
  shows "wp (installment_amount s v u c per) Q w"
  using assms(2,3) assms(1) [of "if vs_num_installments s \<le> u then v_balance v else per * int c"]
  by (cases "vs_num_installments s \<le> u") (simp_all add: installment_amount_def wp_simps)

lemma wp_take_rollover:
  assumes "\<And>x r. 0 \<le> x \<Longrightarrow> Q x (w\<lparr>vest := (vest w)\<lparr>p_VestingRollover := r\<rparr>\<rparr>)" "0 \<le> n"
  shows "wp (take_rollover i n) Q w"
  using assms(1) [of n "p_VestingRollover (vest w)"] assms
  by (auto simp: take_rollover_def wp_simps split: option.splits)

lemma wp_apply_penalty:
  assumes "\<And>x. 0 \<le> x \<Longrightarrow> Q x w" "0 \<le> n" "0 \<le> per" "0 \<le> v_balance v" "plans_ok (plans w)"
  shows "wp (apply_penalty now i v s u c per n) Q w"
proof -
  have "tdiv (per * int k * int (vp_penalty_bps p)) 10000 \<le> per * int k"
    if "p_VestingPenalty (vest w) (i, 0) = Some p" for p k
    using plans_okD(3) [OF assms(5) that] assms(3) by (intro tdiv_share_le) simp_all
  then have "0 \<le> per * int k' + per * int k - tdiv (per * int k * int (vp_penalty_bps p)) 10000"
    if "p_VestingPenalty (vest w) (i, 0) = Some p" for p k k'
    using that assms(3) by (smt (verit) mult_nonneg_nonneg of_nat_0_le_iff)
  then show ?thesis
    using assms(1,2,4) by (auto simp: apply_penalty_def wp_simps Let_def)
qed

subsection \<open>Claims of the time schedule\<close>

text \<open>
  \<open>vest_paid\<close>: a released vault pays \<open>amt\<close> of its balance to its heirs and the first schedule
  counts \<open>u\<close> installments as claimed, at most all.
\<close>

definition vest_paid ::
  "'tok env \<Rightarrow> nat \<Rightarrow> Vault \<Rightarrow> VestingSchedule \<Rightarrow> nat \<Rightarrow> int \<Rightarrow> 'tok world \<Rightarrow> 'tok world \<Rightarrow> bool" where
  "vest_paid e i v s u amt w t \<longleftrightarrow> p_Vault w i = Some v \<and> v_status v = Released \<and>
     p_VestingSchedule (vest w) (i, 0) = Some s \<and> vs_claimed_installments s < vs_num_installments s \<and>
     u \<le> vs_num_installments s \<and> 0 \<le> amt \<and> amt \<le> v_balance v \<and>
     p_Vault t = (p_Vault w)(i \<mapsto> v\<lparr>v_balance := v_balance v - amt\<rparr>) \<and> count_of (idx t) = count_of (idx w) \<and>
     run_payments e (v_token_address v) (claim_payments v amt) (tokens w) = Some (tokens t) \<and>
     plans t = (rotations w, (p_VestingSchedule (vest w))((i, 0) \<mapsto> s\<lparr>vs_claimed_installments := u\<rparr>),
       p_VestingPenalty (vest w), p_MilestoneVestingSchedule (vest w), p_VestingStagger (vest w))"

lemma accounts_nonneg: "solvent bal self w \<Longrightarrow> p_Vault w i = Some v \<Longrightarrow> 0 \<le> v_balance v"
  unfolding solvent_def by (rule accounts_okD(3))

lemma schedule_nonneg:
  assumes "splits_ok w" "p_VestingSchedule (vest w) k = Some s"
  shows "0 \<le> tdiv (vs_total_amount s) (int (vs_num_installments s))"
proof -
  have "0 \<le> vs_total_amount s" using assms(1) plans_okD(2) [OF _ assms(2)] by (simp add: splits_ok_def)
  then show ?thesis
    by (cases "vs_num_installments s = 0") (simp_all add: tdiv_def [of _ 0] tdiv_nonneg_ge)
qed

lemma plans_vest_upd [simp]:
  "plans (w\<lparr>vest := (vest w')\<lparr>p_VestingRollover := r\<rparr>\<rparr>) = plans (w\<lparr>vest := vest w'\<rparr>)"
  "plans (w\<lparr>vest := vest w\<rparr>) = plans w"
  by (simp_all add: plan_defs)

text \<open>The state in which a claim is finished: nothing but events and the rollover has changed.\<close>

definition unpaid :: "'tok world \<Rightarrow> 'tok world \<Rightarrow> bool" where
  "unpaid w t \<longleftrightarrow> p_Vault t = p_Vault w \<and> count_of (idx t) = count_of (idx w) \<and> tokens t = tokens w \<and> plans t = plans w"

lemma unpaid_upd [simp]:
  "unpaid w w" "unpaid w (w\<lparr>events := es\<rparr>)" "unpaid w (w\<lparr>vest := (vest w)\<lparr>p_VestingRollover := r\<rparr>\<rparr>)"
  "unpaid w (w\<lparr>events := es, vest := (vest w)\<lparr>p_VestingRollover := r\<rparr>\<rparr>)"
  by (simp_all add: unpaid_def plan_defs)

definition announces :: "('tok, unit) handler \<Rightarrow> bool" where
  "announces m \<longleftrightarrow> (\<forall>Q t. (\<forall>es. Q () (t\<lparr>events := es\<rparr>)) \<longrightarrow> wp m Q t)"

lemma announcesD: "announces m \<Longrightarrow> (\<And>es. Q () (t\<lparr>events := es\<rparr>)) \<Longrightarrow> wp m Q t"
  by (simp add: announces_def)

lemma all_events: "(\<forall>es. Q () (t\<lparr>events := es\<rparr>)) \<Longrightarrow> Q () t"
  by (drule spec [of _ "events t"]) simp

lemma announces_upd [simp]:
  "announces (returnM ())" "announces (publish x y z)" "announces m \<Longrightarrow> announces (whenM b m)"
  "(\<And>n. announces (f n)) \<Longrightarrow> announces (bindM (subi p q) f)"
  unfolding announces_def wp_returnM wp_whenM by (intro allI impI; simp add: all_events wp_simps)+

lemma wp_finish_claim:
  assumes "unpaid w w'" "p_Vault w i = Some v" "v_status v = Released" "p_VestingSchedule (vest w) (i, 0) = Some s"
    "vs_claimed_installments s < vs_num_installments s" "u \<le> vs_num_installments s"
    "0 \<le> n" "n \<le> v_balance v" "\<And>x. readonly (extra x)"
    "announces notify"
  shows "wp (finish_claim e topic sole extra notify i v s u n) (\<lambda>amt t. \<exists>v s u. vest_paid e i v s u amt w t) w'"
proof -
  have "wp (finish_claim e topic sole extra notify i v s u n) (\<lambda>amt t. amt = n \<and> vest_paid e i v s u n w t) w'"
    unfolding finish_claim_def
    using assms(1-8)
    by (auto simp: wp_simps save_schedule_def vest_paid_def unpaid_def plan_defs
        simp del: fun_upd_apply intro!: wp_pay_claim [OF assms(9)] announcesD [OF assms(10)])
  then show ?thesis by (rule wp_mono) blast
qed

lemma claim_vested_effect:
  assumes "splits_ok w" "solvent bal self w"
  shows "wp (claim_vested_installment e i) (\<lambda>amt t. \<exists>v s u. vest_paid e i v s u amt w t) w"
proof -
  have plans: "plans_ok (plans w)" using assms(1) by (simp add: splits_ok_def)
  show ?thesis
    unfolding claim_vested_installment_def
    by (auto simp: wp_simps Let_def plans accounts_nonneg [OF assms(2)] schedule_nonneg [OF assms(1)]
        intro!: wp_load_open_schedule wp_enforce_cliff wp_unlocked_at wp_installment_amount wp_take_rollover
          wp_apply_penalty wp_finish_claim)
qed

lemma capped_claim: "a < n \<Longrightarrow> n \<le> m \<Longrightarrow> a + min (n - a) c \<le> (m :: nat)"
  by linarith

lemma claim_catchup_effect:
  assumes "splits_ok w" "solvent bal self w"
  shows "wp (claim_catchup_vesting e i) (\<lambda>amt t. \<exists>v s u. vest_paid e i v s u amt w t) w"
  unfolding claim_catchup_vesting_def
  by (auto simp: wp_simps Let_def capped_claim accounts_nonneg [OF assms(2)] schedule_nonneg [OF assms(1)]
      intro!: wp_load_open_schedule wp_enforce_cliff wp_unlocked_at wp_installment_amount wp_finish_claim)

lemma wp_all_on_time: "(\<And>b. Q b w) \<Longrightarrow> wp (all_on_time now s k is) Q w"
  by (induction now s k "is" rule: all_on_time.induct) (simp_all add: wp_simps)

lemma claim_bonus_effect:
  assumes "splits_ok w" "solvent bal self w"
  shows "wp (claim_with_bonus e i) (\<lambda>amt t. \<exists>v s u. vest_paid e i v s u amt w t) w"
proof -
  have data: "readonly (bindM (muli x y) (\<lambda>a. bindM (divi a z) (\<lambda>b. returnM [VI b])))" for x y z
    by (simp add: readonly_def wp_simps)
  have bonus: "0 \<le> tdiv (n * int k) 10000" if "0 \<le> n" for n k
    using that by (intro tdiv_nonneg_ge) simp_all
  show ?thesis
    unfolding claim_with_bonus_def
    by (auto simp: wp_simps Let_def accounts_nonneg [OF assms(2)] schedule_nonneg [OF assms(1)] data bonus
        intro!: wp_load_open_schedule wp_enforce_cliff wp_unlocked_at wp_installment_amount wp_all_on_time
          wp_finish_claim)
qed

subsection \<open>Two kinds of effect\<close>

text \<open>
  \<open>replanned\<close>: no money moves and the plans stay in order. \<open>drawn\<close>: payments \<open>ps\<close> of at most
  \<open>amt\<close> leave the vault's balance, and the plans stay in order.
\<close>

definition replanned :: "'tok world \<Rightarrow> 'tok world \<Rightarrow> bool" where
  "replanned w t \<longleftrightarrow> p_Vault t = p_Vault w \<and> count_of (idx t) = count_of (idx w) \<and> tokens t = tokens w \<and>
     plans_ok (plans t)"

definition drawn :: "'tok env \<Rightarrow> nat \<Rightarrow> Vault \<Rightarrow> (address \<times> int) list \<Rightarrow> int \<Rightarrow> 'tok world \<Rightarrow> 'tok world \<Rightarrow> bool" where
  "drawn e i v ps amt w t \<longleftrightarrow> p_Vault w i = Some v \<and> sum_list (map snd ps) \<le> amt \<and> amt \<le> v_balance v \<and>
     p_Vault t = (p_Vault w)(i \<mapsto> v\<lparr>v_balance := v_balance v - amt\<rparr>) \<and> count_of (idx t) = count_of (idx w) \<and>
     run_payments e (v_token_address v) ps (tokens w) = Some (tokens t) \<and> plans_ok (plans t)"

lemma replanned_solvent: "solvent bal self w \<Longrightarrow> replanned w t \<Longrightarrow> solvent bal self t"
  by (simp add: solvent_def replanned_def)

lemma replanned_splits: "splits_ok w \<Longrightarrow> replanned w t \<Longrightarrow> splits_ok t"
  by (simp add: splits_ok_def replanned_def)

lemma drawn_solvent:
  assumes "solvent bal self w" "host_ok e self bal" "drawn e i v ps amt w t"
  shows "solvent bal self t"
  using assms accounts_payments [where vs = "p_Vault w" and v = v and i = i and e = e and ps = ps and amt = amt
      and n = "count_of (idx w)" and tk = "tokens w" and v' = "v\<lparr>v_balance := v_balance v - amt\<rparr>"]
  by (simp add: solvent_def drawn_def)

lemma drawn_splits: "splits_ok w \<Longrightarrow> drawn e i v ps amt w t \<Longrightarrow> splits_ok t"
  using splits_okD(1) [of w i v] by (auto simp: splits_ok_def drawn_def sane_def)

lemma paid_drawn:
  "paid_out e i v to amt w t \<Longrightarrow> amt \<le> v_balance v \<Longrightarrow> plans_ok (plans w) \<Longrightarrow> drawn e i v [(to, amt)] amt w t"
  by (simp add: paid_out_def drawn_def)

lemma plans_ok_upd:
  assumes "plans_ok (rs, vs, pen, ms, sg)"
  shows "0 \<le> vs_total_amount s \<Longrightarrow> plans_ok (rs, vs(k \<mapsto> s), pen, ms, sg)"
    "vp_penalty_bps c \<le> 10000 \<Longrightarrow> plans_ok (rs, vs, pen(k \<mapsto> c), ms, sg)"
    "milestones_ok m \<Longrightarrow> plans_ok (rs, vs, pen, ms(i \<mapsto> m), sg)"
    "plans_ok (rs, vs(k := None), pen, ms, sg)"
    "\<forall>x \<in> set es. sg_bps x \<le> 10000 \<Longrightarrow> plans_ok (rs, vs, pen, ms, sg(i \<mapsto> es))"
  using assms unfolding plans_ok_def by (simp_all split: if_splits)

lemma plans_eq:
  "plans w = (rotations w, p_VestingSchedule (vest w), p_VestingPenalty (vest w),
     p_MilestoneVestingSchedule (vest w), p_VestingStagger (vest w))"
  by (simp add: plan_defs)

lemma vest_paid_drawn:
  assumes "splits_ok w" "vest_paid e i v s u amt w t"
  shows "drawn e i v (claim_payments v amt) amt w t"
proof -
  have "sane v" using splits_okD(1) [OF assms(1), of i v] assms(2) by (simp add: vest_paid_def)
  then have "sum_list (map snd (claim_payments v amt)) = amt"
    using assms(2) by (intro claim_payments_sum) (simp_all add: sane_def vest_paid_def)
  moreover have ok: "plans_ok (plans w)" using assms(1) by (simp add: splits_ok_def)
  then have "0 \<le> vs_total_amount s" using plans_okD(2) assms(2) by (auto simp: vest_paid_def)
  then have "plans_ok (plans t)"
    using assms(2) plans_ok_upd(1) [OF ok [unfolded plans_eq]] by (simp add: vest_paid_def)
  ultimately show ?thesis using assms(2) by (simp add: drawn_def vest_paid_def)
qed

lemmas claim_effects = claim_vested_effect claim_catchup_effect claim_bonus_effect

subsection \<open>Settings\<close>

lemma keeps_vesting_settings [frame]:
  "keeps accts (set_vesting_rollover e i c b)" "keeps accts (set_vesting_forfeiture e i c a)"
  "keeps accts (set_vesting_acceleration e i c a)" "keeps accts (accelerate_vesting e i c)"
  "keeps accts (set_vesting_catchup e i c b n)" "keeps accts (set_vesting_bonus e i c n m)"
  "keeps accts (set_beneficiary_vesting e i c a p q r s)"
  unfolding set_vesting_rollover_def set_vesting_forfeiture_def set_vesting_acceleration_def
    accelerate_vesting_def set_vesting_catchup_def set_vesting_bonus_def 
    set_beneficiary_vesting_def
  by (intro frame keeps_set_vest; simp)+

lemma wp_add_scheduled:
  assumes "\<And>x. Q x w"
  shows "wp (foldM (add_scheduled i) ks n) Q w"
  using assms
  by (induction ks arbitrary: n) (auto simp: wp_simps add_scheduled_def)

text \<open>The plans of a ledger in order, spelt out for the rules that update them.\<close>

lemma plans_in_order:
  "splits_ok w \<Longrightarrow> plans_ok (p_BeneficiaryRotationSchedule (rel w), p_VestingSchedule (vest w),
     p_VestingPenalty (vest w), p_MilestoneVestingSchedule (vest w), p_VestingStagger (vest w))"
  by (simp add: splits_ok_def plan_defs)

lemma replannedI:
  "p_Vault t = p_Vault w \<Longrightarrow> idx t = idx w \<Longrightarrow> tokens t = tokens w \<Longrightarrow>
     plans_ok (p_BeneficiaryRotationSchedule (rel t), p_VestingSchedule (vest t),
       p_VestingPenalty (vest t), p_MilestoneVestingSchedule (vest t), p_VestingStagger (vest t)) \<Longrightarrow> replanned w t"
  by (simp add: replanned_def plan_defs)

lemma set_schedule_effect:
  assumes "splits_ok w"
  shows "wp (set_vesting_schedule e i c p q r x y) (\<lambda>_. replanned w) w"
  unfolding set_vesting_schedule_def
  by (auto simp: wp_simps schedule_count_def save_schedule_def Let_def
      intro!: wp_add_scheduled replannedI plans_ok_upd(1) [OF plans_in_order [OF assms]])

lemma set_penalty_effect:
  assumes "splits_ok w"
  shows "wp (set_vesting_penalty e i c p q) (\<lambda>_. replanned w) w"
  unfolding set_vesting_penalty_def
  by (auto simp: wp_simps intro!: replannedI plans_ok_upd(2) [OF plans_in_order [OF assms]])

subsection \<open>Claims that can be reversed\<close>

lemma schedule_total_nonneg:
  assumes "splits_ok w" "p_VestingSchedule (vest w) k = Some s"
  shows "0 \<le> vs_total_amount s"
  using assms(1) plans_okD(2) [OF _ assms(2)] by (simp add: splits_ok_def)

lemma initiate_claim_effect:
  assumes "splits_ok w" "solvent bal self w"
  shows "wp (initiate_vesting_claim e i r) (\<lambda>_. replanned w) w"
  unfolding initiate_vesting_claim_def
  by (auto simp: wp_simps Let_def save_schedule_def accounts_nonneg [OF assms(2)] schedule_nonneg [OF assms(1)]
      schedule_total_nonneg [OF assms(1)]
      intro!: wp_load_open_schedule wp_unlocked_at wp_installment_amount replannedI
        plans_ok_upd(1) [OF plans_in_order [OF assms(1)]])

lemma reverse_claim_effect:
  assumes "splits_ok w"
  shows "wp (reverse_vesting_claim e i c) (\<lambda>_. replanned w) w"
  unfolding reverse_vesting_claim_def
  by (auto simp: wp_simps save_schedule_def schedule_total_nonneg [OF assms] split: option.splits
      intro!: replannedI plans_ok_upd(1) [OF plans_in_order [OF assms]] plans_in_order [OF assms])

lemma drawnI:
  "p_Vault w i = Some v \<Longrightarrow> run_payments e (v_token_address v) ps (tokens w) = Some (tokens t) \<Longrightarrow>
     p_Vault t = (p_Vault w)(i \<mapsto> v\<lparr>v_balance := v_balance v - amt\<rparr>) \<Longrightarrow> idx t = idx w \<Longrightarrow>
     sum_list (map snd ps) \<le> amt \<Longrightarrow> amt \<le> v_balance v \<Longrightarrow>
     plans_ok (p_BeneficiaryRotationSchedule (rel t), p_VestingSchedule (vest t),
       p_VestingPenalty (vest t), p_MilestoneVestingSchedule (vest t), p_VestingStagger (vest t)) \<Longrightarrow> drawn e i v ps amt w t"
  by (simp add: drawn_def plan_defs)

lemma finalize_claim_effect:
  assumes "splits_ok w"
  shows "wp (finalize_vesting_claim e i) (\<lambda>amt t. \<exists>v p. p_VestingPendingClaim (vest w) (i, 0) = Some p \<and>
     amt = vc_amount p \<and> vc_reversal_deadline p < ledger_timestamp e \<and>
     drawn e i v [(vc_beneficiary p, vc_amount p)] (vc_amount p) w t) w"
  unfolding finalize_vesting_claim_def
  by (auto simp: wp_simps simp del: fun_upd_apply intro!: drawnI plans_in_order [OF assms])

lemma claim_beneficiary_effect:
  assumes "splits_ok w"
  shows "wp (claim_beneficiary_vesting e i a) (\<lambda>amt t. \<exists>v. 0 < amt \<and> v_status v = Released \<and> drawn e i v [(a, amt)] amt w t) w"
  unfolding claim_beneficiary_vesting_def
  by (auto simp: wp_simps Let_def drawn_def plan_defs plans_in_order [OF assms] simp del: fun_upd_apply
      intro!: wp_unlocked_at)

subsection \<open>Clawback\<close>

lemma wp_add_unvested: "(\<And>x. Q x w) \<Longrightarrow> wp (foldM (add_unvested i) ks n) Q w"
  by (induction ks arbitrary: n) (auto simp: wp_simps add_unvested_def)

text \<open>Between two turns of the marking loop only schedules and rent change, and amounts stay.\<close>

definition marked :: "'tok world \<Rightarrow> 'tok world \<Rightarrow> bool" where
  "marked w t \<longleftrightarrow> (\<exists>vs l. t = w\<lparr>vest := (vest w)\<lparr>p_VestingSchedule := vs\<rparr>, ttl_log := l\<rparr> \<and>
     plans_ok (p_BeneficiaryRotationSchedule (rel w), vs, p_VestingPenalty (vest w), p_MilestoneVestingSchedule (vest w), p_VestingStagger (vest w)))"

lemma mark_claimed_turn:
  assumes "marked w t"
  shows "wp (mark_claimed i ttl k) (\<lambda>_. marked w) t"
proof -
  obtain vs l where t: "t = w\<lparr>vest := (vest w)\<lparr>p_VestingSchedule := vs\<rparr>, ttl_log := l\<rparr>" and
    ok: "plans_ok (p_BeneficiaryRotationSchedule (rel w), vs, p_VestingPenalty (vest w), p_MilestoneVestingSchedule (vest w), p_VestingStagger (vest w))"
    using assms by (auto simp: marked_def)
  have "0 \<le> vs_total_amount s" if "vs (i, k) = Some s" for s
    using ok that by (auto simp: plans_ok_def)
  then show ?thesis
    using assms plans_ok_upd(1) [OF ok]
    by (auto simp: mark_claimed_def wp_simps save_schedule_def marked_def t split: option.splits)
qed

lemma mark_loop:
  assumes "plans_ok (p_BeneficiaryRotationSchedule (rel w), p_VestingSchedule (vest w), p_VestingPenalty (vest w),
      p_MilestoneVestingSchedule (vest w), p_VestingStagger (vest w))" "\<And>t. marked w t \<Longrightarrow> Q () t"
  shows "wp (forM ks (mark_claimed i ttl)) Q w"
proof (rule wp_forM_pre [where I = "marked w"])
  show "marked w w"
    using assms(1) unfolding marked_def
    by (intro exI [of _ "p_VestingSchedule (vest w)"] exI [of _ "ttl_log w"]) simp
qed (rule mark_claimed_turn assms(2); assumption)+

lemma clawback_effect:
  assumes "splits_ok w"
  shows "wp (clawback_unvested e i c) (\<lambda>amt t. \<exists>v. authorized e c \<and> c = v_owner v \<and> v_status v = Released \<and>
     drawn e i v [(v_owner v, amt)] amt w t) w"
proof -
  have stop: "\<exists>v'. v_owner v = v_owner v' \<and> v_status v' = Released \<and> drawn e i v' [(v_owner v', n)] n w
      (t\<lparr>p_Vault := (p_Vault t)(i \<mapsto> v\<lparr>v_balance := v_balance v - n\<rparr>), ttl_log := l, events := es\<rparr>)"
    if "marked (w\<lparr>tokens := tk\<rparr>) t" "p_Vault w i = Some v" "n \<le> v_balance v" "v_status v = Released"
      "token_transfer e (v_token_address v) (current_contract_address e) (v_owner v) n (tokens w) = Some tk"
    for v n t tk l es
    using that by (intro exI [of _ v]) (auto simp: marked_def simp del: fun_upd_apply intro!: drawnI)
  show ?thesis
    unfolding clawback_unvested_def schedule_count_def extend_instance_ttl_def
    by (auto simp: wp_simps plans_in_order [OF assms] intro!: wp_add_unvested mark_loop stop)
qed

subsection \<open>Staggered tranches\<close>

lemma set_stagger_effect:
  assumes "splits_ok w"
  shows "wp (set_vesting_stagger e i c es) (\<lambda>_. replanned w) w"
proof -
  have "\<forall>x \<in> set es. sg_bps x \<le> 10000" if "sum_list (map sg_bps es) = 10000"
    using that member_le_sum_list [of _ "map sg_bps es"] by auto
  then show ?thesis
    unfolding set_vesting_stagger_def
    by (auto simp: wp_simps wp_add32_loop intro!: replannedI plans_ok_upd(5) [OF plans_in_order [OF assms]])
qed

text \<open>
  Between two turns of the loop: the caller has been paid \<open>tot\<close>, the rest of the balance is not
  negative, and every tranche still promises at most the whole.
\<close>

definition stagger_inv ::
  "'tok env \<Rightarrow> address \<Rightarrow> Vault \<Rightarrow> nat \<Rightarrow> 'tok world \<Rightarrow> int \<times> VestingStaggerEntry list \<times> int \<times> bool \<Rightarrow> 'tok world \<Rightarrow> bool" where
  "stagger_inv e c v k w = (\<lambda>(b, es, tot, found) t. \<exists>ps tk. t = w\<lparr>tokens := tk\<rparr> \<and>
     run_payments e (v_token_address v) ps (tokens w) = Some tk \<and> (\<forall>p \<in> set ps. fst p = c) \<and>
     sum_list (map snd ps) = tot \<and> b = v_balance v - tot \<and> 0 \<le> b \<and> 0 \<le> tot \<and>
     length es = k \<and> (\<forall>x \<in> set es. sg_bps x \<le> 10000))"

text \<open>What a tranche pays is at most its part of the balance, and so at most the balance.\<close>

lemma tranche_le:
  assumes "0 \<le> b" "p \<le> 10000" "c \<le> n" "0 < n"
  shows "tdiv (b * int p) 10000 \<le> b" "tdiv (tdiv (b * int p) 10000) (int n) * int c \<le> b"
proof -
  show part: "tdiv (b * int p) 10000 \<le> b" using assms by (intro tdiv_share_le) simp_all
  let ?q = "tdiv (b * int p) 10000"
  have q: "0 \<le> ?q" using assms by (intro tdiv_nonneg_ge) simp_all
  then have "tdiv ?q (int n) * int c \<le> tdiv ?q (int n) * int n"
    using assms by (intro mult_left_mono tdiv_nonneg_ge) simp_all
  also have "\<dots> \<le> ?q" using q assms by (intro tdiv_mult_le) simp_all
  finally show "tdiv ?q (int n) * int c \<le> b" using part by simp
qed

lemma stagger_inv_paid:
  assumes "stagger_inv e c v k w (b, es, tot, found) t" "j < k" "0 < n" "n \<le> b"
    "token_transfer e (v_token_address v) (current_contract_address e) c n (tokens t) = Some tk"
  shows "stagger_inv e c v k w (b - n, es[j := (es ! j)\<lparr>sg_claimed_installments := u\<rparr>], tot + n, True) (t\<lparr>tokens := tk\<rparr>)"
proof -
  obtain ps r where ps: "t = w\<lparr>tokens := r\<rparr>" "run_payments e (v_token_address v) ps (tokens w) = Some r"
    "\<forall>p \<in> set ps. fst p = c" "sum_list (map snd ps) = tot" "b = v_balance v - tot" "0 \<le> b" "0 \<le> tot"
    "length es = k" "\<forall>x \<in> set es. sg_bps x \<le> 10000"
    using assms(1) by (auto simp: stagger_inv_def)
  have "sg_bps x \<le> 10000" if "x \<in> set (es[j := (es ! j)\<lparr>sg_claimed_installments := u\<rparr>])" for x
    using that ps(8,9) assms(2) set_update_subset_insert [of es j "(es ! j)\<lparr>sg_claimed_installments := u\<rparr>"] by auto
  then show ?thesis
    using ps assms(3-5) by (auto simp: stagger_inv_def run_payments_append intro!: exI [of _ "ps @ [(c, n)]"])
qed

lemma stagger_turn:
  assumes "stagger_inv e c v k w st t" "j < k"
  shows "wp (stagger_step e c v j st) (stagger_inv e c v k w) t"
proof -
  obtain b es tot found where st: "st = (b, es, tot, found)" by (cases st)
  have inv: "stagger_inv e c v k w (b, es, tot, f) t" for f using assms(1) by (simp add: st stagger_inv_def)
  have b: "0 \<le> b" "sg_bps (es ! j) \<le> 10000" using assms by (auto simp: st stagger_inv_def)
  have le: "tdiv (b * int (sg_bps (es ! j))) 10000 \<le> b"
    "sg_claimed_installments (es ! j) < sg_num_installments (es ! j) \<Longrightarrow> u \<le> sg_num_installments (es ! j) \<Longrightarrow>
     tdiv (tdiv (b * int (sg_bps (es ! j))) 10000) (int (sg_num_installments (es ! j))) * int (u - m) \<le> b" for u m
    using b by (auto intro!: tranche_le)
  show ?thesis
  proof (cases "sg_beneficiary (es ! j) = c")
    case True
    show ?thesis
      unfolding st stagger_step_def Let_def prod.case True
      by (auto simp: wp_simps inv simp del: of_nat_diff intro!: wp_unlocked_at stagger_inv_paid [OF inv assms(2)] le)
  qed (simp add: st stagger_step_def wp_simps inv)
qed

definition tranche_paid :: "'tok env \<Rightarrow> nat \<Rightarrow> address \<Rightarrow> int \<Rightarrow> 'tok world \<Rightarrow> 'tok world \<Rightarrow> bool" where
  "tranche_paid e i c amt w t \<longleftrightarrow> (\<exists>v ps. 0 < amt \<and> authorized e c \<and> v_status v = Released \<and>
     (\<forall>p \<in> set ps. fst p = c) \<and> sum_list (map snd ps) = amt \<and> drawn e i v ps amt w t)"

lemma claim_staggered_effect:
  assumes "splits_ok w" "solvent bal self w"
  shows "wp (claim_staggered_vesting e i c) (\<lambda>amt. tranche_paid e i c amt w) w"
proof -
  have loop: "wp (foldM (stagger_step e c v) [0..<length es] (v_balance v, es, 0, False)) Q w"
    if "p_Vault w i = Some v" "p_VestingStagger (vest w) i = Some es"
      "\<And>r t. stagger_inv e c v (length es) w r t \<Longrightarrow> Q r t" for v es Q
  proof (rule wp_foldM_pre [where I = "stagger_inv e c v (length es) w"])
    have "plans_ok (plans w)" using assms(1) by (simp add: splits_ok_def)
    then show "stagger_inv e c v (length es) w (v_balance v, es, 0, False) w"
      using plans_okD(5) that(2) accounts_nonneg [OF assms(2) that(1)] by (auto simp: stagger_inv_def intro!: exI [of _ "[]"])
  qed (use stagger_turn that(3) in auto)
  have stop: "tranche_paid e i c tot w (t\<lparr>p_Vault := (p_Vault t)(i \<mapsto> v\<lparr>v_balance := b\<rparr>), ttl_log := tl,
        vest := (vest t)\<lparr>p_VestingStagger := (p_VestingStagger (vest t))(i \<mapsto> es)\<rparr>, events := ev\<rparr>)"
    if inv: "stagger_inv e c v k w (b, es, tot, f) t" and v: "p_Vault w i = Some v" "v_status v = Released" "tot \<noteq> 0" "authorized e c"
    for v k b es tot f t ev tl
  proof -
    obtain ps tk where ps: "t = w\<lparr>tokens := tk\<rparr>" "run_payments e (v_token_address v) ps (tokens w) = Some tk"
      "\<forall>p \<in> set ps. fst p = c" "sum_list (map snd ps) = tot" "b = v_balance v - tot" "0 \<le> b" "0 \<le> tot"
      "\<forall>x \<in> set es. sg_bps x \<le> 10000"
      using inv by (auto simp: stagger_inv_def)
    then show ?thesis
      using v unfolding tranche_paid_def by (intro exI [of _ v] exI [of _ ps])
        (auto intro!: drawnI plans_ok_upd(5) [OF plans_in_order [OF assms(1)]])
  qed
  show ?thesis
    unfolding claim_staggered_vesting_def
    by (auto simp: wp_simps simp del: fun_upd_apply intro!: loop stop)
qed

subsection \<open>Milestones\<close>

lemmas milestone_io = save_milestones_def load_milestones_def extend_instance_ttl_def

text \<open>Progress, targets, pauses and fulfilment leave the shares and what was claimed as they are.\<close>

lemma milestones_ok_cong:
  assumes "map me_bps (mv_milestones s') = map me_bps (mv_milestones s)"
    "map me_claimed (mv_milestones s') = map me_claimed (mv_milestones s)"
    "mv_total_amount s' = mv_total_amount s" "mv_claimed_amount s' = mv_claimed_amount s"
  shows "milestones_ok s' = milestones_ok s"
proof -
  have share: "map (milestone_share n) (filter me_claimed ms) =
      map (\<lambda>(b, c). tdiv (n * int b) 10000) (filter snd (zip (map me_bps ms) (map me_claimed ms)))" for n ms
    by (induction ms) (auto simp: milestone_share_def)
  have empty: "mv_milestones s' = [] \<longleftrightarrow> mv_milestones s = []" using assms(1) by (metis Nil_is_map_conv)
  moreover have "mv_milestones s \<noteq> [] \<Longrightarrow> me_claimed (last (mv_milestones s')) = me_claimed (last (mv_milestones s))"
    using assms(2) empty by (metis last_map)
  ultimately show ?thesis
    unfolding milestones_ok_def share assms by auto
qed

definition same_shares :: "MilestoneEntry list \<Rightarrow> MilestoneEntry list \<Rightarrow> bool" where
  "same_shares ms ns \<longleftrightarrow> map me_bps ns = map me_bps ms \<and> map me_claimed ns = map me_claimed ms"

lemma wp_update_open:
  assumes "\<And>m. me_bps (f m) = me_bps m" "\<And>m. me_claimed (f m) = me_claimed m" "same_shares ms ns"
  shows "wp (update_open f k ns) (\<lambda>ns t. t = w \<and> same_shares ms ns) w"
proof -
  have same: "map g (ns[k := f (ns ! k)]) = map g ns" if "\<And>m. g (f m) = g m" "k < length ns" for g :: "MilestoneEntry \<Rightarrow> 'b"
    using that by (simp add: map_update) (metis list_update_id nth_map)
  then show ?thesis using assms by (simp add: update_open_def wp_simps same_shares_def same)
qed

lemma update_open_loop:
  assumes "\<And>ns. same_shares ms ns \<Longrightarrow> Q ns w"
    "\<And>x ns. same_shares ms ns \<Longrightarrow> wp (step x ns) (\<lambda>ns t. t = w \<and> same_shares ms ns) w"
  shows "wp (foldM step ks ms) Q w"
proof (rule wp_foldM_pre [where I = "\<lambda>ns t. t = w \<and> same_shares ms ns"])
qed (use assms in \<open>auto simp: same_shares_def\<close>)

lemma wp_announcements:
  assumes "\<And>es. Q () (w\<lparr>events := es\<rparr>)"
  shows "wp (forM ks (\<lambda>k. publish x (f k) (g k))) Q w"
  by (rule wp_forM_pre [where I = "\<lambda>t. \<exists>es. t = w\<lparr>events := es\<rparr>"])
    (use assms in \<open>auto simp: wp_simps intro: exI [of _ "events w"]\<close>)

lemma reported_shares [simp]: "me_bps (reported x m) = me_bps m" "me_claimed (reported x m) = me_claimed m"
  by (simp_all add: reported_def Let_def)

lemma milestones_inorder:
  assumes "splits_ok w" "p_MilestoneVestingSchedule (vest w) i = Some s"
  shows "milestones_ok s" "milestones_ok (s\<lparr>mv_paused := p\<rparr>)"
    "same_shares (mv_milestones s) ns \<Longrightarrow> milestones_ok (s\<lparr>mv_milestones := ns\<rparr>)"
proof -
  show ok: "milestones_ok s" using assms(1) plans_okD(4) [OF _ assms(2)] by (simp add: splits_ok_def)
  show "milestones_ok (s\<lparr>mv_paused := p\<rparr>)" using ok by (subst milestones_ok_cong [of _ s]) simp_all
  show "milestones_ok (s\<lparr>mv_milestones := ns\<rparr>)" if "same_shares (mv_milestones s) ns"
    using ok that by (subst milestones_ok_cong [of _ s]) (simp_all add: same_shares_def)
qed

lemma new_milestones_ok:
  assumes "0 \<le> n" "ms \<noteq> []" "sum_list (map me_bps ms) = 10000"
  shows "milestones_ok \<lparr>mv_total_amount = n, mv_milestones = ms, mv_claimed_amount = 0, mv_oracle = a, mv_paused = False\<rparr>"
proof -
  have "0 \<le> sum_list (map (milestone_share n) (filter me_claimed ms))"
    using assms(1) by (intro sum_list_nonneg) (auto simp: milestone_share_def intro!: tdiv_nonneg_ge)
  then show ?thesis using assms by (simp add: milestones_ok_def)
qed

lemma set_milestone_effect:
  assumes "splits_ok w" "solvent bal self w"
  shows "wp (set_milestone_vesting e i c ms a) (\<lambda>_. replanned w) w"
  unfolding set_milestone_vesting_def milestone_io
  by (auto simp: wp_simps wp_add32_loop accounts_nonneg [OF assms(2)]
      intro!: replannedI plans_ok_upd(3) [OF plans_in_order [OF assms(1)]] new_milestones_ok)

lemma milestone_updates_effect:
  assumes "splits_ok w"
  shows "wp (pause_milestone_vesting e i c) (\<lambda>_. replanned w) w"
    "wp (resume_milestone_vesting e i c) (\<lambda>_. replanned w) w"
    "wp (adjust_milestone_targets e i c ts) (\<lambda>_. replanned w) w"
    "wp (emergency_fulfill_milestones e i c ks) (\<lambda>_. replanned w) w"
    "wp (report_milestone_progress e i ks xs) (\<lambda>_. replanned w) w"
proof -
  note ok = milestones_inorder(2,3) [OF assms] plans_ok_upd(3) [OF plans_in_order [OF assms]]
  show "wp (pause_milestone_vesting e i c) (\<lambda>_. replanned w) w" "wp (resume_milestone_vesting e i c) (\<lambda>_. replanned w) w"
    unfolding pause_milestone_vesting_def resume_milestone_vesting_def milestone_io
    by (auto simp: wp_simps intro!: replannedI ok)
  have turn: "wp (foldM (update_open f) ks ms) Q w" if "\<And>ns. same_shares ms ns \<Longrightarrow> Q ns w"
    "\<And>m. me_bps (f m) = me_bps m" "\<And>m. me_claimed (f m) = me_claimed m" for f ks ms Q
    using that by (intro update_open_loop wp_update_open)
  have turns: "wp (foldM (\<lambda>(k, x). update_open (f x) k) ks ms) Q w" if "\<And>ns. same_shares ms ns \<Longrightarrow> Q ns w"
    "\<And>x m. me_bps (f x m) = me_bps m" "\<And>x m. me_claimed (f x m) = me_claimed m"
    for f :: "int \<Rightarrow> MilestoneEntry \<Rightarrow> MilestoneEntry" and ks ms Q
    using that by (intro update_open_loop) (auto intro!: wp_update_open)
  show "wp (adjust_milestone_targets e i c ts) (\<lambda>_. replanned w) w"
    "wp (emergency_fulfill_milestones e i c ks) (\<lambda>_. replanned w) w"
    unfolding adjust_milestone_targets_def emergency_fulfill_milestones_def milestone_io
    by (auto simp: wp_simps intro!: turn turns replannedI ok)
  show "wp (report_milestone_progress e i ks xs) (\<lambda>_. replanned w) w"
    unfolding report_milestone_progress_def milestone_io Let_def
    by (auto simp: wp_simps intro!: turns wp_announcements replannedI ok plans_in_order [OF assms])
qed

text \<open>
  What a milestone claim pays: the shares of the open milestones, or, once the last milestone is
  open, all that has not been paid.
\<close>

definition milestone_due :: "MilestoneVestingSchedule \<Rightarrow> int" where
  "milestone_due s = (if open_claim (last (mv_milestones s)) then mv_total_amount s - mv_claimed_amount s
     else sum_list (map (milestone_share (mv_total_amount s)) (filter open_claim (mv_milestones s))))"

definition milestones_claimed :: "MilestoneVestingSchedule \<Rightarrow> MilestoneVestingSchedule" where
  "milestones_claimed s = s\<lparr>mv_milestones := map (\<lambda>m. if open_claim m then m\<lparr>me_claimed := True\<rparr> else m) (mv_milestones s),
     mv_claimed_amount := mv_claimed_amount s + milestone_due s\<rparr>"

lemma milestone_loop:
  assumes "ms \<noteq> []" "l = k + length ms - 1"
    "Q (if open_claim (last ms) then mv_total_amount s - mv_claimed_amount s
        else a + sum_list (map (milestone_share (mv_total_amount s)) (filter open_claim ms))) w"
  shows "wp (foldM (milestone_step s l) (enumerate k ms) a) Q w"
  using assms
proof (induction ms arbitrary: k a)
  case (Cons m ms)
  show ?case
  proof (cases "ms = []")
    case True
    then show ?thesis using Cons.prems
      by (auto simp: milestone_step_def wp_simps milestone_share_def split: if_splits)
  next
    case False
    then have "k \<noteq> l" using Cons.prems(2) by (cases ms) simp_all
    moreover have "wp (foldM (milestone_step s l) (enumerate (Suc k) ms) (a + n)) Q w"
      if "n = (if open_claim m then milestone_share (mv_total_amount s) m else 0)" for n
      using Cons.prems False that by (intro Cons.IH) (auto split: if_splits simp: add.assoc)
    ultimately show ?thesis
      by (auto simp: milestone_step_def wp_simps milestone_share_def)
  qed
qed simp

lemma due_loop:
  assumes "milestones_ok s" "Q (milestone_due s) w"
  shows "wp (foldM (milestone_step s (length (mv_milestones s) - Suc 0)) (enumerate 0 (mv_milestones s)) 0) Q w"
  using assms by (intro milestone_loop) (simp_all add: milestones_ok_def milestone_due_def split: if_splits)

lemma shares_le:
  assumes "0 \<le> n"
  shows "0 \<le> sum_list (map (milestone_share n) (filter P ms))"
    "sum_list (map me_bps ms) \<le> 10000 \<Longrightarrow> sum_list (map (milestone_share n) (filter P ms)) \<le> n"
proof -
  have nonneg: "0 \<le> milestone_share n m" for m
    using assms by (simp add: milestone_share_def tdiv_nonneg_ge)
  then show "0 \<le> sum_list (map (milestone_share n) (filter P ms))"
    by (intro sum_list_nonneg) auto
  have "sum_list (map (milestone_share n) (filter P ms)) * 10000 \<le> n * int (sum_list (map me_bps ms))"
  proof (induction ms)
    case (Cons m ms)
    have "milestone_share n m * 10000 \<le> n * int (me_bps m)"
      using assms by (simp add: milestone_share_def tdiv_mult_le)
    moreover have "0 \<le> n * int (me_bps m)" using assms by simp
    ultimately show ?case using Cons by (simp add: algebra_simps)
  qed simp
  moreover assume "sum_list (map me_bps ms) \<le> 10000"
  then have "n * int (sum_list (map me_bps ms)) \<le> n * 10000"
    using assms by (intro mult_left_mono) simp_all
  ultimately show "sum_list (map (milestone_share n) (filter P ms)) \<le> n" by simp
qed

lemma milestone_due_nonneg:
  assumes "milestones_ok s"
  shows "0 \<le> milestone_due s"
proof -
  have "sum_list (map (milestone_share (mv_total_amount s)) (filter me_claimed (mv_milestones s))) \<le> mv_total_amount s"
    using assms by (intro shares_le(2)) (simp_all add: milestones_ok_def)
  then show ?thesis
    using assms shares_le(1) by (auto simp: milestone_due_def milestones_ok_def open_claim_def)
qed

lemma milestones_claimed_ok:
  assumes "milestones_ok s"
  shows "milestones_ok (milestones_claimed s)"
proof -
  define f where "f = (\<lambda>m. if open_claim m then m\<lparr>me_claimed := True\<rparr> else m)"
  have share: "milestone_share n (f m) = milestone_share n m" and bps: "me_bps (f m) = me_bps m"
    and claimed: "me_claimed (f m) = (me_claimed m \<or> open_claim m)" for n m
    by (simp_all add: f_def milestone_share_def)
  have split: "sum_list (map (milestone_share n) (filter me_claimed (map f ms))) =
      sum_list (map (milestone_share n) (filter me_claimed ms)) + sum_list (map (milestone_share n) (filter open_claim ms))"
    for n ms
    by (induction ms) (auto simp: claimed share open_claim_def)
  have "me_bps \<circ> f = me_bps" by (simp add: bps fun_eq_iff)
  then show ?thesis
    using assms
    by (auto simp: split milestones_claimed_def milestones_ok_def f_def [symmetric] last_map claimed milestone_due_def)
qed

text \<open>A released vault pays what is due to its heirs, and the schedule records it.\<close>

definition milestone_paid ::
  "'tok env \<Rightarrow> nat \<Rightarrow> Vault \<Rightarrow> MilestoneVestingSchedule \<Rightarrow> 'tok world \<Rightarrow> 'tok world \<Rightarrow> bool" where
  "milestone_paid e i v s w t \<longleftrightarrow> p_Vault w i = Some v \<and> v_status v = Released \<and> p_MilestoneVestingSchedule (vest w) i = Some s \<and>
     \<not> mv_paused s \<and> (\<exists>m \<in> set (mv_milestones s). open_claim m) \<and>
     p_MilestoneVestingSchedule (vest t) = (p_MilestoneVestingSchedule (vest w))(i \<mapsto> milestones_claimed s) \<and>
     drawn e i v (claim_payments v (milestone_due s)) (milestone_due s) w t"

lemma claim_milestone_effect:
  assumes "splits_ok w"
  shows "wp (claim_milestone_installments e i) (\<lambda>amt t. \<exists>v s. amt = milestone_due s \<and> milestone_paid e i v s w t) w"
proof -
  have sum: "sum_list (map snd (claim_payments v (milestone_due s))) = milestone_due s"
    if "p_Vault w i = Some v" "p_MilestoneVestingSchedule (vest w) i = Some s" for v s
    using splits_okD(1) [OF assms that(1)] milestone_due_nonneg milestones_inorder(1) [OF assms that(2)]
    by (intro claim_payments_sum) (simp_all add: sane_def)
  show ?thesis
    unfolding claim_milestone_installments_def milestone_io milestone_paid_def
    by (auto simp: wp_simps milestones_inorder(1) [OF assms] sum milestones_claimed_def [symmetric]
      simp del: fun_upd_apply intro!: due_loop wp_pay_claim drawnI milestones_claimed_ok
        plans_ok_upd(3) [OF plans_in_order [OF assms]])
qed

end
