(* ===== verification/Vault_Passkeys.thy ===== *)
theory Vault_Passkeys
  imports Vault_Ownership
begin

section \<open>Passkey management, recovery and two-factor codes\<close>

text \<open>
  The entry points of \<open>lib.rs\<close> around passkeys: registration, removal, rotation and biometric binding,
  compromise reports, delegation, escrow, expiry, lockout, the rotation policy, backup codes, recovery
  by contacts, by a recovery code and by a recovery contact, and two-factor codes. The random bytes of
  \<open>generate_recovery_code\<close> come from the host and are its argument \<open>code\<close>.
\<close>

subsection \<open>Shared steps\<close>

text \<open>The owner calls: the test at the head of most entry points, and the test of the status after it.\<close>

definition owned_vault :: "'tok env \<Rightarrow> nat \<Rightarrow> address \<Rightarrow> ('tok, Vault) handler" where
  "owned_vault e vault_id caller = (thenM (require_auth e caller) (
                                   bindM (load_vault vault_id) (\<lambda>vault.
                                   thenM (guard (caller = v_owner vault) (Err NotOwner)) (
                                   returnM vault))))"

definition owned_locked_vault :: "'tok env \<Rightarrow> nat \<Rightarrow> address \<Rightarrow> ('tok, Vault) handler" where
  "owned_locked_vault e vault_id caller = (bindM (owned_vault e vault_id caller) (\<lambda>vault.
                                          thenM (guard (v_status vault = Locked) (Err AlreadyReleased)) (
                                          returnM vault)))"

definition load_passkeys :: "nat \<Rightarrow> ('tok, PasskeyHash list) handler" where
  "load_passkeys vault_id = gets (\<lambda>w. log_of (p_VaultPasskeys (pks w) vault_id))"

definition save_passkeys :: "nat \<Rightarrow> Vault \<Rightarrow> PasskeyHash list \<Rightarrow> ('tok, unit) handler" where
  "save_passkeys vault_id vault passkeys = (thenM (set_pks (\<lambda>p. p\<lparr>p_VaultPasskeys := (p_VaultPasskeys p)(vault_id \<mapsto> passkeys)\<rparr>)) (
                                           thenM (extend_ttl (K_VaultPasskeys vault_id) VAULT_TTL_THRESHOLD (vault_ttl_ledgers (v_check_in_interval vault))) (
                                           extend_instance_ttl)))"

text \<open>A pure step that may fail.\<close>

definition of_sum :: "failure + 'a \<Rightarrow> ('tok, 'a) handler" where
  "of_sum r w = (case r of Inl f \<Rightarrow> Inl f | Inr x \<Rightarrow> Inr (x, w))"

lemma of_sum_rules [wp_simps]: "wp (of_sum r) Q w = (\<forall>x. r = Inr x \<longrightarrow> Q x w)"
  by (auto simp: wp_def of_sum_def split: sum.splits)

lemma runs_of_sum [run_simps]: "runs (of_sum r) Q w = (\<exists>x. r = Inr x \<and> Q x w)"
  by (auto simp: runs_def of_sum_def split: sum.splits)

lemma exec_of_sum [exec]: "bindM (of_sum r) f w = (case r of Inl x \<Rightarrow> Inl x | Inr y \<Rightarrow> f y w)"
  by (simp add: bindM_def of_sum_def split: sum.splits)

lemma runs_set_feat [run_simps]:
  "runs (set_feat f) Q w = Q () (w\<lparr>feat := f (feat w)\<rparr>)" "runs (set_pks g) Q w = Q () (w\<lparr>pks := g (pks w)\<rparr>)"
  by (simp_all add: set_defs run_simps)

lemma owned_rules [wp_simps]:
  "wp (owned_vault e i c) Q w = (authorized e c \<longrightarrow> (\<forall>v. p_Vault w i = Some v \<longrightarrow> c = v_owner v \<longrightarrow> Q v w))"
  "wp (owned_locked_vault e i c) Q w =
     (authorized e c \<longrightarrow> (\<forall>v. p_Vault w i = Some v \<longrightarrow> c = v_owner v \<longrightarrow> v_status v = Locked \<longrightarrow> Q v w))"
  by (auto simp: owned_vault_def owned_locked_vault_def wp_simps)

lemma keeps_owned [frame]: "keeps f (owned_vault e i c)" "keeps f (owned_locked_vault e i c)" "keeps f (load_passkeys i)"
  "keeps f (require_auth e c)" "keeps f (of_sum r)"
proof -
  show *: "keeps f (require_auth e c)" for c unfolding require_auth_def by (rule frame)
  show **: "keeps f (owned_vault e i c)" unfolding owned_vault_def by (intro frame *)
  show "keeps f (owned_locked_vault e i c)" unfolding owned_locked_vault_def by (intro frame **)
  show "keeps f (load_passkeys i)" unfolding load_passkeys_def by (rule frame)
  show "keeps f (of_sum r)" by (auto simp: keeps_def of_sum_def split: sum.splits)
qed

subsection \<open>Registration\<close>

definition add_passkey :: "'tok env \<Rightarrow> nat \<Rightarrow> address \<Rightarrow> bytes \<Rightarrow> ('tok, unit) handler" where
  "add_passkey e vault_id caller passkey_hash = (bindM (owned_locked_vault e vault_id caller) (\<lambda>vault.
                                                bindM (load_passkeys vault_id) (\<lambda>passkeys.
                                                thenM (save_passkeys vault_id vault
       (passkeys @ [\<lparr>pk_hash = passkey_hash, pk_added_at = ledger_timestamp e, pk_biometric_hash = None\<rparr>])) (
                                                thenM (log_passkey_audit_entry e vault_id ''add'' caller passkey_hash) (
                                                publish ADD_PASSKEY_TOPIC [VU vault_id] [VB passkey_hash])))))"

definition remove_passkey :: "'tok env \<Rightarrow> nat \<Rightarrow> address \<Rightarrow> bytes \<Rightarrow> ('tok, unit) handler" where
  "remove_passkey e vault_id caller passkey_hash = (bindM (owned_locked_vault e vault_id caller) (\<lambda>vault.
                                                   bindM (gets (\<lambda>w. p_VaultPasskeys (pks w) vault_id)) (\<lambda>stored.
                                                   bindM (ok_or stored (Err PasskeyNotFound)) (\<lambda>passkeys.
                                                   thenM (guard (\<exists>p \<in> set passkeys. pk_hash p = passkey_hash) (Err PasskeyNotFound)) (
                                                   thenM (save_passkeys vault_id vault (filter (\<lambda>p. pk_hash p \<noteq> passkey_hash) passkeys)) (
                                                   thenM (log_passkey_audit_entry e vault_id ''remove'' caller passkey_hash) (
                                                   publish REMOVE_PASSKEY_TOPIC [VU vault_id] [VB passkey_hash])))))))"

text \<open>The loop that sets the biometric hash of the first passkey with the hash; \<open>None\<close> if there is none.\<close>

fun set_biometric :: "bytes \<Rightarrow> bytes option \<Rightarrow> PasskeyHash list \<Rightarrow> PasskeyHash list option" where
  "set_biometric passkey_hash bound [] = None"
| "set_biometric passkey_hash bound (pk # rest) =
     (if pk_hash pk = passkey_hash then Some (pk\<lparr>pk_biometric_hash := bound\<rparr> # rest)
      else map_option (Cons pk) (set_biometric passkey_hash bound rest))"

definition bind_passkey_biometric :: "'tok env \<Rightarrow> nat \<Rightarrow> address \<Rightarrow> bytes \<Rightarrow> bytes \<Rightarrow> ('tok, unit) handler" where
  "bind_passkey_biometric e vault_id caller passkey_hash biometric_hash = (bindM (owned_locked_vault e vault_id caller) (\<lambda>vault.
                                                                          bindM (load_passkeys vault_id) (\<lambda>passkeys.
                                                                          bindM (ok_or (set_biometric passkey_hash (Some biometric_hash) passkeys) (Err PasskeyNotFound)) (\<lambda>bound.
                                                                          thenM (save_passkeys vault_id vault bound) (
                                                                          publish BIND_PASSKEY_BIOMETRIC_TOPIC [VU vault_id] [VB passkey_hash, VB biometric_hash])))))"

definition unbind_passkey_biometric :: "'tok env \<Rightarrow> nat \<Rightarrow> address \<Rightarrow> bytes \<Rightarrow> ('tok, unit) handler" where
  "unbind_passkey_biometric e vault_id caller passkey_hash = (bindM (owned_locked_vault e vault_id caller) (\<lambda>vault.
                                                             bindM (load_passkeys vault_id) (\<lambda>passkeys.
                                                             bindM (ok_or (set_biometric passkey_hash None passkeys) (Err PasskeyNotFound)) (\<lambda>unbound.
                                                             thenM (save_passkeys vault_id vault unbound) (
                                                             publish UNBIND_PASSKEY_BIOMETRIC_TOPIC [VU vault_id] [VB passkey_hash])))))"

definition get_vault_passkeys :: "'tok world \<Rightarrow> nat \<Rightarrow> PasskeyHash list" where
  "get_vault_passkeys w vault_id = log_of (p_VaultPasskeys (pks w) vault_id)"

definition is_valid_passkey :: "'tok world \<Rightarrow> nat \<Rightarrow> bytes \<Rightarrow> bool" where
  "is_valid_passkey w vault_id passkey_hash =
     (case p_VaultPasskeys (pks w) vault_id of None \<Rightarrow> False | Some passkeys \<Rightarrow> list_ex (\<lambda>pk. pk_hash pk = passkey_hash) passkeys)"

definition rotate_passkey :: "'tok env \<Rightarrow> nat \<Rightarrow> address \<Rightarrow> bytes \<Rightarrow> bytes \<Rightarrow> ('tok, unit) handler" where
  "rotate_passkey e vault_id caller old_passkey_hash new_passkey_hash = (bindM (owned_locked_vault e vault_id caller) (\<lambda>vault.
                                                                        thenM (guard (v_passkey_hash vault = Some old_passkey_hash) (Err InvalidPasskey)) (
                                                                        thenM (save_vault vault_id (vault\<lparr>v_passkey_hash := Some new_passkey_hash\<rparr>)) (
                                                                        thenM (extend_instance_ttl) (
                                                                        thenM (log_passkey_audit_entry e vault_id ''remove'' caller old_passkey_hash) (
                                                                        thenM (log_passkey_audit_entry e vault_id ''add'' caller new_passkey_hash) (
                                                                        publish ROTATE_PASSKEY_TOPIC [VU vault_id] [VB old_passkey_hash, VB new_passkey_hash])))))))"

definition biometric_check_in :: "'tok env \<Rightarrow> nat \<Rightarrow> address \<Rightarrow> bytes \<Rightarrow> bytes \<Rightarrow> ('tok, unit) handler" where
  "biometric_check_in e vault_id caller passkey_hash biometric_hash = (bindM (load_paused) (\<lambda>paused.
                                                                      thenM (guard (\<not> paused) (Err Paused)) (
                                                                      thenM (require_auth e caller) (
                                                                      bindM (load_vault vault_id) (\<lambda>vault.
                                                                      thenM (guard (\<not> v_is_paused vault) (Err Paused)) (
                                                                      bindM (is_check_in_delegate vault_id caller) (\<lambda>delegate.
                                                                      thenM (guard (caller = v_owner vault \<or> delegate) (Err NotOwner)) (
                                                                      thenM (guard (v_status vault = Locked) (Err AlreadyReleased)) (
                                                                      (let now = ledger_timestamp e in
                                                                      thenM (validate_passkey_for_checkin vault_id vault passkey_hash now) (
                                                                      bindM (load_passkeys vault_id) (\<lambda>passkeys.
                                                                      bindM (ok_or (find (\<lambda>pk. pk_hash pk = passkey_hash) passkeys) (Err PasskeyNotFound)) (\<lambda>pk.
                                                                      thenM (guard (pk_biometric_hash pk = Some biometric_hash) (Err InvalidPasskey)) (
                                                                      thenM (save_vault vault_id (vault\<lparr>v_last_check_in := now\<rparr>)) (
                                                                      thenM (extend_instance_ttl) (
                                                                      thenM (log_passkey_usage vault_id passkey_hash now) (
                                                                      thenM (log_passkey_audit_entry e vault_id ''use'' caller passkey_hash) (
                                                                      publish BIO_CHECKIN_TOPIC [VU vault_id] [VA caller, VU now]))))))))))))))))))"

subsection \<open>Compromise, expiry and usage\<close>

definition report_passkey_compromise :: "'tok env \<Rightarrow> nat \<Rightarrow> address \<Rightarrow> bytes \<Rightarrow> ('tok, unit) handler" where
  "report_passkey_compromise e vault_id caller passkey_hash = (bindM (owned_vault e vault_id caller) (\<lambda>vault.
                                                              bindM (gets (\<lambda>w. log_of (p_CompromisedPasskeys (pks w) vault_id))) (\<lambda>compromised.
                                                              thenM (whenM (passkey_hash \<notin> set compromised) (thenM (set_pks (\<lambda>p. p\<lparr>p_CompromisedPasskeys := (p_CompromisedPasskeys p)(vault_id \<mapsto> compromised @ [passkey_hash])\<rparr>)) (
                                                   extend_ttl (DataKey ''CompromisedPasskeys'' [VU vault_id]) VAULT_TTL_THRESHOLD (vault_ttl_ledgers (v_check_in_interval vault))))) (
                                                              thenM (extend_instance_ttl) (
                                                              publish PASSKEY_COMPROMISED_TOPIC [VU vault_id] [VB passkey_hash])))))"

definition clear_passkey_compromise :: "'tok env \<Rightarrow> nat \<Rightarrow> address \<Rightarrow> bytes \<Rightarrow> ('tok, unit) handler" where
  "clear_passkey_compromise e vault_id caller passkey_hash = (bindM (owned_vault e vault_id caller) (\<lambda>vault.
                                                             bindM (gets (\<lambda>w. log_of (p_CompromisedPasskeys (pks w) vault_id))) (\<lambda>compromised.
                                                             thenM (set_pks (\<lambda>p. p\<lparr>p_CompromisedPasskeys := (p_CompromisedPasskeys p)(vault_id \<mapsto> filter (\<lambda>h. h \<noteq> passkey_hash) compromised)\<rparr>)) (
                                                             thenM (extend_ttl (DataKey ''CompromisedPasskeys'' [VU vault_id]) VAULT_TTL_THRESHOLD (vault_ttl_ledgers (v_check_in_interval vault))) (
                                                             extend_instance_ttl)))))"

definition is_passkey_compromised :: "'tok world \<Rightarrow> nat \<Rightarrow> bytes \<Rightarrow> bool" where
  "is_passkey_compromised w vault_id passkey_hash = (passkey_hash \<in> set (log_of (p_CompromisedPasskeys (pks w) vault_id)))"

definition extend_passkey_expiry :: "'tok env \<Rightarrow> nat \<Rightarrow> address \<Rightarrow> bytes \<Rightarrow> nat \<Rightarrow> ('tok, unit) handler" where
  "extend_passkey_expiry e vault_id caller passkey_hash new_expiry = (bindM (owned_vault e vault_id caller) (\<lambda>vault.
                                                                     thenM (set_pks (\<lambda>p. p\<lparr>p_PasskeyExpiry := (p_PasskeyExpiry p)((vault_id, passkey_hash) \<mapsto> new_expiry)\<rparr>)) (
                                                                     thenM (extend_ttl (DataKey ''PasskeyExpiry'' [VU vault_id, VB passkey_hash]) VAULT_TTL_THRESHOLD VAULT_TTL_LEDGERS) (
                                                                     publish PASSKEY_EXPIRY_EXTENDED_TOPIC [VU vault_id] [VB passkey_hash, VU new_expiry]))))"

definition get_passkey_expiry :: "'tok world \<Rightarrow> nat \<Rightarrow> bytes \<Rightarrow> nat option" where
  "get_passkey_expiry w vault_id passkey_hash = p_PasskeyExpiry (pks w) (vault_id, passkey_hash)"

definition get_passkey_usage :: "'tok world \<Rightarrow> nat \<Rightarrow> PasskeyUsageEntry list" where
  "get_passkey_usage w vault_id = log_of (p_PasskeyUsage (pks w) vault_id)"

definition get_passkey_audit_log :: "nat \<Rightarrow> ('tok, PasskeyAuditEntry list) handler" where
  "get_passkey_audit_log vault_id = (bindM (try_load_vault vault_id) (\<lambda>vault.
                                    thenM (guard (vault \<noteq> None) (Err VaultNotFound)) (
                                    gets (\<lambda>w. log_of (p_PasskeyAuditLog (pks w) vault_id)))))"

subsection \<open>Delegation and escrow\<close>

definition delegate_passkey :: "'tok env \<Rightarrow> nat \<Rightarrow> address \<Rightarrow> bytes \<Rightarrow> address \<Rightarrow> nat \<Rightarrow> ('tok, unit) handler" where
  "delegate_passkey e vault_id caller passkey_hash delegate expires_at = (bindM (owned_locked_vault e vault_id caller) (\<lambda>vault.
                                                                         bindM (gets (\<lambda>w. is_valid_passkey w vault_id passkey_hash)) (\<lambda>valid.
                                                                         thenM (guard valid (Err PasskeyNotFound)) (
                                                                         thenM (guard (ledger_timestamp e < expires_at) (Err InvalidInterval)) (
                                                                         thenM (guard (delegate \<noteq> v_owner vault) (Err InvalidBeneficiary)) (
                                                                         thenM (set_pks (\<lambda>p. p\<lparr>p_PasskeyDelegation := (p_PasskeyDelegation p)((vault_id, passkey_hash) \<mapsto>
       \<lparr>pd_delegate = delegate, pd_expires_at = expires_at\<rparr>)\<rparr>)) (
                                                                         thenM (extend_ttl (DataKey ''PasskeyDelegation'' [VU vault_id, VB passkey_hash]) VAULT_TTL_THRESHOLD
       (vault_ttl_ledgers (v_check_in_interval vault))) (
                                                                         thenM (extend_instance_ttl) (
                                                                         publish PASSKEY_DELEGATED_TOPIC [VU vault_id] [VB passkey_hash, VA delegate, VU expires_at])))))))))"

definition revoke_passkey_delegation :: "'tok env \<Rightarrow> nat \<Rightarrow> address \<Rightarrow> bytes \<Rightarrow> ('tok, unit) handler" where
  "revoke_passkey_delegation e vault_id caller passkey_hash = (bindM (owned_vault e vault_id caller) (\<lambda>vault.
                                                              bindM (gets (\<lambda>w. p_PasskeyDelegation (pks w) (vault_id, passkey_hash))) (\<lambda>found.
                                                              case found of
       None \<Rightarrow> returnM ()
     | Some delegation \<Rightarrow> (thenM (set_pks (\<lambda>p. p\<lparr>p_PasskeyDelegation := (p_PasskeyDelegation p)((vault_id, passkey_hash) := None)\<rparr>)) (
                                     thenM (extend_instance_ttl) (
                                     publish PASSKEY_DELEGATION_REVOKED_TOPIC [VU vault_id] [VB passkey_hash, VA (pd_delegate delegation)]))))))"

definition get_passkey_delegation :: "'tok world \<Rightarrow> nat \<Rightarrow> bytes \<Rightarrow> PasskeyDelegation option" where
  "get_passkey_delegation w vault_id passkey_hash = p_PasskeyDelegation (pks w) (vault_id, passkey_hash)"

definition escrow_passkey :: "'tok env \<Rightarrow> nat \<Rightarrow> address \<Rightarrow> bytes \<Rightarrow> address \<Rightarrow> ('tok, unit) handler" where
  "escrow_passkey e vault_id caller passkey_hash recovery_contact = (bindM (owned_locked_vault e vault_id caller) (\<lambda>vault.
                                                                    thenM (guard (recovery_contact \<noteq> v_owner vault) (Err InvalidBeneficiary)) (
                                                                    bindM (load_passkeys vault_id) (\<lambda>passkeys.
                                                                    thenM (guard (\<exists>p \<in> set passkeys. pk_hash p = passkey_hash) (Err PasskeyNotFound)) (
                                                                    bindM (gets (\<lambda>w. p_PasskeyEscrow (pks w) (vault_id, passkey_hash))) (\<lambda>escrow.
                                                                    thenM (guard (escrow = None) (Err AlreadyInEscrow)) (
                                                                    thenM (set_pks (\<lambda>p. p\<lparr>p_PasskeyEscrow := (p_PasskeyEscrow p)((vault_id, passkey_hash) \<mapsto>
       \<lparr>pe_recovery_contact = recovery_contact, pe_escrowed_at = ledger_timestamp e\<rparr>)\<rparr>)) (
                                                                    thenM (extend_ttl (DataKey ''PasskeyEscrow'' [VU vault_id, VB passkey_hash]) VAULT_TTL_THRESHOLD
       (vault_ttl_ledgers (v_check_in_interval vault))) (
                                                                    thenM (extend_instance_ttl) (
                                                                    publish PASSKEY_ESCROWED_TOPIC [VU vault_id] [VB passkey_hash, VA recovery_contact]))))))))))"

definition release_escrow_passkey :: "'tok env \<Rightarrow> nat \<Rightarrow> address \<Rightarrow> bytes \<Rightarrow> ('tok, unit) handler" where
  "release_escrow_passkey e vault_id caller passkey_hash = (thenM (require_auth e caller) (
                                                           bindM (gets (\<lambda>w. p_PasskeyEscrow (pks w) (vault_id, passkey_hash))) (\<lambda>escrow.
                                                           bindM (ok_or escrow (Err PasskeyNotFound)) (\<lambda>r.
                                                           thenM (guard (caller = pe_recovery_contact r) (Err NotRecoveryContact)) (
                                                           thenM (set_pks (\<lambda>p. p\<lparr>p_PasskeyEscrow := (p_PasskeyEscrow p)((vault_id, passkey_hash) := None)\<rparr>)) (
                                                           thenM (extend_instance_ttl) (
                                                           publish PASSKEY_ESCROW_RELEASED_TOPIC [VU vault_id] [VB passkey_hash, VA (pe_recovery_contact r)])))))))"

definition cancel_passkey_escrow :: "'tok env \<Rightarrow> nat \<Rightarrow> address \<Rightarrow> bytes \<Rightarrow> ('tok, unit) handler" where
  "cancel_passkey_escrow e vault_id caller passkey_hash = (bindM (owned_vault e vault_id caller) (\<lambda>vault.
                                                          bindM (gets (\<lambda>w. p_PasskeyEscrow (pks w) (vault_id, passkey_hash))) (\<lambda>escrow.
                                                          thenM (guard (escrow \<noteq> None) (Err PasskeyNotFound)) (
                                                          thenM (set_pks (\<lambda>p. p\<lparr>p_PasskeyEscrow := (p_PasskeyEscrow p)((vault_id, passkey_hash) := None)\<rparr>)) (
                                                          thenM (extend_instance_ttl) (
                                                          publish PASSKEY_ESCROW_CANCELLED_TOPIC [VU vault_id] [VB passkey_hash]))))))"

definition get_passkey_escrow :: "'tok world \<Rightarrow> nat \<Rightarrow> bytes \<Rightarrow> PasskeyEscrowRecord option" where
  "get_passkey_escrow w vault_id passkey_hash = p_PasskeyEscrow (pks w) (vault_id, passkey_hash)"

subsection \<open>Lockout and rotation policy\<close>

definition lockout_vault :: "'tok env \<Rightarrow> nat \<Rightarrow> nat \<Rightarrow> ('tok, unit) handler" where
  "lockout_vault e vault_id duration_seconds = (bindM (load_vault vault_id) (\<lambda>vault.
                                               thenM (require_auth e (v_owner vault)) (
                                               bindM (add64 (ledger_timestamp e) duration_seconds) (\<lambda>unlock_at.
                                               thenM (set_feat (\<lambda>f. f\<lparr>p_PasskeyLockout := (p_PasskeyLockout f)(vault_id \<mapsto>
       \<lparr>pl_locked_at = ledger_timestamp e, pl_unlock_at = unlock_at, pl_failed_attempts = 0\<rparr>)\<rparr>)) (
                                               publish PASSKEY_LOCKOUT_TOPIC [VU vault_id] [VU duration_seconds])))))"

definition unlock_vault :: "'tok env \<Rightarrow> nat \<Rightarrow> address \<Rightarrow> ('tok, unit) handler" where
  "unlock_vault e vault_id caller = (bindM (owned_vault e vault_id caller) (\<lambda>vault.
                                    thenM (set_feat (\<lambda>f. f\<lparr>p_PasskeyLockout := (p_PasskeyLockout f)(vault_id := None)\<rparr>)) (
                                    publish PASSKEY_UNLOCKED_TOPIC [VU vault_id] [VA caller])))"

definition is_vault_locked :: "'tok env \<Rightarrow> 'tok world \<Rightarrow> nat \<Rightarrow> bool" where
  "is_vault_locked e w vault_id =
     (case p_PasskeyLockout (feat w) vault_id of None \<Rightarrow> False | Some lockout \<Rightarrow> ledger_timestamp e < pl_unlock_at lockout)"

definition set_passkey_rotation_policy :: "'tok env \<Rightarrow> nat \<Rightarrow> address \<Rightarrow> nat \<Rightarrow> bool \<Rightarrow> ('tok, unit) handler" where
  "set_passkey_rotation_policy e vault_id caller rotation_period_days enforce = (bindM (owned_vault e vault_id caller) (\<lambda>vault.
                                                                                thenM (set_feat (\<lambda>f. f\<lparr>p_PasskeyRotationPolicy := (p_PasskeyRotationPolicy f)(vault_id \<mapsto>
       \<lparr>rp_rotation_period_days = rotation_period_days, rp_enforce = enforce\<rparr>)\<rparr>)) (
                                                                                publish PASSKEY_ROTATION_REQUIRED_TOPIC [VU vault_id] [VU rotation_period_days, VFlag enforce])))"

definition enforce_passkey_rotation :: "'tok env \<Rightarrow> nat \<Rightarrow> bytes \<Rightarrow> ('tok, bool) handler" where
  "enforce_passkey_rotation e vault_id passkey_hash = (bindM (gets (\<lambda>w. case p_PasskeyRotationPolicy (feat w) vault_id of
       None \<Rightarrow> \<lparr>rp_rotation_period_days = 0, rp_enforce = False\<rparr> | Some p \<Rightarrow> p)) (\<lambda>policy.
                                                      if \<not> rp_enforce policy \<or> rp_rotation_period_days policy = 0 then returnM True
     else (bindM (gets (\<lambda>w. p_LastPasskeyRotation (feat w) (vault_id, passkey_hash))) (\<lambda>found.
          case found of
         None \<Rightarrow> returnM True
       | Some last_rotation \<Rightarrow> (bindM (sub64 (ledger_timestamp e) last_rotation) (\<lambda>elapsed.
                                          if elapsed div 86400 \<ge> rp_rotation_period_days policy then (thenM (publish PASSKEY_ROTATION_ENFORCED_TOPIC [VU vault_id] [VB passkey_hash]) (
                                                                          returnM False)) else returnM True))))))"

definition record_passkey_rotation :: "'tok env \<Rightarrow> nat \<Rightarrow> bytes \<Rightarrow> ('tok, unit) handler" where
  "record_passkey_rotation e vault_id passkey_hash =
     set_feat (\<lambda>f. f\<lparr>p_LastPasskeyRotation := (p_LastPasskeyRotation f)((vault_id, passkey_hash) \<mapsto> ledger_timestamp e)\<rparr>)"

subsection \<open>Backup codes\<close>

definition digit_char :: "nat \<Rightarrow> char" where
  "digit_char d = char_of (48 + d)"

fun decimal :: "nat \<Rightarrow> string" where
  "decimal n = (if n < 10 then [digit_char n] else decimal (n div 10) @ [digit_char (n mod 10)])"

declare decimal.simps [simp del]

definition backup_code :: "nat \<Rightarrow> nat \<Rightarrow> nat \<Rightarrow> string" where
  "backup_code vault_id timestamp i = ''code'' @ decimal ((vault_id * timestamp + i) mod 2 ^ 64)"

definition generate_backup_codes :: "'tok env \<Rightarrow> nat \<Rightarrow> address \<Rightarrow> ('tok, string list) handler" where
  "generate_backup_codes e vault_id caller = (bindM (owned_locked_vault e vault_id caller) (\<lambda>vault.
                                             (let result = map (backup_code vault_id (ledger_timestamp e)) [0..<10] in
                                             thenM (set_pks (\<lambda>p. p\<lparr>p_BackupCodes := (p_BackupCodes p)(vault_id \<mapsto> map (\<lambda>c. \<lparr>bk_code = c, bk_used = False\<rparr>) result)\<rparr>)) (
                                             thenM (extend_ttl (K_BackupCodes vault_id) VAULT_TTL_THRESHOLD (vault_ttl_ledgers (v_check_in_interval vault))) (
                                             thenM (extend_instance_ttl) (
                                             thenM (publish BACKUP_CODES_GENERATED_TOPIC [VU vault_id] [VU 10]) (
                                             returnM result)))))))"

text \<open>The loop over the stored codes: the first equal one is marked, or refused if it was used.\<close>

fun mark_used :: "string \<Rightarrow> BackupCode list \<Rightarrow> failure + BackupCode list" where
  "mark_used code [] = Inl (Err InvalidBackupCode)"
| "mark_used code (b # bs) =
     (if bk_code b = code then if bk_used b then Inl (Err BackupCodeAlreadyUsed) else Inr (b\<lparr>bk_used := True\<rparr> # bs)
      else case mark_used code bs of Inl err \<Rightarrow> Inl err | Inr bs' \<Rightarrow> Inr (b # bs'))"

definition use_backup_code :: "'tok env \<Rightarrow> nat \<Rightarrow> string \<Rightarrow> ('tok, unit) handler" where
  "use_backup_code e vault_id code = (bindM (load_vault vault_id) (\<lambda>vault.
                                     thenM (guard (v_status vault = Locked) (Err AlreadyReleased)) (
                                     bindM (gets (\<lambda>w. p_BackupCodes (pks w) vault_id)) (\<lambda>stored.
                                     bindM (ok_or stored (Err InvalidBackupCode)) (\<lambda>codes.
                                     bindM (of_sum (mark_used code codes)) (\<lambda>marked.
                                     thenM (save_vault vault_id (vault\<lparr>v_last_check_in := ledger_timestamp e\<rparr>)) (
                                     thenM (set_pks (\<lambda>p. p\<lparr>p_BackupCodes := (p_BackupCodes p)(vault_id \<mapsto> marked)\<rparr>)) (
                                     thenM (extend_ttl (K_BackupCodes vault_id) VAULT_TTL_THRESHOLD (vault_ttl_ledgers (v_check_in_interval vault))) (
                                     thenM (extend_instance_ttl) (
                                     publish BACKUP_CODE_USED_TOPIC [VU vault_id] [VS code]))))))))))"

subsection \<open>Recovery\<close>

definition initiate_passkey_recovery ::
  "'tok env \<Rightarrow> nat \<Rightarrow> bytes \<Rightarrow> string \<Rightarrow> address list \<Rightarrow> nat \<Rightarrow> ('tok, unit) handler" where
  "initiate_passkey_recovery e vault_id new_passkey_hash recovery_code contacts required = (thenM (guard (required \<noteq> 0 \<and> required \<le> length contacts) (Err InvalidThreshold)) (
                                                                                           thenM (set_feat (\<lambda>f. f\<lparr>p_PasskeyRecoveryRequest := (p_PasskeyRecoveryRequest f)(vault_id \<mapsto>
       \<lparr>pr_new_passkey_hash = new_passkey_hash, pr_initiated_at = ledger_timestamp e, pr_recovery_code = recovery_code,
        pr_approved_contacts = [], pr_required_contacts = required\<rparr>)\<rparr>)) (
                                                                                           thenM (set_feat (\<lambda>f. f\<lparr>p_RecoveryContacts := (p_RecoveryContacts f)(vault_id \<mapsto> contacts)\<rparr>)) (
                                                                                           publish PASSKEY_RECOVERY_INITIATED_TOPIC [VU vault_id] [VB new_passkey_hash]))))"

definition approve_passkey_recovery :: "'tok env \<Rightarrow> nat \<Rightarrow> address \<Rightarrow> ('tok, unit) handler" where
  "approve_passkey_recovery e vault_id caller = (thenM (require_auth e caller) (
                                                bindM (gets (\<lambda>w. p_RecoveryContacts (feat w) vault_id)) (\<lambda>found.
                                                bindM (ok_or found (Err NotRecoveryContact)) (\<lambda>contacts.
                                                thenM (guard (caller \<in> set contacts) (Err NotRecoveryContact)) (
                                                bindM (gets (\<lambda>w. p_PasskeyRecoveryRequest (feat w) vault_id)) (\<lambda>request.
                                                bindM (ok_or request (Err NotRecoveryContact)) (\<lambda>req.
                                                thenM (guard (caller \<notin> set (pr_approved_contacts req)) (Err AlreadyApproved)) (
                                                (let approved_contacts = pr_approved_contacts req @ [caller] in
                                                if pr_required_contacts req \<le> length approved_contacts then (bindM (load_passkeys vault_id) (\<lambda>passkeys.
                                                                     thenM (set_pks (\<lambda>p. p\<lparr>p_VaultPasskeys := (p_VaultPasskeys p)(vault_id \<mapsto> passkeys @
         [\<lparr>pk_hash = pr_new_passkey_hash req, pk_added_at = ledger_timestamp e, pk_biometric_hash = None\<rparr>])\<rparr>)) (
                                                                     thenM (set_feat (\<lambda>f. f\<lparr>p_PasskeyRecoveryRequest := (p_PasskeyRecoveryRequest f)(vault_id := None)\<rparr>)) (
                                                                     publish PASSKEY_RECOVERED_TOPIC [VU vault_id] [VB (pr_new_passkey_hash req)])))) else set_feat (\<lambda>f. f\<lparr>p_PasskeyRecoveryRequest := (p_PasskeyRecoveryRequest f)(vault_id \<mapsto>
         req\<lparr>pr_approved_contacts := approved_contacts\<rparr>)\<rparr>))))))))))"

definition generate_recovery_code :: "'tok env \<Rightarrow> bytes \<Rightarrow> nat \<Rightarrow> ('tok, bytes) handler" where
  "generate_recovery_code e code vault_id = (bindM (load_vault vault_id) (\<lambda>vault.
                                            thenM (require_auth e (v_owner vault)) (
                                            thenM (guard (v_status vault = Locked) (Err AlreadyReleased)) (
                                            (let code_hash = sha256 e code in
                                            thenM (set_feat (\<lambda>f. f\<lparr>p_RecoveryCodeHash := (p_RecoveryCodeHash f)(vault_id \<mapsto> code_hash)\<rparr>)) (
                                            thenM (extend_ttl (DataKey ''RecoveryCodeHash'' [VU vault_id]) VAULT_TTL_THRESHOLD (vault_ttl_ledgers (v_check_in_interval vault))) (
                                            thenM (extend_instance_ttl) (
                                            thenM (publish EMERGENCY_RECOVERY_GENERATED_TOPIC [VU vault_id] [VB code_hash]) (
                                            returnM code)))))))))"

definition recover_with_code :: "'tok env \<Rightarrow> nat \<Rightarrow> bytes \<Rightarrow> bytes \<Rightarrow> ('tok, unit) handler" where
  "recover_with_code e vault_id recovery_code new_passkey_proof = (bindM (load_vault vault_id) (\<lambda>vault.
                                                                  thenM (guard (v_status vault = Locked) (Err AlreadyReleased)) (
                                                                  bindM (gets (\<lambda>w. p_RecoveryCodeHash (feat w) vault_id)) (\<lambda>stored.
                                                                  bindM (ok_or stored (Err RecoveryCodeNotSet)) (\<lambda>stored_hash.
                                                                  thenM (guard (sha256 e recovery_code = stored_hash) (Err InvalidRecoveryCode)) (
                                                                  (let now = ledger_timestamp e in
                                                                  thenM (set_pks (\<lambda>p. p\<lparr>p_VaultPasskeys := (p_VaultPasskeys p)(vault_id \<mapsto>
       [\<lparr>pk_hash = new_passkey_proof, pk_added_at = now, pk_biometric_hash = None\<rparr>])\<rparr>)) (
                                                                  thenM (save_vault vault_id (vault\<lparr>v_passkey_hash := Some new_passkey_proof, v_last_check_in := now\<rparr>)) (
                                                                  thenM (set_feat (\<lambda>f. f\<lparr>p_RecoveryCodeHash := (p_RecoveryCodeHash f)(vault_id := None)\<rparr>)) (
                                                                  thenM (extend_ttl (K_VaultPasskeys vault_id) VAULT_TTL_THRESHOLD (vault_ttl_ledgers (v_check_in_interval vault))) (
                                                                  thenM (extend_instance_ttl) (
                                                                  publish EMERGENCY_RECOVERY_USED_TOPIC [VU vault_id] [VB new_passkey_proof]))))))))))))"

definition has_recovery_code :: "'tok world \<Rightarrow> nat \<Rightarrow> bool" where
  "has_recovery_code w vault_id = (p_RecoveryCodeHash (feat w) vault_id \<noteq> None)"

definition set_recovery_contact :: "'tok env \<Rightarrow> nat \<Rightarrow> address \<Rightarrow> address \<Rightarrow> ('tok, unit) handler" where
  "set_recovery_contact e vault_id caller contact = (bindM (owned_locked_vault e vault_id caller) (\<lambda>vault.
                                                    thenM (extend_instance_ttl) (
                                                    publish SET_RECOVERY_TOPIC [VU vault_id] [VA contact])))"

definition request_recovery_extension :: "'tok env \<Rightarrow> nat \<Rightarrow> address \<Rightarrow> ('tok, unit) handler" where
  "request_recovery_extension e vault_id caller = (thenM (require_auth e caller) (
                                                  bindM (load_vault vault_id) (\<lambda>vault.
                                                  thenM (guard (v_status vault = Locked) (Err AlreadyReleased)) (
                                                  thenM (save_vault vault_id (vault\<lparr>v_last_check_in := ledger_timestamp e\<rparr>)) (
                                                  thenM (extend_instance_ttl) (
                                                  publish RECOVERY_EXTEND_TOPIC [VU vault_id] [VA caller]))))))"

subsection \<open>Two-factor codes\<close>

definition enable_2fa :: "'tok env \<Rightarrow> nat \<Rightarrow> address \<Rightarrow> nat \<Rightarrow> ('tok, unit) handler" where
  "enable_2fa e vault_id caller meth = (bindM (owned_vault e vault_id caller) (\<lambda>vault.
                                       thenM (set_feat (\<lambda>f. f\<lparr>p_TwoFactorConfig := (p_TwoFactorConfig f)(vault_id \<mapsto> \<lparr>tf_enabled = True, tf_method = meth\<rparr>)\<rparr>)) (
                                       thenM (extend_ttl (DataKey ''TwoFactorConfig'' [VU vault_id]) VAULT_TTL_THRESHOLD VAULT_TTL_LEDGERS) (
                                       publish TWO_FACTOR_ENABLED_TOPIC [VU vault_id] [VU meth]))))"

definition disable_2fa :: "'tok env \<Rightarrow> nat \<Rightarrow> address \<Rightarrow> ('tok, unit) handler" where
  "disable_2fa e vault_id caller = (bindM (owned_vault e vault_id caller) (\<lambda>vault.
                                   thenM (set_feat (\<lambda>f. f\<lparr>p_TwoFactorConfig := (p_TwoFactorConfig f)(vault_id := None)\<rparr>)) (
                                   thenM (set_feat (\<lambda>f. f\<lparr>p_TwoFactorVerified := (p_TwoFactorVerified f)(vault_id := None)\<rparr>)) (
                                   publish TWO_FACTOR_DISABLED_TOPIC [VU vault_id] []))))"

definition is_2fa_enabled :: "'tok world \<Rightarrow> nat \<Rightarrow> bool" where
  "is_2fa_enabled w vault_id = (case p_TwoFactorConfig (feat w) vault_id of None \<Rightarrow> False | Some c \<Rightarrow> tf_enabled c)"

definition confirm_2fa :: "'tok env \<Rightarrow> nat \<Rightarrow> address \<Rightarrow> ('tok, unit) handler" where
  "confirm_2fa e vault_id caller = (bindM (owned_vault e vault_id caller) (\<lambda>vault.
                                   bindM (gets (\<lambda>w. is_2fa_enabled w vault_id)) (\<lambda>enabled.
                                   thenM (guard enabled (Err TwoFactorNotEnabled)) (
                                   thenM (set_feat (\<lambda>f. f\<lparr>p_TwoFactorVerified := (p_TwoFactorVerified f)(vault_id \<mapsto> ledger_timestamp e)\<rparr>)) (
                                   thenM (extend_ttl (DataKey ''TwoFactorVerified'' [VU vault_id]) VAULT_TTL_THRESHOLD VAULT_TTL_LEDGERS) (
                                   publish TWO_FACTOR_VERIFIED_TOPIC [VU vault_id] [VU (ledger_timestamp e)]))))))"

definition is_2fa_verified :: "'tok env \<Rightarrow> nat \<Rightarrow> ('tok, bool) handler" where
  "is_2fa_verified e vault_id = (bindM (gets (\<lambda>w. p_TwoFactorVerified (feat w) vault_id)) (\<lambda>found.
                                case found of
       None \<Rightarrow> returnM False
     | Some ts \<Rightarrow> (bindM (add64 ts 3600) (\<lambda>until.
                             returnM (ledger_timestamp e \<le> until)))))"

subsection \<open>Frames\<close>

lemma keeps_save_passkeys [frame]: "keeps accts (save_passkeys i v ks)"
  unfolding save_passkeys_def by (intro frame)

lemma keeps_passkeys [frame]:
  "keeps accts (add_passkey e i c h)" "keeps accts (remove_passkey e i c h)" "keeps accts (bind_passkey_biometric e i c h b)"
  "keeps accts (unbind_passkey_biometric e i c h)" "keeps accts (report_passkey_compromise e i c h)"
  "keeps accts (clear_passkey_compromise e i c h)" "keeps accts (extend_passkey_expiry e i c h n)"
  "keeps accts (delegate_passkey e i c h a n)" "keeps accts (revoke_passkey_delegation e i c h)"
  "keeps accts (escrow_passkey e i c h a)" "keeps accts (release_escrow_passkey e i c h)" "keeps accts (cancel_passkey_escrow e i c h)"
  "keeps accts (lockout_vault e i n)" "keeps accts (unlock_vault e i c)" "keeps accts (set_passkey_rotation_policy e i c n b')"
  "keeps accts (enforce_passkey_rotation e i h)" "keeps accts (record_passkey_rotation e i h)"
  "keeps accts (generate_backup_codes e i c)" "keeps accts (initiate_passkey_recovery e i h s cs n)"
  "keeps accts (approve_passkey_recovery e i c)" "keeps accts (generate_recovery_code e h i)"
  "keeps accts (set_recovery_contact e i c a)" "keeps accts (enable_2fa e i c n)" "keeps accts (disable_2fa e i c)"
  "keeps accts (confirm_2fa e i c)" "keeps accts (is_2fa_verified e i)"
  unfolding add_passkey_def remove_passkey_def bind_passkey_biometric_def unbind_passkey_biometric_def report_passkey_compromise_def
    clear_passkey_compromise_def extend_passkey_expiry_def delegate_passkey_def revoke_passkey_delegation_def escrow_passkey_def
    release_escrow_passkey_def cancel_passkey_escrow_def lockout_vault_def unlock_vault_def set_passkey_rotation_policy_def
    enforce_passkey_rotation_def record_passkey_rotation_def generate_backup_codes_def initiate_passkey_recovery_def
    approve_passkey_recovery_def generate_recovery_code_def set_recovery_contact_def enable_2fa_def disable_2fa_def confirm_2fa_def
    is_2fa_verified_def
  by (intro frame)+

lemma wp_validate_passkey: "(\<And>t. accts t = accts w \<Longrightarrow> Q () t) \<Longrightarrow> wp (validate_passkey_for_checkin i v h n) Q w"
  by (rule wp_checkin_frame) simp

lemma keeps_passkey_saves:
  "keeps purse (rotate_passkey e i c h h')" "keeps heirs (rotate_passkey e i c h h')" "keeps statuses (rotate_passkey e i c h h')"
  "keeps purse (use_backup_code e i s)" "keeps heirs (use_backup_code e i s)" "keeps statuses (use_backup_code e i s)"
  "keeps purse (recover_with_code e i k h)" "keeps heirs (recover_with_code e i k h)" "keeps statuses (recover_with_code e i k h)"
  "keeps purse (request_recovery_extension e i c)" "keeps heirs (request_recovery_extension e i c)"
  "keeps statuses (request_recovery_extension e i c)" "keeps purse (biometric_check_in e i c h b)"
  "keeps heirs (biometric_check_in e i c h b)" "keeps statuses (biometric_check_in e i c h b)"
  unfolding biometric_check_in_def load_passkeys_def rotate_passkey_def use_backup_code_def recover_with_code_def request_recovery_extension_def
  by (rule keeps_wpI; auto simp: wp_simps view_defs accts_def fun_eq_iff plan_defs Let_def intro!: wp_checkin_frame)+

end
