(* ===== verification/Vault_Safety.thy ===== *)
theory Vault_Safety
  imports Vesting_Effects Vault_Passkeys Transition_Systems
begin

section \<open>Safety of every history of the contract\<close>

text \<open>
  The entry points as transactions on the ledger, the transition system they generate, and the
  properties of every state it can reach from an empty contract: the contract owns at least
  what its vaults record, no split promises more than the whole, and a vault's status only ever
  moves from \<open>Locked\<close> to \<open>Released\<close> or \<open>Cancelled\<close>.
\<close>

subsection \<open>The invariant\<close>

definition safe :: "('tok \<Rightarrow> address \<Rightarrow> address \<Rightarrow> int) \<Rightarrow> address \<Rightarrow> 'tok world \<Rightarrow> bool" where
  "safe bal self w \<longleftrightarrow> solvent bal self w \<and> splits_ok w"

lemma safe_accts: "keeps accts m \<Longrightarrow> safe bal self w \<Longrightarrow> wp m (\<lambda>_. safe bal self) w"
  unfolding safe_def wp_conj by (auto intro: keeps_solvent keeps_splits)

lemma safe_views:
  "keeps purse m \<Longrightarrow> keeps heirs m \<Longrightarrow> safe bal self w \<Longrightarrow> wp m (\<lambda>_. safe bal self) w"
  unfolding safe_def wp_conj by (auto intro: keeps_purse_solvent keeps_heirs_splits)

lemma safe_purse:
  "keeps purse m \<Longrightarrow> wp m (\<lambda>_. splits_ok) w \<Longrightarrow> safe bal self w \<Longrightarrow> wp m (\<lambda>_. safe bal self) w"
  unfolding safe_def wp_conj by (auto intro: keeps_purse_solvent)

text \<open>
  What one call may do to the statuses: nothing, open a new vault, cancel a locked one, release a locked
  one whose deadline has passed, or cancel a released one by executing an approved proposal of its
  co-signers. Over histories: \<open>Locked\<close>, then \<open>Released\<close>, then \<open>Cancelled\<close>.
\<close>

definition overdue :: "'tok env \<Rightarrow> 'tok world \<Rightarrow> nat \<Rightarrow> bool" where
  "overdue e w i \<longleftrightarrow> (\<exists>v. p_Vault w i = Some v \<and> expired (ledger_timestamp e) v (p_Hibernation (rel w) i))"

definition cosigned :: "'tok env \<Rightarrow> 'tok world \<Rightarrow> nat \<Rightarrow> bool" where
  "cosigned e w i \<longleftrightarrow> (\<exists>n v p. executes e i n (v_owner v) v p w)"

definition status_changes :: "'tok env \<Rightarrow> 'tok world \<Rightarrow> 'tok world \<Rightarrow> bool" where
  "status_changes e w t \<longleftrightarrow> (\<forall>i. statuses t i = statuses w i \<or>
     statuses w i = None \<and> statuses t i = Some Locked \<or>
     statuses w i = Some Locked \<and> statuses t i = Some Cancelled \<or>
     statuses w i = Some Locked \<and> statuses t i = Some Released \<and> overdue e w i \<or>
     statuses w i \<noteq> None \<and> statuses t i = Some Cancelled \<and> cosigned e w i)"

definition status_evolves :: "'tok world \<Rightarrow> 'tok world \<Rightarrow> bool" where
  "status_evolves w t \<longleftrightarrow> (\<forall>i. statuses t i = statuses w i \<or> statuses w i = None \<or>
     statuses w i = Some Locked \<and> statuses t i \<noteq> None \<or>
     statuses w i \<noteq> None \<and> statuses t i = Some Cancelled)"

lemma status_evolves_refl: "status_evolves w w"
  by (simp add: status_evolves_def)

lemma status_evolves_trans: "status_evolves w t \<Longrightarrow> status_evolves t u \<Longrightarrow> status_evolves w u"
  unfolding status_evolves_def
  by (metis option.distinct(1) option.inject ReleaseStatus.distinct(3))

lemma status_changes_evolves: "status_changes e w t \<Longrightarrow> status_evolves w t"
  unfolding status_changes_def status_evolves_def by fastforce

lemma status_same: "statuses t = statuses w \<Longrightarrow> status_changes e w t"
  by (simp add: status_changes_def)

lemma status_keeps: "keeps statuses m \<Longrightarrow> wp m (\<lambda>_. status_changes e w) w"
  by (erule wp_keeps) (rule status_same)

lemma status_accts: "keeps accts m \<Longrightarrow> wp m (\<lambda>_. status_changes e w) w"
  by (intro status_keeps keeps_accts_views)

lemma statuses_save:
  "p_Vault w i = Some v \<Longrightarrow> p_Vault t = (p_Vault w)(i \<mapsto> v') \<Longrightarrow> v_status v' = v_status v \<Longrightarrow> statuses t = statuses w"
  by (auto simp: statuses_def fun_eq_iff)

lemma status_save:
  assumes "p_Vault w i = Some v" "p_Vault t = (p_Vault w)(i \<mapsto> v')"
    "v_status v' = v_status v \<or> v_status v = Locked \<and> v_status v' = Cancelled \<or>
     v_status v = Locked \<and> v_status v' = Released \<and> expired (ledger_timestamp e) v (p_Hibernation (rel w) i) \<or>
     v_status v' = Cancelled \<and> cosigned e w i"
  shows "status_changes e w t"
  using assms by (cases "v_status v") (auto simp: status_changes_def statuses_def overdue_def)

subsection \<open>Entry points\<close>

text \<open>
  The entry points of the modelled part of the contract, in six groups: those that change
  neither a vault's money nor its split (\<open>quiet\<close>), those that save a vault with the same money
  and heirs (\<open>retimed\<close>), those that change the split or the terms of the release (\<open>resplit\<close>),
  those that write a vesting plan (\<open>planning\<close>) or pay out of a released vault by one
  (\<open>drawing\<close>), and the others that move money (\<open>paying\<close>). Left out are \<open>cancel_vesting_schedule\<close>, \<open>rollback_withdrawal\<close>,
  \<open>reverse_withdrawal\<close> and \<open>verify_withdrawal_escrow\<close>, which do not keep the contract solvent;
  \<open>batch_withdraw\<close> is admitted for distinct vaults only and \<open>decline_beneficiary_role\<close> where no
  forfeiture is configured, for the same reason.
\<close>

definition ignore :: "('tok, 'a) handler \<Rightarrow> ('tok, unit) handler" where
  "ignore m = thenM m (returnM ())"

lemma wp_ignore [wp_simps]: "wp (ignore m) Q w = wp m (\<lambda>_. Q ()) w"
  by (auto simp: ignore_def wp_def bindM_def returnM_def split: sum.splits)

lemma keeps_ignore: "keeps f m \<Longrightarrow> keeps f (ignore m)"
  unfolding ignore_def by (intro frame)

inductive quiet :: "'tok env \<Rightarrow> ('tok, unit) handler \<Rightarrow> bool"
  for e where
  initialize_entry: "quiet e (initialize e tk a)"
| pause_entry: "quiet e (pause e r)"
| unpause_entry: "quiet e (unpause e)"
| set_min_interval_entry: "quiet e (set_min_check_in_interval e n)"
| set_max_interval_entry: "quiet e (set_max_check_in_interval e n)"
| set_max_ttl_entry: "quiet e (set_max_ttl_seconds e n)"
| set_decay_rate_entry: "quiet e (set_ttl_decay_rate e n)"
| set_cooldown_entry: "quiet e (set_min_checkin_cooldown e n)"
| whitelist_entry: "quiet e (whitelist_token e tk)"
| unwhitelist_entry: "quiet e (remove_token_whitelist e tk)"
| wrap_entry: "quiet e (register_wrapped_token e tk b)"
| unwrap_entry: "quiet e (unregister_wrapped_token e tk)"
| bridge_entry: "quiet e (register_bridge e n b)"
| unbridge_entry: "quiet e (deactivate_bridge e n)"
| upgrade_entry: "quiet e (upgrade e r)"
| owner_limit_entry: "quiet e (set_owner_vault_limit e n)"
| beneficiary_limit_entry: "quiet e (set_beneficiary_vault_limit e n)"
| propose_config_entry: "quiet e (propose_protocol_config e pc)"
| apply_config_entry: "quiet e (apply_protocol_config e)"
| propose_new_admin_entry: "quiet e (propose_new_admin e a)"
| propose_admin_entry: "quiet e (propose_admin e a)"
| accept_admin_entry: "quiet e (accept_admin e)"
| withdrawal_limits_entry: "quiet e (set_withdrawal_limits e i c x y z)"
| add_whitelist_entry: "quiet e (add_whitelist_address e i c a s)"
| remove_whitelist_entry: "quiet e (remove_whitelist_address e i c a)"
| proof_entry: "quiet e (ignore (generate_withdrawal_proof e i x))"
| escrow_entry: "quiet e (create_withdrawal_escrow e i x a c)"
| rate_limit_entry: "quiet e (set_withdrawal_rate_limit e i n c)"
| schedule_withdrawal_entry: "quiet e (schedule_withdrawal e i c n x)"
| hibernate_entry: "quiet e (enter_hibernation e i c n)"
| add_delegate_entry: "quiet e (add_check_in_delegate e i c a)"
| remove_delegate_entry: "quiet e (remove_check_in_delegate e i c a)"
| ping_entry: "quiet e (ignore (ping_expiry e i))"
| countdown_config_entry: "quiet e (set_countdown_config e i c ns)"
| countdown_entry: "quiet e (ignore (check_countdown e i))"
| predict_entry: "quiet e (ignore (predict_expiry i))"
| conditions_entry: "quiet e (set_release_conditions e i c cs)"
| restore_entry: "quiet e (restore_vault i)"
| archive_entry: "quiet e (archive_vault e i c)"
| triggers_entry: "quiet e (set_beneficiary_release_triggers e i c a ts)"
| tier_entry: "quiet e (set_beneficiary_tier_threshold e i c a x)"
| accept_role_entry: "quiet e (accept_beneficiary_role e i c)"
| veto_entry: "quiet e (veto_release_condition e i c)"
| revoke_veto_entry: "quiet e (revoke_veto_release_condition e i c)"
| proof_of_life_entry: "quiet e (submit_proof_of_life e i c n)"
| vote_threshold_entry: "quiet e (set_release_vote_threshold e i c n)"
| vote_entry: "quiet e (cast_release_vote e i c y)"
| accept_conditions_entry: "quiet e (accept_with_conditions e i s)"
| approve_conditions_entry: "quiet e (approve_conditional_acceptance e i)"
| acceptance_deadline_entry: "quiet e (set_acceptance_deadline e i n)"
| accept_threshold_entry: "quiet e (accept_with_threshold e i x)"
| update_beneficiary_entry: "quiet e (update_beneficiary e i c a)"
| initiate_transfer_entry: "quiet e (ignore (initiate_ownership_transfer e i c a))"
| cancel_transfer_entry: "quiet e (cancel_ownership_transfer e i c)"
| expire_transfer_entry: "quiet e (expire_ownership_transfer e i)"
| configure_multisig_entry: "quiet e (configure_multisig e i c ss n)"
| remove_multisig_entry: "quiet e (remove_multisig e i c)"
| remove_signer_entry: "quiet e (remove_multisig_signer e i c a)"
| propose_multisig_entry: "quiet e (ignore (propose_multisig e i c op pl ap))"
| approve_multisig_entry: "quiet e (approve_multisig e i n c)"
| reject_multisig_entry: "quiet e (reject_multisig e i n c)"
| veto_proposal_entry: "quiet e (veto_proposal e i n c)"
| rollover_entry: "quiet e (set_vesting_rollover e i c b)"
| forfeiture_entry: "quiet e (set_vesting_forfeiture e i c a)"
| acceleration_entry: "quiet e (set_vesting_acceleration e i c a)"
| accelerate_vesting_entry: "quiet e (accelerate_vesting e i c)"
| catchup_entry: "quiet e (set_vesting_catchup e i c b n)"
| bonus_entry: "quiet e (set_vesting_bonus e i c n m)"
| beneficiary_vesting_entry: "quiet e (set_beneficiary_vesting e i c a p q r s)"
| add_passkey_entry: "quiet e (add_passkey e i c h)"
| remove_passkey_entry: "quiet e (remove_passkey e i c h)"
| bind_biometric_entry: "quiet e (bind_passkey_biometric e i c h k)"
| unbind_biometric_entry: "quiet e (unbind_passkey_biometric e i c h)"
| compromise_entry: "quiet e (report_passkey_compromise e i c h)"
| clear_compromise_entry: "quiet e (clear_passkey_compromise e i c h)"
| passkey_expiry_entry: "quiet e (extend_passkey_expiry e i c h n)"
| delegate_passkey_entry: "quiet e (delegate_passkey e i c h a n)"
| revoke_delegation_entry: "quiet e (revoke_passkey_delegation e i c h)"
| escrow_passkey_entry: "quiet e (escrow_passkey e i c h a)"
| release_passkey_entry: "quiet e (release_escrow_passkey e i c h)"
| cancel_passkey_entry: "quiet e (cancel_passkey_escrow e i c h)"
| lockout_entry: "quiet e (lockout_vault e i n)"
| unlock_entry: "quiet e (unlock_vault e i c)"
| rotation_policy_entry: "quiet e (set_passkey_rotation_policy e i c n enf)"
| enforce_rotation_entry: "quiet e (ignore (enforce_passkey_rotation e i h))"
| record_rotation_entry: "quiet e (record_passkey_rotation e i h)"
| backup_codes_entry: "quiet e (ignore (generate_backup_codes e i c))"
| initiate_recovery_entry: "quiet e (initiate_passkey_recovery e i h s cs n)"
| approve_recovery_entry: "quiet e (approve_passkey_recovery e i c)"
| recovery_code_entry: "quiet e (ignore (generate_recovery_code e h i))"
| recovery_contact_entry: "quiet e (set_recovery_contact e i c a)"
| enable_2fa_entry: "quiet e (enable_2fa e i c n)"
| disable_2fa_entry: "quiet e (disable_2fa e i c)"
| confirm_2fa_entry: "quiet e (confirm_2fa e i c)"

inductive retimed :: "'tok env \<Rightarrow> ('tok, unit) handler \<Rightarrow> bool"
  for e where
  exit_hibernation_entry: "retimed e (exit_hibernation e i c)"
| accelerate_entry: "retimed e (accelerate_ttl_decay e i c n)"
| borrow_entry: "retimed e (borrow_ttl e i j c n)"
| repay_entry: "retimed e (repay_ttl_borrow e i c)"
| decay_entry: "retimed e (ignore (apply_ttl_decay e i))"
| sync_entry: "retimed e (sync_vault_ttls e is c)"
| batch_check_in_v2_entry: "retimed e (batch_check_in_v2 e is c h)"
| check_in_pow_entry: "retimed e (check_in_with_pow e i c h n m)"
| update_interval_entry: "retimed e (update_check_in_interval e i n)"
| condition_entry: "retimed e (set_release_condition e i c k)"
| pause_vault_entry: "retimed e (pause_vault e i c)"
| resume_vault_entry: "retimed e (resume_vault e i c)"
| apply_beneficiary_entry: "retimed e (apply_beneficiary_update e i c)"
| accept_transfer_entry: "retimed e (accept_ownership_transfer e i a)"
| transfer_entry: "retimed e (transfer_ownership e i c a)"
| rotate_passkey_entry: "retimed e (rotate_passkey e i c h h')"
| biometric_entry: "retimed e (biometric_check_in e i c h k)"
| backup_code_entry: "retimed e (use_backup_code e i s)"
| recover_entry: "retimed e (recover_with_code e i k h)"
| recovery_extension_entry: "retimed e (request_recovery_extension e i c)"

inductive resplit :: "'tok env \<Rightarrow> ('tok, unit) handler \<Rightarrow> bool"
  for e where
  batch_check_in_entry: "resplit e (batch_check_in e is c)"
| spending_limit_entry: "resplit e (set_spending_limit e i l)"
| burn_entry: "resplit e (set_burn_percentage e i n)"
| set_beneficiaries_entry: "resplit e (set_beneficiaries e i c bs)"
| add_beneficiary_entry: "resplit e (add_beneficiary e i c a n)"
| remove_beneficiary_entry: "resplit e (remove_beneficiary e i c a)"
| min_threshold_entry: "resplit e (set_ben_min_threshold e i c a x)"
| rotation_entry: "resplit e (schedule_beneficiary_rotation e i c n bs)"

inductive planning :: "'tok env \<Rightarrow> ('tok, unit) handler \<Rightarrow> bool"
  for e where
  schedule_entry: "planning e (ignore (set_vesting_schedule e i c p q r x y))"
| penalty_entry: "planning e (set_vesting_penalty e i c p q)"
| stagger_entry: "planning e (set_vesting_stagger e i c es)"
| initiate_claim_entry: "planning e (ignore (initiate_vesting_claim e i n))"
| reverse_claim_entry: "planning e (reverse_vesting_claim e i c)"
| milestones_entry: "planning e (set_milestone_vesting e i c ms a)"
| pause_milestones_entry: "planning e (pause_milestone_vesting e i c)"
| resume_milestones_entry: "planning e (resume_milestone_vesting e i c)"
| adjust_milestones_entry: "planning e (adjust_milestone_targets e i c ts)"
| fulfill_milestones_entry: "planning e (emergency_fulfill_milestones e i c ks)"
| report_milestones_entry: "planning e (report_milestone_progress e i ks xs)"

inductive drawing :: "'tok env \<Rightarrow> ('tok, unit) handler \<Rightarrow> bool"
  for e where
  claim_entry: "drawing e (ignore (claim_vested_installment e i))"
| catchup_claim_entry: "drawing e (ignore (claim_catchup_vesting e i))"
| bonus_claim_entry: "drawing e (ignore (claim_with_bonus e i))"
| finalize_claim_entry: "drawing e (ignore (finalize_vesting_claim e i))"
| stagger_claim_entry: "drawing e (ignore (claim_staggered_vesting e i c))"
| milestone_claim_entry: "drawing e (ignore (claim_milestone_installments e i))"
| beneficiary_claim_entry: "drawing e (ignore (claim_beneficiary_vesting e i c))"
| clawback_entry: "drawing e (ignore (clawback_unvested e i c))"

inductive paying :: "'tok env \<Rightarrow> 'tok world \<Rightarrow> ('tok, unit) handler \<Rightarrow> bool"
  for e w where
  create_entry: "paying e w (ignore (create_vault e ow a n tk))"
| check_in_entry: "paying e w (check_in e i c h n)"
| deposit_entry: "paying e w (deposit e i c x)"
| batch_deposit_entry: "paying e w (batch_deposit e c ds)"
| withdraw_entry: "paying e w (withdraw e i c x)"
| liquidate_entry: "paying e w (partial_liquidate e i x n)"
| batch_withdraw_entry: "distinct is \<Longrightarrow> paying e w (batch_withdraw e is xs c)"
| release_entry: "paying e w (trigger_release e i)"
| release_manual_entry: "paying e w (trigger_release_manual e i)"
| panic_release_entry: "paying e w (panic_release e i c)"
| partial_release_entry: "paying e w (partial_release e i x)"
| cancel_entry: "paying e w (cancel_vault e i c)"
| decline_entry: "p_VestingForfeiture (vest w) i = None \<Longrightarrow> paying e w (decline_beneficiary_role e i c)"
| execute_entry: "paying e w (execute_multisig e i n c)"

definition entry :: "'tok env \<Rightarrow> 'tok world \<Rightarrow> ('tok, unit) handler \<Rightarrow> bool" where
  "entry e w m \<longleftrightarrow> quiet e m \<or> retimed e m \<or> resplit e m \<or> planning e m \<or> drawing e m \<or> paying e w m"

text \<open>
  A step of the contract: an entry point invoked under an honest host commits. A failing
  invocation changes nothing.
\<close>

definition vault_step ::
  "('tok \<Rightarrow> address \<Rightarrow> address \<Rightarrow> int) \<Rightarrow> address \<Rightarrow> 'tok world \<Rightarrow> 'tok world \<Rightarrow> bool" where
  "vault_step bal self w t \<longleftrightarrow> (\<exists>e m. host_ok e self bal \<and> entry e w m \<and> m w = Inr ((), t))"

text \<open>A freshly deployed contract: no vault, no counter, no schedule; anything else may be there.\<close>

definition deployed :: "('tok \<Rightarrow> address \<Rightarrow> address \<Rightarrow> int) \<Rightarrow> address \<Rightarrow> 'tok world \<Rightarrow> bool" where
  "deployed bal self w \<longleftrightarrow> p_Vault w = (\<lambda>_. None) \<and> count_of (idx w) = 0 \<and>
     plans w = (\<lambda>_. None, \<lambda>_. None, \<lambda>_. None, \<lambda>_. None, \<lambda>_. None) \<and> (\<forall>t. 0 \<le> bal (tokens w) t self)"

lemma quiet_keeps: "quiet e m \<Longrightarrow> keeps accts m"
  by (induction rule: quiet.induct) (intro frame keeps_ignore)+

lemma retimed_keeps: "retimed e m \<Longrightarrow> keeps purse m \<and> keeps heirs m \<and> keeps statuses m"
  by (induction rule: retimed.induct)
    (intro conjI keeps_ignore keeps_exit_hibernation keeps_accelerate keeps_borrow keeps_repay
      keeps_decay keeps_batches keeps_check_in_with_pow keeps_update_interval keeps_release_terms
      keeps_pause_vault keeps_apply_beneficiary_update keeps_transfers keeps_passkey_saves)+

lemma resplit_keeps: "resplit e m \<Longrightarrow> keeps purse m \<and> keeps statuses m"
  by (induction rule: resplit.induct)
    (intro conjI keeps_batches keeps_release_terms keeps_split_purse)+

lemma resplit_splits: "resplit e m \<Longrightarrow> splits_ok w \<Longrightarrow> wp m (\<lambda>_. splits_ok) w"
  by (induction rule: resplit.induct)
    (rule batch_check_in_splits set_limits_splits set_beneficiaries_splits add_beneficiary_splits
      remove_beneficiary_splits set_ben_min_threshold_splits schedule_rotation_splits; assumption)+

lemma planning_effect:
  assumes "planning e m" "safe bal self w"
  shows "wp m (\<lambda>_. replanned w) w"
proof -
  have s: "solvent bal self w" "splits_ok w" using assms(2) by (simp_all add: safe_def)
  show ?thesis
    using assms(1)
    by cases (simp_all only: wp_ignore set_schedule_effect set_penalty_effect set_stagger_effect
        initiate_claim_effect [OF s(2,1)] reverse_claim_effect set_milestone_effect [OF s(2,1)] milestone_updates_effect s)
qed

definition withdrawn :: "'tok env \<Rightarrow> 'tok world \<Rightarrow> 'tok world \<Rightarrow> bool" where
  "withdrawn e w t \<longleftrightarrow> (\<exists>i v ps amt. drawn e i v ps amt w t)"

lemma vest_paid_withdrawn:
  assumes "splits_ok w" "wp m (\<lambda>amt t. \<exists>v s u. vest_paid e i v s u amt w t) w"
  shows "wp m (\<lambda>_. withdrawn e w) w"
  by (rule wp_mono [OF assms(2)]) (auto simp: withdrawn_def dest!: vest_paid_drawn [OF assms(1)])

lemma drawing_effect:
  assumes "drawing e m" "safe bal self w"
  shows "wp m (\<lambda>_. withdrawn e w) w"
proof -
  have s: "solvent bal self w" "splits_ok w" using assms(2) by (simp_all add: safe_def)
  have claims: "wp (finalize_vesting_claim e i) (\<lambda>_. withdrawn e w) w"
    "wp (claim_staggered_vesting e i c) (\<lambda>_. withdrawn e w) w"
    "wp (claim_milestone_installments e i) (\<lambda>_. withdrawn e w) w"
    "wp (claim_beneficiary_vesting e i c) (\<lambda>_. withdrawn e w) w"
    "wp (clawback_unvested e i c) (\<lambda>_. withdrawn e w) w" for i c
    by (rule wp_mono [OF finalize_claim_effect [OF s(2)]] wp_mono [OF claim_staggered_effect [OF s(2,1)]]
        wp_mono [OF claim_milestone_effect [OF s(2)]] wp_mono [OF claim_beneficiary_effect [OF s(2)]]
        wp_mono [OF clawback_effect [OF s(2)]],
        auto simp: withdrawn_def tranche_paid_def milestone_paid_def)+
  note vested = claim_effects [OF s(2,1), THEN vest_paid_withdrawn [OF s(2)]]
  show ?thesis
    using assms(1) by cases (simp_all only: wp_ignore claims vested)
qed

lemma withdrawn_safe:
  assumes "safe bal self w" "host_ok e self bal" "withdrawn e w t"
  shows "safe bal self t"
  using assms drawn_solvent drawn_splits by (fastforce simp: safe_def withdrawn_def)

lemma withdrawn_status: "withdrawn e w t \<Longrightarrow> status_changes e w t"
  by (auto simp: withdrawn_def drawn_def intro: status_save)

lemma replanned_safe: "safe bal self w \<Longrightarrow> replanned w t \<Longrightarrow> safe bal self t"
  using replanned_solvent replanned_splits unfolding safe_def by blast

lemma replanned_status: "replanned w t \<Longrightarrow> status_changes e w t"
  by (simp add: replanned_def status_changes_def statuses_def)

lemma decline_keeps:
  assumes "p_VestingForfeiture (vest w) i = None"
  shows "wp (decline_beneficiary_role e i c) (\<lambda>_ t. accts t = accts w) w"
  using assms unfolding decline_beneficiary_role_def forfeit_unvested_def
  by (auto simp: wp_simps accts_def plan_defs Let_def)

lemma safe_wpI:
  "wp m (\<lambda>_. solvent bal self) w \<Longrightarrow> wp m (\<lambda>_. splits_ok) w \<Longrightarrow> wp m (\<lambda>_. safe bal self) w"
  unfolding safe_def by (rule wp_conj [THEN iffD2]) (rule conjI)

lemma safe_accts_eq: "accts t = accts w \<Longrightarrow> safe bal self w \<Longrightarrow> safe bal self t"
  unfolding safe_def using solvent_accts splits_accts by blast

lemma paying_safe:
  assumes "paying e w m" "safe bal self w" "host_ok e self bal"
  shows "wp m (\<lambda>_. safe bal self) w"
proof -
  have s: "solvent bal self w" "splits_ok w" using assms(2) by (simp_all add: safe_def)
  note h = assms(3)
  show ?thesis
    using assms(1)
  proof cases
    case (create_entry ow a n tk)
    show ?thesis
      unfolding create_entry wp_ignore
      by (rule safe_wpI) (rule create_vault_solvent create_vault_splits s)+
  next
    case (decline_entry i c)
    show ?thesis
      unfolding decline_entry(1)
      by (rule wp_mono [OF decline_keeps [OF decline_entry(2)]]) (rule safe_accts_eq [OF _ assms(2)])
  next
    case (panic_release_entry i c)
    show ?thesis
      unfolding panic_release_entry by (rule safe_wpI) (rule panic_release_safe s h)+
  qed (simp only: trigger_release_def trigger_release_manual_def, rule safe_wpI;
      (rule check_in_solvent check_in_splits deposit_solvent deposit_splits batch_deposit_solvent
        batch_deposit_splits withdraw_solvent withdraw_splits partial_liquidate_solvent
        partial_liquidate_splits batch_withdraw_solvent batch_withdraw_splits trigger_solvent
        trigger_splits partial_release_solvent partial_release_splits cancel_vault_solvent
        cancel_vault_splits execute_solvent execute_splits s h | assumption)+)+
qed

lemma entry_safe:
  assumes "entry e w m" "safe bal self w" "host_ok e self bal"
  shows "wp m (\<lambda>_. safe bal self) w"
  using assms(1) unfolding entry_def
proof (elim disjE)
  assume "quiet e m"
  then show ?thesis by (rule safe_accts [OF quiet_keeps assms(2)])
next
  assume "retimed e m"
  then show ?thesis using retimed_keeps safe_views [OF _ _ assms(2)] by blast
next
  assume "resplit e m"
  moreover have "splits_ok w" using assms(2) by (simp add: safe_def)
  ultimately show ?thesis using resplit_keeps resplit_splits safe_purse [OF _ _ assms(2)] by blast
next
  assume "planning e m"
  then show ?thesis by (rule wp_mono [OF planning_effect [OF _ assms(2)]]) (rule replanned_safe [OF assms(2)])
next
  assume "drawing e m"
  then show ?thesis by (rule wp_mono [OF drawing_effect [OF _ assms(2)]]) (rule withdrawn_safe [OF assms(2,3)])
next
  assume "paying e w m"
  then show ?thesis by (rule paying_safe [OF _ assms(2,3)])
qed

subsection \<open>Statuses only move forward\<close>

lemma status_batch_deposit: "wp (batch_deposit e c ds) (\<lambda>_. status_changes e w) w"
proof -
  let ?xs = "map (\<lambda>(i, a). (i, the (p_Vault w i), a)) ds"
  have loop: "wp (forM ?xs (credit_deposit d)) (\<lambda>_. wp extend_instance_ttl (\<lambda>_. status_changes e w)) (w\<lparr>tokens := tk\<rparr>)"
    if "\<forall>(i, a) \<in> set ds. 0 < a \<and> p_Vault w i \<noteq> None" for d tk
  proof (rule wp_forM_pre [where I = "\<lambda>t. statuses t = statuses w"])
    fix x and t :: "'a world" assume x: "x \<in> set ?xs" "statuses t = statuses w"
    then have "\<exists>i v a. x = (i, v, a) \<and> p_Vault w i = Some v" using that by fastforce
    then obtain i a v where v: "x = (i, v, a)" "p_Vault w i = Some v" by blast
    then have "statuses w i = Some (v_status v)" by (simp add: statuses_def)
    then show "wp (credit_deposit d x) (\<lambda>_ u. statuses u = statuses w) t"
      using x(2) v(1) by (auto simp: credit_deposit_def wp_simps statuses_def fun_eq_iff)
  qed (simp_all add: wp_simps statuses_def fun_eq_iff status_changes_def)
  show ?thesis
    unfolding batch_deposit_def
    by (auto simp: wp_simps Let_def status_changes_def statuses_def
        intro!: wp_mono [OF validate_deposits_effect] loop)
qed

lemma status_paid: "paid_out e i v to n w t \<Longrightarrow> statuses t = statuses w" "paid_in e i v to n w t \<Longrightarrow> statuses t = statuses w"
  by (auto simp: paid_out_def paid_in_def intro: statuses_save)

lemma status_batch_withdraw: "wp (batch_withdraw e ids xs c) (\<lambda>_. status_changes e w) w"
proof -
  have loop: "wp (forM (zip ids xs) (apply_withdrawal e c d)) (\<lambda>_. wp extend_instance_ttl (\<lambda>_. status_changes e w)) w"
    for d
  proof (rule wp_forM_pre [where I = "\<lambda>t. statuses t = statuses w"])
    fix x and t :: "'a world" assume "statuses t = statuses w"
    then show "wp (apply_withdrawal e c d x) (\<lambda>_ u. statuses u = statuses w) t"
      by (cases x) (auto intro!: wp_mono [OF apply_withdrawal_effect] dest: status_paid(1))
  qed (simp_all add: wp_simps status_changes_def statuses_def fun_eq_iff)
  show ?thesis
    unfolding batch_withdraw_def
    by (auto simp: wp_simps intro!: wp_mono [OF validate_withdrawals_effect] loop)
qed

lemma status_create:
  assumes "solvent bal self w"
  shows "wp (create_vault e ow a n tk) (\<lambda>_. status_changes e w) w"
proof -
  have fresh: "p_Vault w (Suc (count_of (idx w))) = None"
    using assms accounts_okD(2) [of bal self "p_Vault w" "count_of (idx w)" "tokens w" "Suc (count_of (idx w))"]
    by (cases "p_Vault w (Suc (count_of (idx w)))") (auto simp: solvent_def)
  show ?thesis
    using fresh
    by (auto simp: create_vault_def wp_simps index_defs log_defs assert_metadata_len_def
        get_owner_vault_limit_def new_vault_def status_changes_def statuses_def split: option.splits)
qed

lemma status_release:
  assumes "splits_ok w"
  shows "wp (trigger_release_internal e i mode) (\<lambda>_. status_changes e w) w"
  by (rule wp_mono [OF trigger_effect [OF assms]])
    (auto simp: release_allowed_def release_outcome_def refunded_def vested_def paid_release_def
      released_vault_def same_terms_def split: if_splits intro!: status_save)

lemma status_decline:
  assumes "p_VestingForfeiture (vest w) i = None"
  shows "wp (decline_beneficiary_role e i c) (\<lambda>_. status_changes e w) w"
  by (rule wp_mono [OF decline_keeps [OF assms]])
    (simp add: status_changes_def statuses_def accts_def)

lemma status_moves:
  "wp (check_in e i c h n) (\<lambda>_. status_changes e w) w" "wp (deposit e i c x) (\<lambda>_. status_changes e w) w"
  "wp (withdraw e i c x) (\<lambda>_. status_changes e w) w" "wp (partial_liquidate e i x n) (\<lambda>_. status_changes e w) w"
  "wp (partial_release e i x) (\<lambda>_. status_changes e w) w" "wp (cancel_vault e i c) (\<lambda>_. status_changes e w) w"
  by (rule wp_mono [OF check_in_effect] wp_mono [OF deposit_effect] wp_mono [OF withdraw_effect]
      wp_mono [OF partial_liquidate_effect] wp_mono [OF partial_release_effect]
      wp_mono [OF cancel_vault_effect],
      auto simp: checked_in_def same_terms_def partially_released_def cancelled_def
      intro: status_save status_same [OF status_paid(1)] status_same [OF status_paid(2)])+

lemma status_execute: "wp (execute_multisig e i n c) (\<lambda>_. status_changes e w) w"
proof (rule wp_mono [OF execute_effect], elim exE conjE)
  fix t v p assume "executes e i n c v p w" "operated e i v w t"
  moreover from this have "p_Vault w i = Some v" "cosigned e w i" by (auto simp: executes_def cosigned_def)
  ultimately show "status_changes e w t"
    unfolding operated_def
    by (auto simp: cancelled_def same_estate_def intro: status_save status_same dest: status_paid)
qed

lemma entry_status:
  assumes "entry e w m" "safe bal self w"
  shows "wp m (\<lambda>_. status_changes e w) w"
  using assms(1) unfolding entry_def
proof (elim disjE)
  assume "planning e m"
  then show ?thesis by (rule wp_mono [OF planning_effect [OF _ assms(2)]]) (rule replanned_status)
next
  assume "drawing e m"
  then show ?thesis by (rule wp_mono [OF drawing_effect [OF _ assms(2)]]) (rule withdrawn_status)
next
  assume "paying e w m"
  then show ?thesis
  proof cases
    case (create_entry ow a n tk)
    then show ?thesis using assms(2) by (auto simp: wp_ignore safe_def intro: status_create)
  next
    case (panic_release_entry i c)
    then show ?thesis
      using assms(2) by (simp add: panic_release_def wp_simps status_release safe_def)
  qed (use assms(2) in \<open>simp_all add: trigger_release_def trigger_release_manual_def status_moves
      status_batch_deposit status_batch_withdraw status_release status_decline status_execute safe_def\<close>)
qed (blast dest: quiet_keeps retimed_keeps resplit_keeps intro: status_keeps status_accts)+

subsection \<open>The contract as a transition system\<close>

lemma plans_ok_empty [simp]: "plans_ok (\<lambda>_. None, \<lambda>_. None, \<lambda>_. None, \<lambda>_. None, \<lambda>_. None)"
  by (simp add: plans_ok_def)

lemma deployed_safe: "deployed bal self w \<Longrightarrow> safe bal self w"
  by (simp add: deployed_def safe_def solvent_def accounts_ok_def splits_ok_def total_held_def)

lemma vault_step_wp:
  assumes "vault_step bal self w t" "\<And>e m. entry e w m \<Longrightarrow> host_ok e self bal \<Longrightarrow> wp m (\<lambda>_. P) w"
  shows "P t"
  using assms by (auto simp: vault_step_def dest: wpD)

interpretation contract:
  monotone_system "deployed bal self" "vault_step bal self" "safe bal self" status_evolves
  for bal :: "'tok \<Rightarrow> address \<Rightarrow> address \<Rightarrow> int" and self :: address
proof unfold_locales
  show "safe bal self s" if "deployed bal self s" for s using that by (rule deployed_safe)
  show "safe bal self t" if "safe bal self s" "vault_step bal self s t" for s t
    by (rule vault_step_wp [OF that(2)]) (rule entry_safe [OF _ that(1)])
  show "status_evolves s t" if "safe bal self s" "vault_step bal self s t" for s t
    by (rule vault_step_wp [OF that(2)]) (rule wp_mono [OF entry_status [OF _ that(1)] status_changes_evolves])
qed (rule status_evolves_refl, rule status_evolves_trans)

end
