(* ===== verification/Vault_Scenario.thy ===== *)
theory Vault_Scenario
  imports Vault_Safety
begin

section \<open>A concrete history\<close>

text \<open>
  A small concrete host and ledger on which the handlers are run: a token contract that moves
  balances as SEP-41 says, an empty contract, and the history initialise, create a vault,
  deposit. The witnesses of the properties are evaluated on these
  states.
\<close>

subsection \<open>A host\<close>

type_synonym ledger = "address \<Rightarrow> address \<Rightarrow> int"

definition move :: "address \<Rightarrow> address \<Rightarrow> address \<Rightarrow> int \<Rightarrow> ledger \<Rightarrow> ledger option" where
  "move t from to n tk =
     (if 0 \<le> n \<and> n \<le> tk t from
      then Some (tk(t := ((tk t)(from := tk t from - n))(to := ((tk t)(from := tk t from - n)) to + n)))
      else None)"

definition VAULT :: address where "VAULT = 0"
definition XLM :: address where "XLM = 1"
definition ADMIN :: address where "ADMIN = 2"
definition OWNER :: address where "OWNER = 3"
definition HEIR :: address where "HEIR = 4"
definition COHEIR :: address where "COHEIR = 5"

lemmas address_defs = VAULT_def XLM_def ADMIN_def OWNER_def HEIR_def COHEIR_def

definition host :: "nat \<Rightarrow> ledger env" where
  "host now = \<lparr>ledger_timestamp = now, ledger_sequence = 0, authorized = (\<lambda>a. a \<noteq> VAULT),
     current_contract_address = VAULT, token_transfer = move, query_release = (\<lambda>_. None),
     sha256 = (\<lambda>_. [])\<rparr>"

lemma host_sel [simp]:
  "ledger_timestamp (host n) = n" "authorized (host n) a = (a \<noteq> VAULT)"
  "current_contract_address (host n) = VAULT" "token_transfer (host n) = move"
  by (simp_all add: host_def)

definition ledger_balance :: "ledger \<Rightarrow> address \<Rightarrow> address \<Rightarrow> int" where
  "ledger_balance tk t a = tk t a"

lemma host_ok_host: "host_ok (host n) VAULT ledger_balance"
  by (auto simp: host_ok_def sep41_def move_def ledger_balance_def split: if_splits)

subsection \<open>States\<close>

definition instance0 :: instance_store where
  "instance0 = \<lparr>i_TokenAddress = None, i_Admin = None, i_Paused = None, i_PauseRecord = None,
     i_PendingAdmin = None, i_AdminTransferProposedAt = None, i_Version = None,
     i_MinCheckInInterval = None, i_MaxCheckInInterval = None, i_MaxTtlSeconds = None,
     i_TtlDecayRate = None, i_RequireUtf8Metadata = None, i_MaxVaultsPerOwner = None,
     i_OwnerVaultCount = None, i_BeneficiaryVaultLimit = None, i_MinCheckInCooldown = None,
     i_ReleaseGracePeriodSeconds = None, i_PendingProtocolConfig = None,
     i_ProtocolConfigProposedAt = None, i_wasm_hash = None\<rparr>"

definition index0 :: index_store where
  "index0 = \<lparr>p_VaultCount = None, p_OwnerVaults = (\<lambda>_. None), p_BeneficiaryVaults = (\<lambda>_. None),
     p_VaultDuplicate = (\<lambda>_. None), p_TokenWhitelist = (\<lambda>_. None), p_WrappedToken = (\<lambda>_. None),
     p_BridgeConfig = (\<lambda>_. None)\<rparr>"

definition logs0 :: log_store where
  "logs0 = \<lparr>p_VaultAuditLog = (\<lambda>_. None), p_StateTransitionLog = (\<lambda>_. None),
     p_CheckInEntry = (\<lambda>_. None), p_CheckInHistoryHead = (\<lambda>_. None),
     p_CheckInHistoryLen = (\<lambda>_. None), p_CheckInStreak = (\<lambda>_. None),
     p_LastCheckInTime = (\<lambda>_. None), p_CountdownConfig = (\<lambda>_. None),
     p_CountdownFired = (\<lambda>_. None), p_TtlBorrow = (\<lambda>_. None)\<rparr>"

definition passkeys0 :: passkey_store where
  "passkeys0 = \<lparr>p_VaultPasskeys = (\<lambda>_. None), p_BackupCodes = (\<lambda>_. None),
     p_CompromisedPasskeys = (\<lambda>_. None), p_PasskeyEscrow = (\<lambda>_. None),
     p_PasskeyExpiry = (\<lambda>_. None), p_PasskeyDelegation = (\<lambda>_. None),
     p_PasskeyUsage = (\<lambda>_. None), p_PasskeyAuditLog = (\<lambda>_. None),
     p_CheckInDelegates = (\<lambda>_. None), p_DelegateNonce = (\<lambda>_. None)\<rparr>"

definition withdrawals0 :: withdrawal_store where
  "withdrawals0 = \<lparr>p_WithdrawalAuditLog = (\<lambda>_. None), p_WithdrawalProof = (\<lambda>_. None),
     p_WithdrawalEscrow = (\<lambda>_. None), p_WithdrawalRollback = (\<lambda>_. None),
     p_WithdrawalRateLimit = (\<lambda>_. None), p_WithdrawalScheduleValidation = (\<lambda>_. None),
     p_WithdrawalLimit = (\<lambda>_. None), p_WithdrawalTracker = (\<lambda>_. None),
     p_WithdrawalWhitelist = (\<lambda>_. None), p_WithdrawalReversal = (\<lambda>_. None),
     p_WithdrawalReversalCounter = (\<lambda>_. None)\<rparr>"

definition release0 :: release_store where
  "release0 = \<lparr>p_ReleaseAttempted = (\<lambda>_. None), p_ReleaseConditions = (\<lambda>_. None),
     p_ArchivedVault = (\<lambda>_. None), p_Hibernation = (\<lambda>_. None),
     p_BeneficiaryReleaseConditionVeto = (\<lambda>_. None), p_BeneficiaryStatus = (\<lambda>_. None),
     p_BeneficiaryStatusEntry = (\<lambda>_. None), p_BeneficiaryReleaseTriggers = (\<lambda>_. None),
     p_BeneficiaryTierThreshold = (\<lambda>_. None), p_BeneficiaryConditionalAcceptance = (\<lambda>_. None),
     p_ConditionalAcceptance = (\<lambda>_. None), p_ProofOfLife = (\<lambda>_. None),
     p_ReleaseVoteThreshold = (\<lambda>_. None), p_ReleaseVotes = (\<lambda>_. None),
     p_BeneficiaryRotationSchedule = (\<lambda>_. None), p_PendingOwnership = (\<lambda>_. None),
     p_PendingBeneficiaryUpdate = (\<lambda>_. None)\<rparr>"

definition vesting0 :: vesting_store where
  "vesting0 = \<lparr>p_VestingSchedule = (\<lambda>_. None), p_VestingScheduleCount = (\<lambda>_. None),
     p_VestingPenalty = (\<lambda>_. None), p_VestingForfeiture = (\<lambda>_. None),
     p_VestingPendingClaim = (\<lambda>_. None), p_MilestoneVestingSchedule = (\<lambda>_. None),
     p_BeneficiaryVestingSchedule = (\<lambda>_. None), p_VestingRollover = (\<lambda>_. None),
     p_VestingAcceleration = (\<lambda>_. None), p_VestingStagger = (\<lambda>_. None),
     p_VestingCatchUp = (\<lambda>_. None), p_VestingBonus = (\<lambda>_. None)\<rparr>"

definition multisig0 :: multisig_store where
  "multisig0 = \<lparr>p_MultiSigConfig = (\<lambda>_. None), p_MultiSigProposal = (\<lambda>_. None),
     p_MultiSigProposalCount = (\<lambda>_. None), p_OpenProposals = (\<lambda>_. None)\<rparr>"

definition features0 :: feature_store where
  "features0 = \<lparr>p_VaultSnapshot = (\<lambda>_. None), p_VaultSnapshotTimestamps = (\<lambda>_. None), p_CustomMetadataHistory
     = (\<lambda>_. None), p_MetadataHistory = (\<lambda>_. None), p_CheckInGeoLog = (\<lambda>_. None),
     p_BeneficiaryAuction = (\<lambda>_. None), p_BeneficiaryAuctionCount = None, p_BeneficiaryCommitment =
     (\<lambda>_. None), p_RevealedBeneficiary = (\<lambda>_. None), p_BeneficiaryDelegationChain = (\<lambda>_.
     None), p_BeneficiaryDelegate = (\<lambda>_. None), p_DisputeStatus = (\<lambda>_. None), p_BeneficiaryConflict
     = (\<lambda>_. None), p_BeneficiaryPool = (\<lambda>_. None), p_ClawbackReleaseTs = (\<lambda>_. None),
     p_VaultRoundingMode = (\<lambda>_. None), p_WithdrawalApprovalRequest = (\<lambda>_. None),
     p_WithdrawalApprovers = (\<lambda>_. None), p_WithdrawalSchedule = (\<lambda>_. None),
     p_PasskeyRecoveryRequest = (\<lambda>_. None), p_RecoveryContacts = (\<lambda>_. None), p_RecoveryCodeHash =
     (\<lambda>_. None), p_PasskeyLockout = (\<lambda>_. None), p_PasskeyRotationPolicy = (\<lambda>_. None),
     p_LastPasskeyRotation = (\<lambda>_. None), p_TwoFactorConfig = (\<lambda>_. None), p_TwoFactorVerified =
     (\<lambda>_. None), p_TokenConversion = (\<lambda>_. None), p_TokenStaking = (\<lambda>_. None),
     p_YieldDistributionConfig = (\<lambda>_. None), p_TokenLending = (\<lambda>_. None), p_TokenCollateral =
     (\<lambda>_. None), p_TokenHedge = (\<lambda>_. None), p_TokenRebalance = (\<lambda>_. None)\<rparr>"

lemmas store0_defs = instance0_def index0_def logs0_def passkeys0_def withdrawals0_def
  release0_def vesting0_def multisig0_def features0_def

text \<open>An empty contract; the owner has 1000 units of the token.\<close>

definition genesis :: "ledger world" where
  "genesis = \<lparr>tokens = (\<lambda>t a. if t = XLM \<and> a = OWNER then 1000 else 0), p_Vault = (\<lambda>_. None),
     inst = instance0, idx = index0, logs = logs0, pks = passkeys0, wdr = withdrawals0,
     rel = release0, vest = vesting0, msig = multisig0, feat = features0, events = [], ttl_log = []\<rparr>"

text \<open>
  An initialised contract with one vault of the owner's, created and last checked in at time
  \<open>100\<close> with an interval of \<open>1000\<close> seconds, holding \<open>500\<close>.
\<close>

definition vault1 :: Vault where
  "vault1 = (new_vault OWNER HEIR 1000 100 XLM)\<lparr>v_balance := 500\<rparr>"

definition funded :: "ledger world" where
  "funded = genesis\<lparr>tokens := (\<lambda>t a. if t = XLM \<and> (a = OWNER \<or> a = VAULT) then 500 else 0),
     p_Vault := [1 \<mapsto> vault1],
     inst := instance0\<lparr>i_TokenAddress := Some XLM, i_Admin := Some ADMIN, i_Paused := Some False\<rparr>,
     idx := index0\<lparr>p_VaultCount := Some 1, p_OwnerVaults := [OWNER \<mapsto> [1]],
       p_BeneficiaryVaults := [HEIR \<mapsto> [1]]\<rparr>\<rparr>"

lemmas scenario_defs = funded_def vault1_def new_vault_def genesis_def store0_defs address_defs

lemma genesis_deployed: "deployed ledger_balance VAULT genesis"
  by (simp add: deployed_def genesis_def store0_defs ledger_balance_def plan_defs count_of_def address_defs)

lemma funded_safe: "safe ledger_balance VAULT funded"
  by (auto simp: safe_def solvent_def accounts_ok_def splits_ok_def sane_def bps_total_def
      total_held_def held_def count_of_def ledger_balance_def plan_defs scenario_defs)

subsection \<open>A history from the empty contract\<close>

definition initialized :: "ledger world" where
  "initialized = after (initialize (host 50) XLM ADMIN) genesis"

definition created :: "ledger world" where
  "created = after (create_vault (host 100) OWNER HEIR 1000 None) initialized"

definition deposited :: "ledger world" where
  "deposited = after (deposit (host 200) 1 OWNER 500) created"

lemma initialized_run:
  "runs (initialize (host 50) XLM ADMIN) (\<lambda>_ t. p_Vault t = p_Vault genesis \<and> tokens t = tokens genesis \<and>
     idx t = idx genesis \<and> rel t = rel genesis \<and> vest t = vest genesis \<and>
     inst t = instance0\<lparr>i_TokenAddress := Some XLM, i_Admin := Some ADMIN, i_Paused := Some False,
       i_Version := Some ''1.0.0''\<rparr>) genesis"
  by (simp add: initialize_def run_simps inst_defs extend_instance_ttl_def genesis_def store0_defs address_defs)

lemmas initialized_sel [simp] = initialized_run [THEN runs_after, folded initialized_def]

lemma created_run:
  "runs (create_vault (host 100) OWNER HEIR 1000 None)
     (\<lambda>i t. i = 1 \<and> p_Vault t = [1 \<mapsto> new_vault OWNER HEIR 1000 100 XLM] \<and>
        tokens t = tokens genesis \<and> inst t = inst initialized \<and> rel t = release0 \<and> vest t = vesting0) initialized"
  by (simp add: create_vault_def run_simps inst_defs vault_defs index_defs log_defs set_defs
      assert_interval_in_bounds_def get_owner_vault_limit_def assert_beneficiary_capacity_def
      get_beneficiary_vault_limit_def owner_limit_of_def beneficiary_limit_of_def
      assert_metadata_len_def MAX_METADATA_LEN_def extend_instance_ttl_def genesis_def
      store0_defs count_of_def address_defs fun_eq_iff)

lemma created_sel [simp]:
  "p_Vault created = [1 \<mapsto> new_vault OWNER HEIR 1000 100 XLM]" "tokens created = tokens genesis"
  "inst created = inst initialized" "rel created = release0" "vest created = vesting0"
  using created_run [THEN runs_mono, THEN runs_after, of "\<lambda>t. p_Vault t = [1 \<mapsto> new_vault OWNER HEIR 1000 100 XLM] \<and>
        tokens t = tokens genesis \<and> inst t = inst initialized \<and> rel t = release0 \<and> vest t = vesting0"]
  unfolding created_def by blast+

lemma deposited_run:
  "runs (deposit (host 200) 1 OWNER 500)
     (\<lambda>_ t. p_Vault t = [1 \<mapsto> vault1] \<and> tokens t = tokens funded \<and> inst t = inst initialized \<and>
        rel t = release0 \<and> vest t = vesting0) created"
  by (simp add: deposit_def run_simps inst_defs vault_defs log_defs set_defs checked_add_i_def in_i128_def
      extend_instance_ttl_def scenario_defs move_def)
    (auto simp: fun_eq_iff)

lemmas deposited_sel [simp] = deposited_run [THEN runs_after, folded deposited_def]

end
