(* ===== verification/Release_Properties.thy ===== *)
theory Release_Properties
  imports Vault_Scenario
begin

section \<open>Properties of the release\<close>

text \<open>
  What \<open>trigger_release\<close>, \<open>trigger_release_manual\<close>, \<open>panic_release\<close> and \<open>partial_release\<close>
  guarantee: when they can commit, what they pay and to whom, that they do commit, and which
  calls they refuse.
\<close>

subsection \<open>Symbolic runs of the checks\<close>

lemma runs_is_expired:
  assumes "p_Vault w i = Some v" "deadline_of v (p_Hibernation (rel w) i) \<le> U64_MAX"
  shows "runs (is_expired e i) Q w = Q (expired (ledger_timestamp e) v (p_Hibernation (rel w) i)) w"
  using assms
  by (cases "p_Hibernation (rel w) i"; cases "hibernating (ledger_timestamp e) (p_Hibernation (rel w) i)")
    (auto simp: is_expired_def run_simps vault_defs Let_def hibernating_def expired_def deadline_of_def
      min_less_iff_disj)

lemma runs_condition_loop:
  assumes "p_Vault w i = Some v" "deadline_of v (p_Hibernation (rel w) i) \<le> U64_MAX"
  shows "runs (foldM (condition_step e i mode) cs b) Q w =
    Q (b \<or> (\<exists>c \<in> set cs. cond_holds e w i mode v c)) w"
proof (induction cs arbitrary: b)
  case (Cons c cs)
  show ?case
    unfolding foldM.simps condition_step_def [of e i mode c]
    by (cases c) (simp_all add: run_simps runs_is_expired [OF assms] Cons.IH cond_holds_def disj_assoc)
qed (simp add: run_simps)

lemma runs_not_paused: "runs assert_not_paused Q w = (\<not> is_paused_w w \<and> Q () w)"
  by (cases "i_Paused (inst w)") (auto simp: assert_not_paused_def load_paused_def run_simps is_paused_w_def)

text \<open>A vault nobody archived: restoring it does nothing.\<close>

lemma runs_restore:
  "p_ArchivedVault (rel w) i = None \<Longrightarrow> runs (try_restore_archived_vault i) Q w = Q () w"
  by (simp add: try_restore_archived_vault_def run_simps)

lemma runs_conditions_met:
  assumes "release_allowed e w i mode v" "deadline_of v (p_Hibernation (rel w) i) \<le> U64_MAX"
    "p_ArchivedVault (rel w) i = None"
  shows "runs (release_conditions_met e i mode) Q w = Q () w"
proof -
  have v: "p_Vault w i = Some v" using assms(1) by (simp add: release_allowed_def)
  have "runs (get_release_conditions i) R w = R (conditions_of w i v) w" for R
    using v by (auto simp: get_release_conditions_def conditions_of_def run_simps vault_defs split: option.splits)
  moreover have "\<exists>c \<in> set (conditions_of w i v). cond_holds e w i mode v c"
    using assms(1) by (simp add: release_allowed_def)
  ultimately show ?thesis
    using assms(1,3) v
    by (simp add: release_conditions_met_def run_simps runs_restore runs_not_paused load_vault_def
        runs_condition_loop [OF v assms(2)] release_allowed_def del: bex_simps)
qed

lemma runs_expiry_gate:
  assumes "release_allowed e w i mode v"
    "deadline_of v (p_Hibernation (rel w) i) + grace_of (inst w) \<le> U64_MAX"
  shows "runs (release_expiry_gate e i v) Q w = Q () w"
  using assms
  by (auto simp: release_expiry_gate_def run_simps Let_def release_allowed_def runs_is_expired
      deadline_of_def grace_of_def expired_def hibernating_def min_def split: option.splits)

lemma runs_gates:
  assumes "release_allowed e w i mode v" "deadline_of v (p_Hibernation (rel w) i) \<le> U64_MAX"
  shows "runs (release_gates e i v) Q w = Q () w"
  using assms
  by (auto simp: release_gates_def run_simps Let_def release_allowed_def runs_is_expired
      gates_passed_def get_beneficiary_status_def check_conditional_acceptance_threshold_def
      split: option.splits)

lemma in_i128_between: "0 \<le> x \<Longrightarrow> x \<le> y \<Longrightarrow> in_i128 y \<Longrightarrow> in_i128 x"
  by (simp add: in_i128_def)

text \<open>Paying a vault with one beneficiary.\<close>

lemma runs_release_now:
  assumes "v_beneficiaries v = []" "sane v" "0 \<le> v_balance v" "in_i128 (v_balance v)"
    "in_i128 (release_amount v * int (v_burn_percentage v))"
    "token_transfer e (v_token_address v) (current_contract_address e) (v_beneficiary v)
       (release_amount v) (tokens w) = Some tk"
  shows "runs (release_now e i mode v) (\<lambda>_ t. p_Vault t i = Some (released_vault v) \<and> tokens t = tk \<and>
    p_ReleaseAttempted (rel t) = p_ReleaseAttempted (rel w)) w"
proof -
  note b = release_amount_bounds [OF assms(3,2)]
  have r: "in_i128 (burn_amount v)" "in_i128 (release_amount v - burn_amount v)"
    "in_i128 (v_balance v - release_amount v)"
    using b assms(3,4) by (auto intro: in_i128_between [of _ "v_balance v"])
  have amount: "(case v_spending_limit v of None \<Rightarrow> v_balance v | Some l \<Rightarrow> min (v_balance v) l) = release_amount v"
    by (simp add: release_amount_def)
  show ?thesis
    unfolding release_now_def amount Let_def
    using assms r
    by (simp add: run_simps burn_amount_def [symmetric] archive_released_def record_state_transition_def
        append_activity_log_def save_vault_def set_defs extend_instance_ttl_def released_vault_def)
qed

lemma runs_execute_release:
  assumes "\<not> acceptance_expired e i w" "rotations w i = None" "\<not> has_any_vesting i v w"
    "v_beneficiaries v = []" "sane v" "0 \<le> v_balance v" "in_i128 (v_balance v)"
    "in_i128 (release_amount v * int (v_burn_percentage v))"
    "token_transfer e (v_token_address v) (current_contract_address e) (v_beneficiary v)
       (release_amount v) (tokens w) = Some tk"
  shows "runs (execute_release e i mode v) (\<lambda>_ t. p_Vault t i = Some (released_vault v) \<and> tokens t = tk \<and>
    p_ReleaseAttempted (rel t) i = Some True) w"
  unfolding execute_release_def
  using assms(1-3)
  by (simp add: run_simps apply_rotation_def plan_defs mark_release_attempted_def set_defs)
    (rule runs_mono [OF runs_release_now], use assms in auto)

lemma release_live_aux:
  assumes "release_allowed e w i mode v" "p_ArchivedVault (rel w) i = None" "ledger_timestamp e \<le> U64_MAX"
  shows "runs (trigger_release_internal e i mode) Q w = runs (execute_release e i mode v) Q w"
proof -
  have d: "deadline_of v (p_Hibernation (rel w) i) + grace_of (inst w) \<le> U64_MAX"
    "deadline_of v (p_Hibernation (rel w) i) \<le> U64_MAX"
    using assms(1,3) by (simp_all add: release_allowed_def)
  have v: "p_Vault w i = Some v" "\<not> is_paused_w w" "v_status v = Locked"
    using assms(1) by (simp_all add: release_allowed_def)
  show ?thesis
    unfolding trigger_release_internal_def
    using v assms(2)
    by (simp add: run_simps runs_conditions_met [OF assms(1) d(2) assms(2)] runs_not_paused runs_restore
        load_vault_def runs_expiry_gate [OF assms(1) d(1)] runs_gates [OF assms(1) d(2)])
qed

subsection \<open>Properties\<close>

text \<open>C2. A release commits only if every gate is open: the contract is not paused, the
  vault exists, is locked, not empty and never released before, one of its release conditions
  holds, its deadline (last check-in, interval and hibernation) and the grace period have
  passed, its beneficiary has not declined, the balance threshold, proof of life and vote are
  met. It then refunds the owner, marks a vesting vault, or pays.\<close>

theorem release_gate:
  assumes "splits_ok w" "trigger_release_internal e i mode w = Inr ((), t)"
  shows "\<exists>v. release_allowed e w i mode v \<and> release_outcome e i mode v w t"
  using wpD [OF trigger_effect [OF assms(1)] assms(2)] .

text \<open>C4. The converse for a vault with one beneficiary and no vesting schedule: when the
  gates are open and the token accepts the transfer, the release commits, the beneficiary is
  paid the releasable amount and the release is recorded.\<close>

theorem release_live:
  assumes "release_allowed e w i mode v" "p_ArchivedVault (rel w) i = None"
    "ledger_timestamp e \<le> U64_MAX" "\<not> acceptance_expired e i w" "rotations w i = None"
    "\<not> has_any_vesting i v w" "v_beneficiaries v = []" "sane v" "0 \<le> v_balance v" "in_i128 (v_balance v)"
    "in_i128 (release_amount v * int (v_burn_percentage v))"
    "token_transfer e (v_token_address v) (current_contract_address e) (v_beneficiary v)
       (release_amount v) (tokens w) = Some tk"
  shows "runs (trigger_release_internal e i mode) (\<lambda>_ t. p_Vault t i = Some (released_vault v) \<and>
    tokens t = tk \<and> p_ReleaseAttempted (rel t) i = Some True) w"
  unfolding release_live_aux [OF assms(1-3)] by (rule runs_execute_release) (fact assms)+

lemma funded_allowed: "release_allowed (host 2000) funded 1 Expiry vault1"
  by (simp add: release_allowed_def is_paused_w_def conditions_of_def cond_holds_def expired_def
      hibernating_def deadline_of_def grace_of_def gates_passed_def scenario_defs)

lemma funded_split: "splits_ok funded"
  using funded_safe by (simp add: safe_def)

definition paid_tokens :: ledger where
  "paid_tokens = (tokens funded)(XLM := (tokens funded XLM)(VAULT := 0, HEIR := 500))"

lemma funded_facts:
  "p_ArchivedVault (rel funded) 1 = None" "ledger_timestamp (host 2000) \<le> U64_MAX"
  "\<not> acceptance_expired (host 2000) 1 funded" "rotations funded 1 = None"
  "\<not> has_any_vesting 1 vault1 funded" "v_beneficiaries vault1 = []" "sane vault1" "0 \<le> v_balance vault1"
  "in_i128 (v_balance vault1)" "in_i128 (release_amount vault1 * int (v_burn_percentage vault1))"
  "token_transfer (host 2000) (v_token_address vault1) (current_contract_address (host 2000))
     (v_beneficiary vault1) (release_amount vault1) (tokens funded) = Some paid_tokens"
  by (simp_all add: acceptance_expired_def plan_defs has_any_vesting_def sane_def bps_total_def
      in_i128_def release_amount_def paid_tokens_def move_def scenario_defs)

lemma funded_release: "\<exists>t. trigger_release_internal (host 2000) 1 Expiry funded = Inr ((), t)"
proof -
  have "runs (trigger_release_internal (host 2000) 1 Expiry) (\<lambda>_ _. True) funded"
    unfolding release_live_aux [OF funded_allowed funded_facts(1,2)]
    by (rule runs_mono [OF runs_execute_release]) (fact funded_facts | simp)+
  then show ?thesis by (auto elim: runsE)
qed

theorem release_live_witness:
  "runs (trigger_release_internal (host 2000) 1 Expiry) (\<lambda>_ t. p_Vault t 1 = Some (released_vault vault1) \<and>
     tokens t = paid_tokens \<and> p_ReleaseAttempted (rel t) 1 = Some True) funded"
  by (rule release_live [OF funded_allowed]) (rule funded_facts)+

theorem release_gate_witness:
  "\<exists>t v. trigger_release_internal (host 2000) 1 Expiry funded = Inr ((), t) \<and>
     release_allowed (host 2000) funded 1 Expiry v \<and> release_outcome (host 2000) 1 Expiry v funded t"
  using funded_release release_gate [OF funded_split] by blast

text \<open>C3. A release that pays out moves money exactly as the waterfall says. The
  payments are the shares of the beneficiaries in force (after a scheduled rotation); together
  they are the releasable amount (the balance, or the spending limit when that is lower), less
  the burnt part when there are several beneficiaries; every account of the token changes by
  what it pays or receives and no other token moves; the vault's balance falls by the
  releasable amount.\<close>

definition paid_total :: "Vault \<Rightarrow> int" where
  "paid_total r = (if v_beneficiaries r = [] then release_amount r else release_amount r - burn_amount r)"

theorem release_pays:
  assumes "safe bal self w" "host_ok e self bal" "p_Vault w i = Some v"
    "trigger_release_internal e i mode w = Inr ((), t)" "\<not> acceptance_expired e i w"
  shows "\<exists>r ps. same_terms v r \<and> v_balance r = v_balance v \<and> rotated (plans w) i v r \<and>
    (has_any_vesting i r w \<and> tokens t = tokens w \<or>
     ps = release_payments (rel w) i r mode \<and> p_Vault t i = Some (released_vault r) \<and>
     sum_list (map snd ps) = paid_total r \<and> 0 \<le> paid_total r \<and> paid_total r \<le> v_balance v \<and>
     (\<forall>d a. bal (tokens t) d a = bal (tokens w) d a
        - (if d = v_token_address v \<and> a = self then paid_total r else 0)
        + (if d = v_token_address v then received a ps else 0)))"
proof -
  have s: "splits_ok w" "solvent bal self w" and h: "sep41 e bal" "current_contract_address e = self"
    using assms(1,2) by (simp_all add: safe_def host_ok_def)
  have out: "release_outcome e i mode v w t"
    using wpD [OF trigger_effect [OF s(1)] assms(4)] assms(3) by (auto simp: release_allowed_def)
  then obtain r where r: "same_terms v r" "v_balance r = v_balance v" "rotated (plans w) i v r"
    "vested i r w t \<or> paid_release e i mode r w t"
    using assms(5) by (auto simp: release_outcome_def refunded_def)
  have b: "0 \<le> v_balance r" "sane r"
    using accounts_okD(3) [OF s(2) [unfolded solvent_def] assms(3)] r(2)
      rotated_splits [OF s(1) assms(3) r(3)] by simp_all
  note bounds = release_amount_bounds [OF b] and sum = release_payments_sum [OF b, of "rel w" i mode]
  have "ps = release_payments (rel w) i r mode \<Longrightarrow> paid_release e i mode r w t \<Longrightarrow>
      bal (tokens t) d a = bal (tokens w) d a - (if d = v_token_address v \<and> a = self then paid_total r else 0)
        + (if d = v_token_address v then received a ps else 0)" for d a ps
    using run_payments_bal [OF h(1), of "v_token_address r" "release_payments (rel w) i r mode" "tokens w" "tokens t" d a]
      r(1) sum h(2) by (simp add: paid_release_def paid_total_def same_terms_def)
  moreover have "0 \<le> paid_total r \<and> paid_total r \<le> v_balance v"
    using bounds r(2) by (auto simp: paid_total_def)
  moreover have "sum_list (map snd (release_payments (rel w) i r mode)) = paid_total r"
    using sum by (simp add: paid_total_def)
  ultimately show ?thesis
    using r by (intro exI [of _ r] exI [of _ "release_payments (rel w) i r mode"])
      (auto simp: vested_def paid_release_def)
qed

theorem release_pays_witness:
  "\<exists>t r ps. trigger_release_internal (host 2000) 1 Expiry funded = Inr ((), t) \<and> same_terms vault1 r \<and>
    v_balance r = 500 \<and> (has_any_vesting 1 r funded \<and> tokens t = tokens funded \<or>
      ps = release_payments (rel funded) 1 r Expiry \<and> sum_list (map snd ps) = paid_total r)"
proof -
  obtain t where t: "trigger_release_internal (host 2000) 1 Expiry funded = Inr ((), t)"
    using funded_release by blast
  have v: "p_Vault funded 1 = Some vault1" "v_balance vault1 = 500" by (simp_all add: scenario_defs)
  show ?thesis
    using release_pays [OF funded_safe host_ok_host v(1) t funded_facts(3)] t v(2) by auto
qed

text \<open>C5. The two loops of \<open>distribute_release_amount\<close> compute the waterfall:
  whenever they commit, the tokens are those after the payments of the specification
  \<open>waterfall\<close> (who qualifies, in which order, each one's share with the remainder to the last),
  and nothing else of the contract's state changes but the events.\<close>

theorem waterfall_equiv:
  assumes "bps_total (v_beneficiaries v) \<le> 10000"
    "distribute_release_amount e i v n mode w = Inr ((), t)"
  shows "\<exists>tk es. t = w\<lparr>tokens := tk, events := es\<rparr> \<and>
    run_payments e (v_token_address v) (waterfall (rel w) i v n mode) (tokens w) = Some tk"
  using wpD [OF distribute_effect [OF assms(1)] assms(2)] by (simp add: payments_made_def)

definition two_heirs :: Vault where
  "two_heirs = vault1\<lparr>v_beneficiaries :=
     [\<lparr>be_address = HEIR, be_bps = 3333, be_minimum_threshold = 0\<rparr>,
      \<lparr>be_address = COHEIR, be_bps = 6667, be_minimum_threshold = 0\<rparr>]\<rparr>"

lemma two_heirs_waterfall: "waterfall release0 1 two_heirs 500 Expiry = [(HEIR, 166), (COHEIR, 334)]"
  by (simp add: waterfall_def two_heirs_def qualifies_def release0_def log_of_def payouts_def bps_total_def tdiv_def
      vault1_def new_vault_def address_defs)

lemma two_heirs_run:
  "runs (distribute_release_amount (host 2000) 1 two_heirs 500 Expiry)
     (\<lambda>_ t. tokens t XLM HEIR = 166 \<and> tokens t XLM COHEIR = 334) funded"
  by (simp add: distribute_release_amount_def qualify_step_def pay_step_def run_simps log_of_def Let_def
      two_heirs_def funded_def genesis_def release0_def vault1_def new_vault_def address_defs in_i128_def
      tdiv_def move_def sat_add_def split: prod.splits)

theorem waterfall_equiv_witness:
  "\<exists>t tk es. distribute_release_amount (host 2000) 1 two_heirs 500 Expiry funded = Inr ((), t) \<and>
     t = funded\<lparr>tokens := tk, events := es\<rparr> \<and>
     run_payments (host 2000) XLM [(HEIR, 166), (COHEIR, 334)] (tokens funded) = Some tk"
proof -
  obtain t where t: "distribute_release_amount (host 2000) 1 two_heirs 500 Expiry funded = Inr ((), t)"
    using two_heirs_run by (auto elim: runsE)
  have f: "bps_total (v_beneficiaries two_heirs) \<le> 10000" "v_token_address two_heirs = XLM" "rel funded = release0"
    by (simp_all add: two_heirs_def bps_total_def scenario_defs)
  show ?thesis
    using waterfall_equiv [OF f(1) t] t unfolding f two_heirs_waterfall by blast
qed

lemma paused_release:
  assumes "is_paused_w w"
  shows "trigger_release_internal e i mode w = Inl (Err Paused)"
proof -
  have "assert_not_paused w = Inl (Err Paused)"
    using assms by (simp add: assert_not_paused_def load_paused_def is_paused_w_def exec)
  then show ?thesis by (simp add: trigger_release_internal_def release_conditions_met_def exec bindM_def)
qed

lemma refused_release:
  assumes "p_Vault w i = Some v" "\<not> is_paused_w w" "p_ReleaseAttempted (rel w) i \<noteq> None \<or> v_status v \<noteq> Locked"
  shows "trigger_release_internal e i mode w = Inl (Err AlreadyReleased)"
proof -
  have p: "assert_not_paused w = Inr ((), w)"
    using assms(2) by (cases "i_Paused (inst w)")
      (auto simp: assert_not_paused_def load_paused_def is_paused_w_def exec)
  have "\<exists>t. try_restore_archived_vault i w = Inr ((), t) \<and> restored w t"
  proof -
    have "runs (try_restore_archived_vault i) (\<lambda>_ _. True) w"
      using assms(1) by (auto simp: try_restore_archived_vault_def run_simps vault_defs set_defs split: option.splits)
    moreover have "wp (try_restore_archived_vault i) (\<lambda>_. restored w) w" by (rule wp_try_restore)
    ultimately show ?thesis by (auto elim!: runsE dest: wpD)
  qed
  then obtain t where t: "try_restore_archived_vault i w = Inr ((), t)" "p_Vault t i = Some v"
    "p_ReleaseAttempted (rel t) = p_ReleaseAttempted (rel w)"
    using assms(1) by (auto simp: restoredD)
  show ?thesis
    using assms(3) t p
    by (auto simp: trigger_release_internal_def release_conditions_met_def bindM_def exec load_vault_def)
qed

text \<open>C8. A vault is released at most once: after any release attempt was recorded,
  or once it is no longer locked, archived or not, every further release (at expiry, manual, or by a panic
  release of the signing owner) is refused with \<open>AlreadyReleased\<close>, or with \<open>Paused\<close> while the contract is paused;
  a panic release of anyone else does not commit either.\<close>

theorem no_second_release:
  assumes "p_Vault w i = Some v" "p_ReleaseAttempted (rel w) i \<noteq> None \<or> v_status v \<noteq> Locked"
  shows "let refusal = Err (if is_paused_w w then Paused else AlreadyReleased)
    in trigger_release e i w = Inl refusal \<and> trigger_release_manual e i w = Inl refusal \<and>
    panic_release e i c w = Inl (if \<not> authorized e c then AuthTrap else if c \<noteq> v_owner v then Err NotOwner else refusal)"
proof -
  have r: "trigger_release_internal e i mode w = Inl (Err (if is_paused_w w then Paused else AlreadyReleased))" for mode
    using paused_release [of w e i mode] refused_release [OF assms(1) _ assms(2), of e mode] by auto
  then show ?thesis
    using assms(1) by (simp add: trigger_release_def trigger_release_manual_def panic_release_def exec vault_defs require_auth_def)
qed

definition released_world :: "ledger world" where
  "released_world = funded\<lparr>p_Vault := [1 \<mapsto> vault1\<lparr>v_balance := 0, v_status := Released\<rparr>],
     rel := release0\<lparr>p_ReleaseAttempted := [1 \<mapsto> True], p_ArchivedVault := [1 \<mapsto> vault1\<lparr>v_balance := 0, v_status := Released\<rparr>]\<rparr>\<rparr>"

theorem no_second_release_witness:
  "trigger_release (host 3000) 1 released_world = Inl (Err AlreadyReleased) \<and>
   panic_release (host 3000) 1 OWNER released_world = Inl (Err AlreadyReleased)"
  using no_second_release [of released_world 1 "vault1\<lparr>v_balance := 0, v_status := Released\<rparr>" "host 3000" OWNER]
  by (simp add: released_world_def is_paused_w_def scenario_defs Let_def)

lemma no_release_unexpired:
  assumes "splits_ok w" "p_Vault w i = Some v" "\<not> expired (ledger_timestamp e) v (p_Hibernation (rel w) i)"
  shows "\<not> commits (trigger_release_internal e i mode) w"
  using wpD [OF trigger_effect [OF assms(1), of e i mode]] assms(2,3)
  by (auto simp: commits_def release_allowed_def split: sum.splits)

lemma releases_need_expiry:
  assumes "splits_ok w" "p_Vault w i = Some v" "\<not> expired (ledger_timestamp e) v (p_Hibernation (rel w) i)"
  shows "\<not> commits (trigger_release e i) w" "\<not> commits (trigger_release_manual e i) w" "\<not> commits (panic_release e i c) w"
proof -
  show "\<not> commits (trigger_release e i) w" "\<not> commits (trigger_release_manual e i) w"
    by (simp_all add: trigger_release_def trigger_release_manual_def no_release_unexpired [OF assms])
  have "\<not> runs (trigger_release_internal e i Manual) (\<lambda>_ _. True) w"
    using no_release_unexpired [OF assms] by (simp add: runs_iff)
  then have "\<not> runs (panic_release e i c) (\<lambda>_ _. True) w"
    by (simp add: panic_release_def run_simps vault_defs)
  then show "\<not> commits (panic_release e i c) w" by (simp add: runs_iff)
qed

text \<open>A release under a spending limit leaves the rest of the money where no
  release can reach it: the vault stays locked with what exceeds the limit, and every later
  release of it is refused.\<close>

theorem limit_locks_rest:
  assumes "splits_ok w" "p_Vault w i = Some v" "trigger_release_internal e i mode w = Inr ((), t)"
    "\<not> acceptance_expired e i w" "v_spending_limit v = Some l" "l < v_balance v" "0 < l"
    "vest w = vesting0"
  shows "(\<exists>v'. p_Vault t i = Some v' \<and> v_balance v' = v_balance v - l \<and> v_status v' = Locked) \<and>
    \<not> commits (trigger_release_internal e' i mode') t"
proof
  have out: "release_outcome e i mode v w t" "v_status v = Locked"
    using wpD [OF trigger_effect [OF assms(1)] assms(3)] assms(2) by (auto simp: release_allowed_def)
  then obtain r where r: "same_terms v r" "v_balance r = v_balance v" "rotated (plans w) i v r"
    "paid_release e i mode r w t" "p_ReleaseAttempted (rel t) i = Some True"
    using assms(4,8) by (auto simp: release_outcome_def refunded_def vested_def has_any_vesting_def vesting0_def)
  show "\<exists>v'. p_Vault t i = Some v' \<and> v_balance v' = v_balance v - l \<and> v_status v' = Locked"
    using r out(2) assms(5-7)
    by (auto simp: paid_release_def released_vault_def release_amount_def rotated_def same_terms_def)
  have "splits_ok t"
    using wpD [OF trigger_splits [OF assms(1)] assms(3)] .
  then show "\<not> commits (trigger_release_internal e' i mode') t"
    using wpD [OF trigger_effect [of t e' i mode']] r(5)
    by (auto simp: commits_def release_allowed_def split: sum.splits)
qed

definition limited :: Vault where
  "limited = vault1\<lparr>v_spending_limit := Some 200\<rparr>"

definition limited_world :: "ledger world" where
  "limited_world = funded\<lparr>p_Vault := [1 \<mapsto> limited]\<rparr>"

lemma limited_world_split: "splits_ok limited_world"
  by (simp add: splits_ok_def sane_def bps_total_def plan_defs limited_world_def limited_def scenario_defs)

lemma limited_release: "\<exists>t. trigger_release_internal (host 2000) 1 Expiry limited_world = Inr ((), t)"
proof -
  have allowed: "release_allowed (host 2000) limited_world 1 Expiry limited"
    by (simp add: release_allowed_def is_paused_w_def conditions_of_def cond_holds_def expired_def
        hibernating_def deadline_of_def grace_of_def gates_passed_def limited_world_def limited_def scenario_defs)
  have "runs (execute_release (host 2000) 1 Expiry limited) (\<lambda>_ _. True) limited_world"
    by (rule runs_mono [OF runs_execute_release])
      (simp_all add: acceptance_expired_def plan_defs has_any_vesting_def sane_def bps_total_def
        in_i128_def release_amount_def move_def limited_world_def limited_def scenario_defs)
  then have "runs (trigger_release_internal (host 2000) 1 Expiry) (\<lambda>_ _. True) limited_world"
    by (subst release_live_aux [OF allowed]) (simp_all add: limited_world_def scenario_defs)
  then show ?thesis by (auto elim: runsE)
qed

theorem limit_locks_rest_witness:
  "\<exists>t v'. trigger_release_internal (host 2000) 1 Expiry limited_world = Inr ((), t) \<and>
     p_Vault t 1 = Some v' \<and> v_balance v' = 300 \<and> \<not> commits (trigger_release_internal (host 9000) 1 Manual) t"
proof -
  obtain t where t: "trigger_release_internal (host 2000) 1 Expiry limited_world = Inr ((), t)"
    using limited_release by blast
  have "(\<exists>v'. p_Vault t 1 = Some v' \<and> v_balance v' = v_balance limited - 200 \<and> v_status v' = Locked) \<and>
      \<not> commits (trigger_release_internal (host 9000) 1 Manual) t"
    by (rule limit_locks_rest [OF limited_world_split _ t])
      (simp_all add: limited_world_def limited_def acceptance_expired_def scenario_defs)
  then show ?thesis using t by (auto simp: limited_def scenario_defs)
qed

end
