(* ===== verification/Custody_Properties.thy ===== *)
theory Custody_Properties
  imports Vault_Scenario
begin

section \<open>Properties of deposits and withdrawals\<close>

text \<open>
  When a deposit is accepted, what withdrawals move and what bounds them, that a deposit can be
  undone by a withdrawal, and the calls of this part of the contract that break its accounts.
\<close>

lemma runs_paused: "runs load_paused Q w = Q (is_paused_w w) w"
  by (cases "i_Paused (inst w)") (auto simp: load_paused_def run_simps is_paused_w_def)

lemma runs_reject: "runs (reject e i c a cond r err) Q w = (\<not> cond \<and> Q () w)"
  by (auto simp: reject_def whenM_def runs_def bindM_def throw_def returnM_def split: sum.splits)

subsection \<open>Deposits\<close>



subsection \<open>Withdrawals\<close>

text \<open>C11. A withdrawal that commits was authorised by the owner of a locked vault that
  is not paused, for a positive amount within its balance and approval threshold; the owner's
  tokens grow and the contract's shrink by exactly the amount, no other account changes, the
  vault's balance falls by it, and no other vault changes.\<close>

theorem withdraw_moves:
  assumes "host_ok e self bal" "withdraw e i caller amt w = Inr ((), t)"
  shows "\<exists>v. p_Vault w i = Some v \<and> authorized e caller \<and> caller = v_owner v \<and> v_status v = Locked \<and>
    \<not> v_is_paused v \<and> 0 < amt \<and> amt \<le> v_balance v \<and>
    (\<forall>m. v_withdrawal_approval_threshold v = Some m \<longrightarrow> amt \<le> m) \<and>
    p_Vault t = (p_Vault w)(i \<mapsto> v\<lparr>v_balance := v_balance v - amt\<rparr>) \<and>
    (\<forall>d a. bal (tokens t) d a = bal (tokens w) d a
       - (if d = v_token_address v \<and> a = self then amt else 0)
       + (if d = v_token_address v \<and> a = v_owner v then amt else 0))"
proof -
  obtain v where v: "paid_out e i v (v_owner v) amt w t" "0 < amt" "amt \<le> v_balance v" "authorized e caller"
    "caller = v_owner v" "\<not> v_is_paused v" "v_status v = Locked"
    "\<forall>m. v_withdrawal_approval_threshold v = Some m \<longrightarrow> amt \<le> m"
    using wpD [OF withdraw_effect assms(2)] by blast
  have "token_transfer e (v_token_address v) self (v_owner v) amt (tokens w) = Some (tokens t)"
    using v(1) assms(1) by (simp add: paid_out_def host_ok_def)
  then have "bal (tokens t) d a = bal (tokens w) d a - (if d = v_token_address v \<and> a = self then amt else 0)
      + (if d = v_token_address v \<and> a = v_owner v then amt else 0)" for d a
    using assms(1) sep41D(3) by (fastforce simp: host_ok_def)
  then show ?thesis using v by (auto simp: paid_out_def)
qed

lemma funded_withdraw: "runs (withdraw (host 200) 1 OWNER 300) (\<lambda>_ _. True) funded"
  by (simp add: withdraw_def run_simps runs_paused runs_reject check_withdrawal_limits_def is_whitelisted_def
      record_withdrawal_for_reversal_def record_withdrawal_audit_def vault_defs log_defs set_defs
      extend_instance_ttl_def is_paused_w_def in_i128_def move_def scenario_defs)

theorem withdraw_moves_witness:
  "\<exists>t. withdraw (host 200) 1 OWNER 300 funded = Inr ((), t) \<and>
     p_Vault t 1 = Some (vault1\<lparr>v_balance := 200\<rparr>) \<and> ledger_balance (tokens t) XLM OWNER = 800 \<and> ledger_balance (tokens t) XLM VAULT = 200"
proof -
  obtain t where t: "withdraw (host 200) 1 OWNER 300 funded = Inr ((), t)"
    using funded_withdraw by (auto elim: runsE)
  show ?thesis
    using withdraw_moves [OF host_ok_host t] t
    by (auto simp: ledger_balance_def scenario_defs)
qed

text \<open>Withdrawing what was just deposited restores the accounts: every vault is as
  before the deposit and so is every token account.\<close>

theorem deposit_withdraw:
  assumes "host_ok e self bal" "host_ok e' self bal" "deposit e i a amt w = Inr ((), u)"
    "withdraw e' i a amt u = Inr ((), t)"
  shows "p_Vault t = p_Vault w \<and> bal (tokens t) = bal (tokens w)"
proof -
  obtain v where v: "paid_in e i v a amt w u" "a = v_owner v"
    using wpD [OF deposit_effect assms(3)] by blast
  obtain v' where v': "paid_out e' i v' (v_owner v') amt u t"
    using wpD [OF withdraw_effect assms(4)] by blast
  have eq: "v' = v\<lparr>v_balance := v_balance v + amt\<rparr>"
    using v v' by (simp add: paid_in_def paid_out_def)
  have "p_Vault t = p_Vault w"
    using v(1) v' eq by (auto simp: paid_in_def paid_out_def fun_eq_iff)
  moreover have "bal (tokens t) d x = bal (tokens w) d x" for d x
  proof -
    have "token_transfer e (v_token_address v) a self amt (tokens w) = Some (tokens u)"
      "token_transfer e' (v_token_address v) self a amt (tokens u) = Some (tokens t)"
      using v v' eq assms(1,2) by (simp_all add: paid_in_def paid_out_def host_ok_def)
    then show ?thesis
      using sep41D(3) [of e bal "v_token_address v" a self amt "tokens w" "tokens u" d x]
        sep41D(3) [of e' bal "v_token_address v" self a amt "tokens u" "tokens t" d x] assms(1,2)
      by (simp add: host_ok_def)
  qed
  ultimately show ?thesis by (simp add: fun_eq_iff)
qed

lemma funded_round:
  "runs (thenM (deposit (host 200) 1 OWNER 100) (withdraw (host 300) 1 OWNER 100)) (\<lambda>_ _. True) funded"
  by (simp add: deposit_def withdraw_def run_simps runs_paused runs_reject check_withdrawal_limits_def
      is_whitelisted_def record_withdrawal_for_reversal_def record_withdrawal_audit_def vault_defs log_defs
      set_defs assert_not_paused_def require_initialized_def extend_instance_ttl_def is_paused_w_def in_i128_def
      checked_add_i_def move_def scenario_defs)

theorem deposit_withdraw_witness:
  "\<exists>u t. deposit (host 200) 1 OWNER 100 funded = Inr ((), u) \<and> withdraw (host 300) 1 OWNER 100 u = Inr ((), t) \<and>
     p_Vault t = p_Vault funded \<and> ledger_balance (tokens t) = ledger_balance (tokens funded)"
proof -
  obtain u t where ut: "deposit (host 200) 1 OWNER 100 funded = Inr ((), u)"
      "withdraw (host 300) 1 OWNER 100 u = Inr ((), t)"
    using funded_round by (auto simp: runs_def bindM_def split: sum.splits)
  show ?thesis
    using deposit_withdraw [OF host_ok_host host_ok_host ut] ut by blast
qed

subsection \<open>Withdrawal limits\<close>










text \<open>The limits and the trackers, and the calls that leave them alone.\<close>

definition limit_state :: "'tok world \<Rightarrow> (nat \<Rightarrow> WithdrawalLimit option) \<times> (nat \<Rightarrow> WithdrawalTracker option)" where
  "limit_state w = (p_WithdrawalLimit (wdr w), p_WithdrawalTracker (wdr w))"

lemma limit_state_upd [simp]:
  "limit_state (w\<lparr>tokens := x1\<rparr>) = limit_state w" "limit_state (w\<lparr>p_Vault := x2\<rparr>) = limit_state w"
  "limit_state (w\<lparr>events := x3\<rparr>) = limit_state w" "limit_state (w\<lparr>ttl_log := x4\<rparr>) = limit_state w"
  by (simp_all add: limit_state_def)



















subsection \<open>Scheduled withdrawals\<close>

definition spaced :: "WithdrawalScheduleEntry list \<Rightarrow> bool" where
  "spaced xs \<longleftrightarrow> sorted_wrt (\<lambda>x y. 3600 \<le> \<bar>int (ws_timestamp y) - int (ws_timestamp x)\<bar>) xs"

text \<open>Scheduled withdrawals of a vault stay at least an hour apart: scheduling
  another one keeps every pair of entries 3600 seconds apart and adds exactly the new entry at
  the end.\<close>

theorem schedule_spaced:
  assumes "spaced (log_of (p_WithdrawalScheduleValidation (wdr w) i))"
    "schedule_withdrawal e i caller n amt w = Inr ((), t)"
  shows "p_WithdrawalScheduleValidation (wdr t) i =
      Some (log_of (p_WithdrawalScheduleValidation (wdr w) i) @ [\<lparr>ws_timestamp = n, ws_amount = amt\<rparr>]) \<and>
    spaced (log_of (p_WithdrawalScheduleValidation (wdr t) i))"
proof -
  have "wp (schedule_withdrawal e i caller n amt) (\<lambda>_ t. p_WithdrawalScheduleValidation (wdr t) i =
      Some (log_of (p_WithdrawalScheduleValidation (wdr w) i) @ [\<lparr>ws_timestamp = n, ws_amount = amt\<rparr>]) \<and>
      (\<forall>x \<in> set (log_of (p_WithdrawalScheduleValidation (wdr w) i)). \<not> \<bar>int n - int (ws_timestamp x)\<bar> < 3600)) w"
    unfolding schedule_withdrawal_def validate_withdrawal_schedule_def
    by (auto simp: wp_simps log_of_def split: option.splits)
  from wpD [OF this assms(2)] show ?thesis
    using assms(1) by (auto simp: spaced_def sorted_wrt_append log_of_def not_less)
qed

lemma funded_schedule: "runs (schedule_withdrawal (host 200) 1 OWNER 5000 10) (\<lambda>_ _. True) funded"
  by (simp add: schedule_withdrawal_def validate_withdrawal_schedule_def run_simps runs_paused vault_defs set_defs
      extend_instance_ttl_def is_paused_w_def scenario_defs)

theorem schedule_spaced_witness:
  "\<exists>t. schedule_withdrawal (host 200) 1 OWNER 5000 10 funded = Inr ((), t) \<and>
     spaced (log_of (p_WithdrawalScheduleValidation (wdr t) 1))"
proof -
  obtain t where t: "schedule_withdrawal (host 200) 1 OWNER 5000 10 funded = Inr ((), t)"
    using funded_schedule by (auto elim: runsE)
  have "spaced (log_of (p_WithdrawalScheduleValidation (wdr funded) 1))"
    by (simp add: spaced_def log_of_def scenario_defs)
  from schedule_spaced [OF this t] t show ?thesis by blast
qed

subsection \<open>Calls that break the accounts\<close>

text \<open>A second owner's vault holding the same token, so that the contract has 1000 units.\<close>

definition two_vaults :: "ledger world" where
  "two_vaults = funded\<lparr>tokens := (\<lambda>t a. if t = XLM \<and> a = VAULT then 1000 else 0),
     p_Vault := [1 \<mapsto> vault1, 2 \<mapsto> vault1\<lparr>v_owner := COHEIR\<rparr>], idx := (idx funded)\<lparr>p_VaultCount := Some 2\<rparr>\<rparr>"

lemma two_vaults_solvent: "solvent ledger_balance VAULT two_vaults"
  by (auto simp: solvent_def accounts_ok_def total_held_def held_def count_of_def ledger_balance_def two_vaults_def
      upt_rec scenario_defs)

lemma negative_insolvent: "p_Vault t i = Some v \<Longrightarrow> v_balance v < 0 \<Longrightarrow> \<not> solvent bal self t"
  by (auto simp: solvent_def dest: accounts_okD(3))

lemma batch_run:
  "runs (batch_withdraw (host 200) [1, 1] [400, 400] OWNER) (\<lambda>_ t. tokens t XLM OWNER = 800 \<and>
     tokens t XLM VAULT = 200 \<and> p_Vault t 1 = Some (vault1\<lparr>v_balance := - 300\<rparr>) \<and>
     p_Vault t 2 = Some (vault1\<lparr>v_owner := COHEIR\<rparr>)) two_vaults"
  by (simp add: batch_withdraw_def validate_withdrawal_def apply_withdrawal_def run_simps runs_paused runs_reject
      record_withdrawal_audit_def vault_defs set_defs load_token_def extend_instance_ttl_def is_paused_w_def
      in_i128_def move_def two_vaults_def scenario_defs)

text \<open>\<open>batch_withdraw\<close> with the same vault twice pays out more than the vault has: in
  a solvent state the owner of a vault with 500 withdraws 800, the vault's balance becomes
  negative and the contract keeps 200 for another vault that records 500.\<close>

theorem batch_overdraws:
  "solvent ledger_balance VAULT two_vaults \<and>
   runs (batch_withdraw (host 200) [1, 1] [400, 400] OWNER) (\<lambda>_ t. tokens t XLM OWNER = 800 \<and>
     tokens t XLM VAULT = 200 \<and> p_Vault t 1 = Some (vault1\<lparr>v_balance := - 300\<rparr>) \<and>
     p_Vault t 2 = Some (vault1\<lparr>v_owner := COHEIR\<rparr>) \<and> \<not> solvent ledger_balance VAULT t) two_vaults"
  by (rule conjI [OF two_vaults_solvent], rule runs_mono [OF batch_run]) (auto dest: negative_insolvent)

lemma rollback_run:
  "runs (rollback_withdrawal (host 200) 1 700 r OWNER) (\<lambda>_ t. tokens t = tokens funded \<and> idx t = idx funded \<and>
     p_Vault t = [1 \<mapsto> vault1\<lparr>v_balance := 1200\<rparr>]) funded"
  by (simp add: rollback_withdrawal_def run_simps vault_defs set_defs in_i128_def scenario_defs)

lemma rollback_insolvent:
  assumes "tokens t = tokens funded" "idx t = idx funded" "p_Vault t = [1 \<mapsto> vault1\<lparr>v_balance := 1200\<rparr>]"
  shows "\<not> solvent ledger_balance VAULT t"
proof -
  have "ledger_balance (tokens t) XLM VAULT < total_held (p_Vault t) (count_of (idx t)) XLM"
    using assms by (simp add: total_held_def held_def ledger_balance_def count_of_def scenario_defs)
  then show ?thesis by (auto simp: solvent_def accounts_ok_def not_le)
qed

text \<open>\<open>rollback_withdrawal\<close> credits a vault out of nothing: the owner of a vault adds
  any amount to its recorded balance although no withdrawal happened and no token moves, and a
  solvent contract is no longer solvent.\<close>

theorem rollback_mints:
  "solvent ledger_balance VAULT funded \<and>
   runs (rollback_withdrawal (host 200) 1 700 r OWNER) (\<lambda>_ t. tokens t = tokens funded \<and>
     p_Vault t 1 = Some (vault1\<lparr>v_balance := 1200\<rparr>) \<and> \<not> solvent ledger_balance VAULT t) funded"
proof
  show "solvent ledger_balance VAULT funded" using funded_safe by (simp add: safe_def)
qed (rule runs_mono [OF rollback_run], use rollback_insolvent in auto)

end
