(* ===== verification/Governance_Properties.thy ===== *)
theory Governance_Properties
  imports Vault_Scenario
begin

section \<open>Timelocks and governance\<close>

text \<open>
  Four changes of the contract take effect only after a delay: a new admin, a new protocol
  configuration, a new owner and a new beneficiary of a vault. The locale \<open>timelock\<close> states
  their common contract and what follows from it; each change is an interpretation.
\<close>

locale timelock =
  fixes propose :: "nat \<Rightarrow> 'p \<Rightarrow> 's \<Rightarrow> 's \<Rightarrow> bool" and accept :: "nat \<Rightarrow> 's \<Rightarrow> 's \<Rightarrow> bool"
    and pending :: "'s \<Rightarrow> ('p \<times> nat) option" and current :: "'s \<Rightarrow> 'v" and enacts :: "'p \<Rightarrow> 'v"
    and delay :: nat
  assumes propose_pending: "propose n p s t \<Longrightarrow> pending t = Some (p, n + delay)"
    and propose_current: "propose n p s t \<Longrightarrow> current t = current s"
    and accept_unlocked: "accept n s t \<Longrightarrow> \<exists>p m. pending s = Some (p, m) \<and> m \<le> n \<and> current t = enacts p"
    and accept_clears: "accept n s t \<Longrightarrow> pending t = None"
begin

lemma delayed: "propose m p s t \<Longrightarrow> accept n t u \<Longrightarrow> m + delay \<le> n \<and> current u = enacts p"
  using propose_pending [of m p s t] accept_unlocked [of n t u] by auto

text \<open>A new proposal replaces the old one and starts the delay again.\<close>

lemma reproposed:
  "propose m p s t \<Longrightarrow> propose m' q t u \<Longrightarrow> accept n u v \<Longrightarrow> m' + delay \<le> n \<and> current v = enacts q"
  using delayed [of m' q t u n v] by blast

lemma once: "accept n s t \<Longrightarrow> \<not> accept n' t u"
  using accept_clears [of n s t] accept_unlocked [of n' t u] by auto

end

subsection \<open>Admin\<close>

definition admin_pending :: "'tok world \<Rightarrow> (address \<times> nat) option" where
  "admin_pending w = map_option (\<lambda>a. (a,
     (case i_AdminTransferProposedAt (inst w) of None \<Rightarrow> 0 | Some n \<Rightarrow> n) + ADMIN_TRANSFER_TIMELOCK)) (i_PendingAdmin (inst w))"

definition admin_of :: "'tok world \<Rightarrow> address option" where
  "admin_of w = i_Admin (inst w)"

definition proposes_admin :: "nat \<Rightarrow> address \<Rightarrow> 'tok world \<Rightarrow> 'tok world \<Rightarrow> bool" where
  "proposes_admin n a w t \<longleftrightarrow> (\<exists>e. ledger_timestamp e = n \<and> propose_new_admin e a w = Inr ((), t))"

definition accepts_admin :: "nat \<Rightarrow> 'tok world \<Rightarrow> 'tok world \<Rightarrow> bool" where
  "accepts_admin n w t \<longleftrightarrow> (\<exists>e. ledger_timestamp e = n \<and> accept_admin e w = Inr ((), t))"

lemma wp_propose_admin:
  "wp (propose_new_admin e a) (\<lambda>_ t. admin_pending t = Some (a, ledger_timestamp e + ADMIN_TRANSFER_TIMELOCK) \<and>
     admin_of t = admin_of w \<and> (\<exists>x. admin_of w = Some x \<and> authorized e x)) w"
  unfolding propose_new_admin_def by (auto simp: wp_simps admin_pending_def admin_of_def)

lemma wp_accept_admin:
  "wp (accept_admin e) (\<lambda>_ t. \<exists>a m. admin_pending w = Some (a, m) \<and> m \<le> ledger_timestamp e \<and> authorized e a \<and>
     admin_of t = Some a \<and> admin_pending t = None) w"
  unfolding accept_admin_def
  by (auto simp: wp_simps admin_pending_def admin_of_def split: option.splits)

interpretation admin: timelock proposes_admin accepts_admin admin_pending admin_of Some ADMIN_TRANSFER_TIMELOCK
  by unfold_locales
    (auto simp: proposes_admin_def accepts_admin_def dest!: wpD [OF wp_propose_admin] wpD [OF wp_accept_admin])

subsection \<open>Protocol configuration\<close>

definition config_pending :: "'tok world \<Rightarrow> (ProtocolConfig \<times> nat) option" where
  "config_pending w = (case (i_PendingProtocolConfig (inst w), i_ProtocolConfigProposedAt (inst w)) of
     (Some c, Some n) \<Rightarrow> Some (c, n + PROTOCOL_CONFIG_TIMELOCK) | _ \<Rightarrow> None)"

definition config_of :: "'tok world \<Rightarrow> nat option \<times> nat option \<times> nat option \<times> nat option" where
  "config_of w = (i_MinCheckInInterval (inst w), i_MaxCheckInInterval (inst w), i_MaxTtlSeconds (inst w),
     i_TtlDecayRate (inst w))"

definition config_enacts :: "ProtocolConfig \<Rightarrow> nat option \<times> nat option \<times> nat option \<times> nat option" where
  "config_enacts c = (pc_min_check_in_interval c, pc_max_check_in_interval c, Some (pc_max_ttl_seconds c),
     Some (pc_ttl_decay_rate c))"

definition proposes_config :: "nat \<Rightarrow> ProtocolConfig \<Rightarrow> 'tok world \<Rightarrow> 'tok world \<Rightarrow> bool" where
  "proposes_config n c w t \<longleftrightarrow> (\<exists>e. ledger_timestamp e = n \<and> propose_protocol_config e c w = Inr ((), t))"

definition applies_config :: "nat \<Rightarrow> 'tok world \<Rightarrow> 'tok world \<Rightarrow> bool" where
  "applies_config n w t \<longleftrightarrow> (\<exists>e. ledger_timestamp e = n \<and> apply_protocol_config e w = Inr ((), t))"

lemma wp_propose_config:
  "wp (propose_protocol_config e c) (\<lambda>_ t. config_pending t = Some (c, ledger_timestamp e + PROTOCOL_CONFIG_TIMELOCK) \<and>
     config_of t = config_of w \<and> (\<exists>x. admin_of w = Some x \<and> authorized e x)) w"
  unfolding propose_protocol_config_def
  by (auto simp: wp_simps config_pending_def config_of_def admin_of_def split: option.splits)

lemma wp_apply_config:
  "wp (apply_protocol_config e) (\<lambda>_ t. \<exists>c m. config_pending w = Some (c, m) \<and> m \<le> ledger_timestamp e \<and>
     config_of t = config_enacts c \<and> config_pending t = None \<and>
     i_RequireUtf8Metadata (inst t) = i_RequireUtf8Metadata (inst w) \<and>
     i_MaxVaultsPerOwner (inst t) = i_MaxVaultsPerOwner (inst w) \<and> (\<exists>x. admin_of w = Some x \<and> authorized e x)) w"
  unfolding apply_protocol_config_def
  by (auto simp: wp_simps config_pending_def config_of_def config_enacts_def admin_of_def split: option.splits)

interpretation config: timelock proposes_config applies_config config_pending config_of config_enacts PROTOCOL_CONFIG_TIMELOCK
  by unfold_locales
    (auto simp: proposes_config_def applies_config_def dest!: wpD [OF wp_propose_config] wpD [OF wp_apply_config])

subsection \<open>Ownership\<close>

definition owner_pending :: "nat \<Rightarrow> 'tok world \<Rightarrow> (address \<times> nat) option" where
  "owner_pending i w = map_option (\<lambda>r. (ot_new_owner r, ot_unlocks_at r)) (p_PendingOwnership (rel w) i)"

definition owner_of :: "nat \<Rightarrow> 'tok world \<Rightarrow> address option" where
  "owner_of i w = map_option v_owner (p_Vault w i)"

definition initiates_transfer :: "nat \<Rightarrow> nat \<Rightarrow> address \<Rightarrow> 'tok world \<Rightarrow> 'tok world \<Rightarrow> bool" where
  "initiates_transfer i n a w t \<longleftrightarrow>
     (\<exists>e c x. ledger_timestamp e = n \<and> initiate_ownership_transfer e i c a w = Inr (x, t))"

definition accepts_transfer :: "nat \<Rightarrow> nat \<Rightarrow> 'tok world \<Rightarrow> 'tok world \<Rightarrow> bool" where
  "accepts_transfer i n w t \<longleftrightarrow> (\<exists>e a. ledger_timestamp e = n \<and> accept_ownership_transfer e i a w = Inr ((), t))"

lemma wp_initiate:
  "wp (initiate_ownership_transfer e i c a) (\<lambda>_ t. owner_pending i t = Some (a, ledger_timestamp e + OWNERSHIP_TRANSFER_TIMELOCK) \<and>
     p_Vault t = p_Vault w \<and> owner_of i w = Some c \<and> authorized e c \<and>
     (\<exists>r. p_PendingOwnership (rel t) i = Some r \<and> ot_expires_at r = ledger_timestamp e + OWNERSHIP_TRANSFER_EXPIRY)) w"
  unfolding initiate_ownership_transfer_def log_audit_entry_def
  by (auto simp: wp_simps owner_pending_def owner_of_def Let_def)

lemma wp_accept_transfer:
  "wp (accept_ownership_transfer e i a) (\<lambda>_ t. \<exists>r. p_PendingOwnership (rel w) i = Some r \<and> ot_new_owner r = a \<and>
     ot_unlocks_at r \<le> ledger_timestamp e \<and> ledger_timestamp e \<le> ot_expires_at r \<and> authorized e a \<and>
     owner_of i t = Some a \<and> p_PendingOwnership (rel t) i = None) w"
  unfolding accept_ownership_transfer_def move_owner_def index_defs log_audit_entry_def
  by (auto simp: wp_simps owner_of_def Let_def)

interpretation ownership: timelock "initiates_transfer i" "accepts_transfer i" "owner_pending i" "owner_of i" Some
    OWNERSHIP_TRANSFER_TIMELOCK
  for i
  by unfold_locales
    (auto simp: initiates_transfer_def accepts_transfer_def owner_pending_def owner_of_def
      dest!: wpD [OF wp_initiate] wpD [OF wp_accept_transfer])

subsection \<open>Beneficiary\<close>

definition beneficiary_pending :: "nat \<Rightarrow> 'tok world \<Rightarrow> (address \<times> nat) option" where
  "beneficiary_pending i w =
     map_option (\<lambda>r. (pb_new_beneficiary r, pb_unlocks_at r)) (p_PendingBeneficiaryUpdate (rel w) i)"

definition beneficiary_of :: "nat \<Rightarrow> 'tok world \<Rightarrow> address option" where
  "beneficiary_of i w = map_option v_beneficiary (p_Vault w i)"

definition requests_beneficiary :: "nat \<Rightarrow> nat \<Rightarrow> address \<Rightarrow> 'tok world \<Rightarrow> 'tok world \<Rightarrow> bool" where
  "requests_beneficiary i n a w t \<longleftrightarrow> (\<exists>e c. ledger_timestamp e = n \<and> update_beneficiary e i c a w = Inr ((), t))"

definition applies_beneficiary :: "nat \<Rightarrow> nat \<Rightarrow> 'tok world \<Rightarrow> 'tok world \<Rightarrow> bool" where
  "applies_beneficiary i n w t \<longleftrightarrow> (\<exists>e c. ledger_timestamp e = n \<and> apply_beneficiary_update e i c w = Inr ((), t))"

lemma wp_update_beneficiary:
  "wp (update_beneficiary e i c a) (\<lambda>_ t. beneficiary_pending i t = Some (a, ledger_timestamp e + 86400) \<and>
     p_Vault t = p_Vault w \<and> owner_of i w = Some c \<and> authorized e c \<and> a \<noteq> c) w"
  unfolding update_beneficiary_def
  by (auto simp: wp_simps beneficiary_pending_def owner_of_def Let_def)

lemma wp_apply_beneficiary:
  "wp (apply_beneficiary_update e i c) (\<lambda>_ t. \<exists>a m. beneficiary_pending i w = Some (a, m) \<and> m \<le> ledger_timestamp e \<and>
     owner_of i w = Some c \<and> authorized e c \<and> beneficiary_of i t = Some a \<and> beneficiary_pending i t = None) w"
  unfolding apply_beneficiary_update_def index_defs append_activity_log_def
  by (auto simp: wp_simps beneficiary_pending_def beneficiary_of_def owner_of_def Let_def)

interpretation beneficiary: timelock "requests_beneficiary i" "applies_beneficiary i" "beneficiary_pending i"
    "beneficiary_of i" Some 86400
  for i
  by unfold_locales
    (auto simp: requests_beneficiary_def applies_beneficiary_def beneficiary_of_def
      dest!: wpD [OF wp_update_beneficiary] wpD [OF wp_apply_beneficiary])

subsection \<open>Properties\<close>

text \<open>
  The administration calls other than \<open>initialize\<close>, the proposals of an admin and their acceptance, and
  the history of those three: who signed, when, and which address was meant. In between come any of the
  other administration calls, and any calls that do not write the instance storage.
\<close>

inductive setting_call :: "'tok env \<Rightarrow> ('tok, unit) handler \<Rightarrow> bool"
  for e where
  "setting_call e (pause e r)" | "setting_call e (unpause e)"
| "setting_call e (set_min_check_in_interval e n)" | "setting_call e (set_max_check_in_interval e n)"
| "setting_call e (set_max_ttl_seconds e n)" | "setting_call e (set_ttl_decay_rate e n)"
| "setting_call e (set_min_checkin_cooldown e n)" | "setting_call e (whitelist_token e tk)"
| "setting_call e (remove_token_whitelist e tk)" | "setting_call e (register_wrapped_token e tk b)"
| "setting_call e (unregister_wrapped_token e tk)" | "setting_call e (register_bridge e n b)"
| "setting_call e (deactivate_bridge e n)" | "setting_call e (upgrade e r)"
| "setting_call e (set_owner_vault_limit e n)" | "setting_call e (set_beneficiary_vault_limit e n)"
| "setting_call e (propose_protocol_config e pc)" | "setting_call e (apply_protocol_config e)"

definition admin_fields :: "'tok world \<Rightarrow> address option \<times> address option \<times> nat option" where
  "admin_fields w = (i_Admin (inst w), i_PendingAdmin (inst w), i_AdminTransferProposedAt (inst w))"

lemma setting_keeps: "setting_call e m \<Longrightarrow> keeps admin_fields m"
  by (induction rule: setting_call.induct; unfold admin_defs; rule keeps_wpI)
    (auto simp: wp_simps admin_fields_def split: option.splits)

datatype admin_event =
    AdminAppointed "address set" address
  | AdminProposed nat "address set" address
  | AdminAccepted nat "address set" address

definition signers :: "'tok env \<Rightarrow> address set" where
  "signers e = {a. authorized e a}"

inductive admin_history :: "admin_event list \<Rightarrow> 'tok world \<Rightarrow> bool" where
  undeployed: "admin_fields w = (None, None, None) \<Longrightarrow> admin_history [] w"
| appointed: "admin_history h w \<Longrightarrow> initialize e tk a w = Inr ((), t) \<Longrightarrow> admin_history (h @ [AdminAppointed (signers e) a]) t"
| proposed: "admin_history h w \<Longrightarrow> propose_new_admin e a w = Inr ((), t) \<or> propose_admin e a w = Inr ((), t) \<Longrightarrow>
     admin_history (h @ [AdminProposed (ledger_timestamp e) (signers e) a]) t"
| accepted: "admin_history h w \<Longrightarrow> accept_admin e w = Inr ((), t) \<Longrightarrow> i_PendingAdmin (inst w) = Some a \<Longrightarrow>
     admin_history (h @ [AdminAccepted (ledger_timestamp e) (signers e) a]) t"
| setting: "admin_history h w \<Longrightarrow> setting_call e m \<Longrightarrow> m w = Inr ((), t) \<Longrightarrow> admin_history h t"
| elsewhere: "admin_history h w \<Longrightarrow> inst t = inst w \<Longrightarrow> admin_history h t"

text \<open>The admin a history leads to: the last address that was appointed or accepted.\<close>

fun elected :: "admin_event list \<Rightarrow> address option" where
  "elected [] = None"
| "elected (x # xs) = (case elected xs of Some a \<Rightarrow> Some a | None \<Rightarrow>
     (case x of AdminAppointed _ a \<Rightarrow> Some a | AdminAccepted _ _ a \<Rightarrow> Some a | AdminProposed _ _ _ \<Rightarrow> None))"

lemma elected_snoc:
  "elected (xs @ [x]) = (case x of AdminAppointed _ a \<Rightarrow> Some a | AdminAccepted _ _ a \<Rightarrow> Some a | AdminProposed _ _ _ \<Rightarrow> elected xs)"
  by (induction xs) (auto split: option.splits admin_event.splits)

text \<open>
  What holds of a history: an acceptance follows immediately after the proposal of the same address, at
  least 24 hours later and signed by that address, and every proposal was signed by the admin of that
  time; the contract is initialised once, by the address it appoints.
\<close>

definition lawful_event :: "admin_event list \<Rightarrow> admin_event \<Rightarrow> bool" where
  "lawful_event h x = (case x of
       AdminAppointed S a \<Rightarrow> h = [] \<and> a \<in> S
     | AdminProposed m S a \<Rightarrow> \<exists>b \<in> S. elected h = Some b
     | AdminAccepted n S a \<Rightarrow> a \<in> S \<and> (\<exists>h0 m S'. h = h0 @ [AdminProposed m S' a] \<and> m + 86400 \<le> n))"

definition lawful :: "admin_event list \<Rightarrow> bool" where
  "lawful h \<longleftrightarrow> (\<forall>h1 x h2. h = h1 @ x # h2 \<longrightarrow> lawful_event h1 x)"

lemma snoc_split: "h @ [x] = h1 @ y # h2 \<Longrightarrow> h1 = h \<and> y = x \<or> (\<exists>h3. h = h1 @ y # h3)"
  by (cases h2 rule: rev_cases) auto

lemma lawful_snoc: "lawful (h @ [x]) \<longleftrightarrow> lawful h \<and> lawful_event h x"
proof
  assume l: "lawful (h @ [x])"
  then have "lawful_event h1 y" if "h = h1 @ y # h2" for h1 y h2
    using that unfolding lawful_def by (metis append.assoc append_Cons)
  then show "lawful h \<and> lawful_event h x" using l unfolding lawful_def by blast
next
  assume "lawful h \<and> lawful_event h x"
  then show "lawful (h @ [x])" unfolding lawful_def using snoc_split by metis
qed

definition admin_tracks :: "admin_event list \<Rightarrow> 'tok world \<Rightarrow> bool" where
  "admin_tracks h w \<longleftrightarrow> lawful h \<and> i_Admin (inst w) = elected h \<and> (elected h = None \<longrightarrow> h = []) \<and>
     (if \<exists>h0 m S a. h = h0 @ [AdminProposed m S a]
      then \<exists>h0 m S a. h = h0 @ [AdminProposed m S a] \<and> i_PendingAdmin (inst w) = Some a \<and> i_AdminTransferProposedAt (inst w) = Some m
      else i_PendingAdmin (inst w) = None)"

lemma tracks_fields: "admin_fields t = admin_fields w \<Longrightarrow> admin_tracks h t = admin_tracks h w"
  by (simp add: admin_fields_def admin_tracks_def)

lemma admin_appointment_effect:
  "wp (initialize e tk a) (\<lambda>_ t. a \<in> signers e \<and> i_Admin (inst w) = None \<and>
     admin_fields t = (Some a, i_PendingAdmin (inst w), i_AdminTransferProposedAt (inst w))) w"
  unfolding initialize_def by (auto simp: wp_simps signers_def admin_fields_def)

lemma admin_proposal_effect:
  "wp (propose_new_admin e a) (\<lambda>_ t. (\<exists>b \<in> signers e. i_Admin (inst w) = Some b) \<and>
     admin_fields t = (i_Admin (inst w), Some a, Some (ledger_timestamp e))) w"
  unfolding propose_new_admin_def by (auto simp: wp_simps signers_def admin_fields_def)

lemma admin_acceptance_effect:
  "wp (accept_admin e) (\<lambda>_ t. \<exists>a \<in> signers e. i_PendingAdmin (inst w) = Some a \<and>
     (\<forall>m. i_AdminTransferProposedAt (inst w) = Some m \<longrightarrow> m + 86400 \<le> ledger_timestamp e) \<and>
     admin_fields t = (Some a, None, None)) w"
  unfolding accept_admin_def by (auto simp: wp_simps signers_def admin_fields_def ADMIN_TRANSFER_TIMELOCK_def split: option.splits)

lemma history_tracked: "admin_history h w \<Longrightarrow> admin_tracks h w"
proof (induction rule: admin_history.induct)
  case (undeployed w)
  then show ?case by (simp add: admin_tracks_def admin_fields_def lawful_def)
next
  case (appointed h w e tk a t)
  then show ?case
    using wpD [OF admin_appointment_effect appointed.hyps(2)]
    by (auto simp: admin_tracks_def admin_fields_def lawful_snoc lawful_event_def elected_snoc)
next
  case (proposed h w e a t)
  then show ?case
    using wpD [OF admin_proposal_effect [of e a], of w] unfolding propose_admin_def
    by (auto simp: admin_tracks_def admin_fields_def lawful_snoc lawful_event_def elected_snoc)
next
  case (accepted h w e t a)
  then show ?case
    using wpD [OF admin_acceptance_effect accepted.hyps(2)]
    by (auto simp: admin_tracks_def admin_fields_def lawful_snoc lawful_event_def elected_snoc split: if_splits)
next
  case (setting h w e m t)
  then have "admin_fields t = admin_fields w" using setting_keeps by (auto simp: keeps_def)
  then show ?case using setting tracks_fields by blast
next
  case (elsewhere h w t)
  then show ?case by (simp add: admin_tracks_def)
qed

text \<open>C14. Through every history of a contract, with \<open>h\<close> the successful initialisation, proposals and
  acceptances in order: the admin is the last address that was appointed or that accepted; the contract is initialised
  once, before everything else and signed by its first admin; every proposal was signed by the admin of that time; and every
  acceptance was signed by the accepting address and follows immediately after a proposal of that address made at least
  24 hours earlier. So a new proposal restarts the delay, and one proposal is accepted at most once. Besides the
  administration calls, the history may contain any calls that do not write the instance storage.\<close>

theorem admin_timelock:
  assumes "admin_history h w"
  shows "admin_of w = elected h \<and> lawful h"
  using history_tracked [OF assms] by (simp add: admin_tracks_def admin_of_def)

definition proposed_world :: "ledger world" where
  "proposed_world = after (propose_new_admin (host 200) HEIR) initialized"

definition accepted_world :: "ledger world" where
  "accepted_world = after (accept_admin (host 90000)) proposed_world"

lemma proposed_world_run:
  "runs (propose_new_admin (host 200) HEIR) (\<lambda>_ t. i_PendingAdmin (inst t) = Some HEIR \<and>
     i_AdminTransferProposedAt (inst t) = Some 200) initialized"
  by (simp add: propose_new_admin_def run_simps inst_defs extend_instance_ttl_def address_defs)

lemmas proposed_world_sel [simp] = proposed_world_run [THEN runs_after, folded proposed_world_def]

lemma accepted_world_run: "runs (accept_admin (host 90000)) (\<lambda>_ t. admin_of t = Some HEIR) proposed_world"
  by (simp add: accept_admin_def run_simps inst_defs extend_instance_ttl_def ADMIN_TRANSFER_TIMELOCK_def admin_of_def
      address_defs)

lemma committed: "runs m Q w \<Longrightarrow> m w = Inr ((), after m w)" for m :: "('tok, unit) handler"
  by (auto simp: runs_def after_def split: sum.splits)

theorem admin_timelock_witness:
  "\<exists>S S' S''. admin_of accepted_world = elected [AdminAppointed S ADMIN, AdminProposed 200 S' HEIR, AdminAccepted 90000 S'' HEIR] \<and>
     admin_of accepted_world = Some HEIR"
proof -
  have "admin_history [] genesis" by (rule undeployed) (simp add: admin_fields_def genesis_def instance0_def)
  note appointed [OF this committed [OF initialized_run], folded initialized_def]
  note proposed [OF this disjI1 [OF committed [OF proposed_world_run]], folded proposed_world_def]
  note accepted [OF this committed [OF accepted_world_run], folded accepted_world_def]
  from admin_timelock [OF this [of HEIR]] show ?thesis by auto
qed

text \<open>A protocol configuration takes effect only by the admin applying it at least 24
  hours after its proposal; it then sets the interval bounds, the maximal TTL and the decay
  rate as proposed, but leaves the metadata and vaults-per-owner settings of the proposal
  unapplied.\<close>

theorem config_timelock:
  assumes "propose_protocol_config e c w = Inr ((), u)" "apply_protocol_config e' u = Inr ((), t)"
  shows "ledger_timestamp e + 86400 \<le> ledger_timestamp e' \<and> config_of u = config_of w \<and>
    config_of t = config_enacts c \<and> i_RequireUtf8Metadata (inst t) = i_RequireUtf8Metadata (inst u) \<and>
    i_MaxVaultsPerOwner (inst t) = i_MaxVaultsPerOwner (inst u)"
proof -
  have p: "proposes_config (ledger_timestamp e) c w u" and q: "applies_config (ledger_timestamp e') u t"
    using assms by (auto simp: proposes_config_def applies_config_def)
  show ?thesis
    using config.delayed [OF p q] config.propose_current [OF p] wpD [OF wp_apply_config assms(2)]
    by (auto simp: PROTOCOL_CONFIG_TIMELOCK_def)
qed

definition config1 :: ProtocolConfig where
  "config1 = \<lparr>pc_min_check_in_interval = Some 60, pc_max_check_in_interval = Some 9000, pc_max_ttl_seconds = 9000,
     pc_ttl_decay_rate = 100, pc_require_utf8_metadata = True, pc_max_vaults_per_owner = 3\<rparr>"

lemma funded_config:
  "runs (thenM (propose_protocol_config (host 200) config1) (apply_protocol_config (host 90000))) (\<lambda>_ _. True) funded"
  by (simp add: propose_protocol_config_def apply_protocol_config_def run_simps inst_defs extend_instance_ttl_def
      PROTOCOL_CONFIG_TIMELOCK_def config1_def scenario_defs)

theorem config_timelock_witness:
  "\<exists>u t. propose_protocol_config (host 200) config1 funded = Inr ((), u) \<and> apply_protocol_config (host 90000) u = Inr ((), t) \<and>
     config_of t = (Some 60, Some 9000, Some 9000, Some 100) \<and>
     i_MaxVaultsPerOwner (inst t) = i_MaxVaultsPerOwner (inst u)"
proof -
  obtain u t where ut: "propose_protocol_config (host 200) config1 funded = Inr ((), u)"
      "apply_protocol_config (host 90000) u = Inr ((), t)"
    using funded_config by (auto simp: runs_def bindM_def split: sum.splits)
  show ?thesis using config_timelock [OF ut] ut by (auto simp: config_enacts_def config1_def)
qed

text \<open>C15. A two-step transfer hands a vault over only inside its window: between 24 hours and
  7 days after the owner initiated it, to the address named, which must authorise it; the
  request can be used once.\<close>

theorem ownership_window:
  assumes "initiate_ownership_transfer e i c a w = Inr (x, u)" "accept_ownership_transfer e' i b u = Inr ((), t)"
  shows "b = a \<and> authorized e c \<and> authorized e' a \<and> owner_of i w = Some c \<and> owner_of i t = Some a \<and>
    ledger_timestamp e + 86400 \<le> ledger_timestamp e' \<and> ledger_timestamp e' \<le> ledger_timestamp e + 604800 \<and>
    \<not> commits (accept_ownership_transfer e'' i b') t"
proof -
  have p: "initiates_transfer i (ledger_timestamp e) a w u" and q: "accepts_transfer i (ledger_timestamp e') u t"
    using assms by (auto simp: initiates_transfer_def accepts_transfer_def)
  have "\<not> commits (accept_ownership_transfer e'' i b') t"
    using ownership.once [OF q] by (auto simp: accepts_transfer_def commits_def split: sum.splits)
  then show ?thesis
    using ownership.delayed [OF p q] wpD [OF wp_initiate assms(1)] wpD [OF wp_accept_transfer assms(2)]
    by (auto simp: OWNERSHIP_TRANSFER_TIMELOCK_def OWNERSHIP_TRANSFER_EXPIRY_def owner_pending_def)
qed

lemma funded_handover:
  "runs (thenM (initiate_ownership_transfer (host 200) 1 OWNER COHEIR) (accept_ownership_transfer (host 90000) 1 COHEIR))
     (\<lambda>_ _. True) funded"
  by (simp add: initiate_ownership_transfer_def accept_ownership_transfer_def move_owner_def run_simps inst_defs
      vault_defs index_defs log_defs set_defs extend_instance_ttl_def OWNERSHIP_TRANSFER_TIMELOCK_def
      OWNERSHIP_TRANSFER_EXPIRY_def scenario_defs)

theorem ownership_window_witness:
  "\<exists>x u t. initiate_ownership_transfer (host 200) 1 OWNER COHEIR funded = Inr (x, u) \<and>
     accept_ownership_transfer (host 90000) 1 COHEIR u = Inr ((), t) \<and> owner_of 1 t = Some COHEIR"
proof -
  obtain x u t where ut: "initiate_ownership_transfer (host 200) 1 OWNER COHEIR funded = Inr (x, u)"
      "accept_ownership_transfer (host 90000) 1 COHEIR u = Inr ((), t)"
    using funded_handover by (auto simp: runs_def bindM_def split: sum.splits)
  show ?thesis using ownership_window [OF ut] ut by blast
qed

text \<open>The primary beneficiary of a vault changes by a request of the owner and, at
  least 24 hours later, the owner applying it; until then the old beneficiary stays, a second
  request restarts the delay, and a request is applied once.\<close>

theorem beneficiary_timelock:
  assumes "update_beneficiary e i c a w = Inr ((), u)" "apply_beneficiary_update e' i c' u = Inr ((), t)"
  shows "c' = c \<and> owner_of i w = Some c \<and> authorized e c \<and> authorized e' c \<and>
    ledger_timestamp e + 86400 \<le> ledger_timestamp e' \<and>
    beneficiary_of i u = beneficiary_of i w \<and> beneficiary_of i t = Some a \<and> a \<noteq> c \<and>
    \<not> commits (apply_beneficiary_update e'' i c'') t"
proof -
  have p: "requests_beneficiary i (ledger_timestamp e) a w u" and q: "applies_beneficiary i (ledger_timestamp e') u t"
    using assms by (auto simp: requests_beneficiary_def applies_beneficiary_def)
  have "\<not> commits (apply_beneficiary_update e'' i c'') t"
    using beneficiary.once [OF q] by (auto simp: applies_beneficiary_def commits_def split: sum.splits)
  then show ?thesis
    using beneficiary.delayed [OF p q] beneficiary.propose_current [OF p] wpD [OF wp_update_beneficiary assms(1)]
      wpD [OF wp_apply_beneficiary assms(2)]
    by (auto simp: owner_of_def)
qed

lemma funded_renamed:
  "runs (thenM (update_beneficiary (host 200) 1 OWNER COHEIR) (apply_beneficiary_update (host 90000) 1 OWNER))
     (\<lambda>_ _. True) funded"
  by (simp add: update_beneficiary_def apply_beneficiary_update_def run_simps inst_defs vault_defs index_defs log_defs
      set_defs assert_beneficiary_capacity_def get_beneficiary_vault_limit_def beneficiary_limit_of_def
      extend_instance_ttl_def scenario_defs)

theorem beneficiary_timelock_witness:
  "\<exists>u t. update_beneficiary (host 200) 1 OWNER COHEIR funded = Inr ((), u) \<and>
     apply_beneficiary_update (host 90000) 1 OWNER u = Inr ((), t) \<and>
     beneficiary_of 1 u = Some HEIR \<and> beneficiary_of 1 t = Some COHEIR"
proof -
  obtain u t where ut: "update_beneficiary (host 200) 1 OWNER COHEIR funded = Inr ((), u)"
      "apply_beneficiary_update (host 90000) 1 OWNER u = Inr ((), t)"
    using funded_renamed by (auto simp: runs_def bindM_def split: sum.splits)
  show ?thesis
    using beneficiary_timelock [OF ut] ut by (auto simp: beneficiary_of_def funded_def vault1_def new_vault_def)
qed

text \<open>A one-step transfer does not withdraw a pending two-step one. The owner starts a
  transfer to one address and then hands the vault to another at once; a day later the first
  address accepts the old offer and takes the vault from its new owner, who never agreed.\<close>

theorem stale_transfer:
  "\<exists>x s u t. initiate_ownership_transfer (host 200) 1 OWNER COHEIR funded = Inr (x, s) \<and>
     transfer_ownership (host 300) 1 OWNER ADMIN s = Inr ((), u) \<and> owner_of 1 u = Some ADMIN \<and>
     accept_ownership_transfer (host 90000) 1 COHEIR u = Inr ((), t) \<and> owner_of 1 t = Some COHEIR"
proof -
  have "runs (initiate_ownership_transfer (host 200) 1 OWNER COHEIR)
     (\<lambda>_. runs (transfer_ownership (host 300) 1 OWNER ADMIN) (\<lambda>_ u. owner_of 1 u = Some ADMIN \<and>
       runs (accept_ownership_transfer (host 90000) 1 COHEIR) (\<lambda>_ t. owner_of 1 t = Some COHEIR) u)) funded"
    by (simp add: initiate_ownership_transfer_def accept_ownership_transfer_def transfer_ownership_def move_owner_def
        owner_of_def run_simps inst_defs vault_defs index_defs log_defs set_defs extend_instance_ttl_def
        OWNERSHIP_TRANSFER_TIMELOCK_def OWNERSHIP_TRANSFER_EXPIRY_def scenario_defs)
  then show ?thesis by (auto elim!: runsE)
qed

text \<open>C16. Cancelling needs the authorised owner of a locked vault without a multi-signature
  configuration; it pays the whole balance back to the owner, closes the vault with nothing left
  in it, and touches no other vault and no other account.\<close>

theorem cancel_refunds:
  assumes "host_ok e self bal" "solvent bal self w" "cancel_vault e i c w = Inr ((), t)"
  shows "\<exists>v. p_Vault w i = Some v \<and> authorized e c \<and> c = v_owner v \<and> v_status v = Locked \<and>
    p_MultiSigConfig (msig w) i = None \<and>
    p_Vault t = (p_Vault w)(i \<mapsto> v\<lparr>v_balance := 0, v_status := Cancelled\<rparr>) \<and>
    (\<forall>d a. bal (tokens t) d a = bal (tokens w) d a
       - (if d = v_token_address v \<and> a = self then v_balance v else 0)
       + (if d = v_token_address v \<and> a = v_owner v then v_balance v else 0))"
proof -
  obtain v where v: "p_Vault w i = Some v" "authorized e c" "c = v_owner v" "v_status v = Locked"
    "p_MultiSigConfig (msig w) i = None" "cancelled e i v w t"
    using wpD [OF cancel_vault_effect assms(3)] by blast
  have "0 \<le> v_balance v" using assms(2) v(1) accounts_okD(3) by (fastforce simp: solvent_def)
  then consider "tokens t = tokens w" "v_balance v = 0"
    | "token_transfer e (v_token_address v) self (v_owner v) (v_balance v) (tokens w) = Some (tokens t)"
    using v(6) assms(1) by (auto simp: host_ok_def cancelled_def split: if_splits)
  then have "bal (tokens t) d a = bal (tokens w) d a - (if d = v_token_address v \<and> a = self then v_balance v else 0)
      + (if d = v_token_address v \<and> a = v_owner v then v_balance v else 0)" for d a
  proof cases
    case 2
    have "sep41 e bal" using assms(1) by (simp add: host_ok_def)
    then show ?thesis by (rule sep41D(3) [OF _ 2])
  qed simp
  then show ?thesis using v by (auto simp: cancelled_def)
qed

lemma funded_cancel: "runs (cancel_vault (host 200) 1 OWNER) (\<lambda>_ _. True) funded"
  by (simp add: cancel_vault_def run_simps inst_defs vault_defs index_defs log_defs set_defs
      extend_instance_ttl_def move_def scenario_defs)

theorem cancel_refunds_witness:
  "\<exists>t. cancel_vault (host 200) 1 OWNER funded = Inr ((), t) \<and> ledger_balance (tokens t) XLM OWNER = 1000 \<and>
     p_Vault t 1 = Some (vault1\<lparr>v_balance := 0, v_status := Cancelled\<rparr>)"
proof -
  obtain t where t: "cancel_vault (host 200) 1 OWNER funded = Inr ((), t)"
    using funded_cancel by (auto elim: runsE)
  have "solvent ledger_balance VAULT funded" using funded_safe by (simp add: safe_def)
  then show ?thesis
    using cancel_refunds [OF host_ok_host _ t] t by (auto simp: ledger_balance_def scenario_defs)
qed

end
