(* ===== verification/Ttl_Properties.thy ===== *)
theory Ttl_Properties
  imports Vault_Scenario
begin

section \<open>Properties of the time to live\<close>

text \<open>
  Rent, hibernation, decay, borrowing, countdown notifications and the proof of work of a
  check-in.
\<close>

unbundle bit_operations_syntax

subsection \<open>Rent\<close>

text \<open>The rent requested for a vault is never below the minimum and never above
  the network's maximum, grows with the check-in interval, and covers twice the interval (up to
  rounding to ledgers) for every interval up to 90 days.\<close>

theorem ttl_ledgers_bounds:
  "VAULT_TTL_LEDGERS \<le> vault_ttl_ledgers n \<and> vault_ttl_ledgers n \<le> MAX_PERSISTENT_TTL \<and>
   (n \<le> m \<longrightarrow> vault_ttl_ledgers n \<le> vault_ttl_ledgers m) \<and>
   (n \<le> 7776000 \<longrightarrow> 2 * n < LEDGER_SECOND * (vault_ttl_ledgers n + 1))"
proof (intro conjI impI)
  show "VAULT_TTL_LEDGERS \<le> vault_ttl_ledgers n" "vault_ttl_ledgers n \<le> MAX_PERSISTENT_TTL"
    by (simp_all add: vault_ttl_ledgers_def Let_def VAULT_TTL_LEDGERS_def MAX_PERSISTENT_TTL_def)
  show "vault_ttl_ledgers n \<le> vault_ttl_ledgers m" if "n \<le> m"
  proof -
    have "sat_mul U32_MAX (min n U32_MAX) 2 \<le> sat_mul U32_MAX (min m U32_MAX) 2"
      using that by (auto simp: sat_mul_def)
    then have "sat_mul U32_MAX (min n U32_MAX) 2 div LEDGER_SECOND \<le> sat_mul U32_MAX (min m U32_MAX) 2 div LEDGER_SECOND"
      by (rule div_le_mono)
    then show ?thesis by (auto simp: vault_ttl_ledgers_def Let_def)
  qed
  show "2 * n < LEDGER_SECOND * (vault_ttl_ledgers n + 1)" if n: "n \<le> 7776000"
  proof -
    have "min n U32_MAX = n" "n * 2 div 5 \<le> 3110400" "min U32_MAX (n * 2) = n * 2" using n by simp_all
    then have "n * 2 div 5 \<le> vault_ttl_ledgers n"
      by (simp add: vault_ttl_ledgers_def Let_def sat_mul_def LEDGER_SECOND_def VAULT_TTL_LEDGERS_def
          MAX_PERSISTENT_TTL_def)
    then show ?thesis by (simp add: LEDGER_SECOND_def)
  qed
qed

theorem ttl_ledgers_bounds_witness: "2 * 7776000 < LEDGER_SECOND * (vault_ttl_ledgers 7776000 + 1)"
  using ttl_ledgers_bounds [of 7776000 7776000] by simp

subsection \<open>Proof of work\<close>

text \<open>The hash read as a big-endian number.\<close>

fun be_value :: "bytes \<Rightarrow> nat" where
  "be_value [] = 0"
| "be_value (b # bs) = b * 256 ^ length bs + be_value bs"

lemma be_value_less: "list_all (\<lambda>b. b < 256) bs \<Longrightarrow> be_value bs < 256 ^ length bs"
proof (induction bs)
  case (Cons b bs)
  then have "b * 256 ^ length bs + be_value bs < Suc b * 256 ^ length bs" "Suc b \<le> 256" by simp_all
  then show ?case by (metis (no_types) be_value.simps(2) length_Cons less_le_trans mult_le_mono1 power_Suc)
qed simp

lemma byte_zeros: "b < 2 ^ n \<Longrightarrow> d \<le> n \<Longrightarrow> d \<le> byte_leading_zeros n b \<longleftrightarrow> b < 2 ^ (n - d)"
proof (induction n b arbitrary: d rule: byte_leading_zeros.induct)
  case (2 n b)
  have "2 ^ (n - k) \<le> b" if "2 ^ n \<le> b" for k
  proof -
    have "2 ^ (n - k) \<le> (2::nat) ^ n" by (rule power_increasing) simp_all
    then show ?thesis using that by linarith
  qed
  then show ?case using 2 by (cases d) (auto simp: not_less)
qed simp

lemma byte_zeros_le: "byte_leading_zeros n b \<le> n"
  by (induction n b rule: byte_leading_zeros.induct) auto

lemma high_byte:
  assumes "v < 256 ^ n" "(0::nat) < k"
  shows "b * 256 ^ n + v < k * 256 ^ n \<longleftrightarrow> b < k"
proof
  assume "b * 256 ^ n + v < k * 256 ^ n"
  then have "b * 256 ^ n < k * 256 ^ n" by linarith
  then show "b < k" by simp
next
  assume "b < k"
  then have "Suc b * 256 ^ n \<le> k * 256 ^ n" by (intro mult_le_mono1) simp
  then show "b * 256 ^ n + v < k * 256 ^ n" using assms(1) by simp
qed

lemma leading_zeros_value:
  "list_all (\<lambda>b. b < 256) bs \<Longrightarrow> d \<le> 8 * length bs \<Longrightarrow>
     d \<le> leading_zero_bits bs \<longleftrightarrow> be_value bs < 2 ^ (8 * length bs - d)"
proof (induction bs arbitrary: d)
  case (Cons b bs)
  have v: "be_value bs < 256 ^ length bs" and b: "b < 2 ^ 8"
    using Cons.prems be_value_less by simp_all
  have p: "(256::nat) ^ length bs = 2 ^ (8 * length bs)" by (simp add: power_mult)
  show ?case
  proof (cases "d \<le> 8")
    case True
    have "(2::nat) ^ (8 * length (b # bs) - d) = 2 ^ (8 - d) * 256 ^ length bs"
      using True p by (simp add: power_add [symmetric])
    then have "be_value (b # bs) < 2 ^ (8 * length (b # bs) - d) \<longleftrightarrow> b < 2 ^ (8 - d)"
      using high_byte [OF v, of "2 ^ (8 - d)" b] by simp
    then show ?thesis
      using True byte_zeros [OF b True] by auto
  next
    case False
    have ge: "(2::nat) ^ (8 * length (b # bs) - d) \<le> 256 ^ length bs"
      unfolding p using False by (intro power_increasing) simp_all
    have "\<not> be_value (b # bs) < 2 ^ (8 * length (b # bs) - d)" if "b \<noteq> 0"
      using that ge by (cases b) (auto simp: not_less)
    moreover have "\<not> d \<le> byte_leading_zeros 8 b" using byte_zeros_le [of 8 b] False by simp
    moreover have "d - 8 \<le> leading_zero_bits bs \<longleftrightarrow> be_value bs < 2 ^ (8 * length (b # bs) - d)"
      using Cons.IH [of "d - 8"] Cons.prems False by (simp add: add.commute)
    ultimately show ?thesis by (cases "b = 0") auto
  qed
qed simp

text \<open>The proof-of-work test of a check-in, which counts the leading zero bits of the
  hash byte by byte, is the usual threshold test: for a hash of \<open>n\<close> bytes it accepts exactly
  when the hash, read as a number, is below \<open>2 ^ (8 n - d)\<close> for difficulty \<open>d\<close>.\<close>

theorem pow_threshold:
  assumes "h = sha256 e (to_le_bytes 8 i @ to_le_bytes 8 l @ to_le_bytes 8 nonce)"
    "list_all (\<lambda>b. b < 256) h" "d \<le> 8 * length h"
  shows "verify_pow e i l nonce d \<longleftrightarrow> be_value h < 2 ^ (8 * length h - d)"
  using leading_zeros_value [OF assms(2,3)] be_value_less [OF assms(2)] assms(1)
  by (auto simp: verify_pow_def power_mult [symmetric] simp flip: power_mult)

theorem pow_threshold_witness:
  "\<not> verify_pow ((host 5)\<lparr>sha256 := (\<lambda>_. [0, 31])\<rparr>) 1 100 7 12 \<and>
   verify_pow ((host 5)\<lparr>sha256 := (\<lambda>_. [0, 31])\<rparr>) 1 100 7 11"
  using pow_threshold [of "[0, 31]" "(host 5)\<lparr>sha256 := (\<lambda>_. [0, 31])\<rparr>" 1 100 7 12]
    pow_threshold [of "[0, 31]" "(host 5)\<lparr>sha256 := (\<lambda>_. [0, 31])\<rparr>" 1 100 7 11] by simp

subsection \<open>Hibernation\<close>

lemma wp_enter:
  "wp (enter_hibernation e i c d) (\<lambda>_ u. \<exists>v. p_Vault w i = Some v \<and> p_Vault u = p_Vault w \<and> d \<noteq> 0 \<and>
     p_Hibernation (rel u) = (p_Hibernation (rel w))(i \<mapsto>
       \<lparr>h_started_at = ledger_timestamp e, h_duration_seconds = d\<rparr>)) w"
  unfolding enter_hibernation_def by (auto simp: wp_simps Let_def)

lemma wp_exit:
  "wp (exit_hibernation e i c) (\<lambda>_ u. \<exists>v h. p_Vault w i = Some v \<and> p_Hibernation (rel w) i = Some h \<and>
     p_Hibernation (rel u) i = None \<and> p_Vault u i = Some (v\<lparr>v_last_check_in :=
       sat_add U64_MAX (v_last_check_in v) (min (ledger_timestamp e - h_started_at h) (h_duration_seconds h))\<rparr>)) w"
  unfolding exit_hibernation_def by (auto simp: wp_simps Let_def)

text \<open>Hibernation stops the clock of a vault: while it lasts the vault does not
  expire, and when the owner leaves it the deadline has moved by exactly the time spent in it,
  at most the announced duration.\<close>

theorem hibernation_stops_clock:
  assumes "enter_hibernation e i c d w = Inr ((), u)" "exit_hibernation e' i c u = Inr ((), t)"
    "p_Vault w i = Some v" "v_last_check_in v + d \<le> U64_MAX"
  shows "p_Vault t i = Some (v\<lparr>v_last_check_in := v_last_check_in v +
      min (ledger_timestamp e' - ledger_timestamp e) d\<rparr>) \<and> p_Hibernation (rel t) i = None \<and>
    (ledger_timestamp e'' < ledger_timestamp e + d \<longrightarrow> wp (is_expired e'' i) (\<lambda>x _. \<not> x) u)"
proof (intro conjI impI)
  have u: "p_Vault u i = Some v" "p_Hibernation (rel u) i =
      Some \<lparr>h_started_at = ledger_timestamp e, h_duration_seconds = d\<rparr>" "d \<noteq> 0"
    using wpD [OF wp_enter assms(1)] assms(3) by auto
  show "p_Vault t i = Some (v\<lparr>v_last_check_in := v_last_check_in v +
      min (ledger_timestamp e' - ledger_timestamp e) d\<rparr>)" "p_Hibernation (rel t) i = None"
    using wpD [OF wp_exit assms(2)] u assms(4) by (auto simp: sat_add_def min_def)
  show "wp (is_expired e'' i) (\<lambda>x _. \<not> x) u" if "ledger_timestamp e'' < ledger_timestamp e + d"
    using that u by (auto simp: wp_is_expired expired_def hibernating_def)
qed

lemma funded_hibernation:
  "runs (thenM (enter_hibernation (host 200) 1 OWNER 500) (exit_hibernation (host 450) 1 OWNER)) (\<lambda>_ _. True) funded"
  by (simp add: enter_hibernation_def exit_hibernation_def run_simps vault_defs set_defs Let_def
      extend_instance_ttl_def scenario_defs)

theorem hibernation_stops_clock_witness:
  "\<exists>u t. enter_hibernation (host 200) 1 OWNER 500 funded = Inr ((), u) \<and>
     exit_hibernation (host 450) 1 OWNER u = Inr ((), t) \<and> p_Vault t 1 = Some (vault1\<lparr>v_last_check_in := 350\<rparr>)"
proof -
  obtain u t where ut: "enter_hibernation (host 200) 1 OWNER 500 funded = Inr ((), u)"
      "exit_hibernation (host 450) 1 OWNER u = Inr ((), t)"
    using funded_hibernation by (auto simp: runs_def bindM_def split: sum.splits)
  have v: "p_Vault funded 1 = Some vault1" "v_last_check_in vault1 = 100" by (simp_all add: scenario_defs)
  show ?thesis
    using hibernation_stops_clock [OF ut v(1), of "host 0"] v(2) ut by simp
qed

subsection \<open>Decay\<close>

definition decayed :: "nat \<Rightarrow> Vault \<Rightarrow> Vault \<Rightarrow> bool" where
  "decayed now v v' \<longleftrightarrow> v' = v\<lparr>v_last_check_in := v_last_check_in v'\<rparr> \<and>
     v_last_check_in v' + v_check_in_interval v \<le> max (v_last_check_in v + v_check_in_interval v) now"

lemma decayed_refl: "decayed now v v"
  by (simp add: decayed_def)

lemma decayed_step:
  assumes "deadline = v_last_check_in v + v_check_in_interval v" "new = now + (deadline - now) * (10000 - r) div 10000"
    "v_check_in_interval v \<le> new"
  shows "decayed now v (v\<lparr>v_last_check_in := new - v_check_in_interval v\<rparr>)"
proof -
  define x where "x = (deadline - now) * (10000 - r) div 10000"
  have "(deadline - now) * (10000 - r) \<le> (deadline - now) * 10000" by simp
  then have "x \<le> (deadline - now) * 10000 div 10000" unfolding x_def by (rule div_le_mono)
  then have "now + x \<le> max deadline now" by (cases "deadline \<le> now") simp_all
  then show ?thesis using assms unfolding x_def [symmetric] by (simp add: decayed_def)
qed

text \<open>Applying the decay never gives a vault more time and keeps everything else of it:
  the deadline after it is at most the deadline before, or now if that has passed, every other
  field of the vault is unchanged, and no other vault changes.\<close>

theorem decay_shortens:
  assumes "apply_ttl_decay e i w = Inr (x, t)"
  shows "\<exists>v v'. p_Vault w i = Some v \<and> p_Vault t = (p_Vault w)(i \<mapsto> v') \<and> decayed (ledger_timestamp e) v v'"
proof -
  let ?Q = "\<lambda>t. \<exists>v v'. p_Vault w i = Some v \<and> p_Vault t = (p_Vault w)(i \<mapsto> v') \<and> decayed (ledger_timestamp e) v v'"
  have same: "\<exists>v'. p_Vault w = (p_Vault w)(i \<mapsto> v') \<and> decayed (ledger_timestamp e) v v'"
    if "p_Vault w i = Some v" for v
    using that decayed_refl by (metis fun_upd_triv)
  have "wp (apply_ttl_decay e i) (\<lambda>_. ?Q) w"
    unfolding apply_ttl_decay_def get_ttl_decay_rate_def
    by (auto simp: wp_simps Let_def simp del: fun_upd_apply intro!: wp_ttl_remaining same decayed_step)
  from wpD [OF this assms] show ?thesis .
qed

text \<open>A vault with 10000000 seconds of interval, decay rate one half, visited after 40 days.\<close>

definition decaying :: "ledger world" where
  "decaying = funded\<lparr>p_Vault := [1 \<mapsto> vault1\<lparr>v_check_in_interval := 10000000, v_last_check_in := 1700000000\<rparr>],
     inst := (inst funded)\<lparr>i_TtlDecayRate := Some 5000\<rparr>\<rparr>"

lemma decay_twice:
  "runs (bindM (apply_ttl_decay (host 1704000000) 1) (\<lambda>x. bindM (apply_ttl_decay (host 1704000000) 1) (\<lambda>y. returnM (x, y))))
     (\<lambda>xy _. xy = (3000000, 1500000)) decaying"
  by (simp add: apply_ttl_decay_def get_ttl_decay_rate_def run_simps vault_defs Let_def extend_instance_ttl_def
      decaying_def scenario_defs)

theorem decay_shortens_witness:
  "\<exists>x t v v'. apply_ttl_decay (host 1704000000) 1 decaying = Inr (x, t) \<and> p_Vault t = (p_Vault decaying)(1 \<mapsto> v') \<and>
     p_Vault decaying 1 = Some v \<and> decayed 1704000000 v v'"
proof -
  obtain x t where "apply_ttl_decay (host 1704000000) 1 decaying = Inr (x, t)"
    using decay_twice by (auto simp: runs_def bindM_def split: sum.splits)
  then show ?thesis using decay_shortens by fastforce
qed

text \<open>The decay is not tied to elapsed time: at one and the same moment anybody can apply
  it to a vault twice, and the second call halves again what the first one left.\<close>

theorem decay_compounds:
  "runs (apply_ttl_decay (host 1704000000) 1) (\<lambda>x t. x = 3000000 \<and>
     runs (apply_ttl_decay (host 1704000000) 1) (\<lambda>y _. y = 1500000) t) decaying"
  by (simp add: apply_ttl_decay_def get_ttl_decay_rate_def run_simps vault_defs Let_def extend_instance_ttl_def
      decaying_def scenario_defs)

subsection \<open>Borrowing\<close>

lemma wp_borrow:
  "wp (borrow_ttl e b l c n) (\<lambda>_ t. \<exists>vb vl. p_Vault w b = Some vb \<and> p_Vault w l = Some vl \<and> b \<noteq> l \<and> 0 < n \<and>
     authorized e c \<and> c = v_owner vb \<and> ledger_timestamp e + n < v_last_check_in vl + v_check_in_interval vl \<and>
     p_Vault t = (p_Vault w)(b \<mapsto> vb\<lparr>v_last_check_in := sat_add U64_MAX (v_last_check_in vb) n\<rparr>,
       l \<mapsto> vl\<lparr>v_last_check_in := v_last_check_in vl - n\<rparr>) \<and>
     p_TtlBorrow (logs t) b = Some \<lparr>tb_borrower_vault_id = b, tb_lender_vault_id = l, tb_borrowed_seconds = n,
       tb_borrowed_at = ledger_timestamp e, tb_repaid = False\<rparr>) w"
  unfolding borrow_ttl_def by (auto simp: wp_simps Let_def fun_upd_same simp del: fun_upd_apply)

lemma wp_repay:
  "wp (repay_ttl_borrow e b c) (\<lambda>_ t. \<exists>vb r vl. p_Vault w b = Some vb \<and> p_TtlBorrow (logs w) b = Some r \<and>
     \<not> tb_repaid r \<and> p_Vault w (tb_lender_vault_id r) = Some vl \<and>
     p_Vault t = (p_Vault w)(tb_lender_vault_id r \<mapsto> vl\<lparr>v_last_check_in :=
       sat_add U64_MAX (v_last_check_in vl) (tb_borrowed_seconds r)\<rparr>) \<and>
     p_TtlBorrow (logs t) b = Some (r\<lparr>tb_repaid := True\<rparr>)) w"
  unfolding repay_ttl_borrow_def by (auto simp: wp_simps Let_def fun_upd_same simp del: fun_upd_apply)

text \<open>Borrowing moves time from one vault to another: the borrower's deadline grows and the
  lender's shrinks by exactly the seconds borrowed, the lender keeps some time, no other vault
  changes; only the borrower's owner has to authorise it.\<close>

theorem borrow_moves:
  assumes "borrow_ttl e b l c n w = Inr ((), t)" "p_Vault w b = Some vb" "p_Vault w l = Some vl"
    "v_last_check_in vb + n \<le> U64_MAX" "n \<le> v_last_check_in vl"
  shows "c = v_owner vb \<and> authorized e c \<and>
    p_Vault t = (p_Vault w)(b \<mapsto> vb\<lparr>v_last_check_in := v_last_check_in vb + n\<rparr>,
      l \<mapsto> vl\<lparr>v_last_check_in := v_last_check_in vl - n\<rparr>) \<and>
    ledger_timestamp e < (v_last_check_in vl - n) + v_check_in_interval vl"
  using wpD [OF wp_borrow assms(1)] assms(2-5) by (auto simp: sat_add_def min_def)

definition lending :: "ledger world" where
  "lending = funded\<lparr>p_Vault := [1 \<mapsto> vault1, 2 \<mapsto> vault1\<lparr>v_owner := COHEIR, v_last_check_in := 600\<rparr>]\<rparr>"

definition borrower_only :: "nat \<Rightarrow> ledger env" where
  "borrower_only now = (host now)\<lparr>authorized := (\<lambda>a. a = OWNER)\<rparr>"

lemma lending_run:
  "runs (thenM (borrow_ttl (borrower_only 700) 1 2 OWNER 300) (repay_ttl_borrow (borrower_only 710) 1 OWNER)) (\<lambda>_ _. True) lending"
  by (simp add: borrow_ttl_def repay_ttl_borrow_def load_paused_def run_simps vault_defs set_defs Let_def
      extend_instance_ttl_def borrower_only_def lending_def scenario_defs)

lemma lending_steps:
  "\<exists>u t. borrow_ttl (borrower_only 700) 1 2 OWNER 300 lending = Inr ((), u) \<and>
     repay_ttl_borrow (borrower_only 710) 1 OWNER u = Inr ((), t)"
  using lending_run by (auto simp: runs_def bindM_def split: sum.splits)

lemma lending_vaults: "p_Vault lending 1 = Some vault1"
    "p_Vault lending 2 = Some (vault1\<lparr>v_owner := COHEIR, v_last_check_in := 600\<rparr>)" "v_last_check_in vault1 = 100"
  by (simp_all add: lending_def scenario_defs)

theorem borrow_moves_witness:
  "\<exists>t. borrow_ttl (borrower_only 700) 1 2 OWNER 300 lending = Inr ((), t) \<and> \<not> authorized (borrower_only 700) COHEIR \<and>
     p_Vault t 2 = Some (vault1\<lparr>v_owner := COHEIR, v_last_check_in := 300\<rparr>)"
proof -
  obtain t where t: "borrow_ttl (borrower_only 700) 1 2 OWNER 300 lending = Inr ((), t)"
    using lending_steps by blast
  show ?thesis
    using borrow_moves [OF t lending_vaults(1,2)] t by (auto simp: lending_vaults borrower_only_def address_defs)
qed

text \<open>Repaying gives the lender its time back but takes nothing from the borrower: after a
  loan and its repayment the borrower's vault keeps the borrowed seconds and the lender's is as
  before, so time was created.\<close>

theorem repay_mints:
  assumes "borrow_ttl e b l c n w = Inr ((), u)" "repay_ttl_borrow e' b c' u = Inr ((), t)"
    "p_Vault w b = Some vb" "p_Vault w l = Some vl" "v_last_check_in vb + n \<le> U64_MAX"
    "v_last_check_in vl \<le> U64_MAX" "n \<le> v_last_check_in vl"
  shows "p_Vault t b = Some (vb\<lparr>v_last_check_in := v_last_check_in vb + n\<rparr>) \<and> p_Vault t l = Some vl"
  using wpD [OF wp_borrow assms(1)] wpD [OF wp_repay assms(2)] assms(3-7)
  by (auto simp: sat_add_def min_def)

theorem repay_mints_witness:
  "\<exists>u t. borrow_ttl (borrower_only 700) 1 2 OWNER 300 lending = Inr ((), u) \<and>
     repay_ttl_borrow (borrower_only 710) 1 OWNER u = Inr ((), t) \<and> p_Vault t 1 = Some (vault1\<lparr>v_last_check_in := 400\<rparr>) \<and>
     p_Vault t 2 = p_Vault lending 2"
proof -
  obtain u t where ut: "borrow_ttl (borrower_only 700) 1 2 OWNER 300 lending = Inr ((), u)"
    "repay_ttl_borrow (borrower_only 710) 1 OWNER u = Inr ((), t)"
    using lending_steps by blast
  show ?thesis
    using repay_mints [OF ut lending_vaults(1,2)] ut by (auto simp: lending_vaults)
qed

subsection \<open>Countdown notifications\<close>

definition mask :: "'tok world \<Rightarrow> nat \<Rightarrow> 32 word" where
  "mask w i = (case p_CountdownFired (logs w) i of None \<Rightarrow> 0 | Some m \<Rightarrow> m)"

definition thresholds :: "'tok world \<Rightarrow> nat \<Rightarrow> nat list" where
  "thresholds w i = (case p_CountdownConfig (logs w) i of None \<Rightarrow> [604800, 259200, 86400] | Some t \<Rightarrow> t)"

definition remaining :: "nat \<Rightarrow> Vault \<Rightarrow> nat" where
  "remaining now v = v_last_check_in v + v_check_in_interval v - now"

lemma due_empty: "due n ttl f ls = [] \<longleftrightarrow> (\<forall>k. crossed n ttl ls k \<longrightarrow> bit f k)"
  by (induction ls arbitrary: n) (auto simp: crossed_simps)

lemma wp_remaining:
  "p_Vault w i = Some v \<Longrightarrow> Q (remaining (ledger_timestamp e) v) w \<Longrightarrow> wp (ttl_remaining_or_0 e i) Q w"
  unfolding ttl_remaining_or_0_def get_ttl_remaining_def
  by (auto simp: wp_simps remaining_def)

definition notified :: "'tok env \<Rightarrow> nat \<Rightarrow> Vault \<Rightarrow> nat \<Rightarrow> 'tok world \<Rightarrow> 'tok world \<Rightarrow> bool" where
  "notified e i v x w t \<longleftrightarrow> x = remaining (ledger_timestamp e) v \<and>
     events t = events w @ map (countdown_event i x) (due 0 x (mask w i) (thresholds w i)) \<and>
     (\<forall>k. bit (mask t i) k \<longleftrightarrow> bit (mask w i) k \<or> crossed 0 x (thresholds w i) k) \<and>
     p_Vault t = p_Vault w \<and> thresholds t i = thresholds w i"

lemma wp_check_countdown:
  assumes v: "p_Vault w i = Some v" "v_status v = Locked"
  shows "wp (check_countdown e i) (\<lambda>x t. notified e i v x w t) w"
proof -
  have loop: "wp (foldM (countdown_step i x) (enumerate 0 (thresholds w i)) (mask w i, False)) (\<lambda>r.
      wp (thenM (whenM (snd r) (thenM (set_logs (\<lambda>l. l\<lparr>p_CountdownFired := (p_CountdownFired l)(i \<mapsto> fst r)\<rparr>))
        (thenM (extend_ttl (K_CountdownFired i) VAULT_TTL_THRESHOLD (vault_ttl_ledgers (v_check_in_interval v)))
          extend_instance_ttl))) (returnM x)) (\<lambda>x t. notified e i v x w t)) w"
    if "x = remaining (ledger_timestamp e) v" for x
    by (rule wp_mono [OF countdown_loop])
      (use that in \<open>auto simp: wp_simps notified_def mask_def thresholds_def due_empty\<close>)
  show ?thesis
    unfolding check_countdown_def get_countdown_config_def
    using v loop
    by (auto simp: wp_simps thresholds_def mask_def split_beta intro!: wp_remaining)
qed

text \<open>Every crossed countdown threshold is notified exactly once per check-in cycle: a
  call notifies precisely the thresholds that are crossed and not yet notified, and calling
  again at the same time notifies nothing.\<close>

theorem countdown_once:
  assumes "p_Vault w i = Some v" "v_status v = Locked" "check_countdown e i w = Inr (x, u)"
    "check_countdown e i u = Inr (y, t)"
  shows "events u = events w @ map (countdown_event i x) (due 0 x (mask w i) (thresholds w i)) \<and>
    x = remaining (ledger_timestamp e) v \<and> events t = events u"
proof -
  have first: "notified e i v x w u" using wpD [OF wp_check_countdown [OF assms(1,2)] assms(3)] .
  then have "p_Vault u i = Some v" using assms(1) by (simp add: notified_def)
  from wpD [OF wp_check_countdown [OF this assms(2)] assms(4)] have second: "notified e i v y u t" .
  have "due 0 y (mask u i) (thresholds u i) = []"
    using first second by (auto simp: notified_def due_empty)
  then show ?thesis using first second by (simp add: notified_def)
qed

lemma funded_countdown:
  "runs (bindM (check_countdown (host 500) 1) (\<lambda>x. check_countdown (host 500) 1)) (\<lambda>_ _. True) funded"
  by (simp add: check_countdown_def get_countdown_config_def ttl_remaining_or_0_def get_ttl_remaining_def countdown_step_def
      run_simps vault_defs set_defs extend_instance_ttl_def scenario_defs)

theorem countdown_once_witness:
  "\<exists>u t. check_countdown (host 500) 1 funded = Inr (600, u) \<and> check_countdown (host 500) 1 u = Inr (600, t) \<and>
     events t = events u \<and> length (events u) = 3"
proof -
  obtain x u y t where ut: "check_countdown (host 500) 1 funded = Inr (x, u)" "check_countdown (host 500) 1 u = Inr (y, t)"
    using funded_countdown by (auto simp: runs_def bindM_def split: sum.splits)
  have v: "p_Vault funded 1 = Some vault1" "v_status vault1 = Locked" "remaining 500 vault1 = 600"
    by (simp_all add: remaining_def scenario_defs)
  have d: "length (due 0 600 (mask funded 1) (thresholds funded 1)) = 3" "events funded = []"
    by (simp_all add: mask_def thresholds_def scenario_defs)
  note once = countdown_once [OF v(1,2) ut]
  have "notified (host 500) 1 vault1 x funded u" "p_Vault u 1 = Some vault1"
    using wpD [OF wp_check_countdown [OF v(1,2)] ut(1)] v(1) by (simp_all add: notified_def)
  then have "y = 600" using wpD [OF wp_check_countdown [OF _ v(2)] ut(2)] v(3) by (simp add: notified_def)
  then show ?thesis using once ut d v(3) by simp
qed

end
