(* ===== verification/Multisig_Properties.thy ===== *)
theory Multisig_Properties
  imports Vault_Scenario
begin

section \<open>Properties of multi-signature control\<close>

text \<open>
  The life of a proposal as a transition system over the calls that touch proposals, what an
  execution needs, the payload codec, and where the contract does not hold to its promise that
  sensitive operations need the co-signers.
\<close>

subsection \<open>Payload codec\<close>

lemma from_le_bytes_simps [simp]:
  "from_le_bytes [] = 0" "from_le_bytes (b # bs) = b + 256 * from_le_bytes bs"
  by (simp_all add: from_le_bytes_def)

lemma length_to_le_bytes [simp]: "length (to_le_bytes n x) = n"
  by (induction n arbitrary: x) simp_all

lemma from_to_le_bytes: "from_le_bytes (to_le_bytes n x) = x mod 256 ^ n"
proof (induction n arbitrary: x)
  case (Suc n)
  have "x mod 256 + 256 * (x div 256 mod 256 ^ n) = x mod (256 * 256 ^ n)"
    by (simp add: mod_mult2_eq)
  then show ?case using Suc by simp
qed simp

text \<open>The payload codec loses nothing: decoding an encoded 128-bit signed amount or
  an encoded 64-bit interval gives it back, and a payload that is too short is refused.\<close>

theorem payload_roundtrip:
  "(in_i128 x \<longrightarrow> decode_i128 (encode_i128_payload x) w = Inr (x, w)) \<and>
   (n \<le> U64_MAX \<longrightarrow> decode_u64 (encode_u64_payload n) w = Inr (n, w)) \<and>
   (length p < 16 \<longrightarrow> decode_i128 p w = Inl (Err InvalidAmount)) \<and>
   (length p < 8 \<longrightarrow> decode_u64 p w = Inl (Err InvalidAmount))"
proof (intro conjI impI)
  assume x: "in_i128 x"
  have "nat (x mod 2 ^ 128) < 256 ^ 16" by (simp add: nat_less_iff)
  then have n: "int (from_le_bytes (take 16 (encode_i128_payload x))) = x mod 2 ^ 128"
    by (simp add: encode_i128_payload_def from_to_le_bytes)
  have "x mod 2 ^ 128 = (if 0 \<le> x then x else x + 2 ^ 128)"
  proof (cases "0 \<le> x")
    case False
    have "x mod 2 ^ 128 = (x + 2 ^ 128) mod 2 ^ 128" by simp
    also have "\<dots> = x + 2 ^ 128" by (rule mod_pos_pos_trivial) (use x False in \<open>simp_all add: in_i128_def\<close>)
    finally show ?thesis using False by simp
  qed (use x in \<open>simp add: in_i128_def\<close>)
  then show "decode_i128 (encode_i128_payload x) w = Inr (x, w)"
    using x n by (simp add: decode_i128_def exec Let_def encode_i128_payload_def in_i128_def split: if_splits)
next
  assume "n \<le> U64_MAX"
  then show "decode_u64 (encode_u64_payload n) w = Inr (n, w)"
    by (simp add: decode_u64_def encode_u64_payload_def exec from_to_le_bytes)
qed (simp_all add: decode_i128_def decode_u64_def exec)

theorem payload_roundtrip_witness:
  "decode_i128 (encode_i128_payload (-5)) funded = Inr (-5, funded) \<and>
   decode_u64 (encode_u64_payload 86400) funded = Inr (86400, funded)"
  using payload_roundtrip [of "-5" funded 86400] by (simp add: in_i128_def)

subsection \<open>The life of a proposal\<close>



abbreviation proposal :: "'tok world \<Rightarrow> nat \<times> nat \<Rightarrow> MultiSigProposal option" where
  "proposal w \<equiv> p_MultiSigProposal (msig w)"

definition proposal_count :: "'tok world \<Rightarrow> nat \<Rightarrow> nat" where
  "proposal_count w i = (case p_MultiSigProposalCount (msig w) i of None \<Rightarrow> 0 | Some n \<Rightarrow> n)"


text \<open>How one proposal may change: what it asks for never does, its approvals only while pending.\<close>

definition request :: "MultiSigProposal \<Rightarrow> MultiSigOperation \<times> bytes \<times> address option \<times> nat" where
  "request p = (mp_operation p, mp_payload p, mp_address_payload p, mp_expires_at p)"

definition proposal_moves :: "MultiSigProposal \<Rightarrow> MultiSigProposal \<Rightarrow> bool" where
  "proposal_moves p q \<longleftrightarrow> request q = request p \<and>
     (mp_status p = PendingProposal \<and> (\<exists>as. mp_approvals q = mp_approvals p @ as) \<or>
      mp_approvals q = mp_approvals p \<and> (mp_status q = mp_status p \<or>
        mp_status p = ApprovedProposal \<and> mp_status q = ExecutedProposal \<or>
        mp_status p \<notin> {ExecutedProposal, ExpiredProposal} \<and> mp_status q = VetoedProposal))"


lemma proposal_moves_refl [simp]: "proposal_moves p p"
  by (auto simp: proposal_moves_def)







definition becomes ::
  "nat \<Rightarrow> nat \<Rightarrow> MultiSigProposal \<Rightarrow> MultiSigProposal \<Rightarrow> 'tok world \<Rightarrow> 'tok world \<Rightarrow> bool" where
  "becomes i n p q w t \<longleftrightarrow> proposal w (i, n) = Some p \<and> proposal t = (proposal w)((i, n) \<mapsto> q) \<and>
     proposal_count t = proposal_count w"



lemma msig_operation:
  "wp (perform_operation e i v p) (\<lambda>_ t. msig t = msig w) w"
  unfolding perform_operation_def
  by (cases "mp_operation p")
    (auto simp: wp_simps operation_defs do_withdraw_def move_owner_def index_defs Let_def)

lemma proposal_count_upd [simp]:
  "proposal_count (w\<lparr>events := es\<rparr>) = proposal_count w" "proposal_count (w\<lparr>ttl_log := l\<rparr>) = proposal_count w"
  "proposal_count (w\<lparr>msig := m\<lparr>p_MultiSigProposal := x\<rparr>\<rparr>) = proposal_count (w\<lparr>msig := m\<rparr>)"
  "proposal_count (w\<lparr>msig := m\<lparr>p_MultiSigConfig := y\<rparr>\<rparr>) = proposal_count (w\<lparr>msig := m\<rparr>)"
  "proposal_count (w\<lparr>msig := m\<lparr>p_OpenProposals := z\<rparr>\<rparr>) = proposal_count (w\<lparr>msig := m\<rparr>)"
  "proposal_count (t\<lparr>msig := msig w\<rparr>) = proposal_count w"
  by (simp_all add: proposal_count_def fun_eq_iff)




text \<open>The four ways a stored proposal changes.\<close>

definition approved_by :: "'tok env \<Rightarrow> nat \<Rightarrow> nat \<Rightarrow> address \<Rightarrow> 'tok world \<Rightarrow> MultiSigProposal \<Rightarrow> 'tok world \<Rightarrow> bool" where
  "approved_by e i n c w p t \<longleftrightarrow> (\<exists>k v. p_MultiSigConfig (msig w) i = Some k \<and> p_Vault w i = Some v \<and>
     authorized e c \<and> (c = v_owner v \<or> c \<in> set (ms_signers k)) \<and>
     mp_status p = PendingProposal \<and> ledger_timestamp e \<le> mp_expires_at p \<and> c \<notin> set (mp_approvals p) \<and>
     becomes i n p (p\<lparr>mp_approvals := mp_approvals p @ [c], mp_status :=
       (if ms_threshold k \<le> Suc (length (mp_approvals p)) then ApprovedProposal else PendingProposal)\<rparr>) w t)"

lemma approve_effect: "wp (approve_multisig e i n c) (\<lambda>_ t. \<exists>p. approved_by e i n c w p t) w"
  unfolding approve_multisig_def proposal_defs
  by (auto simp: wp_simps Let_def approved_by_def becomes_def)



lemma execute_proposal_effect:
  "wp (execute_multisig e i n c) (\<lambda>_ t. \<exists>p. mp_status p = ApprovedProposal \<and>
     becomes i n p (p\<lparr>mp_status := ExecutedProposal\<rparr>) w t) w"
  unfolding execute_multisig_def load_proposal_def save_proposal_def
  by (auto simp: wp_simps becomes_def proposal_count_def intro!: wp_mono [OF msig_operation] wp_close_proposal)







definition no_proposals :: "'tok world \<Rightarrow> bool" where
  "no_proposals w \<longleftrightarrow> proposal w = (\<lambda>_. None)"















definition guarded :: "ledger world" where
  "guarded = after (configure_multisig (host 200) 1 OWNER [COHEIR] 2) funded"

definition proposed :: "ledger world" where
  "proposed = after (propose_multisig (host 300) 1 OWNER CancelVault [] None) guarded"

definition approved :: "ledger world" where
  "approved = after (approve_multisig (host 400) 1 1 COHEIR) proposed"

definition cancel_proposal :: MultiSigProposal where
  "cancel_proposal = \<lparr>mp_id = 1, mp_operation = CancelVault, mp_approvals = [OWNER], mp_status = PendingProposal,
     mp_expires_at = 605100, mp_vault_id = 1, mp_payload = [], mp_address_payload = None, mp_created_at = 300\<rparr>"

lemmas multisig_run = configure_multisig_def propose_multisig_def approve_multisig_def execute_multisig_def
  perform_operation_def operation_defs proposal_defs MULTISIG_PROPOSAL_EXPIRY_def run_simps inst_defs vault_defs
  index_defs log_defs set_defs extend_instance_ttl_def log_of_def ids_of_def

lemma guarded_run:
  "runs (configure_multisig (host 200) 1 OWNER [COHEIR] 2) (\<lambda>_ t. p_Vault t = p_Vault funded \<and>
     tokens t = tokens funded \<and> inst t = inst funded \<and> idx t = idx funded \<and> rel t = rel funded \<and>
     wdr t = wdr funded \<and> logs t = logs funded \<and>
     msig t = multisig0\<lparr>p_MultiSigConfig := [1 \<mapsto> \<lparr>ms_signers = [COHEIR], ms_threshold = 2\<rparr>]\<rparr>) funded"
  by (simp add: multisig_run scenario_defs)

lemmas guarded_sel [simp] = guarded_run [THEN runs_after, folded guarded_def]

lemma proposed_run:
  "runs (propose_multisig (host 300) 1 OWNER CancelVault [] None) (\<lambda>x t. x = 1 \<and> p_Vault t = p_Vault funded \<and>
     tokens t = tokens funded \<and> inst t = inst funded \<and> idx t = idx funded \<and>
     p_MultiSigConfig (msig t) = p_MultiSigConfig (msig guarded) \<and>
     p_MultiSigProposal (msig t) = [(1, 1) \<mapsto> cancel_proposal] \<and> p_OpenProposals (msig t) = [1 \<mapsto> [1]]) guarded"
  by (simp add: multisig_run cancel_proposal_def scenario_defs)

lemma proposed_sel [simp]:
  "p_Vault proposed = p_Vault funded" "tokens proposed = tokens funded" "inst proposed = inst funded"
  "idx proposed = idx funded" "p_MultiSigConfig (msig proposed) = p_MultiSigConfig (msig guarded)"
  "p_MultiSigProposal (msig proposed) = [(1, 1) \<mapsto> cancel_proposal]" "p_OpenProposals (msig proposed) = [1 \<mapsto> [1]]"
  using proposed_run [THEN runs_mono, THEN runs_after, of "\<lambda>t. p_Vault t = p_Vault funded \<and>
     tokens t = tokens funded \<and> inst t = inst funded \<and> idx t = idx funded \<and>
     p_MultiSigConfig (msig t) = p_MultiSigConfig (msig guarded) \<and>
     p_MultiSigProposal (msig t) = [(1, 1) \<mapsto> cancel_proposal] \<and> p_OpenProposals (msig t) = [1 \<mapsto> [1]]"]
  unfolding proposed_def by blast+

lemma approved_run:
  "runs (approve_multisig (host 400) 1 1 COHEIR) (\<lambda>_ t. p_Vault t = p_Vault funded \<and>
     tokens t = tokens funded \<and> idx t = idx funded \<and> p_OpenProposals (msig t) = [1 \<mapsto> [1]] \<and> p_MultiSigProposal (msig t) = [(1, 1) \<mapsto>
       cancel_proposal\<lparr>mp_approvals := [OWNER, COHEIR], mp_status := ApprovedProposal\<rparr>]) proposed"
  by (simp add: multisig_run cancel_proposal_def scenario_defs)

lemmas approved_sel [simp] = approved_run [THEN runs_after, folded approved_def]




subsection \<open>Execution\<close>

text \<open>What each operation does, as a relation between the ledgers before and after it.\<close>

definition performs :: "'tok env \<Rightarrow> nat \<Rightarrow> Vault \<Rightarrow> MultiSigProposal \<Rightarrow> 'tok world \<Rightarrow> 'tok world \<Rightarrow> bool" where
  "performs e i v p w t \<longleftrightarrow> (case mp_operation p of
     Withdraw \<Rightarrow> \<exists>amt. decode_i128 (mp_payload p) w = Inr (amt, w) \<and> 0 < amt \<and> amt \<le> v_balance v \<and>
       paid_out e i v (v_owner v) amt w t
   | UpdateBeneficiary \<Rightarrow> \<exists>a. mp_address_payload p = Some a \<and> a \<noteq> v_owner v \<and> tokens t = tokens w \<and>
       p_Vault t = (p_Vault w)(i \<mapsto> v\<lparr>v_beneficiary := a\<rparr>)
   | CancelVault \<Rightarrow> cancelled e i v w t
   | TransferOwnership \<Rightarrow> \<exists>a. mp_address_payload p = Some a \<and> a \<noteq> v_beneficiary v \<and> tokens t = tokens w \<and>
       p_Vault t = (p_Vault w)(i \<mapsto> v\<lparr>v_owner := a\<rparr>)
   | UpdateCheckInInterval \<Rightarrow> \<exists>n. decode_u64 (mp_payload p) w = Inr (n, w) \<and> 0 < n \<and> tokens t = tokens w \<and>
       interval_in_bounds (inst w) n \<and>
       p_Vault t = (p_Vault w)(i \<mapsto> v\<lparr>v_check_in_interval := n, v_last_check_in := ledger_timestamp e\<rparr>))"

lemma performs_upd [simp]:
  "performs e i v p w (t\<lparr>msig := m\<rparr>) = performs e i v p w t" "performs e i v p w (t\<lparr>events := es\<rparr>) = performs e i v p w t"
  "performs e i v p w (t\<lparr>ttl_log := l\<rparr>) = performs e i v p w t" "performs e i v p (w\<lparr>msig := m\<rparr>) t = performs e i v p w t"
  by (cases "mp_operation p"; simp add: performs_def paid_out_def cancelled_def decode_i128_def decode_u64_def exec Let_def
      cong: if_cong)+

lemma performs_effect:
  assumes "p_Vault w i = Some v"
  shows "wp (perform_operation e i v p) (\<lambda>_. performs e i v p w) w"
proof (cases "mp_operation p")
  case Withdraw
  have "wp (decode_i128 (mp_payload p)) (\<lambda>amt. wp (do_withdraw e i v amt) (\<lambda>_. performs e i v p w)) w"
  proof (rule wpI)
    fix amt t assume d: "decode_i128 (mp_payload p) w = Inr (amt, t)"
    then have "t = w" by (auto simp: decode_i128_def exec Let_def split: if_splits)
    with d show "wp (do_withdraw e i v amt) (\<lambda>_. performs e i v p w) t"
      by (auto simp: performs_def Withdraw intro!: wp_mono [OF do_withdraw_effect [OF assms]])
  qed
  then show ?thesis by (simp add: perform_operation_def Withdraw wp_bindM)
next
  case UpdateCheckInInterval
  then show ?thesis
    by (auto simp: perform_operation_def performs_def multisig_set_interval_def decode_u64_def exec wp_simps)
qed (auto simp: perform_operation_def performs_def operation_defs cancelled_def wp_simps accts_def Let_def
      simp del: fun_upd_apply intro!: wp_frame wp_move_owner)

lemma execute_performs:
  "wp (execute_multisig e i n c) (\<lambda>_ t. \<exists>v p. executes e i n c v p w \<and> performs e i v p w t) w"
  unfolding execute_multisig_def load_proposal_def save_proposal_def extend_instance_ttl_def publish_def
  by (auto simp: wp_simps executes_def extend_ttl_def intro!: wp_mono [OF performs_effect] wp_close_proposal)

text \<open>C22. An execution commits only for the owner of the vault, on an approved proposal
  that has not expired; it performs exactly the proposed operation, marks the proposal executed,
  and the proposal can never be executed again.\<close>

theorem multisig_execution:
  assumes "execute_multisig e i n c w = Inr ((), t)"
  shows "\<exists>v p. executes e i n c v p w \<and> performs e i v p w t \<and>
    proposal t (i, n) = Some (p\<lparr>mp_status := ExecutedProposal\<rparr>) \<and> \<not> commits (execute_multisig e' i n c') t"
proof -
  obtain v p where p: "executes e i n c v p w" "performs e i v p w t"
    using wpD [OF execute_performs assms] by blast
  have t: "proposal t (i, n) = Some (p\<lparr>mp_status := ExecutedProposal\<rparr>)"
    using wpD [OF execute_proposal_effect assms] p(1) by (auto simp: executes_def becomes_def)
  have "\<not> commits (execute_multisig e' i n c') t"
    using t wpD [OF execute_proposal_effect, of e' i n c' t]
    by (auto simp: commits_def becomes_def split: sum.splits)
  then show ?thesis using p t by blast
qed

lemma approved_execute: "runs (execute_multisig (host 500) 1 1 OWNER) (\<lambda>_ _. True) approved"
  by (simp add: multisig_run cancel_proposal_def move_def scenario_defs)

theorem multisig_execution_witness:
  "\<exists>t. execute_multisig (host 500) 1 1 OWNER approved = Inr ((), t) \<and>
     cancelled (host 500) 1 vault1 approved t \<and> \<not> commits (execute_multisig (host 600) 1 1 OWNER) t"
proof -
  obtain t where t: "execute_multisig (host 500) 1 1 OWNER approved = Inr ((), t)"
    using approved_execute by (auto elim: runsE)
  have v: "p_Vault approved 1 = Some vault1" by (simp add: funded_def)
  from multisig_execution [OF t] obtain v p where p: "executes (host 500) 1 1 OWNER v p approved"
    "performs (host 500) 1 v p approved t" "\<not> commits (execute_multisig (host 600) 1 1 OWNER) t"
    by blast
  then have "v = vault1" "mp_operation p = CancelVault" using v by (auto simp: executes_def cancel_proposal_def)
  then show ?thesis using p t by (auto simp: performs_def)
qed

subsection \<open>What multi-signature control does not cover\<close>

text \<open>Configuring co-signers does not bind the owner: on a vault that needs two
  signatures the owner alone withdraws the whole balance and hands the vault over, without any
  proposal.\<close>

theorem multisig_bypass:
  "\<exists>u s t. configure_multisig (host 200) 1 OWNER [COHEIR] 2 funded = Inr ((), u) \<and>
     withdraw (host 300) 1 OWNER 500 u = Inr ((), s) \<and> transfer_ownership (host 300) 1 OWNER ADMIN s = Inr ((), t) \<and>
     p_Vault t 1 = Some (vault1\<lparr>v_balance := 0, v_owner := ADMIN\<rparr>) \<and> no_proposals t"
proof -
  have "runs (configure_multisig (host 200) 1 OWNER [COHEIR] 2) (\<lambda>_. runs (withdraw (host 300) 1 OWNER 500)
     (\<lambda>_. runs (transfer_ownership (host 300) 1 OWNER ADMIN) (\<lambda>_ t.
       p_Vault t 1 = Some (vault1\<lparr>v_balance := 0, v_owner := ADMIN\<rparr>) \<and> no_proposals t))) funded"
    by (simp add: multisig_run withdraw_def reject_def check_withdrawal_limits_def is_whitelisted_def
        record_withdrawal_for_reversal_def record_withdrawal_audit_def transfer_ownership_def move_owner_def
        is_paused_w_def in_i128_def move_def no_proposals_def scenario_defs)
  then show ?thesis by (auto elim!: runsE)
qed

text \<open>With no co-signers a proposal is never approved, whatever the threshold: the owner's
  own approval is counted when the proposal is made but never tested against the threshold, and
  the owner cannot approve again, so every approval of such a proposal fails.\<close>

theorem owner_only_stuck:
  assumes "p_MultiSigConfig (msig w) i = Some k" "ms_signers k = []" "p_Vault w i = Some v"
    "proposal w (i, n) = Some p" "v_owner v \<in> set (mp_approvals p)"
  shows "\<not> commits (approve_multisig e i n c) w"
proof
  assume "commits (approve_multisig e i n c) w"
  then obtain t where "approve_multisig e i n c w = Inr ((), t)" by (auto simp: commits_def split: sum.splits)
  from wpD [OF approve_effect this] show False using assms by (auto simp: approved_by_def becomes_def)
qed

definition lone :: "ledger world" where
  "lone = funded\<lparr>msig := multisig0\<lparr>p_MultiSigConfig := [1 \<mapsto> \<lparr>ms_signers = [], ms_threshold = 1\<rparr>],
     p_MultiSigProposal := [(1, 1) \<mapsto> cancel_proposal], p_MultiSigProposalCount := [1 \<mapsto> 1]\<rparr>\<rparr>"

theorem owner_only_stuck_witness:
  "\<not> commits (approve_multisig (host 400) 1 1 OWNER) lone \<and> mp_status cancel_proposal = PendingProposal"
  using owner_only_stuck [of lone 1 "\<lparr>ms_signers = [], ms_threshold = 1\<rparr>" vault1 1 cancel_proposal "host 400" OWNER]
  by (simp add: lone_def cancel_proposal_def scenario_defs)

text \<open>An approved cancellation outlives the vault: executing it after the release turns a
  released vault into a cancelled one.\<close>

theorem multisig_revives:
  "\<exists>t. execute_multisig (host 500) 1 1 OWNER
       (approved\<lparr>p_Vault := [1 \<mapsto> vault1\<lparr>v_balance := 0, v_status := Released\<rparr>]\<rparr>) = Inr ((), t) \<and>
     p_Vault t 1 = Some (vault1\<lparr>v_balance := 0, v_status := Cancelled\<rparr>)"
proof -
  have "runs (execute_multisig (host 500) 1 1 OWNER) (\<lambda>_ t. p_Vault t 1 = Some (vault1\<lparr>v_balance := 0, v_status := Cancelled\<rparr>))
       (approved\<lparr>p_Vault := [1 \<mapsto> vault1\<lparr>v_balance := 0, v_status := Released\<rparr>]\<rparr>)"
    by (simp add: multisig_run cancel_proposal_def move_def scenario_defs)
  then show ?thesis by (auto elim!: runsE)
qed

end
