(* ===== verification/Vesting_Properties.thy ===== *)
theory Vesting_Properties
  imports Vault_Scenario
begin

section \<open>Properties of vesting\<close>

text \<open>
  What a claim of the time schedule pays and when, that the rhythm of the claims does not matter,
  that a pending claim can be undone, that milestones pay once, and what cancelling a schedule does
  to the accounts.
\<close>

subsection \<open>Claims of the time schedule\<close>

text \<open>The installments a schedule has unlocked, and what a claim of them pays.\<close>

definition unlocked_by :: "nat \<Rightarrow> VestingSchedule \<Rightarrow> nat" where
  "unlocked_by now s = min ((now - vs_start_time s) div vs_interval s + 1) (vs_num_installments s)"

definition installments_due :: "Vault \<Rightarrow> VestingSchedule \<Rightarrow> nat \<Rightarrow> int" where
  "installments_due v s u = (if vs_num_installments s \<le> u then v_balance v
     else tdiv (vs_total_amount s) (int (vs_num_installments s)) * int (u - vs_claimed_installments s))"

lemma unlocked_by_upd [simp]: "unlocked_by now (s\<lparr>vs_claimed_installments := k\<rparr>) = unlocked_by now s"
  by (simp add: unlocked_by_def)

text \<open>A vault without penalty, rollover or acceleration.\<close>

definition plain_vesting :: "nat \<Rightarrow> 'tok world \<Rightarrow> bool" where
  "plain_vesting i w \<longleftrightarrow> p_VestingPenalty (vest w) (i, 0) = None \<and> p_VestingRollover (vest w) i = None \<and>
     p_VestingAcceleration (vest w) i = None"

definition claims :: "'tok env \<Rightarrow> nat \<Rightarrow> Vault \<Rightarrow> VestingSchedule \<Rightarrow> int \<Rightarrow> 'tok world \<Rightarrow> 'tok world \<Rightarrow> bool" where
  "claims e i v s amt w t \<longleftrightarrow> (let u = unlocked_by (ledger_timestamp e) s in
     p_Vault w i = Some v \<and> v_status v = Released \<and> p_VestingSchedule (vest w) (i, 0) = Some s \<and>
     vs_start_time s + vs_cliff_period s \<le> ledger_timestamp e \<and> vs_claimed_installments s < u \<and>
     amt = installments_due v s u \<and> amt \<le> v_balance v \<and>
     p_Vault t = (p_Vault w)(i \<mapsto> v\<lparr>v_balance := v_balance v - amt\<rparr>) \<and>
     run_payments e (v_token_address v) (claim_payments v amt) (tokens w) = Some (tokens t) \<and>
     vest t = (vest w)\<lparr>p_VestingSchedule := (p_VestingSchedule (vest w))((i, 0) \<mapsto> s\<lparr>vs_claimed_installments := u\<rparr>)\<rparr>)"

lemma wp_unlocked_by: "Q (unlocked_by now s) w \<Longrightarrow>
    wp (unlocked_at now (vs_start_time s) (vs_interval s) (vs_num_installments s)) Q w"
  by (simp add: unlocked_at_def unlocked_by_def wp_simps)

lemma wp_installments_due: "Q (installments_due v s u) w \<Longrightarrow> c = u - vs_claimed_installments s \<Longrightarrow>
    wp (installment_amount s v u c (tdiv (vs_total_amount s) (int (vs_num_installments s)))) Q w"
  by (simp add: installment_amount_def installments_due_def wp_simps del: of_nat_diff split: if_splits)

lemma wp_plain:
  "p_VestingPenalty (vest w) (i, 0) = None \<Longrightarrow> wp (apply_penalty now i v s u c per n) Q w = Q n w"
  "p_VestingRollover (vest w) i = None \<Longrightarrow> wp (take_rollover i n) Q w = Q n w"
  by (simp_all add: apply_penalty_def take_rollover_def wp_simps)

lemma plain_claim_effect:
  assumes "plain_vesting i w"
  shows "wp (claim_vested_installment e i) (\<lambda>amt t. \<exists>v s. claims e i v s amt w t) w"
  using assms unfolding claim_vested_installment_def finish_claim_def plain_vesting_def save_schedule_def
  by (auto simp: wp_simps Let_def wp_plain claims_def simp del: of_nat_diff fun_upd_apply
      intro!: wp_load_open_schedule wp_enforce_cliff wp_unlocked_by wp_installments_due wp_pay_claim)

text \<open>C17. A claim of the time schedule of a vault without penalty, rollover or
  acceleration commits only for a released vault whose schedule has started, has passed its cliff
  and has unlocked a further installment. It pays one installment for each newly unlocked one (the
  last claim takes the whole balance), splits that amount over the heirs so that they together
  receive exactly it, takes it from the vault, records the installments, and changes no other
  schedule and no other vault.\<close>

theorem vesting_claim_exact:
  assumes "claim_vested_installment e i w = Inr (amt, t)" "plain_vesting i w" "safe bal self w"
  shows "\<exists>v s. claims e i v s amt w t \<and> sum_list (map snd (claim_payments v amt)) = amt \<and> 0 \<le> amt"
proof -
  obtain v s where c: "claims e i v s amt w t"
    using wpD [OF plain_claim_effect [OF assms(2)] assms(1)] by blast
  have s: "splits_ok w" "solvent bal self w" using assms(3) by (simp_all add: safe_def)
  have v: "p_Vault w i = Some v" "p_VestingSchedule (vest w) (i, 0) = Some s" using c by (simp_all add: claims_def Let_def)
  have amt: "0 \<le> amt"
    using c accounts_nonneg [OF s(2) v(1)] schedule_nonneg [OF s(1) v(2)]
    by (auto simp: claims_def Let_def installments_due_def)
  moreover have "sum_list (map snd (claim_payments v amt)) = amt"
    using splits_okD(1) [OF s(1) v(1)] amt by (intro claim_payments_sum) (simp_all add: sane_def)
  ultimately show ?thesis using c by blast
qed

text \<open>A released vault of \<open>500\<close> with five installments, the first at time \<open>2000\<close>.\<close>

definition schedule1 :: VestingSchedule where
  "schedule1 = \<lparr>vs_start_time = 2000, vs_interval = 100, vs_num_installments = 5, vs_claimed_installments = 0,
     vs_total_amount = 500, vs_cliff_period = 0\<rparr>"

definition vesting :: "ledger world" where
  "vesting = funded\<lparr>p_Vault := [1 \<mapsto> vault1\<lparr>v_status := Released\<rparr>],
     vest := vesting0\<lparr>p_VestingSchedule := [(1, 0) \<mapsto> schedule1], p_VestingScheduleCount := [1 \<mapsto> 1]\<rparr>\<rparr>"

lemmas vesting_defs = vesting_def schedule1_def scenario_defs

lemma vesting_plain: "plain_vesting 1 vesting"
  by (simp add: plain_vesting_def vesting_defs)

lemma vesting_safe: "safe ledger_balance VAULT vesting"
  by (auto simp: safe_def solvent_def accounts_ok_def splits_ok_def sane_def bps_total_def plans_ok_def
      total_held_def held_def count_of_def ledger_balance_def plan_defs vesting_defs)

lemmas claim_run = claim_vested_installment_def load_open_schedule_def enforce_cliff_def unlocked_at_def
  installment_amount_def take_rollover_def apply_penalty_def finish_claim_def pay_claim_def save_schedule_def

text \<open>A claim of two installments at time \<open>2150\<close>.\<close>

definition claimed2 :: "ledger world" where
  "claimed2 = after (claim_vested_installment (host 2150) 1) vesting"

lemma claimed2_state:
  "runs (claim_vested_installment (host 2150) 1) (\<lambda>a t. a = 200 \<and> inst t = inst vesting \<and>
     p_Vault t = [1 \<mapsto> vault1\<lparr>v_status := Released, v_balance := 300\<rparr>] \<and>
     tokens t XLM VAULT = 300 \<and>
     vest t = (vest vesting)\<lparr>p_VestingSchedule := [(1, 0) \<mapsto> schedule1\<lparr>vs_claimed_installments := 2\<rparr>]\<rparr>) vesting"
  by (simp add: claim_run run_simps inst_defs vault_defs set_defs extend_instance_ttl_def vesting_defs tdiv_def
      in_i128_def move_def numeral_2_eq_2)

lemma claimed2_run: "claim_vested_installment (host 2150) 1 vesting = Inr (200, claimed2)"
  unfolding claimed2_def by (rule runs_value(1) [OF claimed2_state])

lemma claimed2_sel [simp]:
  "inst claimed2 = inst vesting" "p_Vault claimed2 = [1 \<mapsto> vault1\<lparr>v_status := Released, v_balance := 300\<rparr>]"
  "tokens claimed2 XLM VAULT = 300"
  "vest claimed2 = (vest vesting)\<lparr>p_VestingSchedule := [(1, 0) \<mapsto> schedule1\<lparr>vs_claimed_installments := 2\<rparr>]\<rparr>"
  using runs_value(2) [OF claimed2_state] unfolding claimed2_def by blast+

theorem vesting_claim_exact_witness:
  "\<exists>v s. claims (host 2150) 1 v s 200 vesting claimed2 \<and> sum_list (map snd (claim_payments v 200)) = 200"
  using vesting_claim_exact [OF claimed2_run vesting_plain vesting_safe] by blast

subsection \<open>The rhythm of claims\<close>

text \<open>C18. For a vault without penalty, rollover or acceleration the rhythm of the claims does not matter:
  if a claim now, a second claim later, and instead of both a single claim at that later time all commit, then the two pay in
  total exactly what the single one pays, and leave the vaults and the vesting data the same. (A late penalty is taken
  per claim, so with a penalty the rhythm does matter.)\<close>

theorem claims_add_up:
  assumes "claim_vested_installment e1 i w = Inr (a1, w1)" "claim_vested_installment e2 i w1 = Inr (a2, w2)"
    "claim_vested_installment e2 i w = Inr (a, t)" "plain_vesting i w" "ledger_timestamp e1 \<le> ledger_timestamp e2"
  shows "a1 + a2 = a \<and> p_Vault w2 = p_Vault t \<and> vest w2 = vest t"
proof -
  obtain v s where c1: "claims e1 i v s a1 w w1"
    using wpD [OF plain_claim_effect [OF assms(4)] assms(1)] by blast
  have plain: "plain_vesting i w1" using c1 assms(4) by (simp add: claims_def plain_vesting_def Let_def)
  obtain v' s' where c2: "claims e2 i v' s' a2 w1 w2"
    using wpD [OF plain_claim_effect [OF plain] assms(2)] by blast
  obtain v0 s0 where c0: "claims e2 i v0 s0 a w t"
    using wpD [OF plain_claim_effect [OF assms(4)] assms(3)] by blast
  have "v0 = v" "s0 = s" using c0 c1 by (simp_all add: claims_def Let_def)
  then have c3: "claims e2 i v s a w t" using c0 by simp
  let ?u = "unlocked_by (ledger_timestamp e1) s" and ?n = "vs_num_installments s"
  have v': "v' = v\<lparr>v_balance := v_balance v - a1\<rparr>" and s': "s' = s\<lparr>vs_claimed_installments := ?u\<rparr>"
    using c1 c2 by (simp_all add: claims_def Let_def)
  have "?u < unlocked_by (ledger_timestamp e2) s" using c2 by (simp add: claims_def Let_def s')
  moreover have "unlocked_by (ledger_timestamp e2) s \<le> ?n" by (simp add: unlocked_by_def)
  moreover have "vs_claimed_installments s < ?u" using c1 by (simp add: claims_def Let_def)
  ultimately have amounts: "a1 + a2 = a"
    using c1 c2 c3 by (simp add: claims_def Let_def installments_due_def v' s' algebra_simps split: if_splits)
  then show ?thesis using c1 c2 c3 by (auto simp: claims_def Let_def v' s')
qed

text \<open>Two more installments at time \<open>2300\<close>, after the two of time \<open>2150\<close> or all four at once.\<close>

lemma claims_2300:
  "runs (claim_vested_installment (host 2300) 1) (\<lambda>a t. a = 200 \<and> True) claimed2"
  "runs (claim_vested_installment (host 2300) 1) (\<lambda>a t. a = 400 \<and> True) vesting"
  by (simp_all add: claim_run run_simps inst_defs vault_defs set_defs extend_instance_ttl_def vesting_defs tdiv_def
      in_i128_def move_def claimed2_sel(3) [unfolded address_defs, simplified])

theorem claims_add_up_witness:
  "(200 :: int) + 200 = 400 \<and> vest (after (claim_vested_installment (host 2300) 1) claimed2) =
     vest (after (claim_vested_installment (host 2300) 1) vesting)"
  using claims_add_up [OF claimed2_run claims_2300 [THEN runs_value(1)] vesting_plain]
  by simp

subsection \<open>Claims that can be reversed\<close>

text \<open>What \<open>initiate_vesting_claim\<close> writes: the schedule counts the installments and the claim is pending.\<close>

definition initiates ::
  "'tok env \<Rightarrow> nat \<Rightarrow> nat \<Rightarrow> Vault \<Rightarrow> VestingSchedule \<Rightarrow> VestingPendingClaim \<Rightarrow> 'tok world \<Rightarrow> 'tok world \<Rightarrow> bool" where
  "initiates e i r v s p w t \<longleftrightarrow> (let u = unlocked_by (ledger_timestamp e) s in
     p_Vault w i = Some v \<and> v_status v = Released \<and> p_VestingSchedule (vest w) (i, 0) = Some s \<and>
     p_VestingPendingClaim (vest w) (i, 0) = None \<and> vs_claimed_installments s < u \<and>
     vc_amount p = installments_due v s u \<and> vc_prev_installments_claimed p = vs_claimed_installments s \<and>
     vc_reversal_deadline p = ledger_timestamp e + r \<and>
     vest t = (vest w)\<lparr>p_VestingSchedule := (p_VestingSchedule (vest w))((i, 0) \<mapsto> s\<lparr>vs_claimed_installments := u\<rparr>),
       p_VestingPendingClaim := (p_VestingPendingClaim (vest w))((i, 0) \<mapsto> p)\<rparr>)"

lemma initiates_effect:
  "wp (initiate_vesting_claim e i r) (\<lambda>amt t. p_Vault t = p_Vault w \<and> tokens t = tokens w \<and>
     (\<exists>v s p. vc_amount p = amt \<and> initiates e i r v s p w t)) w"
proof -
  have stop: "\<exists>v s p. vc_amount p = amt \<and> initiates e i r v s p w t"
    if "initiates e i r v' s' p' w t" "vc_amount p' = amt" for v' s' p' t amt
    using that by blast
  show ?thesis
    unfolding initiate_vesting_claim_def save_schedule_def
    by (auto simp: wp_simps Let_def simp del: of_nat_diff fun_upd_apply
        intro!: wp_load_open_schedule wp_unlocked_by wp_installments_due stop)
       (auto simp: initiates_def Let_def)
qed

text \<open>C19. Until its deadline a pending claim can be undone: after the owner's reversal
  the vesting state, the vaults and the token accounts are exactly what they were before the claim
  was initiated. Neither call moves money, and while a claim is pending no other can be initiated.\<close>

theorem vesting_reversal:
  assumes "initiate_vesting_claim e i r w = Inr (amt, w1)" "reverse_vesting_claim e' i c w1 = Inr ((), t)"
  shows "vest t = vest w \<and> p_Vault t = p_Vault w \<and> tokens t = tokens w \<and> tokens w1 = tokens w \<and>
     ledger_timestamp e' \<le> ledger_timestamp e + r \<and> \<not> commits (initiate_vesting_claim e'' i r') w1"
proof -
  obtain v s p where i: "p_Vault w1 = p_Vault w" "tokens w1 = tokens w" "initiates e i r v s p w w1"
    using wpD [OF initiates_effect assms(1)] by blast
  have "wp (reverse_vesting_claim e' i c) (\<lambda>_ t. vest t = vest w \<and> p_Vault t = p_Vault w \<and> tokens t = tokens w \<and>
      ledger_timestamp e' \<le> ledger_timestamp e + r) w1"
    unfolding reverse_vesting_claim_def save_schedule_def
    using i by (auto simp: wp_simps initiates_def Let_def fun_upd_idem)
  note undone = wpD [OF this assms(2)]
  have "wp (initiate_vesting_claim e'' i r') (\<lambda>_ _. False) w1"
    unfolding initiate_vesting_claim_def using i(3) by (auto simp: wp_simps initiates_def Let_def)
  then have "\<not> commits (initiate_vesting_claim e'' i r') w1"
    by (auto simp: commits_def wp_def split: sum.splits)
  then show ?thesis using undone i(2) by blast
qed

definition pending :: "ledger world" where
  "pending = after (initiate_vesting_claim (host 2150) 1 50) vesting"

lemma pending_state:
  "runs (initiate_vesting_claim (host 2150) 1 50) (\<lambda>a t. a = 200 \<and> (inst t = inst vesting \<and> p_Vault t = p_Vault vesting \<and>
     vest t = (vest vesting)\<lparr>p_VestingSchedule := [(1, 0) \<mapsto> schedule1\<lparr>vs_claimed_installments := 2\<rparr>],
       p_VestingPendingClaim := [(1, 0) \<mapsto> \<lparr>vc_amount = 200, vc_beneficiary = HEIR, vc_initiated_at = 2150,
         vc_reversal_deadline = 2200, vc_new_installments_claimed = 2, vc_prev_installments_claimed = 0\<rparr>]\<rparr>)) vesting"
  by (simp add: initiate_vesting_claim_def claim_run run_simps inst_defs vault_defs set_defs extend_instance_ttl_def
      vesting_defs tdiv_def in_i128_def numeral_2_eq_2)

lemma pending_sel [simp]:
  "inst pending = inst vesting" "p_Vault pending = p_Vault vesting"
  "vest pending = (vest vesting)\<lparr>p_VestingSchedule := [(1, 0) \<mapsto> schedule1\<lparr>vs_claimed_installments := 2\<rparr>],
     p_VestingPendingClaim := [(1, 0) \<mapsto> \<lparr>vc_amount = 200, vc_beneficiary = HEIR, vc_initiated_at = 2150,
       vc_reversal_deadline = 2200, vc_new_installments_claimed = 2, vc_prev_installments_claimed = 0\<rparr>]\<rparr>"
  using runs_value(2) [OF pending_state] unfolding pending_def by blast+

lemma reversed_run: "runs (reverse_vesting_claim (host 2180) 1 OWNER) (\<lambda>x _. x = () \<and> True) pending"
  by (simp add: reverse_vesting_claim_def claim_run run_simps inst_defs vault_defs set_defs extend_instance_ttl_def
      vesting_defs)

theorem vesting_reversal_witness:
  "vest (after (reverse_vesting_claim (host 2180) 1 OWNER) pending) = vest vesting \<and>
     \<not> commits (initiate_vesting_claim (host 2160) 1 50) pending"
  using vesting_reversal [OF runs_value(1) [OF pending_state, folded pending_def] runs_value(1) [OF reversed_run],
      of "host 2160" 50] by simp

subsection \<open>Cancelling a schedule\<close>

text \<open>What cancelling credits: the part of the schedule that was not claimed.\<close>

definition unclaimed :: "VestingSchedule \<Rightarrow> int" where
  "unclaimed s = vs_total_amount s -
     tdiv (vs_total_amount s) (int (vs_num_installments s)) * int (vs_claimed_installments s)"

lemma cancel_schedule_effect:
  "wp (cancel_vesting_schedule e i k c) (\<lambda>_ t. \<exists>v s. p_Vault w i = Some v \<and> p_VestingSchedule (vest w) (i, k) = Some s \<and>
     authorized e c \<and> c = v_owner v \<and> tokens t = tokens w \<and> idx t = idx w \<and>
     p_Vault t = (p_Vault w)(i \<mapsto> v\<lparr>v_balance := sat_i128 (v_balance v + sat_i128 (unclaimed s))\<rparr>)) w"
  unfolding cancel_vesting_schedule_def
  by (auto simp: wp_simps Let_def unclaimed_def simp del: fun_upd_apply)

text \<open>Cancelling a schedule with an unclaimed part credits that part to the vault
  although setting the schedule never took it out: no token moves, and a contract that owned
  exactly what its vaults recorded is insolvent afterwards.\<close>

theorem vesting_cancel_mints:
  assumes "cancel_vesting_schedule e i k c w = Inr ((), t)" "solvent bal self w" "p_Vault w i = Some v"
    "p_VestingSchedule (vest w) (i, k) = Some s" "0 < unclaimed s" "v_balance v + unclaimed s \<le> I128_MAX"
    "bal (tokens w) (v_token_address v) self = total_held (p_Vault w) (count_of (idx w)) (v_token_address v)"
  shows "tokens t = tokens w \<and> p_Vault t i = Some (v\<lparr>v_balance := v_balance v + unclaimed s\<rparr>) \<and> \<not> solvent bal self t"
proof -
  have t: "tokens t = tokens w" "idx t = idx w"
    "p_Vault t = (p_Vault w)(i \<mapsto> v\<lparr>v_balance := sat_i128 (v_balance v + sat_i128 (unclaimed s))\<rparr>)"
    using wpD [OF cancel_schedule_effect assms(1)] assms(3,4) by auto
  have "1 \<le> i" "i \<le> count_of (idx w)" "0 \<le> v_balance v"
    using assms(2,3) accounts_okD [of bal self "p_Vault w" "count_of (idx w)" "tokens w"] by (auto simp: solvent_def)
  moreover have "sat_i128 (v_balance v + sat_i128 (unclaimed s)) = v_balance v + unclaimed s"
    using assms(5,6) calculation(3) by (simp add: sat_i128_def)
  ultimately have v: "p_Vault t = (p_Vault w)(i \<mapsto> v\<lparr>v_balance := v_balance v + unclaimed s\<rparr>)"
    "total_held (p_Vault t) (count_of (idx t)) (v_token_address v) =
       total_held (p_Vault w) (count_of (idx w)) (v_token_address v) + unclaimed s"
    using t assms(3) by (simp_all add: total_held_save [where v = v])
  then have "\<not> solvent bal self t"
    using assms(5,7) t(1) accounts_okD(4) [of bal self "p_Vault t" "count_of (idx t)" "tokens t" "v_token_address v"]
    by (auto simp: solvent_def)
  then show ?thesis using v(1) t(1) by simp
qed

lemma cancelled_run: "runs (cancel_vesting_schedule (host 2150) 1 0 OWNER) (\<lambda>x _. x = () \<and> True) vesting"
  by (simp add: cancel_vesting_schedule_def run_simps inst_defs vault_defs set_defs extend_instance_ttl_def
      vesting_defs tdiv_def in_i128_def)

theorem vesting_cancel_mints_witness:
  "\<not> solvent ledger_balance VAULT (after (cancel_vesting_schedule (host 2150) 1 0 OWNER) vesting)"
  using vesting_cancel_mints [OF runs_value(1) [OF cancelled_run], where bal = ledger_balance and self = VAULT
      and v = "vault1\<lparr>v_status := Released\<rparr>" and s = schedule1]
    vesting_safe
  by (simp add: safe_def unclaimed_def tdiv_def total_held_def held_def count_of_def ledger_balance_def vesting_defs)

subsection \<open>Milestones\<close>

lemma no_open_loop:
  "\<forall>m \<in> set ms. \<not> open_claim m \<Longrightarrow> bindM (foldM (milestone_step s l) (enumerate k ms) a) f t = f a t"
  by (induction ms arbitrary: k) (simp_all add: exec milestone_step_def)

text \<open>C20. A claim of the milestone schedule commits only if some milestone is fulfilled and not
  yet claimed. As long as the last milestone is not among those, it pays exactly the rounded shares of the fulfilled, unclaimed
  milestones. If the last one is among them, it pays everything that is unpaid, the shares of milestones that are not
  fulfilled included: there the code pays more than its comment says (\<open>milestones_overpay\<close>). The heirs together receive exactly
  the amount, the fulfilled milestones are marked claimed, and a second claim without new progress fails.\<close>

theorem milestones_pay_once:
  assumes "claim_milestone_installments e i w = Inr (amt, t)" "safe bal self w"
  shows "\<exists>v s. amt = (if open_claim (last (mv_milestones s)) then mv_total_amount s - mv_claimed_amount s
       else \<Sum>m \<leftarrow> filter open_claim (mv_milestones s). milestone_share (mv_total_amount s) m) \<and>
     0 \<le> amt \<and> milestone_paid e i v s w t \<and>
     sum_list (map snd (claim_payments v amt)) = amt \<and>
     claim_milestone_installments e' i t \<in> {Inl (Err NothingToClaimYet), Inl (Err Paused)}"
proof -
  have ok: "splits_ok w" using assms(2) by (simp add: safe_def)
  obtain v s where p: "amt = milestone_due s" "milestone_paid e i v s w t"
    using wpD [OF claim_milestone_effect [OF ok] assms(1)] by blast
  have v: "p_Vault w i = Some v" "p_MilestoneVestingSchedule (vest w) i = Some s"
    using p(2) by (simp_all add: milestone_paid_def)
  have amt: "0 \<le> amt" using milestone_due_nonneg milestones_inorder(1) [OF ok v(2)] p(1) by simp
  have sum: "sum_list (map snd (claim_payments v amt)) = amt"
    using splits_okD(1) [OF ok v(1)] amt by (intro claim_payments_sum) (simp_all add: sane_def)
  have none: "\<forall>m \<in> set (mv_milestones (milestones_claimed s)). \<not> open_claim m"
    by (auto simp: milestones_claimed_def open_claim_def)
  have after: "p_Vault t i = Some (v\<lparr>v_balance := v_balance v - amt\<rparr>)" "v_status v = Released"
    "p_MilestoneVestingSchedule (vest t) i = Some (milestones_claimed s)" "\<not> mv_paused (milestones_claimed s)"
    using p by (simp_all add: milestone_paid_def drawn_def milestones_claimed_def)
  have "claim_milestone_installments e' i t \<in> {Inl (Err NothingToClaimYet), Inl (Err Paused)}"
    by (simp add: claim_milestone_installments_def load_milestones_def exec inst_defs
        vault_defs no_open_loop [OF none] none after)
  then show ?thesis using p amt sum unfolding milestone_due_def by blast
qed

text \<open>Two milestones of 40 and 60 percent of \<open>500\<close>; the first is fulfilled.\<close>

definition goals :: MilestoneVestingSchedule where
  "goals = \<lparr>mv_total_amount = 500, mv_milestones =
     [\<lparr>me_label = ''degree'', me_target_value = 1, me_current_value = 1, me_bps = 4000, me_is_fulfilled = True, me_claimed = False\<rparr>,
      \<lparr>me_label = ''house'', me_target_value = 1, me_current_value = 0, me_bps = 6000, me_is_fulfilled = False, me_claimed = False\<rparr>],
     mv_claimed_amount = 0, mv_oracle = ADMIN, mv_paused = False\<rparr>"

definition achieved :: "ledger world" where
  "achieved = funded\<lparr>p_Vault := [1 \<mapsto> vault1\<lparr>v_status := Released\<rparr>],
     vest := vesting0\<lparr>p_MilestoneVestingSchedule := [1 \<mapsto> goals]\<rparr>\<rparr>"

lemmas achieved_defs = achieved_def goals_def scenario_defs

lemma achieved_safe: "safe ledger_balance VAULT achieved"
  by (auto simp: safe_def solvent_def accounts_ok_def splits_ok_def sane_def bps_total_def plans_ok_def
      milestones_ok_def total_held_def held_def count_of_def ledger_balance_def plan_defs achieved_defs)

lemma achieved_run: "runs (claim_milestone_installments (host 2150) 1) (\<lambda>a _. a = 200 \<and> True) achieved"
  by (simp add: claim_milestone_installments_def milestone_io milestone_step_def open_claim_def pay_claim_def run_simps
      inst_defs vault_defs set_defs achieved_defs tdiv_def in_i128_def move_def)

theorem milestones_pay_once_witness:
  "(\<exists>v s. 200 = (if open_claim (last (mv_milestones s)) then mv_total_amount s - mv_claimed_amount s
       else \<Sum>m \<leftarrow> filter open_claim (mv_milestones s). milestone_share (mv_total_amount s) m) \<and>
     milestone_paid (host 2150) 1 v s achieved (after (claim_milestone_installments (host 2150) 1) achieved)) \<and>
   claim_milestone_installments (host 2160) 1 (after (claim_milestone_installments (host 2150) 1)
     achieved) \<in> {Inl (Err NothingToClaimYet), Inl (Err Paused)}"
  using milestones_pay_once [OF runs_value(1) [OF achieved_run] achieved_safe] by blast

text \<open>
  The last milestone takes all that is unpaid, whether or not the others are fulfilled; a
  milestone fulfilled after it is then paid on top of the total.
\<close>

lemma milestones_overpay:
  "open_claim (last (mv_milestones s)) \<Longrightarrow> mv_claimed_amount (milestones_claimed s) = mv_total_amount s"
  "mv_claimed_amount s = mv_total_amount s \<Longrightarrow> 0 \<le> mv_total_amount s \<Longrightarrow> \<not> open_claim (last (mv_milestones s)) \<Longrightarrow>
     m \<in> set (mv_milestones s) \<Longrightarrow> open_claim m \<Longrightarrow> 0 < milestone_share (mv_total_amount s) m \<Longrightarrow>
     mv_total_amount s < mv_claimed_amount (milestones_claimed s)"
proof -
  show "mv_claimed_amount (milestones_claimed s) = mv_total_amount s" if "open_claim (last (mv_milestones s))"
    using that by (simp add: milestones_claimed_def milestone_due_def)
  assume m: "mv_claimed_amount s = mv_total_amount s" "0 \<le> mv_total_amount s" "\<not> open_claim (last (mv_milestones s))"
    "m \<in> set (mv_milestones s)" "open_claim m" "0 < milestone_share (mv_total_amount s) m"
  have "0 < sum_list (map (milestone_share (mv_total_amount s)) (filter open_claim ms))" if "m \<in> set ms" for ms
    using that
  proof (induction ms)
    case (Cons x xs)
    have "0 \<le> milestone_share (mv_total_amount s) x"
      using m(2) by (simp add: milestone_share_def tdiv_nonneg_ge)
    then show ?case
      using Cons m(5,6) shares_le(1) [OF m(2), of open_claim xs] by (auto simp: add_pos_nonneg add_nonneg_pos)
  qed simp
  then show "mv_total_amount s < mv_claimed_amount (milestones_claimed s)"
    using m by (simp add: milestones_claimed_def milestone_due_def)
qed

end
