(* ===== verification/Vault_History.thy ===== *)
theory Vault_History
  imports Vault_Scenario
begin

section \<open>Bounded logs: the check-in ring and the passkey trails\<close>

text \<open>
  Three logs of the contract are bounded: the check-in history is a ring of 50 slots, the
  passkey usage log and the passkey audit log drop their oldest entry beyond 1000. The locale
  \<open>bounded_log\<close> states their common contract, a window on everything ever logged; it is
  interpreted on the contract's own handlers.
\<close>

definition last_n :: "nat \<Rightarrow> 'a list \<Rightarrow> 'a list" where
  "last_n n xs = drop (length xs - n) xs"

lemma last_n_length [simp]: "length (last_n n xs) = min n (length xs)"
  by (simp add: last_n_def)

lemma last_n_short: "length xs \<le> n \<Longrightarrow> last_n n xs = xs"
  by (simp add: last_n_def)

lemma last_n_snoc: "last_n n (last_n n xs @ ys) = last_n n (xs @ ys)"
  by (cases "length xs \<le> n") (simp_all add: last_n_def min_def not_le add.commute)

lemma last_n_tl: "length xs = n \<Longrightarrow> 0 < n \<Longrightarrow> last_n n (xs @ [x]) = tl xs @ [x]"
  by (cases xs) (simp_all add: last_n_def)

locale bounded_log =
  fixes valid :: "'l \<Rightarrow> bool" and push :: "'a \<Rightarrow> 'l \<Rightarrow> 'l" and entries :: "'l \<Rightarrow> 'a list" and cap :: nat
  assumes push_valid: "valid l \<Longrightarrow> valid (push x l)"
    and push_entries: "valid l \<Longrightarrow> entries (push x l) = last_n cap (entries l @ [x])"
    and valid_cap: "valid l \<Longrightarrow> length (entries l) \<le> cap"
begin

lemma pushes: "valid l \<Longrightarrow> valid (fold push xs l) \<and> entries (fold push xs l) = last_n cap (entries l @ xs)"
proof (induction xs arbitrary: l)
  case Nil
  then show ?case by (simp add: last_n_short valid_cap)
next
  case (Cons x xs)
  then show ?case by (simp add: push_valid push_entries last_n_snoc)
qed

lemma window: "valid l \<Longrightarrow> entries l = [] \<Longrightarrow> entries (fold push xs l) = last_n cap xs"
  by (simp add: pushes)

lemma newest: "valid l \<Longrightarrow> 0 < cap \<Longrightarrow> last (entries (push x l)) = x"
  by (simp add: push_entries last_n_def)

end

subsection \<open>The ring of check-ins\<close>

definition history_ok :: "nat \<Rightarrow> 'tok world \<Rightarrow> bool" where
  "history_ok i w \<longleftrightarrow> p_Vault w i \<noteq> None \<and> history_len w i \<le> 50 \<and> history_head w i < 50 \<and>
     (history_len w i < 50 \<longrightarrow> history_head w i = 0) \<and>
     (\<forall>k < history_len w i. p_CheckInEntry (logs w) (i, k) \<noteq> None)"

definition history :: "nat \<Rightarrow> 'tok world \<Rightarrow> CheckInHistoryEntry list" where
  "history i w = history_slots w i [0..<history_len w i]"

definition log_check_in :: "nat \<Rightarrow> CheckInHistoryEntry \<Rightarrow> 'tok world \<Rightarrow> 'tok world" where
  "log_check_in i c = after (record_check_in_history i (ci_timestamp c))"

definition slot :: "nat \<Rightarrow> nat \<Rightarrow> nat \<Rightarrow> nat" where
  "slot len head k = (if len < 50 then k else (head + k) mod 50)"

lemma slot_less: "k < len \<Longrightarrow> len \<le> 50 \<Longrightarrow> slot len head k < len"
  by (auto simp: slot_def)

lemma history_map:
  assumes "history_ok i w"
  shows "history i w =
    map (\<lambda>k. the (p_CheckInEntry (logs w) (i, slot (history_len w i) (history_head w i) k))) [0..<history_len w i]"
proof -
  have "List.map_filter (\<lambda>k. p_CheckInEntry (logs w) (i, slot n h k)) [0..<m] =
      map (\<lambda>k. the (p_CheckInEntry (logs w) (i, slot n h k))) [0..<m]"
    if "\<forall>k < m. p_CheckInEntry (logs w) (i, slot n h k) \<noteq> None" for m n h
    using that by (induction m) (auto simp: List.map_filter_def)
  moreover have "p_CheckInEntry (logs w) (i, slot (history_len w i) (history_head w i) k) \<noteq> None"
    if "k < history_len w i" for k
    using assms slot_less [OF that] by (auto simp: history_ok_def)
  ultimately show ?thesis
    by (simp add: history_def history_slots_def slot_def [abs_def] Let_def)
qed

text \<open>What one recording does to the ring.\<close>

lemma runs_record:
  assumes "history_ok i w"
  shows "runs (record_check_in_history i ts) (\<lambda>_ t. p_Vault t = p_Vault w \<and>
     (if history_len w i < 50
      then history_len t i = Suc (history_len w i) \<and> history_head t i = history_head w i \<and>
        p_CheckInEntry (logs t) = (p_CheckInEntry (logs w))((i, history_len w i) \<mapsto> \<lparr>ci_timestamp = ts\<rparr>)
      else history_len t i = history_len w i \<and> history_head t i = Suc (history_head w i) mod 50 \<and>
        p_CheckInEntry (logs t) = (p_CheckInEntry (logs w))((i, history_head w i) \<mapsto> \<lparr>ci_timestamp = ts\<rparr>))) w"
proof -
  obtain v where v: "p_Vault w i = Some v" using assms by (auto simp: history_ok_def)
  show ?thesis
    unfolding record_check_in_history_def
    using assms v
    by (simp add: run_simps set_defs vault_defs history_len_def [symmetric] history_head_def [symmetric] history_ok_def)
      (simp add: history_len_def history_head_def)
qed

lemma history_ok_log:
  assumes "history_ok i w"
  shows "history_ok i (log_check_in i c w)"
  unfolding log_check_in_def
  by (rule runs_after, rule runs_mono [OF runs_record [OF assms]])
    (use assms in \<open>auto simp: history_ok_def split: if_splits\<close>)

lemma history_log:
  assumes "history_ok i w"
  shows "history i (log_check_in i c w) = last_n 50 (history i w @ [c])"
proof -
  let ?t = "log_check_in i c w" and ?n = "history_len w i" and ?h = "history_head w i"
  let ?E = "p_CheckInEntry (logs w)"
  note ok = assms [unfolded history_ok_def]
  have t: "if ?n < 50
      then history_len ?t i = Suc ?n \<and> history_head ?t i = ?h \<and> p_CheckInEntry (logs ?t) = ?E((i, ?n) \<mapsto> c)
      else history_len ?t i = ?n \<and> history_head ?t i = Suc ?h mod 50 \<and> p_CheckInEntry (logs ?t) = ?E((i, ?h) \<mapsto> c)"
    unfolding log_check_in_def
    by (rule runs_after, rule runs_mono [OF runs_record [OF assms]]) (auto split: if_splits)
  show ?thesis
  proof (cases "?n < 50")
    case True
    have "history i ?t = history i w @ [c]"
      unfolding history_map [OF assms] history_map [OF history_ok_log [OF assms, of c]]
      using t True ok by (auto simp: slot_def)
    then show ?thesis using True by (simp add: last_n_short history_map [OF assms])
  next
    case False
    then have n: "?n = 50" "?h < 50" using ok by auto
    have "history i ?t = tl (history i w) @ [c]"
    proof (rule nth_equalityI)
      show "length (history i ?t) = length (tl (history i w) @ [c])"
        using t n by (simp add: history_map [OF assms] history_map [OF history_ok_log [OF assms, of c]])
      fix k assume "k < length (history i ?t)"
      then have k: "k < 50" using t n by (simp add: history_map [OF history_ok_log [OF assms, of c]])
      have turn: "(Suc ?h mod 50 + k) mod 50 = (?h + Suc k) mod 50" by (simp add: mod_simps)
      have wrap: "(?h + Suc k) mod 50 = ?h \<longleftrightarrow> k = 49" using n(2) k by (auto simp: mod_if)
      have "history i ?t ! k = (if k = 49 then c else the (?E (i, (?h + Suc k) mod 50)))"
        using t n k wrap by (simp add: history_map [OF history_ok_log [OF assms, of c]] slot_def turn)
      then show "history i ?t ! k = (tl (history i w) @ [c]) ! k"
        using n k by (simp add: history_map [OF assms] nth_append nth_tl slot_def)
    qed
    then show ?thesis
      using n by (simp add: last_n_tl history_map [OF assms])
  qed
qed

lemma history_bound: "history_ok i w \<Longrightarrow> length (history i w) \<le> 50"
  by (simp add: history_map) (simp add: history_ok_def)

interpretation check_ins: bounded_log "history_ok i" "log_check_in i" "history i" 50
  for i
  by unfold_locales (rule history_ok_log history_log history_bound; assumption)+

subsection \<open>The passkey trails\<close>

definition usage :: "nat \<Rightarrow> 'tok world \<Rightarrow> PasskeyUsageEntry list" where
  "usage i w = log_of (p_PasskeyUsage (pks w) i)"

definition usage_ok :: "nat \<Rightarrow> 'tok world \<Rightarrow> bool" where
  "usage_ok i w \<longleftrightarrow> p_Vault w i \<noteq> None \<and> length (usage i w) \<le> MAX_PASSKEY_USAGE_ENTRIES"

definition log_usage :: "nat \<Rightarrow> PasskeyUsageEntry \<Rightarrow> 'tok world \<Rightarrow> 'tok world" where
  "log_usage i u = after (log_passkey_usage i (pu_passkey_hash u) (pu_timestamp u))"

definition audit :: "nat \<Rightarrow> 'tok world \<Rightarrow> PasskeyAuditEntry list" where
  "audit i w = log_of (p_PasskeyAuditLog (pks w) i)"

definition audit_ok :: "nat \<Rightarrow> 'tok world \<Rightarrow> bool" where
  "audit_ok i w \<longleftrightarrow> p_Vault w i \<noteq> None \<and> length (audit i w) \<le> MAX_PASSKEY_AUDIT_ENTRIES"

definition log_audit :: "'tok env \<Rightarrow> nat \<Rightarrow> PasskeyAuditEntry \<Rightarrow> 'tok world \<Rightarrow> 'tok world" where
  "log_audit e i a = after (log_passkey_audit_entry (e\<lparr>ledger_timestamp := pa_timestamp a\<rparr>) i
     (pa_operation a) (pa_actor a) (pa_passkey_hash a))"

text \<open>Pushing and dropping the oldest entry beyond the cap is the window of the last entries.\<close>

lemma push_capped:
  "length xs \<le> cap \<Longrightarrow> 0 < cap \<Longrightarrow>
     (if cap < length (xs @ [x]) then tl (xs @ [x]) else xs @ [x]) = last_n cap (xs @ [x])"
  by (cases "length xs = cap") (auto simp: last_n_tl last_n_short tl_append split: list.splits)

lemma log_usage_effect:
  assumes "usage_ok i w"
  shows "p_Vault (log_usage i u w) = p_Vault w \<and>
    usage i (log_usage i u w) = last_n MAX_PASSKEY_USAGE_ENTRIES (usage i w @ [u])"
proof -
  obtain v where v: "p_Vault w i = Some v" using assms by (auto simp: usage_ok_def)
  have cap: "length (usage i w) \<le> MAX_PASSKEY_USAGE_ENTRIES" "0 < MAX_PASSKEY_USAGE_ENTRIES"
    using assms by (simp_all add: usage_ok_def MAX_PASSKEY_USAGE_ENTRIES_def)
  have u: "\<lparr>pu_passkey_hash = pu_passkey_hash u, pu_timestamp = pu_timestamp u\<rparr> = u" by simp
  have "runs (log_passkey_usage i (pu_passkey_hash u) (pu_timestamp u)) (\<lambda>_ t. p_Vault t = p_Vault w \<and>
      usage i t = (if MAX_PASSKEY_USAGE_ENTRIES < length (usage i w @ [u]) then tl (usage i w @ [u])
        else usage i w @ [u])) w"
    using v
    by (simp add: log_passkey_usage_def detect_passkey_anomaly_def run_simps set_defs vault_defs usage_def
        log_of_def Let_def u split: option.splits)
  from runs_after [OF this] show ?thesis
    unfolding push_capped [OF cap] by (simp add: log_usage_def)
qed

lemma log_audit_effect:
  assumes "audit_ok i w"
  shows "p_Vault (log_audit e i a w) = p_Vault w \<and>
    audit i (log_audit e i a w) = last_n MAX_PASSKEY_AUDIT_ENTRIES (audit i w @ [a])"
proof -
  obtain v where v: "p_Vault w i = Some v" using assms by (auto simp: audit_ok_def)
  have cap: "length (audit i w) \<le> MAX_PASSKEY_AUDIT_ENTRIES" "0 < MAX_PASSKEY_AUDIT_ENTRIES"
    using assms by (simp_all add: audit_ok_def MAX_PASSKEY_AUDIT_ENTRIES_def)
  have a: "\<lparr>pa_operation = pa_operation a, pa_actor = pa_actor a, pa_passkey_hash = pa_passkey_hash a,
      pa_timestamp = pa_timestamp a\<rparr> = a" by simp
  have "runs (log_passkey_audit_entry (e\<lparr>ledger_timestamp := pa_timestamp a\<rparr>) i (pa_operation a) (pa_actor a)
      (pa_passkey_hash a)) (\<lambda>_ t. p_Vault t = p_Vault w \<and>
      audit i t = (if MAX_PASSKEY_AUDIT_ENTRIES < length (audit i w @ [a]) then tl (audit i w @ [a])
        else audit i w @ [a])) w"
    using v
    by (simp add: log_passkey_audit_entry_def run_simps set_defs vault_defs audit_def log_of_def Let_def a
        split: option.splits)
  from runs_after [OF this] show ?thesis
    unfolding push_capped [OF cap] by (simp add: log_audit_def)
qed

interpretation usage_log: bounded_log "usage_ok i" "log_usage i" "usage i" MAX_PASSKEY_USAGE_ENTRIES
  for i
  by unfold_locales (auto simp: usage_ok_def log_usage_effect [unfolded usage_ok_def])

interpretation audit_log: bounded_log "audit_ok i" "log_audit e i" "audit i" MAX_PASSKEY_AUDIT_ENTRIES
  for e i
  by unfold_locales (auto simp: audit_ok_def log_audit_effect [unfolded audit_ok_def])

subsection \<open>Properties\<close>

text \<open>C13. The check-in history is the last 50 check-ins in order: however many check-ins
  are recorded on a vault without history, \<open>get_check_in_history\<close> returns the newest 50 of them
  (all of them while there are fewer), oldest first, although the ring overwrites its slots.\<close>

theorem history_window:
  assumes "p_Vault w i \<noteq> None" "p_CheckInHistoryLen (logs w) i = None" "p_CheckInHistoryHead (logs w) i = None"
  shows "\<exists>t. t = fold (log_check_in i) cs w \<and> get_check_in_history i t = Inr (last_n 50 cs, t)"
proof -
  have "history_ok i w" "history i w = []"
    using assms by (auto simp: history_ok_def history_def history_len_def history_head_def history_slots_def
        List.map_filter_def)
  then show ?thesis
    using check_ins.window [of i w cs] by (simp add: get_check_in_history_def gets_def history_def)
qed

theorem history_window_witness:
  "get_check_in_history 1 (fold (log_check_in 1) [\<lparr>ci_timestamp = 150\<rparr>, \<lparr>ci_timestamp = 300\<rparr>] funded) =
     Inr ([\<lparr>ci_timestamp = 150\<rparr>, \<lparr>ci_timestamp = 300\<rparr>],
       fold (log_check_in 1) [\<lparr>ci_timestamp = 150\<rparr>, \<lparr>ci_timestamp = 300\<rparr>] funded)"
  using history_window [of funded 1 "[\<lparr>ci_timestamp = 150\<rparr>, \<lparr>ci_timestamp = 300\<rparr>]"]
  by (auto simp: last_n_def scenario_defs)

text \<open>The passkey usage and audit logs of a vault keep exactly the newest 1000
  entries of everything ever logged, in order.\<close>

theorem passkey_trails:
  assumes "usage_ok i w" "audit_ok i w"
  shows "usage i (fold (log_usage i) us w) = last_n 1000 (usage i w @ us) \<and>
    audit i (fold (log_audit e i) as w) = last_n 1000 (audit i w @ as)"
  using usage_log.pushes [OF assms(1), of us] audit_log.pushes [OF assms(2), of e as]
  by (simp add: MAX_PASSKEY_USAGE_ENTRIES_def MAX_PASSKEY_AUDIT_ENTRIES_def)

lemma funded_logs: "usage_ok 1 funded" "audit_ok 1 funded" "usage 1 funded = []"
  by (simp_all add: usage_ok_def audit_ok_def usage_def audit_def log_of_def scenario_defs)

theorem passkey_trails_witness:
  "usage 1 (fold (log_usage 1) [\<lparr>pu_passkey_hash = [7], pu_timestamp = 150\<rparr>] funded) =
     [\<lparr>pu_passkey_hash = [7], pu_timestamp = 150\<rparr>]"
  using passkey_trails [OF funded_logs(1,2), of "[\<lparr>pu_passkey_hash = [7], pu_timestamp = 150\<rparr>]" "host 0" "[]"]
  by (simp only: funded_logs(3)) (simp add: last_n_def)

end
