(* ===== verification/Passkey_Properties.thy ===== *)
theory Passkey_Properties
  imports Vault_Passkeys Vault_Scenario
begin

section \<open>Properties of passkeys, backup codes and recovery\<close>

text \<open>
  Backup codes are distinct and each works once; a recovery code works once and leaves exactly the new
  passkey. The recovery by contacts and the extension by a recovery contact do not ask for the owner:
  any address can register a passkey of its own and restart the clock of any locked vault.
\<close>

subsection \<open>Decimal notation\<close>

lemma digit_char_inject: "a < 10 \<Longrightarrow> b < 10 \<Longrightarrow> digit_char a = digit_char b \<longleftrightarrow> a = b"
  by (auto simp: digit_char_def dest: arg_cong [where f = "of_char :: char \<Rightarrow> nat"])

lemma decimal_nonempty: "decimal n \<noteq> []"
  by (subst decimal.simps) simp

lemma decimal_inject: "decimal m = decimal n \<longleftrightarrow> m = n"
proof
  show "decimal m = decimal n \<Longrightarrow> m = n"
  proof (induction m arbitrary: n rule: decimal.induct)
    case (1 m)
    show ?case
    proof (cases "m < 10 \<or> n < 10")
      case True
      then have "m < 10" "n < 10" using "1.prems" decimal_nonempty [of "m div 10"] decimal_nonempty [of "n div 10"]
        by (auto simp: decimal.simps [of m] decimal.simps [of n] append_eq_Cons_conv Cons_eq_append_conv split: if_splits)
      then show ?thesis using "1.prems" by (simp add: decimal.simps [of m] decimal.simps [of n] digit_char_inject)
    next
      case False
      then have "decimal (m div 10) = decimal (n div 10)" "digit_char (m mod 10) = digit_char (n mod 10)"
        using "1.prems" by (simp_all add: decimal.simps [of m] decimal.simps [of n])
      then have "m div 10 = n div 10" "m mod 10 = n mod 10" using "1.IH" False by (auto simp: digit_char_inject)
      then show ?thesis by (metis div_mult_mod_eq)
    qed
  qed
qed simp

lemma shifted_mod_inject:
  assumes "i < k" "j < k" "k \<le> m" "(x + i) mod m = (x + j) mod m" shows "i = (j :: nat)"
proof -
  have "i mod m = j mod m" using assms(4) by (simp add: nat_mod_eq_iff)
  then show ?thesis using assms(1-3) by simp
qed

lemma backup_codes_distinct: "distinct (map (backup_code i ts) [0..<10])"
  by (auto simp: distinct_map backup_code_def decimal_inject intro!: inj_onI dest!: shifted_mod_inject [where k = 10, rotated 3])

subsection \<open>Backup codes\<close>

definition codes :: "'tok world \<Rightarrow> nat \<Rightarrow> BackupCode list option" where
  "codes w i = p_BackupCodes (pks w) i"

lemma mark_used_spec:
  "mark_used c bs = Inr bs' \<Longrightarrow> map bk_code bs' = map bk_code bs \<and> mark_used c bs' = Inl (Err BackupCodeAlreadyUsed) \<and>
     (\<forall>c'. c' \<noteq> c \<longrightarrow> map_option bk_used (find (\<lambda>b. bk_code b = c') bs') = map_option bk_used (find (\<lambda>b. bk_code b = c') bs))"
  by (induction bs arbitrary: bs') (auto split: if_splits sum.splits)

lemma mark_used_iff:
  "(\<exists>bs'. mark_used c bs = Inr bs') \<longleftrightarrow> map_option bk_used (find (\<lambda>b. bk_code b = c) bs) = Some False"
  by (induction bs) (auto split: sum.splits)

definition clock_reset :: "'tok env \<Rightarrow> nat \<Rightarrow> 'tok world \<Rightarrow> 'tok world \<Rightarrow> bool" where
  "clock_reset e i w t \<longleftrightarrow> (\<exists>v. p_Vault w i = Some v \<and> v_status v = Locked \<and>
     p_Vault t = (p_Vault w)(i \<mapsto> v\<lparr>v_last_check_in := ledger_timestamp e\<rparr>) \<and> tokens t = tokens w)"

definition code_spent :: "'tok env \<Rightarrow> nat \<Rightarrow> string \<Rightarrow> 'tok world \<Rightarrow> 'tok world \<Rightarrow> bool" where
  "code_spent e i c w t \<longleftrightarrow> clock_reset e i w t \<and>
     (\<exists>bs bs'. codes w i = Some bs \<and> mark_used c bs = Inr bs' \<and> codes t = (codes w)(i \<mapsto> bs'))"

lemma use_backup_code_effect: "wp (use_backup_code e i c) (\<lambda>_. code_spent e i c w) w"
  unfolding use_backup_code_def by (auto simp: wp_simps code_spent_def clock_reset_def codes_def)

lemma use_backup_code_runs:
  assumes "p_Vault w i = Some v" "v_status v = Locked" "codes w i = Some bs"
  shows "mark_used c bs = Inl err \<Longrightarrow> use_backup_code e i c w = Inl err"
    "mark_used c bs = Inr bs' \<Longrightarrow> runs (use_backup_code e i c) (\<lambda>_. code_spent e i c w) w"
  using assms
  by (auto simp: use_backup_code_def run_simps code_spent_def clock_reset_def codes_def exec vault_defs extend_instance_ttl_def)

lemma generate_effect:
  "wp (generate_backup_codes e i c) (\<lambda>cs t. cs = map (backup_code i (ledger_timestamp e)) [0..<10] \<and> p_Vault t = p_Vault w \<and>
     (\<exists>v. p_Vault w i = Some v \<and> v_owner v = c \<and> v_status v = Locked) \<and> authorized e c \<and>
     codes t = (codes w)(i \<mapsto> map (\<lambda>c. \<lparr>bk_code = c, bk_used = False\<rparr>) cs)) w"
  unfolding generate_backup_codes_def by (auto simp: wp_simps codes_def Let_def)

lemma find_fresh: "distinct cs \<Longrightarrow> c \<in> set cs \<Longrightarrow>
    map_option bk_used (find (\<lambda>b. bk_code b = c) (map (\<lambda>c. \<lparr>bk_code = c, bk_used = False\<rparr>) cs)) = Some False"
  by (induction cs) auto

text \<open>The ten generated backup codes are pairwise distinct and each of them is accepted
  afterwards: it restarts the check-in clock of the locked vault and moves no token; the same code given again,
  at any time, is refused as used, and the other codes are still as usable as before.\<close>

theorem backup_code_once:
  assumes "generate_backup_codes e i owner w = Inr (cs, t)" "c \<in> set cs"
  shows "length cs = 10 \<and> distinct cs \<and> (\<exists>u. use_backup_code e' i c t = Inr ((), u) \<and> clock_reset e' i t u \<and>
    use_backup_code e'' i c u = Inl (Err BackupCodeAlreadyUsed) \<and>
    (\<forall>c' \<in> set cs - {c}. runs (use_backup_code e'' i c') (\<lambda>_. code_spent e'' i c' u) u))"
proof -
  obtain v where g: "cs = map (backup_code i (ledger_timestamp e)) [0..<10]" "p_Vault t i = Some v" "v_status v = Locked"
    "codes t i = Some (map (\<lambda>c. \<lparr>bk_code = c, bk_used = False\<rparr>) cs)"
    using wpD [OF generate_effect assms(1)] by auto
  let ?bs = "map (\<lambda>c. \<lparr>bk_code = c, bk_used = False\<rparr>) cs"
  have d: "length cs = 10" "distinct cs" unfolding g(1) using backup_codes_distinct by (simp_all add: upt_rec)
  obtain bs' where bs': "mark_used c ?bs = Inr bs'" using find_fresh [OF d(2) assms(2)] mark_used_iff by blast
  obtain u where u: "use_backup_code e' i c t = Inr ((), u)" "code_spent e' i c t u"
    using use_backup_code_runs(2) [OF g(2-4) bs', of e'] by (auto elim: runsE)
  then have u2: "p_Vault u i = Some (v\<lparr>v_last_check_in := ledger_timestamp e'\<rparr>)" "codes u i = Some bs'"
    using g bs' by (auto simp: code_spent_def clock_reset_def)
  note spent = mark_used_spec [OF bs']
  have rest: "runs (use_backup_code e'' i c') (\<lambda>_. code_spent e'' i c' u) u" if "c' \<in> set cs - {c}" for c'
  proof -
    have "map_option bk_used (find (\<lambda>b. bk_code b = c') bs') = Some False"
      using spent that find_fresh [OF d(2)] by auto
    then obtain bs'' where "mark_used c' bs' = Inr bs''" using mark_used_iff by blast
    then show ?thesis using use_backup_code_runs(2) [OF u2(1) _ u2(2)] g(3) by simp
  qed
  have again: "use_backup_code e'' i c u = Inl (Err BackupCodeAlreadyUsed)"
    using use_backup_code_runs(1) [OF u2(1) _ u2(2)] spent g(3) by simp
  show ?thesis using d u again rest by (auto simp: code_spent_def)
qed

lemma passkey_generated: "runs (generate_backup_codes (host 300) 1 OWNER) (\<lambda>_ _. True) funded"
  by (simp add: generate_backup_codes_def owned_locked_vault_def owned_vault_def run_simps vault_defs extend_instance_ttl_def
      scenario_defs)

theorem backup_code_once_witness:
  "\<exists>cs t u. generate_backup_codes (host 300) 1 OWNER funded = Inr (cs, t) \<and> length cs = 10 \<and>
     use_backup_code (host 400) 1 (hd cs) t = Inr ((), u) \<and>
     use_backup_code (host 500) 1 (hd cs) u = Inl (Err BackupCodeAlreadyUsed)"
proof -
  obtain cs t where g: "generate_backup_codes (host 300) 1 OWNER funded = Inr (cs, t)"
    using passkey_generated by (auto elim: runsE)
  then have "cs \<noteq> []" using wpD [OF generate_effect g] by simp
  then show ?thesis using g backup_code_once [OF g hd_in_set, of "host 400" "host 500"] by blast
qed

subsection \<open>Recovery\<close>

text \<open>A recovery with a code leaves the vault with exactly the new passkey, restarts the clock and uses up the code: without
  a new code no further recovery commits.\<close>

lemma code_recovery_effect:
  "wp (recover_with_code e i k h) (\<lambda>_ t. \<exists>v. p_Vault w i = Some v \<and> v_status v = Locked \<and>
     p_RecoveryCodeHash (feat w) i = Some (sha256 e k) \<and> \<not> has_recovery_code t i \<and> tokens t = tokens w \<and>
     p_Vault t = (p_Vault w)(i \<mapsto> v\<lparr>v_passkey_hash := Some h, v_last_check_in := ledger_timestamp e\<rparr>) \<and>
     get_vault_passkeys t i = [\<lparr>pk_hash = h, pk_added_at = ledger_timestamp e, pk_biometric_hash = None\<rparr>]) w"
  unfolding recover_with_code_def
  by (auto simp: wp_simps Let_def has_recovery_code_def get_vault_passkeys_def log_of_def)

theorem recovery_code_once:
  assumes "recover_with_code e i k h w = Inr ((), t)"
  shows "get_vault_passkeys t i = [\<lparr>pk_hash = h, pk_added_at = ledger_timestamp e, pk_biometric_hash = None\<rparr>] \<and>
    tokens t = tokens w \<and> recover_with_code e' i k' h' t = Inl (Err RecoveryCodeNotSet)"
  using wpD [OF code_recovery_effect assms] by (auto simp: recover_with_code_def exec vault_defs has_recovery_code_def)

text \<open>Nobody's signature protects the recovery by contacts: any address that signs for itself alone names itself the only contact,
  approves, and has a passkey of its choice registered for any vault.\<close>

theorem stranger_recovers:
  assumes "authorized e a"
  shows "runs (thenM (initiate_passkey_recovery e i h s [a] 1) (approve_passkey_recovery e i a))
    (\<lambda>_ t. is_valid_passkey t i h \<and> p_Vault t = p_Vault w \<and> tokens t = tokens w) w"
  using assms
  by (auto simp: initiate_passkey_recovery_def approve_passkey_recovery_def run_simps Let_def is_valid_passkey_def load_passkeys_def)

text \<open>Nor does anything tie \<open>request_recovery_extension\<close> to the recovery contact of the vault: every address that signs for itself
  restarts the check-in clock of every locked vault, and so can put off its release for ever.\<close>

theorem stranger_extends:
  assumes "authorized e a" "p_Vault w i = Some v" "v_status v = Locked"
  shows "runs (request_recovery_extension e i a) (\<lambda>_. clock_reset e i w) w"
  using assms by (simp add: request_recovery_extension_def run_simps vault_defs extend_instance_ttl_def clock_reset_def)

end
