(* ===== verification/Host_Collections.thy ===== *)
theory Host_Collections
  imports Main "HOL-Library.Multiset"
begin

section \<open>Collections of the host\<close>

text \<open>
  The host's ordered \<open>Map\<close> as a list of pairs sorted by key, and the sorting loop several modules
  of the contract write out over a host \<open>Vec\<close>, with a proof that it sorts.
\<close>

subsection \<open>Ordered maps\<close>

fun map_set :: "'k::linorder \<Rightarrow> 'v \<Rightarrow> ('k \<times> 'v) list \<Rightarrow> ('k \<times> 'v) list" where
  "map_set k v [] = [(k, v)]"
| "map_set k v ((k', v') # m) = (if k < k' then (k, v) # (k', v') # m
     else if k = k' then (k, v) # m else (k', v') # map_set k v m)"

definition ordered :: "('k::linorder \<times> 'v) list \<Rightarrow> bool" where
  "ordered m \<longleftrightarrow> sorted_wrt (<) (map fst m)"

definition amounts :: "('k \<times> int) list \<Rightarrow> int" where
  "amounts m = sum_list (map snd m)"

lemma map_set_keys: "fst ` set (map_set k v m) = insert k (fst ` set m)"
  by (induction k v m rule: map_set.induct) (simp_all add: insert_commute)

lemma map_set_ordered: "ordered m \<Longrightarrow> ordered (map_set k v m)"
proof (induction k v m rule: map_set.induct)
  case (2 k v k' v' m)
  have "\<forall>x \<in> fst ` set (map_set k v m). k' < x" if "k' < k"
    using 2(2) that unfolding map_set_keys by (simp add: ordered_def)
  then show ?case using 2 by (auto simp: ordered_def)
qed (simp add: ordered_def)

lemma ordered_distinct: "ordered m \<Longrightarrow> distinct (map fst m)"
  unfolding ordered_def by (induction m) force+

lemma map_set_lookup: "map_of (map_set k v m) = (map_of m)(k \<mapsto> v)"
  by (induction m) auto

text \<open>Replacing a value keeps the keys and changes the sum by the difference.\<close>

lemma map_set_update:
  assumes "ordered m" "map_of m k = Some v"
  shows "map fst (map_set k v' m) = map fst m" "amounts (map_set k v' m) = amounts m - v + v'"
proof -
  have "map fst (map_set k v' m) = map fst m \<and> amounts (map_set k v' m) = amounts m - v + v'"
    using assms
  proof (induction m)
    case (Cons p m)
    obtain a b where p: "p = (a, b)" by (cases p)
    have "\<not> k < a"
    proof
      assume "k < a"
      then have "map_of m k = Some v" using Cons.prems(2) by (simp add: p split: if_splits)
      then have "k \<in> set (map fst m)" by (metis map_of_SomeD image_eqI fst_conv set_map)
      then show False using Cons.prems(1) \<open>k < a\<close> by (auto simp: ordered_def p)
    qed
    then show ?case using Cons by (auto simp: p ordered_def amounts_def split: if_splits)
  qed simp
  then show "map fst (map_set k v' m) = map fst m" "amounts (map_set k v' m) = amounts m - v + v'" by simp_all
qed

subsection \<open>Bubble sort\<close>

text \<open>
  One comparison, one pass over \<open>0..len - (i + 1)\<close>, and the passes for \<open>i\<close> in \<open>0..len\<close>, as in
  \<open>distribute_by_rank\<close> and \<open>validate_slice_with_rules\<close>.
\<close>

definition compare_swap :: "('a \<Rightarrow> 'k::linorder) \<Rightarrow> nat \<Rightarrow> 'a list \<Rightarrow> 'a list" where
  "compare_swap key j xs =
     (if key (xs ! (j + 1)) < key (xs ! j) then (xs[j := xs ! (j + 1)])[j + 1 := xs ! j] else xs)"

definition bubble_pass :: "('a \<Rightarrow> 'k::linorder) \<Rightarrow> nat \<Rightarrow> 'a list \<Rightarrow> 'a list" where
  "bubble_pass key i xs = fold (compare_swap key) [0..<length xs - (i + 1)] xs"

definition bubble_sort :: "('a \<Rightarrow> 'k::linorder) \<Rightarrow> 'a list \<Rightarrow> 'a list" where
  "bubble_sort key xs = fold (bubble_pass key) [0..<length xs] xs"

text \<open>
  After the comparisons below \<open>k\<close> the greatest of the first \<open>Suc k\<close> elements is at \<open>k\<close>, these elements
  are the same ones, and the others have not moved.
\<close>

definition swept :: "('a \<Rightarrow> 'k::linorder) \<Rightarrow> nat \<Rightarrow> 'a list \<Rightarrow> 'a list \<Rightarrow> bool" where
  "swept key k xs ys \<longleftrightarrow> length ys = length xs \<and> mset ys = mset xs \<and> (\<forall>j. k < j \<longrightarrow> j < length xs \<longrightarrow> ys ! j = xs ! j) \<and>
     (\<forall>p \<le> k. \<exists>q \<le> k. ys ! p = xs ! q) \<and> (\<forall>p \<le> k. key (ys ! p) \<le> key (ys ! k))"

lemma sweep: "k < length xs \<Longrightarrow> swept key k xs (fold (compare_swap key) [0..<k] xs)"
proof (induction k)
  case 0
  then show ?case by (simp add: swept_def)
next
  case (Suc k)
  define ys where "ys = fold (compare_swap key) [0..<k] xs"
  have ys: "length ys = length xs" "mset ys = mset xs" "\<And>j. k < j \<Longrightarrow> j < length xs \<Longrightarrow> ys ! j = xs ! j"
    "\<And>p. p \<le> k \<Longrightarrow> \<exists>q \<le> k. ys ! p = xs ! q" "\<And>p. p \<le> k \<Longrightarrow> key (ys ! p) \<le> key (ys ! k)"
    using Suc by (auto simp: swept_def ys_def)
  have src: "\<exists>q \<le> Suc k. ys ! p = xs ! q" if "p \<le> Suc k" for p
  proof (cases "p = Suc k")
    case True
    then show ?thesis using ys(3) [of "Suc k"] Suc.prems by auto
  next
    case False
    then show ?thesis using ys(4) [of p] that by (meson le_Suc_eq)
  qed
  have fold: "fold (compare_swap key) [0..<Suc k] xs = compare_swap key k ys" by (simp add: ys_def)
  show ?case
  proof (cases "key (ys ! Suc k) < key (ys ! k)")
    case True
    define zs where "zs = ys[k := ys ! Suc k, Suc k := ys ! k]"
    have zs: "compare_swap key k ys = zs" using True by (simp add: compare_swap_def zs_def)
    have "mset zs = mset ys" "length zs = length ys" using Suc.prems ys(1) by (simp_all add: mset_swap zs_def)
    moreover have nth: "zs ! p = (if p = k then ys ! Suc k else if p = Suc k then ys ! k else ys ! p)" for p
      using Suc.prems ys(1) by (simp add: nth_list_update zs_def)
    moreover have "\<exists>q \<le> Suc k. zs ! p = xs ! q" if "p \<le> Suc k" for p
      using src [of "Suc k"] src [of k] src [of p] that by (simp add: nth)
    moreover have "key (zs ! p) \<le> key (zs ! Suc k)" if "p \<le> Suc k" for p
      using ys(5) [of p] that True by (auto simp: nth le_Suc_eq)
    ultimately show ?thesis unfolding fold zs using ys(1-3) by (simp add: swept_def)
  next
    case False
    have "key (ys ! p) \<le> key (ys ! Suc k)" if "p \<le> Suc k" for p
      using ys(5) [of p] that False by (auto simp: le_Suc_eq)
    then show ?thesis
      unfolding fold using False ys(1-3) src by (simp add: swept_def compare_swap_def)
  qed
qed

text \<open>After \<open>m\<close> passes the last \<open>m\<close> elements are in place.\<close>

definition settled :: "('a \<Rightarrow> 'k::linorder) \<Rightarrow> nat \<Rightarrow> 'a list \<Rightarrow> bool" where
  "settled key m xs \<longleftrightarrow> (\<forall>p q. p < q \<longrightarrow> q < length xs \<longrightarrow> length xs - m \<le> q \<longrightarrow> key (xs ! p) \<le> key (xs ! q))"

lemma bubble_pass_settles:
  assumes "settled key m xs" "m < length xs"
  shows "settled key (Suc m) (bubble_pass key m xs)" "mset (bubble_pass key m xs) = mset xs" "length (bubble_pass key m xs) = length xs"
proof -
  define k where "k = length xs - Suc m"
  define ys where "ys = fold (compare_swap key) [0..<k] xs"
  have sw: "swept key k xs ys" unfolding ys_def using assms(2) by (intro sweep) (simp add: k_def)
  have pass: "bubble_pass key m xs = ys" by (simp add: bubble_pass_def ys_def k_def)
  show "mset (bubble_pass key m xs) = mset xs" "length (bubble_pass key m xs) = length xs" using sw by (simp_all add: pass swept_def)
  have "key (ys ! p) \<le> key (ys ! q)" if pq: "p < q" "q < length xs" "k \<le> q" for p q
  proof (cases "q = k")
    case True
    then show ?thesis using sw pq by (simp add: swept_def)
  next
    case False
    then have q: "k < q" "ys ! q = xs ! q" using sw pq by (simp_all add: swept_def)
    show ?thesis
    proof (cases "p \<le> k")
      case True
      then obtain p' where "p' \<le> k" "ys ! p = xs ! p'" using sw by (auto simp: swept_def)
      then show ?thesis using assms q pq by (auto simp: settled_def k_def)
    next
      case False
      then show ?thesis using sw assms q pq by (auto simp: settled_def swept_def k_def)
    qed
  qed
  then show "settled key (Suc m) (bubble_pass key m xs)" using sw by (auto simp: settled_def pass k_def swept_def)
qed

lemma bubble_sort_sorts:
  "sorted (map key (bubble_sort key xs))" "mset (bubble_sort key xs) = mset xs"
proof -
  have "settled key m (fold (bubble_pass key) [0..<m] xs) \<and> mset (fold (bubble_pass key) [0..<m] xs) = mset xs \<and>
      length (fold (bubble_pass key) [0..<m] xs) = length xs" if "m \<le> length xs" for m
    using that
  proof (induction m)
    case (Suc m)
    then show ?case using bubble_pass_settles [of key m "fold (bubble_pass key) [0..<m] xs"] by simp
  qed (simp add: settled_def)
  from this [of "length xs"] show "sorted (map key (bubble_sort key xs))" "mset (bubble_sort key xs) = mset xs"
    by (auto simp: bubble_sort_def settled_def sorted_iff_nth_mono_less)
qed

end
