(* ===== verification/Vault_Allocation.thy ===== *)
theory Vault_Allocation
  imports Vault_Storage Host_Collections
begin

section \<open>Caps, floors, matches and ranks\<close>

text \<open>
  The allocation modules of the vault crate: \<open>caps.rs\<close> (limits per beneficiary, the excess is
  redistributed), \<open>floors.rs\<close> (guaranteed minimum), \<open>matching.rs\<close> (matched gifts) and
  \<open>ranking.rs\<close> (distribution by priority). They keep their own storage keys, one field of
  \<open>allocation\<close> each. An ordered \<open>Map\<close> of the host is a list of pairs sorted by key (\<open>Host_Collections\<close>).
\<close>

subsection \<open>State\<close>

record MatchPair =
  mt_source :: address
  mt_matched :: address
  mt_match_bps :: nat

record RankedBeneficiary =
  rk_address :: address
  rk_priority :: nat
  rk_allocation_bps :: nat

record allocation =
  a_caps :: "(address \<times> int) list option"
  a_floors :: "(address \<times> int) list option"
  a_matches :: "(address \<times> MatchPair) list option"
  a_ranks :: "(address \<times> RankedBeneficiary) list option"
  a_events :: "event list"

type_synonym 'a allocator = "(failure, allocation, 'a) act"

text \<open>\<open>unwrap_or_else(|| Map::new(env))\<close>.\<close>

definition or_empty :: "'a list option \<Rightarrow> 'a list" where
  "or_empty m = (case m of None \<Rightarrow> [] | Some xs \<Rightarrow> xs)"

definition announce :: "string \<Rightarrow> val list \<Rightarrow> unit allocator" where
  "announce topic data = modify (\<lambda>s. s\<lparr>a_events := a_events s @ [\<lparr>ev_topic = topic, ev_keys = [], ev_data = data\<rparr>]\<rparr>)"

subsection \<open>Caps\<close>

definition set_cap :: "(address \<Rightarrow> bool) \<Rightarrow> address \<Rightarrow> address \<Rightarrow> int \<Rightarrow> unit allocator" where
  "set_cap auth caller beneficiary cap = (thenM (guard (auth caller) AuthTrap) (
                                         thenM (guard (0 < cap) (Err InvalidAmount)) (
                                         bindM (gets (\<lambda>s. or_empty (a_caps s))) (\<lambda>caps.
                                         thenM (modify (\<lambda>s. s\<lparr>a_caps := Some (map_set beneficiary cap caps)\<rparr>)) (
                                         announce ''cap_set'' [VA beneficiary, VI cap])))))"

definition cap_of :: "(address \<times> int) list \<Rightarrow> address \<Rightarrow> int" where
  "cap_of caps a = (case map_of caps a of None \<Rightarrow> I128_MAX | Some c \<Rightarrow> c)"

text \<open>One turn of the loop that caps the amounts and collects the excess.\<close>

definition cap_step ::
  "(address \<times> int) list \<Rightarrow> address \<times> int \<Rightarrow> (address \<times> int) list \<times> int \<Rightarrow> ((address \<times> int) list \<times> int) allocator" where
  "cap_step caps = (\<lambda>(addr, amount) (capped, excess).
     let actual = min amount (cap_of caps addr) in
     if actual < amount then (bindM (subi amount actual) (\<lambda>overage.
                             bindM (addi excess overage) (\<lambda>next_excess.
                             thenM (announce ''cap_enf'' [VA addr, VI amount, VI actual, VI overage]) (
                             returnM (map_set addr actual capped, next_excess))))) else returnM (map_set addr actual capped, excess))"

text \<open>
  The two loops of a round of \<open>redistribute_excess\<close>: the first counts and weighs the
  beneficiaries with room, the second gives each of them its share of the excess.
\<close>

definition weigh_step ::
  "(address \<times> int) list \<Rightarrow> address \<times> int \<Rightarrow> int \<times> int \<Rightarrow> (failure, 's, int \<times> int) act" where
  "weigh_step caps = (\<lambda>(addr, amount) (total_weight, eligible_count).
     if amount < cap_of caps addr then (bindM (addi total_weight (max amount 0)) (\<lambda>weight.
                                       bindM (addi eligible_count 1) (\<lambda>count.
                                       returnM (weight, count)))) else returnM (total_weight, eligible_count))"

definition give_step ::
  "(address \<times> int) list \<Rightarrow> int \<Rightarrow> int \<Rightarrow> address \<times> int \<Rightarrow> (address \<times> int) list \<times> int \<times> int
     \<Rightarrow> (failure, 's, (address \<times> int) list \<times> int \<times> int) act" where
  "give_step caps total_weight eligible_count = (\<lambda>(addr, amount) (capped, excess, distributed).
     if excess \<le> 0 then returnM (capped, excess, distributed)
     else if cap_of caps addr \<le> amount then returnM (capped, excess, distributed)
     else (bindM (subi (cap_of caps addr) amount) (\<lambda>room.
          (let weight = (if 0 < total_weight then max amount 0 else 1) in
          (let denominator = (if 0 < total_weight then total_weight else eligible_count) in
          bindM (muli excess weight) (\<lambda>scaled.
          bindM (divi scaled denominator) (\<lambda>part.
          (let share = min (min (max part 1) room) excess in
          bindM (addi amount share) (\<lambda>raised.
          bindM (subi excess share) (\<lambda>rest.
          bindM (addi distributed share) (\<lambda>given.
          returnM (map_set addr raised capped, rest, given))))))))))))"

text \<open>A round: nothing when no beneficiary has room, and what it distributed otherwise.\<close>

definition redistribute_round ::
  "(address \<times> int) list \<Rightarrow> (address \<times> int) list \<Rightarrow> int \<Rightarrow> (failure, 's, ((address \<times> int) list \<times> int \<times> int) option) act" where
  "redistribute_round caps capped excess = (bindM (foldM (weigh_step caps) capped (0, 0)) (\<lambda>(total_weight, eligible_count).
                                           if eligible_count = 0 then returnM None
     else (bindM (foldM (give_step caps total_weight eligible_count) capped (capped, excess, 0)) (\<lambda>r.
          returnM (Some r)))))"

text \<open>
  What a round does, from any maps: every amount grows at most to its cap, and what is given is
  taken from the excess.
\<close>

definition raised :: "(address \<times> int) list \<Rightarrow> (address \<times> int) list \<Rightarrow> (address \<times> int) list \<Rightarrow> bool" where
  "raised caps m m' \<longleftrightarrow> (\<forall>a v. map_of m a = Some v \<longrightarrow>
     (\<exists>v'. map_of m' a = Some v' \<and> v \<le> v' \<and> (v \<le> cap_of caps a \<longrightarrow> v' \<le> cap_of caps a)))"

definition round_ok ::
  "(address \<times> int) list \<Rightarrow> (address \<times> int) list \<Rightarrow> int \<Rightarrow> (address \<times> int) list \<Rightarrow> int \<Rightarrow> int \<Rightarrow> bool" where
  "round_ok caps m x m' x' d \<longleftrightarrow> ordered m' \<and> map fst m' = map fst m \<and> amounts m' + x' = amounts m + x \<and>
     x' = x - d \<and> 0 \<le> d \<and> (0 \<le> x \<longrightarrow> d \<le> x) \<and> raised caps m m'"

text \<open>No beneficiary has room.\<close>

definition full :: "(address \<times> int) list \<Rightarrow> (address \<times> int) list \<Rightarrow> bool" where
  "full caps m \<longleftrightarrow> (\<forall>(a, v) \<in> set m. cap_of caps a \<le> v)"

lemma full_simps [simp]: "full caps []" "full caps ((a, v) # m) \<longleftrightarrow> cap_of caps a \<le> v \<and> full caps m"
  by (simp_all add: full_def)

lemma raised_refl: "raised caps m m"
  by (simp add: raised_def)

lemma raised_trans: "raised caps m m' \<Longrightarrow> raised caps m' m'' \<Longrightarrow> raised caps m m''"
  unfolding raised_def by (meson order_trans)

lemma round_ok_refl: "ordered m \<Longrightarrow> round_ok caps m x m x 0"
  by (simp add: round_ok_def raised_refl)

lemma round_ok_trans:
  "round_ok caps m x m' x' d \<Longrightarrow> round_ok caps m' x' m'' x'' d' \<Longrightarrow> round_ok caps m x m'' x'' (d + d')"
  by (auto simp: round_ok_def intro: raised_trans)

lemma round_ok_give:
  assumes "ordered m" "map_of m a = Some v" "0 < x" "v < cap_of caps a" "s = min (min (max q 1) (cap_of caps a - v)) x"
  shows "round_ok caps m x (map_set a (v + s) m) (x - s) s" "0 < s"
proof -
  show s: "0 < s" using assms(3,4) unfolding assms(5) by simp
  have "s \<le> x" "s \<le> cap_of caps a - v" unfolding assms(5) by simp_all
  then show "round_ok caps m x (map_set a (v + s) m) (x - s) s"
    using s assms(1,2) map_set_update [OF assms(1,2), of "v + s"]
    by (simp add: round_ok_def raised_def map_set_ordered map_set_lookup)
qed

definition share_of :: "int \<Rightarrow> int \<Rightarrow> int \<Rightarrow> int \<Rightarrow> int" where
  "share_of tw n x v = tdiv (x * (if 0 < tw then max v 0 else 1)) (if 0 < tw then tw else n)"

lemma wp_give_step_skip:
  "x \<le> 0 \<or> cap_of caps a \<le> v \<Longrightarrow> wp (give_step caps tw n (a, v) (m, x, d)) Q s = Q (m, x, d) s"
  by (auto simp: give_step_def wp_simps)

lemma wp_give_step:
  "0 < x \<Longrightarrow> v < cap_of caps a \<Longrightarrow> g = min (min (max (share_of tw n x v) 1) (cap_of caps a - v)) x \<Longrightarrow>
     Q (map_set a (v + g) m, x - g, d + g) s \<Longrightarrow> wp (give_step caps tw n (a, v) (m, x, d)) Q s"
  by (simp add: give_step_def wp_simps Let_def share_of_def split del: if_split)

lemma give_loop:
  assumes "ordered m" "distinct (map fst xs)" "\<And>a v. (a, v) \<in> set xs \<Longrightarrow> map_of m a = Some v"
  shows "wp (foldM (give_step caps tw n) xs (m, x, d)) (\<lambda>(m', x', d') _. round_ok caps m x m' x' (d' - d) \<and>
     (0 < x \<longrightarrow> \<not> full caps xs \<longrightarrow> d < d')) s"
  using assms
proof (induction xs arbitrary: m x d)
  case Nil
  then show ?case by (simp add: wp_simps round_ok_refl)
next
  case (Cons p xs)
  obtain a v where p: "p = (a, v)" by (cases p)
  have v: "map_of m a = Some v" using Cons.prems(3) by (simp add: p)
  show ?case
  proof (cases "x \<le> 0 \<or> cap_of caps a \<le> v")
    case True
    have "wp (foldM (give_step caps tw n) xs (m, x, d)) (\<lambda>(m', x', d') _. round_ok caps m x m' x' (d' - d) \<and>
       (0 < x \<longrightarrow> \<not> full caps xs \<longrightarrow> d < d')) s"
      using Cons.prems by (intro Cons.IH) auto
    then show ?thesis using True by (auto simp: p wp_bindM wp_give_step_skip elim!: wp_mono)
  next
    case False
    define g where "g = min (min (max (share_of tw n x v) 1) (cap_of caps a - v)) x"
    have given: "round_ok caps m x (map_set a (v + g) m) (x - g) g" "0 < g"
      using round_ok_give [OF Cons.prems(1) v _ _ g_def] False by auto
    have "wp (foldM (give_step caps tw n) xs (map_set a (v + g) m, x - g, d + g))
        (\<lambda>(m', x', d') _. round_ok caps (map_set a (v + g) m) (x - g) m' x' (d' - (d + g)) \<and>
         (0 < x - g \<longrightarrow> \<not> full caps xs \<longrightarrow> d + g < d')) s"
      using Cons.prems by (intro Cons.IH) (auto simp: p map_set_ordered map_set_lookup image_iff)
    then have "wp (foldM (give_step caps tw n) xs (map_set a (v + g) m, x - g, d + g))
        (\<lambda>(m', x', d') _. round_ok caps m x m' x' (d' - d) \<and> d < d') s"
      using given by (elim wp_mono) (fastforce dest: round_ok_trans [OF given(1)] simp: round_ok_def)
    then have "wp (foldM (give_step caps tw n) xs (map_set a (v + g) m, x - g, d + g))
        (\<lambda>(m', x', d') _. round_ok caps m x m' x' (d' - d) \<and>
     (0 < x \<longrightarrow> \<not> full caps (p # xs) \<longrightarrow> d < d')) s"
      by (rule wp_mono) auto
    then show ?thesis
      unfolding p foldM.simps wp_bindM by (intro wp_give_step [OF _ _ g_def]) (use False in linarith)+
  qed
qed

lemma weigh_loop:
  "wp (foldM (weigh_step caps) xs (tw, n)) (\<lambda>(tw', n') _. n \<le> n' \<and> (n' = n \<longleftrightarrow> full caps xs)) s"
proof (induction xs arbitrary: tw n)
  case Nil
  then show ?case by (simp add: wp_simps)
next
  case (Cons p xs)
  obtain a v where p: "p = (a, v)" by (cases p)
  show ?case
    unfolding p foldM.simps wp_bindM weigh_step_def prod.case
    by (auto simp: wp_simps weigh_step_def [symmetric] not_less intro!: wp_mono [OF Cons.IH])
qed

lemma give_total:
  fixes s :: 's
  shows "wp (foldM (give_step caps tw n) xs (m, x, d)) (\<lambda>(m', x', d') _. x' + d' = x + d \<and> d \<le> d') s"
proof (rule wp_foldM)
  fix p :: "address \<times> int" and r :: "(address \<times> int) list \<times> int \<times> int" and s' :: 's
  assume inv: "(\<lambda>(m', x', d') _. x' + d' = x + d \<and> d \<le> d') r s'"
  obtain a v m' x' d' where pr: "p = (a, v)" "r = (m', x', d')" by (cases p, cases r) auto
  show "wp (give_step caps tw n p r) (\<lambda>(m', x', d') _. x' + d' = x + d \<and> d \<le> d') s'"
  proof (cases "x' \<le> 0 \<or> cap_of caps a \<le> v")
    case True
    then show ?thesis using inv by (simp add: pr wp_give_step_skip)
  next
    case False
    define g where "g = min (min (max (share_of tw n x' v) 1) (cap_of caps a - v)) x'"
    have "0 \<le> g" using False by (simp add: g_def)
    then show ?thesis
      unfolding pr using False inv by (intro wp_give_step [OF _ _ g_def]) (simp_all add: pr)
  qed
qed simp

text \<open>The loop over the rounds, and that it ends: each round lowers the excess.\<close>

definition pure_result :: "(failure, unit, 'a) act \<Rightarrow> failure + 'a" where
  "pure_result m = (case m () of Inl f \<Rightarrow> Inl f | Inr (x, _) \<Rightarrow> Inr x)"

lemma pure_resultD: "wp m (\<lambda>x _. Q x) () \<Longrightarrow> pure_result m = Inr x \<Longrightarrow> Q x"
  by (auto simp: pure_result_def wp_def split: sum.splits)

function redistribute_excess ::
  "(address \<times> int) list \<Rightarrow> (address \<times> int) list \<Rightarrow> int \<Rightarrow> failure + (address \<times> int) list \<times> int" where
  "redistribute_excess caps capped excess =
     (if excess \<le> 0 then Inr (capped, excess)
      else case pure_result (redistribute_round caps capped excess) of
        Inl f \<Rightarrow> Inl f
      | Inr None \<Rightarrow> Inr (capped, excess)
      | Inr (Some (raised_map, rest, distributed_this_round)) \<Rightarrow>
          if distributed_this_round = 0 then Inr (raised_map, rest)
          else redistribute_excess caps raised_map rest)"
  by pat_completeness auto

lemma redistribute_round_less:
  assumes "pure_result (redistribute_round caps m x) = Inr (Some (m', x', d))"
  shows "x' = x - d" "0 \<le> d"
proof -
  have "wp (redistribute_round caps m x) (\<lambda>r _. case r of None \<Rightarrow> True | Some (m', x', d) \<Rightarrow> x' = x - d \<and> 0 \<le> d) ()"
    unfolding redistribute_round_def by (auto simp: wp_simps intro!: wp_mono [OF weigh_loop] wp_mono [OF give_total])
  from pure_resultD [OF this assms] show "x' = x - d" "0 \<le> d" by simp_all
qed

termination redistribute_excess
  by (relation "measure (\<lambda>(caps, capped, excess). nat excess)") 
     (auto, frule redistribute_round_less(1), drule redistribute_round_less(2), linarith)

declare redistribute_excess.simps [simp del]

lemma round_effect:
  assumes "ordered m" "0 < x" "pure_result (redistribute_round caps m x) = Inr r"
  shows "case r of None \<Rightarrow> full caps m | Some (m', x', d) \<Rightarrow> round_ok caps m x m' x' d \<and> 0 < d"
proof -
  have snapshot: "map_of m a = Some v" if "(a, v) \<in> set m" for a v
    using that ordered_distinct [OF assms(1)] by (rule map_of_is_SomeI [rotated])
  have "wp (redistribute_round caps m x) (\<lambda>r _. case r of None \<Rightarrow> full caps m
      | Some (m', x', d) \<Rightarrow> round_ok caps m x m' x' d \<and> 0 < d) ()"
    unfolding redistribute_round_def
    by (auto simp: wp_simps assms(2)
        intro!: wp_mono [OF weigh_loop] wp_mono [OF give_loop [OF assms(1) ordered_distinct [OF assms(1)] snapshot]])
  from pure_resultD [OF this assms(3)] show ?thesis .
qed

lemma redistribute_effect:
  assumes "ordered m" "0 \<le> x" "redistribute_excess caps m x = Inr (m', x')"
  shows "round_ok caps m x m' x' (x - x') \<and> (0 < x' \<longrightarrow> full caps m')"
  using assms
proof (induction caps m x rule: redistribute_excess.induct)
  case (1 caps m x)
  show ?case
  proof (cases "x \<le> 0")
    case True
    then show ?thesis using 1(2-) round_ok_refl [of m caps 0]
      by (simp add: redistribute_excess.simps [of caps m x] redistribute_excess.simps [of caps m 0])
  next
    case False
    then obtain r where r: "pure_result (redistribute_round caps m x) = Inr r"
      using 1(4) by (auto simp: redistribute_excess.simps [of caps m x] split: sum.splits)
    note eff = round_effect [OF 1(2) _ r]
    show ?thesis
    proof (cases r)
      case None
      then show ?thesis using False 1(2,4) eff r by (auto simp: redistribute_excess.simps [of caps m x] round_ok_refl)
    next
      case (Some q)
      obtain m1 x1 d where q: "q = (m1, x1, d)" by (cases q)
      have ok: "round_ok caps m x m1 x1 d" "0 < d" using eff False Some q by auto
      have "redistribute_excess caps m1 x1 = Inr (m', x')"
        using 1(4) False r ok(2) by (simp add: redistribute_excess.simps [of caps m x] Some q)
      moreover have "ordered m1" "0 \<le> x1" using ok False by (auto simp: round_ok_def)
      ultimately have rest: "round_ok caps m1 x1 m' x' (x1 - x') \<and> (0 < x' \<longrightarrow> full caps m')"
        using False ok(2) by (intro 1(1) [OF _ r Some q [symmetric] refl]) auto
      have "d + (x1 - x') = x - x'" using ok(1) by (simp add: round_ok_def)
      then show ?thesis using rest round_ok_trans [OF ok(1), of m' x' "x1 - x'"] by metis
    qed
  qed
qed

text \<open>
  Amounts that are not negative and whose square fits in 128 bits never make the loop trap.
\<close>

definition fits :: "(address \<times> int) list \<Rightarrow> (address \<times> int) list \<Rightarrow> int \<Rightarrow> bool" where
  "fits caps m x \<longleftrightarrow> (\<forall>(a, v) \<in> set m. 0 \<le> v) \<and> 0 \<le> x \<and> (amounts m + x) * (amounts m + x) \<le> I128_MAX \<and>
     length m \<le> U32_MAX \<and> (\<forall>(a, c) \<in> set caps. c \<le> I128_MAX)"

lemma amounts_member:
  "(a, v) \<in> set m \<Longrightarrow> \<forall>(a, v) \<in> set m. 0 \<le> v \<Longrightarrow> v \<le> amounts m"
proof (induction m)
  case (Cons p m)
  have "0 \<le> amounts m" unfolding amounts_def using Cons.prems(2) by (intro sum_list_nonneg) auto
  then show ?case using Cons by (cases p) (auto simp: amounts_def)
qed simp

lemma fits_bounds:
  assumes "fits caps m x"
  shows "(a, v) \<in> set m \<Longrightarrow> 0 \<le> v \<and> v \<le> amounts m" "0 \<le> amounts m" "amounts m + x \<le> I128_MAX" "cap_of caps a \<le> I128_MAX"
proof -
  have nonneg: "\<forall>v \<in> set (map snd m). 0 \<le> v" using assms by (auto simp: fits_def)
  show "0 \<le> v \<and> v \<le> amounts m" if "(a, v) \<in> set m"
    using that assms amounts_member [of a v m] by (auto simp: fits_def)
  show sum: "0 \<le> amounts m" unfolding amounts_def using nonneg by (intro sum_list_nonneg) blast
  have "0 \<le> x" using assms by (simp add: fits_def)
  then have "amounts m + x \<le> (amounts m + x) * (amounts m + x)"
    using sum by (cases "amounts m + x = 0") (simp_all add: mult_le_cancel_left1)
  then show "amounts m + x \<le> I128_MAX" using assms by (simp add: fits_def)
  show "cap_of caps a \<le> I128_MAX"
    using assms by (auto simp: cap_of_def fits_def split: option.splits dest!: map_of_SomeD)
qed

lemma fits_round:
  assumes "fits caps m x" "ordered m" "round_ok caps m x m' x' d"
  shows "fits caps m' x'"
proof -
  have keys: "map fst m' = map fst m" "ordered m'" "raised caps m m'" using assms(3) by (auto simp: round_ok_def)
  have "0 \<le> v'" if "(a, v') \<in> set m'" for a v'
  proof -
    have "a \<in> set (map fst m)" using that keys(1) by (metis image_eqI fst_conv set_map)
    then obtain v where v: "(a, v) \<in> set m" by auto
    then have "map_of m a = Some v" "map_of m' a = Some v'"
      using that ordered_distinct assms(2) keys(2) by (auto intro: map_of_is_SomeI)
    then show ?thesis using keys(3) fits_bounds(1) [OF assms(1) v] by (fastforce simp: raised_def)
  qed
  moreover have "length m' = length m" using keys(1) by (metis length_map)
  moreover have "amounts m' + x' = amounts m + x" "0 \<le> x'"
    using assms(1,3) by (simp_all add: round_ok_def fits_def)
  ultimately show ?thesis using assms(1) unfolding fits_def by auto
qed

lemma runs_foldM:
  assumes "I a s" "\<And>x b t. x \<in> set xs \<Longrightarrow> I b t \<Longrightarrow> runs (f x b) I t"
  shows "runs (foldM f xs a) I s"
  using assms
proof (induction xs arbitrary: a s)
  case (Cons x xs)
  have "runs (f x a) I s" using Cons.prems by simp
  then have "runs (f x a) (\<lambda>b. runs (foldM f xs b) I) s" by (rule runs_mono) (use Cons in auto)
  then show ?case by (simp add: run_simps)
qed (simp add: run_simps)

lemma weigh_runs:
  assumes "\<forall>(a, v) \<in> set xs. 0 \<le> v" "0 \<le> tw" "tw + amounts xs \<le> I128_MAX" "0 \<le> n" "n + int (length xs) \<le> I128_MAX"
  shows "runs (foldM (weigh_step caps) xs (tw, n)) (\<lambda>(tw', n') t. tw \<le> tw' \<and> tw' \<le> tw + amounts xs \<and> n \<le> n' \<and> t = s) s"
  using assms
proof (induction xs arbitrary: tw n)
  case (Cons p xs)
  obtain a v where p: "p = (a, v)" by (cases p)
  have "\<forall>x \<in> set (map snd xs). 0 \<le> x" using Cons.prems(1) by (auto simp: p)
  then have v: "0 \<le> v" "0 \<le> amounts xs"
    using Cons.prems(1) unfolding amounts_def p by (auto intro!: sum_list_nonneg)
  have IH: "runs (foldM (weigh_step caps) xs (tw', n')) (\<lambda>(tw', n') t. tw \<le> tw' \<and> tw' \<le> tw + amounts (p # xs) \<and> n \<le> n' \<and> t = s) s"
    if "tw \<le> tw'" "tw' \<le> tw + v" "n \<le> n'" "n' \<le> n + 1" for tw' n'
    using Cons.prems that v by (intro runs_mono [OF Cons.IH]) (auto simp: p amounts_def)
  show ?case
    unfolding p foldM.simps runs_bindM weigh_step_def prod.case
    using Cons.prems v IH [of "tw + v" "n + 1"] IH [of tw n]
    by (auto simp: run_simps weigh_step_def [symmetric] in_i128_def amounts_def p)
qed (simp add: run_simps amounts_def)

lemma give_runs:
  assumes "fits caps m x" "0 \<le> tw" "0 < n"
  shows "runs (foldM (give_step caps tw n) m (m, x, 0)) (\<lambda>_ _. True) ()"
proof (rule runs_mono [where Q = "\<lambda>(m', x', d) _. 0 \<le> x' \<and> 0 \<le> d \<and> x' + d = x"], rule runs_foldM)
  fix p :: "address \<times> int" and r :: "(address \<times> int) list \<times> int \<times> int" and t :: unit
  assume inv: "p \<in> set m" "(\<lambda>(m', x', d) _. 0 \<le> x' \<and> 0 \<le> d \<and> x' + d = x) r t"
  obtain a v m' x' d where pr: "p = (a, v)" "r = (m', x', d)" by (cases p, cases r) auto
  have v: "0 \<le> v" "v \<le> amounts m" "amounts m + x \<le> I128_MAX" "cap_of caps a \<le> I128_MAX" "0 \<le> amounts m"
    using fits_bounds [OF assms(1)] inv(1) by (auto simp: pr)
  have x: "0 \<le> x'" "x' \<le> x" "0 \<le> d" "x' + d = x" using inv(2) by (simp_all add: pr)
  define g where "g = min (min (max (share_of tw n x' v) 1) (cap_of caps a - v)) x'"
  let ?w = "if 0 < tw then max v 0 else 1" and ?q = "if 0 < tw then tw else n"
  have prod: "0 \<le> x' * ?w" "x' * ?w \<le> I128_MAX"
  proof -
    show "0 \<le> x' * ?w" using x v by simp
    have "x' * v \<le> (amounts m + x) * (amounts m + x)" using x v by (intro mult_mono) auto
    then show "x' * ?w \<le> I128_MAX" using assms(1) x v by (auto simp: fits_def)
  qed
  moreover have "0 \<le> share_of tw n x' v" "share_of tw n x' v \<le> x' * ?w"
    unfolding share_of_def using prod assms(2,3) tdiv_share_le [OF prod(1), of 1 ?q]
    by (auto intro!: tdiv_nonneg_ge split: if_splits)
  ultimately have fine: "in_i128 (x' * ?w)" "in_i128 (share_of tw n x' v)" "?q \<noteq> 0"
    using assms(2,3) by (auto simp: in_i128_def)
  show "runs (give_step caps tw n p r) (\<lambda>(m', x', d) _. 0 \<le> x' \<and> 0 \<le> d \<and> x' + d = x) t"
  proof (cases "x' \<le> 0 \<or> cap_of caps a \<le> v")
    case True
    then show ?thesis using x by (auto simp: pr give_step_def run_simps)
  next
    case False
    have g: "0 \<le> g" "g \<le> x'" using False by (auto simp: g_def)
    have "in_i128 (cap_of caps a - v)" "in_i128 (v + g)" "in_i128 (x' - g)" "in_i128 (d + g)"
      using False v x g by (auto simp: in_i128_def)
    then show ?thesis
      using False fine g x
      by (simp add: pr give_step_def run_simps Let_def share_of_def [symmetric] g_def [symmetric] split del: if_split)
  qed
qed (use assms(1) in \<open>auto simp: fits_def\<close>)

lemma redistribute_total:
  assumes "fits caps m x" "ordered m"
  shows "\<exists>r. redistribute_excess caps m x = Inr r"
  using assms
proof (induction caps m x rule: redistribute_excess.induct)
  case (1 caps m x)
  show ?case
  proof (cases "x \<le> 0")
    case True
    then show ?thesis by (simp add: redistribute_excess.simps [of caps m x])
  next
    case False
    have "runs (redistribute_round caps m x) (\<lambda>_ _. True) ()"
    proof -
      have "runs (foldM (weigh_step caps) m (0, 0)) (\<lambda>(tw', n') t. 0 \<le> tw' \<and> tw' \<le> 0 + amounts m \<and> 0 \<le> n' \<and> t = ()) ()"
        using 1(2) fits_bounds [OF 1(2)] by (intro weigh_runs) (auto simp: fits_def)
      then show ?thesis
        unfolding redistribute_round_def runs_bindM
        by (rule runs_mono) (auto simp: run_simps intro!: runs_mono [OF give_runs [OF 1(2)]])
    qed
    then obtain r where r: "pure_result (redistribute_round caps m x) = Inr r"
      by (auto simp: pure_result_def elim!: runsE)
    show ?thesis
    proof (cases r)
      case None
      then show ?thesis using False r by (simp add: redistribute_excess.simps [of caps m x])
    next
      case (Some q)
      obtain m1 x1 d where q: "q = (m1, x1, d)" by (cases q)
      have ok: "round_ok caps m x m1 x1 d" "0 < d" using round_effect [OF 1(3) _ r] False Some q by auto
      have "\<exists>r. redistribute_excess caps m1 x1 = Inr r"
        using False ok fits_round [OF 1(2,3) ok(1)]
        by (intro 1(1) [OF _ r Some q [symmetric] refl]) (auto simp: round_ok_def)
      then show ?thesis using False r ok(2) by (simp add: redistribute_excess.simps [of caps m x] Some q)
    qed
  qed
qed

definition lift_result :: "failure + 'a \<Rightarrow> (failure, 's, 'a) act" where
  "lift_result r s = (case r of Inl f \<Rightarrow> Inl f | Inr x \<Rightarrow> Inr (x, s))"

definition apply_caps :: "(address \<times> int) list \<Rightarrow> ((address \<times> int) list \<times> int) allocator" where
  "apply_caps distributions = (bindM (gets (\<lambda>s. or_empty (a_caps s))) (\<lambda>caps.
                              bindM (foldM (cap_step caps) distributions ([], 0)) (\<lambda>(capped, excess).
                              lift_result (redistribute_excess caps capped excess))))"

subsection \<open>Floors\<close>

definition set_floor :: "(address \<Rightarrow> bool) \<Rightarrow> address \<Rightarrow> address \<Rightarrow> int \<Rightarrow> unit allocator" where
  "set_floor auth caller beneficiary floor_amount = (thenM (guard (auth caller) AuthTrap) (
                                                    thenM (guard (0 < floor_amount) (Err InvalidAmount)) (
                                                    bindM (gets (\<lambda>s. or_empty (a_floors s))) (\<lambda>floors.
                                                    thenM (modify (\<lambda>s. s\<lparr>a_floors := Some (map_set beneficiary floor_amount floors)\<rparr>)) (
                                                    announce ''floor_set'' [VA beneficiary, VI floor_amount])))))"

definition floor_of :: "(address \<times> int) list \<Rightarrow> address \<Rightarrow> int" where
  "floor_of floors a = (case map_of floors a of None \<Rightarrow> 0 | Some f \<Rightarrow> f)"

definition floor_step ::
  "(address \<times> int) list \<Rightarrow> address \<times> int \<Rightarrow> (address \<times> int) list \<times> int \<times> int
     \<Rightarrow> ((address \<times> int) list \<times> int \<times> int) allocator" where
  "floor_step floors = (\<lambda>(addr, original) (result, remaining, total_shortfall). ((let fl = floor_of floors addr in
                                                                                        (let target = max original fl in
                                                                                        (let actual = min target remaining in
                                                                                        bindM ((if 0 < fl \<and> actual < fl then subi fl actual else returnM 0)) (\<lambda>shortfall.
                                                                                        bindM (subi remaining actual) (\<lambda>rest.
                                                                                        bindM (addi total_shortfall shortfall) (\<lambda>missing.
                                                                                        thenM (whenM (0 < fl \<and> (original < fl \<or> 0 < shortfall))
       (announce ''floor_enf'' [VA addr, VI original, VI fl, VI shortfall])) (
                                                                                        returnM (map_set addr actual result, rest, missing))))))))))"

definition apply_floors :: "(address \<times> int) list \<Rightarrow> int \<Rightarrow> ((address \<times> int) list \<times> int) allocator" where
  "apply_floors distributions total_available = (bindM (gets (\<lambda>s. or_empty (a_floors s))) (\<lambda>floors.
                                                bindM (foldM (floor_step floors) distributions ([], max total_available 0, 0)) (\<lambda>(result, remaining, total_shortfall).
                                                returnM (result, total_shortfall))))"

subsection \<open>Matches\<close>

definition set_match :: "(address \<Rightarrow> bool) \<Rightarrow> address \<Rightarrow> address \<Rightarrow> address \<Rightarrow> nat \<Rightarrow> unit allocator" where
  "set_match auth caller source matched match_bps = (thenM (guard (auth caller) AuthTrap) (
                                                    thenM (guard (match_bps \<le> 10000) (Err InvalidBps)) (
                                                    bindM (gets (\<lambda>s. or_empty (a_matches s))) (\<lambda>matches.
                                                    thenM (modify (\<lambda>s. s\<lparr>a_matches := Some (map_set source
       \<lparr>mt_source = source, mt_matched = matched, mt_match_bps = match_bps\<rparr> matches)\<rparr>)) (
                                                    announce ''match_set'' [VA source, VA matched, VU match_bps])))))"

definition match_step ::
  "(address \<times> int) list \<Rightarrow> address \<times> MatchPair \<Rightarrow> (address \<times> int) list \<Rightarrow> (address \<times> int) list allocator" where
  "match_step base = (\<lambda>(source_addr, pair) matched_amounts.
     case map_of base source_addr of
       None \<Rightarrow> returnM matched_amounts
     | Some source_amount \<Rightarrow> (bindM (muli source_amount (int (mt_match_bps pair))) (\<lambda>scaled.
                                        bindM (divi scaled 10000) (\<lambda>matched_amount.
                                        if 0 < matched_amount then ((let existing = (case map_of matched_amounts (mt_matched pair) of None \<Rightarrow> 0 | Some n \<Rightarrow> n) in
                                    bindM (addi existing matched_amount) (\<lambda>n.
                                    thenM (announce ''match_dst'' [VA source_addr, VA (mt_matched pair), VI source_amount, VI matched_amount]) (
                                    returnM (map_set (mt_matched pair) n matched_amounts))))) else returnM matched_amounts))))"

definition compute_matched_amounts :: "(address \<times> int) list \<Rightarrow> (address \<times> int) list allocator" where
  "compute_matched_amounts base_distributions = (bindM (gets (\<lambda>s. or_empty (a_matches s))) (\<lambda>matches.
                                                foldM (match_step base_distributions) matches []))"

subsection \<open>Ranks\<close>

definition set_rank :: "(address \<Rightarrow> bool) \<Rightarrow> address \<Rightarrow> address \<Rightarrow> nat \<Rightarrow> unit allocator" where
  "set_rank auth caller beneficiary priority = (thenM (guard (auth caller) AuthTrap) (
                                               bindM (gets (\<lambda>s. or_empty (a_ranks s))) (\<lambda>ranks.
                                               (let allocation_bps = (case map_of ranks beneficiary of None \<Rightarrow> 10000 | Some b \<Rightarrow> rk_allocation_bps b) in
                                               thenM (modify (\<lambda>s. s\<lparr>a_ranks := Some (map_set beneficiary
       \<lparr>rk_address = beneficiary, rk_priority = priority, rk_allocation_bps = allocation_bps\<rparr> ranks)\<rparr>)) (
                                               announce ''rank_set'' [VA beneficiary, VU priority])))))"

text \<open>
  The two nested loops that sort the beneficiaries by priority.
\<close>

definition sort_by_priority :: "RankedBeneficiary list \<Rightarrow> RankedBeneficiary list" where
  "sort_by_priority = bubble_sort rk_priority"

text \<open>One beneficiary of a tier is paid; a tier; and the loop over the tiers.\<close>

definition pay_ranked ::
  "RankedBeneficiary \<Rightarrow> (address \<times> int) list \<times> int \<times> nat \<Rightarrow> ((address \<times> int) list \<times> int \<times> nat) allocator" where
  "pay_ranked b = (\<lambda>(distributions, remaining, tier_remaining_bps).
     if remaining \<le> 0 then returnM (distributions, remaining, tier_remaining_bps)
     else (bindM ((if tier_remaining_bps = 0 then returnM 0
         else (bindM (muli remaining (int (rk_allocation_bps b))) (\<lambda>scaled.
              divi scaled (int tier_remaining_bps))))) (\<lambda>part.
          (let amount = min part remaining in
          bindM (subi remaining amount) (\<lambda>rest.
          thenM (announce ''dist_rank'' [VA (rk_address b), VU (rk_priority b), VI amount]) (
          returnM (map_set (rk_address b) amount distributions, rest, tier_remaining_bps - rk_allocation_bps b)))))))"

definition tier_bps :: "RankedBeneficiary list \<Rightarrow> nat" where
  "tier_bps tier = fold (\<lambda>b total. sat_add U32_MAX total (rk_allocation_bps b)) tier 0"

function pay_tiers :: "RankedBeneficiary list \<Rightarrow> (address \<times> int) list \<Rightarrow> int \<Rightarrow> (address \<times> int) list allocator" where
  "pay_tiers [] distributions remaining = returnM distributions"
| "pay_tiers (b # bs) distributions remaining =
     (if remaining \<le> 0 then returnM distributions
      else let tier = takeWhile (\<lambda>c. rk_priority c = rk_priority b) (b # bs);
               lower = dropWhile (\<lambda>c. rk_priority c = rk_priority b) (b # bs)
           in (bindM (foldM pay_ranked tier (distributions, remaining, tier_bps tier)) (\<lambda>(paid, rest, bps).
              pay_tiers lower paid rest)))"
  by pat_completeness auto
termination
  by (relation "measure (\<lambda>(bs, _, _). length bs)") (auto simp: le_imp_less_Suc length_dropWhile_le)

definition distribute_by_rank :: "int \<Rightarrow> (address \<times> int) list allocator" where
  "distribute_by_rank total_amount = (bindM (gets (\<lambda>s. or_empty (a_ranks s))) (\<lambda>ranks.
                                     pay_tiers (sort_by_priority (map snd ranks)) [] total_amount))"

end
