(* ===== verification/Allocation_Properties.thy ===== *)
theory Allocation_Properties
  imports Vault_Allocation Transition_Systems
begin

section \<open>Properties of the allocation modules\<close>

text \<open>
  Capping conserves the money and fills every beneficiary up before it gives up; its loop always ends;
  floors spend at most what there is; ranks pay the first tier evenly and completely.
\<close>

subsection \<open>Caps\<close>

text \<open>One turn of the outer loop that is followed by another.\<close>

inductive next_round ::
  "(address \<times> int) list \<Rightarrow> (address \<times> int) list \<times> int \<Rightarrow> (address \<times> int) list \<times> int \<Rightarrow> bool"
  for caps where
  "0 < excess \<Longrightarrow> pure_result (redistribute_round caps capped excess) = Inr (Some (raised_map, rest, distributed)) \<Longrightarrow>
     distributed \<noteq> 0 \<Longrightarrow> next_round caps (capped, excess) (raised_map, rest)"

text \<open>C25. The loop of \<open>redistribute_excess\<close> cannot run for ever: no infinite sequence of
  rounds exists, whatever the caps and amounts, because every round that is followed by another
  has given something away.\<close>

theorem redistribution_ends:
  "\<nexists>f. \<forall>n. next_round caps (f n) (f (Suc n))"
proof
  assume "\<exists>f. \<forall>n. next_round caps (f n) (f (Suc n))"
  then obtain f where f: "\<And>n. next_round caps (f n) (f (Suc n))" by blast
  have "(f (Suc n), f n) \<in> measure (\<lambda>(m, x). nat x)" for n
    using f [of n] by cases (frule redistribute_round_less(1), frule redistribute_round_less(2), simp)
  then show False using wf_measure [of "\<lambda>(m, x). nat x"] unfolding wf_iff_no_infinite_down_chain by blast
qed

text \<open>What capping alone does: the capped amounts and what is cut off.\<close>

definition capped_at :: "(address \<times> int) list \<Rightarrow> (address \<times> int) list \<Rightarrow> (address \<times> int) list" where
  "capped_at caps = map (\<lambda>(a, v). (a, min v (cap_of caps a)))"

lemma map_set_last: "\<forall>k' \<in> fst ` set m. k' < k \<Longrightarrow> map_set k v m = m @ [(k, v)]"
  by (induction k v m rule: map_set.induct) auto

lemma cap_loop:
  assumes "ordered (m @ xs)" "0 \<le> x" "\<forall>(a, v) \<in> set xs. 0 \<le> v" "x + amounts xs \<le> I128_MAX" "\<forall>a. 0 < cap_of caps a"
  shows "runs (foldM (cap_step caps) xs (m, x)) (\<lambda>r t. r = (m @ capped_at caps xs, x + (amounts xs - amounts (capped_at caps xs))) \<and>
     (\<exists>es. t = s\<lparr>a_events := es\<rparr>)) s"
  using assms
proof (induction xs arbitrary: m x s)
  case Nil
  then show ?case by (auto simp: run_simps capped_at_def amounts_def intro: exI [of _ "a_events s"])
next
  case (Cons p xs)
  obtain a v where p: "p = (a, v)" by (cases p)
  let ?v = "min v (cap_of caps a)"
  have fresh: "map_set a ?v m = m @ [(a, ?v)]"
    using Cons.prems(1) by (intro map_set_last) (auto simp: p ordered_def sorted_wrt_append)
  have "\<forall>y \<in> set (map snd xs). 0 \<le> y" "0 \<le> v" using Cons.prems(3) by (auto simp: p)
  then have v: "0 \<le> v" "0 \<le> amounts xs" unfolding amounts_def by (auto intro!: sum_list_nonneg)
  have "0 < cap_of caps a" using Cons.prems(5) by blast
  then have cut: "0 \<le> v - ?v" "v - ?v \<le> v" using v by simp_all
  have total: "x + (v + amounts xs) \<le> I128_MAX" using Cons.prems(4) by (simp add: p amounts_def)
  have IH: "runs (foldM (cap_step caps) xs (m @ [(a, ?v)], x + (v - ?v)))
     (\<lambda>r t. r = (m @ capped_at caps (p # xs), x + (amounts (p # xs) - amounts (capped_at caps (p # xs)))) \<and>
       (\<exists>es. t = s\<lparr>a_events := es\<rparr>)) (s\<lparr>a_events := es\<rparr>)" for es
  proof (rule runs_mono [OF Cons.IH])
    show "ordered ((m @ [(a, ?v)]) @ xs)" using Cons.prems(1) by (simp add: p ordered_def)
    show "x + (v - ?v) + amounts xs \<le> I128_MAX" "0 \<le> x + (v - ?v)"
      using cut total Cons.prems(2) by linarith+
  qed (use Cons.prems in \<open>auto simp: p capped_at_def amounts_def\<close>)
  have "in_i128 (v - ?v)" "in_i128 (x + (v - ?v))"
    unfolding in_i128_def using cut total Cons.prems(2) v by linarith+
  then show ?case
    using IH [of "a_events s"] IH v
    unfolding p foldM.simps runs_bindM cap_step_def prod.case Let_def fresh
    by (auto simp: run_simps announce_def cap_step_def [symmetric] p)
qed

text \<open>The caps in force: positive and in range, as \<open>set_cap\<close> writes them.\<close>

definition caps_in_force :: "allocation \<Rightarrow> (address \<times> int) list" where
  "caps_in_force s = or_empty (a_caps s)"

definition caps_ok :: "allocation \<Rightarrow> bool" where
  "caps_ok s \<longleftrightarrow> (\<forall>(a, c) \<in> set (caps_in_force s). 0 < c \<and> c \<le> I128_MAX)"

lemma caps_ok_pos: "caps_ok s \<Longrightarrow> 0 < cap_of (caps_in_force s) a"
  by (auto simp: caps_ok_def cap_of_def split: option.splits dest!: map_of_SomeD)

text \<open>C24. Capping a distribution of non-negative amounts (whose total squared fits in 128 bits)
  succeeds, keeps the beneficiaries and conserves the money: the new amounts and the reported
  excess add up to the old amounts. Nobody gets more than the cap, nobody loses anything below
  it, and an excess is only reported when every beneficiary is at the cap.\<close>

theorem caps_fill_up:
  assumes "caps_ok s" "ordered d" "\<forall>(a, v) \<in> set d. 0 \<le> v" "amounts d * amounts d \<le> I128_MAX" "length d \<le> U32_MAX"
  shows "runs (apply_caps d) (\<lambda>(m, x) t. map fst m = map fst d \<and> amounts m + x = amounts d \<and> 0 \<le> x \<and>
     (\<forall>a v. map_of d a = Some v \<longrightarrow> (\<exists>v'. map_of m a = Some v' \<and> min v (cap_of (caps_in_force s) a) \<le> v' \<and>
        v' \<le> cap_of (caps_in_force s) a \<and> (0 < x \<longrightarrow> v' = cap_of (caps_in_force s) a))) \<and>
     (\<exists>es. t = s\<lparr>a_events := es\<rparr>)) s"
proof -
  let ?caps = "caps_in_force s" and ?m = "capped_at (caps_in_force s) d"
  let ?x = "amounts d - amounts ?m"
  have fit0: "fits ?caps d 0" using assms by (auto simp: fits_def caps_ok_def)
  have cap: "\<forall>a. 0 < cap_of ?caps a" using caps_ok_pos [OF assms(1)] by blast
  have loop: "runs (foldM (cap_step ?caps) d ([], 0)) (\<lambda>r t. r = (?m, ?x) \<and> (\<exists>es. t = s\<lparr>a_events := es\<rparr>)) s"
    using cap_loop [of "[]" d 0 ?caps s] assms(2,3) cap fits_bounds(3) [OF fit0] by simp
  have keys: "map fst ?m = map fst d" by (auto simp: capped_at_def)
  have ord: "ordered ?m" using assms(2) keys by (simp add: ordered_def)
  have look: "map_of ?m a = map_option (\<lambda>v. min v (cap_of ?caps a)) (map_of d a)" for a
    by (induction d) (auto simp: capped_at_def)
  have "0 \<le> ?x"
    unfolding capped_at_def by (induction d) (auto simp: amounts_def)
  then have fit: "fits ?caps ?m ?x"
    using fit0 cap assms(3) by (auto simp: fits_def capped_at_def less_imp_le)
  obtain m x where mx: "redistribute_excess ?caps ?m ?x = Inr (m, x)" using redistribute_total [OF fit ord] by auto
  have eff: "round_ok ?caps ?m ?x m x (?x - x)" "0 < x \<longrightarrow> full ?caps m"
    using redistribute_effect [OF ord \<open>0 \<le> ?x\<close> mx] by blast+
  have "\<exists>v'. map_of m a = Some v' \<and> min v (cap_of ?caps a) \<le> v' \<and> v' \<le> cap_of ?caps a \<and> (0 < x \<longrightarrow> v' = cap_of ?caps a)"
    if "map_of d a = Some v" for a v
  proof -
    have "map_of ?m a = Some (min v (cap_of ?caps a))" using that by (simp add: look)
    then obtain v' where v': "map_of m a = Some v'" "min v (cap_of ?caps a) \<le> v'" "v' \<le> cap_of ?caps a"
      using eff(1) by (fastforce simp: round_ok_def raised_def)
    then show ?thesis using eff(2) by (fastforce simp: full_def dest: map_of_SomeD)
  qed
  moreover have "map fst m = map fst d" "amounts m + x = amounts d" "0 \<le> x"
    using eff(1) keys \<open>0 \<le> ?x\<close> by (auto simp: round_ok_def)
  ultimately show ?thesis
    unfolding apply_caps_def runs_bindM runs_gets caps_in_force_def [symmetric]
    by (intro runs_mono [OF loop]) (auto simp: lift_result_def runs_def mx)
qed

definition capped_estate :: allocation where
  "capped_estate = \<lparr>a_caps = Some [(1, 500)], a_floors = None, a_matches = None, a_ranks = None, a_events = []\<rparr>"

theorem caps_fill_up_witness:
  "runs (apply_caps [(1, 900), (2, 100)]) (\<lambda>(m, x) t. map fst m = [1, 2] \<and> amounts m + x = 1000 \<and>
     (\<exists>v. map_of m 1 = Some v \<and> v = 500)) capped_estate"
proof -
  have ok: "caps_ok capped_estate" "ordered [(1 :: nat, 900 :: int), (2, 100)]" "cap_of (caps_in_force capped_estate) 1 = 500"
    by (simp_all add: caps_ok_def caps_in_force_def capped_estate_def or_empty_def ordered_def cap_of_def)
  show ?thesis
    by (rule runs_mono [OF caps_fill_up [OF ok(1,2)]]) (use ok(3) in \<open>auto simp: amounts_def dest!: spec2 [of _ 1 900]\<close>)
qed

subsection \<open>Floors\<close>

text \<open>
  The specification of the floors: in the order of the map everybody takes the greater of the
  original amount and the floor, as far as the estate lasts.
\<close>

fun served :: "(address \<times> int) list \<Rightarrow> (address \<times> int) list \<Rightarrow> int \<Rightarrow> (address \<times> int) list" where
  "served floors [] left = []"
| "served floors ((a, v) # d) left = (let x = min (max v (floor_of floors a)) left in (a, x) # served floors d (left - x))"

definition shortfall :: "(address \<times> int) list \<Rightarrow> (address \<times> int) list \<Rightarrow> int" where
  "shortfall floors m = sum_list (map (\<lambda>(a, x). max (floor_of floors a - x) 0) m)"

definition floors_in_force :: "allocation \<Rightarrow> (address \<times> int) list" where
  "floors_in_force s = or_empty (a_floors s)"

definition floors_ok :: "allocation \<Rightarrow> bool" where
  "floors_ok s \<longleftrightarrow> (\<forall>(a, f) \<in> set (floors_in_force s). 0 < f)"

lemma served_bounds:
  "0 \<le> left \<Longrightarrow> \<forall>(a, v) \<in> set d. 0 \<le> v \<Longrightarrow>
     amounts (served floors d left) \<le> left \<and> (\<forall>(a, x) \<in> set (served floors d left). 0 \<le> x) \<and>
     map fst (served floors d left) = map fst d"
proof (induction floors d left rule: served.induct)
  case (2 floors a v d left)
  define x where "x = min (max v (floor_of floors a)) left"
  have "0 \<le> x" "0 \<le> left - x" using 2(2,3) by (auto simp: x_def)
  then show ?case using 2(1) [OF x_def] 2(3) by (auto simp: amounts_def Let_def x_def [symmetric])
qed (simp add: amounts_def)

lemma floor_loop:
  assumes "ordered (m @ d)" "0 \<le> left" "left \<le> I128_MAX" "\<forall>(a, v) \<in> set d. 0 \<le> v" "\<forall>a. 0 \<le> floor_of floors a" "0 \<le> miss"
    "miss + sum_list (map (\<lambda>(a, v). floor_of floors a) d) \<le> I128_MAX"
  shows "runs (foldM (floor_step floors) d (m, left, miss)) (\<lambda>(m', left', miss') t. m' = m @ served floors d left \<and>
     left' = left - amounts (served floors d left) \<and> miss' = miss + shortfall floors (served floors d left) \<and>
     (\<exists>es. t = s\<lparr>a_events := es\<rparr>)) s"
  using assms
proof (induction d arbitrary: m left miss s)
  case Nil
  then show ?case by (auto simp: run_simps amounts_def shortfall_def intro: exI [of _ "a_events s"])
next
  case (Cons p d)
  obtain a v where p: "p = (a, v)" by (cases p)
  define x where "x = min (max v (floor_of floors a)) left"
  have fresh: "map_set a x m = m @ [(a, x)]"
    using Cons.prems(1) by (intro map_set_last) (auto simp: p ordered_def sorted_wrt_append)
  have fl: "0 \<le> floor_of floors a" "0 \<le> sum_list (map (\<lambda>(a, v). floor_of floors a) d)"
    using Cons.prems(5) by (auto intro!: sum_list_nonneg)
  have x: "0 \<le> x" "x \<le> left" using Cons.prems(2,4) by (auto simp: p x_def)
  let ?sh = "max (floor_of floors a - x) 0"
  have sh: "0 \<le> ?sh" "?sh \<le> floor_of floors a" using x fl by auto
  have total: "miss + (floor_of floors a + sum_list (map (\<lambda>(a, v). floor_of floors a) d)) \<le> I128_MAX"
    using Cons.prems(7) by (simp add: p)
  have IH: "runs (foldM (floor_step floors) d (m @ [(a, x)], left - x, miss + ?sh)) (\<lambda>(m', left', miss') t.
     m' = m @ served floors (p # d) left \<and> left' = left - amounts (served floors (p # d) left) \<and>
     miss' = miss + shortfall floors (served floors (p # d) left) \<and> (\<exists>es. t = s\<lparr>a_events := es\<rparr>)) (s\<lparr>a_events := es\<rparr>)" for es
  proof (rule runs_mono [OF Cons.IH])
    show "ordered ((m @ [(a, x)]) @ d)" using Cons.prems(1) by (simp add: p ordered_def)
    show "miss + ?sh + sum_list (map (\<lambda>(a, v). floor_of floors a) d) \<le> I128_MAX" "0 \<le> miss + ?sh" "left - x \<le> I128_MAX" "0 \<le> left - x"
      using sh total Cons.prems(3,6) x fl by linarith+
  qed (use Cons.prems in \<open>auto simp: p amounts_def shortfall_def Let_def x_def [symmetric]\<close>)
  have ranges: "in_i128 (floor_of floors a - x)" "in_i128 (left - x)" "in_i128 (miss + ?sh)"
    unfolding in_i128_def using sh total Cons.prems(3,6) x fl by linarith+
  show ?case
  proof (cases "0 < floor_of floors a \<and> x < floor_of floors a")
    case True
    then have "?sh = floor_of floors a - x" by simp
    then show ?thesis
      using True ranges IH [of "a_events s"] IH
      unfolding p foldM.simps runs_bindM floor_step_def prod.case Let_def x_def [symmetric]
      by (auto simp: run_simps announce_def floor_step_def [symmetric] fresh)
  next
    case False
    then have "?sh = 0" using x by auto
    then show ?thesis
      using False ranges IH [of "a_events s"] IH
      unfolding p foldM.simps runs_bindM floor_step_def prod.case Let_def x_def [symmetric]
      by (auto simp: run_simps announce_def floor_step_def [symmetric] fresh)
  qed
qed

lemma floors_ok_nonneg: "floors_ok s \<Longrightarrow> 0 \<le> floor_of (floors_in_force s) a"
  by (fastforce simp: floors_ok_def floor_of_def split: option.splits dest!: map_of_SomeD)

text \<open>Applying the floors to non-negative amounts succeeds (when the floors fit in 128 bits)
  and computes the specification: in the order of the map everybody gets the greater of amount
  and floor as far as the estate lasts. The estate is never overspent, nobody gets a negative
  amount, and the reported shortfall is exactly what the beneficiaries miss of their floors.\<close>

theorem floors_served:
  assumes "floors_ok s" "ordered d" "\<forall>(a, v) \<in> set d. 0 \<le> v" "n \<le> I128_MAX"
    "sum_list (map (\<lambda>(a, v). floor_of (floors_in_force s) a) d) \<le> I128_MAX"
  shows "runs (apply_floors d n) (\<lambda>(m, x) t. m = served (floors_in_force s) d (max n 0) \<and> amounts m \<le> max n 0 \<and>
     (\<forall>(a, v) \<in> set m. 0 \<le> v) \<and> map fst m = map fst d \<and> x = shortfall (floors_in_force s) m \<and>
     (\<exists>es. t = s\<lparr>a_events := es\<rparr>)) s"
proof -
  let ?f = "floors_in_force s"
  have "runs (foldM (floor_step ?f) d ([], max n 0, 0)) (\<lambda>(m', left', miss') t. m' = [] @ served ?f d (max n 0) \<and>
     left' = max n 0 - amounts (served ?f d (max n 0)) \<and> miss' = 0 + shortfall ?f (served ?f d (max n 0)) \<and>
     (\<exists>es. t = s\<lparr>a_events := es\<rparr>)) s"
    using assms floors_ok_nonneg [OF assms(1)] by (intro floor_loop) auto
  then show ?thesis
    using served_bounds [of "max n 0" d ?f] assms(3)
    unfolding apply_floors_def runs_bindM runs_gets floors_in_force_def [symmetric]
    by (elim runs_mono) (auto simp: run_simps)
qed

definition floored_estate :: allocation where
  "floored_estate = capped_estate\<lparr>a_floors := Some [(1, 500)]\<rparr>"

theorem floors_served_witness:
  "runs (apply_floors [(1, 100), (2, 50)] 200) (\<lambda>(m, x) _. m = [(1, 200), (2, 0)] \<and> x = 300) floored_estate"
  by (rule runs_mono [OF floors_served])
    (auto simp: floors_ok_def floored_estate_def floors_in_force_def or_empty_def ordered_def floor_of_def shortfall_def Let_def)

subsection \<open>Distribution by rank\<close>

lemma map_set_fresh:
  "a \<notin> fst ` set m \<Longrightarrow> amounts (map_set a x m) = amounts m + x \<and> set (map_set a x m) = insert (a, x) (set m)"
  by (induction a x m rule: map_set.induct) (auto simp: amounts_def)

text \<open>Equal parts: dividing what is left by who is left gives everybody \<open>q\<close> or \<open>q + 1\<close>.\<close>

lemma even_part:
  fixes q k r :: int
  assumes "0 < k" "q * k \<le> r" "r \<le> (q + 1) * k"
  shows "r div k = q \<or> r div k = q + 1" "q * (k - 1) \<le> r - r div k" "r - r div k \<le> (q + 1) * (k - 1)"
proof -
  have "r div k = (if r = (q + 1) * k then q + 1 else q)"
    using assms by (auto intro!: int_div_pos_eq [where r = "r - q * k"] simp: algebra_simps)
  then show "r div k = q \<or> r div k = q + 1" "q * (k - 1) \<le> r - r div k" "r - r div k \<le> (q + 1) * (k - 1)"
    using assms by (auto simp: algebra_simps split: if_splits)
qed

lemma tier_loop:
  assumes "ordered d" "\<forall>b \<in> set bs. rk_allocation_bps b = 10000" "distinct (map rk_address bs)"
    "\<forall>b \<in> set bs. rk_address b \<notin> fst ` set d" "0 \<le> r" "r * 10000 \<le> I128_MAX" "l = length bs * 10000"
    "q * int (length bs) \<le> r" "r \<le> (q + 1) * int (length bs)"
  shows "runs (foldM pay_ranked bs (d, r, l)) (\<lambda>(d', r', l') t. r' = 0 \<and> ordered d' \<and> amounts d' = amounts d + r \<and>
     (\<forall>(a, x) \<in> set d'. (a, x) \<in> set d \<or> (\<exists>b \<in> set bs. rk_address b = a) \<and> x \<in> {q, q + 1}) \<and>
     (\<exists>es. t = s\<lparr>a_events := es\<rparr>)) s"
  using assms
proof (induction bs arbitrary: d r l s)
  case Nil
  then show ?case by (auto simp: run_simps intro: exI [of _ "a_events s"])
next
  case (Cons b bs)
  define k where "k = int (length (b # bs))"
  have k: "0 < k" "int l = k * 10000" using Cons.prems(7) by (auto simp: k_def)
  show ?case
  proof (cases "r = 0")
    case True
    have zero: "runs (foldM pay_ranked bs (d, 0, l)) (\<lambda>r t. r = (d, 0, l) \<and> t = s) s" for bs
      by (induction bs) (auto simp: run_simps pay_ranked_def)
    show ?thesis
      unfolding True by (rule runs_mono [OF zero]) (use Cons.prems(1) in \<open>auto intro: exI [of _ "a_events s"]\<close>)
  next
    case False
    define x where "x = r div k"
    have bounds: "q * k \<le> r" "r \<le> (q + 1) * k" using Cons.prems(8,9) by (simp_all add: k_def)
    note even = even_part [OF k(1) bounds, folded x_def]
    have x: "0 \<le> x" "x \<le> r"
      using Cons.prems(5) k(1) zdiv_mono2 [of r 1 k] by (simp_all add: x_def pos_imp_zdiv_nonneg_iff)
    have part: "tdiv (r * 10000) (int l) = x"
      using Cons.prems(5) k by (simp add: tdiv_nonneg x_def)
    have fresh: "rk_address b \<notin> fst ` set d" using Cons.prems(4) by simp
    let ?d = "map_set (rk_address b) x d"
    have IH: "runs (foldM pay_ranked bs (?d, r - x, l - 10000)) (\<lambda>(d', r', l') t. r' = 0 \<and> ordered d' \<and> amounts d' = amounts d + r \<and>
     (\<forall>(a, y) \<in> set d'. (a, y) \<in> set d \<or> (\<exists>c \<in> set (b # bs). rk_address c = a) \<and> y \<in> {q, q + 1}) \<and>
     (\<exists>es. t = s\<lparr>a_events := es\<rparr>)) (s\<lparr>a_events := es\<rparr>)" for es
    proof (rule runs_mono [OF Cons.IH])
      show "\<forall>c \<in> set bs. rk_address c \<notin> fst ` set ?d"
        using Cons.prems(3,4) by (auto simp: map_set_keys image_iff)
      show "q * int (length bs) \<le> r - x" "r - x \<le> (q + 1) * int (length bs)" using even(2,3) by (simp_all add: k_def)
    qed (use Cons.prems x even(1) map_set_fresh [OF fresh, of x] in \<open>auto simp: map_set_ordered\<close>)
    have "in_i128 (r * 10000)" "in_i128 x" "in_i128 (r - x)" using Cons.prems(5,6) x by (auto simp: in_i128_def)
    moreover have "min x r = x" "l \<noteq> 0" "rk_allocation_bps b = 10000" using x Cons.prems(2,7) by simp_all
    ultimately show ?thesis
      using False Cons.prems(5) IH
      unfolding foldM.simps runs_bindM pay_ranked_def prod.case
      by (simp add: run_simps part Let_def announce_def pay_ranked_def [symmetric])
  qed
qed


lemma equal_tier_bps:
  assumes "\<forall>b \<in> set bs. rk_allocation_bps b = 10000" "length bs * 10000 \<le> U32_MAX"
  shows "tier_bps bs = length bs * 10000"
proof -
  have "fold (\<lambda>b total. sat_add U32_MAX total (rk_allocation_bps b)) bs n = n + length bs * 10000"
    if "n + length bs * 10000 \<le> U32_MAX" for n
    using that assms(1)
  proof (induction bs arbitrary: n)
    case (Cons b bs)
    from Cons.prems have "sat_add U32_MAX n 10000 = n + 10000" by (simp add: sat_add_def)
    then show ?case using Cons by simp
  qed simp
  from this [of 0] show ?thesis using assms(2) by (simp add: tier_bps_def)
qed

text \<open>The ranks \<open>set_rank\<close> can produce, and the beneficiaries of the first tier.\<close>

definition ranks :: "allocation \<Rightarrow> (address \<times> RankedBeneficiary) list" where
  "ranks s = or_empty (a_ranks s)"

definition ranks_ok :: "allocation \<Rightarrow> bool" where
  "ranks_ok s \<longleftrightarrow> ordered (ranks s) \<and> (\<forall>(a, b) \<in> set (ranks s). rk_address b = a \<and> rk_allocation_bps b = 10000)"

definition unranked :: "allocation \<Rightarrow> bool" where
  "unranked s \<longleftrightarrow> a_ranks s = None"

definition rank_step :: "allocation \<Rightarrow> allocation \<Rightarrow> bool" where
  "rank_step s t \<longleftrightarrow> (\<exists>auth c a p. set_rank auth c a p s = Inr ((), t))"

definition first_tier :: "allocation \<Rightarrow> RankedBeneficiary list" where
  "first_tier s = filter (\<lambda>b. \<forall>c \<in> set (map snd (ranks s)). rk_priority b \<le> rk_priority c) (map snd (ranks s))"

lemma map_set_members: "set (map_set k v m) \<subseteq> insert (k, v) (set m)"
  by (induction k v m rule: map_set.induct) auto

interpretation ranking: invariant_system unranked rank_step ranks_ok
proof
  show "ranks_ok s" if "unranked s" for s
    using that by (simp add: unranked_def ranks_ok_def ranks_def or_empty_def ordered_def)
  show "ranks_ok t" if ok: "ranks_ok s" and step: "rank_step s t" for s t
  proof -
    obtain auth c a p where t: "set_rank auth c a p s = Inr ((), t)" using step by (auto simp: rank_step_def)
    have alloc: "(case map_of (ranks s) a of None \<Rightarrow> 10000 | Some b \<Rightarrow> rk_allocation_bps b) = 10000"
      using ok by (fastforce simp: ranks_ok_def split: option.splits dest: map_of_SomeD)
    have "wp (set_rank auth c a p) (\<lambda>_ t. ranks t = map_set a \<lparr>rk_address = a, rk_priority = p, rk_allocation_bps = 10000\<rparr> (ranks s)) s"
      unfolding set_rank_def announce_def
      using alloc by (simp add: wp_simps ranks_def or_empty_def Let_def)
    from wpD [OF this t] show ?thesis
      using ok map_set_members by (fastforce simp: ranks_ok_def map_set_ordered)
  qed
qed

lemma sorted_tail:
  "sorted (map f xs) \<Longrightarrow> (\<And>x. x \<in> set xs \<Longrightarrow> v \<le> f x) \<Longrightarrow> c \<in> set (dropWhile (\<lambda>x. f x = v) xs) \<Longrightarrow> f c \<noteq> (v :: nat)"
  by (induction xs) (fastforce split: if_splits)+

lemma first_tier_leads:
  assumes "ranks_ok s" "ranks s \<noteq> []"
  obtains b bs where "sort_by_priority (map snd (ranks s)) = b # bs"
    "mset (takeWhile (\<lambda>c. rk_priority c = rk_priority b) (b # bs)) = mset (first_tier s)"
    "distinct (map rk_address (b # bs))"
proof -
  let ?xs = "sort_by_priority (map snd (ranks s))"
  have perm: "mset ?xs = mset (map snd (ranks s))" and sorted: "sorted (map rk_priority ?xs)"
    unfolding sort_by_priority_def by (rule bubble_sort_sorts)+
  have set: "set ?xs = set (map snd (ranks s))" using perm by (metis set_mset_mset)
  then obtain b bs where xs: "?xs = b # bs" using assms(2) by (cases ?xs) auto
  let ?P = "\<lambda>c. rk_priority c = rk_priority b"
  have least: "rk_priority b \<le> rk_priority c" if "c \<in> set ?xs" for c using sorted that by (auto simp: xs)
  have "takeWhile ?P ?xs = filter ?P ?xs"
    using sorted least by (intro takeWhile_eq_filter) (rule sorted_tail)
  moreover have "filter ?P ?xs = filter (\<lambda>b. \<forall>c \<in> set (map snd (ranks s)). rk_priority b \<le> rk_priority c) ?xs"
    using least unfolding set [symmetric] by (intro filter_cong) (auto simp: xs intro: antisym)
  ultimately have first: "mset (takeWhile ?P ?xs) = mset (first_tier s)"
    using perm by (simp add: first_tier_def mset_filter)
  have "map rk_address (map snd (ranks s)) = map fst (ranks s)" using assms(1) by (auto simp: ranks_ok_def)
  moreover have "distinct (map fst (ranks s))" using assms(1) by (intro ordered_distinct) (simp add: ranks_ok_def)
  ultimately have "distinct (map rk_address (map snd (ranks s)))" by metis
  then have "distinct (map rk_address ?xs)" using perm by (metis mset_eq_imp_distinct_iff mset_map)
  then show thesis by (intro that [OF xs first [unfolded xs]]) (simp add: xs)
qed

text \<open>C23. Whatever ranks have been set, distributing a positive amount (that fits) succeeds
  and pays out exactly all of it, only to beneficiaries of the first tier (no one has a smaller
  priority number), and evenly: each payment is the amount divided by the size of the tier,
  rounded down or up.\<close>

theorem ranks_pay_first_tier:
  assumes "reachable unranked rank_step s" "ranks s \<noteq> []" "0 < n" "n * 10000 \<le> I128_MAX" "length (ranks s) * 10000 \<le> U32_MAX"
  shows "runs (distribute_by_rank n) (\<lambda>d t. amounts d = n \<and>
     (\<forall>(a, x) \<in> set d. (\<exists>b \<in> set (first_tier s). rk_address b = a) \<and>
        x \<in> {n div int (length (first_tier s)), n div int (length (first_tier s)) + 1}) \<and>
     (\<exists>es. t = s\<lparr>a_events := es\<rparr>)) s"
proof -
  have ok: "ranks_ok s" by (rule ranking.inv_reachable [OF assms(1)])
  obtain b bs where xs: "sort_by_priority (map snd (ranks s)) = b # bs"
    and first: "mset (takeWhile (\<lambda>c. rk_priority c = rk_priority b) (b # bs)) = mset (first_tier s)"
    and addresses: "distinct (map rk_address (b # bs))"
    by (rule first_tier_leads [OF ok assms(2)])
  let ?P = "\<lambda>c. rk_priority c = rk_priority b"
  define tier where "tier = takeWhile ?P (b # bs)"
  have apart: "distinct (map rk_address tier)"
    using addresses unfolding tier_def distinct_map by (auto intro: inj_on_subset dest: set_takeWhileD)
  have same: "set tier = set (first_tier s)" "length tier = length (first_tier s)"
    using first unfolding tier_def by (metis set_mset_mset, metis size_mset)
  have alloc: "\<forall>c \<in> set tier. rk_allocation_bps c = 10000"
    using ok same(1) by (auto simp: first_tier_def ranks_ok_def)
  have "length (first_tier s) \<le> length (ranks s)"
    unfolding first_tier_def by (rule order_trans [OF length_filter_le]) simp
  then have small: "length tier * 10000 \<le> U32_MAX" using assms(5) same(2) by linarith
  have k: "0 < int (length tier)" by (simp add: tier_def)
  let ?q = "n div int (length tier)"
  have "n mod int (length tier) < int (length tier)" "0 \<le> n mod int (length tier)" using k by simp_all
  then have q: "?q * int (length tier) \<le> n" "n \<le> (?q + 1) * int (length tier)"
    unfolding distrib_right using div_mult_mod_eq [of n "int (length tier)"] by linarith+
  have loop: "runs (foldM pay_ranked tier ([], n, tier_bps tier)) (\<lambda>(d', r', l') t. r' = 0 \<and> amounts d' = n \<and>
     (\<forall>(a, x) \<in> set d'. (\<exists>b \<in> set tier. rk_address b = a) \<and> x \<in> {?q, ?q + 1}) \<and>
     (\<exists>es. t = s\<lparr>a_events := es\<rparr>)) s"
    by (rule runs_mono [OF tier_loop [OF _ alloc apart, where d = "[]" and q = ?q]])
      (use assms(3,4) q in \<open>simp_all add: ordered_def amounts_def equal_tier_bps [OF alloc small] split: prod.splits\<close>)
  have stop: "pay_tiers lower d' 0 = returnM d'" for lower d' by (cases lower) simp_all
  have tiers: "pay_tiers (b # bs) [] n = bindM (foldM pay_ranked tier ([], n, tier_bps tier)) (\<lambda>(paid, rest, bps).
      pay_tiers (dropWhile ?P (b # bs)) paid rest)"
    using assms(3) by (simp add: tier_def Let_def)
  show ?thesis
    unfolding distribute_by_rank_def runs_bindM runs_gets ranks_def [symmetric] xs tiers same(2) [symmetric]
    by (rule runs_mono [OF loop]) (auto simp: run_simps stop amounts_def same(1))
qed

definition ranked_estate :: allocation where
  "ranked_estate = after (set_rank (\<lambda>_. True) 9 2 1) (after (set_rank (\<lambda>_. True) 9 1 1) (capped_estate))"

lemma ranked_estate_eq: "ranks ranked_estate = [(1, \<lparr>rk_address = 1, rk_priority = 1, rk_allocation_bps = 10000\<rparr>),
    (2, \<lparr>rk_address = 2, rk_priority = 1, rk_allocation_bps = 10000\<rparr>)]"
  by (simp add: ranked_estate_def set_rank_def announce_def capped_estate_def after_def exec ranks_def or_empty_def)

lemma ranked_estate_reachable: "reachable unranked rank_step ranked_estate"
proof -
  have step: "rank_step s (after (set_rank (\<lambda>_. True) c a p) s)" for c a p s
    by (auto simp: rank_step_def set_rank_def after_def exec announce_def Let_def intro!: exI [of _ "\<lambda>_. True"])
  have "reachable unranked rank_step capped_estate"
    by (rule reachable_start) (simp add: unranked_def capped_estate_def)
  then show ?thesis unfolding ranked_estate_def using step by (blast intro: reachable_step)
qed

theorem ranks_pay_first_tier_witness:
  "runs (distribute_by_rank 1001) (\<lambda>d _. amounts d = 1001 \<and> (\<forall>(a, x) \<in> set d. x \<in> {500, 501})) ranked_estate"
  by (rule runs_mono [OF ranks_pay_first_tier [OF ranked_estate_reachable]])
    (auto simp: ranked_estate_eq first_tier_def)

end
