(* ===== verification/Module_Store.thy ===== *)
theory Module_Store
  imports Vault_Storage Host_Collections
begin

section \<open>Storage of the independent modules\<close>

text \<open>
  The credential, template, rule and slice modules of the vault crate are functions of the host
  environment that keep their own storage keys. Their state extends \<open>module_store\<close>, which holds what
  all of them produce: the published events and the keys whose rent was extended (always by
  \<open>VAULT_TTL_THRESHOLD\<close> and \<open>VAULT_TTL_LEDGERS\<close>). An operation that reads the clock takes the ledger
  time as its argument \<open>now\<close>.
\<close>

record 'k module_store =
  ms_events :: "event list"
  ms_rent :: "'k list"

type_synonym ('k, 'm, 'a) module_op = "(failure, ('k, 'm) module_store_scheme, 'a) act"

definition emit :: "string \<Rightarrow> val list \<Rightarrow> val list \<Rightarrow> ('k, 'm, unit) module_op" where
  "emit topic keys data = modify (\<lambda>s. s\<lparr>ms_events := ms_events s @ [\<lparr>ev_topic = topic, ev_keys = keys, ev_data = data\<rparr>]\<rparr>)"

definition extend_rent :: "'k \<Rightarrow> ('k, 'm, unit) module_op" where
  "extend_rent k = modify (\<lambda>s. s\<lparr>ms_rent := ms_rent s @ [k]\<rparr>)"

text \<open>Neither touches the module's own storage.\<close>

lemma emit_simps [wp_simps, run_simps]:
  "wp (emit topic keys data) Q s = Q () (s\<lparr>ms_events := ms_events s @ [\<lparr>ev_topic = topic, ev_keys = keys, ev_data = data\<rparr>]\<rparr>)"
  "runs (emit topic keys data) Q s = Q () (s\<lparr>ms_events := ms_events s @ [\<lparr>ev_topic = topic, ev_keys = keys, ev_data = data\<rparr>]\<rparr>)"
  by (simp_all add: emit_def wp_simps run_simps)

lemma extend_rent_simps [wp_simps, run_simps]:
  "wp (extend_rent k) Q s = Q () (s\<lparr>ms_rent := ms_rent s @ [k]\<rparr>)"
  "runs (extend_rent k) Q s = Q () (s\<lparr>ms_rent := ms_rent s @ [k]\<rparr>)"
  by (simp_all add: extend_rent_def wp_simps run_simps)

lemma module_exec [exec]:
  "bindM (emit topic keys data) f s = f () (s\<lparr>ms_events := ms_events s @ [\<lparr>ev_topic = topic, ev_keys = keys, ev_data = data\<rparr>]\<rparr>)"
  "bindM (extend_rent k) f s = f () (s\<lparr>ms_rent := ms_rent s @ [k]\<rparr>)"
  by (simp_all add: emit_def extend_rent_def exec)

text \<open>\<open>get(&key).unwrap_or(d)\<close>.\<close>

abbreviation get_or :: "'a option \<Rightarrow> 'a \<Rightarrow> 'a" where
  "get_or x d \<equiv> (case x of None \<Rightarrow> d | Some v \<Rightarrow> v)"

text \<open>
  The entry points of the contract wrap a module: they test the caller against the vault storage and
  then call the module. Their state is the pair of both storages.
\<close>

definition on_vault :: "(failure, 'w, 'a) act \<Rightarrow> (failure, 'w \<times> 'm, 'a) act" where
  "on_vault m = (\<lambda>(w, s). case m w of Inl f \<Rightarrow> Inl f | Inr (x, w') \<Rightarrow> Inr (x, w', s))"

definition on_module :: "(failure, 'm, 'a) act \<Rightarrow> (failure, 'w \<times> 'm, 'a) act" where
  "on_module m = (\<lambda>(w, s). case m s of Inl f \<Rightarrow> Inl f | Inr (x, s') \<Rightarrow> Inr (x, w, s'))"

lemma on_vault_simps [wp_simps, run_simps]:
  "wp (on_vault m) Q p = wp m (\<lambda>x w. Q x (w, snd p)) (fst p)"
  "runs (on_vault m) Q p = runs m (\<lambda>x w. Q x (w, snd p)) (fst p)"
  by (auto simp: on_vault_def wp_def runs_def split: prod.splits sum.splits)

lemma on_module_simps [wp_simps, run_simps]:
  "wp (on_module m) Q p = wp m (\<lambda>x s. Q x (fst p, s)) (snd p)"
  "runs (on_module m) Q p = runs m (\<lambda>x s. Q x (fst p, s)) (snd p)"
  by (auto simp: on_module_def wp_def runs_def split: prod.splits sum.splits)

text \<open>The test of several wrappers: the caller authorised the call and owns the vault.\<close>

definition vault_owner_only :: "'tok env \<Rightarrow> nat \<Rightarrow> address \<Rightarrow> ('tok, unit) handler" where
  "vault_owner_only e vault_id caller = (thenM (require_auth e caller) (
                                        bindM (load_vault vault_id) (\<lambda>vault.
                                        guard (caller = v_owner vault) (Err NotOwner))))"

end
