(* ===== verification/Credentials.thy ===== *)
theory Credentials
  imports Module_Store
begin

section \<open>Credentials: lifecycle and anchors\<close>

text \<open>
  The modules \<open>credential_lifecycle.rs\<close> (the state machine of a credential) and
  \<open>credential_anchoring.rs\<close> (the registry of external identities), with the entry points of
  \<open>lib.rs\<close> around them. The entry point of a module function \<open>f\<close> is called \<open>f_entry\<close>.
\<close>

datatype CredentialState = Draft | Active | Suspended | Revoked | Expired | Archived

record CredentialAnchor =
  ca_credential_id :: nat
  ca_external_id :: bytes
  ca_system :: bytes
  ca_created_at :: nat

datatype credential_key = CK_CredentialState nat | CK_StateTransitionTime nat
  | AK_CredentialAnchors nat | AK_ReverseAnchor bytes | AK_AnchorCount

record credentials = "credential_key module_store" +
  c_state :: "nat \<rightharpoonup> CredentialState"
  c_transition_time :: "nat \<rightharpoonup> nat"
  c_anchors :: "nat \<rightharpoonup> CredentialAnchor list"
  c_reverse :: "bytes \<rightharpoonup> nat"
  c_anchor_count :: "nat option"

type_synonym 'a credential_op = "(failure, credentials, 'a) act"
type_synonym ('tok, 'a) credential_entry = "(failure, 'tok world \<times> credentials, 'a) act"

subsection \<open>Lifecycle\<close>

fun state_code :: "CredentialState \<Rightarrow> nat" where
  "state_code Draft = 0"
| "state_code Active = 1"
| "state_code Suspended = 2"
| "state_code Revoked = 3"
| "state_code Expired = 4"
| "state_code Archived = 5"

fun is_valid_transition :: "CredentialState \<Rightarrow> CredentialState \<Rightarrow> bool" where
  "is_valid_transition Draft target \<longleftrightarrow> target \<in> {Active, Suspended, Revoked}"
| "is_valid_transition Active target \<longleftrightarrow> target \<in> {Suspended, Revoked, Expired, Archived}"
| "is_valid_transition Suspended target \<longleftrightarrow> target \<in> {Active, Revoked, Expired, Archived}"
| "is_valid_transition Expired target \<longleftrightarrow> target \<in> {Archived, Revoked}"
| "is_valid_transition Revoked target \<longleftrightarrow> False"
| "is_valid_transition Archived target \<longleftrightarrow> False"

definition is_terminal_state :: "CredentialState \<Rightarrow> bool" where
  "is_terminal_state state \<longleftrightarrow> state = Revoked \<or> state = Archived"

definition is_active_state :: "CredentialState \<Rightarrow> bool" where
  "is_active_state state \<longleftrightarrow> state = Active"

text \<open>Writing the state of a credential with its time, and extending the rent of both entries.\<close>

definition put_state :: "nat \<Rightarrow> nat \<Rightarrow> CredentialState \<Rightarrow> unit credential_op" where
  "put_state now credential_id state = (thenM (modify (\<lambda>s. s\<lparr>c_state := (c_state s)(credential_id \<mapsto> state)\<rparr>)) (
                                       thenM (extend_rent (CK_CredentialState credential_id)) (
                                       thenM (modify (\<lambda>s. s\<lparr>c_transition_time := (c_transition_time s)(credential_id \<mapsto> now)\<rparr>)) (
                                       extend_rent (CK_StateTransitionTime credential_id)))))"

definition init_credential_state :: "nat \<Rightarrow> nat \<Rightarrow> unit credential_op" where
  "init_credential_state now credential_id = (bindM (gets (\<lambda>s. c_state s credential_id)) (\<lambda>existing.
                                             whenM (existing = None) (put_state now credential_id Draft)))"

definition get_credential_state :: "credentials \<Rightarrow> nat \<Rightarrow> CredentialState" where
  "get_credential_state s credential_id = get_or (c_state s credential_id) Draft"

definition transition_credential_state :: "nat \<Rightarrow> nat \<Rightarrow> CredentialState \<Rightarrow> bool credential_op" where
  "transition_credential_state now credential_id new_state = (bindM (gets (\<lambda>s. get_credential_state s credential_id)) (\<lambda>current.
                                                             (let valid = (\<not> is_terminal_state current \<and> is_valid_transition current new_state) in
                                                             if \<not> valid then (thenM (emit ''cred_inv'' [VU credential_id]
         [VU credential_id, VU (state_code current), VU (state_code new_state), VU now]) (
                          returnM False)) else (thenM (put_state now credential_id new_state) (
            thenM (emit ''cred_st'' [VU credential_id]
         [VU credential_id, VU (state_code current), VU (state_code new_state), VU now]) (
            returnM True))))))"

definition get_state_transition_time :: "credentials \<Rightarrow> nat \<Rightarrow> nat" where
  "get_state_transition_time s credential_id = get_or (c_transition_time s credential_id) 0"

subsection \<open>Anchors\<close>

definition MAX_SYSTEM_LEN :: nat where "MAX_SYSTEM_LEN = 64"

definition MAX_EXTERNAL_ID_LEN :: nat where "MAX_EXTERNAL_ID_LEN = 256"

definition composite_key :: "bytes \<Rightarrow> bytes \<Rightarrow> bytes" where
  "composite_key external_id system = external_id @ system"

definition get_credential_anchors :: "credentials \<Rightarrow> nat \<Rightarrow> CredentialAnchor list" where
  "get_credential_anchors s credential_id = get_or (c_anchors s credential_id) []"

definition get_anchor_count :: "credentials \<Rightarrow> nat" where
  "get_anchor_count s = get_or (c_anchor_count s) 0"

definition create_credential_anchor :: "nat \<Rightarrow> nat \<Rightarrow> bytes \<Rightarrow> bytes \<Rightarrow> bool credential_op" where
  "create_credential_anchor now credential_id external_id system =
     (if external_id = [] \<or> system = [] then returnM False
      else if MAX_SYSTEM_LEN < length system \<or> MAX_EXTERNAL_ID_LEN < length external_id then returnM False
      else ((let rev_key = composite_key external_id system in
           bindM (gets (\<lambda>s. c_reverse s rev_key)) (\<lambda>known.
           if known \<noteq> None then returnM False
        else ((let anchor = \<lparr>ca_credential_id = credential_id, ca_external_id = external_id, ca_system = system,
            ca_created_at = now\<rparr> in
             thenM (modify (\<lambda>s. s\<lparr>c_reverse := (c_reverse s)(rev_key \<mapsto> credential_id)\<rparr>)) (
             thenM (extend_rent (AK_ReverseAnchor rev_key)) (
             bindM (gets (\<lambda>s. get_credential_anchors s credential_id)) (\<lambda>anchors.
             thenM (modify (\<lambda>s. s\<lparr>c_anchors := (c_anchors s)(credential_id \<mapsto> anchors @ [anchor])\<rparr>)) (
             thenM (extend_rent (AK_CredentialAnchors credential_id)) (
             bindM (gets get_anchor_count) (\<lambda>count.
             thenM (modify (\<lambda>s. s\<lparr>c_anchor_count := Some (sat_add U64_MAX count 1)\<rparr>)) (
             thenM (extend_rent AK_AnchorCount) (
             thenM (emit ''anc_crt'' [VU credential_id] [VU credential_id, VB external_id, VB system]) (
             returnM True)))))))))))))))"

definition remove_credential_anchor :: "nat \<Rightarrow> bytes \<Rightarrow> bytes \<Rightarrow> bool credential_op" where
  "remove_credential_anchor credential_id external_id system = ((let rev_key = composite_key external_id system in
                                                               bindM (gets (\<lambda>s. c_reverse s rev_key)) (\<lambda>known.
                                                               if known = None then returnM False
     else (thenM (modify (\<lambda>s. s\<lparr>c_reverse := (c_reverse s)(rev_key := None)\<rparr>)) (
          bindM (gets (\<lambda>s. c_anchors s credential_id)) (\<lambda>anchors.
          thenM ((case anchors of
          None \<Rightarrow> returnM ()
        | Some as \<Rightarrow> (thenM (modify (\<lambda>s. s\<lparr>c_anchors := (c_anchors s)(credential_id \<mapsto>
              filter (\<lambda>a. ca_external_id a \<noteq> external_id \<or> ca_system a \<noteq> system) as)\<rparr>)) (
                                extend_rent (AK_CredentialAnchors credential_id))))) (
          thenM (emit ''anc_rem'' [VU credential_id] [VU credential_id, VB external_id, VB system]) (
          returnM True))))))))"

definition verify_external_anchor :: "credentials \<Rightarrow> bytes \<Rightarrow> bytes \<Rightarrow> nat option" where
  "verify_external_anchor s external_id system =
     (case c_reverse s (composite_key external_id system) of
        None \<Rightarrow> None
      | Some credential_id \<Rightarrow>
          if is_active_state (get_credential_state s credential_id) then Some credential_id else None)"

definition anchor_exists :: "credentials \<Rightarrow> bytes \<Rightarrow> bytes \<Rightarrow> bool" where
  "anchor_exists s external_id system \<longleftrightarrow> verify_external_anchor s external_id system \<noteq> None"

subsection \<open>Entry points\<close>

definition create_credential_anchor_entry ::
  "'tok env \<Rightarrow> address \<Rightarrow> nat \<Rightarrow> bytes \<Rightarrow> bytes \<Rightarrow> ('tok, unit) credential_entry" where
  "create_credential_anchor_entry e caller credential_id external_id system = (thenM (on_vault (require_auth e caller)) (
                                                                              thenM (guard (external_id \<noteq> [] \<and> length external_id \<le> MAX_EXTERNAL_ID_LEN) (Err InvalidExternalId)) (
                                                                              thenM (guard (system \<noteq> [] \<and> length system \<le> MAX_SYSTEM_LEN) (Err InvalidAnchorSystem)) (
                                                                              bindM (on_module (create_credential_anchor (ledger_timestamp e) credential_id external_id system)) (\<lambda>ok.
                                                                              guard ok (Err AnchorAlreadyExists))))))"

definition remove_credential_anchor_entry ::
  "'tok env \<Rightarrow> address \<Rightarrow> nat \<Rightarrow> bytes \<Rightarrow> bytes \<Rightarrow> ('tok, unit) credential_entry" where
  "remove_credential_anchor_entry e caller credential_id external_id system = (thenM (on_vault (require_auth e caller)) (
                                                                              bindM (on_module (remove_credential_anchor credential_id external_id system)) (\<lambda>ok.
                                                                              guard ok (Err AnchorNotFound))))"

definition init_credential :: "'tok env \<Rightarrow> nat \<Rightarrow> ('tok, unit) credential_entry" where
  "init_credential e credential_id = (thenM (on_vault assert_not_paused) (
                                     thenM (on_module (init_credential_state (ledger_timestamp e) credential_id)) (
                                     on_vault extend_instance_ttl)))"

text \<open>The five entry points that move a credential differ only in the target state.\<close>

definition move_credential :: "CredentialState \<Rightarrow> 'tok env \<Rightarrow> address \<Rightarrow> nat \<Rightarrow> ('tok, unit) credential_entry" where
  "move_credential target e caller credential_id = (thenM (on_vault assert_not_paused) (
                                                   thenM (on_vault (require_auth e caller)) (
                                                   thenM (on_vault (require_admin e)) (
                                                   bindM (on_module (transition_credential_state (ledger_timestamp e) credential_id target)) (\<lambda>success.
                                                   thenM (guard success (Err InvalidStateTransition)) (
                                                   on_vault extend_instance_ttl))))))"

definition activate_credential :: "'tok env \<Rightarrow> address \<Rightarrow> nat \<Rightarrow> ('tok, unit) credential_entry" where
  "activate_credential = move_credential Active"

definition suspend_credential :: "'tok env \<Rightarrow> address \<Rightarrow> nat \<Rightarrow> ('tok, unit) credential_entry" where
  "suspend_credential = move_credential Suspended"

definition revoke_credential :: "'tok env \<Rightarrow> address \<Rightarrow> nat \<Rightarrow> ('tok, unit) credential_entry" where
  "revoke_credential = move_credential Revoked"

definition archive_credential :: "'tok env \<Rightarrow> address \<Rightarrow> nat \<Rightarrow> ('tok, unit) credential_entry" where
  "archive_credential = move_credential Archived"

definition expire_credential :: "'tok env \<Rightarrow> address \<Rightarrow> nat \<Rightarrow> ('tok, unit) credential_entry" where
  "expire_credential = move_credential Expired"

lemmas credential_defs = init_credential_state_def put_state_def transition_credential_state_def
  create_credential_anchor_def remove_credential_anchor_def get_credential_state_def
  get_credential_anchors_def get_anchor_count_def

lemmas credential_entry_defs = create_credential_anchor_entry_def remove_credential_anchor_entry_def
  init_credential_def move_credential_def activate_credential_def suspend_credential_def
  revoke_credential_def archive_credential_def expire_credential_def

end
