(* ===== verification/Credential_Properties.thy ===== *)
theory Credential_Properties
  imports Credentials Vault_Scenario
begin

section \<open>Properties of the credentials\<close>

text \<open>
  The entry points of the credential modules as a transition system, interleaved with anything the
  other entry points do to the vault storage: what a credential can become, what the registry of
  anchors guarantees, and where the two meet in \<open>verify_external_anchor\<close>.
\<close>

inductive credential_call :: "'tok env \<Rightarrow> ('tok, unit) credential_entry \<Rightarrow> bool" for e where
  "credential_call e (init_credential e c)"
| "credential_call e (activate_credential e caller c)"
| "credential_call e (suspend_credential e caller c)"
| "credential_call e (revoke_credential e caller c)"
| "credential_call e (archive_credential e caller c)"
| "credential_call e (expire_credential e caller c)"
| "credential_call e (create_credential_anchor_entry e caller c x y)"
| "credential_call e (remove_credential_anchor_entry e caller c x y)"

inductive credential_step :: "'tok world \<times> credentials \<Rightarrow> 'tok world \<times> credentials \<Rightarrow> bool" where
  credential_step_call: "credential_call e m \<Longrightarrow> m p = Inr ((), q) \<Longrightarrow> credential_step p q"
| credential_step_vault: "credential_step (w, s) (w', s)"

definition no_credentials :: "'tok world \<times> credentials \<Rightarrow> bool" where
  "no_credentials p \<longleftrightarrow> c_state (snd p) = Map.empty \<and> c_transition_time (snd p) = Map.empty \<and>
     c_anchors (snd p) = Map.empty \<and> c_reverse (snd p) = Map.empty \<and> c_anchor_count (snd p) = None"

subsection \<open>Invariant and evolution\<close>

definition times_ok :: "credentials \<Rightarrow> bool" where
  "times_ok s \<longleftrightarrow> dom (c_transition_time s) = dom (c_state s)"

definition backed :: "credentials \<Rightarrow> bool" where
  "backed s \<longleftrightarrow> (\<forall>k c. c_reverse s k = Some c \<longrightarrow>
     (\<exists>a \<in> set (get_credential_anchors s c). composite_key (ca_external_id a) (ca_system a) = k))"

definition anchors_ok :: "credentials \<Rightarrow> bool" where
  "anchors_ok s \<longleftrightarrow> (\<forall>c. \<forall>a \<in> set (get_credential_anchors s c). ca_credential_id a = c \<and>
     ca_external_id a \<noteq> [] \<and> length (ca_external_id a) \<le> MAX_EXTERNAL_ID_LEN \<and>
     ca_system a \<noteq> [] \<and> length (ca_system a) \<le> MAX_SYSTEM_LEN)"

definition registry_ok :: "'tok world \<times> credentials \<Rightarrow> bool" where
  "registry_ok p \<longleftrightarrow> times_ok (snd p) \<and> backed (snd p) \<and> anchors_ok (snd p)"

text \<open>What a credential in a state can have become later.\<close>

fun can_become :: "CredentialState \<Rightarrow> CredentialState \<Rightarrow> bool" where
  "can_become Draft y \<longleftrightarrow> True"
| "can_become Active y \<longleftrightarrow> y \<noteq> Draft"
| "can_become Suspended y \<longleftrightarrow> y \<noteq> Draft"
| "can_become Expired y \<longleftrightarrow> y \<in> {Expired, Revoked, Archived}"
| "can_become Revoked y \<longleftrightarrow> y = Revoked"
| "can_become Archived y \<longleftrightarrow> y = Archived"

lemma can_become_refl: "can_become x x"
  by (cases x) simp_all

lemma can_become_trans: "can_become x y \<Longrightarrow> can_become y z \<Longrightarrow> can_become x z"
  by (cases x; cases y) auto

lemma can_become_valid: "is_valid_transition x y \<Longrightarrow> can_become x y"
  by (cases x) auto

definition credential_evolves :: "'tok world \<times> credentials \<Rightarrow> 'tok world \<times> credentials \<Rightarrow> bool" where
  "credential_evolves p q \<longleftrightarrow>
     (\<forall>c. can_become (get_credential_state (snd p) c) (get_credential_state (snd q) c))"

lemma move_credential_effect:
  "wp (move_credential target e caller c) (\<lambda>_ q. is_valid_transition (get_credential_state (snd p) c) target \<and>
     c_state (snd q) = (c_state (snd p))(c \<mapsto> target) \<and>
     c_transition_time (snd q) = (c_transition_time (snd p))(c \<mapsto> ledger_timestamp e) \<and>
     c_anchors (snd q) = c_anchors (snd p) \<and> c_reverse (snd q) = c_reverse (snd p)) p"
  unfolding move_credential_def by (auto simp: wp_simps credential_defs extend_instance_ttl_def split: option.splits)

lemma init_credential_effect:
  "wp (init_credential e c) (\<lambda>_ q. get_credential_state (snd q) = get_credential_state (snd p) \<and>
     (times_ok (snd p) \<longrightarrow> times_ok (snd q)) \<and>
     c_anchors (snd q) = c_anchors (snd p) \<and> c_reverse (snd q) = c_reverse (snd p)) p"
  unfolding init_credential_def
  by (auto simp: wp_simps credential_defs times_ok_def fun_eq_iff split: option.splits)

lemma create_anchor_effect:
  "wp (create_credential_anchor_entry e caller c x y) (\<lambda>_ q. c_state (snd q) = c_state (snd p) \<and>
     c_transition_time (snd q) = c_transition_time (snd p) \<and>
     x \<noteq> [] \<and> length x \<le> MAX_EXTERNAL_ID_LEN \<and> y \<noteq> [] \<and> length y \<le> MAX_SYSTEM_LEN \<and>
     c_reverse (snd p) (composite_key x y) = None \<and>
     c_reverse (snd q) = (c_reverse (snd p))(composite_key x y \<mapsto> c) \<and>
     get_credential_anchors (snd q) = (get_credential_anchors (snd p))(c := get_credential_anchors (snd p) c @
       [\<lparr>ca_credential_id = c, ca_external_id = x, ca_system = y, ca_created_at = ledger_timestamp e\<rparr>])) p"
  unfolding create_credential_anchor_entry_def
  by (auto simp: wp_simps create_credential_anchor_def get_credential_anchors_def fun_eq_iff split: option.splits)

lemma remove_anchor_effect:
  "wp (remove_credential_anchor_entry e caller c x y) (\<lambda>_ q. c_state (snd q) = c_state (snd p) \<and>
     c_transition_time (snd q) = c_transition_time (snd p) \<and> c_reverse (snd p) (composite_key x y) \<noteq> None \<and>
     c_reverse (snd q) = (c_reverse (snd p))(composite_key x y := None) \<and>
     get_credential_anchors (snd q) = (get_credential_anchors (snd p))(c :=
       filter (\<lambda>a. ca_external_id a \<noteq> x \<or> ca_system a \<noteq> y) (get_credential_anchors (snd p) c))) p"
  unfolding remove_credential_anchor_entry_def
  by (auto simp: wp_simps remove_credential_anchor_def get_credential_anchors_def fun_eq_iff split: option.splits)

text \<open>Each entry point keeps the registry and respects the evolution.\<close>

definition credential_safe :: "('tok, unit) credential_entry \<Rightarrow> bool" where
  "credential_safe m \<longleftrightarrow> (\<forall>p. registry_ok p \<longrightarrow> wp m (\<lambda>_ q. registry_ok q \<and> credential_evolves p q) p)"

lemma credential_safeI:
  "(\<And>p. registry_ok p \<Longrightarrow> wp m (\<lambda>_ q. registry_ok q \<and> credential_evolves p q) p) \<Longrightarrow> credential_safe m"
  by (simp add: credential_safe_def)

lemma move_credential_safe: "credential_safe (move_credential target e caller c)"
  by (rule credential_safeI, rule wp_mono [OF move_credential_effect])
    (auto simp: registry_ok_def times_ok_def backed_def anchors_ok_def credential_evolves_def get_credential_anchors_def get_credential_state_def intro: can_become_valid can_become_refl)

lemma init_credential_safe: "credential_safe (init_credential e c)"
  by (rule credential_safeI, rule wp_mono [OF init_credential_effect])
    (auto simp: registry_ok_def backed_def anchors_ok_def credential_evolves_def get_credential_anchors_def intro: can_become_refl)

lemma create_anchor_safe: "credential_safe (create_credential_anchor_entry e caller c x y)"
  by (rule credential_safeI, rule wp_mono [OF create_anchor_effect])
    (auto simp: registry_ok_def times_ok_def backed_def anchors_ok_def credential_evolves_def get_credential_state_def intro: can_become_refl)

lemma remove_anchor_safe: "credential_safe (remove_credential_anchor_entry e caller c x y)"
  by (rule credential_safeI, rule wp_mono [OF remove_anchor_effect])
    (fastforce simp: registry_ok_def times_ok_def backed_def anchors_ok_def credential_evolves_def get_credential_state_def intro: can_become_refl)

lemma credential_call_safe: "credential_call e m \<Longrightarrow> credential_safe m"
  by (induction rule: credential_call.induct)
    (simp_all add: move_credential_safe init_credential_safe create_anchor_safe remove_anchor_safe activate_credential_def
      suspend_credential_def revoke_credential_def archive_credential_def expire_credential_def)

lemma credential_step_safe:
  assumes "registry_ok p" "credential_step p q"
  shows "registry_ok q \<and> credential_evolves p q"
  using assms(2)
proof cases
  case (credential_step_call e m)
  have "wp m (\<lambda>_ q. registry_ok q \<and> credential_evolves p q) p"
    using credential_call_safe [OF credential_step_call(1)] assms(1) unfolding credential_safe_def by blast
  from wpD [OF this credential_step_call(2)] show ?thesis .
next
  case (credential_step_vault w s w')
  then show ?thesis using assms(1) by (simp add: registry_ok_def credential_evolves_def can_become_refl)
qed

interpretation lifecycle: monotone_system no_credentials credential_step registry_ok credential_evolves
proof
  show "registry_ok p" if "no_credentials p" for p :: "'tok world \<times> credentials"
    using that by (simp add: no_credentials_def registry_ok_def times_ok_def backed_def anchors_ok_def get_credential_anchors_def)
  show "registry_ok q" "credential_evolves p q" if "registry_ok p" "credential_step p q" for p q :: "'tok world \<times> credentials"
    using credential_step_safe [OF that] by simp_all
  show "credential_evolves p p" for p :: "'tok world \<times> credentials"
    by (simp add: credential_evolves_def can_become_refl)
  show "credential_evolves p r" if "credential_evolves p q" "credential_evolves q r" for p q r :: "'tok world \<times> credentials"
    using that can_become_trans unfolding credential_evolves_def by blast
qed

subsection \<open>Properties\<close>

text \<open>C26. Through every history of entry points a revoked or archived credential keeps
  its state and is never again reported for an external identity, no credential returns to
  draft once it left it, and an expired one can only be archived or revoked.\<close>

theorem credential_forward:
  assumes "reachable no_credentials credential_step p" "credential_step\<^sup>*\<^sup>* p q"
  shows "let before = get_credential_state (snd p) c; later = get_credential_state (snd q) c in
     (is_terminal_state before \<longrightarrow> later = before \<and> (\<forall>x y. verify_external_anchor (snd q) x y \<noteq> Some c)) \<and>
     (before \<noteq> Draft \<longrightarrow> later \<noteq> Draft) \<and> (before = Expired \<longrightarrow> later \<in> {Expired, Revoked, Archived})"
proof -
  have "can_become (get_credential_state (snd p) c) (get_credential_state (snd q) c)"
    using lifecycle.evolves_steps [OF assms(2) lifecycle.inv_reachable [OF assms(1)]]
    by (simp add: credential_evolves_def)
  then show ?thesis
    by (cases "get_credential_state (snd p) c")
      (auto simp: is_terminal_state_def verify_external_anchor_def is_active_state_def Let_def split: option.splits)
qed

text \<open>A history: credential 7 is activated, anchored and revoked.\<close>

definition unregistered :: "ledger world \<times> credentials" where
  "unregistered = (initialized, \<lparr>ms_events = [], ms_rent = [], c_state = Map.empty, c_transition_time = Map.empty,
     c_anchors = Map.empty, c_reverse = Map.empty, c_anchor_count = None\<rparr>)"

definition activated :: "ledger world \<times> credentials" where
  "activated = after (activate_credential (host 60) ADMIN 7) unregistered"

definition anchored :: "ledger world \<times> credentials" where
  "anchored = after (create_credential_anchor_entry (host 70) OWNER 7 [1, 2] [3]) activated"

definition revoked :: "ledger world \<times> credentials" where
  "revoked = after (revoke_credential (host 80) ADMIN 7) anchored"

lemma credential_call_runs:
  "credential_call e m \<Longrightarrow> runs m Q p \<Longrightarrow> credential_step p (after m p) \<and> Q () (after m p)"
  by (auto simp: runs_def after_def split: sum.splits intro: credential_step_call)

lemmas credential_run_simps = run_simps credential_defs credential_entry_defs is_terminal_state_def MAX_EXTERNAL_ID_LEN_def
  MAX_SYSTEM_LEN_def composite_key_def address_defs assert_not_paused_def load_paused_def require_admin_def load_admin_def
  extend_instance_ttl_def

lemma activated_run: "credential_step unregistered activated \<and> inst (fst activated) = inst initialized \<and>
    c_state (snd activated) = [7 \<mapsto> Active] \<and> c_reverse (snd activated) = Map.empty \<and> c_anchors (snd activated) = Map.empty"
  unfolding activated_def
  by (rule credential_call_runs [OF credential_call.intros(2)])
    (simp add: credential_run_simps unregistered_def fun_eq_iff)

lemma anchored_run: "credential_step activated anchored \<and> inst (fst anchored) = inst initialized \<and>
    c_state (snd anchored) = [7 \<mapsto> Active] \<and> c_reverse (snd anchored) = [[1, 2, 3] \<mapsto> 7]"
  unfolding anchored_def
  by (rule credential_call_runs [OF credential_call.intros(7)])
    (simp add: credential_run_simps activated_run fun_eq_iff)

lemma revoked_run: "credential_step anchored revoked \<and> c_state (snd revoked) = [7 \<mapsto> Revoked]"
  unfolding revoked_def
  by (rule credential_call_runs [OF credential_call.intros(4)])
    (simp add: credential_run_simps anchored_run fun_eq_iff)

lemma anchored_reachable: "reachable no_credentials credential_step anchored"
proof -
  have "reachable no_credentials credential_step unregistered"
    by (rule reachable_start) (simp add: no_credentials_def unregistered_def)
  then show ?thesis using activated_run anchored_run by (blast intro: reachable_step)
qed

theorem credential_forward_witness:
  "reachable no_credentials credential_step revoked \<and> verify_external_anchor (snd revoked) [1, 2] [3] \<noteq> Some 7"
proof -
  have "reachable no_credentials credential_step revoked"
    using anchored_reachable revoked_run by (blast intro: reachable_step)
  with credential_forward [OF this, of revoked 7] show ?thesis
    by (simp add: revoked_run get_credential_state_def is_terminal_state_def)
qed

text \<open>C27. In every reachable state a successful lookup of an external identity returns a
  credential that is active and whose list contains an anchor with the composite key that was
  looked up, made for that credential within the length limits; every credential with a state has
  the time of its last transition.\<close>

theorem anchors_backed:
  assumes "reachable no_credentials credential_step p" "verify_external_anchor (snd p) x y = Some c"
  shows "get_credential_state (snd p) c = Active \<and> c_transition_time (snd p) c \<noteq> None \<and>
    (\<exists>a \<in> set (get_credential_anchors (snd p) c). ca_credential_id a = c \<and>
      composite_key (ca_external_id a) (ca_system a) = composite_key x y \<and>
      0 < length (ca_external_id a) \<and> length (ca_external_id a) \<le> 256 \<and>
      0 < length (ca_system a) \<and> length (ca_system a) \<le> 64)"
proof -
  have ok: "registry_ok p" by (rule lifecycle.inv_reachable [OF assms(1)])
  have found: "c_reverse (snd p) (composite_key x y) = Some c" "get_credential_state (snd p) c = Active"
    using assms(2) by (auto simp: verify_external_anchor_def is_active_state_def split: option.splits if_splits)
  have "c_state (snd p) c \<noteq> None" using found(2) by (auto simp: get_credential_state_def split: option.splits)
  then have "c_transition_time (snd p) c \<noteq> None" using ok by (auto simp: registry_ok_def times_ok_def)
  moreover obtain a where "a \<in> set (get_credential_anchors (snd p) c)"
    "composite_key (ca_external_id a) (ca_system a) = composite_key x y"
    using ok found(1) unfolding registry_ok_def backed_def by blast
  ultimately show ?thesis
    using ok found(2) by (auto simp: registry_ok_def anchors_ok_def MAX_EXTERNAL_ID_LEN_def MAX_SYSTEM_LEN_def)
qed

theorem anchors_backed_witness:
  "verify_external_anchor (snd anchored) [1, 2] [3] = Some 7 \<and>
   (\<exists>a \<in> set (get_credential_anchors (snd anchored) 7). ca_external_id a @ ca_system a = [1, 2, 3])"
proof -
  have "verify_external_anchor (snd anchored) [1, 2] [3] = Some 7"
    by (simp add: verify_external_anchor_def composite_key_def anchored_run get_credential_state_def is_active_state_def)
  with anchors_backed [OF anchored_reachable this] show ?thesis by (auto simp: composite_key_def)
qed

text \<open>Anchoring a fresh external identity, by any caller who signs, makes exactly this
  identity known: it is reported if and only if the credential is active. Removing the anchor
  again, by any caller, restores the registry: states, reverse index and lists of anchors are as before.\<close>

theorem anchor_roundtrip:
  assumes "authorized e caller" "authorized e' caller'" "x \<noteq> []" "length x \<le> 256" "y \<noteq> []" "length y \<le> 64"
    "c_reverse (snd p) (x @ y) = None"
    "\<forall>a \<in> set (get_credential_anchors (snd p) c). ca_external_id a \<noteq> x \<or> ca_system a \<noteq> y"
  shows "runs (create_credential_anchor_entry e caller c x y) (\<lambda>_ q.
     verify_external_anchor (snd q) x y = (if get_credential_state (snd p) c = Active then Some c else None) \<and>
     runs (remove_credential_anchor_entry e' caller' c x y) (\<lambda>_ r. c_state (snd r) = c_state (snd p) \<and>
       c_reverse (snd r) = c_reverse (snd p) \<and> get_credential_anchors (snd r) = get_credential_anchors (snd p)) q) p"
  using assms
  by (auto simp: credential_run_simps verify_external_anchor_def is_active_state_def fun_eq_iff filter_id_conv split: option.splits)

theorem anchor_roundtrip_witness:
  "runs (create_credential_anchor_entry (host 70) OWNER 7 [1, 2] [3]) (\<lambda>_ q.
     verify_external_anchor (snd q) [1, 2] [3] = Some 7 \<and>
     runs (remove_credential_anchor_entry (host 75) HEIR 7 [1, 2] [3]) (\<lambda>_ r. c_reverse (snd r) = Map.empty) q) activated"
  by (rule runs_mono [OF anchor_roundtrip [where e' = "host 75" and caller' = HEIR]])
    (auto simp: activated_run get_credential_anchors_def get_credential_state_def address_defs elim!: runs_mono)

text \<open>
  The composite key does not separate its parts: the identity \<open>12\<close> of system \<open>3\<close> answers for the
  identity \<open>1\<close> of system \<open>23\<close>, which can then not be anchored itself.
\<close>

lemma anchor_collision:
  "verify_external_anchor (snd anchored) [1] [2, 3] = Some 7"
  "\<not> commits (create_credential_anchor_entry e caller c [1] [2, 3]) anchored"
proof -
  show "verify_external_anchor (snd anchored) [1] [2, 3] = Some 7"
    by (simp add: verify_external_anchor_def composite_key_def anchored_run get_credential_state_def is_active_state_def)
  have "wp (create_credential_anchor_entry e caller c [1] [2, 3]) (\<lambda>_ _. False) anchored"
    by (rule wp_mono [OF create_anchor_effect]) (simp add: composite_key_def anchored_run)
  then show "\<not> commits (create_credential_anchor_entry e caller c [1] [2, 3]) anchored"
    by (auto simp: wp_def commits_def split: sum.splits)
qed

text \<open>Naming another credential in a removal deletes the lookup but leaves the anchor in the list of its credential.\<close>

lemma stale_anchor:
  "runs (remove_credential_anchor_entry (host 80) HEIR 8 [1, 2] [3]) (\<lambda>_ q.
     verify_external_anchor (snd q) [1, 2] [3] = None \<and>
     get_credential_anchors (snd q) 7 = get_credential_anchors (snd anchored) 7) anchored"
  by (auto simp: credential_run_simps anchored_run verify_external_anchor_def split: option.splits)

end
