(* ===== verification/Composition_Rules.thy ===== *)
theory Composition_Rules
  imports Module_Store "HOL-Library.Sublist"
begin

section \<open>Composition rules of slices\<close>

text \<open>
  The rules engine \<open>composition_rules.rs\<close> with its entry points in \<open>lib.rs\<close>: rules with a priority
  and a payload, the rules of a slice, and the validation of slice data against them.
\<close>

record CompositionRule =
  cr_rule_id :: nat
  cr_rule_bytes :: bytes
  cr_priority :: nat
  cr_tag :: nat
  cr_enabled :: bool
  cr_updated_at :: nat

record RuleOutcome =
  ro_rule_id :: nat
  ro_priority :: nat
  ro_passed :: bool

record ValidationResult =
  vr_slice_id :: nat
  vr_overall_valid :: bool
  vr_outcomes :: "RuleOutcome list"
  vr_conflicts :: "nat list"
  vr_validated_at :: nat

datatype RulesEngineKey = RK_Rule nat | RK_RuleCount | RK_SliceRules nat

record rules_engine = "RulesEngineKey module_store" +
  r_rules :: "nat \<rightharpoonup> CompositionRule"
  r_count :: "nat option"
  r_slice_rules :: "nat \<rightharpoonup> nat list"

type_synonym 'a rules_op = "(failure, rules_engine, 'a) act"
type_synonym ('tok, 'a) rules_entry = "(failure, 'tok world \<times> rules_engine, 'a) act"

subsection \<open>Rules\<close>

definition register_composition_rule :: "nat \<Rightarrow> bytes \<Rightarrow> nat \<Rightarrow> nat \<Rightarrow> nat rules_op" where
  "register_composition_rule now rule_bytes priority tag = (bindM (gets (\<lambda>s. get_or (r_count s) 0)) (\<lambda>rule_id.
                                                           thenM (modify (\<lambda>s. s\<lparr>r_rules := (r_rules s)(rule_id \<mapsto> \<lparr>cr_rule_id = rule_id, cr_rule_bytes = rule_bytes,
       cr_priority = priority, cr_tag = tag, cr_enabled = True, cr_updated_at = now\<rparr>)\<rparr>)) (
                                                           thenM (extend_rent (RK_Rule rule_id)) (
                                                           (let next_id = sat_add U64_MAX rule_id 1 in
                                                           thenM (modify (\<lambda>s. s\<lparr>r_count := Some next_id\<rparr>)) (
                                                           thenM (extend_rent RK_RuleCount) (
                                                           thenM (emit ''rl_reg'' [] [VU rule_id, VU priority, VU tag]) (
                                                           returnM rule_id))))))))"

definition set_rule_enabled :: "nat \<Rightarrow> nat \<Rightarrow> bool \<Rightarrow> unit rules_op" where
  "set_rule_enabled now rule_id enabled = (bindM (gets (\<lambda>s. r_rules s rule_id)) (\<lambda>found.
                                          bindM (ok_or found (Err RuleNotFound)) (\<lambda>rule.
                                          thenM (modify (\<lambda>s. s\<lparr>r_rules := (r_rules s)(rule_id \<mapsto> rule\<lparr>cr_enabled := enabled, cr_updated_at := now\<rparr>)\<rparr>)) (
                                          thenM (extend_rent (RK_Rule rule_id)) (
                                          emit ''rl_upd'' [VU rule_id] [VU rule_id, VFlag enabled])))))"

definition set_slice_rules :: "nat \<Rightarrow> nat list \<Rightarrow> unit rules_op" where
  "set_slice_rules slice_id rule_ids = (thenM (modify (\<lambda>s. s\<lparr>r_slice_rules := (r_slice_rules s)(slice_id \<mapsto> rule_ids)\<rparr>)) (
                                       extend_rent (RK_SliceRules slice_id)))"

definition get_slice_rules :: "rules_engine \<Rightarrow> nat \<Rightarrow> nat list" where
  "get_slice_rules s slice_id = get_or (r_slice_rules s slice_id) []"

definition get_rule :: "rules_engine \<Rightarrow> nat \<Rightarrow> CompositionRule option" where
  "get_rule s rule_id = r_rules s rule_id"

subsection \<open>Validation\<close>

text \<open>The byte loop of \<open>evaluate_rule\<close> runs over \<open>0..rlen\<close> and returns at the first difference.\<close>

definition evaluate_rule :: "bytes \<Rightarrow> bytes \<Rightarrow> bool" where
  "evaluate_rule slice_data rule_bytes =
     (if length rule_bytes = 0 then True
      else if length slice_data < length rule_bytes then False
      else list_all (\<lambda>i. slice_data ! i = rule_bytes ! i) [0..<length rule_bytes])"

definition rule_priority :: "rules_engine \<Rightarrow> nat \<Rightarrow> nat" where
  "rule_priority s rule_id = (case get_rule s rule_id of None \<Rightarrow> U32_MAX | Some r \<Rightarrow> cr_priority r)"

definition evaluate_step ::
  "rules_engine \<Rightarrow> bytes \<Rightarrow> nat \<Rightarrow> RuleOutcome list \<times> bool \<Rightarrow> RuleOutcome list \<times> bool" where
  "evaluate_step s slice_data rule_id = (\<lambda>(outcomes, overall_valid).
     case get_rule s rule_id of
       None \<Rightarrow> (outcomes, overall_valid)
     | Some rule \<Rightarrow>
         if \<not> cr_enabled rule then (outcomes, overall_valid)
         else let passed = evaluate_rule slice_data (cr_rule_bytes rule)
              in (outcomes @ [\<lparr>ro_rule_id = rule_id, ro_priority = cr_priority rule, ro_passed = passed\<rparr>],
                  if \<not> passed then False else overall_valid))"

definition conflict_step ::
  "RuleOutcome list \<Rightarrow> nat \<Rightarrow> nat \<Rightarrow> nat list \<times> bool \<Rightarrow> nat list \<times> bool" where
  "conflict_step outcomes i j = (\<lambda>(conflicts, overall_valid).
     let oi = outcomes ! i; oj = outcomes ! j in
     if ro_priority oi = ro_priority oj \<and> ro_passed oi \<noteq> ro_passed oj
     then (conflicts @ [ro_rule_id oi, ro_rule_id oj], False) else (conflicts, overall_valid))"

definition detect_conflicts :: "RuleOutcome list \<Rightarrow> bool \<Rightarrow> nat list \<times> bool" where
  "detect_conflicts outcomes overall_valid =
     fold (\<lambda>i. fold (conflict_step outcomes i) [i + 1..<length outcomes]) [0..<length outcomes] ([], overall_valid)"

definition validate_slice_with_rules :: "nat \<Rightarrow> nat \<Rightarrow> bytes \<Rightarrow> ValidationResult rules_op" where
  "validate_slice_with_rules now slice_id slice_data = (bindM (gets (\<lambda>s. s)) (\<lambda>s.
                                                       (let sorted_ids = bubble_sort (rule_priority s) (get_slice_rules s slice_id) in
                                                       (let (outcomes, passed) = fold (evaluate_step s slice_data) sorted_ids ([], True) in
                                                       (let (conflicts, overall_valid) = detect_conflicts outcomes passed in
                                                       thenM (emit ''sl_val'' [VU slice_id]
       [VU slice_id, VFlag overall_valid, VU (length outcomes), VU (length conflicts div 2)]) (
                                                       returnM \<lparr>vr_slice_id = slice_id, vr_overall_valid = overall_valid, vr_outcomes = outcomes,
       vr_conflicts = conflicts, vr_validated_at = now\<rparr>))))))"

subsection \<open>Entry points\<close>

definition admin_only :: "'tok env \<Rightarrow> address \<Rightarrow> ('tok, unit) handler" where
  "admin_only e caller = (thenM (require_auth e caller) (
                         bindM (load_admin) (\<lambda>admin.
                         guard (caller = admin) (Err NotAdmin))))"

definition register_composition_rule_entry ::
  "'tok env \<Rightarrow> address \<Rightarrow> bytes \<Rightarrow> nat \<Rightarrow> nat \<Rightarrow> ('tok, nat) rules_entry" where
  "register_composition_rule_entry e caller rule_bytes priority tag = (thenM (on_vault (admin_only e caller)) (
                                                                      on_module (register_composition_rule (ledger_timestamp e) rule_bytes priority tag)))"

definition set_rule_enabled_entry :: "'tok env \<Rightarrow> address \<Rightarrow> nat \<Rightarrow> bool \<Rightarrow> ('tok, unit) rules_entry" where
  "set_rule_enabled_entry e caller rule_id enabled = (thenM (on_vault (admin_only e caller)) (
                                                     bindM (on_module (gets (\<lambda>s. get_rule s rule_id))) (\<lambda>found.
                                                     thenM (guard (found \<noteq> None) (Err RuleNotFound)) (
                                                     on_module (set_rule_enabled (ledger_timestamp e) rule_id enabled)))))"

definition set_slice_rules_entry ::
  "'tok env \<Rightarrow> nat \<Rightarrow> address \<Rightarrow> nat \<Rightarrow> nat list \<Rightarrow> ('tok, unit) rules_entry" where
  "set_slice_rules_entry e vault_id caller slice_id rule_ids = (thenM (on_vault (vault_owner_only e vault_id caller)) (
                                                               on_module (set_slice_rules slice_id rule_ids)))"

definition validate_slice_with_rules_entry ::
  "'tok env \<Rightarrow> nat \<Rightarrow> bytes \<Rightarrow> ('tok, ValidationResult) rules_entry" where
  "validate_slice_with_rules_entry e slice_id slice_data =
     on_module (validate_slice_with_rules (ledger_timestamp e) slice_id slice_data)"

subsection \<open>What the loops compute\<close>

lemma evaluate_rule_prefix: "evaluate_rule d r \<longleftrightarrow> prefix r d"
proof (cases "length r \<le> length d")
  case True
  then have "list_all (\<lambda>i. d ! i = r ! i) [0..<length r] \<longleftrightarrow> take (length r) d = r"
    unfolding list_all_iff by (subst list_eq_iff_nth_eq) auto
  moreover have "take (length r) d = r \<longleftrightarrow> prefix r d"
    by (metis take_is_prefix append_eq_conv_conj prefix_def)
  ultimately show ?thesis using True by (auto simp: evaluate_rule_def)
qed (auto simp: evaluate_rule_def dest: prefix_length_le)

text \<open>The outcome of an enabled rule, and the conflicts among a list of outcomes.\<close>

definition outcome_of :: "rules_engine \<Rightarrow> bytes \<Rightarrow> nat \<Rightarrow> RuleOutcome list" where
  "outcome_of s d i = (case get_rule s i of None \<Rightarrow> []
     | Some r \<Rightarrow> if cr_enabled r then [\<lparr>ro_rule_id = i, ro_priority = cr_priority r, ro_passed = prefix (cr_rule_bytes r) d\<rparr>] else [])"

definition clash :: "RuleOutcome \<Rightarrow> RuleOutcome \<Rightarrow> nat list" where
  "clash p q = (if ro_priority p = ro_priority q \<and> ro_passed p \<noteq> ro_passed q then [ro_rule_id p, ro_rule_id q] else [])"

fun clashes :: "RuleOutcome list \<Rightarrow> nat list" where
  "clashes [] = []"
| "clashes (p # ps) = concat (map (clash p) ps) @ clashes ps"

lemma evaluate_loop:
  "fold (evaluate_step s d) ids (os, b) = (os @ concat (map (outcome_of s d) ids),
     b \<and> (\<forall>p \<in> set (concat (map (outcome_of s d) ids)). ro_passed p))"
proof (induction ids arbitrary: os b)
  case (Cons i ids)
  show ?case
    using Cons.IH by (auto simp: evaluate_step_def outcome_of_def evaluate_rule_prefix Let_def split: option.splits)
qed simp

lemma conflict_row:
  "fold (conflict_step os i) js (cs, b) = (cs @ concat (map (\<lambda>j. clash (os ! i) (os ! j)) js),
     b \<and> concat (map (\<lambda>j. clash (os ! i) (os ! j)) js) = [])"
  by (induction js arbitrary: cs b) (auto simp: conflict_step_def clash_def Let_def)

lemma conflict_rows:
  "fold (\<lambda>i. fold (conflict_step os i) [i + 1..<length os]) rows (cs, b) =
     (cs @ concat (map (\<lambda>i. concat (map (\<lambda>j. clash (os ! i) (os ! j)) [i + 1..<length os])) rows),
      b \<and> concat (map (\<lambda>i. concat (map (\<lambda>j. clash (os ! i) (os ! j)) [i + 1..<length os])) rows) = [])"
  by (induction rows arbitrary: cs b) (auto simp: conflict_row)

lemma clashes_by_index:
  "concat (map (\<lambda>i. concat (map (\<lambda>j. clash (os ! i) (os ! j)) [i + 1..<length os])) [0..<length os]) = clashes os"
proof (induction os)
  case (Cons p os)
  have shift: "map (\<lambda>j. f ((p # os) ! j)) [Suc a..<Suc n] = map (\<lambda>j. f (os ! j)) [a..<n]" for f :: "RuleOutcome \<Rightarrow> nat list" and a n
    by (simp add: map_Suc_upt [symmetric] del: upt_Suc)
  have "map (\<lambda>j. clash p (os ! j)) [0..<length os] = map (clash p) os"
    by (intro nth_equalityI) simp_all
  moreover have "[0..<Suc (length os)] = 0 # map Suc [0..<length os]"
    by (simp add: map_Suc_upt upt_conv_Cons del: upt_Suc)
  ultimately show ?case
    using Cons.IH by (simp add: o_def shift [of "clash p"] shift [of "clash (os ! x)" for x] del: upt_Suc)
qed simp

lemma detect_conflicts_eq: "detect_conflicts os b = (clashes os, b \<and> clashes os = [])"
  unfolding detect_conflicts_def by (simp only: conflict_rows clashes_by_index append_Nil)

lemma clashes_empty_iff: "clashes os = [] \<longleftrightarrow> (\<forall>i < length os. \<forall>j < i. clash (os ! j) (os ! i) = [])"
proof (induction os)
  case (Cons p os)
  have "(\<forall>i < length (p # os). \<forall>j < i. clash ((p # os) ! j) ((p # os) ! i) = []) \<longleftrightarrow>
      (\<forall>i < length os. clash p (os ! i) = []) \<and> (\<forall>i < length os. \<forall>j < i. clash (os ! j) (os ! i) = [])"
    by (auto simp: All_less_Suc2)
  then show ?case using Cons.IH by (simp add: all_set_conv_all_nth)
qed simp

end
