(* ===== verification/Rules_Properties.thy ===== *)
theory Rules_Properties
  imports Composition_Rules
begin

section \<open>Properties of the rules engine\<close>

text \<open>What validating a slice reports, against the declarative reading of the module's documentation.\<close>

definition enabled_ids :: "rules_engine \<Rightarrow> nat \<Rightarrow> nat list" where
  "enabled_ids s i = filter (\<lambda>r. \<exists>rule. get_rule s r = Some rule \<and> cr_enabled rule) (get_slice_rules s i)"

lemma outcomes_ids: "map ro_rule_id (concat (map (outcome_of s d) ids)) =
    filter (\<lambda>r. \<exists>rule. get_rule s r = Some rule \<and> cr_enabled rule) ids"
  by (induction ids) (auto simp: outcome_of_def split: option.splits)

lemma outcomes_sorted:
  "sorted (map (rule_priority s) ids) \<Longrightarrow> sorted (map ro_priority (concat (map (outcome_of s d) ids)))"
proof (induction ids)
  case (Cons i ids)
  have "ro_priority p = rule_priority s j" if "p \<in> set (outcome_of s d j)" for p j
    using that by (auto simp: outcome_of_def rule_priority_def split: option.splits if_splits)
  then show ?case
    using Cons by (auto simp: sorted_append outcome_of_def split: option.splits)
qed simp

lemma outcomes_passed:
  "(\<forall>p \<in> set (concat (map (outcome_of s d) ids)). ro_passed p) \<longleftrightarrow>
    (\<forall>i \<in> set ids. \<forall>rule. get_rule s i = Some rule \<longrightarrow> cr_enabled rule \<longrightarrow> prefix (cr_rule_bytes rule) d)"
  by (auto simp: outcome_of_def split: option.splits)

lemma passed_no_clash: "(\<forall>p \<in> set os. ro_passed p) \<Longrightarrow> clashes os = []"
  by (auto simp: clashes_empty_iff clash_def)

lemma outcome_ofD:
  "p \<in> set (outcome_of s d j) \<Longrightarrow> \<exists>rule. get_rule s (ro_rule_id p) = Some rule \<and> ro_priority p = cr_priority rule \<and>
     ro_passed p = prefix (cr_rule_bytes rule) d"
  by (cases "get_rule s j") (auto simp: outcome_of_def split: if_splits)

text \<open>C28. Validating a slice always succeeds and reports one outcome for each enabled rule of
  the slice, in ascending order of priority; a rule passes exactly if its bytes are a prefix of
  the data. The slice is valid exactly if every enabled rule passes. The conflicts are the pairs
  of outcomes of one priority that differ, in order, so they can only occur in an invalid slice.
  Nothing is stored.\<close>

theorem validation_exact:
  "runs (validate_slice_with_rules now i d) (\<lambda>r t. vr_slice_id r = i \<and> vr_validated_at r = now \<and>
     mset (map ro_rule_id (vr_outcomes r)) = mset (enabled_ids s i) \<and> sorted (map ro_priority (vr_outcomes r)) \<and>
     (\<forall>p \<in> set (vr_outcomes r). \<exists>rule. get_rule s (ro_rule_id p) = Some rule \<and> ro_priority p = cr_priority rule \<and>
        ro_passed p = prefix (cr_rule_bytes rule) d) \<and>
     vr_overall_valid r = (\<forall>id \<in> set (enabled_ids s i). prefix (cr_rule_bytes (the (get_rule s id))) d) \<and>
     vr_conflicts r = clashes (vr_outcomes r) \<and> (vr_overall_valid r \<longrightarrow> vr_conflicts r = []) \<and>
     (\<exists>es. t = s\<lparr>ms_events := es\<rparr>)) s"
proof -
  let ?ids = "bubble_sort (rule_priority s) (get_slice_rules s i)"
  let ?os = "concat (map (outcome_of s d) ?ids)"
  have perm: "mset ?ids = mset (get_slice_rules s i)" and sorted: "sorted (map (rule_priority s) ?ids)"
    by (rule bubble_sort_sorts)+
  have members: "set ?ids = set (get_slice_rules s i)" using perm by (metis set_mset_mset)
  have ids: "mset (map ro_rule_id ?os) = mset (enabled_ids s i)"
    using perm unfolding outcomes_ids enabled_ids_def by (simp add: mset_filter)
  have each: "\<forall>p \<in> set ?os. \<exists>rule. get_rule s (ro_rule_id p) = Some rule \<and> ro_priority p = cr_priority rule \<and>
      ro_passed p = prefix (cr_rule_bytes rule) d"
    using outcome_ofD by fastforce
  have valid: "(\<forall>p \<in> set ?os. ro_passed p) \<longleftrightarrow> (\<forall>id \<in> set (enabled_ids s i). prefix (cr_rule_bytes (the (get_rule s id))) d)"
    unfolding outcomes_passed members by (auto simp: enabled_ids_def)
  have "((\<forall>p \<in> set ?os. ro_passed p) \<and> clashes ?os = []) = (\<forall>p \<in> set ?os. ro_passed p)"
    using passed_no_clash by blast
  then show ?thesis
    unfolding validate_slice_with_rules_def evaluate_loop detect_conflicts_eq Let_def prod.case
    using ids each outcomes_sorted [OF sorted, of d] valid by (simp add: run_simps evaluate_loop detect_conflicts_eq) blast
qed

text \<open>Two rules of one priority, one of which accepts the data.\<close>

definition two_rules :: rules_engine where
  "two_rules = \<lparr>ms_events = [], ms_rent = [],
     r_rules = [0 \<mapsto> \<lparr>cr_rule_id = 0, cr_rule_bytes = [1], cr_priority = 5, cr_tag = 0, cr_enabled = True, cr_updated_at = 0\<rparr>,
       1 \<mapsto> \<lparr>cr_rule_id = 1, cr_rule_bytes = [2], cr_priority = 5, cr_tag = 0, cr_enabled = True, cr_updated_at = 0\<rparr>],
     r_count = Some 2, r_slice_rules = [9 \<mapsto> [0, 1]]\<rparr>"

theorem validation_exact_witness:
  "runs (validate_slice_with_rules 10 9 [1, 7]) (\<lambda>r _. \<not> vr_overall_valid r \<and> mset (map ro_rule_id (vr_outcomes r)) = {#0, 1#}) two_rules"
  by (rule runs_mono [OF validation_exact])
    (auto simp: two_rules_def enabled_ids_def get_slice_rules_def get_rule_def)

text \<open>Registered rules never share an identifier, and registering keeps the others.\<close>

definition rules_ok :: "rules_engine \<Rightarrow> bool" where
  "rules_ok s \<longleftrightarrow> dom (r_rules s) = {..< get_or (r_count s) 0} \<and> (\<forall>i r. r_rules s i = Some r \<longrightarrow> cr_rule_id r = i)"

lemma register_rule_fresh:
  assumes "rules_ok s" "get_or (r_count s) 0 < U64_MAX"
  shows "runs (register_composition_rule now b p tag) (\<lambda>i t. rules_ok t \<and> get_rule s i = None \<and>
     get_rule t = (get_rule s)(i \<mapsto> \<lparr>cr_rule_id = i, cr_rule_bytes = b, cr_priority = p, cr_tag = tag,
       cr_enabled = True, cr_updated_at = now\<rparr>) \<and> r_slice_rules t = r_slice_rules s) s"
proof -
  have "sat_add U64_MAX (get_or (r_count s) 0) 1 = Suc (get_or (r_count s) 0)" using assms(2) by (simp add: sat_add_def)
  moreover have "get_or (r_count s) 0 \<notin> dom (r_rules s)" using assms(1) by (simp add: rules_ok_def)
  ultimately show ?thesis
    using assms(1) unfolding register_composition_rule_def
    by (auto simp: run_simps rules_ok_def get_rule_def Let_def lessThan_Suc)
qed

lemma set_rule_enabled_ok: "rules_ok s \<Longrightarrow> wp (set_rule_enabled now i b) (\<lambda>_. rules_ok) s"
  by (auto simp: set_rule_enabled_def wp_simps rules_ok_def)

end
