(* ===== verification/Templates.thy ===== *)
theory Templates
  imports Module_Store
begin

section \<open>Template inheritance\<close>

text \<open>
  The module \<open>template_inheritance.rs\<close>: templates with a parent, the check for cycles when a template
  is created, and the resolution of a template along its ancestors with a cache. The three loops
  over the ancestors are recursive functions with the depth bound as their measure.
\<close>

record Template =
  tm_template_id :: nat
  tm_name :: bytes
  tm_data :: bytes
  tm_parent_template_id :: nat
  tm_overrides :: bytes
  tm_created_at :: nat

record ResolvedTemplate =
  rt_template_id :: nat
  rt_name :: bytes
  rt_resolved_data :: bytes
  rt_depth :: nat
  rt_resolved_at :: nat

record CycleCheckResult =
  cc_has_cycle :: bool
  cc_cycle_path :: "nat list"

datatype TemplateKey = TK_Template nat | TK_TemplateParent nat | TK_TemplateOverrides nat
  | TK_TemplateCount | TK_ResolvedTemplate nat

record templates = "TemplateKey module_store" +
  t_templates :: "nat \<rightharpoonup> Template"
  t_parents :: "nat \<rightharpoonup> nat"
  t_overrides :: "nat \<rightharpoonup> bytes"
  t_count :: "nat option"
  t_resolved :: "nat \<rightharpoonup> ResolvedTemplate"

type_synonym 'a template_op = "(failure, templates, 'a) act"

definition MAX_INHERITANCE_DEPTH :: nat where "MAX_INHERITANCE_DEPTH = 16"

subsection \<open>Lookups and loops\<close>

definition get_template :: "templates \<Rightarrow> nat \<Rightarrow> Template option" where
  "get_template s template_id = t_templates s template_id"

definition get_parent_template_id :: "templates \<Rightarrow> nat \<Rightarrow> nat" where
  "get_parent_template_id s template_id = get_or (t_parents s template_id) 0"

definition get_template_overrides :: "templates \<Rightarrow> nat \<Rightarrow> bytes" where
  "get_template_overrides s template_id = get_or (t_overrides s template_id) []"

definition vec_contains :: "nat list \<Rightarrow> nat \<Rightarrow> bool" where
  "vec_contains vec value \<longleftrightarrow> list_ex (\<lambda>i. vec ! i = value) [0..<length vec]"

lemma vec_contains_iff [simp]: "vec_contains vec v \<longleftrightarrow> v \<in> set vec"
  by (auto simp: vec_contains_def list_ex_iff in_set_conv_nth)

function cycle_walk :: "templates \<Rightarrow> nat \<Rightarrow> nat \<Rightarrow> nat list \<Rightarrow> nat \<Rightarrow> CycleCheckResult" where
  "cycle_walk s child_id current visited depth =
     (if current = child_id then \<lparr>cc_has_cycle = True, cc_cycle_path = visited @ [child_id]\<rparr>
      else if current = 0 then \<lparr>cc_has_cycle = False, cc_cycle_path = []\<rparr>
      else if MAX_INHERITANCE_DEPTH \<le> depth then \<lparr>cc_has_cycle = True, cc_cycle_path = visited\<rparr>
      else if vec_contains visited current then \<lparr>cc_has_cycle = True, cc_cycle_path = visited\<rparr>
      else cycle_walk s child_id (get_parent_template_id s current) (visited @ [current]) (sat_add U32_MAX depth 1))"
  by pat_completeness auto
termination
  by (relation "measure (\<lambda>(s, c, i, v, depth). MAX_INHERITANCE_DEPTH - depth)") (auto simp: MAX_INHERITANCE_DEPTH_def sat_add_def)

declare cycle_walk.simps [simp del]

definition check_inheritance_cycle :: "templates \<Rightarrow> nat \<Rightarrow> nat \<Rightarrow> CycleCheckResult" where
  "check_inheritance_cycle s parent_id child_id = cycle_walk s child_id parent_id [] 0"

text \<open>
  The walk of \<open>resolve_template\<close> returns the depth and the overrides it collected, child first;
  \<open>None\<close> is each of its early returns.
\<close>

function resolve_walk :: "templates \<Rightarrow> nat \<Rightarrow> bytes list \<Rightarrow> nat list \<Rightarrow> nat \<Rightarrow> (nat \<times> bytes list) option" where
  "resolve_walk s current_id override_chain seen depth =
     (if get_template s current_id = None then None
      else
        let overrides = get_template_overrides s current_id;
            override_chain = (if overrides \<noteq> [] then override_chain @ [overrides] else override_chain)
        in if vec_contains seen current_id then None
           else
             let parent_id = get_parent_template_id s current_id in
             if parent_id = 0 then Some (depth, override_chain)
             else if MAX_INHERITANCE_DEPTH \<le> sat_add U32_MAX depth 1 then None
             else resolve_walk s parent_id override_chain (seen @ [current_id]) (sat_add U32_MAX depth 1))"
  by pat_completeness auto
termination
  by (relation "measure (\<lambda>(s, i, c, v, depth). MAX_INHERITANCE_DEPTH - depth)") (auto simp: MAX_INHERITANCE_DEPTH_def sat_add_def)

declare resolve_walk.simps [simp del]

function depth_walk :: "templates \<Rightarrow> nat \<Rightarrow> nat list \<Rightarrow> nat \<Rightarrow> nat" where
  "depth_walk s current seen depth =
     (if vec_contains seen current then depth
      else
        let parent_id = get_parent_template_id s current in
        if parent_id = 0 then depth
        else if MAX_INHERITANCE_DEPTH \<le> sat_add U32_MAX depth 1 then sat_add U32_MAX depth 1
        else depth_walk s parent_id (seen @ [current]) (sat_add U32_MAX depth 1))"
  by pat_completeness auto
termination
  by (relation "measure (\<lambda>(s, i, v, depth). MAX_INHERITANCE_DEPTH - depth)") (auto simp: MAX_INHERITANCE_DEPTH_def sat_add_def)

declare depth_walk.simps [simp del]

definition get_inheritance_depth :: "templates \<Rightarrow> nat \<Rightarrow> nat" where
  "get_inheritance_depth s template_id = depth_walk s template_id [] 0"

subsection \<open>Operations\<close>

definition create_template :: "nat \<Rightarrow> bytes \<Rightarrow> bytes \<Rightarrow> nat \<Rightarrow> bytes \<Rightarrow> nat template_op" where
  "create_template now name data parent_template_id overrides = (bindM (gets (\<lambda>s. get_or (t_count s) 0)) (\<lambda>template_id.
                                                                thenM (whenM (0 < parent_template_id) ((bindM (gets (\<lambda>s. get_template s parent_template_id)) (\<lambda>parent.
                                     thenM (guard (parent \<noteq> None) (Err TemplateNotFound)) (
                                     bindM (gets (\<lambda>s. check_inheritance_cycle s parent_template_id template_id)) (\<lambda>result.
                                     guard (\<not> cc_has_cycle result) (Err InheritanceCycleDetected))))))) (
                                                                thenM (modify (\<lambda>s. s\<lparr>t_templates := (t_templates s)(template_id \<mapsto> \<lparr>tm_template_id = template_id, tm_name = name,
       tm_data = data, tm_parent_template_id = parent_template_id, tm_overrides = overrides, tm_created_at = now\<rparr>)\<rparr>)) (
                                                                thenM (extend_rent (TK_Template template_id)) (
                                                                thenM (whenM (0 < parent_template_id) ((thenM (modify (\<lambda>s. s\<lparr>t_parents := (t_parents s)(template_id \<mapsto> parent_template_id)\<rparr>)) (
                                     thenM (extend_rent (TK_TemplateParent template_id)) (
                                     thenM (modify (\<lambda>s. s\<lparr>t_overrides := (t_overrides s)(template_id \<mapsto> overrides)\<rparr>)) (
                                     extend_rent (TK_TemplateOverrides template_id))))))) (
                                                                (let next_id = sat_add U64_MAX template_id 1 in
                                                                thenM (modify (\<lambda>s. s\<lparr>t_count := Some next_id\<rparr>)) (
                                                                thenM (extend_rent TK_TemplateCount) (
                                                                thenM (emit ''tmpl_crt'' [VU template_id] [VU template_id, VU parent_template_id, VU now]) (
                                                                returnM template_id))))))))))"

definition create_inherited_template :: "nat \<Rightarrow> nat \<Rightarrow> bytes \<Rightarrow> nat template_op" where
  "create_inherited_template now parent_id overrides = (bindM (gets (\<lambda>s. get_template s parent_id)) (\<lambda>found.
                                                       bindM (ok_or found (Err TemplateNotFound)) (\<lambda>parent.
                                                       create_template now (tm_name parent) (tm_data parent) parent_id overrides)))"

text \<open>
  The source walks over the collected overrides from the root to the child but merges nothing: its
  loop body discards them, so the resolved data is the template's own.
\<close>

definition resolve_template :: "nat \<Rightarrow> nat \<Rightarrow> ResolvedTemplate option template_op" where
  "resolve_template now template_id = (bindM (gets (\<lambda>s. t_resolved s template_id)) (\<lambda>cached.
                                      case cached of
       Some r \<Rightarrow> returnM (Some r)
     | None \<Rightarrow> (bindM (gets (\<lambda>s. get_template s template_id)) (\<lambda>found.
                          case found of
           None \<Rightarrow> returnM None
         | Some template \<Rightarrow> (bindM (gets (\<lambda>s. resolve_walk s template_id [] [] 0)) (\<lambda>walked.
                                       case walked of
               None \<Rightarrow> returnM None
             | Some (depth, override_chain) \<Rightarrow> ((let resolved = \<lparr>rt_template_id = template_id, rt_name = tm_name template,
                   rt_resolved_data = tm_data template, rt_depth = depth, rt_resolved_at = now\<rparr> in
                                                          thenM (modify (\<lambda>s. s\<lparr>t_resolved := (t_resolved s)(template_id \<mapsto> resolved)\<rparr>)) (
                                                          thenM (extend_rent (TK_ResolvedTemplate template_id)) (
                                                          returnM (Some resolved)))))))))))"

definition invalidate_template_cache :: "nat \<Rightarrow> unit template_op" where
  "invalidate_template_cache template_id = modify (\<lambda>s. s\<lparr>t_resolved := (t_resolved s)(template_id := None)\<rparr>)"

end
