(* ===== verification/Template_Properties.thy ===== *)
theory Template_Properties
  imports Templates Transition_Systems
begin

section \<open>Properties of template inheritance\<close>

text \<open>
  The number of ancestors of a template, what the three bounded loops compute in terms of it, and
  what holds in every state the module can reach: the inheritance graph is a forest of bounded
  depth, and the cache of resolved templates is coherent.
\<close>

inductive has_depth :: "(nat \<Rightarrow> nat) \<Rightarrow> nat \<Rightarrow> nat \<Rightarrow> bool" for par where
  root: "par i = 0 \<Longrightarrow> has_depth par i 0"
| child: "par i \<noteq> 0 \<Longrightarrow> has_depth par (par i) k \<Longrightarrow> has_depth par i (Suc k)"

inductive_cases has_depthE: "has_depth par i k"

lemma has_depth_unique: "has_depth par i k \<Longrightarrow> has_depth par i l \<Longrightarrow> l = k"
proof (induction arbitrary: l rule: has_depth.induct)
  case (root i)
  then show ?case by (auto elim: has_depthE)
next
  case (child i k)
  from child.prems child.hyps(1) obtain l' where "l = Suc l'" "has_depth par (par i) l'" by (auto elim: has_depthE)
  then show ?case using child.IH by simp
qed

lemma has_depth_upd:
  assumes "has_depth par i k" "\<And>j. par j \<noteq> 0 \<Longrightarrow> par j < j" "i < n"
  shows "has_depth (par(n := p)) i k"
  using assms(1,3)
proof (induction rule: has_depth.induct)
  case (root i)
  then show ?case by (intro has_depth.root) simp
next
  case (child i k)
  then have "par i < n" using assms(2) [of i] by simp
  then show ?case using child by (intro has_depth.child) simp_all
qed

subsection \<open>The loops\<close>

abbreviation par :: "templates \<Rightarrow> nat \<Rightarrow> nat" where
  "par s \<equiv> get_parent_template_id s"

definition descending :: "templates \<Rightarrow> bool" where
  "descending s \<longleftrightarrow> (\<forall>i p. t_parents s i = Some p \<longrightarrow> 0 < p \<and> p < i)"

lemma descending_par: "descending s \<Longrightarrow> par s i \<noteq> 0 \<Longrightarrow> par s i < i"
  by (auto simp: descending_def get_parent_template_id_def split: option.splits)

lemma sat_add_depth: "d \<le> 16 \<Longrightarrow> sat_add U32_MAX d (Suc 0) = Suc d"
  by (simp add: sat_add_def)

lemma cycle_walk_depth:
  assumes "has_depth (par s) c k" "descending s" "0 < c" "\<forall>v \<in> set visited. c < v" "c < new" "d \<le> 16"
  shows "cc_has_cycle (cycle_walk s new c visited d) \<longleftrightarrow> 16 \<le> d + k"
  using assms
proof (induction arbitrary: visited d rule: has_depth.induct)
  case (root c)
  then show ?case
    by (subst cycle_walk.simps) (auto simp: MAX_INHERITANCE_DEPTH_def sat_add_depth cycle_walk.simps [of s new 0])
next
  case (child c k)
  have less: "par s c < c" using descending_par child.hyps(1) child.prems(1) by blast
  have "cc_has_cycle (cycle_walk s new (par s c) (visited @ [c]) (Suc d)) \<longleftrightarrow> 16 \<le> Suc d + k" if "d < 16"
    using child.prems child.hyps less that by (intro child.IH) auto
  then show ?case
    using child.prems child.hyps(1) by (subst cycle_walk.simps) (auto simp: MAX_INHERITANCE_DEPTH_def sat_add_depth)
qed

lemma resolve_walk_depth:
  assumes "has_depth (par s) c k" "descending s" "t_templates s c \<noteq> None"
    "\<And>i p. t_parents s i = Some p \<Longrightarrow> t_templates s p \<noteq> None" "\<forall>v \<in> set seen. c < v" "d < 16"
  shows "map_option fst (resolve_walk s c chain seen d) = (if d + k < 16 then Some (d + k) else None)"
  using assms
proof (induction arbitrary: seen d chain rule: has_depth.induct)
  case (root c)
  then show ?case by (subst resolve_walk.simps) (auto simp: get_template_def Let_def)
next
  case (child c k)
  have less: "par s c < c" using descending_par child.hyps(1) child.prems(1) by blast
  have there: "t_templates s (par s c) \<noteq> None"
    using child.hyps(1) child.prems(3) by (fastforce simp: get_parent_template_id_def split: option.splits)
  have "map_option fst (resolve_walk s (par s c) chain' (seen @ [c]) (Suc d)) =
      (if Suc d + k < 16 then Some (Suc d + k) else None)" if "Suc d < 16" for chain'
    using child.prems less there that by (intro child.IH) auto
  then show ?case
    using child.prems child.hyps(1)
    by (subst resolve_walk.simps) (auto simp: get_template_def MAX_INHERITANCE_DEPTH_def sat_add_depth Let_def)
qed

lemma depth_walk_depth:
  assumes "has_depth (par s) c k" "descending s" "\<forall>v \<in> set seen. c < v" "d < 16"
  shows "depth_walk s c seen d = min 16 (d + k)"
  using assms
proof (induction arbitrary: seen d rule: has_depth.induct)
  case (root c)
  then show ?case by (subst depth_walk.simps) (auto simp: Let_def)
next
  case (child c k)
  have less: "par s c < c" using descending_par child.hyps(1) child.prems(1) by blast
  have "depth_walk s (par s c) (seen @ [c]) (Suc d) = min 16 (Suc d + k)" if "Suc d < 16"
    using child.prems less that by (intro child.IH) auto
  then show ?case
    using child.prems child.hyps(1)
    by (subst depth_walk.simps) (auto simp: MAX_INHERITANCE_DEPTH_def sat_add_depth Let_def)
qed

text \<open>In any state, even a corrupted one with cycles, the check looks at no more than 16 ancestors.\<close>

lemma cycle_walk_bounded:
  "length visited \<le> d \<Longrightarrow> d \<le> 16 \<Longrightarrow> length (cc_cycle_path (cycle_walk s new c visited d)) \<le> 17"
proof (induction s new c visited d rule: cycle_walk.induct)
  case (1 s new c visited d)
  then show ?case
    by (subst cycle_walk.simps) (auto simp: MAX_INHERITANCE_DEPTH_def sat_add_depth)
qed

subsection \<open>The invariant\<close>

definition next_template :: "templates \<Rightarrow> nat" where
  "next_template s = get_or (t_count s) 0"

definition graph_ok :: "templates \<Rightarrow> bool" where
  "graph_ok s \<longleftrightarrow> dom (t_templates s) = {..<next_template s} \<and>
     (\<forall>i p. t_parents s i = Some p \<longrightarrow> 0 < p \<and> p < i \<and> i < next_template s) \<and>
     (\<forall>i t. t_templates s i = Some t \<longrightarrow> tm_template_id t = i \<and> tm_parent_template_id t = par s i) \<and>
     (\<forall>i < next_template s. \<exists>k \<le> 16. has_depth (par s) i k)"

definition cache_ok :: "templates \<Rightarrow> bool" where
  "cache_ok s \<longleftrightarrow> (\<forall>i r. t_resolved s i = Some r \<longrightarrow> (\<exists>t. t_templates s i = Some t \<and> rt_template_id r = i \<and>
     rt_name r = tm_name t \<and> rt_resolved_data r = tm_data t \<and> rt_depth r < 16 \<and> has_depth (par s) i (rt_depth r)))"

definition templates_ok :: "templates \<Rightarrow> bool" where
  "templates_ok s \<longleftrightarrow> graph_ok s \<and> cache_ok s"

lemma graph_ok_descending: "graph_ok s \<Longrightarrow> descending s"
  by (auto simp: graph_ok_def descending_def)

lemma graph_ok_exists: "graph_ok s \<Longrightarrow> t_parents s i = Some p \<Longrightarrow> t_templates s p \<noteq> None"
  unfolding graph_ok_def by (metis domIff lessThan_iff less_trans)

lemma graph_ok_depth:
  assumes "graph_ok s" "i < next_template s"
  shows "has_depth (par s) i (get_inheritance_depth s i)" "get_inheritance_depth s i \<le> 16"
proof -
  obtain k where k: "k \<le> 16" "has_depth (par s) i k" using assms by (auto simp: graph_ok_def)
  have "get_inheritance_depth s i = k"
    unfolding get_inheritance_depth_def
    using depth_walk_depth [OF k(2) graph_ok_descending [OF assms(1)], of "[]" 0] k(1) by simp
  then show "has_depth (par s) i (get_inheritance_depth s i)" "get_inheritance_depth s i \<le> 16" using k by simp_all
qed

text \<open>When a template can be created: the parent is missing, exists, or is too deep.\<close>

lemma cycle_check_depth:
  assumes "graph_ok s" "0 < p" "p < next_template s"
  shows "cc_has_cycle (check_inheritance_cycle s p (next_template s)) \<longleftrightarrow> get_inheritance_depth s p = 16"
proof -
  have "cc_has_cycle (check_inheritance_cycle s p (next_template s)) \<longleftrightarrow> 16 \<le> get_inheritance_depth s p"
    unfolding check_inheritance_cycle_def
    using cycle_walk_depth [OF graph_ok_depth(1) [OF assms(1,3)] graph_ok_descending [OF assms(1)] assms(2), of "[]" "next_template s" 0] assms(3)
    by simp
  then show ?thesis using graph_ok_depth(2) [OF assms(1,3)] by auto
qed

definition new_template :: "templates \<Rightarrow> nat \<Rightarrow> bytes \<Rightarrow> bytes \<Rightarrow> nat \<Rightarrow> bytes \<Rightarrow> templates \<Rightarrow> bool" where
  "new_template s now name data p ov t \<longleftrightarrow> next_template t = Suc (next_template s) \<and> t_resolved t = t_resolved s \<and>
     par t = (par s)(next_template s := p) \<and>
     (\<forall>i q. t_parents t i = Some q \<longleftrightarrow> t_parents s i = Some q \<and> (i = next_template s \<longrightarrow> p = 0) \<or> i = next_template s \<and> q = p \<and> 0 < p) \<and>
     t_templates t = (t_templates s)(next_template s \<mapsto> \<lparr>tm_template_id = next_template s, tm_name = name, tm_data = data,
       tm_parent_template_id = p, tm_overrides = ov, tm_created_at = now\<rparr>)"

lemma create_template_effect:
  assumes "graph_ok s" "next_template s < U64_MAX"
  shows "wp (create_template now name data p ov) (\<lambda>i t. i = next_template s \<and> new_template s now name data p ov t \<and>
     (0 < p \<longrightarrow> p < next_template s \<and> get_inheritance_depth s p < 16)) s"
proof -
  have none: "t_parents s (next_template s) = None"
    using assms(1) by (metis graph_ok_def less_irrefl not_Some_eq)
  have sat: "sat_add U64_MAX (next_template s) (Suc 0) = Suc (next_template s)" using assms(2) by (simp add: sat_add_def)
  have there: "p < next_template s" if "get_template s p = Some t" for t
    using that assms(1) unfolding graph_ok_def get_template_def by (metis domI lessThan_iff)
  have deep: "get_inheritance_depth s p < 16" if "0 < p" "p < next_template s"
      "\<not> cc_has_cycle (check_inheritance_cycle s p (next_template s))"
    using cycle_check_depth [OF assms(1) that(1,2)] graph_ok_depth(2) [OF assms(1) that(2)] that(3) by simp
  show ?thesis
    unfolding create_template_def next_template_def [symmetric]
    using there deep sat none
    by (auto simp: wp_simps new_template_def next_template_def get_parent_template_id_def fun_eq_iff)
qed

lemma new_template_keeps:
  "graph_ok s \<Longrightarrow> new_template s now name data p ov t \<Longrightarrow> i < next_template s \<Longrightarrow> has_depth (par s) i k \<Longrightarrow> has_depth (par t) i k"
  by (simp add: new_template_def has_depth_upd descending_par graph_ok_descending)

lemma new_template_depth:
  assumes "graph_ok s" "new_template s now name data p ov t" "0 < p \<longrightarrow> p < next_template s \<and> get_inheritance_depth s p < 16"
  shows "has_depth (par t) (next_template s) (if p = 0 then 0 else Suc (get_inheritance_depth s p))"
proof (cases "p = 0")
  case True
  then have "has_depth (par t) (next_template s) 0" using assms(2) by (intro has_depth.root) (simp add: new_template_def)
  then show ?thesis using True by simp
next
  case False
  then have p: "p < next_template s" "get_inheritance_depth s p < 16" using assms(3) by simp_all
  have "has_depth (par t) p (get_inheritance_depth s p)"
    by (rule new_template_keeps [OF assms(1,2) p(1) graph_ok_depth(1) [OF assms(1) p(1)]])
  then have "has_depth (par t) (next_template s) (Suc (get_inheritance_depth s p))"
    using assms(2) False by (intro has_depth.child) (simp_all add: new_template_def)
  then show ?thesis using False by simp
qed

lemma new_template_level:
  assumes "graph_ok s" "new_template s now name data p ov t" "0 < p \<longrightarrow> p < next_template s \<and> get_inheritance_depth s p < 16"
    "graph_ok t"
  shows "get_inheritance_depth t (next_template s) = (if p = 0 then 0 else Suc (get_inheritance_depth s p))"
proof -
  have "has_depth (par t) (next_template s) (get_inheritance_depth t (next_template s))"
    using graph_ok_depth(1) [OF assms(4)] assms(2) by (simp add: new_template_def)
  moreover have "has_depth (par t) (next_template s) (if p = 0 then 0 else Suc (get_inheritance_depth s p))"
    by (rule new_template_depth [OF assms(1-3)])
  ultimately show ?thesis by (rule has_depth_unique [rotated])
qed

lemma new_template_graph:
  assumes "graph_ok s" "new_template s now name data p ov t" "0 < p \<longrightarrow> p < next_template s \<and> get_inheritance_depth s p < 16"
  shows "graph_ok t"
  unfolding graph_ok_def
proof (intro conjI)
  show "dom (t_templates t) = {..<next_template t}"
    using assms(1,2) by (auto simp: graph_ok_def new_template_def)
  show "\<forall>i q. t_parents t i = Some q \<longrightarrow> 0 < q \<and> q < i \<and> i < next_template t"
    using assms by (fastforce simp: graph_ok_def new_template_def)
  show "\<forall>i m. t_templates t i = Some m \<longrightarrow> tm_template_id m = i \<and> tm_parent_template_id m = par t i"
    using assms(1,2) by (auto simp: graph_ok_def new_template_def)
  have "\<exists>k \<le> 16. has_depth (par t) i k" if "i < next_template s" for i
    using graph_ok_depth [OF assms(1) that] new_template_keeps [OF assms(1,2) that] by blast
  moreover have "next_template t = Suc (next_template s)" using assms(2) by (simp add: new_template_def)
  moreover have "\<exists>k \<le> 16. has_depth (par t) (next_template s) k"
    using new_template_depth [OF assms] assms(3) by (intro exI conjI) auto
  ultimately show "\<forall>i < next_template t. \<exists>k \<le> 16. has_depth (par t) i k"
    by (auto simp: less_Suc_eq)
qed

lemma new_template_cache:
  assumes "graph_ok s" "cache_ok s" "new_template s now name data p ov t"
  shows "cache_ok t"
  unfolding cache_ok_def
proof (intro allI impI)
  fix i r assume "t_resolved t i = Some r"
  then obtain m where m: "t_templates s i = Some m" "rt_template_id r = i" "rt_name r = tm_name m"
      "rt_resolved_data r = tm_data m" "rt_depth r < 16" "has_depth (par s) i (rt_depth r)"
    using assms(2,3) by (auto simp: cache_ok_def new_template_def)
  then have i: "i < next_template s" using assms(1) unfolding graph_ok_def by (metis domI lessThan_iff)
  then have "t_templates t i = Some m" using m(1) assms(3) by (simp add: new_template_def)
  then show "\<exists>m. t_templates t i = Some m \<and> rt_template_id r = i \<and> rt_name r = tm_name m \<and>
      rt_resolved_data r = tm_data m \<and> rt_depth r < 16 \<and> has_depth (par t) i (rt_depth r)"
    using m new_template_keeps [OF assms(1,3) i m(6)] by blast
qed

text \<open>What resolving does, in a state with the invariant.\<close>

lemma resolve_walk_graph:
  assumes "graph_ok s" "t_templates s i = Some t"
  shows "map_option fst (resolve_walk s i [] [] 0) =
    (if get_inheritance_depth s i < 16 then Some (get_inheritance_depth s i) else None)"
proof -
  have i: "i < next_template s" using assms unfolding graph_ok_def by (metis domI lessThan_iff)
  show ?thesis
    using resolve_walk_depth [OF graph_ok_depth(1) [OF assms(1) i] graph_ok_descending [OF assms(1)], of "[]" 0 "[]"]
      graph_ok_exists [OF assms(1)] assms(2) by simp
qed

lemma cache_ok_depth:
  assumes "graph_ok s" "cache_ok s" "t_resolved s i = Some r"
  shows "rt_depth r = get_inheritance_depth s i" "get_inheritance_depth s i < 16"
proof -
  obtain m where m: "t_templates s i = Some m" "rt_depth r < 16" "has_depth (par s) i (rt_depth r)"
    using assms(2,3) unfolding cache_ok_def by blast
  then have "i < next_template s" using assms(1) unfolding graph_ok_def by (metis domI lessThan_iff)
  from has_depth_unique [OF graph_ok_depth(1) [OF assms(1) this] m(3)]
  show "rt_depth r = get_inheritance_depth s i" "get_inheritance_depth s i < 16" using m(2) by simp_all
qed

lemma resolve_template_effect:
  assumes "templates_ok s" "t_templates s i = Some m"
  shows "runs (resolve_template now i) (\<lambda>r t. (case r of None \<Rightarrow> get_inheritance_depth s i = 16 \<and> t = s
     | Some r \<Rightarrow> rt_template_id r = i \<and> rt_name r = tm_name m \<and> rt_resolved_data r = tm_data m \<and>
         rt_depth r = get_inheritance_depth s i \<and> rt_depth r < 16 \<and> t_resolved t i = Some r \<and>
         (\<exists>rent. t = s\<lparr>t_resolved := (t_resolved s)(i \<mapsto> r), ms_rent := rent\<rparr>))) s"
proof (cases "t_resolved s i")
  case (Some r)
  have ok: "graph_ok s" "cache_ok s" using assms(1) by (simp_all add: templates_ok_def)
  have "s = s\<lparr>t_resolved := (t_resolved s)(i \<mapsto> r), ms_rent := ms_rent s\<rparr>" using Some by (simp add: fun_upd_idem)
  then have same: "\<exists>rent. s = s\<lparr>t_resolved := (t_resolved s)(i \<mapsto> r), ms_rent := rent\<rparr>" by (rule exI)
  have "rt_template_id r = i \<and> rt_name r = tm_name m \<and> rt_resolved_data r = tm_data m"
    using ok(2) Some assms(2) by (fastforce simp: cache_ok_def)
  then show ?thesis
    using Some cache_ok_depth [OF ok Some] same unfolding resolve_template_def by (simp add: run_simps)
next
  case None
  have i: "i < next_template s"
    using assms unfolding templates_ok_def graph_ok_def by (metis domI lessThan_iff)
  have le: "get_inheritance_depth s i \<le> 16" using graph_ok_depth(2) i assms(1) by (simp add: templates_ok_def)
  have "map_option fst (resolve_walk s i [] [] 0) =
    (if get_inheritance_depth s i < 16 then Some (get_inheritance_depth s i) else None)"
    using resolve_walk_graph assms by (simp add: templates_ok_def)
  then show ?thesis
    using None le assms(2) unfolding resolve_template_def get_template_def
    by (cases "resolve_walk s i [] [] 0") (auto simp: run_simps get_template_def split: if_splits)
qed

subsection \<open>Every history\<close>

inductive template_step :: "templates \<Rightarrow> templates \<Rightarrow> bool" where
  "next_template s < U64_MAX \<Longrightarrow> create_template now name data p ov s = Inr (i, t) \<Longrightarrow> template_step s t"
| "next_template s < U64_MAX \<Longrightarrow> create_inherited_template now p ov s = Inr (i, t) \<Longrightarrow> template_step s t"
| "resolve_template now i s = Inr (r, t) \<Longrightarrow> template_step s t"
| "invalidate_template_cache i s = Inr (u, t) \<Longrightarrow> template_step s t"

definition no_templates :: "templates \<Rightarrow> bool" where
  "no_templates s \<longleftrightarrow> t_templates s = Map.empty \<and> t_parents s = Map.empty \<and> t_overrides s = Map.empty \<and>
     t_count s = None \<and> t_resolved s = Map.empty"

lemma create_template_ok:
  assumes "templates_ok s" "next_template s < U64_MAX"
  shows "wp (create_template now name data p ov) (\<lambda>_. templates_ok) s"
  using assms unfolding templates_ok_def
  by (intro wp_mono [OF create_template_effect]) (auto intro: new_template_graph new_template_cache)

lemma create_inherited_ok:
  "templates_ok s \<Longrightarrow> next_template s < U64_MAX \<Longrightarrow> wp (create_inherited_template now p ov) (\<lambda>_. templates_ok) s"
  by (auto simp: create_inherited_template_def wp_simps create_template_ok)

lemma templates_ok_cong:
  "t_templates t = t_templates s \<Longrightarrow> t_parents t = t_parents s \<Longrightarrow> t_count t = t_count s \<Longrightarrow> graph_ok t = graph_ok s"
  by (simp add: graph_ok_def next_template_def get_parent_template_id_def [abs_def])

lemma resolve_template_ok: "templates_ok s \<Longrightarrow> wp (resolve_template now i) (\<lambda>_. templates_ok) s"
proof (cases "t_templates s i")
  case None
  moreover assume "templates_ok s"
  ultimately show ?thesis
    by (auto simp: resolve_template_def wp_simps get_template_def templates_ok_def cache_ok_def)
next
  case (Some m)
  assume ok: "templates_ok s"
  have i: "i < next_template s" using ok Some unfolding templates_ok_def graph_ok_def by (metis domI lessThan_iff)
  have deep: "has_depth (par s) i (get_inheritance_depth s i)" using graph_ok_depth(1) i ok by (simp add: templates_ok_def)
  show ?thesis
  proof (rule wp_mono [OF conjunct2 [OF resolve_template_effect [OF ok Some, unfolded runs_iff]]])
    fix r t
    assume post: "case r of None \<Rightarrow> get_inheritance_depth s i = 16 \<and> t = s
     | Some r \<Rightarrow> rt_template_id r = i \<and> rt_name r = tm_name m \<and> rt_resolved_data r = tm_data m \<and>
         rt_depth r = get_inheritance_depth s i \<and> rt_depth r < 16 \<and> t_resolved t i = Some r \<and>
         (\<exists>rent. t = s\<lparr>t_resolved := (t_resolved s)(i \<mapsto> r), ms_rent := rent\<rparr>)"
    show "templates_ok t"
    proof (cases r)
      case None
      then show ?thesis using post ok by simp
    next
      case r: (Some x)
      then obtain rent where t: "t = s\<lparr>t_resolved := (t_resolved s)(i \<mapsto> x), ms_rent := rent\<rparr>" using post by auto
      then have par: "par t = par s" by (simp add: get_parent_template_id_def fun_eq_iff)
      have "graph_ok t" using ok by (simp add: t templates_ok_def templates_ok_cong [of t s, unfolded t])
      moreover have "cache_ok t"
        using post r ok Some deep unfolding cache_ok_def par by (auto simp: t templates_ok_def cache_ok_def split: if_splits)
      ultimately show ?thesis by (simp add: templates_ok_def)
    qed
  qed
qed

lemma invalidate_ok: "templates_ok s \<Longrightarrow> wp (invalidate_template_cache i) (\<lambda>_. templates_ok) s"
  by (auto simp: invalidate_template_cache_def wp_simps templates_ok_def cache_ok_def get_parent_template_id_def [abs_def]
      graph_ok_def next_template_def)

interpretation forest: invariant_system no_templates template_step templates_ok
proof
  show "templates_ok s" if "no_templates s" for s
    using that by (simp add: no_templates_def templates_ok_def graph_ok_def cache_ok_def next_template_def)
  show "templates_ok t" if "templates_ok s" "template_step s t" for s t
    using that(2)
  proof cases
    case 1
    from wpD [OF create_template_ok [OF that(1) 1(1)] 1(2)] show ?thesis .
  next
    case 2
    from wpD [OF create_inherited_ok [OF that(1) 2(1)] 2(2)] show ?thesis .
  next
    case 3
    from wpD [OF resolve_template_ok [OF that(1)] 3] show ?thesis .
  next
    case 4
    from wpD [OF invalidate_ok [OF that(1)] 4] show ?thesis .
  qed
qed

text \<open>C29. In every reachable state the inheritance graph is a forest of bounded depth: a
  template's parent, if it has one, exists and has a smaller identifier; the reported
  inheritance depth is the true number of ancestors and at most 16; the template records its
  parent.\<close>

theorem templates_forest:
  assumes "reachable no_templates template_step s" "get_template s i = Some t"
  shows "tm_template_id t = i \<and> tm_parent_template_id t = get_parent_template_id s i \<and>
     (get_parent_template_id s i \<noteq> 0 \<longrightarrow> get_parent_template_id s i < i \<and> get_template s (get_parent_template_id s i) \<noteq> None) \<and>
     has_depth (get_parent_template_id s) i (get_inheritance_depth s i) \<and> get_inheritance_depth s i \<le> 16"
proof -
  have ok: "graph_ok s" using forest.inv_reachable [OF assms(1)] by (simp add: templates_ok_def)
  have "i < next_template s" using ok assms(2) unfolding graph_ok_def get_template_def by (metis domI lessThan_iff)
  note depth = graph_ok_depth [OF ok this]
  have "get_template s (par s i) \<noteq> None" if "par s i \<noteq> 0"
    using that graph_ok_exists [OF ok, of i] by (auto simp: get_template_def get_parent_template_id_def split: option.splits)
  then show ?thesis
    using depth descending_par [OF graph_ok_descending [OF ok]] ok assms(2) by (auto simp: graph_ok_def get_template_def)
qed

text \<open>The test for cycles is a test for depth, and a template that is created is one level below its parent.\<close>

lemma create_check:
  assumes "graph_ok s" "p \<noteq> 0" "get_template s p \<noteq> None"
  shows "cc_has_cycle (check_inheritance_cycle s p (next_template s)) \<longleftrightarrow> get_inheritance_depth s p = 16"
proof -
  have "p < next_template s" using assms(1,3) unfolding graph_ok_def get_template_def by (metis domIff lessThan_iff)
  then show ?thesis using cycle_check_depth [OF assms(1)] assms(2) by simp
qed

definition template_added :: "templates \<Rightarrow> nat \<Rightarrow> bytes \<Rightarrow> bytes \<Rightarrow> nat \<Rightarrow> bytes \<Rightarrow> nat \<Rightarrow> templates \<Rightarrow> bool" where
  "template_added s now name data p ov i t \<longleftrightarrow> i = next_template s \<and> next_template t = Suc i \<and>
     get_template t = (get_template s)(i \<mapsto> \<lparr>tm_template_id = i, tm_name = name, tm_data = data,
       tm_parent_template_id = p, tm_overrides = ov, tm_created_at = now\<rparr>) \<and>
     get_inheritance_depth t i = (if p = 0 then 0 else Suc (get_inheritance_depth s p))"

lemma create_template_runs:
  assumes "templates_ok s" "next_template s < U64_MAX" "p = 0 \<or> get_template s p \<noteq> None \<and> get_inheritance_depth s p \<noteq> 16"
  shows "runs (create_template now name data p ov) (template_added s now name data p ov) s"
proof -
  have ok: "graph_ok s" using assms(1) by (simp add: templates_ok_def)
  have "commits (create_template now name data p ov) s"
    using assms(3) create_check [OF ok] unfolding create_template_def next_template_def [symmetric]
    by (auto simp: commits_def exec)
  moreover have "wp (create_template now name data p ov) (template_added s now name data p ov) s"
  proof (rule wp_mono [OF create_template_effect [OF ok assms(2)]])
    fix i t assume post: "i = next_template s \<and> new_template s now name data p ov t \<and>
      (0 < p \<longrightarrow> p < next_template s \<and> get_inheritance_depth s p < 16)"
    have "get_inheritance_depth t i = (if p = 0 then 0 else Suc (get_inheritance_depth s p))"
      using post new_template_level [OF ok, of now name data p ov t] new_template_graph [OF ok, of now name data p ov t] by simp
    then show "template_added s now name data p ov i t"
      using post by (simp add: template_added_def new_template_def get_template_def [abs_def])
  qed
  ultimately show ?thesis by (simp add: runs_iff)
qed

text \<open>Creating a template fails with \<open>TemplateNotFound\<close> exactly for a parent that does
  not exist and with \<open>InheritanceCycleDetected\<close> exactly for a parent that has 16 ancestors itself;
  otherwise it stores the template under the next identifier, one level below its parent.\<close>

theorem create_template_exact:
  assumes "reachable no_templates template_step s" "next_template s < U64_MAX"
  shows "if p \<noteq> 0 \<and> get_template s p = None then create_template now name data p ov s = Inl (Err TemplateNotFound)
     else if p \<noteq> 0 \<and> get_inheritance_depth s p = 16 then create_template now name data p ov s = Inl (Err InheritanceCycleDetected)
     else runs (create_template now name data p ov) (\<lambda>i t. i = next_template s \<and> next_template t = Suc i \<and>
       get_template t = (get_template s)(i \<mapsto> \<lparr>tm_template_id = i, tm_name = name, tm_data = data,
         tm_parent_template_id = p, tm_overrides = ov, tm_created_at = now\<rparr>) \<and>
       get_inheritance_depth t i = (if p = 0 then 0 else Suc (get_inheritance_depth s p))) s"
proof -
  have inv: "templates_ok s" by (rule forest.inv_reachable [OF assms(1)])
  then have check: "p \<noteq> 0 \<Longrightarrow> get_template s p \<noteq> None \<Longrightarrow>
      cc_has_cycle (check_inheritance_cycle s p (next_template s)) \<longleftrightarrow> get_inheritance_depth s p = 16"
    by (simp add: templates_ok_def create_check)
  show ?thesis
  proof (cases "p = 0 \<or> get_template s p \<noteq> None \<and> get_inheritance_depth s p \<noteq> 16")
    case True
    then show ?thesis
      using create_template_runs [OF inv assms(2) True, of now name data ov] by (auto simp: template_added_def [abs_def])
  next
    case False
    then show ?thesis
      using check unfolding create_template_def next_template_def [symmetric] by (auto simp: exec)
  qed
qed

text \<open>In every reachable state a template with fewer than 16 ancestors resolves to its
  own name and data with the true depth, and resolving it again at any later time returns the same
  record from the cache. A template with 16 ancestors, which can be created, never resolves.\<close>

theorem template_resolves:
  assumes "reachable no_templates template_step s" "get_template s i = Some m"
  shows "if get_inheritance_depth s i = 16 then resolve_template now i s = Inr (None, s)
     else runs (resolve_template now i) (\<lambda>r t. case r of None \<Rightarrow> False | Some r \<Rightarrow>
       rt_template_id r = i \<and> rt_name r = tm_name m \<and> rt_resolved_data r = tm_data m \<and>
       rt_depth r = get_inheritance_depth s i \<and> get_template t = get_template s \<and>
       (\<forall>now'. resolve_template now' i t = Inr (Some r, t))) s"
proof -
  have "t_templates s i = Some m" using assms(2) by (simp add: get_template_def)
  note effect = resolve_template_effect [OF forest.inv_reachable [OF assms(1)] this, of now]
  show ?thesis
  proof (cases "get_inheritance_depth s i = 16")
    case True
    then show ?thesis using effect by (auto simp: runs_def split: sum.splits option.splits)
  next
    case False
    then show ?thesis
      using effect by (auto elim!: runs_mono simp: get_template_def [abs_def] resolve_template_def exec split: option.splits)
  qed
qed

text \<open>A concrete history: two roots.\<close>

definition no_templates0 :: templates where
  "no_templates0 = \<lparr>ms_events = [], ms_rent = [], t_templates = Map.empty, t_parents = Map.empty, t_overrides = Map.empty,
     t_count = None, t_resolved = Map.empty\<rparr>"

definition two_roots :: templates where
  "two_roots = after (create_template 2 [] [8] 0 []) (after (create_template 1 [] [7] 0 []) no_templates0)"

lemmas template_exec = exec create_template_def get_parent_template_id_def get_template_def check_inheritance_cycle_def
  cycle_walk.simps after_def sat_add_def next_template_def

lemma two_roots_eq: "get_template two_roots 1 = Some \<lparr>tm_template_id = 1, tm_name = [], tm_data = [8],
    tm_parent_template_id = 0, tm_overrides = [], tm_created_at = 2\<rparr>" "t_parents two_roots = Map.empty" "t_count two_roots = Some 2"
  by (simp_all add: two_roots_def no_templates0_def template_exec)

lemma create_template_step:
  "reachable no_templates template_step s \<Longrightarrow> next_template s < U64_MAX \<Longrightarrow> commits (create_template now name data p ov) s \<Longrightarrow>
    reachable no_templates template_step (after (create_template now name data p ov) s)"
  by (auto simp: commits_def after_def split: sum.splits intro: reachable_step template_step.intros(1))

lemma two_roots_reachable: "reachable no_templates template_step two_roots"
proof -
  have "reachable no_templates template_step no_templates0"
    by (rule reachable_start) (simp add: no_templates_def no_templates0_def)
  then have "reachable no_templates template_step (after (create_template 1 [] [7] 0 []) no_templates0)"
    by (rule create_template_step) (simp_all add: no_templates0_def template_exec commits_def)
  then show ?thesis
    unfolding two_roots_def
    by (rule create_template_step) (simp_all add: no_templates0_def template_exec commits_def)
qed

theorem create_template_exact_witness:
  "create_template 3 [] [9] 5 [] two_roots = Inl (Err TemplateNotFound) \<and>
   runs (create_template 3 [] [9] 1 [5]) (\<lambda>i t. i = 2 \<and> get_inheritance_depth t i = 1) two_roots"
proof -
  have depth: "get_inheritance_depth two_roots 1 = 0"
    by (simp add: get_inheritance_depth_def depth_walk.simps get_parent_template_id_def two_roots_eq)
  have missing: "get_template two_roots 5 = None"
    by (simp add: two_roots_def no_templates0_def template_exec)
  have small: "next_template two_roots < U64_MAX" "next_template two_roots = 2" by (simp_all add: next_template_def two_roots_eq)
  note exact = create_template_exact [OF two_roots_reachable small(1)]
  have "create_template 3 [] [9] 5 [] two_roots = Inl (Err TemplateNotFound)"
    using exact [of 5 3 "[]" "[9]" "[]"] missing by simp
  moreover have "runs (create_template 3 [] [9] 1 [5]) (\<lambda>i t. i = 2 \<and> get_inheritance_depth t i = 1) two_roots"
    using exact [of 1 3 "[]" "[9]" "[5]"] depth by (auto simp: two_roots_eq small(2) simp del: One_nat_def elim!: runs_mono)
  ultimately show ?thesis by simp
qed

theorem templates_forest_witness:
  "has_depth (get_parent_template_id two_roots) 1 (get_inheritance_depth two_roots 1)"
  using templates_forest [OF two_roots_reachable two_roots_eq(1)] by simp

theorem template_resolves_witness:
  "runs (resolve_template 10 1) (\<lambda>r _. map_option rt_resolved_data r = Some [8]) two_roots"
proof -
  have "get_inheritance_depth two_roots 1 = 0"
    by (simp add: get_inheritance_depth_def depth_walk.simps get_parent_template_id_def two_roots_eq)
  then show ?thesis
    using template_resolves [OF two_roots_reachable two_roots_eq(1), of 10]
    by (auto elim!: runs_mono split: option.splits)
qed

end
