(* ===== verification/Slice_Voting.thy ===== *)
theory Slice_Voting
  imports Module_Store
begin

section \<open>Consensus voting on slices\<close>

text \<open>
  The module \<open>slice_consensus_voting.rs\<close>: the registry of attestors, proposals to modify a slice, votes,
  their resolution and the execution of approved proposals.
\<close>

datatype SliceProposalStatus = PendingVote | ApprovedVote | RejectedVote | ExecutedVote

datatype SliceModification = UpdateMetadata nat | UpdateRules nat | ReweightAttestors nat

record ModificationProposal =
  mo_slice_id :: nat
  mo_proposal_id :: nat
  mo_proposed_changes :: bytes
  mo_proposer :: address
  mo_status :: SliceProposalStatus
  mo_voting_deadline :: nat
  mo_approve_count :: nat
  mo_reject_count :: nat
  mo_total_attestors :: nat
  mo_created_at :: nat

record ModificationRecord =
  mr_proposal_id :: nat
  mr_proposed_changes :: bytes
  mr_proposer :: address
  mr_executed_at :: nat
  mr_approve_count :: nat
  mr_total_attestors :: nat

datatype VotingKey = VK_SliceProposalCounter nat | VK_ModificationProposal nat nat | VK_ProposalVotes nat nat
  | VK_ModificationHistory nat | VK_AttestorRegistry | VK_VotingConfig

record voting = "VotingKey module_store" +
  v_counter :: "nat \<rightharpoonup> nat"
  v_proposals :: "nat \<times> nat \<rightharpoonup> ModificationProposal"
  v_votes :: "nat \<times> nat \<rightharpoonup> (address \<times> bool) list"
  v_history :: "nat \<rightharpoonup> ModificationRecord list"
  v_attestors :: "address list option"
  v_min_quorum :: "nat option"

type_synonym 'a voting_op = "(failure, voting, 'a) act"

definition DEFAULT_VOTING_PERIOD :: nat where "DEFAULT_VOTING_PERIOD = 604800"

definition DEFAULT_MIN_QUORUM :: nat where "DEFAULT_MIN_QUORUM = 1"

subsection \<open>Registry and configuration\<close>

definition register_attestor_registry :: "address list \<Rightarrow> unit voting_op" where
  "register_attestor_registry attestors = (thenM (modify (\<lambda>s. s\<lparr>v_attestors := Some attestors\<rparr>)) (
                                          extend_rent VK_AttestorRegistry))"

definition get_attestor_registry :: "voting \<Rightarrow> address list" where
  "get_attestor_registry s = get_or (v_attestors s) []"

definition set_voting_config :: "nat \<Rightarrow> unit voting_op" where
  "set_voting_config min_quorum = (thenM (modify (\<lambda>s. s\<lparr>v_min_quorum := Some min_quorum\<rparr>)) (
                                  extend_rent VK_VotingConfig))"

text \<open>The configuration has one field, the minimal quorum.\<close>

definition get_voting_config :: "voting \<Rightarrow> nat" where
  "get_voting_config s = get_or (v_min_quorum s) DEFAULT_MIN_QUORUM"

definition is_registered_attestor :: "voting \<Rightarrow> address \<Rightarrow> bool" where
  "is_registered_attestor s a \<longleftrightarrow> list_ex (\<lambda>att. att = a) (get_attestor_registry s)"

definition u32_from_be_bytes :: "byte \<Rightarrow> byte \<Rightarrow> byte \<Rightarrow> byte \<Rightarrow> nat" where
  "u32_from_be_bytes a b c d = ((a * 256 + b) * 256 + c) * 256 + d"

definition parse_slice_modification :: "bytes \<Rightarrow> SliceModification option" where
  "parse_slice_modification bs =
     (if length bs < 5 then None
      else let val = u32_from_be_bytes (bs ! 1) (bs ! 2) (bs ! 3) (bs ! 4) in
           if bs ! 0 = 0 then Some (UpdateMetadata val)
           else if bs ! 0 = 1 then Some (UpdateRules val)
           else if bs ! 0 = 2 then Some (ReweightAttestors val)
           else None)"

subsection \<open>Proposals and votes\<close>

definition put_proposal :: "nat \<Rightarrow> nat \<Rightarrow> ModificationProposal \<Rightarrow> unit voting_op" where
  "put_proposal slice_id proposal_id p = (thenM (modify (\<lambda>s. s\<lparr>v_proposals := (v_proposals s)((slice_id, proposal_id) \<mapsto> p)\<rparr>)) (
                                         extend_rent (VK_ModificationProposal slice_id proposal_id)))"

definition propose_slice_modification :: "nat \<Rightarrow> nat \<Rightarrow> bytes \<Rightarrow> address \<Rightarrow> nat voting_op" where
  "propose_slice_modification now slice_id proposed_changes proposer = (bindM (gets (\<lambda>s. get_or (v_counter s slice_id) 0)) (\<lambda>last_id.
                                                                       (let new_id = sat_add U64_MAX last_id 1 in
                                                                       (let voting_deadline = sat_add U64_MAX now DEFAULT_VOTING_PERIOD in
                                                                       bindM (gets get_attestor_registry) (\<lambda>attestors.
                                                                       thenM (put_proposal slice_id new_id \<lparr>mo_slice_id = slice_id, mo_proposal_id = new_id,
       mo_proposed_changes = proposed_changes, mo_proposer = proposer, mo_status = PendingVote,
       mo_voting_deadline = voting_deadline, mo_approve_count = 0, mo_reject_count = 0,
       mo_total_attestors = length attestors, mo_created_at = now\<rparr>) (
                                                                       thenM (modify (\<lambda>s. s\<lparr>v_counter := (v_counter s)(slice_id \<mapsto> new_id)\<rparr>)) (
                                                                       thenM (extend_rent (VK_SliceProposalCounter slice_id)) (
                                                                       thenM (emit ''mod_prop'' [VU slice_id] [VU slice_id, VU new_id, VA proposer, VU voting_deadline]) (
                                                                       returnM new_id)))))))))"

definition vote_on_modification :: "nat \<Rightarrow> nat \<Rightarrow> nat \<Rightarrow> address \<Rightarrow> bool \<Rightarrow> bool voting_op" where
  "vote_on_modification now slice_id proposal_id voter approve = (bindM (gets (\<lambda>s. is_registered_attestor s voter)) (\<lambda>registered.
                                                                 bindM (gets (\<lambda>s. v_proposals s (slice_id, proposal_id))) (\<lambda>found.
                                                                 if \<not> registered then returnM False
     else case found of
       None \<Rightarrow> returnM False
     | Some p \<Rightarrow>
         if mo_status p \<noteq> PendingVote then returnM False
         else if mo_voting_deadline p < now then returnM False
         else (bindM (gets (\<lambda>s. get_or (v_votes s (slice_id, proposal_id)) [])) (\<lambda>votes.
              if map_of votes voter \<noteq> None then returnM False
           else ((let counted = (if approve then p\<lparr>mo_approve_count := sat_add U32_MAX (mo_approve_count p) 1\<rparr>
                            else p\<lparr>mo_reject_count := sat_add U32_MAX (mo_reject_count p) 1\<rparr>) in
                thenM (modify (\<lambda>s. s\<lparr>v_votes := (v_votes s)((slice_id, proposal_id) \<mapsto> map_set voter approve votes)\<rparr>)) (
                thenM (extend_rent (VK_ProposalVotes slice_id proposal_id)) (
                thenM (put_proposal slice_id proposal_id counted) (
                thenM (emit ''mod_vote'' [VU slice_id] [VU slice_id, VU proposal_id, VA voter, VFlag approve,
               VU (mo_approve_count counted), VU (mo_reject_count counted)]) (
                returnM True)))))))))))"

definition approval_reached :: "ModificationProposal \<Rightarrow> bool" where
  "approval_reached p \<longleftrightarrow> 0 < mo_total_attestors p \<and> mo_total_attestors p * 50 \<le> mo_approve_count p * 100"

definition resolve_modification_voting :: "nat \<Rightarrow> nat \<Rightarrow> bool voting_op" where
  "resolve_modification_voting slice_id proposal_id = (bindM (gets (\<lambda>s. v_proposals s (slice_id, proposal_id))) (\<lambda>found.
                                                      case found of
       None \<Rightarrow> returnM False
     | Some p \<Rightarrow>
         if mo_status p \<noteq> PendingVote then returnM False
         else ((let total_voted = sat_add U32_MAX (mo_approve_count p) (mo_reject_count p) in
              bindM (gets get_voting_config) (\<lambda>min_quorum.
              thenM (guard (min_quorum \<le> total_voted) (Err InsufficientQuorum)) (
              (let is_approved = approval_reached p in
              thenM (put_proposal slice_id proposal_id (p\<lparr>mo_status := (if is_approved then ApprovedVote else RejectedVote)\<rparr>)) (
              thenM (emit ''mod_res'' [VU slice_id] [VU slice_id, VU proposal_id, VFlag is_approved,
             VU (mo_approve_count p), VU (mo_reject_count p)]) (
              returnM True)))))))))"

text \<open>Every kind of modification is accepted and none of them has an effect yet.\<close>

fun apply_slice_modification :: "nat \<Rightarrow> SliceModification \<Rightarrow> bool voting_op" where
  "apply_slice_modification slice_id (UpdateMetadata tag) = returnM True"
| "apply_slice_modification slice_id (UpdateRules rule_ids_len) = returnM True"
| "apply_slice_modification slice_id (ReweightAttestors attestor_addresses_len) = returnM True"

definition get_modification_history :: "voting \<Rightarrow> nat \<Rightarrow> ModificationRecord list" where
  "get_modification_history s slice_id = get_or (v_history s slice_id) []"

definition execute_slice_modification :: "nat \<Rightarrow> nat \<Rightarrow> nat \<Rightarrow> bool voting_op" where
  "execute_slice_modification now slice_id proposal_id = (bindM (gets (\<lambda>s. v_proposals s (slice_id, proposal_id))) (\<lambda>found.
                                                         case found of
       None \<Rightarrow> returnM False
     | Some p \<Rightarrow>
         if mo_status p \<noteq> ApprovedVote then returnM False
         else case parse_slice_modification (mo_proposed_changes p) of
           None \<Rightarrow> returnM False
         | Some modification \<Rightarrow> (bindM (apply_slice_modification slice_id modification) (\<lambda>applied.
                                           if \<not> applied then returnM False
             else (thenM (put_proposal slice_id proposal_id (p\<lparr>mo_status := ExecutedVote\<rparr>)) (
                  bindM (gets (\<lambda>s. get_modification_history s slice_id)) (\<lambda>history.
                  thenM (modify (\<lambda>s. s\<lparr>v_history := (v_history s)(slice_id \<mapsto> history @ [\<lparr>mr_proposal_id = proposal_id,
                 mr_proposed_changes = mo_proposed_changes p, mr_proposer = mo_proposer p, mr_executed_at = now,
                 mr_approve_count = mo_approve_count p, mr_total_attestors = mo_total_attestors p\<rparr>])\<rparr>)) (
                  thenM (extend_rent (VK_ModificationHistory slice_id)) (
                  thenM (emit ''mod_exec'' [VU slice_id] [VU slice_id, VU proposal_id, VA (mo_proposer p), VU now]) (
                  returnM True))))))))))"

definition get_modification_proposal :: "voting \<Rightarrow> nat \<Rightarrow> nat \<Rightarrow> ModificationProposal option" where
  "get_modification_proposal s slice_id proposal_id = v_proposals s (slice_id, proposal_id)"

definition get_proposal_votes :: "voting \<Rightarrow> nat \<Rightarrow> nat \<Rightarrow> (nat \<times> nat) option" where
  "get_proposal_votes s slice_id proposal_id =
     map_option (\<lambda>p. (mo_approve_count p, mo_reject_count p)) (get_modification_proposal s slice_id proposal_id)"

lemmas voting_defs = put_proposal_def propose_slice_modification_def vote_on_modification_def
  resolve_modification_voting_def execute_slice_modification_def register_attestor_registry_def set_voting_config_def

end
