(* ===== verification/Voting_Properties.thy ===== *)
theory Voting_Properties
  imports Slice_Voting Transition_Systems
begin

section \<open>Properties of consensus voting\<close>

text \<open>
  The voting operations as a transition system: the counters are the votes, decided proposals do
  not change, and what is executed was approved by at least half of the attestors, once.
\<close>

inductive voting_step :: "voting \<Rightarrow> voting \<Rightarrow> bool" where
  "register_attestor_registry as s = Inr (u, t) \<Longrightarrow> voting_step s t"
| "set_voting_config q s = Inr (u, t) \<Longrightarrow> voting_step s t"
| "get_or (v_counter s i) 0 < U64_MAX \<Longrightarrow> propose_slice_modification now i changes a s = Inr (n, t) \<Longrightarrow> voting_step s t"
| "vote_on_modification now i n voter approve s = Inr (b, t) \<Longrightarrow> voting_step s t"
| "resolve_modification_voting i n s = Inr (b, t) \<Longrightarrow> voting_step s t"
| "execute_slice_modification now i n s = Inr (b, t) \<Longrightarrow> voting_step s t"

definition no_votes :: "voting \<Rightarrow> bool" where
  "no_votes s \<longleftrightarrow> v_counter s = Map.empty \<and> v_proposals s = Map.empty \<and> v_votes s = Map.empty \<and> v_history s = Map.empty"

definition votes_of :: "voting \<Rightarrow> nat \<times> nat \<Rightarrow> (address \<times> bool) list" where
  "votes_of s k = get_or (v_votes s k) []"

definition ayes :: "(address \<times> bool) list \<Rightarrow> nat" where
  "ayes vs = length (filter snd vs)"

definition noes :: "(address \<times> bool) list \<Rightarrow> nat" where
  "noes vs = length (filter (\<lambda>v. \<not> snd v) vs)"

subsection \<open>Invariant\<close>

definition tally_ok :: "voting \<Rightarrow> nat \<times> nat \<Rightarrow> ModificationProposal \<Rightarrow> bool" where
  "tally_ok s k p \<longleftrightarrow> ordered (votes_of s k) \<and> mo_approve_count p = min U32_MAX (ayes (votes_of s k)) \<and>
     mo_reject_count p = min U32_MAX (noes (votes_of s k)) \<and>
     (mo_status p = ApprovedVote \<or> mo_status p = ExecutedVote \<longrightarrow> approval_reached p)"

definition executed_ids :: "voting \<Rightarrow> nat \<Rightarrow> nat set" where
  "executed_ids s i = {n. \<exists>p. v_proposals s (i, n) = Some p \<and> mo_status p = ExecutedVote}"

definition voting_ok :: "voting \<Rightarrow> bool" where
  "voting_ok s \<longleftrightarrow> (\<forall>k p. v_proposals s k = Some p \<longrightarrow> tally_ok s k p) \<and>
     (\<forall>i n. v_proposals s (i, n) \<noteq> None \<longrightarrow> n \<le> get_or (v_counter s i) 0) \<and>
     (\<forall>k. v_votes s k \<noteq> None \<longrightarrow> v_proposals s k \<noteq> None) \<and>
     (\<forall>i. distinct (map mr_proposal_id (get_modification_history s i)) \<and>
        set (map mr_proposal_id (get_modification_history s i)) = executed_ids s i)"

text \<open>What a later state keeps of a proposal.\<close>

fun status_follows :: "SliceProposalStatus \<Rightarrow> SliceProposalStatus \<Rightarrow> bool" where
  "status_follows PendingVote y \<longleftrightarrow> True"
| "status_follows ApprovedVote y \<longleftrightarrow> y = ApprovedVote \<or> y = ExecutedVote"
| "status_follows RejectedVote y \<longleftrightarrow> y = RejectedVote"
| "status_follows ExecutedVote y \<longleftrightarrow> y = ExecutedVote"

lemma status_follows_refl: "status_follows x x"
  by (cases x) simp_all

lemma status_follows_trans: "status_follows x y \<Longrightarrow> status_follows y z \<Longrightarrow> status_follows x z"
  by (cases x; cases y) auto

definition same_terms :: "ModificationProposal \<Rightarrow> ModificationProposal \<Rightarrow> bool" where
  "same_terms p q \<longleftrightarrow> mo_slice_id q = mo_slice_id p \<and> mo_proposal_id q = mo_proposal_id p \<and>
     mo_proposed_changes q = mo_proposed_changes p \<and> mo_proposer q = mo_proposer p \<and>
     mo_voting_deadline q = mo_voting_deadline p \<and> mo_total_attestors q = mo_total_attestors p"

definition kept :: "voting \<Rightarrow> voting \<Rightarrow> nat \<times> nat \<Rightarrow> ModificationProposal \<Rightarrow> ModificationProposal \<Rightarrow> bool" where
  "kept s t k p q \<longleftrightarrow> same_terms p q \<and> status_follows (mo_status p) (mo_status q) \<and>
     set (votes_of s k) \<subseteq> set (votes_of t k) \<and> (mo_status p \<noteq> PendingVote \<longrightarrow> votes_of t k = votes_of s k)"

definition proposal_evolves :: "voting \<Rightarrow> voting \<Rightarrow> bool" where
  "proposal_evolves s t \<longleftrightarrow> (\<forall>k p. v_proposals s k = Some p \<longrightarrow> (\<exists>q. v_proposals t k = Some q \<and> kept s t k p q))"

lemma kept_refl: "kept s s k p p"
  by (simp add: kept_def same_terms_def status_follows_refl)

lemma kept_trans: "kept s t k p q \<Longrightarrow> kept t u k q r \<Longrightarrow> kept s u k p r"
  by (cases "mo_status p") (auto simp: kept_def same_terms_def)

lemma proposal_evolves_refl: "proposal_evolves s s"
  by (simp add: proposal_evolves_def kept_refl)

lemma proposal_evolves_trans: "proposal_evolves s t \<Longrightarrow> proposal_evolves t u \<Longrightarrow> proposal_evolves s u"
  unfolding proposal_evolves_def by (meson kept_trans)

lemma map_set_fresh_votes:
  assumes "map_of vs a = None"
  shows "ayes (map_set a b vs) = ayes vs + of_bool b" "noes (map_set a b vs) = noes vs + of_bool (\<not> b)"
    "set vs \<subseteq> set (map_set a b vs)"
proof -
  have "ayes (map_set a b vs) = ayes vs + of_bool b \<and> noes (map_set a b vs) = noes vs + of_bool (\<not> b) \<and> set vs \<subseteq> set (map_set a b vs)"
    using assms by (induction a b vs rule: map_set.induct) (auto simp: ayes_def noes_def split: if_splits)
  then show "ayes (map_set a b vs) = ayes vs + of_bool b" "noes (map_set a b vs) = noes vs + of_bool (\<not> b)"
    "set vs \<subseteq> set (map_set a b vs)" by simp_all
qed

text \<open>What the operations do to the stored proposals, votes and history.\<close>

definition updated :: "voting \<Rightarrow> nat \<times> nat \<Rightarrow> ModificationProposal \<Rightarrow> (address \<times> bool) list \<Rightarrow> voting \<Rightarrow> bool" where
  "updated s k p vs t \<longleftrightarrow> v_proposals t = (v_proposals s)(k \<mapsto> p) \<and> votes_of t = (votes_of s)(k := vs) \<and>
     (\<forall>j. v_votes t j \<noteq> None \<longrightarrow> v_votes s j \<noteq> None \<or> j = k) \<and> v_counter t = v_counter s"

definition vote_counted :: "voting \<Rightarrow> nat \<Rightarrow> nat \<times> nat \<Rightarrow> address \<Rightarrow> bool \<Rightarrow> voting \<Rightarrow> bool" where
  "vote_counted s now k a b t \<longleftrightarrow> (\<exists>p. v_proposals s k = Some p \<and> mo_status p = PendingVote \<and>
     is_registered_attestor s a \<and> now \<le> mo_voting_deadline p \<and> map_of (votes_of s k) a = None \<and>
     updated s k (p\<lparr>mo_approve_count := (if b then sat_add U32_MAX (mo_approve_count p) 1 else mo_approve_count p),
       mo_reject_count := (if b then mo_reject_count p else sat_add U32_MAX (mo_reject_count p) 1)\<rparr>)
       (map_set a b (votes_of s k)) t \<and> v_history t = v_history s)"

definition decided :: "voting \<Rightarrow> nat \<times> nat \<Rightarrow> voting \<Rightarrow> bool" where
  "decided s k t \<longleftrightarrow> (\<exists>p. v_proposals s k = Some p \<and> mo_status p = PendingVote \<and>
     get_voting_config s \<le> sat_add U32_MAX (mo_approve_count p) (mo_reject_count p) \<and>
     updated s k (p\<lparr>mo_status := (if approval_reached p then ApprovedVote else RejectedVote)\<rparr>) (votes_of s k) t \<and>
     v_history t = v_history s)"

definition performed :: "voting \<Rightarrow> nat \<Rightarrow> nat \<Rightarrow> nat \<Rightarrow> voting \<Rightarrow> bool" where
  "performed s now i n t \<longleftrightarrow> (\<exists>p. v_proposals s (i, n) = Some p \<and> mo_status p = ApprovedVote \<and>
     parse_slice_modification (mo_proposed_changes p) \<noteq> None \<and>
     updated s (i, n) (p\<lparr>mo_status := ExecutedVote\<rparr>) (votes_of s (i, n)) t \<and>
     get_modification_history t = (get_modification_history s)(i := get_modification_history s i @ [\<lparr>mr_proposal_id = n,
       mr_proposed_changes = mo_proposed_changes p, mr_proposer = mo_proposer p, mr_executed_at = now,
       mr_approve_count = mo_approve_count p, mr_total_attestors = mo_total_attestors p\<rparr>]))"

lemma vote_effect:
  "wp (vote_on_modification now i n a b) (\<lambda>r t. if r then vote_counted s now (i, n) a b t else t = s) s"
  unfolding vote_on_modification_def put_proposal_def
  by (auto simp: wp_simps vote_counted_def updated_def votes_of_def fun_eq_iff)

lemma resolve_effect:
  "wp (resolve_modification_voting i n) (\<lambda>r t. if r then decided s (i, n) t else t = s) s"
  unfolding resolve_modification_voting_def put_proposal_def
  by (auto simp: wp_simps decided_def updated_def votes_of_def fun_eq_iff)

lemma apply_modification_True: "apply_slice_modification i m = returnM True"
  by (cases m) simp_all

lemma execute_vote_effect:
  "wp (execute_slice_modification now i n) (\<lambda>r t. if r then performed s now i n t else t = s) s"
  unfolding execute_slice_modification_def put_proposal_def
  by (auto simp: wp_simps apply_modification_True performed_def updated_def votes_of_def fun_eq_iff get_modification_history_def)

lemma propose_effect:
  "wp (propose_slice_modification now i changes a) (\<lambda>n t. n = sat_add U64_MAX (get_or (v_counter s i) 0) 1 \<and>
     v_proposals t = (v_proposals s)((i, n) \<mapsto> \<lparr>mo_slice_id = i, mo_proposal_id = n, mo_proposed_changes = changes,
       mo_proposer = a, mo_status = PendingVote, mo_voting_deadline = sat_add U64_MAX now DEFAULT_VOTING_PERIOD,
       mo_approve_count = 0, mo_reject_count = 0, mo_total_attestors = length (get_attestor_registry s), mo_created_at = now\<rparr>) \<and>
     v_votes t = v_votes s \<and> v_history t = v_history s \<and> v_counter t = (v_counter s)(i \<mapsto> n)) s"
  unfolding propose_slice_modification_def put_proposal_def
  by (auto simp: wp_simps get_attestor_registry_def)

text \<open>An update of an existing proposal keeps the invariant and respects the evolution.\<close>

lemma updated_evolves:
  assumes "v_proposals s k = Some p" "updated s k q vs t" "same_terms p q" "status_follows (mo_status p) (mo_status q)"
    "set (votes_of s k) \<subseteq> set vs" "mo_status p \<noteq> PendingVote \<longrightarrow> vs = votes_of s k"
  shows "proposal_evolves s t"
  using assms by (auto simp: proposal_evolves_def updated_def kept_def kept_refl same_terms_def status_follows_refl)

lemma updated_ok:
  assumes "voting_ok s" "v_proposals s k = Some p" "updated s k q vs t" "mo_status q \<noteq> ExecutedVote" "mo_status p \<noteq> ExecutedVote"
    "v_history t = v_history s" "ordered vs \<and> mo_approve_count q = min U32_MAX (ayes vs) \<and> mo_reject_count q = min U32_MAX (noes vs) \<and>
      (mo_status q = ApprovedVote \<longrightarrow> approval_reached q)"
  shows "voting_ok t"
  unfolding voting_ok_def
proof (intro conjI)
  show "\<forall>j r. v_proposals t j = Some r \<longrightarrow> tally_ok t j r"
    using assms by (auto simp: voting_ok_def updated_def tally_ok_def)
  show "\<forall>i n. v_proposals t (i, n) \<noteq> None \<longrightarrow> n \<le> get_or (v_counter t i) 0"
    using assms by (cases k) (auto simp: voting_ok_def updated_def)
  show "\<forall>j. v_votes t j \<noteq> None \<longrightarrow> v_proposals t j \<noteq> None"
  proof (intro allI impI)
    fix j assume "v_votes t j \<noteq> None"
    then show "v_proposals t j \<noteq> None" using assms(1,3) unfolding voting_ok_def updated_def
      by (cases "j = k") (auto simp del: split_paired_All)
  qed
  have "executed_ids t i = executed_ids s i" for i
    using assms(2-5) by (auto simp: executed_ids_def updated_def split: if_splits)
  then show "\<forall>i. distinct (map mr_proposal_id (get_modification_history t i)) \<and>
      set (map mr_proposal_id (get_modification_history t i)) = executed_ids t i"
    using assms(1,6) by (simp add: voting_ok_def get_modification_history_def)
qed

lemma vote_counted_safe:
  assumes "voting_ok s" "vote_counted s now k a b t"
  shows "voting_ok t \<and> proposal_evolves s t"
proof -
  obtain p q where p: "v_proposals s k = Some p" "mo_status p = PendingVote" "map_of (votes_of s k) a = None"
    and q: "q = p\<lparr>mo_approve_count := (if b then sat_add U32_MAX (mo_approve_count p) 1 else mo_approve_count p),
       mo_reject_count := (if b then mo_reject_count p else sat_add U32_MAX (mo_reject_count p) 1)\<rparr>"
    and t: "updated s k q (map_set a b (votes_of s k)) t" "v_history t = v_history s"
    using assms(2) unfolding vote_counted_def by blast
  have tally: "tally_ok s k p" using assms(1) p(1) by (cases k) (simp add: voting_ok_def)
  have "voting_ok t"
    using p q t(2) tally map_set_fresh_votes [OF p(3), of b]
    by (intro updated_ok [OF assms(1) p(1) t(1)]) (auto simp: tally_ok_def map_set_ordered sat_add_def)
  moreover have "proposal_evolves s t"
    using p q map_set_fresh_votes(3) [OF p(3)] by (intro updated_evolves [OF p(1) t(1)]) (auto simp: same_terms_def)
  ultimately show ?thesis by simp
qed

lemma decided_safe:
  assumes "voting_ok s" "decided s k t"
  shows "voting_ok t \<and> proposal_evolves s t"
proof -
  obtain p where p: "v_proposals s k = Some p" "mo_status p = PendingVote"
    and t: "updated s k (p\<lparr>mo_status := (if approval_reached p then ApprovedVote else RejectedVote)\<rparr>) (votes_of s k) t"
      "v_history t = v_history s"
    using assms(2) unfolding decided_def by blast
  have tally: "tally_ok s k p" using assms(1) p(1) by (cases k) (simp add: voting_ok_def)
  have "voting_ok t"
    using p t(2) tally by (intro updated_ok [OF assms(1) p(1) t(1)]) (auto simp: tally_ok_def approval_reached_def)
  moreover have "proposal_evolves s t"
    using p by (intro updated_evolves [OF p(1) t(1)]) (auto simp: same_terms_def)
  ultimately show ?thesis by simp
qed

lemma performed_safe:
  assumes "voting_ok s" "performed s now i n t"
  shows "voting_ok t \<and> proposal_evolves s t"
proof -
  obtain p r where p: "v_proposals s (i, n) = Some p" "mo_status p = ApprovedVote"
    and t: "updated s (i, n) (p\<lparr>mo_status := ExecutedVote\<rparr>) (votes_of s (i, n)) t"
    and h: "get_modification_history t = (get_modification_history s)(i := get_modification_history s i @ [r])" "mr_proposal_id r = n"
    using assms(2) unfolding performed_def by force
  have tally: "tally_ok s (i, n) p" using assms(1) p(1) by (simp add: voting_ok_def)
  have ids: "executed_ids t j = (if j = i then insert n (executed_ids s i) else executed_ids s j)" for j
    using p t by (auto simp: executed_ids_def updated_def)
  have new: "n \<notin> executed_ids s i" using p by (simp add: executed_ids_def)
  have "voting_ok t"
    unfolding voting_ok_def
  proof (intro conjI)
    have "approval_reached (p\<lparr>mo_status := ExecutedVote\<rparr>)"
      using tally p(2) by (simp add: tally_ok_def approval_reached_def)
    then show "\<forall>j r. v_proposals t j = Some r \<longrightarrow> tally_ok t j r"
      using assms(1) t tally unfolding voting_ok_def updated_def tally_ok_def by (simp del: split_paired_All)
    show "\<forall>i n. v_proposals t (i, n) \<noteq> None \<longrightarrow> n \<le> get_or (v_counter t i) 0"
      using assms(1) t p by (auto simp: voting_ok_def updated_def)
    show "\<forall>j. v_votes t j \<noteq> None \<longrightarrow> v_proposals t j \<noteq> None"
      using assms(1) t unfolding voting_ok_def updated_def by (auto simp del: split_paired_All)
    show "\<forall>j. distinct (map mr_proposal_id (get_modification_history t j)) \<and>
        set (map mr_proposal_id (get_modification_history t j)) = executed_ids t j"
      using assms(1) new unfolding voting_ok_def h(1) ids by (simp add: h(2))
  qed
  moreover have "proposal_evolves s t"
    using p by (intro updated_evolves [OF p(1) t(1)]) (auto simp: same_terms_def)
  ultimately show ?thesis by simp
qed

lemma propose_safe:
  assumes "voting_ok s" "get_or (v_counter s i) 0 < U64_MAX"
  shows "wp (propose_slice_modification now i changes a) (\<lambda>_ t. voting_ok t \<and> proposal_evolves s t) s"
proof (rule wp_mono [OF propose_effect], elim conjE)
  fix n and t :: voting
  let ?p = "\<lparr>mo_slice_id = i, mo_proposal_id = n, mo_proposed_changes = changes, mo_proposer = a, mo_status = PendingVote,
    mo_voting_deadline = sat_add U64_MAX now DEFAULT_VOTING_PERIOD, mo_approve_count = 0, mo_reject_count = 0,
    mo_total_attestors = length (get_attestor_registry s), mo_created_at = now\<rparr>"
  assume n: "n = sat_add U64_MAX (get_or (v_counter s i) 0) 1" and t: "v_proposals t = (v_proposals s)((i, n) \<mapsto> ?p)"
    "v_votes t = v_votes s" "v_history t = v_history s" "v_counter t = (v_counter s)(i \<mapsto> n)"
  have next_id: "n = Suc (get_or (v_counter s i) 0)" using n assms(2) by (simp add: sat_add_def)
  have fresh: "v_proposals s (i, n) = None"
  proof (rule ccontr)
    assume "v_proposals s (i, n) \<noteq> None"
    then have "n \<le> get_or (v_counter s i) 0" using assms(1) unfolding voting_ok_def by blast
    then show False using next_id by simp
  qed
  then have none: "v_votes s (i, n) = None" using assms(1) unfolding voting_ok_def by blast
  have votes: "votes_of t = votes_of s" by (simp add: votes_of_def fun_eq_iff t(2))
  have "tally_ok t (i, n) ?p" using none by (simp add: tally_ok_def votes votes_of_def ayes_def noes_def ordered_def)
  then have tallies: "\<forall>k p. v_proposals t k = Some p \<longrightarrow> tally_ok t k p"
    using assms(1) unfolding voting_ok_def t(1) by (auto simp: tally_ok_def votes simp del: split_paired_All)
  have "executed_ids t j = executed_ids s j" for j using fresh by (auto simp: executed_ids_def t(1))
  then have "voting_ok t"
    using assms(1) tallies next_id unfolding voting_ok_def get_modification_history_def t(2,3)
    by (auto simp: t(1,4) le_SucI simp del: split_paired_All)
  moreover have "proposal_evolves s t"
    using fresh by (auto simp: proposal_evolves_def t(1) kept_def votes same_terms_def status_follows_refl)
  ultimately show "voting_ok t \<and> proposal_evolves s t" by simp
qed

lemma voting_safe_refl: "voting_ok s \<Longrightarrow> voting_ok s \<and> proposal_evolves s s"
  by (simp add: proposal_evolves_refl)

lemma voting_config_safe:
  assumes "voting_ok s" "v_proposals t = v_proposals s" "v_votes t = v_votes s" "v_history t = v_history s" "v_counter t = v_counter s"
  shows "voting_ok t \<and> proposal_evolves s t"
proof -
  have "votes_of t = votes_of s" "get_modification_history t = get_modification_history s" "executed_ids t = executed_ids s"
    using assms by (simp_all add: votes_of_def get_modification_history_def executed_ids_def fun_eq_iff)
  then show ?thesis
    using assms unfolding voting_ok_def tally_ok_def proposal_evolves_def kept_def same_terms_def by (simp add: status_follows_refl)
qed

lemma voting_step_safe:
  assumes "voting_ok s" "voting_step s t"
  shows "voting_ok t \<and> proposal_evolves s t"
  using assms(2)
proof cases
  case (1 as u)
  then show ?thesis
    using assms(1) by (intro voting_config_safe) (auto simp: register_attestor_registry_def exec extend_rent_def)
next
  case (2 q u)
  then show ?thesis
    using assms(1) by (intro voting_config_safe) (auto simp: set_voting_config_def exec extend_rent_def)
next
  case (3 i now changes a n)
  from wpD [OF propose_safe [OF assms(1) 3(1)] 3(2)] show ?thesis .
next
  case (4 now i n voter approve b)
  from wpD [OF vote_effect 4(1)] show ?thesis
    using vote_counted_safe [OF assms(1)] voting_safe_refl [OF assms(1)] by (auto split: if_splits)
next
  case (5 i n b)
  from wpD [OF resolve_effect 5(1)] show ?thesis
    using decided_safe [OF assms(1)] voting_safe_refl [OF assms(1)] by (auto split: if_splits)
next
  case (6 now i n b)
  from wpD [OF execute_vote_effect 6(1)] show ?thesis
    using performed_safe [OF assms(1)] voting_safe_refl [OF assms(1)] by (auto split: if_splits)
qed

interpretation consensus: monotone_system no_votes voting_step voting_ok proposal_evolves
proof
  show "voting_ok s" if "no_votes s" for s
    using that by (simp add: no_votes_def voting_ok_def get_modification_history_def executed_ids_def)
  show "voting_ok t" "proposal_evolves s t" if "voting_ok s" "voting_step s t" for s t
    using voting_step_safe [OF that] by simp_all
qed (rule proposal_evolves_refl, rule proposal_evolves_trans)

subsection \<open>Properties\<close>

lemma count_filter: "distinct (map f xs) \<Longrightarrow> length (filter (\<lambda>x. f x = n) xs) = of_bool (n \<in> set (map f xs))"
  by (induction xs) auto

text \<open>
  Histories of the voting module, the latest state first, and in them the moment a vote was cast and the
  moment a proposal was made, with the registry of that moment.
\<close>

inductive voting_history :: "voting list \<Rightarrow> bool" where
  "no_votes s \<Longrightarrow> voting_history [s]"
| "voting_history (s # ss) \<Longrightarrow> voting_step s t \<Longrightarrow> voting_history (t # s # ss)"

definition cast_by_attestor :: "voting list \<Rightarrow> nat \<times> nat \<Rightarrow> address \<times> bool \<Rightarrow> bool" where
  "cast_by_attestor ss k v \<longleftrightarrow> (\<exists>later t s earlier. ss = later @ t # s # earlier \<and> v \<in> set (votes_of t k) \<and>
     fst v \<notin> fst ` set (votes_of s k) \<and> fst v \<in> set (get_attestor_registry s))"

definition made_for :: "voting list \<Rightarrow> nat \<times> nat \<Rightarrow> nat \<Rightarrow> bool" where
  "made_for ss k n \<longleftrightarrow> (\<exists>later t s earlier. ss = later @ t # s # earlier \<and> v_proposals s k = None \<and>
     v_proposals t k \<noteq> None \<and> votes_of t k = [] \<and> n = length (get_attestor_registry s))"

lemma history_reachable: "voting_history ss \<Longrightarrow> ss \<noteq> [] \<and> reachable no_votes voting_step (hd ss)"
  by (induction rule: voting_history.induct) (auto intro: reachable_start reachable_step)

lemma later_history:
  "cast_by_attestor ss k v \<Longrightarrow> cast_by_attestor (t # ss) k v" "made_for ss k n \<Longrightarrow> made_for (t # ss) k n"
  unfolding cast_by_attestor_def made_for_def by (metis append_Cons)+

lemma set_map_set: "set (map_set a b vs) \<subseteq> insert (a, b) (set vs)"
  by (induction a b vs rule: map_set.induct) auto

text \<open>The only step that adds a vote, and the only one that adds a proposal.\<close>

lemma step_votes:
  assumes "voting_step s t" "v \<in> set (votes_of t k)" "v \<notin> set (votes_of s k)"
  shows "fst v \<notin> fst ` set (votes_of s k) \<and> fst v \<in> set (get_attestor_registry s)"
  using assms(1)
proof cases
  case (4 now i n voter approve b)
  have "b" "vote_counted s now (i, n) voter approve t"
    using wpD [OF vote_effect 4(1)] assms(2,3) by (cases b; auto)+
  then obtain q where "is_registered_attestor s voter" "map_of (votes_of s (i, n)) voter = None"
    "votes_of t = (votes_of s)((i, n) := map_set voter approve (votes_of s (i, n)))"
    by (auto simp: vote_counted_def updated_def)
  moreover from this have "k = (i, n)" "v = (voter, approve)"
    using assms(2,3) set_map_set [of voter approve "votes_of s (i, n)"] by (auto split: if_splits)
  ultimately show ?thesis
    by (auto simp: map_of_eq_None_iff is_registered_attestor_def list_ex_iff)
next
  case (3 i now changes a n)
  then show ?thesis using wpD [OF propose_effect 3(2)] assms(2,3) by (simp add: votes_of_def)
next
  case (5 i n b)
  then show ?thesis
    using wpD [OF resolve_effect 5(1)] assms(2,3) by (cases b) (auto simp: decided_def updated_def split: if_splits)
next
  case (6 now i n b)
  then show ?thesis
    using wpD [OF execute_vote_effect 6(1)] assms(2,3) by (cases b) (auto simp: performed_def updated_def split: if_splits)
qed (use assms(2,3) in \<open>auto simp: votes_of_def register_attestor_registry_def set_voting_config_def exec extend_rent_def\<close>)

lemma step_proposals:
  assumes "voting_ok s" "voting_step s t" "v_proposals s k = None" "v_proposals t k = Some p"
  shows "mo_total_attestors p = length (get_attestor_registry s) \<and> votes_of t k = []"
  using assms(2)
proof cases
  case (3 i now changes a n)
  have "v_votes s k = None" using assms(1,3) unfolding voting_ok_def by blast
  then show ?thesis using wpD [OF propose_effect 3(2)] assms(3,4) by (auto simp: votes_of_def split: if_splits)
next
  case (4 now i n voter approve b)
  then show ?thesis
    using wpD [OF vote_effect 4(1)] assms(3,4) by (cases b) (auto simp: vote_counted_def updated_def split: if_splits)
next
  case (5 i n b)
  then show ?thesis
    using wpD [OF resolve_effect 5(1)] assms(3,4) by (cases b) (auto simp: decided_def updated_def split: if_splits)
next
  case (6 now i n b)
  then show ?thesis
    using wpD [OF execute_vote_effect 6(1)] assms(3,4) by (cases b) (auto simp: performed_def updated_def split: if_splits)
qed (use assms(3,4) in \<open>auto simp: register_attestor_registry_def set_voting_config_def exec extend_rent_def\<close>)

lemma history_votes: "voting_history ss \<Longrightarrow> v \<in> set (votes_of (hd ss) k) \<Longrightarrow> cast_by_attestor ss k v"
proof (induction rule: voting_history.induct)
  case (2 s ss t)
  show ?case
  proof (cases "v \<in> set (votes_of s k)")
    case False
    then show ?thesis
      using step_votes [OF 2(2) _ False] 2(4) unfolding cast_by_attestor_def by (metis append_Nil list.sel(1))
  qed (use 2 in \<open>auto intro: later_history\<close>)
qed (simp add: no_votes_def votes_of_def)

lemma history_proposals:
  "voting_history ss \<Longrightarrow> v_proposals (hd ss) k = Some p \<Longrightarrow> made_for ss k (mo_total_attestors p)"
proof (induction arbitrary: p rule: voting_history.induct)
  case (2 s ss t)
  have ok: "voting_ok s" using history_reachable [OF 2(1)] consensus.inv_reachable by auto
  show ?case
  proof (cases "v_proposals s k")
    case None
    then show ?thesis
      using step_proposals [OF ok 2(2) None] 2(4) unfolding made_for_def by (metis append_Nil list.sel(1) option.distinct(1))
  next
    case (Some q)
    then have "same_terms q p"
      using voting_step_safe [OF ok 2(2)] 2(4) unfolding proposal_evolves_def kept_def
      by (metis list.sel(1) option.inject)
    then show ?thesis using 2(3) Some by (auto simp: same_terms_def intro: later_history)
  qed
qed (simp add: no_votes_def)

text \<open>C30. Through every history of the voting module (with fewer than \<open>2 ^ 64 - 1\<close> proposals per slice)
  the counters of a proposal are the votes that were cast (up to the width of the counters), by pairwise different addresses, each of
  which was in the attestor registry when it voted. A proposal that is approved or executed has at least half as many
  approving votes as the registry had entries when the proposal was made; the registry may be replaced in between.
  The history of a slice lists every executed proposal exactly once.\<close>

theorem executed_by_consensus:
  assumes "voting_history ss" "get_modification_proposal (hd ss) i n = Some p"
  shows "let votes = votes_of (hd ss) (i, n) in
     distinct (map fst votes) \<and> (\<forall>v \<in> set votes. cast_by_attestor ss (i, n) v) \<and>
     mo_approve_count p = min U32_MAX (ayes votes) \<and> mo_reject_count p = min U32_MAX (noes votes) \<and>
     made_for ss (i, n) (mo_total_attestors p) \<and>
     (mo_status p \<in> {ApprovedVote, ExecutedVote} \<longrightarrow>
        0 < mo_total_attestors p \<and> mo_total_attestors p \<le> 2 * ayes votes) \<and>
     length (filter (\<lambda>r. mr_proposal_id r = n) (get_modification_history (hd ss) i)) = of_bool (mo_status p = ExecutedVote)"
proof -
  let ?s = "hd ss"
  have ok: "voting_ok ?s" using consensus.inv_reachable history_reachable [OF assms(1)] by blast
  have p: "v_proposals ?s (i, n) = Some p" using assms(2) by (simp add: get_modification_proposal_def)
  then have tally: "tally_ok ?s (i, n) p" using ok by (simp add: voting_ok_def)
  let ?ids = "map mr_proposal_id (get_modification_history ?s i)"
  have h: "distinct ?ids" "set ?ids = executed_ids ?s i" using ok unfolding voting_ok_def by blast+
  have "length (filter (\<lambda>r. mr_proposal_id r = n) (get_modification_history ?s i)) = of_bool (n \<in> set ?ids)"
    by (rule count_filter [OF h(1)])
  also have "\<dots> = of_bool (mo_status p = ExecutedVote)" unfolding h(2) using p by (simp add: executed_ids_def)
  finally show ?thesis
    using tally ordered_distinct history_votes [OF assms(1)] history_proposals [OF assms(1) p]
    by (auto simp: Let_def tally_ok_def approval_reached_def)
qed

text \<open>Through every history of voting calls a proposal keeps its terms (slice, changes,
  proposer, deadline, number of attestors), its status only moves from pending to approved or
  rejected and from approved to executed, no vote is ever lost, and after the decision no vote is
  added.\<close>

theorem vote_lifecycle:
  assumes "reachable no_votes voting_step s" "voting_step\<^sup>*\<^sup>* s t" "get_modification_proposal s i n = Some p"
  shows "\<exists>q. get_modification_proposal t i n = Some q \<and> same_terms p q \<and> status_follows (mo_status p) (mo_status q) \<and>
     set (votes_of s (i, n)) \<subseteq> set (votes_of t (i, n)) \<and> (mo_status p \<noteq> PendingVote \<longrightarrow> votes_of t (i, n) = votes_of s (i, n))"
  using consensus.evolves_steps [OF assms(2) consensus.inv_reachable [OF assms(1)]] assms(3)
  by (auto simp: proposal_evolves_def kept_def get_modification_proposal_def)

text \<open>
  A history with two attestors: one of them approves, and the proposal is decided and executed at
  once, days before its deadline.
\<close>

definition two_attestors :: voting where
  "two_attestors = after (register_attestor_registry [1, 2]) \<lparr>ms_events = [], ms_rent = [], v_counter = Map.empty,
     v_proposals = Map.empty, v_votes = Map.empty, v_history = Map.empty, v_attestors = None, v_min_quorum = None\<rparr>"

definition approved_once :: voting where
  "approved_once = after (vote_on_modification 11 5 1 1 True) (after (propose_slice_modification 10 5 [0, 0, 0, 0, 7] 1) two_attestors)"

definition carried_out :: voting where
  "carried_out = after (execute_slice_modification 12 5 1) (after (resolve_modification_voting 5 1) approved_once)"

lemma voting_step_after:
  "reachable no_votes voting_step s \<Longrightarrow> reachable no_votes voting_step (after (register_attestor_registry as) s)"
  "reachable no_votes voting_step s \<Longrightarrow> get_or (v_counter s i) 0 < U64_MAX \<Longrightarrow>
     reachable no_votes voting_step (after (propose_slice_modification now i changes a) s)"
  "reachable no_votes voting_step s \<Longrightarrow> reachable no_votes voting_step (after (vote_on_modification now i n a b) s)"
  "reachable no_votes voting_step s \<Longrightarrow> reachable no_votes voting_step (after (resolve_modification_voting i n) s)"
  "reachable no_votes voting_step s \<Longrightarrow> reachable no_votes voting_step (after (execute_slice_modification now i n) s)"
  unfolding after_def by (auto split: sum.splits intro: reachable_step voting_step.intros)

lemmas voting_run = after_def exec module_exec voting_defs get_attestor_registry_def is_registered_attestor_def
  get_voting_config_def sat_add_def DEFAULT_VOTING_PERIOD_def DEFAULT_MIN_QUORUM_def approval_reached_def
  parse_slice_modification_def u32_from_be_bytes_def apply_modification_True get_modification_history_def extend_rent_def emit_def

lemma two_attestors_eq: "v_counter two_attestors = Map.empty" "v_proposals two_attestors = Map.empty"
    "v_votes two_attestors = Map.empty" "v_attestors two_attestors = Some [1, 2]" "v_min_quorum two_attestors = None"
    "v_history two_attestors = Map.empty"
  by (simp_all add: two_attestors_def voting_run)

lemma approved_once_eq: "v_votes approved_once (5, 1) = Some [(1, True)]" "v_min_quorum approved_once = None"
    "v_history approved_once = Map.empty"
    "v_proposals approved_once (5, 1) = Some \<lparr>mo_slice_id = 5, mo_proposal_id = 1, mo_proposed_changes = [0, 0, 0, 0, 7],
       mo_proposer = 1, mo_status = PendingVote, mo_voting_deadline = 604810, mo_approve_count = 1, mo_reject_count = 0,
       mo_total_attestors = 2, mo_created_at = 10\<rparr>"
  by (simp_all add: approved_once_def voting_run two_attestors_eq)

lemma carried_out_eq: "v_votes carried_out (5, 1) = Some [(1, True)]"
    "v_proposals carried_out (5, 1) = Some \<lparr>mo_slice_id = 5, mo_proposal_id = 1, mo_proposed_changes = [0, 0, 0, 0, 7],
       mo_proposer = 1, mo_status = ExecutedVote, mo_voting_deadline = 604810, mo_approve_count = 1, mo_reject_count = 0,
       mo_total_attestors = 2, mo_created_at = 10\<rparr>"
  by (simp_all add: carried_out_def voting_run approved_once_eq del: One_nat_def)

lemma approved_once_reachable: "reachable no_votes voting_step approved_once"
  unfolding approved_once_def two_attestors_def
  by (intro voting_step_after reachable_start) (simp_all add: no_votes_def voting_run)

lemma carried_out_reachable: "reachable no_votes voting_step carried_out"
  unfolding carried_out_def by (intro voting_step_after approved_once_reachable)

lemma history_after:
  assumes "voting_history ss" "ss \<noteq> []" "voting_step (hd ss) t"
  shows "voting_history (t # ss)"
  using assms by (cases ss) (auto intro: voting_history.intros)

lemma carried_out_history: "\<exists>ss. voting_history ss \<and> hd ss = carried_out"
proof -
  have "\<exists>ss. voting_history ss \<and> ss \<noteq> [] \<and> hd ss = s" if "reachable no_votes voting_step s" for s
    using that
  proof (induction rule: reachable.induct)
    case (reachable_start s)
    then show ?case by (intro exI [of _ "[s]"]) (auto intro: voting_history.intros)
  next
    case (reachable_step s t)
    then obtain ss where "voting_history ss" "ss \<noteq> []" "hd ss = s" by blast
    then show ?case using history_after [of ss t] reachable_step.hyps(2) by (intro exI [of _ "t # ss"]) simp
  qed
  then show ?thesis using carried_out_reachable by blast
qed

theorem executed_by_consensus_witness:
  "\<exists>ss. voting_history ss \<and> hd ss = carried_out \<and> cast_by_attestor ss (5, 1) (1, True) \<and> made_for ss (5, 1) 2 \<and>
     length (filter (\<lambda>r. mr_proposal_id r = 1) (get_modification_history carried_out 5)) = 1"
proof -
  obtain ss where ss: "voting_history ss" "hd ss = carried_out" using carried_out_history by blast
  from executed_by_consensus [OF this(1), of 5 1] ss show ?thesis
    using carried_out_eq by (auto simp: get_modification_proposal_def votes_of_def Let_def simp del: One_nat_def)
qed

theorem vote_lifecycle_witness:
  "\<exists>q. get_modification_proposal carried_out 5 1 = Some q \<and> mo_voting_deadline q = 604810 \<and>
     set (votes_of approved_once (5, 1)) \<subseteq> set (votes_of carried_out (5, 1))"
proof -
  have "voting_step\<^sup>*\<^sup>* approved_once carried_out"
  proof -
    let ?m = "after (resolve_modification_voting 5 1) approved_once"
    have "voting_step approved_once ?m"
      by (rule voting_step.intros(5) [of 5 1 _ True]) (simp add: voting_run approved_once_eq del: One_nat_def)
    moreover have "voting_step ?m carried_out"
      unfolding carried_out_def
      by (rule voting_step.intros(6) [of 12 5 1 _ True]) (simp add: voting_run approved_once_eq del: One_nat_def)
    ultimately show ?thesis by simp
  qed
  from vote_lifecycle [OF approved_once_reachable this, of 5 1] show ?thesis
    by (auto simp: get_modification_proposal_def approved_once_eq same_terms_def simp del: One_nat_def)
qed

end
