(* ===== verification/Slice_Network.thy ===== *)
theory Slice_Network
  imports Module_Store
begin

section \<open>Failover and performance of slices\<close>

text \<open>
  The modules \<open>slice_failover.rs\<close> (backup slices that take over after repeated failures) and
  \<open>slice_performance.rs\<close> (measurements of attestors, the weights computed from them, and the
  reputation of an attestor with its history), with the entry points of \<open>lib.rs\<close> around them.
\<close>

subsection \<open>Failover\<close>

record FailoverConfig =
  fc_primary_slice_id :: nat
  fc_backup_slice_id :: nat
  fc_failure_threshold :: nat
  fc_is_active :: bool
  fc_created_at :: nat

datatype FailoverReason = ThresholdExceeded | ExplicitFailure | Timeout

fun reason_code :: "FailoverReason \<Rightarrow> nat" where
  "reason_code ThresholdExceeded = 0"
| "reason_code ExplicitFailure = 1"
| "reason_code Timeout = 2"

datatype SliceFailoverKey = FK_BackupSlices nat | FK_ActiveSlice nat | FK_FailoverConfig nat nat
  | FK_FailureCount nat | FK_LastFailureTime nat

record failover = "SliceFailoverKey module_store" +
  f_backups :: "nat \<rightharpoonup> nat list"
  f_active :: "nat \<rightharpoonup> nat"
  f_config :: "nat \<times> nat \<rightharpoonup> FailoverConfig"
  f_failures :: "nat \<rightharpoonup> nat"
  f_last_failure :: "nat \<rightharpoonup> nat"

type_synonym 'a failover_op = "(failure, failover, 'a) act"
type_synonym ('tok, 'a) failover_entry = "(failure, 'tok world \<times> failover, 'a) act"

definition get_backup_slices :: "failover \<Rightarrow> nat \<Rightarrow> nat list" where
  "get_backup_slices s primary_slice_id = get_or (f_backups s primary_slice_id) []"

definition get_active_slice :: "failover \<Rightarrow> nat \<Rightarrow> nat" where
  "get_active_slice s slice_id = get_or (f_active s slice_id) slice_id"

definition get_failure_count :: "failover \<Rightarrow> nat \<Rightarrow> nat" where
  "get_failure_count s slice_id = get_or (f_failures s slice_id) 0"

definition put_config :: "nat \<Rightarrow> nat \<Rightarrow> FailoverConfig \<Rightarrow> unit failover_op" where
  "put_config primary backup config = (thenM (modify (\<lambda>s. s\<lparr>f_config := (f_config s)((primary, backup) \<mapsto> config)\<rparr>)) (
                                      extend_rent (FK_FailoverConfig primary backup)))"

definition put_active :: "nat \<Rightarrow> nat \<Rightarrow> unit failover_op" where
  "put_active primary active = (thenM (modify (\<lambda>s. s\<lparr>f_active := (f_active s)(primary \<mapsto> active)\<rparr>)) (
                               extend_rent (FK_ActiveSlice primary)))"

definition put_failures :: "nat \<Rightarrow> nat \<Rightarrow> unit failover_op" where
  "put_failures primary failures = (thenM (modify (\<lambda>s. s\<lparr>f_failures := (f_failures s)(primary \<mapsto> failures)\<rparr>)) (
                                   extend_rent (FK_FailureCount primary)))"

definition register_backup_slice :: "nat \<Rightarrow> nat \<Rightarrow> nat \<Rightarrow> nat \<Rightarrow> nat failover_op" where
  "register_backup_slice now primary_slice_id backup_slice_id failure_threshold = (thenM (guard (primary_slice_id \<noteq> backup_slice_id) (Err InvalidSlice)) (
                                                                                  bindM (gets (\<lambda>s. get_backup_slices s primary_slice_id)) (\<lambda>backups.
                                                                                  thenM (modify (\<lambda>s. s\<lparr>f_backups := (f_backups s)(primary_slice_id \<mapsto> backups @ [backup_slice_id])\<rparr>)) (
                                                                                  thenM (extend_rent (FK_BackupSlices primary_slice_id)) (
                                                                                  thenM (put_config primary_slice_id backup_slice_id \<lparr>fc_primary_slice_id = primary_slice_id,
       fc_backup_slice_id = backup_slice_id, fc_failure_threshold = failure_threshold, fc_is_active = False,
       fc_created_at = now\<rparr>) (
                                                                                  thenM (emit ''bkup_reg'' [VU primary_slice_id] [VU primary_slice_id, VU backup_slice_id, VU 0, VU now]) (
                                                                                  returnM backup_slice_id)))))))"

definition activate_failover :: "nat \<Rightarrow> nat \<Rightarrow> nat \<Rightarrow> FailoverReason \<Rightarrow> bool failover_op" where
  "activate_failover now primary_slice_id backup_slice_id reason = (bindM (gets (\<lambda>s. f_config s (primary_slice_id, backup_slice_id))) (\<lambda>found.
                                                                   case found of
       None \<Rightarrow> returnM False
     | Some config \<Rightarrow>
         if fc_is_active config then returnM False
         else (thenM (put_config primary_slice_id backup_slice_id (config\<lparr>fc_is_active := True\<rparr>)) (
              thenM (put_active primary_slice_id backup_slice_id) (
              thenM (emit ''fail_act'' [VU primary_slice_id]
             [VU primary_slice_id, VU backup_slice_id, VU (reason_code reason), VU now]) (
              thenM (emit ''fail_evt'' [VU primary_slice_id] [VU primary_slice_id, VU backup_slice_id, VU 1, VU now]) (
              returnM True)))))))"

definition record_slice_failure :: "nat \<Rightarrow> nat \<Rightarrow> FailoverReason \<Rightarrow> bool failover_op" where
  "record_slice_failure now primary_slice_id reason = (bindM (gets (\<lambda>s. get_failure_count s primary_slice_id)) (\<lambda>old_count.
                                                      (let failure_count = sat_add U32_MAX old_count 1 in
                                                      thenM (put_failures primary_slice_id failure_count) (
                                                      thenM (modify (\<lambda>s. s\<lparr>f_last_failure := (f_last_failure s)(primary_slice_id \<mapsto> now)\<rparr>)) (
                                                      thenM (extend_rent (FK_LastFailureTime primary_slice_id)) (
                                                      bindM (gets (\<lambda>s. get_backup_slices s primary_slice_id)) (\<lambda>backups.
                                                      case backups of
       [] \<Rightarrow> returnM False
     | primary_backup # others \<Rightarrow> (bindM (gets (\<lambda>s. f_config s (primary_slice_id, primary_backup))) (\<lambda>found.
                                             case found of
           None \<Rightarrow> returnM False
         | Some config \<Rightarrow>
             if fc_failure_threshold config \<le> failure_count \<and> \<not> fc_is_active config
             then activate_failover now primary_slice_id primary_backup reason
             else returnM False)))))))))"

definition revert_failover :: "nat \<Rightarrow> nat \<Rightarrow> nat \<Rightarrow> bool failover_op" where
  "revert_failover now primary_slice_id backup_slice_id = (bindM (gets (\<lambda>s. f_config s (primary_slice_id, backup_slice_id))) (\<lambda>found.
                                                          case found of
       None \<Rightarrow> returnM False
     | Some config \<Rightarrow>
         if \<not> fc_is_active config then returnM False
         else (thenM (put_config primary_slice_id backup_slice_id (config\<lparr>fc_is_active := False\<rparr>)) (
              thenM (put_active primary_slice_id primary_slice_id) (
              thenM (put_failures primary_slice_id 0) (
              thenM (emit ''fail_rev'' [VU primary_slice_id] [VU primary_slice_id, VU backup_slice_id, VU now]) (
              thenM (emit ''fail_evt'' [VU primary_slice_id] [VU primary_slice_id, VU backup_slice_id, VU 2, VU now]) (
              returnM True))))))))"

definition reset_failure_count :: "nat \<Rightarrow> unit failover_op" where
  "reset_failure_count slice_id = put_failures slice_id 0"

text \<open>The entry points load the vault with \<open>try_load_vault\<close> and test the owner.\<close>

definition slice_owner_only :: "'tok env \<Rightarrow> nat \<Rightarrow> address \<Rightarrow> ('tok, unit) handler" where
  "slice_owner_only e vault_id caller = (thenM (require_auth e caller) (
                                        bindM (try_load_vault vault_id) (\<lambda>found.
                                        bindM (ok_or found (Err VaultNotFound)) (\<lambda>vault.
                                        guard (caller = v_owner vault) (Err NotOwner)))))"

definition register_backup_slice_entry ::
  "'tok env \<Rightarrow> nat \<Rightarrow> address \<Rightarrow> nat \<Rightarrow> nat \<Rightarrow> nat \<Rightarrow> ('tok, nat) failover_entry" where
  "register_backup_slice_entry e vault_id caller primary backup threshold = (thenM (on_vault (slice_owner_only e vault_id caller)) (
                                                                            on_module (register_backup_slice (ledger_timestamp e) primary backup threshold)))"

definition record_slice_failure_entry ::
  "'tok env \<Rightarrow> nat \<Rightarrow> address \<Rightarrow> nat \<Rightarrow> FailoverReason \<Rightarrow> ('tok, bool) failover_entry" where
  "record_slice_failure_entry e vault_id caller primary reason = (thenM (on_vault (slice_owner_only e vault_id caller)) (
                                                                 on_module (record_slice_failure (ledger_timestamp e) primary reason)))"

definition activate_failover_entry ::
  "'tok env \<Rightarrow> nat \<Rightarrow> address \<Rightarrow> nat \<Rightarrow> nat \<Rightarrow> FailoverReason \<Rightarrow> ('tok, bool) failover_entry" where
  "activate_failover_entry e vault_id caller primary backup reason = (thenM (on_vault (slice_owner_only e vault_id caller)) (
                                                                     on_module (activate_failover (ledger_timestamp e) primary backup reason)))"

definition revert_failover_entry ::
  "'tok env \<Rightarrow> nat \<Rightarrow> address \<Rightarrow> nat \<Rightarrow> nat \<Rightarrow> ('tok, bool) failover_entry" where
  "revert_failover_entry e vault_id caller primary backup = (thenM (on_vault (slice_owner_only e vault_id caller)) (
                                                            on_module (revert_failover (ledger_timestamp e) primary backup)))"

lemmas failover_defs = put_config_def put_active_def put_failures_def register_backup_slice_def
  activate_failover_def record_slice_failure_def revert_failover_def reset_failure_count_def
  get_backup_slices_def get_active_slice_def get_failure_count_def

subsection \<open>Performance\<close>

record PerformanceMetrics =
  pm_total_responses :: nat
  pm_successful_responses :: nat
  pm_total_response_time_ms :: nat
  pm_last_recorded_at :: nat

record AttestorWeight =
  aw_attestor :: address
  aw_weight_bps :: nat

record DecayHistoryEntry =
  dh_applied_at :: nat
  dh_decay_rate_bps :: nat
  dh_reputation_before :: nat
  dh_reputation_after :: nat
  dh_reason :: string

datatype SlicePerfKey = PK_AttestorPerf nat address | PK_SliceWeights nat | PK_ReputationDecay nat address
  | PK_DecayHistory nat address nat | PK_DecayHistoryCount nat address

record performance = "SlicePerfKey module_store" +
  p_perf :: "nat \<times> address \<rightharpoonup> PerformanceMetrics"
  p_weights :: "nat \<rightharpoonup> AttestorWeight list"
  p_reputation :: "nat \<times> address \<rightharpoonup> nat"
  p_decay_history :: "nat \<times> address \<times> nat \<rightharpoonup> DecayHistoryEntry"
  p_decay_count :: "nat \<times> address \<rightharpoonup> nat"

type_synonym 'a performance_op = "(failure, performance, 'a) act"
type_synonym ('tok, 'a) performance_entry = "(failure, 'tok world \<times> performance, 'a) act"

definition record_attestor_performance :: "nat \<Rightarrow> nat \<Rightarrow> address \<Rightarrow> bool \<Rightarrow> nat \<Rightarrow> unit performance_op" where
  "record_attestor_performance now slice_id attestor success response_time_ms = (bindM (gets (\<lambda>s. get_or (p_perf s (slice_id, attestor)) \<lparr>pm_total_responses = 0,
       pm_successful_responses = 0, pm_total_response_time_ms = 0, pm_last_recorded_at = 0\<rparr>)) (\<lambda>old.
                                                                                (let metrics = old\<lparr>pm_total_responses := sat_add U64_MAX (pm_total_responses old) 1,
       pm_successful_responses := (if success then sat_add U64_MAX (pm_successful_responses old) 1
         else pm_successful_responses old),
       pm_total_response_time_ms := sat_add U64_MAX (pm_total_response_time_ms old) response_time_ms,
       pm_last_recorded_at := now\<rparr> in
                                                                                thenM (modify (\<lambda>s. s\<lparr>p_perf := (p_perf s)((slice_id, attestor) \<mapsto> metrics)\<rparr>)) (
                                                                                thenM (extend_rent (PK_AttestorPerf slice_id attestor)) (
                                                                                emit ''atst_rec'' [VU slice_id] [VU slice_id, VA attestor, VFlag success, VU response_time_ms])))))"

definition get_attestor_performance :: "performance \<Rightarrow> nat \<Rightarrow> address \<Rightarrow> PerformanceMetrics option" where
  "get_attestor_performance s slice_id attestor = p_perf s (slice_id, attestor)"

text \<open>\<open>checked_div(..).unwrap_or(0)\<close> is HOL's division, which is 0 for a zero divisor.\<close>

definition attestor_score :: "performance \<Rightarrow> nat \<Rightarrow> address \<Rightarrow> nat" where
  "attestor_score s slice_id attestor =
     (case p_perf s (slice_id, attestor) of
        None \<Rightarrow> 0
      | Some m \<Rightarrow>
          let success_rate_scaled = sat_mul U64_MAX (pm_successful_responses m) 1000000 div pm_total_responses m;
              avg_latency = max (pm_total_response_time_ms m div pm_total_responses m) 1
          in success_rate_scaled div avg_latency)"

definition weigh_scored :: "nat \<Rightarrow> nat \<Rightarrow> nat \<times> address \<times> nat \<Rightarrow> AttestorWeight list \<times> nat \<Rightarrow> AttestorWeight list \<times> nat" where
  "weigh_scored score_sum last_idx = (\<lambda>(idx, attestor, score) (weights, bps_assigned).
     let bps = (if idx = last_idx then 10000 - bps_assigned
                else min (sat_mul U64_MAX score 10000 div score_sum) 10000)
     in (weights @ [\<lparr>aw_attestor = attestor, aw_weight_bps = bps\<rparr>], sat_add U32_MAX bps_assigned bps))"

definition calculate_optimal_weights :: "performance \<Rightarrow> nat \<Rightarrow> address list \<Rightarrow> AttestorWeight list" where
  "calculate_optimal_weights s slice_id attestors =
     (let scores = map (attestor_score s slice_id) attestors;
          score_sum = fold (\<lambda>score total. sat_add U64_MAX total score) scores 0;
          attestor_count = length attestors
      in if attestor_count = 0 then []
         else if score_sum = 0 then
           let equal_bps = 10000 div attestor_count; remainder = 10000 - equal_bps * attestor_count
           in map (\<lambda>(idx, attestor). \<lparr>aw_attestor = attestor,
                aw_weight_bps = (if idx = 0 then equal_bps + remainder else equal_bps)\<rparr>) (enumerate 0 attestors)
         else fst (fold (weigh_scored score_sum (attestor_count - 1)) (enumerate 0 (zip attestors scores)) ([], 0)))"

definition reweight_slice :: "nat \<Rightarrow> AttestorWeight list \<Rightarrow> unit performance_op" where
  "reweight_slice slice_id weights = (thenM (modify (\<lambda>s. s\<lparr>p_weights := (p_weights s)(slice_id \<mapsto> weights)\<rparr>)) (
                                     thenM (extend_rent (PK_SliceWeights slice_id)) (
                                     emit ''sl_rewt'' [VU slice_id] [VU slice_id, VU (length weights)])))"

definition get_slice_weights :: "performance \<Rightarrow> nat \<Rightarrow> AttestorWeight list option" where
  "get_slice_weights s slice_id = p_weights s slice_id"

subsection \<open>Reputation\<close>

definition get_reputation_factor :: "performance \<Rightarrow> nat \<Rightarrow> address \<Rightarrow> nat" where
  "get_reputation_factor s slice_id attestor = get_or (p_reputation s (slice_id, attestor)) 10000"

definition record_decay_history ::
  "nat \<Rightarrow> nat \<Rightarrow> address \<Rightarrow> nat \<Rightarrow> nat \<Rightarrow> nat \<Rightarrow> string \<Rightarrow> unit performance_op" where
  "record_decay_history now slice_id attestor rate_bps reputation_before reputation_after reason = (bindM (gets (\<lambda>s. get_or (p_decay_count s (slice_id, attestor)) 0)) (\<lambda>current_count.
                                                                                                   thenM (modify (\<lambda>s. s\<lparr>p_decay_history := (p_decay_history s)((slice_id, attestor, current_count) \<mapsto>
       \<lparr>dh_applied_at = now, dh_decay_rate_bps = rate_bps, dh_reputation_before = reputation_before,
        dh_reputation_after = reputation_after, dh_reason = reason\<rparr>)\<rparr>)) (
                                                                                                   thenM (extend_rent (PK_DecayHistory slice_id attestor current_count)) (
                                                                                                   thenM (modify (\<lambda>s. s\<lparr>p_decay_count := (p_decay_count s)((slice_id, attestor) \<mapsto> sat_add U64_MAX current_count 1)\<rparr>)) (
                                                                                                   extend_rent (PK_DecayHistoryCount slice_id attestor))))))"

definition put_reputation :: "nat \<Rightarrow> address \<Rightarrow> nat \<Rightarrow> unit performance_op" where
  "put_reputation slice_id attestor reputation = (thenM (modify (\<lambda>s. s\<lparr>p_reputation := (p_reputation s)((slice_id, attestor) \<mapsto> reputation)\<rparr>)) (
                                                 extend_rent (PK_ReputationDecay slice_id attestor)))"

definition apply_reputation_decay :: "nat \<Rightarrow> nat \<Rightarrow> address \<Rightarrow> nat \<Rightarrow> string \<Rightarrow> nat performance_op" where
  "apply_reputation_decay now slice_id attestor decay_rate_bps reason = (bindM (gets (\<lambda>s. get_reputation_factor s slice_id attestor)) (\<lambda>current.
                                                                        (let new_reputation = sat_mul U32_MAX current decay_rate_bps div 10000 in
                                                                        thenM (put_reputation slice_id attestor new_reputation) (
                                                                        thenM (record_decay_history now slice_id attestor decay_rate_bps current new_reputation reason) (
                                                                        thenM (emit ''rep_dec'' [VU slice_id] [VU slice_id, VA attestor, VU decay_rate_bps, VU new_reputation, VS reason]) (
                                                                        returnM new_reputation))))))"

definition apply_reputation_recovery :: "nat \<Rightarrow> nat \<Rightarrow> address \<Rightarrow> nat \<Rightarrow> nat performance_op" where
  "apply_reputation_recovery now slice_id attestor improvement_rate_bps = (bindM (gets (\<lambda>s. get_reputation_factor s slice_id attestor)) (\<lambda>current.
                                                                          if 10000 \<le> current then returnM current
     else ((let max_recovery = 10000 - current in
          (let recovery_amount = sat_mul U32_MAX max_recovery improvement_rate_bps div 10000 in
          (let new_reputation = min (sat_add U32_MAX current recovery_amount) 10000 in
          thenM (put_reputation slice_id attestor new_reputation) (
          thenM (record_decay_history now slice_id attestor improvement_rate_bps current new_reputation ''reputation_recovery'') (
          thenM (emit ''rep_rec'' [VU slice_id] [VU slice_id, VA attestor, VU improvement_rate_bps, VU new_reputation]) (
          returnM new_reputation)))))))))"

text \<open>The loop runs backwards over \<open>0..total_count\<close> and stops after \<open>limit\<close> entries.\<close>

definition history_step ::
  "performance \<Rightarrow> nat \<Rightarrow> address \<Rightarrow> nat \<Rightarrow> nat \<Rightarrow> DecayHistoryEntry list \<times> nat \<Rightarrow> DecayHistoryEntry list \<times> nat" where
  "history_step s slice_id attestor limit i = (\<lambda>(entries, retrieved).
     if limit \<le> retrieved then (entries, retrieved)
     else case p_decay_history s (slice_id, attestor, i) of
       None \<Rightarrow> (entries, retrieved)
     | Some entry \<Rightarrow> (entries @ [entry], sat_add U64_MAX retrieved 1))"

definition get_decay_history :: "performance \<Rightarrow> nat \<Rightarrow> address \<Rightarrow> nat \<Rightarrow> DecayHistoryEntry list" where
  "get_decay_history s slice_id attestor limit =
     (let total_count = get_or (p_decay_count s (slice_id, attestor)) 0 in
      if total_count = 0 then []
      else fst (fold (history_step s slice_id attestor limit) (rev [0..<total_count]) ([], 0)))"

subsection \<open>Entry points of the performance module\<close>

definition record_attestor_performance_entry ::
  "'tok env \<Rightarrow> nat \<Rightarrow> address \<Rightarrow> nat \<Rightarrow> address \<Rightarrow> bool \<Rightarrow> nat \<Rightarrow> ('tok, unit) performance_entry" where
  "record_attestor_performance_entry e vault_id caller slice_id attestor success response_time_ms = (thenM (on_vault (vault_owner_only e vault_id caller)) (
                                                                                                    on_module (record_attestor_performance (ledger_timestamp e) slice_id attestor success response_time_ms)))"

definition reweight_slice_entry ::
  "'tok env \<Rightarrow> nat \<Rightarrow> address \<Rightarrow> nat \<Rightarrow> address list \<Rightarrow> ('tok, AttestorWeight list) performance_entry" where
  "reweight_slice_entry e vault_id caller slice_id attestors = (thenM (on_vault (vault_owner_only e vault_id caller)) (
                                                               bindM (on_module (gets (\<lambda>s. calculate_optimal_weights s slice_id attestors))) (\<lambda>weights.
                                                               thenM (on_module (reweight_slice slice_id weights)) (
                                                               returnM weights))))"

definition apply_reputation_decay_entry ::
  "'tok env \<Rightarrow> nat \<Rightarrow> address \<Rightarrow> nat \<Rightarrow> address \<Rightarrow> nat \<Rightarrow> string \<Rightarrow> ('tok, nat) performance_entry" where
  "apply_reputation_decay_entry e vault_id caller slice_id attestor decay_rate_bps reason = (thenM (on_vault (vault_owner_only e vault_id caller)) (
                                                                                            thenM (guard (decay_rate_bps \<le> 10000) (Err InvalidBps)) (
                                                                                            on_module (apply_reputation_decay (ledger_timestamp e) slice_id attestor decay_rate_bps reason))))"

definition apply_reputation_recovery_entry ::
  "'tok env \<Rightarrow> nat \<Rightarrow> address \<Rightarrow> nat \<Rightarrow> address \<Rightarrow> nat \<Rightarrow> ('tok, nat) performance_entry" where
  "apply_reputation_recovery_entry e vault_id caller slice_id attestor improvement_rate_bps = (thenM (on_vault (vault_owner_only e vault_id caller)) (
                                                                                              thenM (guard (improvement_rate_bps \<le> 10000) (Err InvalidBps)) (
                                                                                              on_module (apply_reputation_recovery (ledger_timestamp e) slice_id attestor improvement_rate_bps))))"

end
