(* ===== verification/Network_Properties.thy ===== *)
theory Network_Properties
  imports Slice_Network Transition_Systems
begin

section \<open>Properties of failover, weights and reputation\<close>

subsection \<open>Weights\<close>

text \<open>An attestor has never more successes than responses, and the counters keep their width.\<close>

definition metrics_ok :: "performance \<Rightarrow> bool" where
  "metrics_ok s \<longleftrightarrow> (\<forall>k m. p_perf s k = Some m \<longrightarrow> pm_successful_responses m \<le> pm_total_responses m \<and>
     pm_total_responses m \<le> U64_MAX)"

lemma score_bound: "metrics_ok s \<Longrightarrow> attestor_score s i a \<le> 1000000"
proof (cases "p_perf s (i, a)")
  case (Some m)
  assume "metrics_ok s"
  then have le: "pm_successful_responses m \<le> pm_total_responses m" using Some by (simp add: metrics_ok_def)
  have "sat_mul U64_MAX (pm_successful_responses m) 1000000 \<le> 1000000 * pm_total_responses m"
    using le by (simp add: sat_mul_def min_def)
  then have "sat_mul U64_MAX (pm_successful_responses m) 1000000 div pm_total_responses m \<le> 1000000"
    by (metis div_le_mono div_mult_self_is_m div_by_0 le0 mult.commute neq0_conv)
  then show ?thesis using Some by (simp add: attestor_score_def Let_def) (meson div_le_dividend order_trans)
qed (simp add: attestor_score_def)

lemma fold_sat_add: "a \<le> mx \<Longrightarrow> fold (\<lambda>x t. sat_add mx t x) xs a = min mx (a + sum_list xs)"
  by (induction xs arbitrary: a) (simp_all add: sat_add_def min_def)

lemma shares_bound:
  assumes "sum_list ys \<le> S" "0 < S"
  shows "sum_list (map (\<lambda>x. x * 10000 div S) ys) \<le> (10000 :: nat)"
proof -
  have "sum_list (map (\<lambda>x. x * 10000 div S) ys) * S \<le> 10000 * sum_list ys"
  proof (induction ys)
    case (Cons y ys)
    have "y * 10000 div S * S \<le> 10000 * y" by (metis div_times_less_eq_dividend mult.commute)
    then show ?case using Cons.IH by (simp add: add_mult_distrib add_mult_distrib2)
  qed simp
  also have "\<dots> \<le> 10000 * S" using assms(1) by simp
  finally show ?thesis using assms(2) by simp
qed

lemma weigh_loop_total:
  assumes "xs \<noteq> []" "\<forall>(a, x) \<in> set xs. x \<le> 1000000" "0 < S" "last_idx = k + length xs - 1"
    "b + sum_list (map (\<lambda>(a, x). x * 10000 div S) (butlast xs)) \<le> 10000"
  shows "\<exists>vs. fst (fold (weigh_scored S last_idx) (enumerate k xs) (ws, b)) = ws @ vs \<and> map aw_attestor vs = map fst xs \<and>
     sum_list (map aw_weight_bps vs) = 10000 - b"
  using assms
proof (induction xs arbitrary: k ws b)
  case (Cons p xs)
  obtain a x where p: "p = (a, x)" by (cases p)
  show ?case
  proof (cases "xs = []")
    case True
    then show ?thesis using Cons.prems by (auto simp: p weigh_scored_def Let_def)
  next
    case False
    let ?g = "x * 10000 div S"
    have sum: "b + ?g + sum_list (map (\<lambda>(a, x). x * 10000 div S) (butlast xs)) \<le> 10000"
      using Cons.prems(5) False by (simp add: p)
    have x: "x \<le> 1000000" using Cons.prems(2) by (simp add: p)
    then have step: "weigh_scored S last_idx (k, a, x) (ws, b) = (ws @ [\<lparr>aw_attestor = a, aw_weight_bps = ?g\<rparr>], b + ?g)"
      using False Cons.prems(4) sum by (simp add: weigh_scored_def sat_mul_def sat_add_def Let_def)
    have "\<exists>vs. fst (fold (weigh_scored S last_idx) (enumerate (Suc k) xs) (ws @ [\<lparr>aw_attestor = a, aw_weight_bps = ?g\<rparr>], b + ?g)) =
        (ws @ [\<lparr>aw_attestor = a, aw_weight_bps = ?g\<rparr>]) @ vs \<and> map aw_attestor vs = map fst xs \<and>
        sum_list (map aw_weight_bps vs) = 10000 - (b + ?g)"
      using Cons.prems False sum by (intro Cons.IH) (auto simp: p)
    then obtain vs where vs: "fst (fold (weigh_scored S last_idx) (enumerate (Suc k) xs) (ws @ [\<lparr>aw_attestor = a, aw_weight_bps = ?g\<rparr>], b + ?g)) =
        ws @ \<lparr>aw_attestor = a, aw_weight_bps = ?g\<rparr> # vs" "map aw_attestor vs = map fst xs"
        "sum_list (map aw_weight_bps vs) = 10000 - (b + ?g)" by auto
    then show ?thesis
      using sum by (intro exI [of _ "\<lparr>aw_attestor = a, aw_weight_bps = ?g\<rparr> # vs"]) (simp add: p step)
  qed
qed simp

lemma equal_weights_total:
  assumes "0 < length as" "q = 10000 div length as"
  shows "sum_list (map (\<lambda>(i, a). if i = (0::nat) then q + (10000 - q * length as) else q) (enumerate 0 as)) = 10000"
proof -
  have le: "q * length as \<le> 10000" unfolding assms(2) by simp
  obtain a bs where as: "as = a # bs" using assms(1) by (cases as) auto
  have "sum_list (map (\<lambda>(i, a). if i = (0::nat) then q + (10000 - q * length as) else q) (enumerate (Suc k) bs)) = q * length bs" for k
    by (induction bs arbitrary: k) simp_all
  then show ?thesis using le by (simp add: as)
qed

lemma part_le_total: "w \<in> set ws \<Longrightarrow> f w \<le> sum_list (map f ws)" for f :: "'a \<Rightarrow> nat"
  by (induction ws) auto

lemma score_sum:
  assumes "metrics_ok s" "length as \<le> U32_MAX"
  shows "fold (\<lambda>x t. sat_add U64_MAX t x) (map (attestor_score s i) as) 0 = sum_list (map (attestor_score s i) as)"
proof -
  have "sum_list (map (attestor_score s i) as) \<le> length as * 1000000"
  proof (induction as)
    case (Cons a as)
    then show ?case using score_bound [OF assms(1), of i a] by simp
  qed simp
  then show ?thesis using assms(2) by (subst fold_sat_add) simp_all
qed

lemma equal_weights:
  assumes "metrics_ok s" "as \<noteq> []" "length as \<le> U32_MAX" "sum_list (map (attestor_score s i) as) = 0"
  shows "map aw_attestor (calculate_optimal_weights s i as) = as \<and> sum_list (map aw_weight_bps (calculate_optimal_weights s i as)) = 10000"
proof -
  let ?q = "10000 div length as"
  let ?ws = "map (\<lambda>(idx, a). \<lparr>aw_attestor = a, aw_weight_bps = if idx = 0 then ?q + (10000 - ?q * length as) else ?q\<rparr>) (enumerate 0 as)"
  have ws: "calculate_optimal_weights s i as = ?ws"
    using assms by (simp add: calculate_optimal_weights_def Let_def score_sum)
  have bps: "map aw_weight_bps ?ws = map (\<lambda>(j, a). if j = (0::nat) then ?q + (10000 - ?q * length as) else ?q) (enumerate 0 as)"
    by (simp add: case_prod_unfold)
  have "sum_list (map aw_weight_bps ?ws) = 10000"
    unfolding bps by (rule equal_weights_total) (use assms(2) in simp_all)
  moreover have "map aw_attestor ?ws = map snd (enumerate 0 as)" by (simp only: map_map) (rule map_cong, auto)
  ultimately show ?thesis unfolding ws by simp
qed

lemma scored_weights:
  assumes "metrics_ok s" "as \<noteq> []" "length as \<le> U32_MAX" "sum_list (map (attestor_score s i) as) \<noteq> 0"
  shows "map aw_attestor (calculate_optimal_weights s i as) = as \<and> sum_list (map aw_weight_bps (calculate_optimal_weights s i as)) = 10000"
proof -
  let ?scores = "map (attestor_score s i) as"
  let ?xs = "zip as ?scores"
  have pos: "0 < sum_list ?scores" by (rule neq0_conv [THEN iffD1, OF assms(4)])
  have xs: "map snd ?xs = ?scores" by simp
  have "butlast ?scores @ [last ?scores] = ?scores" using assms(2) by (intro append_butlast_last_id) simp
  then have "sum_list (butlast ?scores) \<le> sum_list ?scores" by (metis le_add1 sum_list_append)
  then have "sum_list (map (\<lambda>x. x * 10000 div sum_list ?scores) (butlast ?scores)) \<le> 10000"
    by (rule shares_bound) (rule pos)
  moreover have "map (\<lambda>(a, x). x * 10000 div sum_list ?scores) (butlast ?xs) =
      map (\<lambda>x. x * 10000 div sum_list ?scores) (butlast ?scores)"
    by (subst (3) xs [symmetric]) (simp add: map_butlast case_prod_unfold o_def del: map_snd_zip)
  ultimately have "0 + sum_list (map (\<lambda>(a, x). x * 10000 div sum_list ?scores) (butlast ?xs)) \<le> 10000" by simp
  moreover have "\<forall>(a, x) \<in> set ?xs. x \<le> 1000000" using score_bound [OF assms(1), of i] by (auto simp: set_zip)
  ultimately have "\<exists>vs. fst (fold (weigh_scored (sum_list ?scores) (length as - 1)) (enumerate 0 ?xs) ([], 0)) = [] @ vs \<and>
      map aw_attestor vs = map fst ?xs \<and> sum_list (map aw_weight_bps vs) = 10000 - 0"
    by (intro weigh_loop_total pos) (use assms(2) in auto)
  then show ?thesis
    using assms by (auto simp: calculate_optimal_weights_def Let_def score_sum)
qed

subsection \<open>The state of the performance module\<close>

text \<open>
  The history of an attestor in a slice as one list, oldest first. It starts from the full
  reputation 10000, every entry starts where the one before ended, and the reputation in force is
  the end of the last one.
\<close>

definition decay_log :: "performance \<Rightarrow> nat \<Rightarrow> address \<Rightarrow> DecayHistoryEntry list" where
  "decay_log s i a = map (\<lambda>n. the (p_decay_history s (i, a, n))) [0..<get_or (p_decay_count s (i, a)) 0]"

fun chained :: "nat \<Rightarrow> DecayHistoryEntry list \<Rightarrow> nat \<Rightarrow> bool" where
  "chained r [] r' \<longleftrightarrow> r = r'"
| "chained r (d # ds) r' \<longleftrightarrow> dh_reputation_before d = r \<and> dh_reputation_after d \<le> 10000 \<and> chained (dh_reputation_after d) ds r'"

lemma chained_append: "chained r (ds @ [d]) r' \<longleftrightarrow>
    chained r ds (dh_reputation_before d) \<and> dh_reputation_after d \<le> 10000 \<and> dh_reputation_after d = r'"
  by (induction ds arbitrary: r) auto

lemma chained_bound: "chained r ds r' \<Longrightarrow> r \<le> 10000 \<Longrightarrow> r' \<le> 10000"
  by (induction ds arbitrary: r) auto

definition performance_ok :: "performance \<Rightarrow> bool" where
  "performance_ok s \<longleftrightarrow> metrics_ok s \<and> (\<forall>i a. chained 10000 (decay_log s i a) (get_reputation_factor s i a)) \<and>
     (\<forall>i a n. n < get_or (p_decay_count s (i, a)) 0 \<longrightarrow> p_decay_history s (i, a, n) \<noteq> None) \<and>
     (\<forall>i a. get_or (p_decay_count s (i, a)) 0 \<le> U64_MAX)"

definition fresh_performance :: "performance \<Rightarrow> bool" where
  "fresh_performance s \<longleftrightarrow> p_perf s = Map.empty \<and> p_reputation s = Map.empty \<and> p_decay_count s = Map.empty"

text \<open>The rates are at most 10000, which the entry points test; a history has fewer than \<open>U64_MAX\<close> entries.\<close>

inductive performance_step :: "performance \<Rightarrow> performance \<Rightarrow> bool" where
  "record_attestor_performance now i a success ms s = Inr ((), t) \<Longrightarrow> performance_step s t"
| "reweight_slice i ws s = Inr ((), t) \<Longrightarrow> performance_step s t"
| "rate \<le> 10000 \<Longrightarrow> get_or (p_decay_count s (i, a)) 0 < U64_MAX \<Longrightarrow>
     apply_reputation_decay now i a rate reason s = Inr (r, t) \<Longrightarrow> performance_step s t"
| "rate \<le> 10000 \<Longrightarrow> get_or (p_decay_count s (i, a)) 0 < U64_MAX \<Longrightarrow>
     apply_reputation_recovery now i a rate s = Inr (r, t) \<Longrightarrow> performance_step s t"

text \<open>One more entry in the history of one attestor.\<close>

definition entered :: "performance \<Rightarrow> nat \<Rightarrow> address \<Rightarrow> DecayHistoryEntry \<Rightarrow> performance \<Rightarrow> bool" where
  "entered s i a d t \<longleftrightarrow> p_perf t = p_perf s \<and> p_reputation t = (p_reputation s)((i, a) \<mapsto> dh_reputation_after d) \<and>
     p_decay_history t = (p_decay_history s)((i, a, get_or (p_decay_count s (i, a)) 0) \<mapsto> d) \<and>
     p_decay_count t = (p_decay_count s)((i, a) \<mapsto> sat_add U64_MAX (get_or (p_decay_count s (i, a)) 0) 1)"

lemma decay_effect:
  "wp (apply_reputation_decay now i a rate reason) (\<lambda>r t. r = sat_mul U32_MAX (get_reputation_factor s i a) rate div 10000 \<and>
     entered s i a \<lparr>dh_applied_at = now, dh_decay_rate_bps = rate, dh_reputation_before = get_reputation_factor s i a,
       dh_reputation_after = r, dh_reason = reason\<rparr> t) s"
  unfolding apply_reputation_decay_def record_decay_history_def put_reputation_def
  by (simp add: wp_simps entered_def)

lemma recovery_effect:
  "wp (apply_reputation_recovery now i a rate) (\<lambda>r t. if 10000 \<le> get_reputation_factor s i a then t = s
     else r = min (sat_add U32_MAX (get_reputation_factor s i a) (sat_mul U32_MAX (10000 - get_reputation_factor s i a) rate div 10000)) 10000 \<and>
     entered s i a \<lparr>dh_applied_at = now, dh_decay_rate_bps = rate, dh_reputation_before = get_reputation_factor s i a,
       dh_reputation_after = r, dh_reason = ''reputation_recovery''\<rparr> t) s"
  unfolding apply_reputation_recovery_def record_decay_history_def put_reputation_def
  by (simp add: wp_simps entered_def)

lemma entered_log:
  assumes "entered s i a d t" "get_or (p_decay_count s (i, a)) 0 < U64_MAX"
  shows "decay_log t j b = (if (j, b) = (i, a) then decay_log s i a @ [d] else decay_log s j b)"
  using assms by (auto simp: decay_log_def entered_def sat_add_def)

lemma entered_ok:
  assumes "performance_ok s" "entered s i a d t" "get_or (p_decay_count s (i, a)) 0 < U64_MAX"
    "dh_reputation_before d = get_reputation_factor s i a" "dh_reputation_after d \<le> 10000"
  shows "performance_ok t"
proof -
  have "metrics_ok t" using assms(1,2) by (simp add: performance_ok_def metrics_ok_def entered_def)
  moreover have "chained 10000 (decay_log t j b) (get_reputation_factor t j b)" for j b
    unfolding entered_log [OF assms(2,3)]
    using assms by (auto simp: performance_ok_def chained_append get_reputation_factor_def entered_def)
  moreover have "p_decay_history t (j, b, n) \<noteq> None" if "n < get_or (p_decay_count t (j, b)) 0" for j b n
    using assms(1-3) that by (auto simp: performance_ok_def entered_def sat_add_def less_Suc_eq split: if_splits)
  moreover have "get_or (p_decay_count t (j, b)) 0 \<le> U64_MAX" for j b
    using assms(1,2) by (simp add: performance_ok_def entered_def sat_add_def)
  ultimately show ?thesis by (simp add: performance_ok_def)
qed

lemma performance_frame:
  assumes "performance_ok s" "metrics_ok t" "p_reputation t = p_reputation s" "p_decay_history t = p_decay_history s"
    "p_decay_count t = p_decay_count s"
  shows "performance_ok t"
  using assms by (simp add: performance_ok_def decay_log_def get_reputation_factor_def)

lemma record_ok:
  assumes "performance_ok s"
  shows "wp (record_attestor_performance now i a success ms) (\<lambda>_. performance_ok) s"
proof -
  have m: "metrics_ok s" using assms by (simp add: performance_ok_def)
  define old where "old = get_or (p_perf s (i, a)) \<lparr>pm_total_responses = 0, pm_successful_responses = 0,
    pm_total_response_time_ms = 0, pm_last_recorded_at = 0\<rparr>"
  have "pm_successful_responses old \<le> pm_total_responses old" "pm_total_responses old \<le> U64_MAX"
    using m by (auto simp: metrics_ok_def old_def split: option.splits)
  then show ?thesis
    unfolding record_attestor_performance_def
    using m by (auto simp: wp_simps metrics_ok_def sat_add_def simp flip: old_def intro!: performance_frame [OF assms])
qed

lemma performance_step_ok:
  assumes "performance_ok s" "performance_step s t"
  shows "performance_ok t"
  using assms(2)
proof cases
  case (1 now i a success ms)
  from wpD [OF record_ok [OF assms(1)] 1] show ?thesis .
next
  case (2 i ws)
  have m: "metrics_ok s" using assms(1) by (simp add: performance_ok_def)
  show ?thesis using 2 m by (auto simp: reweight_slice_def exec emit_def metrics_ok_def intro!: performance_frame [OF assms(1)])
next
  case (3 rate i a now reason r)
  let ?x = "get_reputation_factor s i a"
  have "?x \<le> 10000" using assms(1) chained_bound [of 10000] by (auto simp: performance_ok_def)
  then have "?x * rate \<le> 10000 * 10000" using 3(1) by (intro mult_le_mono)
  then have "sat_mul U32_MAX ?x rate div 10000 \<le> 10000" by (simp add: sat_mul_def)
  then show ?thesis using wpD [OF decay_effect 3(3)] 3(2) by (intro entered_ok [OF assms(1)]) (auto elim!: conjE)
next
  case (4 rate i a now r)
  show ?thesis
  proof (cases "10000 \<le> get_reputation_factor s i a")
    case True
    then show ?thesis using wpD [OF recovery_effect 4(3)] assms(1) by simp
  next
    case False
    then show ?thesis using wpD [OF recovery_effect 4(3)] 4(2) by (auto elim!: conjE intro!: entered_ok [OF assms(1)])
  qed
qed

interpretation ratings: invariant_system fresh_performance performance_step performance_ok
proof
  show "performance_ok s" if "fresh_performance s" for s
    using that by (simp add: fresh_performance_def performance_ok_def metrics_ok_def decay_log_def get_reputation_factor_def)
qed (rule performance_step_ok)

text \<open>The loop over the stored entries reads the end of the log, latest first.\<close>

lemma history_loop:
  assumes "\<forall>n < m. p_decay_history s (i, a, n) \<noteq> None" "k \<le> U64_MAX" "length es = k" "m + k \<le> U64_MAX"
  shows "fst (fold (history_step s i a limit) (rev [0..<m]) (es, k)) =
     es @ take (limit - k) (rev (map (\<lambda>n. the (p_decay_history s (i, a, n))) [0..<m]))"
  using assms
proof (induction m arbitrary: es k)
  case (Suc m)
  obtain d where d: "p_decay_history s (i, a, m) = Some d" using Suc.prems(1) by auto
  show ?case
  proof (cases "limit \<le> k")
    case True
    then show ?thesis using Suc.IH [of k es] Suc.prems by (simp add: history_step_def)
  next
    case False
    then have "limit - k = Suc (limit - Suc k)" by simp
    then show ?thesis
      using Suc.IH [of "Suc k" "es @ [d]"] Suc.prems False by (simp add: history_step_def d sat_add_def)
  qed
qed simp

subsection \<open>Properties of weights and reputation\<close>

text \<open>C31. The weights computed for a non-empty list of attestors are one per attestor, in their
  order, each at most 10000, and always add up to exactly 10000 basis points, whatever has been
  measured.\<close>

theorem weights_total:
  assumes "reachable fresh_performance performance_step s" "as \<noteq> []" "length as \<le> U32_MAX"
  shows "map aw_attestor (calculate_optimal_weights s i as) = as \<and>
     sum_list (map aw_weight_bps (calculate_optimal_weights s i as)) = 10000 \<and>
     (\<forall>w \<in> set (calculate_optimal_weights s i as). aw_weight_bps w \<le> 10000)"
proof -
  have ok: "metrics_ok s" using ratings.inv_reachable [OF assms(1)] by (simp add: performance_ok_def)
  have "map aw_attestor (calculate_optimal_weights s i as) = as \<and>
      sum_list (map aw_weight_bps (calculate_optimal_weights s i as)) = 10000"
    using equal_weights [OF ok assms(2,3)] scored_weights [OF ok assms(2,3)] by blast
  then show ?thesis
    using part_le_total [of _ "calculate_optimal_weights s i as" aw_weight_bps] by auto
qed

text \<open>In every reachable state the reputation of an attestor in a slice is what its
  history ends with: the history starts from 10000, each entry starts from the value the one before
  left, every value is at most 10000, and \<open>get_decay_history\<close> returns the latest entries first, as
  many as asked for.\<close>

theorem reputation_replay:
  assumes "reachable fresh_performance performance_step s"
  shows "chained 10000 (decay_log s i a) (get_reputation_factor s i a) \<and> get_reputation_factor s i a \<le> 10000 \<and>
     get_decay_history s i a limit = take limit (rev (decay_log s i a))"
proof -
  have ok: "performance_ok s" by (rule ratings.inv_reachable [OF assms])
  then have m: "get_or (p_decay_count s (i, a)) 0 \<le> U64_MAX" unfolding performance_ok_def by blast
  have chain: "chained 10000 (decay_log s i a) (get_reputation_factor s i a)" using ok by (simp add: performance_ok_def)
  have "\<forall>n < get_or (p_decay_count s (i, a)) 0. p_decay_history s (i, a, n) \<noteq> None"
    using ok unfolding performance_ok_def by blast
  then have "get_decay_history s i a limit = take limit (rev (decay_log s i a))"
    using history_loop [of "get_or (p_decay_count s (i, a)) 0" s i a 0 "[]" limit] m
    by (auto simp: get_decay_history_def decay_log_def Let_def)
  then show ?thesis using chain chained_bound [OF chain] by simp
qed

text \<open>One good answer of the first of three attestors, a decay to four fifths and a recovery of half of the rest.\<close>

definition no_ratings :: performance where
  "no_ratings = \<lparr>ms_events = [], ms_rent = [], p_perf = Map.empty, p_weights = Map.empty, p_reputation = Map.empty,
     p_decay_history = Map.empty, p_decay_count = Map.empty\<rparr>"

definition rated :: performance where
  "rated = after (record_attestor_performance 10 5 1 True 20) no_ratings"

definition recovered :: performance where
  "recovered = after (apply_reputation_recovery 30 5 1 5000) (after (apply_reputation_decay 20 5 1 8000 ''late'') rated)"

lemma performance_step_after:
  "reachable fresh_performance performance_step s \<Longrightarrow>
     reachable fresh_performance performance_step (after (record_attestor_performance now i a success ms) s)"
  "reachable fresh_performance performance_step s \<Longrightarrow> rate \<le> 10000 \<Longrightarrow> get_or (p_decay_count s (i, a)) 0 < U64_MAX \<Longrightarrow>
     reachable fresh_performance performance_step (after (apply_reputation_decay now i a rate reason) s)"
  "reachable fresh_performance performance_step s \<Longrightarrow> rate \<le> 10000 \<Longrightarrow> get_or (p_decay_count s (i, a)) 0 < U64_MAX \<Longrightarrow>
     reachable fresh_performance performance_step (after (apply_reputation_recovery now i a rate) s)"
  unfolding after_def by (auto split: sum.splits intro: reachable_step performance_step.intros)

lemmas performance_run = after_def exec module_exec record_attestor_performance_def apply_reputation_decay_def
  apply_reputation_recovery_def record_decay_history_def put_reputation_def get_reputation_factor_def
  sat_add_def sat_mul_def extend_rent_def emit_def no_ratings_def

lemma rated_reachable: "reachable fresh_performance performance_step rated"
  unfolding rated_def by (intro performance_step_after reachable_start) (simp add: fresh_performance_def no_ratings_def)

lemma recovered_reachable: "reachable fresh_performance performance_step recovered"
  unfolding recovered_def
  by (intro performance_step_after rated_reachable) (simp_all add: rated_def performance_run)

theorem weights_total_witness:
  "map aw_attestor (calculate_optimal_weights rated 5 [1, 2, 3]) = [1, 2, 3] \<and>
   sum_list (map aw_weight_bps (calculate_optimal_weights rated 5 [1, 2, 3])) = 10000"
  using weights_total [OF rated_reachable, of "[1, 2, 3]" 5] by simp

theorem reputation_replay_witness:
  "get_reputation_factor recovered 5 1 \<le> 10000 \<and> get_reputation_factor recovered 5 1 = 9000 \<and>
   get_decay_history recovered 5 1 1 = take 1 (rev (decay_log recovered 5 1))"
  using reputation_replay [OF recovered_reachable, of 5 1 1]
  by (simp add: recovered_def rated_def performance_run)

subsection \<open>Failover\<close>

text \<open>A configured backup is a registered one and another slice; the slice in charge is the primary or a registered backup.\<close>

definition failover_ok :: "failover \<Rightarrow> bool" where
  "failover_ok s \<longleftrightarrow> (\<forall>p b c. f_config s (p, b) = Some c \<longrightarrow> b \<in> set (get_backup_slices s p) \<and>
       fc_primary_slice_id c = p \<and> fc_backup_slice_id c = b) \<and>
     (\<forall>p. p \<notin> set (get_backup_slices s p)) \<and>
     (\<forall>p. get_active_slice s p = p \<or> get_active_slice s p \<in> set (get_backup_slices s p)) \<and>
     (\<forall>p. get_failure_count s p \<le> U32_MAX)"

definition no_failover :: "failover \<Rightarrow> bool" where
  "no_failover s \<longleftrightarrow> f_backups s = Map.empty \<and> f_active s = Map.empty \<and> f_config s = Map.empty \<and> f_failures s = Map.empty"

inductive failover_step :: "failover \<Rightarrow> failover \<Rightarrow> bool" where
  "register_backup_slice now p b threshold s = Inr (r, t) \<Longrightarrow> failover_step s t"
| "activate_failover now p b reason s = Inr (x, t) \<Longrightarrow> failover_step s t"
| "record_slice_failure now p reason s = Inr (x, t) \<Longrightarrow> failover_step s t"
| "revert_failover now p b s = Inr (x, t) \<Longrightarrow> failover_step s t"
| "reset_failure_count p s = Inr ((), t) \<Longrightarrow> failover_step s t"

lemma register_backup_ok: "failover_ok s \<Longrightarrow> wp (register_backup_slice now p b threshold) (\<lambda>_. failover_ok) s"
  unfolding register_backup_slice_def put_config_def
  by (auto simp: wp_simps failover_ok_def get_backup_slices_def get_active_slice_def get_failure_count_def)

lemma activate_ok: "failover_ok s \<Longrightarrow> wp (activate_failover now p b reason) (\<lambda>_. failover_ok) s"
  unfolding activate_failover_def put_config_def put_active_def
  by (auto simp: wp_simps failover_ok_def get_backup_slices_def get_active_slice_def get_failure_count_def)

lemma failures_ok: "failover_ok s \<Longrightarrow> k \<le> U32_MAX \<Longrightarrow> wp (put_failures p k) (\<lambda>_. failover_ok) s"
  unfolding put_failures_def
  by (auto simp: wp_simps failover_ok_def get_backup_slices_def get_active_slice_def get_failure_count_def)

lemma revert_ok: "failover_ok s \<Longrightarrow> wp (revert_failover now p b) (\<lambda>_. failover_ok) s"
  unfolding revert_failover_def put_config_def put_active_def put_failures_def
  by (auto simp: wp_simps failover_ok_def get_backup_slices_def get_active_slice_def get_failure_count_def)

lemma last_failure_ok: "failover_ok s \<Longrightarrow> failover_ok (s\<lparr>f_last_failure := l, ms_rent := r\<rparr>)"
  by (simp add: failover_ok_def get_backup_slices_def get_active_slice_def get_failure_count_def)

lemma failover_record_ok:
  assumes "failover_ok s"
  shows "wp (record_slice_failure now p reason) (\<lambda>_. failover_ok) s"
proof -
  have "wp (put_failures p (sat_add U32_MAX (get_failure_count s p) 1)) (\<lambda>_. failover_ok) s"
    by (rule failures_ok [OF assms]) (simp add: sat_add_def)
  then show ?thesis
    unfolding record_slice_failure_def wp_simps
    by (rule wp_mono) (auto simp: wp_simps intro!: last_failure_ok activate_ok split: list.split)
qed

lemma failover_step_ok: "failover_ok s \<Longrightarrow> failover_step s t \<Longrightarrow> failover_ok t"
  by (erule failover_step.cases)
    (auto simp: reset_failure_count_def dest: wpD [OF register_backup_ok] wpD [OF activate_ok] wpD [OF failover_record_ok]
      wpD [OF revert_ok] wpD [OF failures_ok, rotated 2])

interpretation backup: invariant_system no_failover failover_step failover_ok
proof
  show "failover_ok s" if "no_failover s" for s
    using that by (simp add: no_failover_def failover_ok_def get_backup_slices_def get_active_slice_def get_failure_count_def)
qed (rule failover_step_ok)

lemma active_registered:
  assumes "reachable no_failover failover_step s"
  shows "get_active_slice s p = p \<or> get_active_slice s p \<in> set (get_backup_slices s p) - {p}"
  using backup.inv_reachable [OF assms] by (metis Diff_iff failover_ok_def singletonD)

text \<open>A failure is counted; the first backup takes over when the count has reached its threshold.\<close>

lemma failure_effect:
  assumes "get_backup_slices s p = b # bs" "f_config s (p, b) = Some c"
  shows "runs (record_slice_failure now p reason) (\<lambda>x t. let n = sat_add U32_MAX (get_failure_count s p) 1 in
     x = (fc_failure_threshold c \<le> n \<and> \<not> fc_is_active c) \<and> get_failure_count t p = n \<and>
     get_backup_slices t p = b # bs \<and> f_config t (p, b) = Some (c\<lparr>fc_is_active := fc_is_active c \<or> x\<rparr>) \<and>
     get_active_slice t p = (if x then b else get_active_slice s p)) s"
  unfolding record_slice_failure_def activate_failover_def put_failures_def put_config_def put_active_def
  using assms by (auto simp: run_simps Let_def get_failure_count_def get_backup_slices_def get_active_slice_def)

text \<open>From a state in which the first backup of a slice stands by and no failure is
  counted, after \<open>k\<close> reported failures the counter is \<open>k\<close> and the backup is in charge exactly when at
  least one failure was reported and \<open>k\<close> has reached its threshold; before that the primary stays
  in charge, and further failures change nothing but the counter.\<close>

theorem failover_at_threshold:
  assumes "get_backup_slices s p = b # bs" "f_config s (p, b) = Some c" "\<not> fc_is_active c"
    "get_failure_count s p = 0" "get_active_slice s p = p" "k \<le> U32_MAX"
  shows "let t = (after (record_slice_failure now p reason) ^^ k) s; over = (0 < k \<and> fc_failure_threshold c \<le> k) in
     get_failure_count t p = k \<and> get_active_slice t p = (if over then b else p) \<and>
     f_config t (p, b) = Some (c\<lparr>fc_is_active := over\<rparr>) \<and> get_backup_slices t p = b # bs"
  using assms(6)
proof (induction k)
  case 0
  then show ?case using assms(1-5) by simp
next
  case (Suc k)
  define u where "u = (after (record_slice_failure now p reason) ^^ k) s"
  define ov where "ov = (0 < k \<and> fc_failure_threshold c \<le> k)"
  have u: "get_failure_count u p = k" "get_active_slice u p = (if ov then b else p)"
      "f_config u (p, b) = Some (c\<lparr>fc_is_active := ov\<rparr>)" "get_backup_slices u p = b # bs"
    using Suc by (simp_all add: u_def ov_def Let_def)
  have "runs (record_slice_failure now p reason) (\<lambda>_ t. get_failure_count t p = Suc k \<and> get_backup_slices t p = b # bs \<and>
      f_config t (p, b) = Some (c\<lparr>fc_is_active := ov \<or> fc_failure_threshold c \<le> Suc k\<rparr>) \<and>
      get_active_slice t p = (if ov \<or> fc_failure_threshold c \<le> Suc k then b else p)) u"
    by (rule runs_mono [OF failure_effect [OF u(4,3), of now reason]])
      (use Suc.prems in \<open>auto simp: Let_def u(1,2) sat_add_def\<close>)
  from runs_after [OF this] show ?case by (auto simp: Let_def u_def [symmetric] ov_def)
qed

text \<open>
  Registering an active backup again replaces its configuration by an inactive one, while the
  backup stays in charge: \<open>revert_failover\<close> then refuses, and the primary does not come back.
\<close>

lemma reregistered_stuck:
  assumes "f_config s (p, b) = Some c" "get_active_slice s p = b" "p \<noteq> b"
  shows "runs (register_backup_slice now p b threshold) (\<lambda>_ t. get_active_slice t p = b \<and>
     revert_failover later p b t = Inr (False, t)) s"
  unfolding register_backup_slice_def put_config_def
  using assms by (simp add: run_simps revert_failover_def exec get_active_slice_def)

definition standing_by :: failover where
  "standing_by = after (register_backup_slice 10 1 2 3) \<lparr>ms_events = [], ms_rent = [], f_backups = Map.empty,
     f_active = Map.empty, f_config = Map.empty, f_failures = Map.empty, f_last_failure = Map.empty\<rparr>"

theorem failover_at_threshold_witness:
  "get_active_slice ((after (record_slice_failure 20 1 Timeout) ^^ 2) standing_by) 1 = 1 \<and>
   get_active_slice ((after (record_slice_failure 20 1 Timeout) ^^ 3) standing_by) 1 = 2"
proof -
  let ?c = "\<lparr>fc_primary_slice_id = 1, fc_backup_slice_id = 2, fc_failure_threshold = 3, fc_is_active = False, fc_created_at = 10\<rparr>"
  have s: "get_backup_slices standing_by 1 = [2]" "f_config standing_by (1, 2) = Some ?c" "get_failure_count standing_by 1 = 0"
      "get_active_slice standing_by 1 = 1"
    by (simp_all add: standing_by_def after_def exec module_exec failover_defs extend_rent_def emit_def)
  show ?thesis
    using failover_at_threshold [OF s(1,2) _ s(3,4), of 2 20 Timeout] failover_at_threshold [OF s(1,2) _ s(3,4), of 3 20 Timeout]
    by (simp add: Let_def)
qed

end
