(* ===== verification/Slice_Selection.thy ===== *)
theory Slice_Selection
  imports Module_Store "HOL-Library.Product_Lexorder"
begin

section \<open>Selection of attestors, cost of slices and suggestions\<close>

text \<open>
  The modules \<open>slice_attribute_matching.rs\<close> (profiles of attestors and a search by attributes),
  \<open>slice_cost_tracking.rs\<close> (accumulated costs, averages, projections and hints) and
  \<open>slice_composition_optimizer.rs\<close> (suggestions and their ranking). Byte strings are lists of bytes;
  the hints, ASCII literals in the source, are strings.
\<close>

subsection \<open>Profiles\<close>

definition MAX_ATTRIBUTES_PER_ATTESTOR :: nat where "MAX_ATTRIBUTES_PER_ATTESTOR = 16"
definition DEFAULT_ATTRIBUTE_WEIGHT :: nat where "DEFAULT_ATTRIBUTE_WEIGHT = 100"
definition FUZZY_MATCH_THRESHOLD :: nat where "FUZZY_MATCH_THRESHOLD = 2"
definition EXACT_MATCH_BONUS :: nat where "EXACT_MATCH_BONUS = 1000"
definition PREFIX_MATCH_BONUS :: nat where "PREFIX_MATCH_BONUS = 500"
definition FUZZY_MATCH_BONUS :: nat where "FUZZY_MATCH_BONUS = 250"

lemmas matching_constants = MAX_ATTRIBUTES_PER_ATTESTOR_def DEFAULT_ATTRIBUTE_WEIGHT_def FUZZY_MATCH_THRESHOLD_def
  EXACT_MATCH_BONUS_def PREFIX_MATCH_BONUS_def FUZZY_MATCH_BONUS_def

record Attribute =
  at_key :: bytes
  at_value :: bytes

record AttestorProfile =
  ap_address :: address
  ap_attributes :: "Attribute list"
  ap_reputation_score :: nat
  ap_active :: bool

record AttestorMatch =
  am_address :: address
  am_score :: nat
  am_reputation :: nat

record MatchRequest =
  rq_attributes :: "Attribute list"
  rq_weights :: "bytes \<rightharpoonup> nat"
  rq_active_only :: bool
  rq_limit :: nat

datatype AttributeKey = AK_AttestorProfile address | AK_ActiveAttestorIndex

record attestors = "AttributeKey module_store" +
  a_profiles :: "address \<rightharpoonup> AttestorProfile"
  a_index :: "address list option"

type_synonym 'a attestor_op = "(failure, attestors, 'a) act"

definition get_attestor_profile :: "attestors \<Rightarrow> address \<Rightarrow> AttestorProfile option" where
  "get_attestor_profile s attestor = a_profiles s attestor"

definition is_attestor_active :: "attestors \<Rightarrow> address \<Rightarrow> bool" where
  "is_attestor_active s attestor = (case get_attestor_profile s attestor of None \<Rightarrow> False | Some p \<Rightarrow> ap_active p)"

definition put_profile :: "address \<Rightarrow> AttestorProfile \<Rightarrow> unit attestor_op" where
  "put_profile attestor profile = (thenM (modify (\<lambda>s. s\<lparr>a_profiles := (a_profiles s)(attestor \<mapsto> profile)\<rparr>)) (
                                  extend_rent (AK_AttestorProfile attestor)))"

definition put_index :: "address list \<Rightarrow> unit attestor_op" where
  "put_index active_list = (thenM (modify (\<lambda>s. s\<lparr>a_index := Some active_list\<rparr>)) (
                           extend_rent AK_ActiveAttestorIndex))"

definition set_attestor_profile :: "address \<Rightarrow> Attribute list \<Rightarrow> nat \<Rightarrow> bool \<Rightarrow> bool attestor_op" where
  "set_attestor_profile attestor attributes reputation_score active =
     (if 100 < reputation_score \<or> MAX_ATTRIBUTES_PER_ATTESTOR < length attributes then returnM False
      else (thenM (put_profile attestor \<lparr>ap_address = attestor, ap_attributes = attributes,
          ap_reputation_score = reputation_score, ap_active = active\<rparr>) (
           thenM (whenM active ((bindM (gets (\<lambda>s. get_or (a_index s) [])) (\<lambda>active_list.
                      whenM (\<not> list_ex (\<lambda>addr. addr = attestor) active_list) (put_index (active_list @ [attestor])))))) (
           thenM (emit ''att_attr'' [VA attestor] [VA attestor, VU reputation_score]) (
           returnM True)))))"

definition activate_attestor :: "address \<Rightarrow> bool attestor_op" where
  "activate_attestor attestor = (bindM (gets (\<lambda>s. a_profiles s attestor)) (\<lambda>found.
                                case found of
       None \<Rightarrow> returnM False
     | Some profile \<Rightarrow>
         if ap_active profile then returnM False
         else (thenM (put_profile attestor (profile\<lparr>ap_active := True\<rparr>)) (
              bindM (gets (\<lambda>s. get_or (a_index s) [])) (\<lambda>active_list.
              thenM (put_index (active_list @ [attestor])) (
              thenM (emit ''att_act'' [VA attestor] [VA attestor]) (
              returnM True)))))))"

definition deactivate_attestor :: "address \<Rightarrow> bool attestor_op" where
  "deactivate_attestor attestor = (bindM (gets (\<lambda>s. a_profiles s attestor)) (\<lambda>found.
                                  case found of
       None \<Rightarrow> returnM False
     | Some profile \<Rightarrow>
         if \<not> ap_active profile then returnM False
         else (thenM (put_profile attestor (profile\<lparr>ap_active := False\<rparr>)) (
              bindM (gets a_index) (\<lambda>index.
              thenM ((case index of None \<Rightarrow> returnM () | Some active_list \<Rightarrow> put_index (filter (\<lambda>addr. addr \<noteq> attestor) active_list))) (
              thenM (emit ''att_deact'' [VA attestor] [VA attestor]) (
              returnM True)))))))"

subsection \<open>Matching\<close>

definition bytes_equal :: "bytes \<Rightarrow> bytes \<Rightarrow> bool" where
  "bytes_equal a b = (length a = length b \<and> list_all (\<lambda>i. a ! i = b ! i) [0..<length a])"

definition exact_match :: "bytes \<Rightarrow> bytes \<Rightarrow> bool" where
  "exact_match a b = bytes_equal a b"

definition prefix_match :: "bytes \<Rightarrow> bytes \<Rightarrow> bool" where
  "prefix_match haystack needle =
     (\<not> length haystack < length needle \<and> list_all (\<lambda>i. haystack ! i = needle ! i) [0..<length needle])"

definition abs_diff :: "nat \<Rightarrow> nat \<Rightarrow> nat" where
  "abs_diff a b = (if a < b then b - a else a - b)"

definition fuzzy_match :: "bytes \<Rightarrow> bytes \<Rightarrow> bool" where
  "fuzzy_match a b =
     (if FUZZY_MATCH_THRESHOLD < abs_diff (length a) (length b) then False
      else let min_len = (if length a < length b then length a else length b);
               differences = fold (\<lambda>i d. if a ! i \<noteq> b ! i then sat_add U32_MAX d 1 else d) [0..<min_len] 0
           in differences \<le> FUZZY_MATCH_THRESHOLD)"

definition score_attribute_match :: "bytes \<Rightarrow> bytes \<Rightarrow> nat \<Rightarrow> nat" where
  "score_attribute_match attestor_value requested_value weight =
     (let base_score = (if exact_match attestor_value requested_value then EXACT_MATCH_BONUS
        else if prefix_match attestor_value requested_value \<or> prefix_match requested_value attestor_value then PREFIX_MATCH_BONUS
        else if fuzzy_match attestor_value requested_value then FUZZY_MATCH_BONUS
        else 0)
      in sat_mul U32_MAX base_score weight div 100)"

definition match_score :: "MatchRequest \<Rightarrow> AttestorProfile \<Rightarrow> nat" where
  "match_score request profile =
     (let scored = fold (\<lambda>req_attr score.
            let weight = get_or (rq_weights request (at_key req_attr)) DEFAULT_ATTRIBUTE_WEIGHT
            in fold (\<lambda>prof_attr score.
                 if exact_match (at_key prof_attr) (at_key req_attr)
                 then sat_add U32_MAX score (score_attribute_match (at_value prof_attr) (at_value req_attr) weight)
                 else score) (ap_attributes profile) score) (rq_attributes request) 0
      in sat_add U32_MAX scored (sat_mul U32_MAX (ap_reputation_score profile) 10))"

definition match_of :: "attestors \<Rightarrow> MatchRequest \<Rightarrow> address \<Rightarrow> AttestorMatch list" where
  "match_of s request attestor_addr =
     (case a_profiles s attestor_addr of
        None \<Rightarrow> []
      | Some profile \<Rightarrow>
          if 0 < match_score request profile
          then [\<lparr>am_address = attestor_addr, am_score = match_score request profile, am_reputation = ap_reputation_score profile\<rparr>]
          else [])"

text \<open>The nested loops \<open>for i in 0..len\<close>, \<open>for j in (i + 1)..len\<close> that exchange two matches.\<close>

definition exchange :: "nat \<Rightarrow> nat \<Rightarrow> AttestorMatch list \<Rightarrow> AttestorMatch list" where
  "exchange i j ms = (if am_score (ms ! i) < am_score (ms ! j) then (ms[i := ms ! j])[j := ms ! i] else ms)"

definition exchange_sort :: "AttestorMatch list \<Rightarrow> AttestorMatch list" where
  "exchange_sort ms = fold (\<lambda>i. fold (exchange i) [i + 1..<length ms]) [0..<length ms] ms"

definition match_attestors_by_attributes :: "attestors \<Rightarrow> MatchRequest \<Rightarrow> AttestorMatch list" where
  "match_attestors_by_attributes s request =
     (let attestor_list = (if rq_active_only request then get_or (a_index s) [] else []);
          matches = exchange_sort (concat (map (match_of s request) attestor_list))
      in if 0 < rq_limit request \<and> rq_limit request < length matches then take (rq_limit request) matches else matches)"

subsection \<open>Costs\<close>

definition COMPUTE_WARN_THRESHOLD :: nat where "COMPUTE_WARN_THRESHOLD = 10000"
definition STORAGE_WARN_THRESHOLD :: nat where "STORAGE_WARN_THRESHOLD = 50000"
definition CROSS_CALL_WARN_THRESHOLD :: nat where "CROSS_CALL_WARN_THRESHOLD = 2"
definition EVENT_WARN_THRESHOLD :: nat where "EVENT_WARN_THRESHOLD = 5"

record CostLedger =
  cl_compute_units :: nat
  cl_storage_bytes :: nat
  cl_event_count :: nat
  cl_cross_contract_calls :: nat
  cl_operation_count :: nat
  cl_first_recorded_at :: nat
  cl_last_recorded_at :: nat

record CostBreakdown =
  cb_slice_id :: nat
  cb_ledger :: CostLedger
  cb_avg_compute_units :: nat
  cb_avg_storage_bytes :: nat
  cb_avg_events :: nat
  cb_avg_cross_calls :: nat

record CostProjection =
  cp_slice_id :: nat
  cp_projected_operations :: nat
  cp_projected_compute_units :: nat
  cp_projected_storage_bytes :: nat
  cp_projected_events :: nat
  cp_projected_cross_calls :: nat

datatype CostKey = CK_SliceCost nat

record costs = "CostKey module_store" +
  c_ledgers :: "nat \<rightharpoonup> CostLedger"

type_synonym 'a cost_op = "(failure, costs, 'a) act"

definition record_slice_operation_cost :: "nat \<Rightarrow> nat \<Rightarrow> nat \<Rightarrow> nat \<Rightarrow> nat \<Rightarrow> nat \<Rightarrow> unit cost_op" where
  "record_slice_operation_cost now slice_id compute_units storage_bytes event_count cross_contract_calls = (bindM (gets (\<lambda>s. get_or (c_ledgers s slice_id) \<lparr>cl_compute_units = 0, cl_storage_bytes = 0, cl_event_count = 0,
       cl_cross_contract_calls = 0, cl_operation_count = 0, cl_first_recorded_at = now, cl_last_recorded_at = now\<rparr>)) (\<lambda>old.
                                                                                                           (let ledger = old\<lparr>cl_compute_units := sat_add U64_MAX (cl_compute_units old) compute_units,
       cl_storage_bytes := sat_add U64_MAX (cl_storage_bytes old) storage_bytes,
       cl_event_count := sat_add U64_MAX (cl_event_count old) event_count,
       cl_cross_contract_calls := sat_add U64_MAX (cl_cross_contract_calls old) cross_contract_calls,
       cl_operation_count := sat_add U64_MAX (cl_operation_count old) 1,
       cl_last_recorded_at := now\<rparr> in
                                                                                                           thenM (modify (\<lambda>s. s\<lparr>c_ledgers := (c_ledgers s)(slice_id \<mapsto> ledger)\<rparr>)) (
                                                                                                           thenM (extend_rent (CK_SliceCost slice_id)) (
                                                                                                           emit ''cost_rec'' [VU slice_id] [VU slice_id, VU compute_units, VU storage_bytes, VU (cl_operation_count ledger)])))))"

definition get_slice_cost_breakdown :: "costs \<Rightarrow> nat \<Rightarrow> CostBreakdown option" where
  "get_slice_cost_breakdown s slice_id =
     (case c_ledgers s slice_id of
        None \<Rightarrow> None
      | Some ledger \<Rightarrow>
          let ops = cl_operation_count ledger;
              (avg_compute, avg_storage, avg_events, avg_cross) =
                (if 0 < ops then (cl_compute_units ledger div ops, cl_storage_bytes ledger div ops,
                   cl_event_count ledger div ops, cl_cross_contract_calls ledger div ops)
                 else (0, 0, 0, 0))
          in Some \<lparr>cb_slice_id = slice_id, cb_ledger = ledger, cb_avg_compute_units = avg_compute,
               cb_avg_storage_bytes = avg_storage, cb_avg_events = avg_events, cb_avg_cross_calls = avg_cross\<rparr>)"

definition project_slice_cost :: "costs \<Rightarrow> nat \<Rightarrow> nat \<Rightarrow> CostProjection option" where
  "project_slice_cost s slice_id projected_operations =
     (case get_slice_cost_breakdown s slice_id of
        None \<Rightarrow> None
      | Some breakdown \<Rightarrow> Some \<lparr>cp_slice_id = slice_id, cp_projected_operations = projected_operations,
          cp_projected_compute_units = sat_mul U64_MAX (cb_avg_compute_units breakdown) projected_operations,
          cp_projected_storage_bytes = sat_mul U64_MAX (cb_avg_storage_bytes breakdown) projected_operations,
          cp_projected_events = sat_mul U64_MAX (cb_avg_events breakdown) projected_operations,
          cp_projected_cross_calls = sat_mul U64_MAX (cb_avg_cross_calls breakdown) projected_operations\<rparr>)"

definition get_cost_optimization_hints :: "costs \<Rightarrow> nat \<Rightarrow> string list" where
  "get_cost_optimization_hints s slice_id =
     (case get_slice_cost_breakdown s slice_id of
        None \<Rightarrow> []
      | Some bd \<Rightarrow>
          (if COMPUTE_WARN_THRESHOLD < cb_avg_compute_units bd then [''reduce-compute''] else []) @
          (if STORAGE_WARN_THRESHOLD < cl_storage_bytes (cb_ledger bd) then [''optimize-storage''] else []) @
          (if CROSS_CALL_WARN_THRESHOLD < cb_avg_cross_calls bd then [''batch-cross-calls''] else []) @
          (if EVENT_WARN_THRESHOLD < cb_avg_events bd then [''reduce-events''] else []))"

definition reset_slice_cost :: "nat \<Rightarrow> bool cost_op" where
  "reset_slice_cost slice_id = (bindM (gets (\<lambda>s. c_ledgers s slice_id)) (\<lambda>found.
                               case found of
       None \<Rightarrow> returnM False
     | Some ledger \<Rightarrow> (thenM (modify (\<lambda>s. s\<lparr>c_ledgers := (c_ledgers s)(slice_id := None)\<rparr>)) (
                                 thenM (emit ''cost_rst'' [VU slice_id] [VU slice_id]) (
                                 returnM True)))))"

subsection \<open>Suggestions\<close>

datatype SuggestionType = AddAttesor | RemoveAttestor | ReweightAttestors | IncreaseThreshold | DecreaseThreshold | UpdateBackup

fun suggestion_code :: "SuggestionType \<Rightarrow> nat" where
  "suggestion_code AddAttesor = 0"
| "suggestion_code RemoveAttestor = 1"
| "suggestion_code ReweightAttestors = 2"
| "suggestion_code IncreaseThreshold = 3"
| "suggestion_code DecreaseThreshold = 4"
| "suggestion_code UpdateBackup = 5"

record SliceCompositionSuggestion =
  sg_suggestion_id :: nat
  sg_slice_id :: nat
  sg_suggestion_type :: SuggestionType
  sg_target_attestor :: "address option"
  sg_impact_score :: nat
  sg_confidence_score :: nat
  sg_estimated_cost_savings_bps :: nat
  sg_estimated_latency_reduction_ms :: nat
  sg_description :: bytes
  sg_generated_at :: nat
  sg_applied :: bool

datatype CompositionOptimizerKey = OK_SuggestionIds nat | OK_Suggestion nat | OK_SuggestionCount

record optimizer = "CompositionOptimizerKey module_store" +
  o_ids :: "nat \<rightharpoonup> nat list"
  o_suggestions :: "nat \<rightharpoonup> SliceCompositionSuggestion"
  o_count :: "nat option"

type_synonym 'a optimizer_op = "(failure, optimizer, 'a) act"

definition get_slice_suggestions :: "optimizer \<Rightarrow> nat \<Rightarrow> nat list" where
  "get_slice_suggestions s slice_id = get_or (o_ids s slice_id) []"

definition get_suggestion :: "optimizer \<Rightarrow> nat \<Rightarrow> SliceCompositionSuggestion option" where
  "get_suggestion s suggestion_id = o_suggestions s suggestion_id"

definition put_suggestion :: "nat \<Rightarrow> SliceCompositionSuggestion \<Rightarrow> unit optimizer_op" where
  "put_suggestion suggestion_id suggestion = (thenM (modify (\<lambda>s. s\<lparr>o_suggestions := (o_suggestions s)(suggestion_id \<mapsto> suggestion)\<rparr>)) (
                                             extend_rent (OK_Suggestion suggestion_id)))"

definition suggest_slice_improvements ::
  "nat \<Rightarrow> nat \<Rightarrow> address list \<Rightarrow> SliceCompositionSuggestion list optimizer_op" where
  "suggest_slice_improvements now slice_id attestors = (bindM (gets (\<lambda>s. get_or (o_count s) 0)) (\<lambda>suggestion_id.
                                                       (let suggestions = (if length attestors \<le> 1 then [\<lparr>sg_suggestion_id = suggestion_id, sg_slice_id = slice_id,
         sg_suggestion_type = AddAttesor, sg_target_attestor = None, sg_impact_score = 75, sg_confidence_score = 90,
         sg_estimated_cost_savings_bps = 500, sg_estimated_latency_reduction_ms = 100, sg_description = [],
         sg_generated_at = now, sg_applied = False\<rparr>] else []) in
                                                       thenM (forM suggestions (\<lambda>suggestion. (thenM (put_suggestion (sg_suggestion_id suggestion) suggestion) (
                                            emit ''sugg_gen'' [VU slice_id] [VU (sg_suggestion_id suggestion), VU slice_id,
         VU (suggestion_code (sg_suggestion_type suggestion)), VU (sg_impact_score suggestion), VU (sg_confidence_score suggestion)])))) (
                                                       thenM (modify (\<lambda>s. s\<lparr>o_count := Some (sat_add U64_MAX suggestion_id (length suggestions))\<rparr>)) (
                                                       thenM (extend_rent OK_SuggestionCount) (
                                                       bindM (gets (\<lambda>s. get_slice_suggestions s slice_id)) (\<lambda>ids.
                                                       thenM (modify (\<lambda>s. s\<lparr>o_ids := (o_ids s)(slice_id \<mapsto> ids @ map sg_suggestion_id suggestions)\<rparr>)) (
                                                       thenM (extend_rent (OK_SuggestionIds slice_id)) (
                                                       returnM suggestions)))))))))"

definition apply_suggestion :: "nat \<Rightarrow> nat \<Rightarrow> bool optimizer_op" where
  "apply_suggestion now suggestion_id = (bindM (gets (\<lambda>s. o_suggestions s suggestion_id)) (\<lambda>found.
                                        case found of
       None \<Rightarrow> returnM False
     | Some suggestion \<Rightarrow>
         if sg_applied suggestion then returnM False
         else (thenM (put_suggestion suggestion_id (suggestion\<lparr>sg_applied := True\<rparr>)) (
              thenM (emit ''sugg_apl'' [VU (sg_slice_id suggestion)] [VU suggestion_id, VU (sg_slice_id suggestion),
             VU (suggestion_code (sg_suggestion_type suggestion)), VU now]) (
              returnM True)))))"

text \<open>Two suggestions are exchanged when the later has the greater impact, or the same impact and the greater confidence.\<close>

definition rank_swap :: "nat \<Rightarrow> SliceCompositionSuggestion list \<Rightarrow> SliceCompositionSuggestion list" where
  "rank_swap j ranked =
     (let s1 = ranked ! j; s2 = ranked ! (j + 1);
          should_swap = (if sg_impact_score s1 = sg_impact_score s2 then sg_confidence_score s1 < sg_confidence_score s2
                         else sg_impact_score s1 < sg_impact_score s2)
      in if should_swap then (ranked[j := s2])[j + 1 := s1] else ranked)"

definition rank_suggestions :: "SliceCompositionSuggestion list \<Rightarrow> SliceCompositionSuggestion list" where
  "rank_suggestions suggestions =
     fold (\<lambda>i ranked. fold rank_swap [0..<length suggestions - (i + 1)] ranked) [0..<length suggestions] suggestions"

end
