(* ===== verification/Selection_Properties.thy ===== *)
theory Selection_Properties
  imports Slice_Selection Transition_Systems "HOL-Library.Sublist"
begin

section \<open>Properties of selection, costs and suggestions\<close>

subsection \<open>The comparison of byte strings\<close>

lemma all_nth_eq: "length a \<le> length b \<Longrightarrow> list_all (\<lambda>i. b ! i = a ! i) [0..<length a] \<longleftrightarrow> take (length a) b = a"
  by (subst list_eq_iff_nth_eq) (auto simp: list_all_iff)

lemma bytes_equal_iff: "bytes_equal a b \<longleftrightarrow> a = b"
  unfolding bytes_equal_def by (metis all_nth_eq order_refl take_all)

lemma prefix_match_iff: "prefix_match h n \<longleftrightarrow> prefix n h"
  by (auto simp: prefix_match_def all_nth_eq prefix_def intro: append_take_drop_id [symmetric]) (metis append_take_drop_id)

lemma differences_count:
  "d + n \<le> U32_MAX \<Longrightarrow> fold (\<lambda>i d. if a ! i \<noteq> b ! i then sat_add U32_MAX d 1 else d) [k..<k + n] d =
     d + length (filter (\<lambda>i. a ! i \<noteq> b ! i) [k..<k + n])"
proof (induction n arbitrary: d k)
  case (Suc n)
  have upt: "[k..<k + Suc n] = k # [Suc k..<Suc k + n]" by (simp add: upt_conv_Cons)
  show ?case unfolding upt using Suc.IH [of d "Suc k"] Suc.IH [of "Suc d" "Suc k"] Suc.prems by (simp add: sat_add_def)
qed simp

text \<open>The fuzzy comparison bounds the difference of the lengths and the number of differing positions.\<close>

lemma fuzzy_match_iff:
  assumes "length a \<le> U32_MAX" "length b \<le> U32_MAX"
  shows "fuzzy_match a b \<longleftrightarrow> length a \<le> length b + 2 \<and> length b \<le> length a + 2 \<and>
     length (filter (\<lambda>i. a ! i \<noteq> b ! i) [0..<min (length a) (length b)]) \<le> 2"
  using differences_count [of 0 "min (length a) (length b)" a b 0] assms
  by (auto simp: fuzzy_match_def abs_diff_def matching_constants min_def Let_def)

text \<open>One byte inserted in front defeats it: an edit distance of 1 is not enough for a fuzzy match.\<close>

lemma fuzzy_not_edit_distance: "\<not> fuzzy_match [1, 2, 3, 4] [9, 1, 2, 3, 4]"
  by (simp add: fuzzy_match_def abs_diff_def matching_constants sat_add_def upt_rec)

subsection \<open>The exchange sort\<close>

definition picked :: "nat \<Rightarrow> nat \<Rightarrow> AttestorMatch list \<Rightarrow> AttestorMatch list \<Rightarrow> bool" where
  "picked i k xs ys \<longleftrightarrow> length ys = length xs \<and> mset ys = mset xs \<and> (\<forall>p < i. ys ! p = xs ! p) \<and>
     (\<forall>p. i \<le> p \<longrightarrow> p < length xs \<longrightarrow> (\<exists>q. i \<le> q \<and> q < length xs \<and> ys ! p = xs ! q)) \<and>
     (\<forall>p. i \<le> p \<longrightarrow> p < k \<longrightarrow> am_score (ys ! p) \<le> am_score (ys ! i))"

lemma picked_pass: "i < k \<Longrightarrow> k \<le> length xs \<Longrightarrow> picked i k xs (fold (exchange i) [i + 1..<k] xs)"
proof (induction k)
  case (Suc k)
  show ?case
  proof (cases "i = k")
    case True
    then show ?thesis using Suc.prems by (auto simp: picked_def le_less_Suc_eq)
  next
    case False
    define ys where "ys = fold (exchange i) [i + 1..<k] xs"
    have ik: "i < k" using False Suc.prems by simp
    have ys: "picked i k xs ys" unfolding ys_def using Suc ik by simp
    have fold: "fold (exchange i) [i + 1..<Suc k] xs = exchange i k ys" using ik by (simp add: ys_def)
    have bounds: "i < length ys" "k < length ys" using ys Suc.prems by (simp_all add: picked_def)
    have nth: "exchange i k ys ! p = (if am_score (ys ! i) < am_score (ys ! k)
        then if p = i then ys ! k else if p = k then ys ! i else ys ! p else ys ! p)" for p
      using bounds ik by (simp add: exchange_def nth_list_update)
    have same: "length (exchange i k ys) = length xs" "mset (exchange i k ys) = mset xs"
      using ys bounds by (simp_all add: picked_def exchange_def mset_swap)
    have low: "exchange i k ys ! p = xs ! p" if "p < i" for p using ys that ik by (simp add: picked_def nth)
    have src: "\<exists>q. i \<le> q \<and> q < length xs \<and> exchange i k ys ! p = xs ! q" if "i \<le> p" "p < length xs" for p
    proof -
      define r where "r = (if am_score (ys ! i) < am_score (ys ! k) then if p = i then k else if p = k then i else p else p)"
      have "exchange i k ys ! p = ys ! r" "i \<le> r" "r < length xs" using that ik Suc.prems by (auto simp: nth r_def)
      then show ?thesis using ys by (simp add: picked_def)
    qed
    have "am_score (exchange i k ys ! p) \<le> am_score (exchange i k ys ! i)" if "i \<le> p" "p < Suc k" for p
      using ys that ik by (auto simp: picked_def nth less_Suc_eq dest: order.trans [OF _ less_imp_le])
    then show ?thesis unfolding fold using same low src by (simp add: picked_def)
  qed
qed simp

definition fronted :: "nat \<Rightarrow> AttestorMatch list \<Rightarrow> bool" where
  "fronted m xs \<longleftrightarrow> (\<forall>p q. p < m \<longrightarrow> p < q \<longrightarrow> q < length xs \<longrightarrow> am_score (xs ! q) \<le> am_score (xs ! p))"

lemma pass_fronts:
  assumes "fronted i xs" "i < length xs"
  shows "let ys = fold (exchange i) [i + 1..<length xs] xs in fronted (Suc i) ys \<and> mset ys = mset xs \<and> length ys = length xs"
proof -
  define ys where "ys = fold (exchange i) [i + 1..<length xs] xs"
  have ys: "picked i (length xs) xs ys" unfolding ys_def using assms(2) by (intro picked_pass) simp_all
  have "am_score (ys ! q) \<le> am_score (ys ! p)" if pq: "p < Suc i" "p < q" "q < length ys" for p q
  proof (cases "p = i")
    case True
    then show ?thesis using ys pq by (simp add: picked_def)
  next
    case False
    then have p: "p < i" "ys ! p = xs ! p" using ys pq by (simp_all add: picked_def)
    obtain r where "p < r" "r < length xs" "ys ! q = xs ! r"
    proof (cases "q < i")
      case True
      then show ?thesis using that [of q] ys pq by (simp add: picked_def)
    next
      case False
      then have "\<exists>r. i \<le> r \<and> r < length xs \<and> ys ! q = xs ! r" using ys pq by (simp add: picked_def)
      then obtain r where "i \<le> r" "r < length xs" "ys ! q = xs ! r" by blast
      then show ?thesis using that [of r] p by simp
    qed
    then show ?thesis using assms(1) p by (simp add: fronted_def)
  qed
  then have "fronted (Suc i) ys" by (simp add: fronted_def)
  then show ?thesis unfolding ys_def [symmetric] Let_def using ys by (simp add: picked_def)
qed

lemma exchange_sort_sorts:
  "sorted_wrt (\<lambda>a b. am_score b \<le> am_score a) (exchange_sort ms)" "mset (exchange_sort ms) = mset ms"
proof -
  let ?pass = "\<lambda>i. fold (exchange i) [i + 1..<length ms]"
  have "fronted m (fold ?pass [0..<m] ms) \<and> mset (fold ?pass [0..<m] ms) = mset ms \<and> length (fold ?pass [0..<m] ms) = length ms"
    if "m \<le> length ms" for m
    using that
  proof (induction m)
    case (Suc m)
    then show ?case using pass_fronts [of m "fold ?pass [0..<m] ms"] by (simp add: Let_def)
  qed (simp add: fronted_def)
  from this [of "length ms"] show "sorted_wrt (\<lambda>a b. am_score b \<le> am_score a) (exchange_sort ms)" "mset (exchange_sort ms) = mset ms"
    by (auto simp: exchange_sort_def fronted_def sorted_wrt_iff_nth_less)
qed

subsection \<open>The index of active attestors\<close>

text \<open>
  Every active attestor is in the index. The converse fails: setting a profile with \<open>active = false\<close>
  does not remove the attestor, and activating it afterwards adds it a second time.
\<close>

definition indexed :: "attestors \<Rightarrow> bool" where
  "indexed s \<longleftrightarrow> (\<forall>a. is_attestor_active s a \<longrightarrow> a \<in> set (get_or (a_index s) [])) \<and>
     (\<forall>a p. a_profiles s a = Some p \<longrightarrow> ap_address p = a \<and> ap_reputation_score p \<le> 100 \<and> length (ap_attributes p) \<le> MAX_ATTRIBUTES_PER_ATTESTOR)"

definition no_attestors :: "attestors \<Rightarrow> bool" where
  "no_attestors s \<longleftrightarrow> a_profiles s = Map.empty \<and> a_index s = None"

inductive attestor_step :: "attestors \<Rightarrow> attestors \<Rightarrow> bool" where
  "set_attestor_profile a attributes reputation active s = Inr (b, t) \<Longrightarrow> attestor_step s t"
| "activate_attestor a s = Inr (b, t) \<Longrightarrow> attestor_step s t"
| "deactivate_attestor a s = Inr (b, t) \<Longrightarrow> attestor_step s t"

lemmas attestor_defs = set_attestor_profile_def activate_attestor_def deactivate_attestor_def put_profile_def put_index_def

lemmas active_defs = is_attestor_active_def get_attestor_profile_def

lemma attestor_ops_indexed:
  assumes "indexed s"
  shows "wp (set_attestor_profile a attributes reputation active) (\<lambda>_. indexed) s"
    and "wp (activate_attestor a) (\<lambda>_. indexed) s" and "wp (deactivate_attestor a) (\<lambda>_. indexed) s"
  unfolding attestor_defs using assms
  by (auto simp: wp_simps indexed_def active_defs list_ex_iff split: option.splits)

interpretation directory: invariant_system no_attestors attestor_step indexed
proof
  show "indexed s" if "no_attestors s" for s using that by (simp add: no_attestors_def indexed_def active_defs)
  show "indexed t" if "indexed s" "attestor_step s t" for s t
    using that(2) by cases (use attestor_ops_indexed [OF that(1)] in \<open>blast dest: wpD\<close>)+
qed

subsection \<open>Matching\<close>

lemma take_sorted_wrt: "sorted_wrt P xs \<Longrightarrow> sorted_wrt P (take n xs)"
  by (metis append_take_drop_id sorted_wrt_append)

text \<open>A filled page leaves out only matches that are not better than the ones on it.\<close>

lemma page_best:
  assumes "sorted_wrt (\<lambda>a b. am_score b \<le> am_score a) ms" "m \<in> set ms" "m \<notin> set (take n ms)" "x \<in> set (take n ms)"
  shows "am_score m \<le> am_score x"
proof -
  have "m \<in> set (drop n ms)" using assms(2,3) by (metis Un_iff append_take_drop_id set_append)
  then show ?thesis using assms(1,4) by (metis append_take_drop_id sorted_wrt_append)
qed

lemma candidates:
  "set (concat (map (match_of s rq) as)) = {m. \<exists>p. am_address m \<in> set as \<and> a_profiles s (am_address m) = Some p \<and>
     0 < match_score rq p \<and> am_score m = match_score rq p \<and> am_reputation m = ap_reputation_score p}"
  by (auto simp: match_of_def split: option.splits if_splits) metis

text \<open>C32. A search among the active attestors returns them by descending score, every result
  is an indexed attestor with the score of its profile, the number of results respects the limit,
  and an attestor that is active and scores more than 0 is either in the result or the result is
  full and everything on it scores at least as much.\<close>

theorem matching_ranked:
  assumes "reachable no_attestors attestor_step s" "rq_active_only rq"
  shows "let ms = match_attestors_by_attributes s rq in sorted_wrt (\<lambda>a b. am_score b \<le> am_score a) ms \<and> (0 < rq_limit rq \<longrightarrow> length ms \<le> rq_limit rq) \<and>
     (\<forall>m \<in> set ms. am_address m \<in> set (get_or (a_index s) []) \<and>
        (\<exists>p. get_attestor_profile s (am_address m) = Some p \<and> am_score m = match_score rq p)) \<and>
     (\<forall>a p. get_attestor_profile s a = Some p \<and> ap_active p \<and> 0 < match_score rq p \<longrightarrow>
        a \<in> am_address ` set ms \<or> length ms = rq_limit rq \<and> (\<forall>m \<in> set ms. match_score rq p \<le> am_score m))"
proof -
  let ?index = "get_or (a_index s) []"
  define all where "all = exchange_sort (concat (map (match_of s rq) ?index))"
  define n where "n = (if 0 < rq_limit rq \<and> rq_limit rq < length all then rq_limit rq else length all)"
  define ms where "ms = match_attestors_by_attributes s rq"
  have ms: "ms = take n all" using assms(2) by (simp add: ms_def match_attestors_by_attributes_def all_def n_def Let_def)
  have srt: "sorted_wrt (\<lambda>a b. am_score b \<le> am_score a) all" unfolding all_def by (rule exchange_sort_sorts)
  have els: "set all = set (concat (map (match_of s rq) ?index))"
    unfolding all_def by (metis exchange_sort_sorts(2) set_mset_mset)
  have ok: "indexed s" by (rule directory.inv_reachable [OF assms(1)])
  have sound: "am_address m \<in> set ?index \<and> (\<exists>p. get_attestor_profile s (am_address m) = Some p \<and> am_score m = match_score rq p)"
    if "m \<in> set ms" for m
    using that set_take_subset [of n all] unfolding ms els candidates get_attestor_profile_def by blast
  have complete: "a \<in> am_address ` set ms \<or> length ms = rq_limit rq \<and> (\<forall>m \<in> set ms. match_score rq p \<le> am_score m)"
    if p: "get_attestor_profile s a = Some p" "ap_active p" "0 < match_score rq p" for a p
  proof -
    define m where "m = \<lparr>am_address = a, am_score = match_score rq p, am_reputation = ap_reputation_score p\<rparr>"
    have "a \<in> set ?index" using ok p unfolding indexed_def active_defs by force
    then have m: "m \<in> set all" unfolding els candidates using p by (auto simp: m_def get_attestor_profile_def)
    show ?thesis
    proof (cases "m \<in> set ms")
      case True
      then show ?thesis by (force simp: m_def)
    next
      case False
      then have "n \<noteq> length all" using m ms by auto
      then have "length ms = rq_limit rq" using ms by (auto simp: n_def split: if_splits)
      moreover have "match_score rq p \<le> am_score x" if "x \<in> set ms" for x
        using page_best [OF srt m, of n x] False that by (simp add: ms m_def)
      ultimately show ?thesis by simp
    qed
  qed
  have "0 < rq_limit rq \<longrightarrow> length ms \<le> rq_limit rq" by (auto simp: ms n_def)
  then show ?thesis
    unfolding ms_def [symmetric] Let_def using sound complete take_sorted_wrt [OF srt, of n] by (simp add: ms)
qed

text \<open>An attestor whose profile is set to inactive stays in the index and is found, and activating it lists it twice.\<close>

lemma inactive_found:
  assumes "a_index s = Some [a]" "r \<le> 100" "0 < r" "rq_active_only rq" "rq_attributes rq = []" "rq_limit rq = 0"
  shows "runs (set_attestor_profile a [] r False) (\<lambda>_ t. \<not> is_attestor_active t a \<and>
     map am_address (match_attestors_by_attributes t rq) = [a] \<and>
     runs (activate_attestor a) (\<lambda>_ u. a_index u = Some [a, a]) t) s"
  unfolding attestor_defs
  using assms by (simp add: run_simps active_defs match_attestors_by_attributes_def match_of_def match_score_def
    exchange_sort_def Let_def sat_add_def sat_mul_def MAX_ATTRIBUTES_PER_ATTESTOR_def)

subsection \<open>Costs\<close>

record cost_report =
  r_now :: nat
  r_compute :: nat
  r_storage :: nat
  r_events :: nat
  r_calls :: nat

definition report :: "nat \<Rightarrow> cost_report \<Rightarrow> costs \<Rightarrow> costs" where
  "report i r = after (record_slice_operation_cost (r_now r) i (r_compute r) (r_storage r) (r_events r) (r_calls r))"

text \<open>The ledger that a list of reports should produce: the sums, kept within 64 bits.\<close>

definition cost_total :: "cost_report list \<Rightarrow> CostLedger" where
  "cost_total rs = \<lparr>cl_compute_units = min U64_MAX (sum_list (map r_compute rs)),
     cl_storage_bytes = min U64_MAX (sum_list (map r_storage rs)), cl_event_count = min U64_MAX (sum_list (map r_events rs)),
     cl_cross_contract_calls = min U64_MAX (sum_list (map r_calls rs)), cl_operation_count = min U64_MAX (length rs),
     cl_first_recorded_at = r_now (hd rs), cl_last_recorded_at = r_now (last rs)\<rparr>"

lemma sat_add_min: "sat_add mx (min mx a) b = min mx (a + b)"
  by (simp add: sat_add_def min_def)

lemma report_step:
  assumes "c_ledgers s i = (if rs = [] then None else Some (cost_total rs))"
  shows "c_ledgers (report i r s) i = Some (cost_total (rs @ [r]))"
proof (cases "rs = []")
  case True
  then show ?thesis
    using assms by (simp add: report_def record_slice_operation_cost_def after_def exec module_exec emit_def cost_total_def sat_add_def)
next
  case False
  then show ?thesis
    using assms by (simp add: report_def record_slice_operation_cost_def after_def exec module_exec emit_def cost_total_def sat_add_min Let_def)
qed

lemma report_other: "j \<noteq> i \<Longrightarrow> c_ledgers (report i r s) j = c_ledgers s j"
  by (simp add: report_def record_slice_operation_cost_def after_def exec module_exec emit_def)

lemma average_bound: "(x div n) * n \<le> (x :: nat)"
  by (rule div_times_less_eq_dividend)

text \<open>After any reports on a slice without costs, its ledger holds the sums of the reported
  costs (within 64 bits), the number of reports and the times of the first and the last one; the
  averages are the sums divided by that number, so that a projection over as many operations as
  were reported never exceeds the recorded costs; and no other slice is touched.\<close>

theorem cost_accumulates:
  assumes "c_ledgers s i = None" "rs \<noteq> []" "length rs \<le> U64_MAX"
  shows "let t = fold (report i) rs s in c_ledgers t i = Some (cost_total rs) \<and> (\<forall>j. j \<noteq> i \<longrightarrow> c_ledgers t j = c_ledgers s j) \<and>
     (\<exists>bd pj. get_slice_cost_breakdown t i = Some bd \<and> cb_ledger bd = cost_total rs \<and>
        cb_avg_compute_units bd = cl_compute_units (cost_total rs) div length rs \<and>
        project_slice_cost t i (length rs) = Some pj \<and>
        cp_projected_compute_units pj \<le> cl_compute_units (cost_total rs) \<and>
        cp_projected_storage_bytes pj \<le> cl_storage_bytes (cost_total rs) \<and>
        cp_projected_events pj \<le> cl_event_count (cost_total rs) \<and>
        cp_projected_cross_calls pj \<le> cl_cross_contract_calls (cost_total rs))"
proof -
  let ?t = "fold (report i) rs s"
  have "c_ledgers (fold (report i) qs s) i = (if qs = [] then None else Some (cost_total qs))" for qs
    by (induction qs rule: rev_induct) (simp_all add: assms(1) report_step)
  then have own: "c_ledgers ?t i = Some (cost_total rs)" using assms(2) by simp
  have others: "c_ledgers ?t j = c_ledgers s j" if "j \<noteq> i" for j
    using that by (induction rs rule: rev_induct) (simp_all add: report_other)
  have ops: "cl_operation_count (cost_total rs) = length rs" "0 < length rs" using assms(2,3) by (simp_all add: cost_total_def)
  have "sat_mul U64_MAX (x div length rs) (length rs) \<le> x" for x
    using average_bound [of x "length rs"] by (simp add: sat_mul_def min.coboundedI2)
  then show ?thesis
    using own others ops by (simp add: Let_def get_slice_cost_breakdown_def project_slice_cost_def)
qed

subsection \<open>Ranking of suggestions\<close>

text \<open>The loops are a bubble sort by descending impact and, for the same impact, descending confidence.\<close>

definition rank_key :: "SliceCompositionSuggestion \<Rightarrow> int \<times> int" where
  "rank_key g = (- int (sg_impact_score g), - int (sg_confidence_score g))"

lemma rank_swap_key: "rank_swap = compare_swap rank_key"
  by (auto simp: fun_eq_iff rank_swap_def compare_swap_def rank_key_def less_prod_def Let_def)

lemma rank_suggestions_sorts:
  "sorted (map rank_key (rank_suggestions gs))" "mset (rank_suggestions gs) = mset gs"
proof -
  have len: "length (fold (compare_swap rank_key) js xs) = length xs" for js xs
    by (induction js arbitrary: xs) (simp_all add: compare_swap_def)
  have "fold (\<lambda>i. fold (compare_swap rank_key) [0..<length gs - (i + 1)]) is xs = fold (bubble_pass rank_key) is xs"
    if "length xs = length gs" for "is" xs
    using that by (induction "is" arbitrary: xs) (simp_all add: bubble_pass_def len)
  then have "rank_suggestions gs = bubble_sort rank_key gs" by (simp add: rank_suggestions_def bubble_sort_def rank_swap_key)
  then show "sorted (map rank_key (rank_suggestions gs))" "mset (rank_suggestions gs) = mset gs"
    by (simp_all add: bubble_sort_sorts)
qed

lemma applied_once:
  "runs (apply_suggestion now g) (\<lambda>b t. b = (\<exists>x. get_suggestion s g = Some x \<and> \<not> sg_applied x) \<and>
     (\<forall>x. get_suggestion s g = Some x \<longrightarrow> get_suggestion t g = Some (x\<lparr>sg_applied := True\<rparr>))) s"
  unfolding apply_suggestion_def put_suggestion_def by (auto simp: run_simps get_suggestion_def split: option.splits)

subsection \<open>Examples\<close>

definition two_profiles :: attestors where
  "two_profiles = after (set_attestor_profile 2 [\<lparr>at_key = [7], at_value = [1, 2]\<rparr>] 50 True)
     (after (set_attestor_profile 1 [] 80 True) \<lparr>ms_events = [], ms_rent = [], a_profiles = Map.empty, a_index = None\<rparr>)"

definition two_request :: MatchRequest where
  "two_request = \<lparr>rq_attributes = [\<lparr>at_key = [7], at_value = [1, 2]\<rparr>], rq_weights = Map.empty, rq_active_only = True, rq_limit = 1\<rparr>"

lemma two_profiles_reachable: "reachable no_attestors attestor_step two_profiles"
proof -
  have step: "reachable no_attestors attestor_step s \<Longrightarrow> reachable no_attestors attestor_step (after (set_attestor_profile a xs r b) s)"
    for a xs r b s
    unfolding after_def by (auto split: sum.splits intro: reachable_step attestor_step.intros)
  show ?thesis unfolding two_profiles_def by (intro step reachable_start) (simp add: no_attestors_def)
qed

theorem matching_ranked_witness:
  "let ms = match_attestors_by_attributes two_profiles two_request in length ms \<le> 1 \<and>
     (2 \<in> am_address ` set ms \<or> length ms = 1 \<and> (\<forall>m \<in> set ms. 1500 \<le> am_score m))"
proof -
  let ?p = "\<lparr>ap_address = 2, ap_attributes = [\<lparr>at_key = [7], at_value = [1, 2]\<rparr>], ap_reputation_score = 50, ap_active = True\<rparr>"
  have p: "get_attestor_profile two_profiles 2 = Some ?p"
    by (simp add: two_profiles_def after_def attestor_defs exec module_exec emit_def extend_rent_def matching_constants get_attestor_profile_def)
  have score: "match_score two_request ?p = 1500"
    by (simp add: match_score_def two_request_def sat_add_def sat_mul_def score_attribute_match_def exact_match_def bytes_equal_iff matching_constants)
  have rq: "rq_active_only two_request" "rq_limit two_request = 1" by (simp_all add: two_request_def)
  note found = matching_ranked [OF two_profiles_reachable rq(1), unfolded Let_def rq(2)]
  have "2 \<in> am_address ` set (match_attestors_by_attributes two_profiles two_request) \<or>
      length (match_attestors_by_attributes two_profiles two_request) = 1 \<and>
      (\<forall>m \<in> set (match_attestors_by_attributes two_profiles two_request). match_score two_request ?p \<le> am_score m)"
    using found [THEN conjunct2, THEN conjunct2, THEN conjunct2, rule_format, of 2 ?p] p score by simp
  then show ?thesis using found [THEN conjunct2, THEN conjunct1] unfolding Let_def score by simp
qed

theorem cost_accumulates_witness:
  "let s = \<lparr>ms_events = [], ms_rent = [], c_ledgers = Map.empty\<rparr>;
       r = \<lparr>r_now = 10, r_compute = 30000, r_storage = 100, r_events = 2, r_calls = 1\<rparr>;
       t = fold (report 5) [r, r\<lparr>r_now := 20\<rparr>] s in
   cl_compute_units (the (c_ledgers t 5)) = 60000 \<and> cl_last_recorded_at (the (c_ledgers t 5)) = 20"
  using cost_accumulates [of "\<lparr>ms_events = [], ms_rent = [], c_ledgers = Map.empty\<rparr>" 5
    "[\<lparr>r_now = 10, r_compute = 30000, r_storage = 100, r_events = 2, r_calls = 1\<rparr>,
      \<lparr>r_now = 20, r_compute = 30000, r_storage = 100, r_events = 2, r_calls = 1\<rparr>]"]
  by (simp add: Let_def cost_total_def)

end
