(* ===== verification/Sbt_Compression.thy ===== *)
theory Sbt_Compression
  imports Heirloom_Prelude "HOL-Library.Word"
begin

section \<open>Compression of credential metadata\<close>

text \<open>
  The module \<open>sbt/src/compression.rs\<close>: metadata is packed into literal and repeat blocks, of the bytes
  themselves or of their differences, and framed as a MessagePack extension. Bytes are 8-bit words,
  so that the wrapping differences of the source are \<open>+\<close> and \<open>-\<close>; indexes and lengths are naturals. The
  index arithmetic of the source stays far below its 32 bits, since a length is at most \<open>U32_MAX\<close> and an
  index runs over a length.
\<close>

unbundle bit_operations_syntax

type_synonym u8 = "8 word"

definition MAX_METADATA_SIZE :: nat where "MAX_METADATA_SIZE = 4096"
definition MESSAGEPACK_EXT8 :: u8 where "MESSAGEPACK_EXT8 = 0xC7"
definition MESSAGEPACK_EXT16 :: u8 where "MESSAGEPACK_EXT16 = 0xC8"
definition HEIRLOOM_METADATA_TYPE :: u8 where "HEIRLOOM_METADATA_TYPE = 0x45"
definition FORMAT_VERSION :: u8 where "FORMAT_VERSION = 1"
definition MODE_DIRECT :: u8 where "MODE_DIRECT = 0"
definition MODE_DELTA :: u8 where "MODE_DELTA = 1"
definition LEGACY_MAGIC :: u8 where "LEGACY_MAGIC = 0xC1"
definition MAX_LITERAL_LENGTH :: nat where "MAX_LITERAL_LENGTH = 128"
definition MAX_REPEAT_LENGTH :: nat where "MAX_REPEAT_LENGTH = 130"

lemmas compression_constants = MAX_METADATA_SIZE_def MESSAGEPACK_EXT8_def MESSAGEPACK_EXT16_def HEIRLOOM_METADATA_TYPE_def
  FORMAT_VERSION_def MODE_DIRECT_def MODE_DELTA_def LEGACY_MAGIC_def MAX_LITERAL_LENGTH_def MAX_REPEAT_LENGTH_def

datatype CompressionError = InvalidCompressedData | OutputTooLarge

subsection \<open>Encoding\<close>

definition transformed_byte :: "u8 list \<Rightarrow> nat \<Rightarrow> u8 \<Rightarrow> u8" where
  "transformed_byte metadata index mode =
     (let current = metadata ! index in
      if mode = MODE_DELTA then
        let previous = (if index = 0 then 0 else metadata ! (index - 1)) in current - previous
      else current)"

text \<open>The loop of \<open>repeat_length\<close>, from a length already reached.\<close>

function repeat_from :: "u8 list \<Rightarrow> nat \<Rightarrow> u8 \<Rightarrow> nat \<Rightarrow> nat" where
  "repeat_from metadata start mode len =
     (if len < MAX_REPEAT_LENGTH \<and> start + len < length metadata \<and>
         transformed_byte metadata (start + len) mode = transformed_byte metadata start mode
      then repeat_from metadata start mode (len + 1) else len)"
  by pat_completeness auto
termination by (relation "measure (\<lambda>(metadata, start, mode, len). MAX_REPEAT_LENGTH - len)") auto

definition repeat_length :: "u8 list \<Rightarrow> nat \<Rightarrow> u8 \<Rightarrow> nat" where
  "repeat_length metadata start mode = repeat_from metadata start mode 1"

text \<open>The inner loop of \<open>encode_blocks\<close> that extends a literal up to the next repeat.\<close>

function literal_from :: "u8 list \<Rightarrow> u8 \<Rightarrow> nat \<Rightarrow> nat \<Rightarrow> nat" where
  "literal_from metadata mode index literal_length =
     (if index < length metadata \<and> literal_length < MAX_LITERAL_LENGTH \<and>
         \<not> (literal_length > 0 \<and> repeat_length metadata index mode \<ge> 3)
      then literal_from metadata mode (index + 1) (literal_length + 1) else literal_length)"
  by pat_completeness auto
termination by (relation "measure (\<lambda>(metadata, mode, index, literal_length). MAX_LITERAL_LENGTH - literal_length)") auto

declare repeat_from.simps [simp del] literal_from.simps [simp del]

lemma repeat_from_bounds:
  assumes "1 \<le> n" "n \<le> MAX_REPEAT_LENGTH" "i + n \<le> length md"
    "\<forall>j < n. transformed_byte md (i + j) mode = transformed_byte md i mode"
  shows "let r = repeat_from md i mode n in n \<le> r \<and> r \<le> MAX_REPEAT_LENGTH \<and> i + r \<le> length md \<and>
     (\<forall>j < r. transformed_byte md (i + j) mode = transformed_byte md i mode)"
  using assms
proof (induction md i mode n rule: repeat_from.induct)
  case (1 md i mode n)
  show ?case
  proof (cases "n < MAX_REPEAT_LENGTH \<and> i + n < length md \<and> transformed_byte md (i + n) mode = transformed_byte md i mode")
    case True
    then have "let r = repeat_from md i mode (n + 1) in n + 1 \<le> r \<and> r \<le> MAX_REPEAT_LENGTH \<and> i + r \<le> length md \<and>
        (\<forall>j < r. transformed_byte md (i + j) mode = transformed_byte md i mode)"
      using 1 by (intro "1.IH") (auto simp: less_Suc_eq)
    moreover have "repeat_from md i mode n = repeat_from md i mode (n + 1)" using True by (subst repeat_from.simps) simp
    ultimately show ?thesis by (simp add: Let_def)
  next
    case False
    then have "repeat_from md i mode n = n" by (subst repeat_from.simps) auto
    then show ?thesis using 1 by (simp add: Let_def)
  qed
qed

lemma repeat_length_bounds:
  assumes "i < length md"
  shows "1 \<le> repeat_length md i mode" "repeat_length md i mode \<le> 130" "i + repeat_length md i mode \<le> length md"
    "j < repeat_length md i mode \<Longrightarrow> transformed_byte md (i + j) mode = transformed_byte md i mode"
  using repeat_from_bounds [of 1 i md mode] assms by (simp_all add: repeat_length_def MAX_REPEAT_LENGTH_def Let_def)

lemma literal_from_bounds:
  assumes "n \<le> MAX_LITERAL_LENGTH" "i \<le> length md"
  shows "n \<le> literal_from md mode i n \<and> literal_from md mode i n \<le> MAX_LITERAL_LENGTH \<and>
     i + (literal_from md mode i n - n) \<le> length md"
  using assms
proof (induction md mode i n rule: literal_from.induct)
  case (1 md mode i n)
  show ?case
  proof (cases "i < length md \<and> n < MAX_LITERAL_LENGTH \<and> \<not> (n > 0 \<and> repeat_length md i mode \<ge> 3)")
    case True
    then have "literal_from md mode i n = literal_from md mode (i + 1) (n + 1)" by (subst literal_from.simps) simp
    then show ?thesis using 1 True by auto
  next
    case False
    then have "literal_from md mode i n = n" by (subst literal_from.simps) auto
    then show ?thesis using 1 by simp
  qed
qed

lemma literal_bounds:
  assumes "i < length md"
  shows "1 \<le> literal_from md mode i 0" "literal_from md mode i 0 \<le> 128" "i + literal_from md mode i 0 \<le> length md"
proof -
  have "literal_from md mode i 0 = literal_from md mode (i + 1) 1"
    using assms by (subst literal_from.simps) (simp add: MAX_LITERAL_LENGTH_def)
  then show "1 \<le> literal_from md mode i 0" using literal_from_bounds [of 1 "i + 1" md mode] assms by (simp add: MAX_LITERAL_LENGTH_def)
  show "literal_from md mode i 0 \<le> 128" "i + literal_from md mode i 0 \<le> length md"
    using literal_from_bounds [of 0 i md mode] assms by (simp_all add: MAX_LITERAL_LENGTH_def)
qed

function encode_loop :: "u8 list \<Rightarrow> u8 \<Rightarrow> nat \<Rightarrow> u8 list \<Rightarrow> u8 list" where
  "encode_loop metadata mode index payload =
     (if index < length metadata then
        let repeated = repeat_length metadata index mode in
        if repeated \<ge> 3 then
          encode_loop metadata mode (index + repeated)
            (payload @ [0x80 OR word_of_nat (repeated - 3), transformed_byte metadata index mode])
        else
          let literal_length = literal_from metadata mode index 0 in
          encode_loop metadata mode (index + literal_length)
            (payload @ word_of_nat (literal_length - 1) #
               map (\<lambda>literal_index. transformed_byte metadata literal_index mode) [index..<index + literal_length])
      else payload)"
  by pat_completeness auto
termination
proof (relation "measure (\<lambda>(metadata, mode, index, payload). length metadata - index)")
  fix metadata :: "u8 list" and mode index payload l
  assume "index < length metadata" "l = literal_from metadata mode index 0"
  then show "((metadata, mode, index + l, payload @ word_of_nat (l - 1) #
      map (\<lambda>literal_index. transformed_byte metadata literal_index mode) [index..<index + l]), metadata, mode, index, payload)
      \<in> measure (\<lambda>(metadata, mode, index, payload). length metadata - index)"
    using literal_bounds [of index metadata mode] by simp
qed auto

declare encode_loop.simps [simp del]

definition encode_blocks :: "u8 list \<Rightarrow> u8 \<Rightarrow> u8 list" where
  "encode_blocks metadata mode = encode_loop metadata mode 0 [FORMAT_VERSION, mode]"

definition frame_messagepack_extension :: "u8 list \<Rightarrow> u8 list" where
  "frame_messagepack_extension payload =
     (if length payload \<le> 255 then [MESSAGEPACK_EXT8, word_of_nat (length payload)]
      else [MESSAGEPACK_EXT16, word_of_nat (length payload div 256), word_of_nat (length payload)])
     @ [HEIRLOOM_METADATA_TYPE] @ payload"

definition compress_metadata :: "u8 list \<Rightarrow> u8 list" where
  "compress_metadata metadata =
     (if metadata = [] \<or> length metadata > MAX_METADATA_SIZE then metadata
      else let direct = encode_blocks metadata MODE_DIRECT;
               delta = encode_blocks metadata MODE_DELTA;
               payload = (if length delta < length direct then delta else direct);
               framed = frame_messagepack_extension payload
           in if length framed < length metadata then framed else metadata)"

subsection \<open>Decoding\<close>

definition parse_messagepack_header :: "u8 list \<Rightarrow> CompressionError + (nat \<times> nat \<times> u8) option" where
  "parse_messagepack_header metadata =
     (let shape = (if metadata = [] then None
        else if metadata ! 0 = MESSAGEPACK_EXT8 \<and> length metadata \<ge> 3 \<and> metadata ! 2 = HEIRLOOM_METADATA_TYPE
        then Some (3, unat (metadata ! 1))
        else if metadata ! 0 = MESSAGEPACK_EXT16 \<and> length metadata \<ge> 4 \<and> metadata ! 3 = HEIRLOOM_METADATA_TYPE
        then Some (4, unat (metadata ! 1) * 256 + unat (metadata ! 2))
        else None)
      in case shape of
           None \<Rightarrow> Inr None
         | Some (payload_start, payload_length) \<Rightarrow>
             let payload_end = payload_start + payload_length in
             if payload_length < 2 \<or> payload_end \<noteq> length metadata then Inl InvalidCompressedData
             else let version = metadata ! payload_start; mode = metadata ! (payload_start + 1) in
               if version \<noteq> FORMAT_VERSION \<or> (mode \<noteq> MODE_DIRECT \<and> mode \<noteq> MODE_DELTA) then Inl InvalidCompressedData
               else Inr (Some (payload_start + 2, payload_end, mode)))"

text \<open>The state of a decoder: the output so far and the previous byte.\<close>

definition push_decoded :: "u8 \<Rightarrow> u8 \<Rightarrow> u8 list \<times> u8 \<Rightarrow> CompressionError + (u8 list \<times> u8)" where
  "push_decoded mode value = (\<lambda>(output, previous).
     if length output \<ge> MAX_METADATA_SIZE then Inl OutputTooLarge
     else let decoded = (if mode = MODE_DELTA then previous + value else value)
          in Inr (output @ [decoded], decoded))"

fun push_all :: "u8 \<Rightarrow> u8 list \<Rightarrow> u8 list \<times> u8 \<Rightarrow> CompressionError + (u8 list \<times> u8)" where
  "push_all mode [] st = Inr st"
| "push_all mode (v # vs) st = (case push_decoded mode v st of Inl e \<Rightarrow> Inl e | Inr st' \<Rightarrow> push_all mode vs st')"

function decode_loop :: "u8 list \<Rightarrow> nat \<Rightarrow> nat \<Rightarrow> u8 \<Rightarrow> u8 list \<times> u8 \<Rightarrow> CompressionError + (u8 list \<times> u8)" where
  "decode_loop encoded index stop mode st =
     (if index < stop then
        let token = encoded ! index; i = index + 1 in
        if token AND 0x80 \<noteq> 0 then
          if i \<ge> stop then Inl InvalidCompressedData
          else let repeats = unat (token AND 0x7F) + 3; value = encoded ! i in
            (case push_all mode (replicate repeats value) st of
               Inl e \<Rightarrow> Inl e
             | Inr st' \<Rightarrow> decode_loop encoded (i + 1) stop mode st')
        else
          let literals = unat (token AND 0x7F) + 1 in
          if i + literals > stop then Inl InvalidCompressedData
          else (case push_all mode (map (\<lambda>k. encoded ! k) [i..<i + literals]) st of
               Inl e \<Rightarrow> Inl e
             | Inr st' \<Rightarrow> decode_loop encoded (i + literals) stop mode st')
      else Inr st)"
  by pat_completeness auto
termination by (relation "measure (\<lambda>(encoded, index, stop, mode, st). stop - index)") auto

declare decode_loop.simps [simp del]

definition decode_blocks :: "u8 list \<Rightarrow> nat \<Rightarrow> nat \<Rightarrow> u8 \<Rightarrow> CompressionError + u8 list" where
  "decode_blocks encoded index stop mode =
     (case decode_loop encoded index stop mode ([], 0) of Inl e \<Rightarrow> Inl e | Inr (output, previous) \<Rightarrow> Inr output)"

definition is_legacy_compressed :: "u8 list \<Rightarrow> bool" where
  "is_legacy_compressed metadata =
     (length metadata \<ge> 2 \<and> metadata ! 0 = LEGACY_MAGIC \<and> (metadata ! 1 = MODE_DIRECT \<or> metadata ! 1 = MODE_DELTA))"

fun legacy_runs :: "u8 list \<Rightarrow> u8 list \<times> u8 \<Rightarrow> CompressionError + (u8 list \<times> u8)" where
  "legacy_runs [] st = Inr st"
| "legacy_runs [_] st = Inl InvalidCompressedData"
| "legacy_runs (repeats # value # rest) st =
     (if repeats = 0 then Inl InvalidCompressedData
      else case push_all MODE_DIRECT (replicate (unat repeats) value) st of Inl e \<Rightarrow> Inl e | Inr st' \<Rightarrow> legacy_runs rest st')"

definition decompress_legacy :: "u8 list \<Rightarrow> CompressionError + u8 list" where
  "decompress_legacy metadata =
     (case (if metadata ! 1 = MODE_DELTA then push_all MODE_DELTA (drop 2 metadata) ([], 0)
            else legacy_runs (drop 2 metadata) ([], 0)) of
        Inl e \<Rightarrow> Inl e | Inr (output, previous) \<Rightarrow> Inr output)"

definition decompress_metadata :: "u8 list \<Rightarrow> CompressionError + u8 list" where
  "decompress_metadata metadata =
     (case parse_messagepack_header metadata of
        Inl e \<Rightarrow> Inl e
      | Inr (Some (payload_start, payload_end, mode)) \<Rightarrow> decode_blocks metadata payload_start payload_end mode
      | Inr None \<Rightarrow> if is_legacy_compressed metadata then decompress_legacy metadata else Inr metadata)"

definition is_compressed :: "u8 list \<Rightarrow> bool" where
  "is_compressed metadata =
     ((case parse_messagepack_header metadata of Inr (Some header) \<Rightarrow> True | _ \<Rightarrow> False) \<or> is_legacy_compressed metadata)"

end
