(* ===== verification/Compression_Properties.thy ===== *)
theory Compression_Properties
  imports Sbt_Compression
begin

section \<open>Properties of the compression\<close>

unbundle bit_operations_syntax

subsection \<open>Tokens\<close>

lemma low_bits: "unat (w AND 0x7F) = unat w mod 128" for w :: u8
proof -
  have "w AND 0x7F = take_bit 7 w" by (simp add: take_bit_eq_mask mask_eq_exp_minus_1)
  then have "unat (w AND 0x7F) = take_bit 7 (unat w)" by (simp only: unsigned_take_bit_eq)
  then show ?thesis by (simp add: take_bit_eq_mod)
qed

lemma high_bit: "w AND 0x80 = 0 \<longleftrightarrow> unat w < 128" for w :: u8
proof -
  have "w AND 0x80 = 0 \<longleftrightarrow> \<not> bit w 7" using and_exp_eq_0_iff_not_bit [of w 7] by simp
  also have "\<dots> \<longleftrightarrow> even (unat w div 128)" using bit_unsigned_iff [of w 7, where 'a = nat] by (simp add: bit_iff_odd)
  also have "\<dots> \<longleftrightarrow> unat w < 128"
  proof -
    have "unat w div 128 \<le> 1" using unsigned_less [of w, where 'a = nat] by simp
    then show ?thesis by (auto simp: le_Suc_eq div_eq_0_iff)
  qed
  finally show ?thesis .
qed

lemma literal_token:
  assumes "n < 128"
  shows "(word_of_nat n :: u8) AND 0x80 = 0" "unat ((word_of_nat n :: u8) AND 0x7F) = n"
  using assms by (simp_all add: high_bit low_bits unat_of_nat)

lemma repeat_token:
  assumes "n < 128"
  shows "(0x80 OR word_of_nat n :: u8) AND 0x80 \<noteq> 0" "unat ((0x80 OR word_of_nat n :: u8) AND 0x7F) = n"
proof -
  have "(word_of_nat n :: u8) AND 0x80 = 0" by (rule literal_token [OF assms])
  then have "(0x80 OR word_of_nat n :: u8) = 0x80 + word_of_nat n" by (simp add: disjunctive_add_eq_or and.commute)
  then have "unat (0x80 OR word_of_nat n :: u8) = 128 + n" using assms by (simp add: unat_word_ariths unat_of_nat)
  then show "(0x80 OR word_of_nat n :: u8) AND 0x80 \<noteq> 0" "unat ((0x80 OR word_of_nat n :: u8) AND 0x7F) = n"
    using assms by (simp_all add: high_bit low_bits)
qed

subsection \<open>Decoding what was encoded\<close>

text \<open>The state of the decoder once the first \<open>i\<close> bytes of the metadata are restored.\<close>

definition restored_to :: "u8 list \<Rightarrow> nat \<Rightarrow> u8 list \<times> u8" where
  "restored_to md i = (take i md, if i = 0 then 0 else md ! (i - 1))"

lemma push_restores:
  assumes "i < length md" "length md \<le> MAX_METADATA_SIZE" "mode = MODE_DIRECT \<or> mode = MODE_DELTA"
  shows "push_decoded mode (transformed_byte md i mode) (restored_to md i) = Inr (restored_to md (Suc i))"
  using assms by (auto simp: push_decoded_def restored_to_def transformed_byte_def compression_constants take_Suc_conv_app_nth Let_def)

lemma push_all_restores:
  assumes "i + n \<le> length md" "length md \<le> MAX_METADATA_SIZE" "mode = MODE_DIRECT \<or> mode = MODE_DELTA"
  shows "push_all mode (map (\<lambda>k. transformed_byte md k mode) [i..<i + n]) (restored_to md i) = Inr (restored_to md (i + n))"
  using assms(1)
proof (induction n arbitrary: i)
  case (Suc n)
  have "[i..<i + Suc n] = i # [Suc i..<Suc i + n]" by (simp add: upt_conv_Cons)
  then show ?case using Suc.IH [of "Suc i"] Suc.prems push_restores [OF _ assms(2,3), of i] by simp
qed simp

text \<open>A decoder that consumes the list of the remaining bytes; the loop over the indexes agrees with it.\<close>

function unpack :: "u8 \<Rightarrow> u8 list \<Rightarrow> u8 list \<times> u8 \<Rightarrow> CompressionError + (u8 list \<times> u8)" where
  "unpack mode [] st = Inr st"
| "unpack mode (token # rest) st =
     (if token AND 0x80 \<noteq> 0 then
        (case rest of [] \<Rightarrow> Inl InvalidCompressedData
         | value # rest' \<Rightarrow> (case push_all mode (replicate (unat (token AND 0x7F) + 3) value) st of
             Inl e \<Rightarrow> Inl e | Inr st' \<Rightarrow> unpack mode rest' st'))
      else if length rest < unat (token AND 0x7F) + 1 then Inl InvalidCompressedData
      else (case push_all mode (take (unat (token AND 0x7F) + 1) rest) st of
             Inl e \<Rightarrow> Inl e | Inr st' \<Rightarrow> unpack mode (drop (unat (token AND 0x7F) + 1) rest) st'))"
  by pat_completeness auto
termination by (relation "measure (\<lambda>(mode, xs, st). length xs)") auto

declare unpack.simps(2) [simp del]

lemma nth_upt: "i + n \<le> length xs \<Longrightarrow> map (\<lambda>k. xs ! k) [i..<i + n] = take n (drop i xs)"
  by (rule nth_equalityI) simp_all

lemma decode_loop_unpack:
  "stop = length enc \<Longrightarrow> decode_loop enc i stop mode st = unpack mode (drop i enc) st"
proof (induction enc i stop mode st rule: decode_loop.induct)
  case (1 enc i stop mode st)
  show ?case
  proof (cases "i < stop")
    case True
    then have cons: "drop i enc = enc ! i # drop (Suc i) enc" using "1.prems" by (simp add: Cons_nth_drop_Suc)
    let ?t = "enc ! i"
    show ?thesis
    proof (cases "?t AND 0x80 = 0")
      case lit: True
      let ?n = "unat (?t AND 0x7F) + 1"
      show ?thesis
      proof (cases "Suc i + ?n > stop")
        case True
        then show ?thesis using \<open>i < stop\<close> lit "1.prems" by (subst decode_loop.simps) (simp add: cons unpack.simps Let_def)
      next
        case False
        let ?u = "unat (?t AND 0x7F)"
        have drop: "drop (Suc ?u) (drop (Suc i) enc) = drop (Suc (Suc (i + ?u))) enc" by (simp add: add.commute)
        have take: "map ((!) enc) [Suc i..<Suc (Suc (i + ?u))] = take (Suc ?u) (drop (Suc i) enc)"
          using False "1.prems" nth_upt [of "Suc i" "Suc ?u" enc] by (simp del: upt_Suc)
        show ?thesis
          using \<open>i < stop\<close> lit False "1.prems" "1.IH"(2) [OF _ refl refl _ refl]
          by (subst decode_loop.simps) (auto simp: cons unpack.simps Let_def take drop split: sum.splits simp del: drop_drop upt_Suc)
      qed
    next
      case rep: False
      show ?thesis
      proof (cases "Suc i \<ge> stop")
        case True
        then show ?thesis using \<open>i < stop\<close> rep "1.prems" by (subst decode_loop.simps) (simp add: cons unpack.simps Let_def)
      next
        case False
        then have "drop (Suc i) enc = enc ! Suc i # drop (Suc (Suc i)) enc" using "1.prems" by (simp add: Cons_nth_drop_Suc)
        then show ?thesis
          using \<open>i < stop\<close> rep False "1.prems" "1.IH"(1) [OF _ refl refl _ _ refl refl]
          by (subst decode_loop.simps) (auto simp: cons unpack.simps Let_def split: sum.splits)
      qed
    qed
  next
    case False
    then show ?thesis using "1.prems" by (subst decode_loop.simps) simp
  qed
qed

text \<open>The next block of the encoder, and the number of bytes it covers.\<close>

definition block_size :: "u8 list \<Rightarrow> u8 \<Rightarrow> nat \<Rightarrow> nat" where
  "block_size md mode i = (if repeat_length md i mode \<ge> 3 then repeat_length md i mode else literal_from md mode i 0)"

definition block :: "u8 list \<Rightarrow> u8 \<Rightarrow> nat \<Rightarrow> u8 list" where
  "block md mode i = (if repeat_length md i mode \<ge> 3
     then [0x80 OR word_of_nat (repeat_length md i mode - 3), transformed_byte md i mode]
     else word_of_nat (literal_from md mode i 0 - 1) # map (\<lambda>k. transformed_byte md k mode) [i..<i + literal_from md mode i 0])"

lemma encode_loop_block: "encode_loop md mode i payload =
    (if i < length md then encode_loop md mode (i + block_size md mode i) (payload @ block md mode i) else payload)"
  by (subst encode_loop.simps) (simp add: Let_def block_def block_size_def)

lemma block_bounds:
  assumes "i < length md"
  shows "0 < block_size md mode i" "i + block_size md mode i \<le> length md" "length (block md mode i) \<le> 2 * block_size md mode i"
  using repeat_length_bounds [OF assms, where mode = mode] literal_bounds [OF assms, of mode] by (auto simp: block_def block_size_def)

lemma encode_loop_append: "encode_loop md mode i payload = payload @ encode_loop md mode i []"
proof (induction "length md - i" arbitrary: i payload rule: less_induct)
  case less
  show ?case
  proof (cases "i < length md")
    case True
    let ?n = "i + block_size md mode i"
    have "length md - ?n < length md - i" using block_bounds [OF True, of mode] True by simp
    note IH = less [OF this]
    show ?thesis
      using True IH [of "payload @ block md mode i"] IH [of "block md mode i"]
      by (subst (1 2) encode_loop_block) simp
  next
    case False
    then show ?thesis by (subst (1 2) encode_loop_block) simp
  qed
qed

lemma encode_loop_step: "i < length md \<Longrightarrow>
    encode_loop md mode i [] = block md mode i @ encode_loop md mode (i + block_size md mode i) []"
  using encode_loop_append [of md mode "i + block_size md mode i" "block md mode i"] by (subst encode_loop_block) simp

lemma unpack_block:
  assumes "i < length md" "length md \<le> MAX_METADATA_SIZE" "mode = MODE_DIRECT \<or> mode = MODE_DELTA"
  shows "unpack mode (block md mode i @ rest) (restored_to md i) = unpack mode rest (restored_to md (i + block_size md mode i))"
proof (cases "repeat_length md i mode \<ge> 3")
  case True
  let ?r = "repeat_length md i mode"
  have r: "?r - 3 < 128" "i + ?r \<le> length md" using repeat_length_bounds [OF assms(1), where mode = mode] by simp_all
  have "map (\<lambda>k. transformed_byte md k mode) [i..<i + ?r] = replicate ?r (transformed_byte md i mode)"
    using repeat_length_bounds(4) [OF assms(1)] by (intro nth_equalityI) simp_all
  then have "push_all mode (replicate (?r - 3 + 3) (transformed_byte md i mode)) (restored_to md i) = Inr (restored_to md (i + ?r))"
    using push_all_restores [OF r(2) assms(2,3)] True by simp
  then show ?thesis using True repeat_token [OF r(1)] by (simp add: block_def block_size_def unpack.simps)
next
  case False
  let ?l = "literal_from md mode i 0"
  have l: "?l - 1 < 128" "i + ?l \<le> length md" "?l - 1 + 1 = ?l" using literal_bounds [OF assms(1), of mode] by simp_all
  then show ?thesis
    using False literal_token [OF l(1)] push_all_restores [OF l(2) assms(2,3)]
    by (simp add: block_def block_size_def unpack.simps del: add_diff_assoc2 One_nat_def)
qed

lemma encode_unpack:
  assumes "i \<le> length md" "length md \<le> MAX_METADATA_SIZE" "mode = MODE_DIRECT \<or> mode = MODE_DELTA"
  shows "unpack mode (encode_loop md mode i []) (restored_to md i) = Inr (restored_to md (length md)) \<and>
     length (encode_loop md mode i []) \<le> 2 * (length md - i)"
  using assms(1)
proof (induction "length md - i" arbitrary: i rule: less_induct)
  case less
  show ?case
  proof (cases "i < length md")
    case True
    let ?n = "i + block_size md mode i"
    have b: "0 < block_size md mode i" "?n \<le> length md" "length (block md mode i) \<le> 2 * block_size md mode i"
      by (rule block_bounds [OF True])+
    then have "length md - ?n < length md - i" using True by simp
    note IH = less(1) [OF this b(2)]
    have "2 * (length md - ?n) + 2 * block_size md mode i = 2 * (length md - i)" using b(2) by simp
    then have "length (block md mode i @ encode_loop md mode ?n []) \<le> 2 * (length md - i)"
      using IH b(3) unfolding length_append by linarith
    then show ?thesis using IH by (simp add: encode_loop_step [OF True] unpack_block [OF True assms(2,3)])
  next
    case False
    then show ?thesis using less.prems by (subst (1 2) encode_loop_block) simp
  qed
qed

subsection \<open>The frame\<close>

lemma encode_blocks_eq: "encode_blocks md mode = FORMAT_VERSION # mode # encode_loop md mode 0 []"
  unfolding encode_blocks_def by (subst encode_loop_append) simp

lemma ext16_length:
  assumes "n < 65536"
  shows "unat (word_of_nat (n div 256) :: u8) * 256 + unat (word_of_nat n :: u8) = n"
proof -
  have "n div 256 < 256" using assms by simp
  then show ?thesis by (simp add: unat_of_nat)
qed

lemma decompress_framed:
  assumes "length body + 2 < 65536" "mode = MODE_DIRECT \<or> mode = MODE_DELTA"
  defines "payload \<equiv> FORMAT_VERSION # mode # body"
  shows "is_compressed (frame_messagepack_extension payload)"
    "decompress_metadata (frame_messagepack_extension payload) =
       (case unpack mode body ([], 0) of Inl e \<Rightarrow> Inl e | Inr (output, previous) \<Rightarrow> Inr output)"
proof -
  let ?f = "frame_messagepack_extension payload"
  let ?start = "if length payload \<le> 255 then 5 else 6 :: nat"
  have header: "parse_messagepack_header ?f = Inr (Some (?start, length ?f, mode))"
  proof -
    have p: "payload ! 0 = FORMAT_VERSION" "payload ! Suc 0 = mode" "\<not> length payload < 2" by (simp_all add: payload_def)
    show ?thesis
    proof (cases "length payload \<le> 255")
      case True
      then have "unat (word_of_nat (length payload) :: u8) = length payload" by (simp add: unat_of_nat)
      then show ?thesis
        using assms(2) True p by (simp add: parse_messagepack_header_def frame_messagepack_extension_def compression_constants
          nth_Cons' Let_def)
    next
      case False
      then show ?thesis
        using assms(2) p ext16_length [of "length payload"] assms(1)
        by (simp add: parse_messagepack_header_def frame_messagepack_extension_def compression_constants nth_Cons' Let_def)
          (simp add: payload_def)
    qed
  qed
  then show "is_compressed ?f" by (simp add: is_compressed_def)
  have "drop ?start ?f = body" by (simp add: frame_messagepack_extension_def payload_def)
  then show "decompress_metadata ?f = (case unpack mode body ([], 0) of Inl e \<Rightarrow> Inl e | Inr (output, previous) \<Rightarrow> Inr output)"
    unfolding decompress_metadata_def header by (simp add: decode_blocks_def decode_loop_unpack)
qed

lemma decompress_plain:
  assumes "md = [] \<or> md ! 0 \<notin> {LEGACY_MAGIC, MESSAGEPACK_EXT8, MESSAGEPACK_EXT16}"
  shows "decompress_metadata md = Inr md"
proof -
  have "parse_messagepack_header md = Inr None" using assms by (elim disjE) (simp_all add: parse_messagepack_header_def)
  moreover have "\<not> is_legacy_compressed md" using assms by (elim disjE) (simp_all add: is_legacy_compressed_def)
  ultimately show ?thesis by (simp add: decompress_metadata_def)
qed

lemma compress_cases:
  obtains "compress_metadata md = md"
  | mode where "mode = MODE_DIRECT \<or> mode = MODE_DELTA" "length md \<le> MAX_METADATA_SIZE"
      "compress_metadata md = frame_messagepack_extension (encode_blocks md mode)" "length (compress_metadata md) < length md"
proof -
  define d where "d \<longleftrightarrow> length (encode_blocks md MODE_DELTA) < length (encode_blocks md MODE_DIRECT)"
  define mode where "mode = (if d then MODE_DELTA else MODE_DIRECT)"
  define f where "f = frame_messagepack_extension (encode_blocks md mode)"
  have c: "compress_metadata md = (if md = [] \<or> length md > MAX_METADATA_SIZE then md else if length f < length md then f else md)"
    unfolding compress_metadata_def Let_def d_def [symmetric] f_def mode_def by (cases d) simp_all
  show thesis
  proof (cases "md \<noteq> [] \<and> length md \<le> MAX_METADATA_SIZE \<and> length f < length md")
    case True
    then have "compress_metadata md = f" unfolding c by simp
    then show thesis using True by (intro that(2) [of mode]) (auto simp: mode_def f_def)
  next
    case False
    then have "compress_metadata md = md" unfolding c by auto
    then show thesis by (rule that(1))
  qed
qed

lemma decompress_encoded:
  assumes "mode = MODE_DIRECT \<or> mode = MODE_DELTA" "length md \<le> MAX_METADATA_SIZE"
  shows "is_compressed (frame_messagepack_extension (encode_blocks md mode))"
    "decompress_metadata (frame_messagepack_extension (encode_blocks md mode)) = Inr md"
proof -
  have u: "unpack mode (encode_loop md mode 0 []) ([], 0) = Inr (restored_to md (length md))" "length (encode_loop md mode 0 []) \<le> 2 * length md"
    using encode_unpack [OF _ assms(2,1), of 0] by (simp_all add: restored_to_def)
  then have "length (encode_loop md mode 0 []) + 2 < 65536" using assms(2) by (simp add: MAX_METADATA_SIZE_def)
  note f = decompress_framed [OF this assms(1)]
  show "is_compressed (frame_messagepack_extension (encode_blocks md mode))" unfolding encode_blocks_eq by (rule f)
  show "decompress_metadata (frame_messagepack_extension (encode_blocks md mode)) = Inr md"
    unfolding encode_blocks_eq f(2) u(1) by (simp add: restored_to_def)
qed

lemma compress_facts:
  "length (compress_metadata md) \<le> length md"
  "compress_metadata md \<noteq> md \<or> md = [] \<or> md ! 0 \<notin> {LEGACY_MAGIC, MESSAGEPACK_EXT8, MESSAGEPACK_EXT16} \<longrightarrow>
     decompress_metadata (compress_metadata md) = Inr md"
  "compress_metadata md \<noteq> md \<longrightarrow> is_compressed (compress_metadata md)"
proof -
  have "length (compress_metadata md) \<le> length md \<and> (compress_metadata md \<noteq> md \<or> md = [] \<or>
      md ! 0 \<notin> {LEGACY_MAGIC, MESSAGEPACK_EXT8, MESSAGEPACK_EXT16} \<longrightarrow> decompress_metadata (compress_metadata md) = Inr md) \<and>
      (compress_metadata md \<noteq> md \<longrightarrow> is_compressed (compress_metadata md))"
  proof (cases md rule: compress_cases)
    case 1
    then show ?thesis using decompress_plain [of md] by simp
  next
    case (2 mode)
    then show ?thesis using decompress_encoded [OF 2(1,2)] by simp
  qed
  then show "length (compress_metadata md) \<le> length md"
    "compress_metadata md \<noteq> md \<or> md = [] \<or> md ! 0 \<notin> {LEGACY_MAGIC, MESSAGEPACK_EXT8, MESSAGEPACK_EXT16} \<longrightarrow>
       decompress_metadata (compress_metadata md) = Inr md"
    "compress_metadata md \<noteq> md \<longrightarrow> is_compressed (compress_metadata md)" by blast+
qed

text \<open>C36. Compressing never makes metadata longer. If the result differs from the input, it is
  recognised as compressed and decompressing it restores the input exactly; if it is the input
  itself, decompressing restores it unless its first byte is one of the three markers.\<close>

theorem compress_roundtrip:
  "length (compress_metadata md) \<le> length md \<and>
   (compress_metadata md \<noteq> md \<longrightarrow> is_compressed (compress_metadata md)) \<and>
   (compress_metadata md \<noteq> md \<or> md = [] \<or> md ! 0 \<notin> {LEGACY_MAGIC, MESSAGEPACK_EXT8, MESSAGEPACK_EXT16} \<longrightarrow>
      decompress_metadata (compress_metadata md) = Inr md)"
  using compress_facts [of md] by blast

subsection \<open>Size of the output\<close>

lemma push_decoded_bound:
  "length (fst st) \<le> MAX_METADATA_SIZE \<Longrightarrow> push_decoded mode v st = Inr st' \<Longrightarrow> length (fst st') \<le> MAX_METADATA_SIZE"
  by (auto simp: push_decoded_def Let_def split: prod.splits if_splits)

lemma push_all_bound:
  "length (fst st) \<le> MAX_METADATA_SIZE \<Longrightarrow> push_all mode vs st = Inr st' \<Longrightarrow> length (fst st') \<le> MAX_METADATA_SIZE"
  by (induction mode vs st rule: push_all.induct) (auto dest: push_decoded_bound split: sum.splits)

lemma unpack_bound:
  "length (fst st) \<le> MAX_METADATA_SIZE \<Longrightarrow> unpack mode xs st = Inr st' \<Longrightarrow> length (fst st') \<le> MAX_METADATA_SIZE"
proof (induction mode xs st rule: unpack.induct)
  case (2 mode token rest st)
  then show ?case
    by (auto simp: unpack.simps(2) dest: push_all_bound split: if_splits sum.splits list.splits)
qed simp

lemma legacy_bound:
  "length (fst st) \<le> MAX_METADATA_SIZE \<Longrightarrow> legacy_runs xs st = Inr st' \<Longrightarrow> length (fst st') \<le> MAX_METADATA_SIZE"
  by (induction xs st rule: legacy_runs.induct) (auto dest: push_all_bound split: if_splits sum.splits)

lemma header_end: "parse_messagepack_header md = Inr (Some (i, stop, mode)) \<Longrightarrow> stop = length md"
  by (auto simp: parse_messagepack_header_def Let_def split: if_splits)

text \<open>Whatever the input, decompressing either fails, returns the input unchanged, or returns
  at most \<open>MAX_METADATA_SIZE\<close> bytes: no small input expands without bound.\<close>

theorem decompress_bounded:
  "decompress_metadata md = Inr out \<Longrightarrow> out = md \<or> length out \<le> MAX_METADATA_SIZE"
  unfolding decompress_metadata_def decode_blocks_def decompress_legacy_def
  using header_end [of md] push_all_bound [of "([], 0)"] legacy_bound [of "([], 0)"] unpack_bound [of "([], 0)"]
  by (fastforce simp: decode_loop_unpack split: sum.splits option.splits if_splits)

text \<open>Short metadata is stored as it is, and when it starts like the legacy format it is lost.\<close>

lemma short_unchanged: "length md \<le> 5 \<Longrightarrow> compress_metadata md = md"
  by (auto simp: compress_metadata_def frame_messagepack_extension_def encode_blocks_eq Let_def)

lemma legacy_misread: "decompress_metadata (compress_metadata [0xC1, 0]) = Inr []"
  by (simp add: short_unchanged decompress_metadata_def parse_messagepack_header_def is_legacy_compressed_def decompress_legacy_def
    compression_constants)

theorem compress_roundtrip_witness:
  "decompress_metadata (compress_metadata [1, 2, 3, 3, 3]) = Inr [1, 2, 3, 3, 3]"
  using compress_roundtrip [of "[1, 2, 3, 3, 3]"] by (simp add: compression_constants)

theorem decompress_bounded_witness:
  "decompress_metadata [0xC1, 1, 5, 2] = Inr [5, 7] \<and> length [5, 7 :: u8] \<le> MAX_METADATA_SIZE"
proof -
  have d: "decompress_metadata [0xC1, 1, 5, 2] = Inr [5, 7]"
    by (simp add: decompress_metadata_def parse_messagepack_header_def is_legacy_compressed_def decompress_legacy_def
      compression_constants push_decoded_def)
  then show ?thesis using decompress_bounded [OF d] by simp
qed

end
