(* ===== verification/Sbt_Contract.thy ===== *)
theory Sbt_Contract
  imports Sbt_Compression
begin

section \<open>The soulbound token contract\<close>

text \<open>
  The contract \<open>sbt/src/lib.rs\<close>: tokens that are minted by an admin and bound to a holder, with
  compressed metadata, fractional ownership, escrow, composition with other tokens, conditional batch
  transfers, delegation for a time, and recovery codes. The state has one field per storage key. The
  environment holds what the host and other contracts provide: the time, who authorised the call, the
  owners reported by NFT contracts, the hash function and the random numbers. A call that panics is an
  \<open>Inl\<close> and leaves no trace.
\<close>

subsection \<open>Data\<close>

datatype SbtError = AlreadyInitialized | NotInitialized | TokenNotFound | EmptyMetadata | AlreadyComposed | NotComposed
  | NftOwnershipMismatch | InvalidDuration | NoActiveDelegationError | MismatchedBatchLengths | TransferConditionNotMet
  | EmptyBatch | SelfDelegation | MetadataCompressionFailed | MetadataIsCompressed | FractionalOwnershipExists
  | ApprovalNotUnanimous | InvalidFractionSum | HolderNotFound | NotInEscrow | AlreadyInEscrow | EscrowConditionsNotMet
  | NotEscrowAgent | MismatchedOwnershipArrays | CredentialAlreadyReleased | DuplicateCredentialId | NoRecoveryCodes
  | RecoveryRateLimited | InvalidCompositionGraph

text \<open>\<open>Trapped\<close> is a failure of the host: a missing authorisation, an overflow, a call that traps, a stored value of another type.\<close>

datatype sbt_failure = SbtErr SbtError | Trapped

type_synonym account = nat

definition RECOVERY_CODE_COUNT :: nat where "RECOVERY_CODE_COUNT = 5"
definition RECOVERY_MAX_ATTEMPTS :: nat where "RECOVERY_MAX_ATTEMPTS = 5"
definition RECOVERY_ATTEMPT_WINDOW_SECONDS :: nat where "RECOVERY_ATTEMPT_WINDOW_SECONDS = 3600"
definition MAX_COMPOSITION_DEPTH :: nat where "MAX_COMPOSITION_DEPTH = 32"

record CompositionRecord =
  cr_nft_address :: account
  cr_nft_id :: nat
  cr_composed_at :: nat

record DelegationRecord =
  dr_delegate :: account
  dr_delegated_at :: nat
  dr_expires_at :: nat

datatype DelegationAction = Delegated | Revoked

record DelegationHistoryEntry =
  de_delegate :: account
  de_action :: DelegationAction
  de_at :: nat
  de_expires_at :: nat

record FractionalOwnership =
  fo_sbt_id :: nat
  fo_holders :: "account list"
  fo_fractions :: "nat list"
  fo_created_at :: nat

datatype OwnershipAction = Created | Updated | Removed

record OwnershipHistoryEntry =
  oe_sbt_id :: nat
  oe_holder :: account
  oe_fraction :: nat
  oe_action :: OwnershipAction
  oe_at :: nat

record EscrowRecord =
  es_escrow_id :: nat
  es_sbt_id :: nat
  es_escrow_agent :: account
  es_conditions :: "u8 list"
  es_created_at :: nat
  es_released :: bool

record RecoveryAttemptState =
  ra_attempt_count :: nat
  ra_window_start :: nat

datatype TransferCondition = Always | MinHoldSeconds nat | NoActiveDelegation

record TransferInstruction =
  ti_to :: account
  ti_condition :: TransferCondition

text \<open>The metadata of a token is stored as a string or, once compressed, as bytes.\<close>

datatype stored_metadata = StoredString "u8 list" | StoredBytes "u8 list"

datatype sbt_value = Num nat | Acc account

record sbt_event =
  se_topic :: string
  se_data :: "sbt_value list"

record sbt =
  t_admin :: "account option"
  t_next_token_id :: "nat option"
  t_owner :: "nat \<rightharpoonup> account"
  t_metadata :: "nat \<rightharpoonup> stored_metadata"
  t_minted_at :: "nat \<rightharpoonup> nat"
  t_composition :: "nat \<rightharpoonup> CompositionRecord"
  t_components :: "nat \<rightharpoonup> nat list"
  t_shared_metadata :: "nat \<rightharpoonup> u8 list"
  t_delegation :: "nat \<rightharpoonup> DelegationRecord"
  t_delegation_history :: "nat \<rightharpoonup> DelegationHistoryEntry list"
  t_compressed :: "nat \<rightharpoonup> bool"
  t_fractional :: "nat \<rightharpoonup> FractionalOwnership"
  t_ownership_history :: "nat \<rightharpoonup> OwnershipHistoryEntry list"
  t_escrow :: "nat \<rightharpoonup> EscrowRecord"
  t_next_escrow_id :: "nat option"
  t_recovery_codes :: "nat \<rightharpoonup> u8 list list"
  t_recovery_attempts :: "nat \<rightharpoonup> RecoveryAttemptState"
  t_events :: "sbt_event list"

record sbt_env =
  se_now :: nat
  se_auth :: "account \<Rightarrow> bool"
  se_nft_owner_of :: "account \<Rightarrow> nat \<Rightarrow> account option"
  se_sha256 :: "u8 list \<Rightarrow> u8 list"
  se_prng :: "nat \<Rightarrow> u8 list"

type_synonym 'a sbt_op = "(sbt_failure, sbt, 'a) act"

abbreviation stored_or :: "'a option \<Rightarrow> 'a \<Rightarrow> 'a" where
  "stored_or x d \<equiv> (case x of None \<Rightarrow> d | Some v \<Rightarrow> v)"

definition publish_sbt :: "string \<Rightarrow> sbt_value list \<Rightarrow> unit sbt_op" where
  "publish_sbt topic data = modify (\<lambda>s. s\<lparr>t_events := t_events s @ [\<lparr>se_topic = topic, se_data = data\<rparr>]\<rparr>)"

definition authorised :: "sbt_env \<Rightarrow> account \<Rightarrow> unit sbt_op" where
  "authorised e a = guard (se_auth e a) Trapped"

definition load_owner :: "nat \<Rightarrow> account sbt_op" where
  "load_owner sbt_id = (bindM (gets (\<lambda>s. t_owner s sbt_id)) (\<lambda>found.
                       ok_or found (SbtErr TokenNotFound)))"

definition require_owner :: "sbt_env \<Rightarrow> nat \<Rightarrow> account sbt_op" where
  "require_owner e sbt_id = (bindM (load_owner sbt_id) (\<lambda>owner.
                            thenM (authorised e owner) (
                            returnM owner)))"

definition require_sbt_admin :: "sbt_env \<Rightarrow> unit sbt_op" where
  "require_sbt_admin e = (bindM (gets t_admin) (\<lambda>found.
                         bindM (ok_or found (SbtErr NotInitialized)) (\<lambda>admin.
                         authorised e admin)))"

subsection \<open>Minting and metadata\<close>

definition initialize_sbt :: "sbt_env \<Rightarrow> account \<Rightarrow> unit sbt_op" where
  "initialize_sbt e admin = (bindM (gets t_admin) (\<lambda>found.
                            thenM (guard (found = None) (SbtErr AlreadyInitialized)) (
                            thenM (authorised e admin) (
                            modify (\<lambda>s. s\<lparr>t_admin := Some admin, t_next_token_id := Some 0\<rparr>)))))"

definition mint :: "sbt_env \<Rightarrow> account \<Rightarrow> u8 list \<Rightarrow> nat sbt_op" where
  "mint e to metadata = (thenM (require_sbt_admin e) (
                        thenM (guard (metadata \<noteq> []) (SbtErr EmptyMetadata)) (
                        bindM (gets (\<lambda>s. stored_or (t_next_token_id s) 0)) (\<lambda>sbt_id.
                        thenM (guard (sbt_id < U64_MAX) Trapped) (
                        thenM (modify (\<lambda>s. s\<lparr>t_next_token_id := Some (sbt_id + 1)\<rparr>)) (
                        thenM (modify (\<lambda>s. s\<lparr>t_owner := (t_owner s)(sbt_id \<mapsto> to)\<rparr>)) (
                        thenM (modify (\<lambda>s. s\<lparr>t_metadata := (t_metadata s)(sbt_id \<mapsto> StoredString metadata)\<rparr>)) (
                        thenM (modify (\<lambda>s. s\<lparr>t_minted_at := (t_minted_at s)(sbt_id \<mapsto> se_now e)\<rparr>)) (
                        thenM (publish_sbt ''sbt_mint'' [Num sbt_id, Acc to]) (
                        returnM sbt_id))))))))))"

definition owner_of :: "nat \<Rightarrow> account sbt_op" where
  "owner_of sbt_id = load_owner sbt_id"

definition is_sbt_metadata_compressed :: "sbt \<Rightarrow> nat \<Rightarrow> bool" where
  "is_sbt_metadata_compressed s sbt_id = stored_or (t_compressed s sbt_id) False"

text \<open>Both conversions copy up to \<open>MAX_METADATA_SIZE\<close> bytes.\<close>

definition string_to_bytes :: "u8 list \<Rightarrow> u8 list sbt_op" where
  "string_to_bytes metadata = (thenM (guard (length metadata \<le> MAX_METADATA_SIZE) (SbtErr MetadataCompressionFailed)) (
                              returnM metadata))"

definition bytes_to_string :: "u8 list \<Rightarrow> u8 list sbt_op" where
  "bytes_to_string metadata = (thenM (guard (length metadata \<le> MAX_METADATA_SIZE) (SbtErr MetadataCompressionFailed)) (
                              returnM metadata))"

definition load_string :: "nat \<Rightarrow> u8 list sbt_op" where
  "load_string sbt_id = (bindM (gets (\<lambda>s. t_metadata s sbt_id)) (\<lambda>found.
                        bindM (ok_or found (SbtErr TokenNotFound)) (\<lambda>stored.
                        case stored of StoredString m \<Rightarrow> returnM m | StoredBytes b \<Rightarrow> throw Trapped)))"

definition load_bytes :: "nat \<Rightarrow> u8 list sbt_op" where
  "load_bytes sbt_id = (bindM (gets (\<lambda>s. t_metadata s sbt_id)) (\<lambda>found.
                       bindM (ok_or found (SbtErr TokenNotFound)) (\<lambda>stored.
                       case stored of StoredString m \<Rightarrow> throw Trapped | StoredBytes b \<Rightarrow> returnM b)))"

definition decompressed :: "u8 list \<Rightarrow> u8 list sbt_op" where
  "decompressed metadata = (case decompress_metadata metadata of
     Inl err \<Rightarrow> throw (SbtErr MetadataCompressionFailed) | Inr out \<Rightarrow> returnM out)"

definition get_metadata :: "nat \<Rightarrow> u8 list sbt_op" where
  "get_metadata sbt_id = (bindM (gets (\<lambda>s. is_sbt_metadata_compressed s sbt_id)) (\<lambda>compressed.
                         if \<not> compressed then load_string sbt_id
     else (bindM (load_bytes sbt_id) (\<lambda>stored.
          bindM (decompressed stored) (\<lambda>metadata.
          bytes_to_string metadata)))))"

definition compress_sbt_metadata :: "sbt_env \<Rightarrow> nat \<Rightarrow> nat sbt_op" where
  "compress_sbt_metadata e sbt_id = (thenM (require_owner e sbt_id) (
                                    bindM (gets (\<lambda>s. is_sbt_metadata_compressed s sbt_id)) (\<lambda>already.
                                    if already then returnM 0
     else (bindM (load_string sbt_id) (\<lambda>string.
          bindM (string_to_bytes string) (\<lambda>metadata.
          (let compressed = compress_metadata metadata in
          if \<not> is_compressed compressed then returnM 0
       else (thenM (modify (\<lambda>s. s\<lparr>t_metadata := (t_metadata s)(sbt_id \<mapsto> StoredBytes compressed)\<rparr>)) (
            thenM (modify (\<lambda>s. s\<lparr>t_compressed := (t_compressed s)(sbt_id \<mapsto> True)\<rparr>)) (
            thenM (publish_sbt ''sbt_mcmp'' [Num sbt_id, Num (length metadata), Num (length compressed)]) (
            returnM (length metadata - length compressed))))))))))))"

definition decompress_sbt_metadata :: "nat \<Rightarrow> u8 list sbt_op" where
  "decompress_sbt_metadata sbt_id = (bindM (gets (\<lambda>s. is_sbt_metadata_compressed s sbt_id)) (\<lambda>compressed.
                                    if \<not> compressed then (bindM (load_string sbt_id) (\<lambda>metadata.
                               string_to_bytes metadata)) else (bindM (load_bytes sbt_id) (\<lambda>metadata.
            decompressed metadata))))"

subsection \<open>Fractional ownership\<close>

definition push_ownership_history :: "nat \<Rightarrow> OwnershipHistoryEntry \<Rightarrow> unit sbt_op" where
  "push_ownership_history sbt_id entry = (bindM (gets (\<lambda>s. stored_or (t_ownership_history s sbt_id) [])) (\<lambda>history.
                                         modify (\<lambda>s. s\<lparr>t_ownership_history := (t_ownership_history s)(sbt_id \<mapsto> history @ [entry])\<rparr>)))"

definition create_fractional_sbt :: "sbt_env \<Rightarrow> nat \<Rightarrow> account list \<Rightarrow> nat list \<Rightarrow> nat sbt_op" where
  "create_fractional_sbt e sbt_id holders fractions = (thenM (require_owner e sbt_id) (
                                                      thenM (guard (length holders = length fractions) (SbtErr MismatchedOwnershipArrays)) (
                                                      thenM (guard (holders \<noteq> []) (SbtErr EmptyBatch)) (
                                                      (let whole = fold (\<lambda>fraction sum. sat_add U64_MAX sum fraction) fractions 0 in
                                                      thenM (guard (whole = 10000) (SbtErr InvalidFractionSum)) (
                                                      thenM (modify (\<lambda>s. s\<lparr>t_fractional := (t_fractional s)(sbt_id \<mapsto> \<lparr>fo_sbt_id = sbt_id, fo_holders = holders,
       fo_fractions = fractions, fo_created_at = se_now e\<rparr>)\<rparr>)) (
                                                      thenM (forM (zip holders fractions) (\<lambda>(holder, fraction). push_ownership_history sbt_id \<lparr>oe_sbt_id = sbt_id,
       oe_holder = holder, oe_fraction = fraction, oe_action = Created, oe_at = se_now e\<rparr>)) (
                                                      thenM (publish_sbt ''frac_crt'' [Num sbt_id]) (
                                                      returnM sbt_id)))))))))"

definition get_fractional_ownership :: "sbt \<Rightarrow> nat \<Rightarrow> FractionalOwnership option" where
  "get_fractional_ownership s sbt_id = t_fractional s sbt_id"

definition is_fractional :: "sbt \<Rightarrow> nat \<Rightarrow> bool" where
  "is_fractional s sbt_id = (t_fractional s sbt_id \<noteq> None)"

subsection \<open>Escrow\<close>

definition escrow_sbt :: "sbt_env \<Rightarrow> nat \<Rightarrow> account \<Rightarrow> u8 list \<Rightarrow> nat sbt_op" where
  "escrow_sbt e sbt_id escrow_agent conditions = (thenM (require_owner e sbt_id) (
                                                 bindM (gets (\<lambda>s. t_escrow s sbt_id)) (\<lambda>found.
                                                 thenM (guard (found = None) (SbtErr AlreadyInEscrow)) (
                                                 bindM (gets (\<lambda>s. stored_or (t_next_escrow_id s) 0)) (\<lambda>escrow_id.
                                                 thenM (guard (escrow_id < U64_MAX) Trapped) (
                                                 thenM (modify (\<lambda>s. s\<lparr>t_next_escrow_id := Some (escrow_id + 1)\<rparr>)) (
                                                 thenM (modify (\<lambda>s. s\<lparr>t_escrow := (t_escrow s)(sbt_id \<mapsto> \<lparr>es_escrow_id = escrow_id, es_sbt_id = sbt_id,
       es_escrow_agent = escrow_agent, es_conditions = conditions, es_created_at = se_now e, es_released = False\<rparr>)\<rparr>)) (
                                                 thenM (publish_sbt ''esc_crt'' [Num escrow_id, Num sbt_id, Acc escrow_agent]) (
                                                 returnM escrow_id)))))))))"

definition release_sbt_from_escrow :: "sbt_env \<Rightarrow> nat \<Rightarrow> u8 list \<Rightarrow> unit sbt_op" where
  "release_sbt_from_escrow e sbt_id proof_bytes = (bindM (gets (\<lambda>s. t_escrow s sbt_id)) (\<lambda>found.
                                                  bindM (ok_or found (SbtErr NotInEscrow)) (\<lambda>escrow.
                                                  thenM (authorised e (es_escrow_agent escrow)) (
                                                  thenM (guard (proof_bytes \<noteq> []) (SbtErr EscrowConditionsNotMet)) (
                                                  thenM (modify (\<lambda>s. s\<lparr>t_escrow := (t_escrow s)(sbt_id \<mapsto> escrow\<lparr>es_released := True\<rparr>)\<rparr>)) (
                                                  publish_sbt ''esc_rel'' [Num (es_escrow_id escrow), Num sbt_id]))))))"

text \<open>The first loop, with its local maps of seen identifiers and of agents that authorised, and the collected escrows.\<close>

definition check_release ::
  "sbt_env \<Rightarrow> nat \<Rightarrow> nat list \<times> account list \<times> EscrowRecord list \<Rightarrow> (nat list \<times> account list \<times> EscrowRecord list) sbt_op" where
  "check_release e credential_id = (\<lambda>(seen_ids, authorized_agents, escrows). (thenM (guard (credential_id \<notin> set seen_ids) (SbtErr DuplicateCredentialId)) (
                                                                                     bindM (gets (\<lambda>s. t_escrow s credential_id)) (\<lambda>found.
                                                                                     bindM (ok_or found (SbtErr NotInEscrow)) (\<lambda>escrow.
                                                                                     thenM (guard (\<not> es_released escrow) (SbtErr CredentialAlreadyReleased)) (
                                                                                     thenM (whenM (es_escrow_agent escrow \<notin> set authorized_agents) (authorised e (es_escrow_agent escrow))) (
                                                                                     returnM (credential_id # seen_ids,
       (if es_escrow_agent escrow \<in> set authorized_agents then authorized_agents else es_escrow_agent escrow # authorized_agents),
       escrows @ [escrow]))))))))"

definition release_one :: "EscrowRecord \<Rightarrow> unit sbt_op" where
  "release_one escrow = (thenM (modify (\<lambda>s. s\<lparr>t_escrow := (t_escrow s)(es_sbt_id escrow \<mapsto> escrow\<lparr>es_released := True\<rparr>)\<rparr>)) (
                        publish_sbt ''esc_rel'' [Num (es_escrow_id escrow), Num (es_sbt_id escrow)]))"

definition atomic_release_credentials :: "sbt_env \<Rightarrow> nat list \<Rightarrow> bool list sbt_op" where
  "atomic_release_credentials e credential_ids = (thenM (guard (credential_ids \<noteq> []) (SbtErr EmptyBatch)) (
                                                 bindM (foldM (check_release e) credential_ids ([], [], [])) (\<lambda>checked.
                                                 (let escrows = snd (snd checked) in
                                                 thenM (forM escrows release_one) (
                                                 returnM (map (\<lambda>escrow. True) escrows))))))"

definition get_escrow_status :: "sbt \<Rightarrow> nat \<Rightarrow> EscrowRecord option" where
  "get_escrow_status s sbt_id = t_escrow s sbt_id"

subsection \<open>Composition\<close>

definition compose_sbt_with_nft :: "sbt_env \<Rightarrow> nat \<Rightarrow> account \<Rightarrow> nat \<Rightarrow> unit sbt_op" where
  "compose_sbt_with_nft e sbt_id nft_address nft_id = (bindM (require_owner e sbt_id) (\<lambda>owner.
                                                      bindM (gets (\<lambda>s. t_composition s sbt_id)) (\<lambda>found.
                                                      thenM (guard (found = None) (SbtErr AlreadyComposed)) (
                                                      bindM (ok_or (se_nft_owner_of e nft_address nft_id) Trapped) (\<lambda>nft_owner.
                                                      thenM (guard (nft_owner = owner) (SbtErr NftOwnershipMismatch)) (
                                                      thenM (modify (\<lambda>s. s\<lparr>t_composition := (t_composition s)(sbt_id \<mapsto> \<lparr>cr_nft_address = nft_address, cr_nft_id = nft_id,
       cr_composed_at = se_now e\<rparr>)\<rparr>)) (
                                                      publish_sbt ''sbt_cmpse'' [Num sbt_id, Acc nft_address, Num nft_id])))))))"

definition decompose_sbt :: "sbt_env \<Rightarrow> nat \<Rightarrow> unit sbt_op" where
  "decompose_sbt e sbt_id = (thenM (require_owner e sbt_id) (
                            bindM (gets (\<lambda>s. t_composition s sbt_id)) (\<lambda>found.
                            thenM (guard (found \<noteq> None) (SbtErr NotComposed)) (
                            thenM (modify (\<lambda>s. s\<lparr>t_composition := (t_composition s)(sbt_id := None)\<rparr>)) (
                            publish_sbt ''sbt_dcmp'' [Num sbt_id])))))"

definition get_composition :: "sbt \<Rightarrow> nat \<Rightarrow> CompositionRecord option" where
  "get_composition s sbt_id = t_composition s sbt_id"

text \<open>The search with its stack \<open>pending\<close>; it also answers yes after \<open>MAX_COMPOSITION_DEPTH\<close> tokens.\<close>

function reaches_walk :: "(nat \<rightharpoonup> nat list) \<Rightarrow> nat \<Rightarrow> nat list \<Rightarrow> nat \<Rightarrow> nat list \<Rightarrow> bool" where
  "reaches_walk components target visited steps pending =
     (if pending = [] then False
      else let current = last pending; rest = butlast pending in
        if current = target then True
        else if current \<in> set visited then reaches_walk components target visited steps rest
        else if steps + 1 > MAX_COMPOSITION_DEPTH then True
        else reaches_walk components target (current # visited) (steps + 1)
               (rest @ (case components current of None \<Rightarrow> [] | Some ids \<Rightarrow> ids)))"
  by pat_completeness auto
termination
  by (relation "measures [\<lambda>(components, target, visited, steps, pending). MAX_COMPOSITION_DEPTH - steps,
    \<lambda>(components, target, visited, steps, pending). length pending]") auto

declare reaches_walk.simps [simp del]

definition composition_reaches_any :: "sbt \<Rightarrow> nat list \<Rightarrow> nat \<Rightarrow> bool" where
  "composition_reaches_any s roots target = reaches_walk (t_components s) target [] 0 roots"

definition set_composition_components :: "sbt_env \<Rightarrow> nat \<Rightarrow> nat list \<Rightarrow> unit sbt_op" where
  "set_composition_components e sbt_id component_ids = (thenM (require_owner e sbt_id) (
                                                       bindM (gets (\<lambda>s. composition_reaches_any s component_ids sbt_id)) (\<lambda>reached.
                                                       thenM (guard (\<not> (component_ids = [] \<or> reached)) (SbtErr InvalidCompositionGraph)) (
                                                       thenM (forM component_ids (\<lambda>component_id. bindM (load_owner component_id) (\<lambda>_. returnM ()))) (
                                                       modify (\<lambda>s. s\<lparr>t_components := (t_components s)(sbt_id \<mapsto> component_ids)\<rparr>))))))"

definition get_composition_components :: "sbt \<Rightarrow> nat \<Rightarrow> nat list option" where
  "get_composition_components s sbt_id = t_components s sbt_id"

text \<open>The recursion over the components; the second function is its loop over the components of one token.\<close>

function resolve_composition_inner ::
  "sbt \<Rightarrow> nat \<Rightarrow> nat \<Rightarrow> nat list \<times> nat list \<Rightarrow> sbt_failure + (nat list \<times> nat list)"
and resolve_each ::
  "sbt \<Rightarrow> nat list \<Rightarrow> nat \<Rightarrow> nat list \<times> nat list \<Rightarrow> sbt_failure + (nat list \<times> nat list)" where
  "resolve_composition_inner s current depth (visited, resolved) =
     (if depth \<ge> MAX_COMPOSITION_DEPTH \<or> current \<in> set visited then Inl (SbtErr InvalidCompositionGraph)
      else case t_components s current of
          None \<Rightarrow> Inr (current # visited, resolved)
        | Some component_ids \<Rightarrow> resolve_each s component_ids depth (current # visited, resolved))"
| "resolve_each s [] depth st = Inr st"
| "resolve_each s (component # rest) depth (visited, resolved) =
     (if t_owner s component = None then Inl (SbtErr TokenNotFound)
      else case resolve_composition_inner s component (depth + 1) (visited, resolved @ [component]) of
          Inl err \<Rightarrow> Inl err
        | Inr st \<Rightarrow> resolve_each s rest depth st)"
  by pat_completeness auto
termination
  by (relation "measures [\<lambda>x. case x of
      Inl (s, current, depth, st) \<Rightarrow> if depth < MAX_COMPOSITION_DEPTH then 2 * (MAX_COMPOSITION_DEPTH - depth) + 1 else 0
    | Inr (s, cs, depth, st) \<Rightarrow> if depth < MAX_COMPOSITION_DEPTH then 2 * (MAX_COMPOSITION_DEPTH - depth) else 1,
    \<lambda>x. case x of Inl _ \<Rightarrow> 0 | Inr (s, cs, depth, st) \<Rightarrow> length cs]") auto

definition resolve_composition :: "nat \<Rightarrow> nat list sbt_op" where
  "resolve_composition sbt_id s = (case resolve_composition_inner s sbt_id 0 ([], []) of
     Inl err \<Rightarrow> Inl err | Inr (visited, resolved) \<Rightarrow> Inr (resolved, s))"

definition set_shared_metadata :: "sbt_env \<Rightarrow> nat \<Rightarrow> u8 list \<Rightarrow> unit sbt_op" where
  "set_shared_metadata e sbt_id metadata = (thenM (require_owner e sbt_id) (
                                           thenM (modify (\<lambda>s. s\<lparr>t_shared_metadata := (t_shared_metadata s)(sbt_id \<mapsto> metadata)\<rparr>)) (
                                           publish_sbt ''sbt_smeta'' [Num sbt_id])))"

definition get_shared_metadata :: "sbt \<Rightarrow> nat \<Rightarrow> u8 list option" where
  "get_shared_metadata s sbt_id = t_shared_metadata s sbt_id"

subsection \<open>Transfers\<close>

definition has_active_delegation :: "sbt_env \<Rightarrow> sbt \<Rightarrow> nat \<Rightarrow> bool" where
  "has_active_delegation e s sbt_id =
     (case t_delegation s sbt_id of None \<Rightarrow> False | Some r \<Rightarrow> dr_expires_at r > se_now e)"

fun evaluate_condition :: "sbt_env \<Rightarrow> sbt \<Rightarrow> nat \<Rightarrow> TransferCondition \<Rightarrow> bool" where
  "evaluate_condition e s sbt_id Always = True"
| "evaluate_condition e s sbt_id (MinHoldSeconds min_seconds) = (se_now e - stored_or (t_minted_at s sbt_id) 0 \<ge> min_seconds)"
| "evaluate_condition e s sbt_id NoActiveDelegation = (\<not> has_active_delegation e s sbt_id)"

definition check_transfer :: "sbt_env \<Rightarrow> nat \<times> TransferInstruction \<Rightarrow> unit sbt_op" where
  "check_transfer e = (\<lambda>(sbt_id, instruction). (thenM (require_owner e sbt_id) (
                                                       bindM (gets (\<lambda>s. evaluate_condition e s sbt_id (ti_condition instruction))) (\<lambda>met.
                                                       guard met (SbtErr TransferConditionNotMet)))))"

definition apply_transfer :: "nat \<times> TransferInstruction \<Rightarrow> unit sbt_op" where
  "apply_transfer = (\<lambda>(sbt_id, instruction). (thenM (modify (\<lambda>s. s\<lparr>t_owner := (t_owner s)(sbt_id \<mapsto> ti_to instruction)\<rparr>)) (
                                                     thenM (modify (\<lambda>s. s\<lparr>t_delegation := (t_delegation s)(sbt_id := None)\<rparr>)) (
                                                     publish_sbt ''sbt_btxfr'' [Num sbt_id, Acc (ti_to instruction)]))))"

definition batch_transfer_sbt_conditional :: "sbt_env \<Rightarrow> nat list \<Rightarrow> TransferInstruction list \<Rightarrow> unit sbt_op" where
  "batch_transfer_sbt_conditional e sbt_ids transfers = (thenM (guard (length sbt_ids = length transfers) (SbtErr MismatchedBatchLengths)) (
                                                        thenM (guard (sbt_ids \<noteq> []) (SbtErr EmptyBatch)) (
                                                        thenM (forM (zip sbt_ids transfers) (check_transfer e)) (
                                                        forM (zip sbt_ids transfers) apply_transfer))))"

subsection \<open>Delegation\<close>

definition push_delegation_history :: "nat \<Rightarrow> DelegationHistoryEntry \<Rightarrow> unit sbt_op" where
  "push_delegation_history sbt_id entry = (bindM (gets (\<lambda>s. stored_or (t_delegation_history s sbt_id) [])) (\<lambda>history.
                                          modify (\<lambda>s. s\<lparr>t_delegation_history := (t_delegation_history s)(sbt_id \<mapsto> history @ [entry])\<rparr>)))"

definition delegate_sbt_temporarily :: "sbt_env \<Rightarrow> nat \<Rightarrow> account \<Rightarrow> nat \<Rightarrow> unit sbt_op" where
  "delegate_sbt_temporarily e sbt_id delegate duration_seconds = (bindM (require_owner e sbt_id) (\<lambda>owner.
                                                                 thenM (guard (duration_seconds \<noteq> 0) (SbtErr InvalidDuration)) (
                                                                 thenM (guard (delegate \<noteq> owner) (SbtErr SelfDelegation)) (
                                                                 (let expires_at = sat_add U64_MAX (se_now e) duration_seconds in
                                                                 thenM (modify (\<lambda>s. s\<lparr>t_delegation := (t_delegation s)(sbt_id \<mapsto> \<lparr>dr_delegate = delegate, dr_delegated_at = se_now e,
       dr_expires_at = expires_at\<rparr>)\<rparr>)) (
                                                                 thenM (push_delegation_history sbt_id \<lparr>de_delegate = delegate, de_action = Delegated, de_at = se_now e, de_expires_at = expires_at\<rparr>) (
                                                                 publish_sbt ''sbt_dlg'' [Num sbt_id, Acc delegate, Num expires_at])))))))"

definition revoke_sbt_delegation :: "sbt_env \<Rightarrow> nat \<Rightarrow> unit sbt_op" where
  "revoke_sbt_delegation e sbt_id = (thenM (require_owner e sbt_id) (
                                    bindM (gets (\<lambda>s. t_delegation s sbt_id)) (\<lambda>found.
                                    bindM (ok_or found (SbtErr NoActiveDelegationError)) (\<lambda>r.
                                    thenM (modify (\<lambda>s. s\<lparr>t_delegation := (t_delegation s)(sbt_id := None)\<rparr>)) (
                                    thenM (push_delegation_history sbt_id \<lparr>de_delegate = dr_delegate r, de_action = Revoked, de_at = se_now e, de_expires_at = dr_expires_at r\<rparr>) (
                                    publish_sbt ''sbt_rdlg'' [Num sbt_id, Acc (dr_delegate r)]))))))"

definition get_active_delegate :: "sbt_env \<Rightarrow> sbt \<Rightarrow> nat \<Rightarrow> account option" where
  "get_active_delegate e s sbt_id =
     (case t_delegation s sbt_id of
        None \<Rightarrow> None
      | Some r \<Rightarrow> if dr_expires_at r > se_now e then Some (dr_delegate r) else None)"

definition get_delegation_history :: "sbt \<Rightarrow> nat \<Rightarrow> DelegationHistoryEntry list" where
  "get_delegation_history s sbt_id = stored_or (t_delegation_history s sbt_id) []"

subsection \<open>Recovery codes\<close>

definition generate_sbt_recovery_codes :: "sbt_env \<Rightarrow> nat \<Rightarrow> u8 list list sbt_op" where
  "generate_sbt_recovery_codes e sbt_id = (thenM (require_owner e sbt_id) (
                                          (let plaintext_codes = map (se_prng e) [0..<RECOVERY_CODE_COUNT] in
                                          (let hashed_codes = map (se_sha256 e) plaintext_codes in
                                          thenM (modify (\<lambda>s. s\<lparr>t_recovery_codes := (t_recovery_codes s)(sbt_id \<mapsto> hashed_codes)\<rparr>)) (
                                          thenM (publish_sbt ''rc_gen'' [Num sbt_id, Num (length hashed_codes)]) (
                                          returnM plaintext_codes))))))"

definition enforce_recovery_rate_limit :: "sbt_env \<Rightarrow> nat \<Rightarrow> unit sbt_op" where
  "enforce_recovery_rate_limit e sbt_id = (bindM (gets (\<lambda>s. stored_or (t_recovery_attempts s sbt_id) \<lparr>ra_attempt_count = 0, ra_window_start = se_now e\<rparr>)) (\<lambda>old.
                                          (let state = (if se_now e - ra_window_start old \<ge> RECOVERY_ATTEMPT_WINDOW_SECONDS
                  then \<lparr>ra_attempt_count = 0, ra_window_start = se_now e\<rparr> else old) in
                                          thenM (guard (ra_attempt_count state < RECOVERY_MAX_ATTEMPTS) (SbtErr RecoveryRateLimited)) (
                                          modify (\<lambda>s. s\<lparr>t_recovery_attempts := (t_recovery_attempts s)(sbt_id \<mapsto> state\<lparr>ra_attempt_count := ra_attempt_count state + 1\<rparr>)\<rparr>)))))"

definition recover_sbt_with_recovery_code :: "sbt_env \<Rightarrow> nat \<Rightarrow> u8 list \<Rightarrow> account \<Rightarrow> bool sbt_op" where
  "recover_sbt_with_recovery_code e sbt_id recovery_code new_holder = (thenM (authorised e new_holder) (
                                                                      thenM (load_owner sbt_id) (
                                                                      bindM (gets (\<lambda>s. is_fractional s sbt_id)) (\<lambda>fractional.
                                                                      thenM (guard (\<not> fractional) (SbtErr FractionalOwnershipExists)) (
                                                                      thenM (enforce_recovery_rate_limit e sbt_id) (
                                                                      bindM (gets (\<lambda>s. t_recovery_codes s sbt_id)) (\<lambda>found.
                                                                      bindM (ok_or found (SbtErr NoRecoveryCodes)) (\<lambda>hashed_codes.
                                                                      (let submitted_hash = se_sha256 e recovery_code in
                                                                      if submitted_hash \<notin> set hashed_codes then returnM False
     else (thenM (modify (\<lambda>s. s\<lparr>t_recovery_codes := (t_recovery_codes s)(sbt_id \<mapsto> remove1 submitted_hash hashed_codes)\<rparr>)) (
          thenM (modify (\<lambda>s. s\<lparr>t_owner := (t_owner s)(sbt_id \<mapsto> new_holder)\<rparr>)) (
          thenM (modify (\<lambda>s. s\<lparr>t_delegation := (t_delegation s)(sbt_id := None)\<rparr>)) (
          thenM (publish_sbt ''rc_ok'' [Num sbt_id, Acc new_holder]) (
          returnM True))))))))))))))"

lemmas sbt_defs = publish_sbt_def authorised_def load_owner_def require_owner_def require_sbt_admin_def

end
