(* ===== verification/Sbt_Properties.thy ===== *)
theory Sbt_Properties
  imports Sbt_Contract Compression_Properties Transition_Systems
begin

section \<open>Properties of the soulbound token contract\<close>

subsection \<open>The calls of the contract\<close>

datatype sbt_call = CallInitialize account | CallMint account "u8 list" | CallCompress nat
  | CallFractional nat "account list" "nat list" | CallEscrow nat account "u8 list" | CallRelease nat "u8 list"
  | CallAtomicRelease "nat list" | CallCompose nat account nat | CallDecompose nat | CallComponents nat "nat list"
  | CallShared nat "u8 list" | CallTransfer "nat list" "TransferInstruction list" | CallDelegate nat account nat
  | CallRevoke nat | CallGenerate nat | CallRecover nat "u8 list" account

abbreviation dropM :: "('e, 's, 'a) act \<Rightarrow> ('e, 's, unit) act" where
  "dropM m \<equiv> bindM m (\<lambda>_. returnM ())"

fun sbt_exec :: "sbt_env \<Rightarrow> sbt_call \<Rightarrow> unit sbt_op" where
  "sbt_exec e (CallInitialize a) = initialize_sbt e a"
| "sbt_exec e (CallMint a m) = dropM (mint e a m)"
| "sbt_exec e (CallCompress i) = dropM (compress_sbt_metadata e i)"
| "sbt_exec e (CallFractional i hs fs) = dropM (create_fractional_sbt e i hs fs)"
| "sbt_exec e (CallEscrow i a c) = dropM (escrow_sbt e i a c)"
| "sbt_exec e (CallRelease i p) = release_sbt_from_escrow e i p"
| "sbt_exec e (CallAtomicRelease ids) = dropM (atomic_release_credentials e ids)"
| "sbt_exec e (CallCompose i a n) = compose_sbt_with_nft e i a n"
| "sbt_exec e (CallDecompose i) = decompose_sbt e i"
| "sbt_exec e (CallComponents i cs) = set_composition_components e i cs"
| "sbt_exec e (CallShared i m) = set_shared_metadata e i m"
| "sbt_exec e (CallTransfer ids ts) = batch_transfer_sbt_conditional e ids ts"
| "sbt_exec e (CallDelegate i a d) = delegate_sbt_temporarily e i a d"
| "sbt_exec e (CallRevoke i) = revoke_sbt_delegation e i"
| "sbt_exec e (CallGenerate i) = dropM (generate_sbt_recovery_codes e i)"
| "sbt_exec e (CallRecover i c h) = dropM (recover_sbt_with_recovery_code e i c h)"

inductive sbt_step :: "sbt \<Rightarrow> sbt \<Rightarrow> bool" where
  sbt_stepI: "sbt_exec e c s = Inr ((), t) \<Longrightarrow> sbt_step s t"

definition fresh_sbt :: "sbt \<Rightarrow> bool" where
  "fresh_sbt s \<longleftrightarrow> t_admin s = None \<and> t_next_token_id s = None \<and> t_owner s = Map.empty \<and> t_components s = Map.empty \<and>
     t_escrow s = Map.empty \<and> t_fractional s = Map.empty"

subsection \<open>What a call leaves alone\<close>

lemma publish_sbt_frame [frame]: "(\<And>s v. f (s\<lparr>t_events := v\<rparr>) = f s) \<Longrightarrow> keeps f (publish_sbt topic data)"
  unfolding publish_sbt_def by (rule keeps_modify)

lemma authorised_frame [frame]: "keeps f (authorised e a)"
  unfolding authorised_def by (rule frame)

lemma load_owner_frame [frame]: "keeps f (load_owner i)" "keeps f (require_owner e i)" "keeps f (require_sbt_admin e)"
  unfolding load_owner_def require_owner_def require_sbt_admin_def by (intro frame)+

lemma load_metadata_frame [frame]: "keeps f (load_string i)" "keeps f (load_bytes i)" "keeps f (string_to_bytes m)"
  unfolding load_string_def load_bytes_def string_to_bytes_def
  by (intro frame; simp add: keeps_returnM keeps_throw split: stored_metadata.splits)+

lemma history_frame [frame]:
  "(\<And>s v. f (s\<lparr>t_ownership_history := v\<rparr>) = f s) \<Longrightarrow> keeps f (push_ownership_history i entry)"
  "(\<And>s v. f (s\<lparr>t_delegation_history := v\<rparr>) = f s) \<Longrightarrow> keeps f (push_delegation_history i entry')"
  unfolding push_ownership_history_def push_delegation_history_def by (intro frame keeps_modify; simp)+

text \<open>The holders, the admin and the counter of tokens.\<close>

definition holders :: "sbt \<Rightarrow> (nat \<rightharpoonup> account) \<times> account option \<times> nat option" where
  "holders s = (t_owner s, t_admin s, t_next_token_id s)"

lemma check_release_frame [frame]: "keeps f (check_release e i st)"
  unfolding check_release_def by (cases st) (simp, intro frame)

lemma keeps_holders:
  "keeps holders (compress_sbt_metadata e i)" "keeps holders (create_fractional_sbt e i hs fs)"
  "keeps holders (escrow_sbt e i a c)" "keeps holders (release_sbt_from_escrow e i p)"
  "keeps holders (atomic_release_credentials e ids)" "keeps holders (compose_sbt_with_nft e i a n)"
  "keeps holders (decompose_sbt e i)" "keeps holders (set_composition_components e i cs)"
  "keeps holders (set_shared_metadata e i m)" "keeps holders (delegate_sbt_temporarily e i a d)"
  "keeps holders (revoke_sbt_delegation e i)" "keeps holders (generate_sbt_recovery_codes e i)"
  unfolding compress_sbt_metadata_def create_fractional_sbt_def escrow_sbt_def release_sbt_from_escrow_def
    atomic_release_credentials_def release_one_def compose_sbt_with_nft_def decompose_sbt_def set_composition_components_def
    set_shared_metadata_def delegate_sbt_temporarily_def revoke_sbt_delegation_def generate_sbt_recovery_codes_def
  by (intro frame keeps_modify; simp add: holders_def)+

subsection \<open>Who holds a token\<close>

lemma check_transfers:
  "wp (forM xs (check_transfer e)) (\<lambda>_ t. t = s \<and> (\<forall>(i, ins) \<in> set xs. (\<exists>a. t_owner s i = Some a \<and> se_auth e a) \<and>
     evaluate_condition e s i (ti_condition ins))) s"
proof (induction xs)
  case (Cons x xs)
  then show ?case
    by (cases x) (auto simp: wp_simps check_transfer_def require_owner_def load_owner_def authorised_def elim!: wp_mono)
qed (simp add: wp_simps)

definition transferred :: "sbt \<Rightarrow> (nat \<times> TransferInstruction) list \<Rightarrow> sbt \<Rightarrow> bool" where
  "transferred s xs t \<longleftrightarrow> t_admin t = t_admin s \<and> t_next_token_id t = t_next_token_id s \<and> t_components t = t_components s \<and>
     (\<forall>i. if i \<in> fst ` set xs then (\<exists>ins. (i, ins) \<in> set xs \<and> t_owner t i = Some (ti_to ins)) \<and> t_delegation t i = None
          else t_owner t i = t_owner s i \<and> t_delegation t i = t_delegation s i)"

lemma apply_transfers: "wp (forM xs apply_transfer) (\<lambda>_ t. transferred s xs t) s"
proof (induction xs arbitrary: s)
  case (Cons x xs)
  obtain i ins where x: "x = (i, ins)" by (cases x)
  let ?s = "s\<lparr>t_owner := (t_owner s)(i \<mapsto> ti_to ins), t_delegation := (t_delegation s)(i := None),
    t_events := t_events s @ [\<lparr>se_topic = ''sbt_btxfr'', se_data = [Num i, Acc (ti_to ins)]\<rparr>]\<rparr>"
  have "wp (forM xs apply_transfer) (\<lambda>_ t. transferred s (x # xs) t) ?s"
    by (rule wp_mono [OF Cons.IH]) (auto simp: transferred_def x split: if_splits)
  then show ?case by (simp add: x apply_transfer_def publish_sbt_def wp_simps)
qed (simp add: wp_simps transferred_def)

lemma transfer_effect:
  "wp (batch_transfer_sbt_conditional e ids ts) (\<lambda>_ t. transferred s (zip ids ts) t \<and>
     (\<forall>(i, ins) \<in> set (zip ids ts). (\<exists>a. t_owner s i = Some a \<and> se_auth e a) \<and> evaluate_condition e s i (ti_condition ins))) s"
  unfolding batch_transfer_sbt_conditional_def wp_simps
  by (intro impI wp_mono [OF check_transfers]) (auto intro!: wp_mono [OF apply_transfers])

text \<open>A redeemed code is removed from the stored ones.\<close>

definition redeemed :: "sbt_env \<Rightarrow> sbt \<Rightarrow> nat \<Rightarrow> u8 list \<Rightarrow> account \<Rightarrow> sbt \<Rightarrow> bool" where
  "redeemed e s i code h t \<longleftrightarrow> (\<exists>codes. t_recovery_codes s i = Some codes \<and> se_sha256 e code \<in> set codes \<and>
     t_recovery_codes t = (t_recovery_codes s)(i \<mapsto> remove1 (se_sha256 e code) codes) \<and>
     t_owner t = (t_owner s)(i \<mapsto> h) \<and> t_delegation t = (t_delegation s)(i := None))"

lemma recover_effect:
  "wp (recover_sbt_with_recovery_code e i code h) (\<lambda>b t. se_auth e h \<and> t_owner s i \<noteq> None \<and> \<not> is_fractional s i \<and>
     t_admin t = t_admin s \<and> t_next_token_id t = t_next_token_id s \<and> t_components t = t_components s \<and>
     (if b then redeemed e s i code h t else t_owner t = t_owner s \<and> t_recovery_codes t = t_recovery_codes s)) s"
  unfolding recover_sbt_with_recovery_code_def enforce_recovery_rate_limit_def
  by (auto simp: wp_simps sbt_defs redeemed_def is_fractional_def Let_def)

lemma mint_effect:
  "wp (mint e a m) (\<lambda>i t. t_admin s \<noteq> None \<and> i = stored_or (t_next_token_id s) 0 \<and> t_next_token_id t = Some (Suc i) \<and>
     t_owner t = (t_owner s)(i \<mapsto> a) \<and> t_admin t = t_admin s \<and> t_components t = t_components s) s"
  unfolding mint_def by (auto simp: wp_simps sbt_defs)

lemma initialize_effect:
  "wp (initialize_sbt e a) (\<lambda>_ t. t_admin s = None \<and> t_admin t = Some a \<and> t_next_token_id t = Some 0 \<and>
     t_owner t = t_owner s \<and> t_components t = t_components s) s"
  unfolding initialize_sbt_def by (auto simp: wp_simps sbt_defs)

text \<open>Tokens are numbered below the counter, and there are none before the initialisation.\<close>

definition numbered :: "sbt \<Rightarrow> bool" where
  "numbered s \<longleftrightarrow> (\<forall>i. t_owner s i \<noteq> None \<longrightarrow> i < stored_or (t_next_token_id s) 0) \<and> (t_admin s = None \<longrightarrow> t_owner s = Map.empty)"

lemma numbered_frame: "numbered s \<Longrightarrow> holders t = holders s \<Longrightarrow> numbered t"
  by (simp add: numbered_def holders_def)

lemma dropM_eq: "dropM m s = Inr ((), t) \<longleftrightarrow> (\<exists>x. m s = Inr (x, t))"
  by (auto simp: bindM_def returnM_def split: sum.splits)

text \<open>A call either keeps the holders or is one of four.\<close>

lemma holders_cases:
  assumes "sbt_exec e c s = Inr ((), t)"
  obtains "holders t = holders s"
  | a where "c = CallInitialize a"
  | a m where "c = CallMint a m"
  | ids ts where "c = CallTransfer ids ts"
  | i code h where "c = CallRecover i code h"
proof (cases c)
  case (CallInitialize a)
  then show thesis by (rule that(2))
next
  case (CallMint a m)
  then show thesis by (rule that(3))
next
  case (CallTransfer ids ts)
  then show thesis by (rule that(4))
next
  case (CallRecover i code h)
  then show thesis by (rule that(5))
qed (insert assms, auto intro!: that(1) simp: dropM_eq dest: keeps_holders [unfolded keeps_def, rule_format])

lemma numbered_step:
  assumes "numbered s" "sbt_exec e c s = Inr ((), t)"
  shows "numbered t"
  using assms(2)
proof (cases rule: holders_cases)
  case 1
  then show ?thesis by (rule numbered_frame [OF assms(1)])
next
  case (2 a)
  then show ?thesis using wpD [OF initialize_effect] assms by (auto simp: numbered_def)
next
  case (3 a m)
  then show ?thesis using wpD [OF mint_effect] assms by (fastforce simp: numbered_def dropM_eq less_Suc_eq split: if_splits)
next
  case (4 ids ts)
  then have run: "batch_transfer_sbt_conditional e ids ts s = Inr ((), t)" using assms(2) by simp
  have t: "transferred s (zip ids ts) t" "\<forall>(i, ins) \<in> set (zip ids ts). \<exists>a. t_owner s i = Some a"
    using wpD [OF transfer_effect run] by fastforce+
  then have "t_owner t i \<noteq> None \<longrightarrow> t_owner s i \<noteq> None" for i by (fastforce simp: transferred_def split: if_splits)
  moreover have "t_owner s i \<noteq> None \<longrightarrow> t_owner t i \<noteq> None" for i using t(1) by (fastforce simp: transferred_def split: if_splits)
  ultimately show ?thesis using assms(1) t(1) by (auto simp: numbered_def transferred_def)
next
  case (5 i code h)
  then obtain b where "recover_sbt_with_recovery_code e i code h s = Inr (b, t)" using assms(2) by (auto simp: dropM_eq)
  from wpD [OF recover_effect this] show ?thesis using assms(1) by (auto simp: numbered_def redeemed_def split: if_splits)
qed

interpretation minted: invariant_system fresh_sbt sbt_step numbered
proof
  show "numbered s" if "fresh_sbt s" for s using that by (simp add: fresh_sbt_def numbered_def)
  show "numbered t" if "numbered s" "sbt_step s t" for s t using that(2) by cases (rule numbered_step [OF that(1)])
qed

text \<open>C33. A token keeps its holder through every call of every history, except that the holder signs
  a batch transfer that moves it under its condition, or that a new holder who signs redeems a stored
  recovery code of a token that is not fractional, which uses the code up.\<close>

theorem holder_changes:
  assumes "reachable fresh_sbt sbt_step s" "sbt_exec e c s = Inr ((), t)" "t_owner s i = Some a" "t_owner t i \<noteq> Some a"
  shows "\<exists>b. t_owner t i = Some b \<and>
     ((\<exists>ids ts ins. c = CallTransfer ids ts \<and> (i, ins) \<in> set (zip ids ts) \<and> se_auth e a \<and> ti_to ins = b \<and>
         evaluate_condition e s i (ti_condition ins)) \<or>
      (\<exists>code codes. c = CallRecover i code b \<and> se_auth e b \<and> \<not> is_fractional s i \<and> t_recovery_codes s i = Some codes \<and>
         se_sha256 e code \<in> set codes \<and> t_recovery_codes t i = Some (remove1 (se_sha256 e code) codes)))"
  using assms(2)
proof (cases rule: holders_cases)
  case 1
  then show ?thesis using assms(3,4) by (simp add: holders_def)
next
  case (2 x)
  then show ?thesis using wpD [OF initialize_effect] assms(2-4) by fastforce
next
  case (3 x m)
  have "i < stored_or (t_next_token_id s) 0" using minted.inv_reachable [OF assms(1)] assms(3) by (simp add: numbered_def)
  then show ?thesis using 3 wpD [OF mint_effect] assms(2-4) by (fastforce simp: dropM_eq split: if_splits)
next
  case (4 ids ts)
  then have t: "transferred s (zip ids ts) t" "\<forall>(i, ins) \<in> set (zip ids ts). (\<exists>a. t_owner s i = Some a \<and> se_auth e a) \<and>
      evaluate_condition e s i (ti_condition ins)"
    using wpD [OF transfer_effect] assms(2) by auto
  then have "i \<in> fst ` set (zip ids ts)" using assms(3,4) by (auto simp: transferred_def split: if_splits)
  then have "\<exists>ins. (i, ins) \<in> set (zip ids ts) \<and> t_owner t i = Some (ti_to ins)" using t(1) by (simp add: transferred_def)
  then obtain ins where "(i, ins) \<in> set (zip ids ts)" "t_owner t i = Some (ti_to ins)" by blast
  then show ?thesis using 4 t(2) assms(3) by fastforce
next
  case (5 j code h)
  then obtain b where b: "recover_sbt_with_recovery_code e j code h s = Inr (b, t)" using assms(2) by (auto simp: dropM_eq)
  show ?thesis
    using wpD [OF recover_effect b] assms(3,4) 5 by (cases "i = j") (auto simp: redeemed_def split: if_splits)
qed

subsection \<open>The graph of components\<close>

definition component_graph :: "sbt \<Rightarrow> (nat \<times> nat) set" where
  "component_graph s = {(a, b). \<exists>cs. t_components s a = Some cs \<and> b \<in> set cs}"

text \<open>
  A search that answers no has visited a set of tokens that contains the roots, is closed under
  components and does not contain the target.
\<close>

definition closed_under :: "(nat \<rightharpoonup> nat list) \<Rightarrow> nat set \<Rightarrow> nat set \<Rightarrow> bool" where
  "closed_under g V W \<longleftrightarrow> (\<forall>v \<in> V. \<forall>cs. g v = Some cs \<longrightarrow> set cs \<subseteq> W)"

lemma butlast_last_set: "xs \<noteq> [] \<Longrightarrow> set xs = insert (last xs) (set (butlast xs))"
  by (induction xs) auto

lemma reaches_walk_closed:
  assumes "\<not> reaches_walk g target visited steps pending" "closed_under g (set visited) (set visited \<union> set pending)" "target \<notin> set visited"
  shows "\<exists>V. set visited \<union> set pending \<subseteq> V \<and> closed_under g V V \<and> target \<notin> V"
  using assms
proof (induction g target visited steps pending rule: reaches_walk.induct)
  case (1 g target visited steps pending)
  show ?case
  proof (cases "pending = []")
    case True
    then show ?thesis using "1.prems" by (intro exI [of _ "set visited"]) simp
  next
    case False
    let ?c = "last pending" and ?r = "butlast pending"
    have pend: "set pending = insert ?c (set ?r)" by (rule butlast_last_set [OF False])
    have neq: "?c \<noteq> target" using "1.prems"(1) False by (subst (asm) reaches_walk.simps) (auto simp: Let_def)
    show ?thesis
    proof (cases "?c \<in> set visited")
      case True
      have "\<exists>V. set visited \<union> set ?r \<subseteq> V \<and> closed_under g V V \<and> target \<notin> V"
      proof (rule "1.IH"(1) [OF False refl refl neq True])
        show "\<not> reaches_walk g target visited steps ?r"
          using "1.prems"(1) False True neq by (subst (asm) reaches_walk.simps) (auto simp: Let_def)
        show "closed_under g (set visited) (set visited \<union> set ?r)"
          using "1.prems"(2) True unfolding closed_under_def pend by auto
      qed (rule "1.prems"(3))
      then show ?thesis using True by (auto simp: pend)
    next
      case unseen: False
      let ?cs = "case g ?c of None \<Rightarrow> [] | Some ids \<Rightarrow> ids"
      have walk: "\<not> steps + 1 > MAX_COMPOSITION_DEPTH" "\<not> reaches_walk g target (?c # visited) (steps + 1) (?r @ ?cs)"
        using "1.prems"(1) False unseen neq by (subst (asm) reaches_walk.simps; auto simp: Let_def split: if_splits)+
      have "\<exists>V. set (?c # visited) \<union> set (?r @ ?cs) \<subseteq> V \<and> closed_under g V V \<and> target \<notin> V"
      proof (rule "1.IH"(2) [OF False refl refl neq unseen walk(1) walk(2)])
        show "closed_under g (set (?c # visited)) (set (?c # visited) \<union> set (?r @ ?cs))"
          using "1.prems"(2) unfolding closed_under_def pend by auto
        show "target \<notin> set (?c # visited)" using "1.prems"(3) neq by auto
      qed
      then show ?thesis by (auto simp: pend)
    qed
  qed
qed

lemma not_reaching:
  assumes "\<not> composition_reaches_any s roots target"
  obtains V where "set roots \<subseteq> V" "closed_under (t_components s) V V" "target \<notin> V"
  using reaches_walk_closed [of "t_components s" target "[]" 0 roots] assms
  by (auto simp: composition_reaches_any_def closed_under_def)

text \<open>Replacing the components of a token outside a closed set by members of that set makes no cycle.\<close>

lemma acyclic_replace:
  assumes "acyclic {(a, b). \<exists>cs. g a = Some cs \<and> b \<in> set cs}" "closed_under g V V" "i \<notin> V" "set cs \<subseteq> V"
  shows "acyclic {(a, b). \<exists>ds. (g(i \<mapsto> cs)) a = Some ds \<and> b \<in> set ds}" (is "acyclic ?new")
proof -
  let ?old = "{(a, b). \<exists>cs. g a = Some cs \<and> b \<in> set cs}"
  have inside: "y \<in> V \<and> (x, y) \<in> ?old\<^sup>+" if "(x, y) \<in> ?new\<^sup>+" "x \<in> V" for x y
    using that
  proof (induction rule: trancl_induct)
    case (base y)
    then show ?case using assms(2,3) by (auto simp: closed_under_def split: if_splits)
  next
    case (step y z)
    then have y: "y \<in> V" "(x, y) \<in> ?old\<^sup>+" by simp_all
    then have "(y, z) \<in> ?old" "z \<in> V" using step(2) assms(2,3) by (auto simp: closed_under_def split: if_splits)
    then show ?case using y(2) by (auto intro: trancl_into_trancl)
  qed
  have outside: "y \<in> V \<or> (x, y) \<in> ?old\<^sup>+" if "(x, y) \<in> ?new\<^sup>+" for x y
    using that
  proof (induction rule: trancl_induct)
    case (base y)
    then show ?case using assms(4) by (auto split: if_splits)
  next
    case (step y z)
    show ?case
    proof (cases "y = i")
      case True
      then show ?thesis using step(2) assms(4) by auto
    next
      case False
      then have e: "(y, z) \<in> ?old" using step(2) by auto
      show ?thesis using step.IH
      proof
        assume "y \<in> V"
        then show ?thesis using e assms(2) by (auto simp: closed_under_def)
      next
        assume "(x, y) \<in> ?old\<^sup>+"
        then show ?thesis using e by (auto intro: trancl_into_trancl)
      qed
    qed
  qed
  show ?thesis
  proof (rule acyclicI, rule allI, rule notI)
    fix x
    assume "(x, x) \<in> ?new\<^sup>+"
    then have "(x, x) \<in> ?old\<^sup>+" using inside [of x x] outside [of x x] by blast
    then show False using assms(1) by (simp add: acyclic_def)
  qed
qed

lemma keeps_components:
  "keeps t_components (compress_sbt_metadata e i)" "keeps t_components (create_fractional_sbt e i hs fs)"
  "keeps t_components (escrow_sbt e i a c)" "keeps t_components (release_sbt_from_escrow e i p)"
  "keeps t_components (atomic_release_credentials e ids)" "keeps t_components (compose_sbt_with_nft e i a n)"
  "keeps t_components (decompose_sbt e i)" "keeps t_components (set_shared_metadata e i m)"
  "keeps t_components (delegate_sbt_temporarily e i a d)" "keeps t_components (revoke_sbt_delegation e i)"
  "keeps t_components (generate_sbt_recovery_codes e i)" "keeps t_components (initialize_sbt e a)"
  "keeps t_components (mint e a m)" "keeps t_components (batch_transfer_sbt_conditional e ids ts)"
  "keeps t_components (recover_sbt_with_recovery_code e i m a)"
  unfolding compress_sbt_metadata_def create_fractional_sbt_def escrow_sbt_def release_sbt_from_escrow_def
    atomic_release_credentials_def release_one_def compose_sbt_with_nft_def decompose_sbt_def
    set_shared_metadata_def delegate_sbt_temporarily_def revoke_sbt_delegation_def generate_sbt_recovery_codes_def
    initialize_sbt_def mint_def batch_transfer_sbt_conditional_def check_transfer_def apply_transfer_def
    recover_sbt_with_recovery_code_def enforce_recovery_rate_limit_def
  by (intro frame keeps_modify; simp)+

lemma components_cases:
  assumes "sbt_exec e c s = Inr ((), t)"
  obtains "t_components t = t_components s" | i cs where "c = CallComponents i cs"
proof (cases c)
  case (CallComponents i cs)
  then show thesis by (rule that(2))
qed (insert assms, auto intro!: that(1) simp: dropM_eq dest: keeps_components [unfolded keeps_def, rule_format])

lemma load_owners:
  "wp (forM ids (\<lambda>i. dropM (load_owner i))) (\<lambda>_ t. t = s \<and> (\<forall>i \<in> set ids. t_owner s i \<noteq> None)) s"
proof (induction ids)
  case (Cons i ids)
  then show ?case by (auto simp: wp_simps load_owner_def elim!: wp_mono)
qed (simp add: wp_simps)

lemma set_components_effect:
  "wp (set_composition_components e i cs) (\<lambda>_ t. \<not> composition_reaches_any s cs i \<and> (\<forall>j \<in> set cs. t_owner s j \<noteq> None) \<and>
     t_components t = (t_components s)(i \<mapsto> cs) \<and> t_owner t = t_owner s) s"
  unfolding set_composition_components_def
  by (auto simp: wp_simps require_owner_def load_owner_def [of i] authorised_def intro!: wp_mono [OF load_owners])

lemma owner_stays:
  assumes "sbt_exec e c s = Inr ((), t)" "t_owner s i \<noteq> None"
  shows "t_owner t i \<noteq> None"
  using assms(1)
proof (cases rule: holders_cases)
  case 1
  then show ?thesis using assms(2) by (simp add: holders_def)
next
  case (2 a)
  then show ?thesis using wpD [OF initialize_effect] assms by fastforce
next
  case (3 a m)
  then show ?thesis using wpD [OF mint_effect] assms by (fastforce simp: dropM_eq)
next
  case (4 ids ts)
  then have "transferred s (zip ids ts) t" using wpD [OF transfer_effect] assms(1) by fastforce
  then show ?thesis using assms(2) by (fastforce simp: transferred_def split: if_splits)
next
  case (5 j code h)
  then obtain b where "recover_sbt_with_recovery_code e j code h s = Inr (b, t)" using assms(1) by (auto simp: dropM_eq)
  from wpD [OF recover_effect this] show ?thesis using assms(2) by (auto simp: redeemed_def split: if_splits)
qed

definition composed_ok :: "sbt \<Rightarrow> bool" where
  "composed_ok s \<longleftrightarrow> acyclic (component_graph s) \<and> (\<forall>(a, b) \<in> component_graph s. t_owner s b \<noteq> None)"

lemma composed_step:
  assumes "composed_ok s" "sbt_exec e c s = Inr ((), t)"
  shows "composed_ok t"
  using assms(2)
proof (cases rule: components_cases)
  case 1
  then show ?thesis using assms(1) owner_stays [OF assms(2)] by (auto simp: composed_ok_def component_graph_def)
next
  case (2 i cs)
  then have t: "\<not> composition_reaches_any s cs i" "\<forall>j \<in> set cs. t_owner s j \<noteq> None"
      "t_components t = (t_components s)(i \<mapsto> cs)" "t_owner t = t_owner s"
    using wpD [OF set_components_effect] assms(2) by fastforce+
  obtain V where V: "set cs \<subseteq> V" "closed_under (t_components s) V V" "i \<notin> V" by (rule not_reaching [OF t(1)])
  have "acyclic (component_graph t)"
    unfolding component_graph_def t(3) using assms(1) V by (intro acyclic_replace) (auto simp: composed_ok_def component_graph_def)
  then show ?thesis using assms(1) t by (auto simp: composed_ok_def component_graph_def split: if_splits)
qed

interpretation composition: invariant_system fresh_sbt sbt_step composed_ok
proof
  show "composed_ok s" if "fresh_sbt s" for s using that by (simp add: fresh_sbt_def composed_ok_def component_graph_def acyclic_def)
  show "composed_ok t" if "composed_ok s" "sbt_step s t" for s t using that(2) by cases (rule composed_step [OF that(1)])
qed

subsection \<open>Resolving a composition\<close>

text \<open>
  The tokens a successful resolution adds: new ones, each once, reachable from the components it was
  called for, and closed under components.
\<close>

definition explored :: "sbt \<Rightarrow> nat set \<Rightarrow> nat list \<Rightarrow> nat list \<Rightarrow> nat list \<Rightarrow> bool" where
  "explored s V cs new V' \<longleftrightarrow> set V' = V \<union> set new \<and> distinct new \<and> set new \<inter> V = {} \<and> set cs \<subseteq> set new \<and>
     closed_under (t_components s) (set new) (set new) \<and> (\<forall>x \<in> set new. \<exists>c \<in> set cs. (c, x) \<in> (component_graph s)\<^sup>*)"

lemma closed_union: "closed_under g V W \<Longrightarrow> closed_under g V' W' \<Longrightarrow> closed_under g (V \<union> V') (W \<union> W')"
  unfolding closed_under_def by blast

lemma closed_mono: "closed_under g V W \<Longrightarrow> W \<subseteq> W' \<Longrightarrow> closed_under g V W'"
  unfolding closed_under_def by blast

lemma closed_trancl: "(a, b) \<in> (component_graph s)\<^sup>* \<Longrightarrow> a \<in> W \<Longrightarrow> closed_under (t_components s) W W \<Longrightarrow> b \<in> W"
  by (induction rule: rtrancl_induct) (auto simp: closed_under_def component_graph_def)

lemma resolve_explores:
  "resolve_composition_inner s c d st = Inr (V', R') \<Longrightarrow> \<exists>new. R' = snd st @ new \<and> c \<notin> set (fst st) \<and>
     set V' = insert c (set (fst st)) \<union> set new \<and> distinct new \<and> set new \<inter> insert c (set (fst st)) = {} \<and>
     closed_under (t_components s) (insert c (set new)) (set new) \<and> (\<forall>x \<in> set new. (c, x) \<in> (component_graph s)\<^sup>+)"
  "resolve_each s cs d st = Inr (V', R') \<Longrightarrow> \<exists>new. R' = snd st @ new \<and> explored s (set (fst st)) cs new V'"
proof (induction s c d st and s cs d st arbitrary: V' R' and V' R' rule: resolve_composition_inner_resolve_each.induct)
  case (1 s c d visited resolved)
  have c: "\<not> (d \<ge> MAX_COMPOSITION_DEPTH \<or> c \<in> set visited)" using "1.prems" by (auto split: if_splits)
  show ?case
  proof (cases "t_components s c")
    case None
    then show ?thesis using "1.prems" c by (auto simp: closed_under_def)
  next
    case (Some cs)
    then have "resolve_each s cs d (c # visited, resolved) = Inr (V', R')" using "1.prems" c by simp
    from "1.IH" [OF c Some this] obtain new where new: "R' = resolved @ new" "explored s (insert c (set visited)) cs new V'" by auto
    have edge: "(c, x) \<in> component_graph s" if "x \<in> set cs" for x using that Some by (auto simp: component_graph_def)
    have "(c, x) \<in> (component_graph s)\<^sup>+" if "x \<in> set new" for x
      using that new(2) edge unfolding explored_def by (meson rtrancl_into_trancl2)
    then show ?thesis using new c Some by (intro exI [of _ new]) (auto simp: explored_def closed_under_def)
  qed
next
  case (2 s d st)
  then show ?case by (cases st) (auto simp: explored_def closed_under_def)
next
  case (3 s c rest d visited resolved)
  have own: "t_owner s c \<noteq> None" using "3.prems" by (auto split: if_splits)
  then obtain V1 R1 where r1: "resolve_composition_inner s c (d + 1) (visited, resolved @ [c]) = Inr (V1, R1)"
      and r2: "resolve_each s rest d (V1, R1) = Inr (V', R')"
    using "3.prems" by (auto split: sum.splits)
  obtain n1 where n1: "R1 = (resolved @ [c]) @ n1" "c \<notin> set visited" "set V1 = insert c (set visited) \<union> set n1" "distinct n1"
      "set n1 \<inter> insert c (set visited) = {}" "closed_under (t_components s) (insert c (set n1)) (set n1)"
      "\<forall>x \<in> set n1. (c, x) \<in> (component_graph s)\<^sup>+"
    using "3.IH"(1) [OF own r1] by auto
  obtain n2 where n2: "R' = R1 @ n2" "explored s (set V1) rest n2 V'" using "3.IH"(2) [OF own r1 r2] by auto
  have "closed_under (t_components s) (insert c (set n1) \<union> set n2) (set n1 \<union> set n2)"
    using n2(2) by (intro closed_union n1(6)) (simp add: explored_def)
  then have "closed_under (t_components s) (set (c # n1 @ n2)) (set (c # n1 @ n2))" by (auto elim: closed_mono)
  then have "explored s (set visited) (c # rest) (c # n1 @ n2) V'"
    using n1(2-5,7) n2(2) unfolding explored_def by (auto dest: trancl_into_rtrancl)
  then show ?case using n1(1) n2(1) by (intro exI [of _ "c # n1 @ n2"]) simp
qed

text \<open>C34. In every reachable state the component graph has no cycle and names existing tokens only;
  and when a composition resolves, the result lists exactly the tokens reachable over components, each
  once, and nothing is changed.\<close>

theorem composition_sound:
  assumes "reachable fresh_sbt sbt_step s"
  shows "acyclic (component_graph s) \<and> (\<forall>(a, b) \<in> component_graph s. t_owner s b \<noteq> None) \<and>
     (\<forall>i rs t. resolve_composition i s = Inr (rs, t) \<longrightarrow> t = s \<and> distinct rs \<and> set rs = {x. (i, x) \<in> (component_graph s)\<^sup>+})"
proof -
  have "t = s \<and> distinct rs \<and> set rs = {x. (i, x) \<in> (component_graph s)\<^sup>+}" if run: "resolve_composition i s = Inr (rs, t)" for i rs t
  proof -
    obtain V where t: "t = s" and "resolve_composition_inner s i 0 ([], []) = Inr (V, rs)"
      using run by (auto simp: resolve_composition_def simp del: resolve_composition_inner.simps split: sum.splits)
    from resolve_explores(1) [OF this(2)] have rs: "distinct rs" "closed_under (t_components s) (insert i (set rs)) (set rs)"
        "\<forall>x \<in> set rs. (i, x) \<in> (component_graph s)\<^sup>+" by auto
    have "x \<in> set rs" if path: "(i, x) \<in> (component_graph s)\<^sup>+" for x
    proof -
      obtain y where y: "(i, y) \<in> component_graph s" "(y, x) \<in> (component_graph s)\<^sup>*" using tranclD [OF path] by blast
      then have "y \<in> set rs" using rs(2) by (auto simp: closed_under_def component_graph_def)
      then show ?thesis using closed_trancl [OF y(2)] rs(2) by (simp add: closed_under_def)
    qed
    then show ?thesis using t rs by auto
  qed
  then show ?thesis using composition.inv_reachable [OF assms] by (auto simp: composed_ok_def)
qed

text \<open>A component that two components share is accepted, but such a composition never resolves.\<close>

lemma shared_component_refused:
  assumes "t_components s 0 = Some [1, 2]" "t_components s 1 = Some [3]" "t_components s 2 = Some [3]" "t_components s 3 = None"
    "\<forall>i < 4. t_owner s i \<noteq> None"
  shows "\<not> composition_reaches_any s [1, 2] 0" "resolve_composition 0 s = Inl (SbtErr InvalidCompositionGraph)"
proof -
  show "\<not> composition_reaches_any s [1, 2] 0"
    using assms unfolding composition_reaches_any_def
    by (simp add: reaches_walk.simps MAX_COMPOSITION_DEPTH_def del: One_nat_def)
  have "t_owner s 1 \<noteq> None" "t_owner s 2 \<noteq> None" "t_owner s 3 \<noteq> None" using assms(5) by simp_all
  then show "resolve_composition 0 s = Inl (SbtErr InvalidCompositionGraph)"
    using assms(1-4) by (simp add: resolve_composition_def MAX_COMPOSITION_DEPTH_def del: One_nat_def)
qed

subsection \<open>Atomic release\<close>

definition releasable :: "sbt_env \<Rightarrow> sbt \<Rightarrow> nat \<Rightarrow> bool" where
  "releasable e s i \<longleftrightarrow> (case t_escrow s i of None \<Rightarrow> False | Some r \<Rightarrow> \<not> es_released r \<and> se_auth e (es_escrow_agent r))"

definition collect_agents :: "sbt \<Rightarrow> nat list \<Rightarrow> account list \<Rightarrow> account list" where
  "collect_agents s = fold (\<lambda>i as. let a = es_escrow_agent (the (t_escrow s i)) in if a \<in> set as then as else a # as)"

lemma check_all:
  assumes "\<forall>a \<in> set agents. se_auth e a"
  shows "runs (foldM (check_release e) ids (seen, agents, escrows)) Q s \<longleftrightarrow>
     distinct ids \<and> set ids \<inter> set seen = {} \<and> (\<forall>i \<in> set ids. releasable e s i) \<and>
     Q (rev ids @ seen, collect_agents s ids agents, escrows @ map (\<lambda>i. the (t_escrow s i)) ids) s"
  using assms
proof (induction ids arbitrary: seen agents escrows)
  case (Cons i ids)
  show ?case
  proof (cases "i \<notin> set seen \<and> releasable e s i")
    case True
    then obtain r where r: "t_escrow s i = Some r" "\<not> es_released r" "se_auth e (es_escrow_agent r)"
      by (auto simp: releasable_def split: option.splits)
    let ?agents = "if es_escrow_agent r \<in> set agents then agents else es_escrow_agent r # agents"
    have "\<forall>a \<in> set ?agents. se_auth e a" using Cons.prems r by simp
    from Cons.IH [OF this, of "i # seen" "escrows @ [r]"] show ?thesis
      using True r by (auto simp: run_simps check_release_def authorised_def collect_agents_def Let_def)
  next
    case False
    then show ?thesis
      using Cons.prems by (auto simp: run_simps check_release_def authorised_def releasable_def split: option.splits)
  qed
qed (simp add: run_simps collect_agents_def)

lemma release_one_runs [run_simps]: "runs (release_one r) Q s = Q () (s\<lparr>t_escrow := (t_escrow s)(es_sbt_id r \<mapsto> r\<lparr>es_released := True\<rparr>),
    t_events := t_events s @ [\<lparr>se_topic = ''esc_rel'', se_data = [Num (es_escrow_id r), Num (es_sbt_id r)]\<rparr>]\<rparr>)"
  by (simp add: release_one_def publish_sbt_def run_simps)

lemma release_all:
  assumes "\<forall>i \<in> set ids. es_sbt_id (f i) = i"
  shows "runs (forM (map f ids) release_one) (\<lambda>_ t. t_escrow t = (\<lambda>i. if i \<in> set ids then Some ((f i)\<lparr>es_released := True\<rparr>) else t_escrow s i)) s"
  using assms
proof (induction ids arbitrary: s)
  case (Cons i ids)
  let ?s = "s\<lparr>t_escrow := (t_escrow s)(i \<mapsto> (f i)\<lparr>es_released := True\<rparr>),
    t_events := t_events s @ [\<lparr>se_topic = ''esc_rel'', se_data = [Num (es_escrow_id (f i)), Num i]\<rparr>]\<rparr>"
  have "runs (forM (map f ids) release_one) (\<lambda>_ t. t_escrow t = (\<lambda>j. if j \<in> set (i # ids) then Some ((f j)\<lparr>es_released := True\<rparr>) else t_escrow s j)) ?s"
    by (rule runs_mono [OF Cons.IH]) (use Cons.prems in auto)
  then show ?case using Cons.prems by (simp add: run_simps)
qed (simp add: run_simps)

text \<open>Escrow records are stored under their own token.\<close>

definition escrow_keyed :: "sbt \<Rightarrow> bool" where
  "escrow_keyed s \<longleftrightarrow> (\<forall>i r. t_escrow s i = Some r \<longrightarrow> es_sbt_id r = i)"

lemma atomic_release_runs:
  assumes "escrow_keyed s"
  shows "runs (atomic_release_credentials e ids) (\<lambda>r t. r = map (\<lambda>_. True) ids \<and>
       t_escrow t = (\<lambda>i. if i \<in> set ids then map_option (\<lambda>x. x\<lparr>es_released := True\<rparr>) (t_escrow s i) else t_escrow s i)) s \<longleftrightarrow>
     ids \<noteq> [] \<and> distinct ids \<and> (\<forall>i \<in> set ids. releasable e s i)"
    (is "runs _ ?Q s \<longleftrightarrow> ?C")
proof
  assume "runs (atomic_release_credentials e ids) ?Q s"
  then show ?C by (simp add: atomic_release_credentials_def run_simps check_all)
next
  assume c: ?C
  let ?f = "\<lambda>i. the (t_escrow s i)"
  have some: "Some ((?f i)\<lparr>es_released := True\<rparr>) = map_option (\<lambda>x. x\<lparr>es_released := True\<rparr>) (t_escrow s i)" "es_sbt_id (?f i) = i"
    if "i \<in> set ids" for i
    using c that assms by (auto simp: releasable_def escrow_keyed_def split: option.splits)
  have "runs (forM (map ?f ids) release_one) (\<lambda>_ t. t_escrow t =
      (\<lambda>i. if i \<in> set ids then map_option (\<lambda>x. x\<lparr>es_released := True\<rparr>) (t_escrow s i) else t_escrow s i)) s"
    by (rule runs_mono [OF release_all]) (use some in \<open>auto simp: fun_eq_iff\<close>)
  then show "runs (atomic_release_credentials e ids) ?Q s"
    using c by (auto simp: atomic_release_credentials_def run_simps check_all o_def elim!: runs_mono)
qed

lemma atomic_release_refuses:
  assumes "escrow_keyed s" "\<not> (ids \<noteq> [] \<and> distinct ids \<and> (\<forall>i \<in> set ids. releasable e s i))"
  shows "\<not> commits (atomic_release_credentials e ids) s"
proof -
  have "\<not> runs (atomic_release_credentials e ids) (\<lambda>_ _. True) s"
    using assms(2) by (auto simp: atomic_release_credentials_def run_simps check_all)
  then show ?thesis by (simp add: runs_iff)
qed

lemma keeps_escrow:
  "keeps t_escrow (compress_sbt_metadata e i)" "keeps t_escrow (create_fractional_sbt e i hs fs)"
  "keeps t_escrow (compose_sbt_with_nft e i a n)" "keeps t_escrow (set_composition_components e i cs)"
  "keeps t_escrow (decompose_sbt e i)" "keeps t_escrow (set_shared_metadata e i m)"
  "keeps t_escrow (delegate_sbt_temporarily e i a d)" "keeps t_escrow (revoke_sbt_delegation e i)"
  "keeps t_escrow (generate_sbt_recovery_codes e i)" "keeps t_escrow (initialize_sbt e a)"
  "keeps t_escrow (mint e a m)" "keeps t_escrow (batch_transfer_sbt_conditional e ids ts)"
  "keeps t_escrow (recover_sbt_with_recovery_code e i m a)"
  unfolding compress_sbt_metadata_def create_fractional_sbt_def set_composition_components_def
    compose_sbt_with_nft_def decompose_sbt_def
    set_shared_metadata_def delegate_sbt_temporarily_def revoke_sbt_delegation_def generate_sbt_recovery_codes_def
    initialize_sbt_def mint_def batch_transfer_sbt_conditional_def check_transfer_def apply_transfer_def
    recover_sbt_with_recovery_code_def enforce_recovery_rate_limit_def
  by (intro frame keeps_modify; simp)+

lemma escrow_cases:
  assumes "sbt_exec e c s = Inr ((), t)"
  obtains "t_escrow t = t_escrow s" | i a m where "c = CallEscrow i a m" | i p where "c = CallRelease i p"
  | ids where "c = CallAtomicRelease ids"
proof (cases c)
  case (CallEscrow i a m)
  then show thesis by (rule that(2))
next
  case (CallRelease i p)
  then show thesis by (rule that(3))
next
  case (CallAtomicRelease ids)
  then show thesis by (rule that(4))
qed (insert assms, auto intro!: that(1) simp: dropM_eq dest: keeps_escrow [unfolded keeps_def, rule_format])

lemma escrow_keyed_step:
  assumes "escrow_keyed s" "sbt_exec e c s = Inr ((), t)"
  shows "escrow_keyed t"
  using assms(2)
proof (cases rule: escrow_cases)
  case 1
  then show ?thesis using assms(1) by (simp add: escrow_keyed_def)
next
  case (2 i a m)
  have "wp (escrow_sbt e i a m) (\<lambda>_. escrow_keyed) s"
    unfolding escrow_sbt_def using assms(1) by (auto simp: wp_simps sbt_defs escrow_keyed_def)
  then show ?thesis using 2 assms(2) wpD by (auto simp: dropM_eq)
next
  case (3 i p)
  have "wp (release_sbt_from_escrow e i p) (\<lambda>_. escrow_keyed) s"
    unfolding release_sbt_from_escrow_def using assms(1) by (auto simp: wp_simps sbt_defs escrow_keyed_def)
  then show ?thesis using 3 assms(2) wpD by fastforce
next
  case (4 ids)
  then have com: "commits (atomic_release_credentials e ids) s" using assms(2) by (auto simp: dropM_eq commits_def)
  then have "ids \<noteq> [] \<and> distinct ids \<and> (\<forall>i \<in> set ids. releasable e s i)"
    using atomic_release_refuses [OF assms(1)] by blast
  then show ?thesis
    using atomic_release_runs [OF assms(1), of e ids] 4 assms by (auto simp: runs_def dropM_eq escrow_keyed_def split: if_splits)
qed

interpretation escrows: invariant_system fresh_sbt sbt_step escrow_keyed
proof
  show "escrow_keyed s" if "fresh_sbt s" for s using that by (simp add: fresh_sbt_def escrow_keyed_def)
  show "escrow_keyed t" if "escrow_keyed s" "sbt_step s t" for s t using that(2) by cases (rule escrow_keyed_step [OF that(1)])
qed

text \<open>C35. In every reachable state an atomic release commits exactly if the batch is not empty, names no
  token twice, and each token is in escrow, not yet released, and its agent signed; then every named
  escrow and no other is released. Otherwise the call fails.\<close>

theorem atomic_release_exact:
  assumes "reachable fresh_sbt sbt_step s"
  shows "if ids \<noteq> [] \<and> distinct ids \<and> (\<forall>i \<in> set ids. releasable e s i)
     then \<exists>t. atomic_release_credentials e ids s = Inr (map (\<lambda>_. True) ids, t) \<and>
       get_escrow_status t = (\<lambda>i. if i \<in> set ids then map_option (\<lambda>r. r\<lparr>es_released := True\<rparr>) (get_escrow_status s i) else get_escrow_status s i)
     else \<exists>f. atomic_release_credentials e ids s = Inl f"
proof -
  have k: "escrow_keyed s" by (rule escrows.inv_reachable [OF assms])
  have st: "get_escrow_status = t_escrow" by (simp add: fun_eq_iff get_escrow_status_def)
  show ?thesis
  proof (cases "ids \<noteq> [] \<and> distinct ids \<and> (\<forall>i \<in> set ids. releasable e s i)")
    case True
    then show ?thesis using atomic_release_runs [OF k, of e ids] unfolding st by (auto elim!: runsE)
  next
    case False
    then show ?thesis using atomic_release_refuses [OF k False] by (auto simp: commits_def split: sum.splits)
  qed
qed

subsection \<open>Metadata\<close>

definition metadata_of :: "sbt \<Rightarrow> nat \<Rightarrow> sbt_failure + u8 list" where
  "metadata_of s i = (case get_metadata i s of Inl f \<Rightarrow> Inl f | Inr (m, _) \<Rightarrow> Inr m)"

lemma metadata_of_string: "\<not> is_sbt_metadata_compressed s i \<Longrightarrow> t_metadata s i = Some (StoredString m) \<Longrightarrow> metadata_of s i = Inr m"
  by (simp add: metadata_of_def get_metadata_def load_string_def exec)

lemma metadata_of_bytes:
  "is_sbt_metadata_compressed s i \<Longrightarrow> t_metadata s i = Some (StoredBytes b) \<Longrightarrow> decompress_metadata b = Inr m \<Longrightarrow>
     length m \<le> MAX_METADATA_SIZE \<Longrightarrow> metadata_of s i = Inr m"
  by (simp add: metadata_of_def get_metadata_def load_bytes_def decompressed_def bytes_to_string_def exec)

lemma metadata_of_cong: "t_metadata t i = t_metadata s i \<Longrightarrow> t_compressed t i = t_compressed s i \<Longrightarrow> metadata_of t i = metadata_of s i"
  by (auto simp: metadata_of_def get_metadata_def load_string_def load_bytes_def decompressed_def bytes_to_string_def
    is_sbt_metadata_compressed_def exec split: option.splits stored_metadata.splits sum.splits)

lemma compress_effect:
  "wp (compress_sbt_metadata e i) (\<lambda>n t. (t = s \<and> n = 0) \<or>
     (\<exists>m. \<not> is_sbt_metadata_compressed s i \<and> t_metadata s i = Some (StoredString m) \<and> length m \<le> MAX_METADATA_SIZE \<and>
        is_compressed (compress_metadata m) \<and> t_metadata t = (t_metadata s)(i \<mapsto> StoredBytes (compress_metadata m)) \<and>
        t_compressed t = (t_compressed s)(i \<mapsto> True) \<and> n = length m - length (compress_metadata m))) s"
  unfolding compress_sbt_metadata_def load_string_def string_to_bytes_def
  by (auto simp: wp_simps sbt_defs split: stored_metadata.split)

text \<open>Compressing the metadata of a token changes what no token's \<open>get_metadata\<close> returns, provided that the
  metadata does not start with a marker byte of the compressed formats, and reports the bytes it saves.\<close>

theorem metadata_kept:
  assumes "compress_sbt_metadata e i s = Inr (n, t)"
    "\<And>m. t_metadata s i = Some (StoredString m) \<Longrightarrow> m = [] \<or> m ! 0 \<notin> {LEGACY_MAGIC, MESSAGEPACK_EXT8, MESSAGEPACK_EXT16}"
  shows "metadata_of t j = metadata_of s j \<and>
     (n \<noteq> 0 \<longrightarrow> is_sbt_metadata_compressed t i \<and>
        (\<exists>m b. metadata_of s i = Inr m \<and> t_metadata t i = Some (StoredBytes b) \<and> length b + n = length m))"
proof -
  consider "t = s" "n = 0"
    | m where "\<not> is_sbt_metadata_compressed s i" "t_metadata s i = Some (StoredString m)" "length m \<le> MAX_METADATA_SIZE"
        "t_metadata t = (t_metadata s)(i \<mapsto> StoredBytes (compress_metadata m))" "t_compressed t = (t_compressed s)(i \<mapsto> True)"
        "n = length m - length (compress_metadata m)"
    using wpD [OF compress_effect assms(1)] by blast
  then show ?thesis
  proof cases
    case 1
    then show ?thesis by simp
  next
    case (2 m)
    note rt = compress_facts [of m]
    have d: "decompress_metadata (compress_metadata m) = Inr m" using rt(2) assms(2) [OF 2(2)] by blast
    have c: "is_sbt_metadata_compressed t i" using 2(5) by (simp add: is_sbt_metadata_compressed_def)
    have new: "metadata_of t i = Inr m" using 2(3,4) by (intro metadata_of_bytes [OF c _ d]) simp_all
    have old: "metadata_of s i = Inr m" by (rule metadata_of_string [OF 2(1,2)])
    have "metadata_of t j = metadata_of s j"
    proof (cases "j = i")
      case True
      then show ?thesis using new old by simp
    next
      case False
      then show ?thesis using 2(4,5) by (intro metadata_of_cong) simp_all
    qed
    then show ?thesis using c old 2(4,6) rt(1) by simp
  qed
qed

subsection \<open>Recovery attempts\<close>

text \<open>
  The attempts of one window: whatever is submitted, a call commits only if fewer than five were
  counted since the window started, or the window is over.
\<close>

lemma recovery_counted:
  "wp (recover_sbt_with_recovery_code e i code h) (\<lambda>_ t. \<exists>r. t_recovery_attempts t i = Some r \<and> ra_attempt_count r \<le> RECOVERY_MAX_ATTEMPTS \<and>
     (case t_recovery_attempts s i of
        None \<Rightarrow> r = \<lparr>ra_attempt_count = 1, ra_window_start = se_now e\<rparr>
      | Some q \<Rightarrow> if se_now e - ra_window_start q \<ge> RECOVERY_ATTEMPT_WINDOW_SECONDS
          then r = \<lparr>ra_attempt_count = 1, ra_window_start = se_now e\<rparr>
          else r = q\<lparr>ra_attempt_count := ra_attempt_count q + 1\<rparr>)) s"
  unfolding recover_sbt_with_recovery_code_def enforce_recovery_rate_limit_def
  by (auto simp: wp_simps sbt_defs RECOVERY_MAX_ATTEMPTS_def RECOVERY_ATTEMPT_WINDOW_SECONDS_def Let_def split: option.splits)

text \<open>
  A transfer keeps the recovery codes of the old holder, who can take the token back with them; and an
  escrow does not keep the holder from transferring the token.
\<close>

lemma transfer_keeps_codes_and_escrow:
  "keeps t_recovery_codes (batch_transfer_sbt_conditional e ids ts)" "keeps t_escrow (batch_transfer_sbt_conditional e ids ts)"
  unfolding batch_transfer_sbt_conditional_def check_transfer_def apply_transfer_def by (intro frame keeps_modify; simp)+

lemma escrow_forever:
  assumes "t_escrow s i = Some r"
  shows "\<not> commits (escrow_sbt e i a c) s"
  using assms by (simp add: escrow_sbt_def sbt_defs exec commits_def split: option.splits)

subsection \<open>Examples\<close>

definition demo_env :: sbt_env where
  "demo_env = \<lparr>se_now = 100, se_auth = (\<lambda>_. True), se_nft_owner_of = (\<lambda>_ _. None), se_sha256 = (\<lambda>x. x), se_prng = (\<lambda>i. [word_of_nat i])\<rparr>"

definition empty_sbt :: sbt where
  "empty_sbt = \<lparr>t_admin = None, t_next_token_id = None, t_owner = Map.empty, t_metadata = Map.empty, t_minted_at = Map.empty,
     t_composition = Map.empty, t_components = Map.empty, t_shared_metadata = Map.empty, t_delegation = Map.empty,
     t_delegation_history = Map.empty, t_compressed = Map.empty, t_fractional = Map.empty, t_ownership_history = Map.empty,
     t_escrow = Map.empty, t_next_escrow_id = None, t_recovery_codes = Map.empty, t_recovery_attempts = Map.empty, t_events = []\<rparr>"

definition two_tokens :: sbt where
  "two_tokens = fold (\<lambda>c. after (sbt_exec demo_env c))
     [CallInitialize 1, CallMint 7 [4, 4], CallMint 7 [5], CallComponents 0 [1], CallEscrow 0 9 [], CallEscrow 1 9 []] empty_sbt"

lemma exec_reachable: "reachable fresh_sbt sbt_step s \<Longrightarrow> reachable fresh_sbt sbt_step (fold (\<lambda>c. after (sbt_exec e c)) cs s)"
proof (induction cs arbitrary: s)
  case (Cons c cs)
  have "reachable fresh_sbt sbt_step (after (sbt_exec e c) s)"
    using Cons.prems by (auto simp: after_def split: sum.splits intro: reachable_step sbt_stepI)
  then show ?case using Cons.IH by simp
qed simp

lemma two_tokens_reachable: "reachable fresh_sbt sbt_step two_tokens"
  unfolding two_tokens_def by (intro exec_reachable reachable_start) (simp add: empty_sbt_def fresh_sbt_def)

lemmas sbt_run = after_def exec sbt_defs initialize_sbt_def mint_def set_composition_components_def escrow_sbt_def demo_env_def empty_sbt_def
  composition_reaches_any_def reaches_walk.simps MAX_COMPOSITION_DEPTH_def

lemma two_tokens_eq:
  "t_owner two_tokens = [0 \<mapsto> 7, 1 \<mapsto> 7]" "t_components two_tokens = [0 \<mapsto> [1]]"
  "t_escrow two_tokens = [0 \<mapsto> \<lparr>es_escrow_id = 0, es_sbt_id = 0, es_escrow_agent = 9, es_conditions = [], es_created_at = 100, es_released = False\<rparr>,
     1 \<mapsto> \<lparr>es_escrow_id = 1, es_sbt_id = 1, es_escrow_agent = 9, es_conditions = [], es_created_at = 100, es_released = False\<rparr>]"
  by (simp_all add: two_tokens_def sbt_run)

theorem holder_changes_witness:
  "\<exists>t. sbt_exec demo_env (CallTransfer [0] [\<lparr>ti_to = 8, ti_condition = Always\<rparr>]) two_tokens = Inr ((), t) \<and> t_owner t 0 = Some 8 \<and> se_auth demo_env 7"
proof -
  let ?c = "CallTransfer [0] [\<lparr>ti_to = 8, ti_condition = Always\<rparr>]"
  obtain t where t: "sbt_exec demo_env ?c two_tokens = Inr ((), t)" "t_owner t 0 = Some 8"
    by (simp add: batch_transfer_sbt_conditional_def check_transfer_def apply_transfer_def exec sbt_defs two_tokens_eq demo_env_def)
  have "\<exists>b. t_owner t 0 = Some b \<and> ((\<exists>ids ts ins. ?c = CallTransfer ids ts \<and> (0, ins) \<in> set (zip ids ts) \<and> se_auth demo_env 7 \<and> ti_to ins = b \<and>
         evaluate_condition demo_env two_tokens 0 (ti_condition ins)) \<or>
      (\<exists>code codes. ?c = CallRecover 0 code b \<and> se_auth demo_env b \<and> \<not> is_fractional two_tokens 0 \<and> t_recovery_codes two_tokens 0 = Some codes \<and>
         se_sha256 demo_env code \<in> set codes \<and> t_recovery_codes t 0 = Some (remove1 (se_sha256 demo_env code) codes)))"
    using t(2) by (intro holder_changes [OF two_tokens_reachable t(1)]) (simp_all add: two_tokens_eq)
  then show ?thesis using t by auto
qed

theorem composition_sound_witness:
  "acyclic (component_graph two_tokens) \<and> (0, 1) \<in> component_graph two_tokens \<and> resolve_composition 0 two_tokens = Inr ([1], two_tokens)"
proof -
  have "(0, 1) \<in> component_graph two_tokens" by (simp add: component_graph_def two_tokens_eq)
  moreover have "resolve_composition 0 two_tokens = Inr ([1], two_tokens)"
    by (simp add: resolve_composition_def two_tokens_eq MAX_COMPOSITION_DEPTH_def)
  ultimately show ?thesis using composition_sound [OF two_tokens_reachable] by blast
qed

theorem atomic_release_exact_witness:
  "\<exists>t. atomic_release_credentials demo_env [0, 1] two_tokens = Inr ([True, True], t) \<and>
     map_option es_released (get_escrow_status t 1) = Some True"
proof -
  have "\<forall>i \<in> set [0, 1]. releasable demo_env two_tokens i" by (simp add: releasable_def two_tokens_eq demo_env_def)
  moreover have "\<exists>r. get_escrow_status two_tokens 1 = Some r" by (simp add: get_escrow_status_def two_tokens_eq)
  ultimately show ?thesis
    using atomic_release_exact [OF two_tokens_reachable, of "[0, 1]" demo_env] by auto
qed

theorem metadata_kept_witness:
  "\<exists>n t. compress_sbt_metadata demo_env 0 two_tokens = Inr (n, t) \<and> metadata_of t 0 = Inr [4, 4]"
proof -
  have m: "t_metadata two_tokens 0 = Some (StoredString [4, 4])" "t_compressed two_tokens = Map.empty"
    by (simp_all add: two_tokens_def sbt_run)
  have u: "compress_metadata [4, 4] = [4, 4]" by (rule short_unchanged) simp
  obtain n t where run: "compress_sbt_metadata demo_env 0 two_tokens = Inr (n, t)"
    by (simp add: compress_sbt_metadata_def load_string_def string_to_bytes_def exec sbt_defs two_tokens_eq m u demo_env_def
      is_sbt_metadata_compressed_def is_compressed_def MAX_METADATA_SIZE_def parse_messagepack_header_def is_legacy_compressed_def
      compression_constants)
  have "metadata_of t 0 = metadata_of two_tokens 0"
    by (rule metadata_kept [OF run, THEN conjunct1]) (auto simp: m compression_constants)
  moreover have "metadata_of two_tokens 0 = Inr [4, 4]"
    by (rule metadata_of_string) (simp_all add: m is_sbt_metadata_compressed_def)
  ultimately show ?thesis using run by auto
qed

end
