(* ===== verification/Zk_Verifier.thy ===== *)
theory Zk_Verifier
  imports Heirloom_Prelude "HOL-Library.Word"
begin

section \<open>The verifier of attested claims\<close>

text \<open>
  The contract \<open>zk_verifier/src/lib.rs\<close> with its modules \<open>compression.rs\<close> (run-length encoding of proofs) and
  \<open>consistency.rs\<close> (conflicts between claims). Registered oracles attest pairs of a proof and a claim; a
  claim is verified if such an attestation stands. Credentials are numbered, have snapshots in time,
  can be derived from each other and can be disputed by vote. The state has one field per storage key;
  the environment provides the time, the signatures, the hash function and the decoding of XDR.
\<close>

unbundle bit_operations_syntax

type_synonym zbyte = "8 word"
type_synonym zhash = "8 word list"
type_synonym zaccount = nat

datatype VerifierError = EmptyProof | EmptyClaim | ProofTooLarge | ClaimTooLarge | AlreadyInitialized | NotInitialized
  | OracleNotFound | MalformedConditionalProof | BatchConsistencyError | EmptyBatchIds | MismatchedBatchLengths
  | CredentialNotFound | SelfReferentialParent | ParentAlreadySet | CredentialChainTooDeep | ParentCredentialInvalid
  | InvalidLatticeProof | ExternalFormatTooLarge | InvalidMaskSpec | MaskedVerificationFailed | AccessDenied
  | VersionNotFound | DisputeNotFound | DisputeNotOpen | AlreadyVoted | DisputeAlreadyOpen | EmptyReason
  | ReasonTooLarge | InvalidThreshold

datatype zk_failure = VerErr VerifierError | ZkTrapped

definition MAX_PROOF_SIZE :: nat where "MAX_PROOF_SIZE = 4096"
definition MAX_CLAIM_SIZE :: nat where "MAX_CLAIM_SIZE = 1024"
definition MAX_REASON_SIZE :: nat where "MAX_REASON_SIZE = 1024"
definition MAX_EXTERNAL_FORMAT_SIZE :: nat where "MAX_EXTERNAL_FORMAT_SIZE = 8192"
definition LATTICE_PROOF_HEADER :: "zbyte list" where "LATTICE_PROOF_HEADER = [76, 65, 84, 84, 73, 67, 69, 95, 86, 49]"
definition DEFAULT_DISPUTE_THRESHOLD :: nat where "DEFAULT_DISPUTE_THRESHOLD = 3"
definition MAX_CREDENTIAL_SNAPSHOTS :: nat where "MAX_CREDENTIAL_SNAPSHOTS = 1000"
definition MAX_CREDENTIAL_CHAIN_DEPTH :: nat where "MAX_CREDENTIAL_CHAIN_DEPTH = 32"
definition CONSISTENCY_CHECK_INTERVAL :: nat where "CONSISTENCY_CHECK_INTERVAL = 30 * 24 * 60 * 60"

subsection \<open>Run-length encoding of proofs\<close>

definition MAGIC :: zbyte where "MAGIC = 0xC0"

datatype ProofCompressionError = EmptyInput | InvalidData | ProofOutputTooLarge

text \<open>The length of the run at the front: the inner loop of \<open>compress_proof\<close>.\<close>

fun run_from :: "zbyte \<Rightarrow> nat \<Rightarrow> zbyte list \<Rightarrow> nat" where
  "run_from current run [] = run"
| "run_from current run (b # bs) = (if run < 255 \<and> b = current then run_from current (run + 1) bs else run)"

lemma run_from_bounds: "run_from c n bs \<le> n + length bs" "n \<le> run_from c n bs"
  by (induction c n bs rule: run_from.induct) auto

function compress_runs :: "zbyte list \<Rightarrow> zbyte list \<Rightarrow> zbyte list" where
  "compress_runs [] out = out"
| "compress_runs (current # rest) out =
     (let run = run_from current 1 rest in compress_runs (drop run (current # rest)) (out @ [word_of_nat run, current]))"
  by pat_completeness auto
termination
proof (relation "measure (\<lambda>(input, out). length input)")
  fix current :: zbyte and rest out :: "zbyte list" and run
  assume "run = run_from current 1 rest"
  then show "((drop run (current # rest), out @ [word_of_nat run, current]), current # rest, out) \<in> measure (\<lambda>(input, out). length input)"
    using run_from_bounds(2) [of 1 current rest] by simp
qed simp

definition compress_proof :: "zbyte list \<Rightarrow> ProofCompressionError + zbyte list" where
  "compress_proof input = (if input = [] then Inl EmptyInput else Inr (compress_runs input [MAGIC]))"

fun push_run :: "nat \<Rightarrow> nat \<Rightarrow> zbyte \<Rightarrow> zbyte list \<Rightarrow> ProofCompressionError + zbyte list" where
  "push_run max_output_size 0 b out = Inr out"
| "push_run max_output_size (Suc n) b out =
     (if length out \<ge> max_output_size then Inl ProofOutputTooLarge else push_run max_output_size n b (out @ [b]))"

fun expand_runs :: "nat \<Rightarrow> zbyte list \<Rightarrow> zbyte list \<Rightarrow> ProofCompressionError + zbyte list" where
  "expand_runs max_output_size [] out = Inr out"
| "expand_runs max_output_size [_] out = Inl InvalidData"
| "expand_runs max_output_size (repeats # b # rest) out =
     (if repeats = 0 then Inl InvalidData
      else case push_run max_output_size (unat repeats) b out of
          Inl err \<Rightarrow> Inl err | Inr out' \<Rightarrow> expand_runs max_output_size rest out')"

definition decompress_proof :: "zbyte list \<Rightarrow> nat \<Rightarrow> ProofCompressionError + zbyte list" where
  "decompress_proof input max_output_size =
     (case input of
        [] \<Rightarrow> Inl EmptyInput
      | first # rest \<Rightarrow> if first \<noteq> MAGIC then Inl InvalidData else expand_runs max_output_size rest [])"

subsection \<open>Consistency of claims\<close>

datatype ConsistencyError = EmptyBatch | ConflictDetected | UnknownCredentialType | TooManyConflicts

record ConflictReport =
  cr_credential_id_a :: nat
  cr_credential_id_b :: nat
  cr_conflict_reason :: string

datatype KycStatus = KycPending | KycApproved | KycRejected | KycUnknown

definition be_u32 :: "zbyte \<Rightarrow> zbyte \<Rightarrow> zbyte \<Rightarrow> zbyte \<Rightarrow> nat" where
  "be_u32 a b c d = ((unat a * 256 + unat b) * 256 + unat c) * 256 + unat d"

definition parse_age_claim :: "zbyte list \<Rightarrow> (nat \<times> nat) option" where
  "parse_age_claim claim =
     (if length claim < 8 then None
      else Some (be_u32 (claim ! 0) (claim ! 1) (claim ! 2) (claim ! 3), be_u32 (claim ! 4) (claim ! 5) (claim ! 6) (claim ! 7)))"

definition age_ranges_compatible :: "nat \<times> nat \<Rightarrow> nat \<times> nat \<Rightarrow> bool" where
  "age_ranges_compatible range_a range_b = (fst range_a \<le> snd range_b \<and> fst range_b \<le> snd range_a)"

definition is_age_claim :: "zbyte list \<Rightarrow> bool" where
  "is_age_claim claim = (case parse_age_claim claim of None \<Rightarrow> False | Some (lo, hi) \<Rightarrow> lo < hi \<and> hi < 200)"

definition extract_kyc_status :: "zbyte list \<Rightarrow> KycStatus option" where
  "extract_kyc_status claim =
     (case claim of
        [] \<Rightarrow> None
      | b # _ \<Rightarrow> Some (if b = 0 then KycPending else if b = 1 then KycApproved else if b = 2 then KycRejected else KycUnknown))"

definition is_kyc_status_claim :: "zbyte list \<Rightarrow> bool" where
  "is_kyc_status_claim claim = (extract_kyc_status claim \<in> {Some KycPending, Some KycApproved, Some KycRejected})"

definition kyc_statuses_compatible :: "KycStatus \<Rightarrow> KycStatus \<Rightarrow> bool" where
  "kyc_statuses_compatible a b =
     (if a = b then True
      else \<not> ((a = KycPending \<or> a = KycApproved) \<and> b = KycRejected \<or> a = KycRejected \<and> (b = KycPending \<or> b = KycApproved)))"

definition age_rule_compatible :: "zbyte list \<Rightarrow> zbyte list \<Rightarrow> bool" where
  "age_rule_compatible claim_a claim_b =
     (if claim_a = claim_b then True
      else case (parse_age_claim claim_a, parse_age_claim claim_b) of
          (Some age_a, Some age_b) \<Rightarrow> age_ranges_compatible age_a age_b | _ \<Rightarrow> True)"

definition kyc_rule_compatible :: "zbyte list \<Rightarrow> zbyte list \<Rightarrow> bool" where
  "kyc_rule_compatible claim_a claim_b =
     (if claim_a = claim_b then True
      else case (extract_kyc_status claim_a, extract_kyc_status claim_b) of
          (Some status_a, Some status_b) \<Rightarrow> kyc_statuses_compatible status_a status_b | _ \<Rightarrow> True)"

definition are_credentials_compatible :: "zbyte list \<Rightarrow> zbyte list \<Rightarrow> bool" where
  "are_credentials_compatible claim_a claim_b =
     (if is_age_claim claim_a \<and> is_age_claim claim_b then age_rule_compatible claim_a claim_b
      else if is_kyc_status_claim claim_a \<and> is_kyc_status_claim claim_b then kyc_rule_compatible claim_a claim_b
      else True)"

definition verify_batch_consistency :: "(nat \<times> zbyte list \<times> nat \<times> zbyte list) list \<Rightarrow> ConsistencyError + unit" where
  "verify_batch_consistency credential_pairs =
     (if credential_pairs = [] then Inl EmptyBatch
      else if list_ex (\<lambda>(id_a, claim_a, id_b, claim_b). \<not> are_credentials_compatible claim_a claim_b) credential_pairs
      then Inl ConflictDetected else Inr ())"

definition age_conflict_reason :: string where "age_conflict_reason = ''Age range mismatch''"
definition kyc_conflict_reason :: string where "kyc_conflict_reason = ''KYC status conflict''"

definition generate_conflict_report :: "nat \<Rightarrow> nat \<Rightarrow> zbyte list \<Rightarrow> zbyte list \<Rightarrow> ConflictReport" where
  "generate_conflict_report id_a id_b claim_a claim_b =
     (let reason = (if is_age_claim claim_a \<and> is_age_claim claim_b then age_conflict_reason
        else if is_kyc_status_claim claim_a \<and> is_kyc_status_claim claim_b then kyc_conflict_reason
        else ''Unknown conflict type'')
      in \<lparr>cr_credential_id_a = id_a, cr_credential_id_b = id_b, cr_conflict_reason = reason\<rparr>)"

subsection \<open>Data of the contract\<close>

record ConditionalProof =
  cp_condition_proof :: "zbyte list"
  cp_then_claim :: "zbyte list"
  cp_then_proof :: "zbyte list"
  cp_else_claim :: "zbyte list"
  cp_else_proof :: "zbyte list"

record VerificationRecord =
  vr_timestamp :: nat
  vr_verified :: bool
  vr_oracle :: zaccount

record MaskingConfig =
  mk_masked_fields :: zhash
  mk_version :: nat

record AttestationRecord =
  ar_credential_id :: nat
  ar_oracle :: zaccount
  ar_next_check_due :: nat

record CredentialSnapshot =
  sn_credential_id :: nat
  sn_oracle :: zaccount
  sn_invalidated :: bool
  sn_timestamp :: nat
  sn_version :: nat

record CredentialVersionDiff =
  vd_credential_id :: nat
  vd_from_version :: nat
  vd_to_version :: nat
  vd_from_timestamp :: nat
  vd_to_timestamp :: nat
  vd_oracle_changed :: bool
  vd_previous_oracle :: zaccount
  vd_current_oracle :: zaccount
  vd_invalidated_changed :: bool
  vd_previous_invalidated :: bool
  vd_current_invalidated :: bool

datatype PrivacyLevel = Public | Internal | Confidential

datatype DisputeStatus = DisputeOpen | Upheld | DisputeRejected

record Dispute =
  di_id :: nat
  di_credential_id :: nat
  di_initiator :: zaccount
  di_reason :: "zbyte list"
  di_status :: DisputeStatus
  di_votes_for :: nat
  di_votes_against :: nat
  di_created_at :: nat
  di_resolved_at :: nat

datatype zk_value = ZNum nat | ZFlag bool | ZHash zhash

record zk_event =
  ze_topic :: string
  ze_data :: "zk_value list"

record zk =
  z_admin :: "zaccount option"
  z_oracle :: "zaccount \<rightharpoonup> bool"
  z_attestation :: "zhash \<times> zhash \<rightharpoonup> AttestationRecord"
  z_credential_count :: "nat option"
  z_credential_hashes :: "nat \<rightharpoonup> zhash \<times> zhash"
  z_invalidated :: "nat \<rightharpoonup> bool"
  z_open_dispute :: "nat \<rightharpoonup> nat"
  z_dispute_history :: "nat \<rightharpoonup> nat list"
  z_dispute_count :: "nat option"
  z_disputes :: "nat \<rightharpoonup> Dispute"
  z_dispute_vote :: "nat \<times> zaccount \<rightharpoonup> bool"
  z_threshold :: "nat option"
  z_snapshot :: "nat \<times> nat \<rightharpoonup> CredentialSnapshot"
  z_snapshot_timestamps :: "nat \<rightharpoonup> nat list"
  z_snapshot_versions :: "nat \<rightharpoonup> nat list"
  z_privacy :: "nat \<rightharpoonup> PrivacyLevel"
  z_parent :: "nat \<rightharpoonup> nat"
  z_history :: "zhash \<rightharpoonup> VerificationRecord list"
  z_masking :: "zhash \<rightharpoonup> MaskingConfig"
  z_attestation_masking :: "nat \<rightharpoonup> MaskingConfig"
  z_last_verification :: "zhash \<rightharpoonup> nat"
  z_events :: "zk_event list"

record zk_env =
  zk_now :: nat
  zk_auth :: "zaccount \<Rightarrow> bool"
  zk_sha256 :: "zbyte list \<Rightarrow> zhash"
  zk_from_xdr :: "zbyte list \<Rightarrow> ConditionalProof option"
  zk_contract :: zaccount
  zk_masked_oracle :: zaccount

type_synonym 'a zk_op = "(zk_failure, zk, 'a) act"

abbreviation zk_or :: "'a option \<Rightarrow> 'a \<Rightarrow> 'a" where
  "zk_or x d \<equiv> (case x of None \<Rightarrow> d | Some v \<Rightarrow> v)"

definition publish_zk :: "string \<Rightarrow> zk_value list \<Rightarrow> unit zk_op" where
  "publish_zk topic data = modify (\<lambda>s. s\<lparr>z_events := z_events s @ [\<lparr>ze_topic = topic, ze_data = data\<rparr>]\<rparr>)"

definition signed_by :: "zk_env \<Rightarrow> zaccount \<Rightarrow> unit zk_op" where
  "signed_by e a = guard (zk_auth e a) ZkTrapped"

subsection \<open>Oracles and the admin\<close>

definition require_zk_admin :: "zk_env \<Rightarrow> unit zk_op" where
  "require_zk_admin e = (bindM (gets z_admin) (\<lambda>found.
                        bindM (ok_or found (VerErr NotInitialized)) (\<lambda>admin.
                        signed_by e admin)))"

definition initialize_zk :: "zk_env \<Rightarrow> zaccount \<Rightarrow> unit zk_op" where
  "initialize_zk e admin = (bindM (gets z_admin) (\<lambda>found.
                           thenM (guard (found = None) (VerErr AlreadyInitialized)) (
                           thenM (signed_by e admin) (
                           modify (\<lambda>s. s\<lparr>z_admin := Some admin\<rparr>)))))"

definition register_oracle :: "zk_env \<Rightarrow> zaccount \<Rightarrow> unit zk_op" where
  "register_oracle e oracle = (thenM (require_zk_admin e) (
                              modify (\<lambda>s. s\<lparr>z_oracle := (z_oracle s)(oracle \<mapsto> True)\<rparr>)))"

definition revoke_oracle :: "zk_env \<Rightarrow> zaccount \<Rightarrow> unit zk_op" where
  "revoke_oracle e oracle = (thenM (require_zk_admin e) (
                            modify (\<lambda>s. s\<lparr>z_oracle := (z_oracle s)(oracle := None)\<rparr>)))"

definition is_oracle :: "zk \<Rightarrow> zaccount \<Rightarrow> bool" where
  "is_oracle s oracle = zk_or (z_oracle s oracle) False"

definition is_registered_oracle :: "zk \<Rightarrow> zaccount \<Rightarrow> bool" where
  "is_registered_oracle s oracle = zk_or (z_oracle s oracle) False"

definition require_registered_oracle :: "zaccount \<Rightarrow> unit zk_op" where
  "require_registered_oracle oracle = (bindM (gets (\<lambda>s. is_registered_oracle s oracle)) (\<lambda>registered.
                                      guard registered (VerErr OracleNotFound)))"

definition is_zk_admin :: "zk \<Rightarrow> zaccount \<Rightarrow> bool" where
  "is_zk_admin s a = (z_admin s = Some a)"

subsection \<open>Credentials and their snapshots\<close>

definition is_credential_invalidated :: "zk \<Rightarrow> nat \<Rightarrow> bool" where
  "is_credential_invalidated s credential_id = zk_or (z_invalidated s credential_id) False"

definition mint_or_reuse_credential_id :: "zhash \<Rightarrow> zhash \<Rightarrow> nat zk_op" where
  "mint_or_reuse_credential_id proof_hash claim_hash = (bindM (gets (\<lambda>s. z_attestation s (proof_hash, claim_hash))) (\<lambda>existing.
                                                       case existing of
       Some r \<Rightarrow> returnM (ar_credential_id r)
     | None \<Rightarrow> (bindM (gets (\<lambda>s. zk_or (z_credential_count s) 0)) (\<lambda>last_id.
                          thenM (guard (last_id < U64_MAX) ZkTrapped) (
                          (let credential_id = last_id + 1 in
                          thenM (modify (\<lambda>s. s\<lparr>z_credential_count := Some credential_id\<rparr>)) (
                          thenM (modify (\<lambda>s. s\<lparr>z_credential_hashes := (z_credential_hashes s)(credential_id \<mapsto> (proof_hash, claim_hash))\<rparr>)) (
                          returnM credential_id))))))))"

definition put_snapshot :: "CredentialSnapshot \<Rightarrow> unit zk_op" where
  "put_snapshot snap = modify (\<lambda>s. s\<lparr>z_snapshot := (z_snapshot s)((sn_credential_id snap, sn_timestamp snap) \<mapsto> snap)\<rparr>)"

definition record_credential_snapshot :: "zk_env \<Rightarrow> nat \<Rightarrow> zaccount \<Rightarrow> bool \<Rightarrow> unit zk_op" where
  "record_credential_snapshot e credential_id oracle invalidated = (bindM (gets (\<lambda>s. zk_or (z_snapshot_timestamps s credential_id) [])) (\<lambda>timestamps.
                                                                   bindM (gets (\<lambda>s. zk_or (z_snapshot_versions s credential_id) [])) (\<lambda>versions.
                                                                   if timestamps \<noteq> [] \<and> last timestamps = zk_now e then
       put_snapshot \<lparr>sn_credential_id = credential_id, sn_oracle = oracle, sn_invalidated = invalidated,
         sn_timestamp = zk_now e, sn_version = (if versions = [] then 1 else last versions)\<rparr>
     else ((let newest = (if versions = [] then 0 else last versions) in
          thenM (guard (newest < U32_MAX) ZkTrapped) (
          thenM (put_snapshot \<lparr>sn_credential_id = credential_id, sn_oracle = oracle, sn_invalidated = invalidated,
         sn_timestamp = zk_now e, sn_version = newest + 1\<rparr>) (
          (let pushed = timestamps @ [zk_now e] in
          (let numbered = versions @ [newest + 1] in
          if length pushed > MAX_CREDENTIAL_SNAPSHOTS then (thenM (modify (\<lambda>s. s\<lparr>z_snapshot := (z_snapshot s)((credential_id, hd pushed) := None)\<rparr>)) (
                                                        thenM (modify (\<lambda>s. s\<lparr>z_snapshot_timestamps := (z_snapshot_timestamps s)(credential_id \<mapsto> tl pushed)\<rparr>)) (
                                                        modify (\<lambda>s. s\<lparr>z_snapshot_versions := (z_snapshot_versions s)(credential_id \<mapsto> tl numbered)\<rparr>)))) else (thenM (modify (\<lambda>s. s\<lparr>z_snapshot_timestamps := (z_snapshot_timestamps s)(credential_id \<mapsto> pushed)\<rparr>)) (
              modify (\<lambda>s. s\<lparr>z_snapshot_versions := (z_snapshot_versions s)(credential_id \<mapsto> numbered)\<rparr>))))))))))))"

text \<open>The end of \<open>attest\<close> and \<open>create_derived_credential\<close>: the record and its snapshot.\<close>

definition record_attestation :: "zk_env \<Rightarrow> zhash \<Rightarrow> zhash \<Rightarrow> nat \<Rightarrow> zaccount \<Rightarrow> unit zk_op" where
  "record_attestation e proof_hash claim_hash credential_id oracle = (thenM (modify (\<lambda>s. s\<lparr>z_attestation := (z_attestation s)((proof_hash, claim_hash) \<mapsto> \<lparr>ar_credential_id = credential_id,
       ar_oracle = oracle, ar_next_check_due = sat_add U64_MAX (zk_now e) CONSISTENCY_CHECK_INTERVAL\<rparr>)\<rparr>)) (
                                                                     bindM (gets (\<lambda>s. is_credential_invalidated s credential_id)) (\<lambda>invalidated.
                                                                     record_credential_snapshot e credential_id oracle invalidated)))"

definition attest :: "zk_env \<Rightarrow> zaccount \<Rightarrow> zbyte list \<Rightarrow> zbyte list \<Rightarrow> nat zk_op" where
  "attest e oracle proof_bytes claim = (thenM (guard (proof_bytes \<noteq> []) (VerErr EmptyProof)) (
                                       thenM (guard (claim \<noteq> []) (VerErr EmptyClaim)) (
                                       thenM (require_registered_oracle oracle) (
                                       thenM (signed_by e oracle) (
                                       (let proof_hash = zk_sha256 e proof_bytes in
                                       (let claim_hash = zk_sha256 e claim in
                                       bindM (mint_or_reuse_credential_id proof_hash claim_hash) (\<lambda>credential_id.
                                       thenM (record_attestation e proof_hash claim_hash credential_id oracle) (
                                       returnM credential_id)))))))))"

definition load_parent :: "zk \<Rightarrow> nat \<Rightarrow> nat option" where
  "load_parent s credential_id = z_parent s credential_id"

text \<open>The loop over the ancestors, from a depth already reached.\<close>

function chain_walk :: "zk \<Rightarrow> nat \<Rightarrow> nat \<Rightarrow> zk_failure + unit" where
  "chain_walk s current depth =
     (if is_credential_invalidated s current then Inl (VerErr ParentCredentialInvalid)
      else case load_parent s current of
          None \<Rightarrow> Inr ()
        | Some parent \<Rightarrow> if depth + 1 > MAX_CREDENTIAL_CHAIN_DEPTH then Inl (VerErr CredentialChainTooDeep)
            else chain_walk s parent (depth + 1))"
  by pat_completeness auto
termination by (relation "measure (\<lambda>(s, current, depth). MAX_CREDENTIAL_CHAIN_DEPTH - depth)") auto

declare chain_walk.simps [simp del]

definition validate_credential_chain :: "nat \<Rightarrow> unit zk_op" where
  "validate_credential_chain credential_id s = (case chain_walk s credential_id 0 of Inl err \<Rightarrow> Inl err | Inr u \<Rightarrow> Inr ((), s))"

definition create_derived_credential :: "zk_env \<Rightarrow> zaccount \<Rightarrow> nat \<Rightarrow> zbyte list \<Rightarrow> zbyte list \<Rightarrow> nat zk_op" where
  "create_derived_credential e oracle parent_id proof_bytes claim = (thenM (guard (proof_bytes \<noteq> []) (VerErr EmptyProof)) (
                                                                    thenM (guard (claim \<noteq> []) (VerErr EmptyClaim)) (
                                                                    bindM (gets (\<lambda>s. z_credential_hashes s parent_id)) (\<lambda>known.
                                                                    thenM (guard (known \<noteq> None) (VerErr CredentialNotFound)) (
                                                                    thenM (validate_credential_chain parent_id) (
                                                                    thenM (require_registered_oracle oracle) (
                                                                    thenM (signed_by e oracle) (
                                                                    (let proof_hash = zk_sha256 e proof_bytes in
                                                                    (let claim_hash = zk_sha256 e claim in
                                                                    bindM (mint_or_reuse_credential_id proof_hash claim_hash) (\<lambda>credential_id.
                                                                    thenM (guard (credential_id \<noteq> parent_id) (VerErr SelfReferentialParent)) (
                                                                    bindM (gets (\<lambda>s. load_parent s credential_id)) (\<lambda>existing.
                                                                    thenM (guard (existing = None \<or> existing = Some parent_id) (VerErr ParentAlreadySet)) (
                                                                    thenM (modify (\<lambda>s. s\<lparr>z_parent := (z_parent s)(credential_id \<mapsto> parent_id)\<rparr>)) (
                                                                    thenM (record_attestation e proof_hash claim_hash credential_id oracle) (
                                                                    returnM credential_id))))))))))))))))"

subsection \<open>Verification\<close>

definition attested :: "zk \<Rightarrow> zhash \<Rightarrow> zhash \<Rightarrow> bool" where
  "attested s proof_hash claim_hash =
     (case z_attestation s (proof_hash, claim_hash) of None \<Rightarrow> False | Some r \<Rightarrow> zk_or (z_oracle s (ar_oracle r)) False)"

definition check_sizes :: "zbyte list \<Rightarrow> zbyte list \<Rightarrow> unit zk_op" where
  "check_sizes proof_bytes claim = (thenM (guard (proof_bytes \<noteq> []) (VerErr EmptyProof)) (
                                   thenM (guard (length proof_bytes \<le> MAX_PROOF_SIZE) (VerErr ProofTooLarge)) (
                                   thenM (guard (claim \<noteq> []) (VerErr EmptyClaim)) (
                                   guard (length claim \<le> MAX_CLAIM_SIZE) (VerErr ClaimTooLarge)))))"

definition verify_internal :: "zk_env \<Rightarrow> zbyte list \<Rightarrow> zbyte list \<Rightarrow> bool zk_op" where
  "verify_internal e proof_bytes claim = (thenM (check_sizes proof_bytes claim) (
                                         gets (\<lambda>s. case z_attestation s (zk_sha256 e proof_bytes, zk_sha256 e claim) of
         None \<Rightarrow> False
       | Some r \<Rightarrow> zk_or (z_oracle s (ar_oracle r)) False \<and> \<not> is_credential_invalidated s (ar_credential_id r))))"

definition record_verification :: "zk_env \<Rightarrow> zhash \<Rightarrow> bool \<Rightarrow> unit zk_op" where
  "record_verification e proof_hash verified = (bindM (gets (\<lambda>s. zk_or (z_history s proof_hash) [])) (\<lambda>history.
                                               thenM (modify (\<lambda>s. s\<lparr>z_history := (z_history s)(proof_hash \<mapsto> history @ [\<lparr>vr_timestamp = zk_now e, vr_verified = verified,
       vr_oracle = zk_contract e\<rparr>])\<rparr>)) (
                                               publish_zk ''audit_log'' [ZHash proof_hash, ZNum (zk_now e), ZFlag verified])))"

definition verify_claim :: "zk_env \<Rightarrow> zbyte list \<Rightarrow> zbyte list \<Rightarrow> bool zk_op" where
  "verify_claim e proof_bytes claim = (bindM (verify_internal e proof_bytes claim) (\<lambda>result.
                                      thenM (publish_zk ''vfy_claim'' [ZFlag result, ZHash (zk_sha256 e claim)]) (
                                      thenM (whenM result (record_verification e (zk_sha256 e proof_bytes) True)) (
                                      returnM result))))"

definition is_valid_lattice_proof :: "zk_env \<Rightarrow> zbyte list \<Rightarrow> bool" where
  "is_valid_lattice_proof e proof_bytes =
     (let header_len = length LATTICE_PROOF_HEADER in
      if length proof_bytes < header_len + 4 then False
      else if take header_len proof_bytes \<noteq> LATTICE_PROOF_HEADER then False
      else let body_len = length proof_bytes - 4
           in take 4 (zk_sha256 e (take body_len proof_bytes)) = drop body_len proof_bytes)"

definition verify_lattice_proof :: "zk_env \<Rightarrow> zbyte list \<Rightarrow> zbyte list \<Rightarrow> bool zk_op" where
  "verify_lattice_proof e proof_bytes claim = (thenM (check_sizes proof_bytes claim) (
                                              thenM (guard (is_valid_lattice_proof e proof_bytes) (VerErr InvalidLatticeProof)) (
                                              (let proof_hash = zk_sha256 e proof_bytes in
                                              bindM (gets (\<lambda>s. attested s proof_hash (zk_sha256 e claim))) (\<lambda>result.
                                              thenM (modify (\<lambda>s. s\<lparr>z_last_verification := (z_last_verification s)(proof_hash \<mapsto> zk_now e)\<rparr>)) (
                                              thenM (publish_zk ''vfy_latt'' [ZFlag result, ZHash proof_hash]) (
                                              thenM (whenM result (record_verification e proof_hash True)) (
                                              returnM result))))))))"

definition export_proof_for_verification :: "zk_env \<Rightarrow> zbyte list \<Rightarrow> nat \<Rightarrow> zbyte list zk_op" where
  "export_proof_for_verification e proof_bytes format_type = (thenM (guard (proof_bytes \<noteq> []) (VerErr EmptyProof)) (
                                                             thenM (guard (length proof_bytes \<le> MAX_PROOF_SIZE) (VerErr ProofTooLarge)) (
                                                             (let exported = [word_of_nat format_type] @ proof_bytes @ zk_sha256 e proof_bytes in
                                                             thenM (guard (length exported \<le> MAX_EXTERNAL_FORMAT_SIZE) (VerErr ExternalFormatTooLarge)) (
                                                             returnM exported)))))"

definition get_proof_verification_history :: "zk \<Rightarrow> zhash \<Rightarrow> VerificationRecord list" where
  "get_proof_verification_history s proof_hash = zk_or (z_history s proof_hash) []"

definition mask_bytes :: "32 word \<Rightarrow> zbyte list" where
  "mask_bytes m = map (\<lambda>k. word_of_nat (unat m div 256 ^ k)) [0, 1, 2, 3]"

text \<open>
  The mask of a list of offsets. The loop over the proof shifts by the offset, which traps from 32 on
  (overflow checks are on), so a longer proof cannot be masked.
\<close>

definition field_mask :: "nat list \<Rightarrow> 32 word" where
  "field_mask offsets = fold (\<lambda>field_idx m. m OR push_bit field_idx 1) offsets 0"

definition mask_proof_fields :: "zk_env \<Rightarrow> zbyte list \<Rightarrow> nat list \<Rightarrow> zbyte list zk_op" where
  "mask_proof_fields e proof_bytes fields_to_mask = (thenM (guard (proof_bytes \<noteq> []) (VerErr EmptyProof)) (
                                                    thenM (guard (length proof_bytes \<le> MAX_PROOF_SIZE) (VerErr ProofTooLarge)) (
                                                    thenM (guard (fields_to_mask \<noteq> []) (VerErr InvalidMaskSpec)) (
                                                    thenM (guard (list_all (\<lambda>field_idx. field_idx < 32 \<and> field_idx < length proof_bytes) fields_to_mask) (VerErr InvalidMaskSpec)) (
                                                    (let mask = field_mask fields_to_mask in
                                                    thenM (guard (length proof_bytes \<le> 32) ZkTrapped) (
                                                    (let masked = [77, 65, 83, 75, 69, 68, 95, 86, 49] @ mask_bytes mask @
       map (\<lambda>i. if mask AND push_bit i 1 \<noteq> 0 then 0 else proof_bytes ! i) [0..<length proof_bytes] in
                                                    thenM (guard (length masked \<le> MAX_EXTERNAL_FORMAT_SIZE) (VerErr ExternalFormatTooLarge)) (
                                                    (let proof_hash = zk_sha256 e proof_bytes in
                                                    thenM (modify (\<lambda>s. s\<lparr>z_masking := (z_masking s)(proof_hash \<mapsto> \<lparr>mk_masked_fields = zk_sha256 e (mask_bytes mask), mk_version = 1\<rparr>)\<rparr>)) (
                                                    thenM (publish_zk ''proof_msk'' [ZHash proof_hash]) (
                                                    returnM masked))))))))))))"

definition verify_masked_proof :: "zk_env \<Rightarrow> zbyte list \<Rightarrow> zbyte list \<Rightarrow> bool zk_op" where
  "verify_masked_proof e masked_proof claim = (thenM (guard (masked_proof \<noteq> []) (VerErr EmptyProof)) (
                                              thenM (guard (claim \<noteq> []) (VerErr EmptyClaim)) (
                                              thenM (guard (length masked_proof \<ge> 13) (VerErr InvalidMaskSpec)) (
                                              bindM (gets (\<lambda>s. attested s (zk_sha256 e masked_proof) (zk_sha256 e claim))) (\<lambda>result.
                                              thenM (guard result (VerErr MaskedVerificationFailed)) (
                                              returnM result))))))"

definition verify_conditional_proof :: "zk_env \<Rightarrow> zbyte list \<Rightarrow> zbyte list \<Rightarrow> bool zk_op" where
  "verify_conditional_proof e proof_bytes condition = (bindM (ok_or (zk_from_xdr e proof_bytes) (VerErr MalformedConditionalProof)) (\<lambda>bundle.
                                                      bindM (verify_internal e (cp_condition_proof bundle) condition) (\<lambda>condition_result.
                                                      (let branch_proof = (if condition_result then cp_then_proof bundle else cp_else_proof bundle) in
                                                      (let branch_claim = (if condition_result then cp_then_claim bundle else cp_else_claim bundle) in
                                                      bindM (verify_internal e branch_proof branch_claim) (\<lambda>result.
                                                      thenM (publish_zk ''vfy_cond'' [ZFlag result, ZFlag condition_result, ZHash (zk_sha256 e branch_claim)]) (
                                                      returnM result)))))))"

text \<open>The batch: each claim is verified until one fails, then every pair of claims is compared.\<close>

fun verify_each :: "zk_env \<Rightarrow> (zbyte list \<times> zbyte list) list \<Rightarrow> bool zk_op" where
  "verify_each e [] = returnM True"
| "verify_each e ((proof_bytes, claim) # rest) = (bindM (verify_claim e proof_bytes claim) (\<lambda>verified.
                                                 if \<not> verified then returnM False else verify_each e rest))"

definition claim_pairs :: "zbyte list list \<Rightarrow> (nat \<times> zbyte list \<times> nat \<times> zbyte list) list" where
  "claim_pairs claims = concat (map (\<lambda>i. map (\<lambda>j. (i, claims ! i, j, claims ! j)) [i + 1..<length claims]) [0..<length claims])"

definition verify_credentials_consistent :: "zk_env \<Rightarrow> zbyte list list \<Rightarrow> zbyte list list \<Rightarrow> bool zk_op" where
  "verify_credentials_consistent e proofs claims = (thenM (guard (length proofs = length claims) (VerErr MismatchedBatchLengths)) (
                                                   thenM (guard (proofs \<noteq> []) (VerErr EmptyBatchIds)) (
                                                   bindM (verify_each e (zip proofs claims)) (\<lambda>verified.
                                                   if \<not> verified then returnM False
     else returnM (case verify_batch_consistency (claim_pairs claims) of Inl err \<Rightarrow> False | Inr u \<Rightarrow> True)))))"

subsection \<open>Privacy and queries\<close>

definition set_credential_privacy :: "zk_env \<Rightarrow> nat \<Rightarrow> PrivacyLevel \<Rightarrow> unit zk_op" where
  "set_credential_privacy e credential_id level = (thenM (require_zk_admin e) (
                                                  bindM (gets (\<lambda>s. z_credential_hashes s credential_id)) (\<lambda>known.
                                                  thenM (guard (known \<noteq> None) (VerErr CredentialNotFound)) (
                                                  modify (\<lambda>s. s\<lparr>z_privacy := (z_privacy s)(credential_id \<mapsto> level)\<rparr>)))))"

definition credential_privacy :: "zk \<Rightarrow> nat \<Rightarrow> PrivacyLevel" where
  "credential_privacy s credential_id = zk_or (z_privacy s credential_id) Public"

definition load_attestation_record :: "zk \<Rightarrow> nat \<Rightarrow> AttestationRecord option" where
  "load_attestation_record s credential_id =
     (case z_credential_hashes s credential_id of None \<Rightarrow> None | Some hashes \<Rightarrow> z_attestation s hashes)"

definition redact_attestation_record :: "zk_env \<Rightarrow> AttestationRecord \<Rightarrow> AttestationRecord zk_op" where
  "redact_attestation_record e r = (thenM (modify (\<lambda>s. s\<lparr>z_attestation_masking := (z_attestation_masking s)(ar_credential_id r \<mapsto>
       \<lparr>mk_masked_fields = zk_sha256 e (mask_bytes 1), mk_version = 1\<rparr>)\<rparr>)) (
                                   returnM (r\<lparr>ar_oracle := zk_masked_oracle e\<rparr>)))"

definition get_attestation :: "zk_env \<Rightarrow> zaccount \<Rightarrow> nat \<Rightarrow> AttestationRecord option zk_op" where
  "get_attestation e requester credential_id = (thenM (signed_by e requester) (
                                               bindM (gets (\<lambda>s. load_attestation_record s credential_id)) (\<lambda>found.
                                               case found of
       None \<Rightarrow> returnM None
     | Some r \<Rightarrow> (bindM (gets (\<lambda>s. credential_privacy s credential_id)) (\<lambda>level.
                            bindM (gets (\<lambda>s. is_zk_admin s requester)) (\<lambda>admin.
                            bindM (gets (\<lambda>s. is_registered_oracle s requester)) (\<lambda>oracle.
                            case level of
           Public \<Rightarrow> returnM (Some r)
         | Internal \<Rightarrow> if admin \<or> oracle then returnM (Some r) else throw (VerErr AccessDenied)
         | Confidential \<Rightarrow> if admin then returnM (Some r)
             else bindM (redact_attestation_record e r) (\<lambda>masked. returnM (Some masked)))))))))"

definition gate_snapshot_for_privacy :: "zaccount \<Rightarrow> nat \<Rightarrow> CredentialSnapshot \<Rightarrow> CredentialSnapshot zk_op" where
  "gate_snapshot_for_privacy requester credential_id snap = (bindM (gets (\<lambda>s. credential_privacy s credential_id)) (\<lambda>level.
                                                            bindM (gets (\<lambda>s. is_zk_admin s requester)) (\<lambda>admin.
                                                            bindM (gets (\<lambda>s. is_registered_oracle s requester)) (\<lambda>oracle.
                                                            case level of
       Public \<Rightarrow> returnM snap
     | Internal \<Rightarrow> if admin \<or> oracle then returnM snap else throw (VerErr AccessDenied)
     | Confidential \<Rightarrow> if admin then returnM snap else throw (VerErr AccessDenied)))))"

fun first_index_of :: "nat \<Rightarrow> nat list \<Rightarrow> nat option" where
  "first_index_of v [] = None"
| "first_index_of v (x # xs) = (if x = v then Some 0 else map_option Suc (first_index_of v xs))"

definition load_snapshot_by_version :: "zk \<Rightarrow> nat \<Rightarrow> nat \<Rightarrow> CredentialSnapshot option" where
  "load_snapshot_by_version s credential_id version =
     (case z_snapshot_versions s credential_id of
        None \<Rightarrow> None
      | Some versions \<Rightarrow> (case first_index_of version versions of
          None \<Rightarrow> None
        | Some index \<Rightarrow> (case z_snapshot_timestamps s credential_id of
            None \<Rightarrow> None
          | Some timestamps \<Rightarrow> if index < length timestamps then z_snapshot s (credential_id, timestamps ! index) else None)))"

text \<open>The binary search for the end of the timestamps up to \<open>timestamp\<close>.\<close>

function search_timestamps :: "nat list \<Rightarrow> nat \<Rightarrow> nat \<Rightarrow> nat \<Rightarrow> nat" where
  "search_timestamps timestamps timestamp lo hi =
     (if lo < hi then
        let mid = lo + (hi - lo) div 2 in
        if timestamps ! mid \<le> timestamp then search_timestamps timestamps timestamp (mid + 1) hi
        else search_timestamps timestamps timestamp lo mid
      else lo)"
  by pat_completeness auto
termination by (relation "measure (\<lambda>(timestamps, timestamp, lo, hi). hi - lo)") auto

declare search_timestamps.simps [simp del]

definition load_snapshot_at_or_before :: "zk \<Rightarrow> nat \<Rightarrow> nat \<Rightarrow> CredentialSnapshot option" where
  "load_snapshot_at_or_before s credential_id timestamp =
     (case z_snapshot_timestamps s credential_id of
        None \<Rightarrow> None
      | Some timestamps \<Rightarrow>
          if timestamps = [] then None
          else let lo = search_timestamps timestamps timestamp 0 (length timestamps) in
            if lo = 0 then None else z_snapshot s (credential_id, timestamps ! (lo - 1)))"

definition credential_version_count :: "zk \<Rightarrow> nat \<Rightarrow> nat" where
  "credential_version_count s credential_id =
     (case z_snapshot_versions s credential_id of None \<Rightarrow> 0 | Some versions \<Rightarrow> if versions = [] then 0 else last versions)"

definition get_credential_version :: "zk_env \<Rightarrow> zaccount \<Rightarrow> nat \<Rightarrow> nat \<Rightarrow> CredentialSnapshot option zk_op" where
  "get_credential_version e requester credential_id version = (thenM (signed_by e requester) (
                                                              bindM (gets (\<lambda>s. load_snapshot_by_version s credential_id version)) (\<lambda>found.
                                                              case found of
       None \<Rightarrow> returnM None
     | Some snap \<Rightarrow> bindM (gate_snapshot_for_privacy requester credential_id snap) (\<lambda>gated. returnM (Some gated)))))"

definition get_credential_at_time :: "zk_env \<Rightarrow> zaccount \<Rightarrow> nat \<Rightarrow> nat \<Rightarrow> CredentialSnapshot option zk_op" where
  "get_credential_at_time e requester credential_id timestamp = (thenM (signed_by e requester) (
                                                                bindM (gets (\<lambda>s. load_snapshot_at_or_before s credential_id timestamp)) (\<lambda>found.
                                                                case found of
       None \<Rightarrow> returnM None
     | Some snap \<Rightarrow> bindM (gate_snapshot_for_privacy requester credential_id snap) (\<lambda>gated. returnM (Some gated)))))"

definition diff_credential_versions :: "zk_env \<Rightarrow> zaccount \<Rightarrow> nat \<Rightarrow> nat \<Rightarrow> nat \<Rightarrow> CredentialVersionDiff zk_op" where
  "diff_credential_versions e requester credential_id from_version to_version = (thenM (signed_by e requester) (
                                                                                bindM (gets (\<lambda>s. load_snapshot_by_version s credential_id from_version)) (\<lambda>found_from.
                                                                                bindM (ok_or found_from (VerErr VersionNotFound)) (\<lambda>from_snap.
                                                                                bindM (gets (\<lambda>s. load_snapshot_by_version s credential_id to_version)) (\<lambda>found_to.
                                                                                bindM (ok_or found_to (VerErr VersionNotFound)) (\<lambda>to_snap.
                                                                                bindM (gate_snapshot_for_privacy requester credential_id from_snap) (\<lambda>from.
                                                                                bindM (gate_snapshot_for_privacy requester credential_id to_snap) (\<lambda>to.
                                                                                returnM \<lparr>vd_credential_id = credential_id, vd_from_version = from_version, vd_to_version = to_version,
       vd_from_timestamp = sn_timestamp from, vd_to_timestamp = sn_timestamp to,
       vd_oracle_changed = (sn_oracle from \<noteq> sn_oracle to), vd_previous_oracle = sn_oracle from, vd_current_oracle = sn_oracle to,
       vd_invalidated_changed = (sn_invalidated from \<noteq> sn_invalidated to),
       vd_previous_invalidated = sn_invalidated from, vd_current_invalidated = sn_invalidated to\<rparr>))))))))"

definition get_credential_parent :: "zk \<Rightarrow> nat \<Rightarrow> nat option" where
  "get_credential_parent s credential_id = load_parent s credential_id"

function chain_from :: "zk \<Rightarrow> nat \<Rightarrow> nat \<Rightarrow> nat list" where
  "chain_from s current depth =
     (case load_parent s current of
        None \<Rightarrow> []
      | Some parent \<Rightarrow> parent # (if depth + 1 > MAX_CREDENTIAL_CHAIN_DEPTH then [] else chain_from s parent (depth + 1)))"
  by pat_completeness auto
termination by (relation "measure (\<lambda>(s, current, depth). MAX_CREDENTIAL_CHAIN_DEPTH - depth)") auto

declare chain_from.simps [simp del]

definition get_credential_chain :: "zk \<Rightarrow> nat \<Rightarrow> nat list" where
  "get_credential_chain s credential_id = credential_id # chain_from s credential_id 0"

function chain_valid_from :: "zk \<Rightarrow> nat \<Rightarrow> nat \<Rightarrow> bool" where
  "chain_valid_from s current depth =
     (if is_credential_invalidated s current then False
      else case load_parent s current of
          None \<Rightarrow> True
        | Some parent \<Rightarrow> if depth + 1 > MAX_CREDENTIAL_CHAIN_DEPTH then True else chain_valid_from s parent (depth + 1))"
  by pat_completeness auto
termination by (relation "measure (\<lambda>(s, current, depth). MAX_CREDENTIAL_CHAIN_DEPTH - depth)") auto

declare chain_valid_from.simps [simp del]

definition is_credential_chain_valid :: "zk \<Rightarrow> nat \<Rightarrow> bool" where
  "is_credential_chain_valid s credential_id = chain_valid_from s credential_id 0"

subsection \<open>Disputes\<close>

definition initiate_credential_dispute :: "zk_env \<Rightarrow> nat \<Rightarrow> zaccount \<Rightarrow> zbyte list \<Rightarrow> nat zk_op" where
  "initiate_credential_dispute e credential_id initiator reason = (thenM (signed_by e initiator) (
                                                                  bindM (gets (\<lambda>s. z_credential_hashes s credential_id)) (\<lambda>known.
                                                                  thenM (guard (known \<noteq> None) (VerErr CredentialNotFound)) (
                                                                  thenM (guard (reason \<noteq> []) (VerErr EmptyReason)) (
                                                                  thenM (guard (length reason \<le> MAX_REASON_SIZE) (VerErr ReasonTooLarge)) (
                                                                  bindM (gets (\<lambda>s. z_open_dispute s credential_id)) (\<lambda>open_one.
                                                                  thenM (guard (open_one = None) (VerErr DisputeAlreadyOpen)) (
                                                                  bindM (gets (\<lambda>s. zk_or (z_dispute_count s) 0)) (\<lambda>last_id.
                                                                  thenM (guard (last_id < U64_MAX) ZkTrapped) (
                                                                  (let dispute_id = last_id + 1 in
                                                                  thenM (modify (\<lambda>s. s\<lparr>z_dispute_count := Some dispute_id\<rparr>)) (
                                                                  thenM (modify (\<lambda>s. s\<lparr>z_disputes := (z_disputes s)(dispute_id \<mapsto> \<lparr>di_id = dispute_id, di_credential_id = credential_id,
       di_initiator = initiator, di_reason = reason, di_status = DisputeOpen, di_votes_for = 0, di_votes_against = 0,
       di_created_at = zk_now e, di_resolved_at = 0\<rparr>)\<rparr>)) (
                                                                  thenM (modify (\<lambda>s. s\<lparr>z_open_dispute := (z_open_dispute s)(credential_id \<mapsto> dispute_id)\<rparr>)) (
                                                                  bindM (gets (\<lambda>s. zk_or (z_dispute_history s credential_id) [])) (\<lambda>history.
                                                                  thenM (modify (\<lambda>s. s\<lparr>z_dispute_history := (z_dispute_history s)(credential_id \<mapsto> history @ [dispute_id])\<rparr>)) (
                                                                  thenM (publish_zk ''disp_open'' [ZNum credential_id, ZNum dispute_id]) (
                                                                  returnM dispute_id)))))))))))))))))"

definition dispute_threshold :: "zk \<Rightarrow> nat" where
  "dispute_threshold s = zk_or (z_threshold s) DEFAULT_DISPUTE_THRESHOLD"

definition set_dispute_threshold :: "zk_env \<Rightarrow> nat \<Rightarrow> unit zk_op" where
  "set_dispute_threshold e threshold = (thenM (require_zk_admin e) (
                                       thenM (guard (threshold \<noteq> 0) (VerErr InvalidThreshold)) (
                                       modify (\<lambda>s. s\<lparr>z_threshold := Some threshold\<rparr>))))"

text \<open>What a vote does when it resolves the dispute.\<close>

definition resolve_dispute :: "zk_env \<Rightarrow> nat \<Rightarrow> Dispute \<Rightarrow> bool \<Rightarrow> unit zk_op" where
  "resolve_dispute e dispute_id dispute upheld = (thenM (modify (\<lambda>s. s\<lparr>z_open_dispute := (z_open_dispute s)(di_credential_id dispute := None)\<rparr>)) (
                                                 thenM (whenM upheld (modify (\<lambda>s. s\<lparr>z_invalidated := (z_invalidated s)(di_credential_id dispute \<mapsto> True)\<rparr>))) (
                                                 bindM (gets (\<lambda>s. load_attestation_record s (di_credential_id dispute))) (\<lambda>found.
                                                 thenM ((case found of None \<Rightarrow> returnM ()
      | Some r \<Rightarrow> record_credential_snapshot e (di_credential_id dispute) (ar_oracle r) upheld)) (
                                                 publish_zk ''disp_res'' [ZNum (di_credential_id dispute), ZNum dispute_id, ZFlag upheld])))))"

definition put_dispute :: "nat \<Rightarrow> Dispute \<Rightarrow> unit zk_op" where
  "put_dispute dispute_id dispute = modify (\<lambda>s. s\<lparr>z_disputes := (z_disputes s)(dispute_id \<mapsto> dispute)\<rparr>)"

definition vote_on_dispute :: "zk_env \<Rightarrow> nat \<Rightarrow> zaccount \<Rightarrow> bool \<Rightarrow> unit zk_op" where
  "vote_on_dispute e dispute_id voter vote = (bindM (gets (\<lambda>s. z_disputes s dispute_id)) (\<lambda>found.
                                             bindM (ok_or found (VerErr DisputeNotFound)) (\<lambda>dispute.
                                             thenM (guard (di_status dispute = DisputeOpen) (VerErr DisputeNotOpen)) (
                                             thenM (require_registered_oracle voter) (
                                             thenM (signed_by e voter) (
                                             bindM (gets (\<lambda>s. z_dispute_vote s (dispute_id, voter))) (\<lambda>cast.
                                             thenM (guard (cast = None) (VerErr AlreadyVoted)) (
                                             thenM (modify (\<lambda>s. s\<lparr>z_dispute_vote := (z_dispute_vote s)((dispute_id, voter) \<mapsto> vote)\<rparr>)) (
                                             thenM (guard ((if vote then di_votes_for dispute else di_votes_against dispute) < U32_MAX) ZkTrapped) (
                                             (let voted = (if vote then dispute\<lparr>di_votes_for := di_votes_for dispute + 1\<rparr>
                  else dispute\<lparr>di_votes_against := di_votes_against dispute + 1\<rparr>) in
                                             bindM (gets dispute_threshold) (\<lambda>threshold.
                                             if threshold \<le> di_votes_for voted \<or> threshold \<le> di_votes_against voted then ((let upheld = (threshold \<le> di_votes_for voted) in
                                                                                             thenM (resolve_dispute e dispute_id voted upheld) (
                                                                                             put_dispute dispute_id (voted\<lparr>di_status := (if upheld then Upheld else DisputeRejected), di_resolved_at := zk_now e\<rparr>)))) else put_dispute dispute_id voted))))))))))))"

definition get_dispute :: "nat \<Rightarrow> Dispute zk_op" where
  "get_dispute dispute_id = (bindM (gets (\<lambda>s. z_disputes s dispute_id)) (\<lambda>found.
                            ok_or found (VerErr DisputeNotFound)))"

definition get_credential_disputes :: "zk \<Rightarrow> nat \<Rightarrow> nat list" where
  "get_credential_disputes s credential_id = zk_or (z_dispute_history s credential_id) []"

subsection \<open>Scheduled checks\<close>

definition is_consistency_check_due :: "zk_env \<Rightarrow> nat \<Rightarrow> bool zk_op" where
  "is_consistency_check_due e credential_id = (bindM (gets (\<lambda>s. load_attestation_record s credential_id)) (\<lambda>found.
                                              case found of
       None \<Rightarrow> returnM False
     | Some r \<Rightarrow> ((let due = (zk_now e \<ge> ar_next_check_due r) in
                            thenM (whenM due (publish_zk ''cons_due'' [ZNum credential_id, ZNum (ar_next_check_due r)])) (
                            returnM due)))))"

definition reschedule_consistency_check :: "zk_env \<Rightarrow> nat \<Rightarrow> unit zk_op" where
  "reschedule_consistency_check e credential_id = (bindM (gets (\<lambda>s. z_credential_hashes s credential_id)) (\<lambda>known.
                                                  bindM (ok_or known (VerErr CredentialNotFound)) (\<lambda>hashes.
                                                  bindM (gets (\<lambda>s. z_attestation s hashes)) (\<lambda>found.
                                                  bindM (ok_or found (VerErr CredentialNotFound)) (\<lambda>r.
                                                  modify (\<lambda>s. s\<lparr>z_attestation := (z_attestation s)(hashes \<mapsto>
       r\<lparr>ar_next_check_due := sat_add U64_MAX (zk_now e) CONSISTENCY_CHECK_INTERVAL\<rparr>)\<rparr>))))))"

lemmas zk_defs = publish_zk_def signed_by_def require_zk_admin_def require_registered_oracle_def check_sizes_def

end
