(* ===== verification/Zk_Properties.thy ===== *)
theory Zk_Properties
  imports Zk_Verifier Transition_Systems
begin

section \<open>Properties of the verifier of claims\<close>

subsection \<open>Proofs survive the encoding\<close>

lemma run_from_take: "\<exists>k. run_from c n bs = n + k \<and> k \<le> length bs \<and> take k bs = replicate k c \<and> (n \<le> 255 \<longrightarrow> n + k \<le> 255)"
proof (induction c n bs rule: run_from.induct)
  case (2 current run b bs)
  show ?case
  proof (cases "run < 255 \<and> b = current")
    case True
    with 2 obtain k where "run_from current (run + 1) bs = run + 1 + k" "k \<le> length bs" "take k bs = replicate k current"
      "run + 1 + k \<le> 255" by auto
    then show ?thesis using True by (intro exI [of _ "Suc k"]) simp
  qed auto
qed auto

text \<open>The run at the front of the input: its length fits a byte and it repeats the first byte.\<close>

lemma front_run:
  obtains n where "run_from c 1 bs = Suc n" "n < 255" "n \<le> length bs" "take n bs = replicate n c"
  using run_from_take [of c 1 bs] by auto

lemma compress_runs_append: "compress_runs xs (out @ out') = out @ compress_runs xs out'"
  by (induction xs out' rule: compress_runs.induct) (simp_all add: Let_def)

lemma push_run_value:
  "push_run m n b out = (if n = 0 \<or> length out + n \<le> m then Inr (out @ replicate n b) else Inl ProofOutputTooLarge)"
  by (induction m n b out rule: push_run.induct) (auto simp: replicate_append_same)

lemma expand_compressed:
  "expand_runs m (compress_runs xs []) out =
     (if xs = [] \<or> length out + length xs \<le> m then Inr (out @ xs) else Inl ProofOutputTooLarge)"
proof (induction "length xs" arbitrary: xs out rule: less_induct)
  case less
  show ?case
  proof (cases xs)
    case (Cons c bs)
    obtain n where n: "run_from c 1 bs = Suc n" "n < 255" "n \<le> length bs" "take n bs = replicate n c" by (rule front_run)
    have enc: "compress_runs xs [] = word_of_nat (Suc n) # c # compress_runs (drop n bs) []"
      using compress_runs_append [of "drop n bs" "[word_of_nat (Suc n), c]" "[]"] n by (simp add: Cons Let_def)
    have num: "unat (word_of_nat (Suc n) :: zbyte) = Suc n" using n(2) by (simp add: unat_of_nat del: of_nat_Suc)
    then have nz: "(word_of_nat (Suc n) :: zbyte) \<noteq> 0" by (metis nat.distinct(1) unat_0)
    have split: "xs = replicate (Suc n) c @ drop n bs" by (metis Cons append_Cons append_take_drop_id n(4) replicate_Suc)
    have len: "length xs = Suc n + length (drop n bs)" using n(3) by (simp add: Cons)
    have IH: "expand_runs m (compress_runs (drop n bs) []) out' =
      (if drop n bs = [] \<or> length out' + length (drop n bs) \<le> m then Inr (out' @ drop n bs) else Inl ProofOutputTooLarge)" for out'
      by (rule less) (simp add: Cons)
    show ?thesis
    proof (cases "length out + Suc n \<le> m")
      case True
      then have "expand_runs m (compress_runs xs []) out = expand_runs m (compress_runs (drop n bs) []) (out @ replicate (Suc n) c)"
        unfolding enc using nz num by (simp add: push_run_value del: replicate_Suc)
      also have "\<dots> = (if length out + length xs \<le> m then Inr (out @ xs) else Inl ProofOutputTooLarge)"
        unfolding IH using True len by (subst (2) split) (auto simp del: replicate_Suc)
      finally show ?thesis using Cons by simp
    next
      case False
      then show ?thesis unfolding enc using nz num len Cons by (simp add: push_run_value del: replicate_Suc)
    qed
  qed simp
qed

lemma compressed_size: "length (compress_runs xs out) \<le> length out + 2 * length xs"
proof (induction xs out rule: compress_runs.induct)
  case (2 current rest out)
  obtain n where n: "run_from current 1 rest = Suc n" "n \<le> length rest" by (rule front_run)
  then show ?case using 2 [OF refl] by (simp add: Let_def)
qed simp

text \<open>C40. A compressed proof is at most one byte longer than twice the proof, and decompressing it with a
  limit gives the proof back exactly when it fits the limit; otherwise the decoder stops with an error.\<close>

theorem rle_roundtrip:
  assumes "compress_proof proof_bytes = Inr packed"
  shows "length packed \<le> 2 * length proof_bytes + 1 \<and>
    decompress_proof packed limit = (if length proof_bytes \<le> limit then Inr proof_bytes else Inl ProofOutputTooLarge)"
proof -
  have ne: "proof_bytes \<noteq> []" and eq: "packed = MAGIC # compress_runs proof_bytes []"
    using assms compress_runs_append [of proof_bytes "[MAGIC]" "[]"] by (auto simp: compress_proof_def split: if_splits)
  then show ?thesis
    using compressed_size [of proof_bytes "[]"] expand_compressed [of limit proof_bytes "[]"] by (simp add: decompress_proof_def)
qed

theorem rle_roundtrip_witness:
  "compress_proof [7, 7, 7, 9] = Inr [0xC0, 3, 7, 1, 9] \<and> decompress_proof [0xC0, 3, 7, 1, 9] 4 = Inr [7, 7, 7, 9] \<and>
   decompress_proof [0xC0, 3, 7, 1, 9] 3 = Inl ProofOutputTooLarge"
proof -
  have run: "compress_proof [7, 7, 7, 9] = Inr [0xC0, 3, 7, 1, 9]" by (simp add: compress_proof_def Let_def MAGIC_def)
  show ?thesis using run rle_roundtrip [OF run, of 4] rle_roundtrip [OF run, of 3] by simp
qed

subsection \<open>The binary search over the times of the snapshots\<close>

lemma search_timestamps_counts:
  assumes "sorted ts" "lo \<le> hi" "hi \<le> length ts" "\<forall>i < lo. ts ! i \<le> t" "\<forall>i. hi \<le> i \<and> i < length ts \<longrightarrow> t < ts ! i"
  shows "search_timestamps ts t lo hi \<le> length ts \<and> (\<forall>i < length ts. ts ! i \<le> t \<longleftrightarrow> i < search_timestamps ts t lo hi)"
  using assms
proof (induction ts t lo hi rule: search_timestamps.induct)
  case (1 ts t lo hi)
  show ?case
  proof (cases "lo < hi")
    case True
    let ?mid = "lo + (hi - lo) div 2"
    have mid: "lo \<le> ?mid" "?mid < hi" using True by auto
    show ?thesis
    proof (cases "ts ! ?mid \<le> t")
      case below: True
      then have "\<forall>i < ?mid + 1. ts ! i \<le> t"
        using sorted_nth_mono [OF "1.prems"(1)] mid "1.prems"(3) by (metis Suc_eq_plus1 less_Suc_eq_le order_trans less_le_trans)
      with "1.IH"(1) [OF True refl below] "1.prems" mid below True show ?thesis
        by (subst (1 2) search_timestamps.simps) (simp add: Let_def)
    next
      case above: False
      then have "\<forall>i. ?mid \<le> i \<and> i < length ts \<longrightarrow> t < ts ! i"
        using sorted_nth_mono [OF "1.prems"(1)] by (metis not_le order_trans)
      with "1.IH"(2) [OF True refl above] "1.prems" mid above True show ?thesis
        by (subst (1 2) search_timestamps.simps) (simp add: Let_def)
    qed
  next
    case False
    then have "\<forall>i < length ts. ts ! i \<le> t \<longleftrightarrow> i < lo" using "1.prems" by (metis le_antisym not_le)
    then show ?thesis using False "1.prems" by (subst (1 2) search_timestamps.simps) simp
  qed
qed

subsection \<open>The calls of the contract\<close>

datatype zk_call = ZInitialize zaccount | ZRegister zaccount | ZRevoke zaccount | ZAttest zaccount "zbyte list" "zbyte list"
  | ZDerive zaccount nat "zbyte list" "zbyte list" | ZVerify "zbyte list" "zbyte list" | ZLattice "zbyte list" "zbyte list"
  | ZMask "zbyte list" "nat list" | ZMasked "zbyte list" "zbyte list" | ZConditional "zbyte list" "zbyte list"
  | ZBatch "zbyte list list" "zbyte list list" | ZPrivacy nat PrivacyLevel | ZRead zaccount nat | ZDispute nat zaccount "zbyte list"
  | ZThreshold nat | ZVote nat zaccount bool | ZDue nat | ZReschedule nat

abbreviation forget :: "('e, 's, 'a) act \<Rightarrow> ('e, 's, unit) act" where
  "forget m \<equiv> bindM m (\<lambda>_. returnM ())"

fun zk_exec :: "zk_env \<Rightarrow> zk_call \<Rightarrow> unit zk_op" where
  "zk_exec e (ZInitialize a) = initialize_zk e a"
| "zk_exec e (ZRegister a) = register_oracle e a"
| "zk_exec e (ZRevoke a) = revoke_oracle e a"
| "zk_exec e (ZAttest a p c) = forget (attest e a p c)"
| "zk_exec e (ZDerive a i p c) = forget (create_derived_credential e a i p c)"
| "zk_exec e (ZVerify p c) = forget (verify_claim e p c)"
| "zk_exec e (ZLattice p c) = forget (verify_lattice_proof e p c)"
| "zk_exec e (ZMask p fs) = forget (mask_proof_fields e p fs)"
| "zk_exec e (ZMasked p c) = forget (verify_masked_proof e p c)"
| "zk_exec e (ZConditional p c) = forget (verify_conditional_proof e p c)"
| "zk_exec e (ZBatch ps cs) = forget (verify_credentials_consistent e ps cs)"
| "zk_exec e (ZPrivacy i l) = set_credential_privacy e i l"
| "zk_exec e (ZRead a i) = forget (get_attestation e a i)"
| "zk_exec e (ZDispute i a r) = forget (initiate_credential_dispute e i a r)"
| "zk_exec e (ZThreshold n) = set_dispute_threshold e n"
| "zk_exec e (ZVote d a v) = vote_on_dispute e d a v"
| "zk_exec e (ZDue i) = forget (is_consistency_check_due e i)"
| "zk_exec e (ZReschedule i) = reschedule_consistency_check e i"

text \<open>A state with the time of its last call: the ledger's clock does not run backwards.\<close>

inductive zk_step :: "nat \<times> zk \<Rightarrow> nat \<times> zk \<Rightarrow> bool" where
  zk_stepI: "now \<le> zk_now e \<Longrightarrow> zk_exec e c s = Inr ((), t) \<Longrightarrow> zk_step (now, s) (zk_now e, t)"

definition fresh_zk :: "nat \<times> zk \<Rightarrow> bool" where
  "fresh_zk = (\<lambda>(now, s). z_attestation s = Map.empty \<and> z_credential_hashes s = Map.empty \<and> z_credential_count s = None \<and>
     z_snapshot_timestamps s = Map.empty \<and> z_snapshot_versions s = Map.empty \<and> z_disputes s = Map.empty \<and>
     z_dispute_vote s = Map.empty \<and> z_open_dispute s = Map.empty \<and> z_invalidated s = Map.empty \<and> z_dispute_count s = None)"

lemma forget_eq: "forget m s = Inr ((), t) \<longleftrightarrow> (\<exists>x. m s = Inr (x, t))"
  by (auto simp: bindM_def returnM_def split: sum.splits)

subsection \<open>What a call leaves alone\<close>

lemma signed_frame [frame]: "keeps f (signed_by e a)" "keeps f (require_zk_admin e)" "keeps f (require_registered_oracle a)"
  "keeps f (check_sizes p c)" "keeps f (verify_internal e p c)" "keeps f (validate_credential_chain i)"
  unfolding signed_by_def require_zk_admin_def require_registered_oracle_def check_sizes_def verify_internal_def
  by ((intro frame)+) (auto simp: keeps_def validate_credential_chain_def split: sum.splits)

lemma publish_zk_frame [frame]: "(\<And>s v. f (s\<lparr>z_events := v\<rparr>) = f s) \<Longrightarrow> keeps f (publish_zk topic data)"
  unfolding publish_zk_def by (rule keeps_modify)

lemma verification_frame:
  assumes "\<And>s v. f (s\<lparr>z_events := v\<rparr>) = f s" "\<And>s v. f (s\<lparr>z_history := v\<rparr>) = f s"
  shows "keeps f (record_verification e h b)" "keeps f (verify_claim e p c)" "keeps f (verify_each e xs)"
proof -
  show r: "keeps f (record_verification e h b)" for h b
    unfolding record_verification_def by (intro frame keeps_modify; simp add: assms)+
  show v: "keeps f (verify_claim e p c)" for p c
    unfolding verify_claim_def by (intro frame r) (simp add: assms)
  show "keeps f (verify_each e xs)" by (induction xs) (auto intro!: frame v)
qed

text \<open>The three parts of the state: the credentials, their snapshots and their disputes.\<close>

definition creds :: "zk \<Rightarrow> (zhash \<times> zhash \<rightharpoonup> AttestationRecord) \<times> (nat \<rightharpoonup> zhash \<times> zhash) \<times> nat option" where
  "creds s = (z_attestation s, z_credential_hashes s, z_credential_count s)"

definition snaps :: "zk \<Rightarrow> (nat \<times> nat \<rightharpoonup> CredentialSnapshot) \<times> (nat \<rightharpoonup> nat list) \<times> (nat \<rightharpoonup> nat list)" where
  "snaps s = (z_snapshot s, z_snapshot_timestamps s, z_snapshot_versions s)"

definition ballots :: "zk \<Rightarrow> (nat \<rightharpoonup> Dispute) \<times> (nat \<times> zaccount \<rightharpoonup> bool) \<times> (nat \<rightharpoonup> nat) \<times> (nat \<rightharpoonup> bool) \<times> nat option" where
  "ballots s = (z_disputes s, z_dispute_vote s, z_open_dispute s, z_invalidated s, z_dispute_count s)"

lemmas parts_defs = creds_def snaps_def ballots_def

lemma case_level_frame [frame]:
  "keeps f a \<Longrightarrow> keeps f b \<Longrightarrow> keeps f c \<Longrightarrow> keeps f (case l of Public \<Rightarrow> a | Internal \<Rightarrow> b | Confidential \<Rightarrow> c)"
  by (cases l) simp_all

definition core :: "zk \<Rightarrow> _" where
  "core s = (creds s, snaps s, ballots s)"

lemma keeps_core:
  "keeps core (initialize_zk e a)" "keeps core (register_oracle e a)" "keeps core (revoke_oracle e a)"
  "keeps core (verify_lattice_proof e p c)" "keeps core (mask_proof_fields e p fs)" "keeps core (verify_masked_proof e p c)"
  "keeps core (verify_conditional_proof e p c)" "keeps core (verify_credentials_consistent e ps cs)"
  "keeps core (set_credential_privacy e i l)" "keeps core (get_attestation e a i)" "keeps core (set_dispute_threshold e n)"
  "keeps core (is_consistency_check_due e i)"
  unfolding initialize_zk_def register_oracle_def revoke_oracle_def verify_lattice_proof_def mask_proof_fields_def
    verify_masked_proof_def verify_conditional_proof_def verify_credentials_consistent_def set_credential_privacy_def
    get_attestation_def set_dispute_threshold_def is_consistency_check_due_def redact_attestation_record_def
  by (intro frame verification_frame keeps_modify; simp add: core_def parts_defs)+

lemma put_snapshot_frame: "(\<And>s v. f (s\<lparr>z_snapshot := v\<rparr>) = f s) \<Longrightarrow> keeps f (put_snapshot sn)"
  unfolding put_snapshot_def by (rule keeps_modify)

lemma snapshot_frame:
  assumes "\<And>s v. f (s\<lparr>z_snapshot := v\<rparr>) = f s" "\<And>s v. f (s\<lparr>z_snapshot_timestamps := v\<rparr>) = f s"
    "\<And>s v. f (s\<lparr>z_snapshot_versions := v\<rparr>) = f s"
  shows "keeps f (record_credential_snapshot e i a b)"
  unfolding record_credential_snapshot_def by (intro frame keeps_modify put_snapshot_frame; simp add: assms)+

lemma verify_claim_core: "keeps core (verify_claim e p c)"
  by (rule verification_frame) (simp_all add: core_def parts_defs)

lemma attest_ballots: "keeps ballots (attest e a p c)" "keeps ballots (create_derived_credential e a i p c)"
  "keeps ballots (reschedule_consistency_check e i)" "keeps snaps (reschedule_consistency_check e i)"
  "keeps snaps (initiate_credential_dispute e i a r)" "keeps creds (initiate_credential_dispute e i a r)"
  "keeps creds (vote_on_dispute e d a v)"
  unfolding attest_def create_derived_credential_def mint_or_reuse_credential_id_def record_attestation_def
    reschedule_consistency_check_def initiate_credential_dispute_def vote_on_dispute_def resolve_dispute_def put_dispute_def
  by (intro frame snapshot_frame keeps_modify; simp add: parts_defs)+

text \<open>A call either keeps the three parts or is one of five.\<close>

lemma core_cases:
  assumes "zk_exec e c s = Inr ((), t)"
  obtains "core t = core s"
  | a p k i where "c = ZAttest a p k" "attest e a p k s = Inr (i, t)"
  | a parent p k i where "c = ZDerive a parent p k" "create_derived_credential e a parent p k s = Inr (i, t)"
  | i a r d where "c = ZDispute i a r" "initiate_credential_dispute e i a r s = Inr (d, t)"
  | d a v where "c = ZVote d a v" "vote_on_dispute e d a v s = Inr ((), t)"
  | i where "c = ZReschedule i" "reschedule_consistency_check e i s = Inr ((), t)"
proof (cases c)
  case (ZAttest a p k)
  then show thesis using assms that(2) by (auto simp: forget_eq)
next
  case (ZDerive a i p k)
  then show thesis using assms that(3) by (auto simp: forget_eq)
next
  case (ZDispute i a r)
  then show thesis using assms that(4) by (auto simp: forget_eq)
next
  case (ZVote d a v)
  then show thesis using assms that(5) by auto
next
  case (ZReschedule i)
  then show thesis using assms that(6) by auto
qed (insert assms, auto intro!: that(1) simp: forget_eq dest: keeps_core [unfolded keeps_def, rule_format]
  verify_claim_core [unfolded keeps_def, rule_format])

lemma keepsD: "keeps f m \<Longrightarrow> m s = Inr (x, t) \<Longrightarrow> f t = f s"
  by (auto simp: keeps_def)

subsection \<open>Credentials have one number each\<close>

text \<open>The number of an attestation leads back to its pair of hashes, and numbers run from one to the counter.\<close>

definition identified :: "zk \<Rightarrow> bool" where
  "identified s \<longleftrightarrow>
     (\<forall>h r. z_attestation s h = Some r \<longrightarrow> z_credential_hashes s (ar_credential_id r) = Some h) \<and>
     (\<forall>i h. z_credential_hashes s i = Some h \<longrightarrow> 1 \<le> i \<and> i \<le> zk_or (z_credential_count s) 0 \<and> z_attestation s h \<noteq> None)"

lemma identified_creds: "identified s \<Longrightarrow> creds t = creds s \<Longrightarrow> identified t"
  by (simp add: identified_def creds_def)

text \<open>What an attestation does to the credentials: it keeps the number of a known pair or takes the next one.\<close>

definition attests :: "zk_env \<Rightarrow> zk \<Rightarrow> zhash \<times> zhash \<Rightarrow> zaccount \<Rightarrow> nat \<Rightarrow> zk \<Rightarrow> bool" where
  "attests e s h orc i t \<longleftrightarrow>
     z_attestation t = (z_attestation s)(h \<mapsto> \<lparr>ar_credential_id = i, ar_oracle = orc,
       ar_next_check_due = sat_add U64_MAX (zk_now e) CONSISTENCY_CHECK_INTERVAL\<rparr>) \<and>
     (case z_attestation s h of
        Some r \<Rightarrow> i = ar_credential_id r \<and> z_credential_hashes t = z_credential_hashes s \<and> z_credential_count t = z_credential_count s
      | None \<Rightarrow> i = zk_or (z_credential_count s) 0 + 1 \<and> z_credential_hashes t = (z_credential_hashes s)(i \<mapsto> h) \<and>
          z_credential_count t = Some i)"

lemma snapshot_creds: "wp (record_credential_snapshot e i a b) Q s" if "\<And>t. creds t = creds s \<Longrightarrow> Q () t"
  by (rule wp_keeps [where f = creds]) (rule snapshot_frame, simp_all add: creds_def that)

lemma wp_validate: "wp (validate_credential_chain i) Q s = (chain_walk s i 0 = Inr () \<longrightarrow> Q () s)"
  by (auto simp: wp_def validate_credential_chain_def split: sum.splits)

lemma attest_effect:
  "wp (attest e a p c) (\<lambda>i t. is_registered_oracle s a \<and> zk_auth e a \<and> attests e s (zk_sha256 e p, zk_sha256 e c) a i t) s"
  unfolding attest_def mint_or_reuse_credential_id_def record_attestation_def
  by (auto simp: wp_simps zk_defs attests_def creds_def intro!: snapshot_creds)

lemma derive_effect:
  "wp (create_derived_credential e a parent p c) (\<lambda>i t. is_registered_oracle s a \<and> zk_auth e a \<and>
     chain_walk s parent 0 = Inr () \<and> i \<noteq> parent \<and> attests e s (zk_sha256 e p, zk_sha256 e c) a i t) s"
  unfolding create_derived_credential_def mint_or_reuse_credential_id_def record_attestation_def
  by (auto simp: wp_simps wp_validate zk_defs attests_def creds_def intro!: snapshot_creds)

lemma identified_attests:
  assumes "identified s" "attests e s h orc i t"
  shows "identified t"
proof (cases "z_attestation s h")
  case None
  then have "\<And>j. z_credential_hashes s j = Some h \<Longrightarrow> False" using assms(1) unfolding identified_def by blast
  moreover have "\<And>j. z_credential_hashes s j \<noteq> None \<Longrightarrow> j \<le> zk_or (z_credential_count s) 0"
    using assms(1) unfolding identified_def by blast
  moreover have "z_attestation s k = Some r \<Longrightarrow> z_credential_hashes s (ar_credential_id r) = Some k" for k r
    using assms(1) unfolding identified_def by blast
  ultimately show ?thesis using None assms
    unfolding identified_def attests_def by (fastforce simp del: split_paired_All split_paired_Ex simp: le_Suc_eq split: if_splits)
next
  case (Some r)
  then show ?thesis using assms unfolding identified_def attests_def
    by (auto simp del: split_paired_All split_paired_Ex split: if_splits)
qed

lemma reschedule_effect: "wp (reschedule_consistency_check e i) (\<lambda>_ t. \<exists>h r due. z_attestation s h = Some r \<and>
    z_attestation t = (z_attestation s)(h \<mapsto> r\<lparr>ar_next_check_due := due\<rparr>) \<and>
    z_credential_hashes t = z_credential_hashes s \<and> z_credential_count t = z_credential_count s) s"
  unfolding reschedule_consistency_check_def by (auto simp: wp_simps)

lemma identified_step:
  assumes "identified s" "zk_exec e c s = Inr ((), t)"
  shows "identified t"
  using assms(2)
proof (cases rule: core_cases)
  case 1
  then show ?thesis using identified_creds [OF assms(1)] by (simp add: core_def)
next
  case (2 a p k i)
  then show ?thesis using wpD [OF attest_effect] assms by (blast intro: identified_attests)
next
  case (3 a parent p k i)
  then show ?thesis using wpD [OF derive_effect] assms by (blast intro: identified_attests)
next
  case (4 i a r d)
  then show ?thesis using identified_creds [OF assms(1)] keepsD [OF attest_ballots(6)] by blast
next
  case (5 d a v)
  then show ?thesis using identified_creds [OF assms(1)] keepsD [OF attest_ballots(7)] by blast
next
  case (6 i)
  with wpD [OF reschedule_effect] obtain h r due where "z_attestation s h = Some r"
    "z_attestation t = (z_attestation s)(h \<mapsto> r\<lparr>ar_next_check_due := due\<rparr>)"
    "z_credential_hashes t = z_credential_hashes s" "z_credential_count t = z_credential_count s" by blast
  then show ?thesis using assms(1) unfolding identified_def by (auto simp del: split_paired_All split: if_splits)
qed

subsection \<open>Snapshots in time\<close>

text \<open>The retained snapshots of a credential: at most a thousand, with increasing times and consecutive versions.\<close>

definition slots :: "nat \<Rightarrow> nat \<Rightarrow> nat list \<Rightarrow> nat list \<Rightarrow> (nat \<Rightarrow> CredentialSnapshot option) \<Rightarrow> bool" where
  "slots now c ts vs f \<longleftrightarrow> ts \<noteq> [] \<and> length ts \<le> MAX_CREDENTIAL_SNAPSHOTS \<and> sorted_wrt (<) ts \<and> last ts \<le> now \<and>
     (\<exists>k \<ge> 1. vs = [k..<k + length ts]) \<and>
     (\<exists>sns. map f ts = map Some sns \<and> map sn_timestamp sns = ts \<and> map sn_version sns = vs \<and> (\<forall>sn \<in> set sns. sn_credential_id sn = c))"

lemma slots_later: "slots now c ts vs f \<Longrightarrow> now \<le> now' \<Longrightarrow> slots now' c ts vs f"
  unfolding slots_def by auto

lemma slots_first: "sn_timestamp sn = now \<Longrightarrow> sn_version sn = 1 \<Longrightarrow> sn_credential_id sn = c \<Longrightarrow> slots now c [now] [1] (f(now \<mapsto> sn))"
  unfolding slots_def by (auto simp: MAX_CREDENTIAL_SNAPSHOTS_def intro!: exI [of _ 1] exI [of _ "[sn]"])

lemma slots_replace:
  assumes "slots now c ts vs f" "last ts = now" "sn_timestamp sn = now" "sn_version sn = last vs" "sn_credential_id sn = c"
  shows "slots now c ts vs (f(now \<mapsto> sn))"
proof -
  obtain sns k where sns: "map f ts = map Some sns" "map sn_timestamp sns = ts" "map sn_version sns = vs"
    "\<forall>sn \<in> set sns. sn_credential_id sn = c" using assms(1) by (auto simp: slots_def)
  have ne: "ts \<noteq> []" "sns \<noteq> []" using assms(1) sns(2) by (auto simp: slots_def)
  then obtain ts' sns' l where split: "ts = ts' @ [now]" "sns = sns' @ [l]"
    using assms(2) by (metis append_butlast_last_id)
  have "now \<notin> set ts'" using assms(1) by (auto simp: slots_def split sorted_wrt_append)
  then have "map (f(now \<mapsto> sn)) ts' = map f ts'" by simp
  moreover have "map sn_version (sns' @ [sn]) = vs" using sns(3) assms(4) by (auto simp: split)
  ultimately have "map (f(now \<mapsto> sn)) ts = map Some (sns' @ [sn])" "map sn_timestamp (sns' @ [sn]) = ts"
    "map sn_version (sns' @ [sn]) = vs" "\<forall>sn \<in> set (sns' @ [sn]). sn_credential_id sn = c"
    using sns assms(3,5) by (auto simp: split)
  then show ?thesis using assms(1) unfolding slots_def by blast
qed

lemma last_slots: "slots now c ts vs f \<Longrightarrow> vs \<noteq> [] \<and> last ts \<le> now"
  by (auto simp: slots_def)

lemma below_last: "sorted_wrt (<) ts \<Longrightarrow> last ts < (n :: nat) \<Longrightarrow> \<forall>t \<in> set ts. t < n"
  by (cases ts rule: rev_cases) (auto simp: sorted_wrt_append)

lemma slots_push:
  assumes "slots now c ts vs f" "last ts < now" "sn_timestamp sn = now" "sn_version sn = last vs + 1" "sn_credential_id sn = c"
    "length ts < MAX_CREDENTIAL_SNAPSHOTS"
  shows "slots now c (ts @ [now]) (vs @ [last vs + 1]) (f(now \<mapsto> sn))"
proof -
  obtain sns k where sns: "map f ts = map Some sns" "map sn_timestamp sns = ts" "map sn_version sns = vs"
    "\<forall>sn \<in> set sns. sn_credential_id sn = c" and k: "k \<ge> 1" "vs = [k..<k + length ts]" using assms(1) by (auto simp: slots_def)
  have ne: "ts \<noteq> []" using assms(1) by (simp add: slots_def)
  have "sorted_wrt (<) ts" using assms(1) by (simp add: slots_def)
  then have lt: "\<forall>t \<in> set ts. t < now" by (rule below_last) (rule assms(2))
  have "vs @ [last vs + 1] = [k..<k + length (ts @ [now])]" using k ne by (cases "length ts") auto
  moreover have "map (f(now \<mapsto> sn)) (ts @ [now]) = map Some (sns @ [sn])" using sns(1) lt by auto
  ultimately show ?thesis
    unfolding slots_def using assms sns k(1) lt
    by (intro conjI exI [of _ k] exI [of _ "sns @ [sn]"]) (auto simp: sorted_wrt_append slots_def)
qed

lemma slots_tl:
  assumes "slots now c ts vs f" "length ts \<noteq> 1"
  shows "slots now c (tl ts) (tl vs) (f(hd ts := None))"
proof -
  obtain sns k where sns: "map f ts = map Some sns" "map sn_timestamp sns = ts" "map sn_version sns = vs"
    "\<forall>sn \<in> set sns. sn_credential_id sn = c" and k: "k \<ge> 1" "vs = [k..<k + length ts]" using assms(1) by (auto simp: slots_def)
  obtain t ts' where ts: "ts = t # ts'" using assms(1) by (cases ts) (auto simp: slots_def)
  then have ne: "ts' \<noteq> []" using assms(2) by auto
  have fresh: "t \<notin> set ts'" using assms(1) by (auto simp: slots_def ts)
  obtain sn sns' where s: "sns = sn # sns'" using sns(1) ts by (cases sns) auto
  have "map (f(t := None)) ts' = map f ts'" using fresh by simp
  moreover have "tl vs = [k + 1..<k + 1 + length ts']" using k(2) by (simp add: ts upt_conv_Cons del: upt_Suc)
  ultimately show ?thesis
    unfolding slots_def
  proof (intro conjI exI [of _ "k + 1"] exI [of _ sns'])
    show "length (tl ts) \<le> MAX_CREDENTIAL_SNAPSHOTS" "sorted_wrt (<) (tl ts)" "last (tl ts) \<le> now"
      using assms(1) ne by (auto simp: slots_def ts)
  qed (use sns ne in \<open>auto simp: ts s\<close>)
qed

text \<open>A full list drops its oldest snapshot for the new one.\<close>

lemma slots_shift:
  assumes ok: "slots now c ts vs f" and lt: "last ts < now" and full: "length ts = MAX_CREDENTIAL_SNAPSHOTS"
    and sn: "sn_timestamp sn = now" "sn_version sn = last vs + 1" "sn_credential_id sn = c"
  shows "slots now c (tl ts @ [now]) (tl vs @ [last vs + 1]) (f(now \<mapsto> sn, hd ts := None))"
proof -
  have ne: "ts \<noteq> []" using ok by (simp add: slots_def)
  have long: "length ts \<noteq> 1" "tl ts \<noteq> []" "tl vs \<noteq> []" "length (tl ts) < MAX_CREDENTIAL_SNAPSHOTS"
    using ne ok full by (cases ts; auto simp: MAX_CREDENTIAL_SNAPSHOTS_def slots_def)+
  have "slots now c (tl ts @ [now]) (tl vs @ [last (tl vs) + 1]) ((f(hd ts := None))(now \<mapsto> sn))"
    using long ne lt sn by (intro slots_push [OF slots_tl [OF ok long(1)]]) (simp_all add: last_tl)
  moreover have "hd ts \<noteq> now" using below_last [OF _ lt] ok ne by (auto simp: slots_def dest: bspec [OF _ hd_in_set])
  ultimately show ?thesis using long by (simp add: last_tl fun_upd_twist)
qed

text \<open>A snapshot recorded for one credential keeps the slots of all.\<close>

definition timed :: "nat \<Rightarrow> zk \<Rightarrow> bool" where
  "timed now s \<longleftrightarrow> (\<forall>c. (z_snapshot_timestamps s c = None \<longleftrightarrow> z_snapshot_versions s c = None) \<and>
     (\<forall>ts vs. z_snapshot_timestamps s c = Some ts \<longrightarrow> z_snapshot_versions s c = Some vs \<longrightarrow>
        slots now c ts vs (\<lambda>t. z_snapshot s (c, t))))"

lemma timed_snaps: "timed now s \<Longrightarrow> snaps t = snaps s \<Longrightarrow> now \<le> now' \<Longrightarrow> timed now' t"
  by (auto simp: timed_def snaps_def intro: slots_later)

text \<open>The slots of one credential replaced.\<close>

lemma timed_update:
  assumes "timed now s" "z_snapshot_timestamps t = (z_snapshot_timestamps s)(c \<mapsto> ts)"
    "z_snapshot_versions t = (z_snapshot_versions s)(c \<mapsto> vs)" "slots now c ts vs g"
    "\<And>k. z_snapshot t (c, k) = g k" "\<And>c' k. c' \<noteq> c \<Longrightarrow> z_snapshot t (c', k) = z_snapshot s (c', k)"
  shows "timed now t"
proof -
  have "(\<lambda>k. z_snapshot t (c, k)) = g" "\<And>c'. c' \<noteq> c \<Longrightarrow> (\<lambda>k. z_snapshot t (c', k)) = (\<lambda>k. z_snapshot s (c', k))"
    using assms(5,6) by auto
  then show ?thesis using assms(1-4) unfolding timed_def by auto
qed

lemma record_snapshot_timed:
  assumes "timed (zk_now e) s"
  shows "wp (record_credential_snapshot e c a b) (\<lambda>_. timed (zk_now e)) s"
proof (cases "z_snapshot_timestamps s c")
  case None
  let ?sn = "\<lparr>sn_credential_id = c, sn_oracle = a, sn_invalidated = b, sn_timestamp = zk_now e, sn_version = 1\<rparr>"
  have none: "z_snapshot_versions s c = None" using assms None by (simp add: timed_def)
  have "slots (zk_now e) c [zk_now e] [1] ((\<lambda>k. z_snapshot s (c, k))(zk_now e \<mapsto> ?sn))" by (rule slots_first) simp_all
  then show ?thesis unfolding record_credential_snapshot_def put_snapshot_def
    by (auto simp: wp_simps None none MAX_CREDENTIAL_SNAPSHOTS_def intro!: timed_update [OF assms])
next
  case (Some ts)
  then obtain vs where vs: "z_snapshot_versions s c = Some vs" and ok: "slots (zk_now e) c ts vs (\<lambda>k. z_snapshot s (c, k))"
    using assms by (metis option.exhaust timed_def)
  let ?f = "\<lambda>k. z_snapshot s (c, k)"
  let ?sn = "\<lambda>v. \<lparr>sn_credential_id = c, sn_oracle = a, sn_invalidated = b, sn_timestamp = zk_now e, sn_version = v\<rparr>"
  have ne: "ts \<noteq> []" "vs \<noteq> []" "length ts \<le> MAX_CREDENTIAL_SNAPSHOTS" "last ts \<le> zk_now e" using ok by (auto simp: slots_def)
  show ?thesis
  proof (cases "last ts = zk_now e")
    case True
    have slots: "slots (zk_now e) c ts vs (?f(zk_now e \<mapsto> ?sn (last vs)))" by (rule slots_replace [OF ok True]) simp_all
    show ?thesis unfolding record_credential_snapshot_def put_snapshot_def
      using True ne by (auto simp: wp_simps Some vs intro!: timed_update [OF assms _ _ slots])
  next
    case False
    then have lt: "last ts < zk_now e" using ne by simp
    let ?ts = "ts @ [zk_now e]" and ?vs = "vs @ [last vs + 1]" and ?g = "?f(zk_now e \<mapsto> ?sn (last vs + 1))"
    show ?thesis
    proof (cases "length ts < MAX_CREDENTIAL_SNAPSHOTS")
      case True
      have slots: "slots (zk_now e) c ?ts ?vs ?g" by (rule slots_push [OF ok lt]) (simp_all add: True)
      show ?thesis unfolding record_credential_snapshot_def put_snapshot_def
        using True ne False by (auto simp: wp_simps Some vs intro!: timed_update [OF assms _ _ slots])
    next
      case full: False
      have slots: "slots (zk_now e) c (tl ts @ [zk_now e]) (tl vs @ [last vs + 1]) (?g(hd ts := None))"
        by (rule slots_shift [OF ok lt]) (use full ne in simp_all)
      show ?thesis unfolding record_credential_snapshot_def put_snapshot_def
        using full ne False by (auto simp: wp_simps Some vs intro!: timed_update [OF assms _ _ slots])
    qed
  qed
qed

lemma wp_record:
  "timed (zk_now e) s \<Longrightarrow> (\<And>t. timed (zk_now e) t \<Longrightarrow> Q () t) \<Longrightarrow> wp (record_credential_snapshot e c a b) Q s"
  by (rule wp_mono [OF record_snapshot_timed]) auto

lemma timed_other [simp]:
  "timed n (s\<lparr>z_attestation := x1\<rparr>) = timed n s" "timed n (s\<lparr>z_credential_count := x2\<rparr>) = timed n s"
  "timed n (s\<lparr>z_credential_hashes := x3\<rparr>) = timed n s" "timed n (s\<lparr>z_parent := x4\<rparr>) = timed n s"
  "timed n (s\<lparr>z_invalidated := x5\<rparr>) = timed n s" "timed n (s\<lparr>z_open_dispute := x6\<rparr>) = timed n s"
  "timed n (s\<lparr>z_disputes := x7\<rparr>) = timed n s" "timed n (s\<lparr>z_dispute_vote := x8\<rparr>) = timed n s"
  "timed n (s\<lparr>z_events := x9\<rparr>) = timed n s"
  by (simp_all add: timed_def)

lemma recording_timed:
  assumes "timed (zk_now e) s"
  shows "wp (attest e a p k) (\<lambda>_. timed (zk_now e)) s" "wp (create_derived_credential e a parent p k) (\<lambda>_. timed (zk_now e)) s"
    "wp (vote_on_dispute e d a v) (\<lambda>_. timed (zk_now e)) s"
  unfolding attest_def mint_or_reuse_credential_id_def record_attestation_def create_derived_credential_def
    vote_on_dispute_def put_dispute_def resolve_dispute_def
  using assms by (auto simp: wp_simps wp_validate zk_defs intro!: wp_record)

lemma timed_step:
  assumes "timed now s" "now \<le> zk_now e" "zk_exec e c s = Inr ((), t)"
  shows "timed (zk_now e) t"
proof -
  have s: "timed (zk_now e) s" by (rule timed_snaps [OF assms(1) refl assms(2)])
  have keep: "timed (zk_now e) t" if "snaps t = snaps s" using timed_snaps [OF s that] by simp
  from assms(3) show ?thesis
  proof (cases rule: core_cases)
    case 1
    then show ?thesis by (intro keep) (simp add: core_def)
  next
    case 2
    then show ?thesis using wpD [OF recording_timed(1) [OF s]] by blast
  next
    case 3
    then show ?thesis using wpD [OF recording_timed(2) [OF s]] by blast
  next
    case 4
    then show ?thesis by (intro keep) (rule keepsD [OF attest_ballots(5)])
  next
    case 5
    then show ?thesis using wpD [OF recording_timed(3) [OF s]] by blast
  next
    case 6
    then show ?thesis by (intro keep) (rule keepsD [OF attest_ballots(4)])
  qed
qed

subsection \<open>Disputes\<close>

text \<open>
  The votes of a dispute are the recorded ones, the open disputes are the registered ones, and a
  credential is invalidated exactly if a dispute about it was upheld.
\<close>

definition voters :: "zk \<Rightarrow> nat \<Rightarrow> bool \<Rightarrow> zaccount set" where
  "voters s d v = {a. z_dispute_vote s (d, a) = Some v}"

definition tallied :: "zk \<Rightarrow> bool" where
  "tallied s \<longleftrightarrow> (\<forall>d v. finite (voters s d v)) \<and> (\<forall>d v. z_disputes s d = None \<longrightarrow> voters s d v = {}) \<and>
     (\<forall>d D. z_disputes s d = Some D \<longrightarrow> di_votes_for D = card (voters s d True) \<and> di_votes_against D = card (voters s d False))"

definition judged :: "zk \<Rightarrow> bool" where
  "judged s \<longleftrightarrow> (\<forall>d. z_disputes s d \<noteq> None \<longrightarrow> d \<le> zk_or (z_dispute_count s) 0) \<and>
     (\<forall>c d. z_open_dispute s c = Some d \<longleftrightarrow> (\<exists>D. z_disputes s d = Some D \<and> di_credential_id D = c \<and> di_status D = DisputeOpen)) \<and>
     (\<forall>c. is_credential_invalidated s c \<longleftrightarrow> (\<exists>d D. z_disputes s d = Some D \<and> di_credential_id D = c \<and> di_status D = Upheld))"

lemma tallied_ballots: "tallied s \<Longrightarrow> ballots t = ballots s \<Longrightarrow> tallied t"
  by (simp add: tallied_def voters_def ballots_def)

lemma judged_ballots: "judged s \<Longrightarrow> ballots t = ballots s \<Longrightarrow> judged t"
  by (simp add: judged_def is_credential_invalidated_def ballots_def)

definition opened :: "zk \<Rightarrow> nat \<Rightarrow> nat \<Rightarrow> zk \<Rightarrow> bool" where
  "opened s i d t \<longleftrightarrow> d = zk_or (z_dispute_count s) 0 + 1 \<and> z_dispute_count t = Some d \<and> z_open_dispute s i = None \<and>
     (\<exists>D. z_disputes t = (z_disputes s)(d \<mapsto> D) \<and> di_credential_id D = i \<and> di_status D = DisputeOpen \<and>
        di_votes_for D = 0 \<and> di_votes_against D = 0) \<and>
     z_open_dispute t = (z_open_dispute s)(i \<mapsto> d) \<and> z_dispute_vote t = z_dispute_vote s \<and> z_invalidated t = z_invalidated s"

lemma dispute_effect: "wp (initiate_credential_dispute e i a r) (\<lambda>d t. opened s i d t) s"
  unfolding initiate_credential_dispute_def opened_def
  by (auto simp: wp_simps zk_defs intro!: exI [of _ "\<lparr>di_id = _, di_credential_id = _, di_initiator = _, di_reason = _,
    di_status = _, di_votes_for = _, di_votes_against = _, di_created_at = _, di_resolved_at = _\<rparr>"])

definition voted_on :: "zk_env \<Rightarrow> zk \<Rightarrow> nat \<Rightarrow> zaccount \<Rightarrow> bool \<Rightarrow> Dispute \<Rightarrow> Dispute \<Rightarrow> zk \<Rightarrow> bool" where
  "voted_on e s d a v D D' t \<longleftrightarrow> z_disputes s d = Some D \<and> di_status D = DisputeOpen \<and> z_dispute_vote s (d, a) = None \<and>
     is_registered_oracle s a \<and> zk_auth e a \<and>
     z_disputes t = (z_disputes s)(d \<mapsto> D') \<and> z_dispute_vote t = (z_dispute_vote s)((d, a) \<mapsto> v) \<and> z_dispute_count t = z_dispute_count s \<and>
     di_credential_id D' = di_credential_id D \<and>
     di_votes_for D' = di_votes_for D + (if v then 1 else 0) \<and> di_votes_against D' = di_votes_against D + (if v then 0 else 1) \<and>
     di_status D' = (if dispute_threshold s \<le> di_votes_for D' then Upheld
       else if dispute_threshold s \<le> di_votes_against D' then DisputeRejected else DisputeOpen) \<and>
     z_open_dispute t = (if di_status D' = DisputeOpen then z_open_dispute s else (z_open_dispute s)(di_credential_id D := None)) \<and>
     z_invalidated t = (if di_status D' = Upheld then (z_invalidated s)(di_credential_id D \<mapsto> True) else z_invalidated s)"

lemma snapshot_ballots: "wp (record_credential_snapshot e i a b) Q s" if "\<And>t. ballots t = ballots s \<Longrightarrow> Q () t"
  by (rule wp_keeps [where f = ballots]) (rule snapshot_frame, simp_all add: ballots_def that)

lemma dispute_vote_effect: "wp (vote_on_dispute e d a v) (\<lambda>_ t. \<exists>D. voted_on e s d a v D (the (z_disputes t d)) t) s"
  unfolding vote_on_dispute_def resolve_dispute_def put_dispute_def
  by (auto simp: wp_simps zk_defs voted_on_def ballots_def dispute_threshold_def intro!: snapshot_ballots)

lemma voters_vote:
  assumes "z_dispute_vote t = (z_dispute_vote s)((d, a) \<mapsto> v)" "z_dispute_vote s (d, a) = None"
  shows "voters t d' v' = (if d' = d \<and> v' = v then insert a (voters s d v) else voters s d' v')" "a \<notin> voters s d v'"
  using assms by (auto simp: voters_def)

lemma opened_sound:
  assumes "tallied s" "judged s" "opened s i d t"
  shows "tallied t" "judged t"
proof -
  have d: "z_disputes s d = None" using assms(2,3) by (fastforce simp: judged_def opened_def)
  obtain D where D: "z_disputes t = (z_disputes s)(d \<mapsto> D)" "di_credential_id D = i" "di_status D = DisputeOpen"
    "di_votes_for D = 0" "di_votes_against D = 0" using assms(3) by (auto simp: opened_def)
  have same: "voters t = voters s" using assms(3) by (intro ext) (simp add: opened_def voters_def)
  show "tallied t" using assms(1) d D unfolding tallied_def same by auto
  have upheld: "(\<exists>d' D'. z_disputes t d' = Some D' \<and> di_credential_id D' = c \<and> di_status D' = Upheld) \<longleftrightarrow>
    (\<exists>d' D'. z_disputes s d' = Some D' \<and> di_credential_id D' = c \<and> di_status D' = Upheld)" for c
    using d D by (metis DisputeStatus.distinct(1) fun_upd_apply option.distinct(1) option.inject)
  have inval: "is_credential_invalidated t = is_credential_invalidated s"
    using assms(3) by (intro ext) (simp add: is_credential_invalidated_def opened_def)
  show "judged t" unfolding judged_def upheld inval
  proof (intro conjI allI)
    show "z_disputes t d' \<noteq> None \<longrightarrow> d' \<le> zk_or (z_dispute_count t) 0" for d'
      using assms(2,3) by (fastforce simp: judged_def opened_def D(1))
    show "z_open_dispute t c = Some d' \<longleftrightarrow> (\<exists>D. z_disputes t d' = Some D \<and> di_credential_id D = c \<and> di_status D = DisputeOpen)" for c d'
    proof -
      have open_s: "z_open_dispute s c = Some d' \<longleftrightarrow> (\<exists>D. z_disputes s d' = Some D \<and> di_credential_id D = c \<and> di_status D = DisputeOpen)"
        for c d' using assms(2) unfolding judged_def by blast
      have "z_open_dispute t = (z_open_dispute s)(i \<mapsto> d)" "z_open_dispute s i = None" using assms(3) by (simp_all add: opened_def)
      then show ?thesis using open_s [of c d'] open_s [of i d'] d D by (auto simp: D(1))
    qed
  qed (use assms(2) in \<open>auto simp: judged_def\<close>)
qed

lemma voted_sound:
  assumes "tallied s" "judged s" "voted_on e s d a v D D' t"
  shows "tallied t" "judged t"
proof -
  note v = assms(3) [unfolded voted_on_def]
  have vt: "z_dispute_vote t = (z_dispute_vote s)((d, a) \<mapsto> v)" "z_dispute_vote s (d, a) = None"
    and D: "z_disputes s d = Some D" "di_status D = DisputeOpen" "z_disputes t = (z_disputes s)(d \<mapsto> D')"
      "di_credential_id D' = di_credential_id D" using v by auto
  note voters = voters_vote [OF vt]
  show "tallied t" using assms(1) v unfolding tallied_def voters(1) by (auto simp: voters(2))
  have open_d: "z_open_dispute s c = Some d' \<longleftrightarrow> (\<exists>D. z_disputes s d' = Some D \<and> di_credential_id D = c \<and> di_status D = DisputeOpen)"
    for c d' using assms(2) unfolding judged_def by blast
  show "judged t" unfolding judged_def
  proof (intro conjI allI)
    show "z_disputes t d' \<noteq> None \<longrightarrow> d' \<le> zk_or (z_dispute_count t) 0" for d'
      using assms(2) v by (auto simp: judged_def)
    show "z_open_dispute t c = Some d' \<longleftrightarrow> (\<exists>D. z_disputes t d' = Some D \<and> di_credential_id D = c \<and> di_status D = DisputeOpen)" for c d'
    proof (cases "c = di_credential_id D")
      case True
      then have "z_open_dispute s c = Some d" using D by (auto simp: open_d)
      then show ?thesis using True v open_d [of c d'] by (auto simp: D)
    next
      case False
      then show ?thesis using v open_d [of c d'] by (auto simp: D)
    qed
    show "is_credential_invalidated t c \<longleftrightarrow> (\<exists>d D. z_disputes t d = Some D \<and> di_credential_id D = c \<and> di_status D = Upheld)" for c
    proof -
      have "is_credential_invalidated s c \<longleftrightarrow> (\<exists>d D. z_disputes s d = Some D \<and> di_credential_id D = c \<and> di_status D = Upheld)"
        using assms(2) unfolding judged_def by blast
      also have "\<dots> \<longleftrightarrow> (\<exists>d' D. d' \<noteq> d \<and> z_disputes s d' = Some D \<and> di_credential_id D = c \<and> di_status D = Upheld)"
        using D by (metis DisputeStatus.distinct(1) option.inject)
      moreover have "(\<exists>d D. z_disputes t d = Some D \<and> di_credential_id D = c \<and> di_status D = Upheld) \<longleftrightarrow>
        (di_credential_id D = c \<and> di_status D' = Upheld) \<or> (\<exists>d' D. d' \<noteq> d \<and> z_disputes s d' = Some D \<and> di_credential_id D = c \<and> di_status D = Upheld)"
        unfolding D(3) using D(4) by (metis fun_upd_apply option.inject)
      moreover have "is_credential_invalidated t c \<longleftrightarrow> (di_credential_id D = c \<and> di_status D' = Upheld) \<or> is_credential_invalidated s c"
        using v by (auto simp: is_credential_invalidated_def)
      ultimately show ?thesis by blast
    qed
  qed
qed

lemma ballots_step:
  assumes "tallied s" "judged s" "zk_exec e c s = Inr ((), t)"
  shows "tallied t \<and> judged t"
proof -
  have keep: "tallied t \<and> judged t" if "ballots t = ballots s"
    using that assms(1,2) by (blast intro: tallied_ballots judged_ballots)
  from assms(3) show ?thesis
  proof (cases rule: core_cases)
    case 1
    then show ?thesis by (intro keep) (simp add: core_def)
  next
    case (4 i a r d)
    then show ?thesis using opened_sound [OF assms(1,2) wpD [OF dispute_effect]] by blast
  next
    case (5 d a v)
    from wpD [OF dispute_vote_effect 5(2)] show ?thesis using voted_sound [OF assms(1,2)] by blast
  qed (use keep attest_ballots [THEN keepsD] in blast)+
qed

definition zk_sound :: "nat \<times> zk \<Rightarrow> bool" where
  "zk_sound = (\<lambda>(now, s). identified s \<and> timed now s \<and> tallied s \<and> judged s)"

interpretation verifier: invariant_system fresh_zk zk_step zk_sound
proof
  show "zk_sound x" if "fresh_zk x" for x
    using that by (auto simp: fresh_zk_def zk_sound_def identified_def timed_def tallied_def judged_def voters_def is_credential_invalidated_def)
  show "zk_sound y" if "zk_sound x" "zk_step x y" for x y using that(2,1)
    by cases (auto simp: zk_sound_def dest: identified_step timed_step ballots_step)
qed

subsection \<open>Queries about the past\<close>

definition retained :: "zk \<Rightarrow> nat \<Rightarrow> CredentialSnapshot \<Rightarrow> bool" where
  "retained s c sn \<longleftrightarrow> (\<exists>ts. z_snapshot_timestamps s c = Some ts \<and> sn_timestamp sn \<in> set ts \<and> z_snapshot s (c, sn_timestamp sn) = Some sn)"

lemma first_index_distinct: "distinct xs \<Longrightarrow> i < length xs \<Longrightarrow> first_index_of (xs ! i) xs = Some i"
proof (induction xs arbitrary: i)
  case (Cons x xs)
  then show ?case by (cases i) (auto simp: in_set_conv_nth)
qed simp

lemma first_index_none: "v \<notin> set xs \<Longrightarrow> first_index_of v xs = None"
  by (induction xs) auto

text \<open>The retained snapshots of a credential as a list in the order of time and version.\<close>

lemma timed_list:
  assumes "timed now s" "z_snapshot_timestamps s c = Some ts"
  obtains sns vs where "z_snapshot_versions s c = Some vs" "map sn_timestamp sns = ts" "map sn_version sns = vs" "sorted_wrt (<) ts"
    "distinct vs" "\<And>i. i < length ts \<Longrightarrow> z_snapshot s (c, ts ! i) = Some (sns ! i)" "\<And>sn. retained s c sn \<longleftrightarrow> sn \<in> set sns" "ts \<noteq> []"
proof -
  obtain vs where vs: "z_snapshot_versions s c = Some vs" and ok: "slots now c ts vs (\<lambda>k. z_snapshot s (c, k))"
    using assms by (metis option.exhaust timed_def)
  then obtain sns where sns: "map (\<lambda>k. z_snapshot s (c, k)) ts = map Some sns" "map sn_timestamp sns = ts" "map sn_version sns = vs"
    by (auto simp: slots_def)
  have len: "length sns = length ts" using sns(2) by auto
  have nth: "z_snapshot s (c, ts ! i) = Some (sns ! i)" if "i < length ts" for i
    using arg_cong [OF sns(1), of "\<lambda>xs. xs ! i"] that len by simp
  have stamp: "sn_timestamp (sns ! i) = ts ! i" if "i < length ts" for i using sns(2) that len by (metis nth_map)
  have "retained s c sn \<longleftrightarrow> sn \<in> set sns" for sn
  proof
    assume "retained s c sn"
    then obtain i where "i < length ts" "ts ! i = sn_timestamp sn" "z_snapshot s (c, sn_timestamp sn) = Some sn"
      using assms(2) by (auto simp: retained_def in_set_conv_nth)
    then show "sn \<in> set sns" using nth [of i] len by auto
  next
    assume "sn \<in> set sns"
    then obtain i where "i < length ts" "sn = sns ! i" using len by (auto simp: in_set_conv_nth)
    then show "retained s c sn" using nth [of i] stamp [of i] assms(2) by (simp add: retained_def)
  qed
  moreover have "distinct vs" "sorted_wrt (<) ts" "ts \<noteq> []" using ok by (auto simp: slots_def)
  ultimately show thesis using that [OF vs sns(2,3)] nth by blast
qed

lemma query_at_time:
  assumes "timed now s"
  shows "load_snapshot_at_or_before s c t = Some sn \<longleftrightarrow> retained s c sn \<and> sn_timestamp sn \<le> t \<and>
    (\<forall>sn'. retained s c sn' \<and> sn_timestamp sn' \<le> t \<longrightarrow> sn_timestamp sn' \<le> sn_timestamp sn)"
proof (cases "z_snapshot_timestamps s c")
  case None
  then show ?thesis by (simp add: load_snapshot_at_or_before_def retained_def)
next
  case (Some ts)
  obtain sns vs where l: "map sn_timestamp sns = ts" "sorted_wrt (<) ts"
    "\<And>i. i < length ts \<Longrightarrow> z_snapshot s (c, ts ! i) = Some (sns ! i)" "\<And>sn. retained s c sn \<longleftrightarrow> sn \<in> set sns" "ts \<noteq> []"
    using timed_list [OF assms Some] by metis
  have len: "length sns = length ts" using l(1) by auto
  let ?n = "search_timestamps ts t 0 (length ts)"
  have n: "?n \<le> length ts" "\<And>i. i < length ts \<Longrightarrow> ts ! i \<le> t \<longleftrightarrow> i < ?n"
    using search_timestamps_counts [of ts 0 "length ts" t] l(2) by (auto simp: strict_sorted_iff)
  have load: "load_snapshot_at_or_before s c t = (if ?n = 0 then None else Some (sns ! (?n - 1)))"
    using l(3,5) n(1) by (simp add: load_snapshot_at_or_before_def Some Let_def)
  have stamp: "sn_timestamp (sns ! i) = ts ! i" if "i < length ts" for i using l(1) that len by (metis nth_map)
  have mono: "ts ! i \<le> ts ! j" if "i \<le> j" "j < length ts" for i j
    using l(2) that by (metis strict_sorted_iff sorted_nth_mono)
  show ?thesis
  proof (cases "?n = 0")
    case True
    then show ?thesis using n(2) stamp len by (auto simp: load l(4) in_set_conv_nth)
  next
    case False
    then have k: "?n - 1 < length ts" "?n - 1 < ?n" using n(1) by auto
    have top: "sns ! (?n - 1) \<in> set sns" "sn_timestamp (sns ! (?n - 1)) \<le> t" using k n(2) [OF k(1)] stamp len by auto
    have best: "sn_timestamp sn' \<le> sn_timestamp (sns ! (?n - 1))" if "sn' \<in> set sns" "sn_timestamp sn' \<le> t" for sn'
      using that stamp len n(2) mono k by (auto simp: in_set_conv_nth)
    show ?thesis
    proof
      assume "load_snapshot_at_or_before s c t = Some sn"
      then show "retained s c sn \<and> sn_timestamp sn \<le> t \<and>
          (\<forall>sn'. retained s c sn' \<and> sn_timestamp sn' \<le> t \<longrightarrow> sn_timestamp sn' \<le> sn_timestamp sn)"
        using top best False by (auto simp: load l(4))
    next
      assume sn: "retained s c sn \<and> sn_timestamp sn \<le> t \<and>
          (\<forall>sn'. retained s c sn' \<and> sn_timestamp sn' \<le> t \<longrightarrow> sn_timestamp sn' \<le> sn_timestamp sn)"
      then have "sn_timestamp sn = sn_timestamp (sns ! (?n - 1))" using top best by (metis l(4) order_antisym)
      then have "sn = sns ! (?n - 1)" using sn top by (metis l(4) option.inject retained_def)
      then show "load_snapshot_at_or_before s c t = Some sn" using False by (simp add: load)
    qed
  qed
qed

lemma query_version:
  assumes "timed now s"
  shows "load_snapshot_by_version s c v = Some sn \<longleftrightarrow> retained s c sn \<and> sn_version sn = v"
proof (cases "z_snapshot_timestamps s c")
  case None
  moreover from None have "z_snapshot_versions s c = None" using assms unfolding timed_def by blast
  ultimately show ?thesis by (simp add: load_snapshot_by_version_def retained_def)
next
  case (Some ts)
  obtain sns vs where l: "z_snapshot_versions s c = Some vs" "map sn_timestamp sns = ts" "map sn_version sns = vs" "distinct vs"
    "\<And>i. i < length ts \<Longrightarrow> z_snapshot s (c, ts ! i) = Some (sns ! i)" "\<And>sn. retained s c sn \<longleftrightarrow> sn \<in> set sns"
    using timed_list [OF assms Some] by metis
  have len: "length sns = length ts" "length vs = length ts" using l(2,3) by auto
  show ?thesis
  proof (cases "v \<in> set vs")
    case True
    then obtain i where i: "i < length vs" "v = vs ! i" by (auto simp: in_set_conv_nth)
    then have "load_snapshot_by_version s c v = Some (sns ! i)"
      using first_index_distinct [OF l(4) i(1)] l(5) len by (simp add: load_snapshot_by_version_def l(1) Some)
    moreover have version: "sn_version (sns ! j) = vs ! j" if "j < length vs" for j using l(3) len that by (metis nth_map)
    then have "sn \<in> set sns \<and> sn_version sn = v \<longleftrightarrow> sn = sns ! i"
      using i len l(4) by (auto simp: in_set_conv_nth nth_eq_iff_index_eq)
    ultimately show ?thesis by (auto simp: l(6))
  next
    case False
    then show ?thesis using l(3) by (auto simp: load_snapshot_by_version_def l(1,6) first_index_none)
  qed
qed

text \<open>C39. In every history in which the ledger's clock does not run backwards, a query at a time returns
  the retained snapshot of the credential with the greatest time up to that one, and a query for a
  version the retained snapshot with that version; at most a thousand snapshots are retained.\<close>

theorem snapshot_queries:
  assumes "reachable fresh_zk zk_step (now, s)"
  shows "(load_snapshot_at_or_before s c t = Some sn \<longleftrightarrow> retained s c sn \<and> sn_timestamp sn \<le> t \<and>
      (\<forall>sn'. retained s c sn' \<and> sn_timestamp sn' \<le> t \<longrightarrow> sn_timestamp sn' \<le> sn_timestamp sn)) \<and>
    (load_snapshot_by_version s c v = Some sn \<longleftrightarrow> retained s c sn \<and> sn_version sn = v) \<and>
    card {sn. retained s c sn} \<le> MAX_CREDENTIAL_SNAPSHOTS"
proof -
  have timed: "timed now s" using verifier.inv_reachable [OF assms] by (simp add: zk_sound_def)
  have "card {sn. retained s c sn} \<le> MAX_CREDENTIAL_SNAPSHOTS"
  proof (cases "z_snapshot_timestamps s c")
    case None
    then show ?thesis by (simp add: retained_def)
  next
    case (Some ts)
    obtain sns where sns: "map sn_timestamp sns = ts" "\<And>sn. retained s c sn \<longleftrightarrow> sn \<in> set sns"
      using timed_list [OF timed Some] by metis
    have "length ts \<le> MAX_CREDENTIAL_SNAPSHOTS" using timed Some unfolding timed_def slots_def by (metis option.exhaust)
    then show ?thesis using sns card_length [of sns] by auto
  qed
  then show ?thesis using query_at_time [OF timed] query_version [OF timed] by blast
qed

subsection \<open>Verdicts\<close>


text \<open>C38. A vote is accepted only from a registered oracle that signs and has not voted in the dispute, while
  it is open. The tallies are the numbers of recorded voters. If before the vote neither side had reached the threshold,
  which is so unless the threshold was lowered since the last vote, the vote resolves the dispute exactly if its own side now
  reaches the threshold, and then for that side. In general, and so after the threshold was lowered, the dispute is upheld if
  the votes for it reach the threshold, even if the votes against it had reached it earlier (where the comment on
  \<open>vote_on_dispute\<close> gives the dispute to the first side), and otherwise rejected if the votes against it do.
  The credential is invalid afterwards exactly if it was before or this dispute is upheld.\<close>

theorem vote_counted:
  assumes "reachable fresh_zk zk_step (now, s)" "vote_on_dispute e d a v s = Inr ((), t)"
  shows "\<exists>D D'. z_disputes s d = Some D \<and> z_disputes t d = Some D' \<and> di_status D = DisputeOpen \<and> is_oracle s a \<and> zk_auth e a \<and>
    a \<notin> voters s d True \<union> voters s d False \<and> voters t d v = insert a (voters s d v) \<and> voters t d (\<not> v) = voters s d (\<not> v) \<and>
    di_votes_for D' = card (voters t d True) \<and> di_votes_against D' = card (voters t d False) \<and>
    (card (voters s d True) < dispute_threshold s \<and> card (voters s d False) < dispute_threshold s \<longrightarrow>
      di_status D' = (if card (voters t d v) = dispute_threshold s then if v then Upheld else DisputeRejected else DisputeOpen)) \<and>
    di_status D' = (if dispute_threshold s \<le> card (voters t d True) then Upheld
      else if dispute_threshold s \<le> card (voters t d False) then DisputeRejected else DisputeOpen) \<and>
    (\<forall>c. is_credential_invalidated t c \<longleftrightarrow> is_credential_invalidated s c \<or> c = di_credential_id D \<and> di_status D' = Upheld)"
proof -
  have inv: "tallied s" "judged s" using verifier.inv_reachable [OF assms(1)] by (simp_all add: zk_sound_def)
  obtain D D' where v: "voted_on e s d a v D D' t" using wpD [OF dispute_vote_effect assms(2)] by blast
  note vt = v [unfolded voted_on_def]
  have tally: "tallied t" by (rule voted_sound(1) [OF inv v])
  have "z_disputes t d = Some D'" "z_disputes s d = Some D" using vt by simp_all
  then have cards: "di_votes_for D' = card (voters t d True)" "di_votes_against D' = card (voters t d False)"
    "di_votes_for D = card (voters s d True)" "di_votes_against D = card (voters s d False)"
    using tally inv(1) unfolding tallied_def by blast+
  have votes: "a \<notin> voters s d True \<union> voters s d False" "voters t d v = insert a (voters s d v)" "voters t d (\<not> v) = voters s d (\<not> v)"
    using voters_vote [of t s d a v] vt by auto
  have one: "card (voters t d v) = Suc (card (voters s d v))" using vt cards by (cases v) auto
  have "is_oracle s a" using vt by (simp add: is_oracle_def is_registered_oracle_def)
  moreover have status: "di_status D' = (if dispute_threshold s \<le> card (voters t d True) then Upheld
      else if dispute_threshold s \<le> card (voters t d False) then DisputeRejected else DisputeOpen)"
    using vt cards by simp
  moreover have "card (voters s d True) < dispute_threshold s \<and> card (voters s d False) < dispute_threshold s \<longrightarrow>
      di_status D' = (if card (voters t d v) = dispute_threshold s then if v then Upheld else DisputeRejected else DisputeOpen)"
    unfolding status using one votes(3) by (cases v) auto
  moreover have "\<forall>c. is_credential_invalidated t c \<longleftrightarrow> is_credential_invalidated s c \<or> c = di_credential_id D \<and> di_status D' = Upheld"
    using vt by (auto simp: is_credential_invalidated_def)
  ultimately show ?thesis using vt cards(1,2) votes by (intro exI [of _ D] exI [of _ D']) simp
qed

subsection \<open>Behaviour at the edges\<close>

text \<open>A batch with one credential is not consistent, whatever it says; and a pending status does not conflict with an approved one.\<close>

lemma single_not_consistent: "wp (verify_credentials_consistent e [p] [k]) (\<lambda>b _. \<not> b) s"
proof -
  have "wp (verify_each e [(p, k)]) (\<lambda>b. wp (if \<not> b then returnM False
      else returnM (case verify_batch_consistency (claim_pairs [k]) of Inl err \<Rightarrow> False | Inr u \<Rightarrow> True)) (\<lambda>b _. \<not> b)) s"
    by (rule wp_mono [OF wp_True]) (simp add: verify_batch_consistency_def claim_pairs_def wp_simps)
  then show ?thesis by (simp add: verify_credentials_consistent_def wp_simps del: verify_each.simps)
qed

lemma pending_approved_compatible: "are_credentials_compatible [0] [1]"
  by (simp add: are_credentials_compatible_def is_age_claim_def parse_age_claim_def is_kyc_status_claim_def extract_kyc_status_def
    kyc_rule_compatible_def kyc_statuses_compatible_def)

text \<open>Longer proofs cannot be masked.\<close>

lemma long_proof_not_masked:
  assumes "32 < length p"
  shows "\<not> commits (mask_proof_fields e p fs) s"
  using assms by (simp add: mask_proof_fields_def exec commits_def Let_def)

text \<open>The lattice path does not look at disputes: it accepts what \<open>verify_claim\<close> refuses.\<close>

lemma lattice_ignores_disputes:
  assumes "is_valid_lattice_proof e p" "p \<noteq> []" "length p \<le> MAX_PROOF_SIZE" "k \<noteq> []" "length k \<le> MAX_CLAIM_SIZE"
    "z_attestation s (zk_sha256 e p, zk_sha256 e k) = Some r" "is_oracle s (ar_oracle r)" "is_credential_invalidated s (ar_credential_id r)"
  shows "(\<exists>t. verify_lattice_proof e p k s = Inr (True, t)) \<and> (\<exists>t. verify_claim e p k s = Inr (False, t))"
  using assms by (simp add: verify_lattice_proof_def verify_claim_def verify_internal_def attested_def is_oracle_def
    record_verification_def zk_defs exec Let_def)

text \<open>The check that blocks new credentials stops at the depth it allows, and the query for validity answers yes there.\<close>

lemma chain_bounded: "length (get_credential_chain s i) \<le> MAX_CREDENTIAL_CHAIN_DEPTH + 2"
proof -
  have "depth \<le> MAX_CREDENTIAL_CHAIN_DEPTH \<Longrightarrow> length (chain_from s current depth) \<le> Suc MAX_CREDENTIAL_CHAIN_DEPTH - depth"
    for current depth
    by (induction s current depth rule: chain_from.induct) (subst chain_from.simps, auto split: option.splits)
  from this [of 0] show ?thesis by (simp add: get_credential_chain_def)
qed

lemma valid_unless_invalidated:
  "chain_walk s i depth = Inl (VerErr ParentCredentialInvalid) \<longleftrightarrow> \<not> chain_valid_from s i depth"
  by (induction s i depth rule: chain_walk.induct) (subst chain_walk.simps, subst chain_valid_from.simps, simp split: option.splits)

subsection \<open>Examples\<close>

definition zk_demo :: "nat \<Rightarrow> zk_env" where
  "zk_demo now = \<lparr>zk_now = now, zk_auth = (\<lambda>_. True), zk_sha256 = (\<lambda>x. x), zk_from_xdr = (\<lambda>_. None), zk_contract = 0, zk_masked_oracle = 0\<rparr>"

definition empty_zk :: zk where
  "empty_zk = \<lparr>z_admin = None, z_oracle = Map.empty, z_attestation = Map.empty, z_credential_count = None, z_credential_hashes = Map.empty,
     z_invalidated = Map.empty, z_open_dispute = Map.empty, z_dispute_history = Map.empty, z_dispute_count = None, z_disputes = Map.empty,
     z_dispute_vote = Map.empty, z_threshold = None, z_snapshot = Map.empty, z_snapshot_timestamps = Map.empty,
     z_snapshot_versions = Map.empty, z_privacy = Map.empty, z_parent = Map.empty, z_history = Map.empty, z_masking = Map.empty,
     z_attestation_masking = Map.empty, z_last_verification = Map.empty, z_events = []\<rparr>"

definition two_attestations :: zk where
  "two_attestations = after (zk_exec (zk_demo 20) (ZDispute 1 5 [1])) (after (zk_exec (zk_demo 20) (ZAttest 8 [3] [4]))
     (fold (\<lambda>c. after (zk_exec (zk_demo 10) c)) [ZInitialize 1, ZRegister 7, ZRegister 8, ZThreshold 1, ZAttest 7 [3] [4]] empty_zk))"

lemma zk_exec_reachable:
  assumes "reachable fresh_zk zk_step (now, s)" "now \<le> zk_now e" "commits (zk_exec e c) s"
  shows "reachable fresh_zk zk_step (zk_now e, after (zk_exec e c) s)"
  using assms by (auto simp: commits_def after_def split: sum.splits intro: reachable_step zk_stepI)

lemmas zk_run = after_def exec zk_defs is_registered_oracle_def initialize_zk_def register_oracle_def attest_def mint_or_reuse_credential_id_def
  record_attestation_def record_credential_snapshot_def put_snapshot_def is_credential_invalidated_def zk_demo_def empty_zk_def
  MAX_CREDENTIAL_SNAPSHOTS_def initiate_credential_dispute_def MAX_REASON_SIZE_def set_dispute_threshold_def forget_eq

lemma two_attestations_eq:
  "z_snapshot_timestamps two_attestations = [1 \<mapsto> [10, 20]]" "z_snapshot_versions two_attestations = [1 \<mapsto> [1, 2]]"
  "z_attestation two_attestations ([3], [4]) = Some \<lparr>ar_credential_id = 1, ar_oracle = 8, ar_next_check_due = 2592020\<rparr>"
  "z_oracle two_attestations = [7 \<mapsto> True, 8 \<mapsto> True]" "z_threshold two_attestations = Some 1" "z_dispute_vote two_attestations = Map.empty"
  "z_snapshot two_attestations (1, 10) = Some \<lparr>sn_credential_id = 1, sn_oracle = 7, sn_invalidated = False, sn_timestamp = 10, sn_version = 1\<rparr>"
  by (simp_all add: two_attestations_def zk_run sat_add_def CONSISTENCY_CHECK_INTERVAL_def numeral_2_eq_2)

lemma two_attestations_reachable: "reachable fresh_zk zk_step (20, two_attestations)"
proof -
  have early: "reachable fresh_zk zk_step (10, fold (\<lambda>c. after (zk_exec (zk_demo 10) c)) cs s)"
    if "reachable fresh_zk zk_step (10, s)" for cs s
    using that
  proof (induction cs arbitrary: s)
    case (Cons c cs)
    have "reachable fresh_zk zk_step (10, after (zk_exec (zk_demo 10) c) s)"
    proof (cases "commits (zk_exec (zk_demo 10) c) s")
      case True
      then show ?thesis using zk_exec_reachable [OF Cons.prems, of "zk_demo 10" c] by (simp add: zk_demo_def)
    next
      case False
      then show ?thesis using Cons.prems by (simp add: after_def commits_def split: sum.splits)
    qed
    then show ?case using Cons.IH by simp
  qed simp
  let ?s = "fold (\<lambda>c. after (zk_exec (zk_demo 10) c)) [ZInitialize 1, ZRegister 7, ZRegister 8, ZThreshold 1, ZAttest 7 [3] [4]] empty_zk"
  let ?t = "after (zk_exec (zk_demo 20) (ZAttest 8 [3] [4])) ?s"
  have now: "zk_now (zk_demo 20) = 20" "10 \<le> zk_now (zk_demo 20)" "20 \<le> zk_now (zk_demo 20)" by (simp_all add: zk_demo_def)
  have s: "reachable fresh_zk zk_step (10, ?s)" by (intro early reachable_start) (simp add: fresh_zk_def empty_zk_def)
  have "commits (zk_exec (zk_demo 20) (ZAttest 8 [3] [4])) ?s" by (simp add: zk_run commits_def)
  then have t: "reachable fresh_zk zk_step (20, ?t)" using zk_exec_reachable [OF s, of "zk_demo 20"] now by metis
  have "commits (zk_exec (zk_demo 20) (ZDispute 1 5 [1])) ?t" by (simp add: zk_run commits_def)
  then show ?thesis using zk_exec_reachable [OF t, of "zk_demo 20"] now unfolding two_attestations_def by metis
qed

theorem snapshot_queries_witness:
  "reachable fresh_zk zk_step (20, two_attestations) \<and> load_snapshot_at_or_before two_attestations 1 15 = z_snapshot two_attestations (1, 10) \<and>
   load_snapshot_by_version two_attestations 1 1 = z_snapshot two_attestations (1, 10)"
proof -
  let ?sn = "\<lparr>sn_credential_id = 1, sn_oracle = 7, sn_invalidated = False, sn_timestamp = 10, sn_version = 1\<rparr>"
  have "retained two_attestations 1 ?sn" by (simp add: retained_def two_attestations_eq del: One_nat_def)
  moreover have "sn_timestamp sn = 10 \<or> sn_timestamp sn = 20" if "retained two_attestations 1 sn" for sn
    using that by (auto simp: retained_def two_attestations_eq)
  ultimately show ?thesis
    using snapshot_queries [OF two_attestations_reachable, of 1 15 ?sn 1] two_attestations_reachable by (fastforce simp: two_attestations_eq simp del: One_nat_def)
qed


theorem vote_counted_witness:
  "\<exists>t. vote_on_dispute (zk_demo 30) 1 7 True two_attestations = Inr ((), t) \<and> is_credential_invalidated t 1"
proof -
  have d: "z_disputes two_attestations 1 = Some \<lparr>di_id = 1, di_credential_id = 1, di_initiator = 5, di_reason = [1], di_status = DisputeOpen,
    di_votes_for = 0, di_votes_against = 0, di_created_at = 20, di_resolved_at = 0\<rparr>" "z_credential_hashes two_attestations 1 = Some ([3], [4])"
    by (simp_all add: two_attestations_def zk_run)
  have "\<exists>t. vote_on_dispute (zk_demo 30) 1 7 True two_attestations = Inr ((), t)"
    by (simp add: vote_on_dispute_def resolve_dispute_def put_dispute_def load_attestation_record_def dispute_threshold_def d two_attestations_eq exec zk_defs
      is_registered_oracle_def record_credential_snapshot_def put_snapshot_def MAX_CREDENTIAL_SNAPSHOTS_def zk_demo_def Let_def del: One_nat_def)
  then obtain t where t: "vote_on_dispute (zk_demo 30) 1 7 True two_attestations = Inr ((), t)" ..
  have "voters two_attestations 1 True = {}" by (simp add: voters_def two_attestations_eq)
  with vote_counted [OF two_attestations_reachable t] d have "is_credential_invalidated t 1"
    by (auto simp: dispute_threshold_def two_attestations_eq simp del: One_nat_def)
  with t show ?thesis by blast
qed

text \<open>
  A credential that was attested without a parent can be derived from one of its own descendants.
  The two are then each other's ancestors.
\<close>

definition derived_pair :: zk where
  "derived_pair = fold (\<lambda>c. after (zk_exec (zk_demo 10) c)) [ZInitialize 1, ZRegister 7, ZAttest 7 [3] [4], ZDerive 7 1 [5] [6], ZDerive 7 2 [3] [4]] empty_zk"

lemma exec_validate: "bindM (validate_credential_chain i) f s = (case chain_walk s i 0 of Inl err \<Rightarrow> Inl err | Inr u \<Rightarrow> f () s)"
  by (simp add: bindM_def validate_credential_chain_def split: sum.splits)

lemma parents_can_be_cyclic: "z_parent derived_pair = [1 \<mapsto> 2, 2 \<mapsto> 1]"
  by (auto simp: derived_pair_def zk_run create_derived_credential_def exec_validate load_parent_def chain_walk.simps
    MAX_CREDENTIAL_CHAIN_DEPTH_def numeral_2_eq_2 fun_upd_twist)

end
