(* ===== verification/Spec2Isabelle.thy ===== *)
theory Spec2Isabelle
  imports Release_Properties Custody_Properties Governance_Properties Ttl_Properties Multisig_Properties
    Vesting_Properties Vault_History Passkey_Properties Allocation_Properties
    Credential_Properties Rules_Properties Template_Properties
    Voting_Properties Network_Properties Selection_Properties
    Compression_Properties Sbt_Properties Zk_Properties
begin

text \<open>
  This development verifies the Heirloom vault contract, the Soroban smart contract under
  src/Heirloom-contracts/ttl_vault/src (lib.rs, types.rs, oracle.rs): a dead man's switch, and the contract of
  soulbound tokens and the verifier of claims beside it (src/Heirloom-contracts/sbt, zk_verifier). An
  owner locks tokens in a vault and has to check in before a deadline; when the deadline
  passes, anybody can trigger the release, which pays the beneficiaries.

  \<^bold>\<open>The program and its model.\<close> A contract call is a function of the host environment and of the
  ledger: the type \<open>('tok, 'a) handler\<close> is \<open>'tok world \<Rightarrow> failure + 'a \<times> 'tok world\<close>. An
  \<open>Inl\<close> is a call that fails, and the host then discards every write of the call; it carries
  the source's \<open>ContractError\<close> (\<open>Err\<close>) or says that the call trapped (arithmetic overflow, an
  unwrapped \<open>None\<close>, a failing token call). \<open>'tok world\<close> is the contract's storage, one field per
  storage key of types.rs, grouped in records by component, with the published events, the
  requested rent and the state of the token contracts. \<open>'tok env\<close> is the host: the ledger time,
  who authorised the call, the address of the contract, and what lies outside the repository,
  as parameters: the token contracts, the oracle contracts and the hash function. What is
  assumed of the token contracts is \<open>sep41\<close> (a successful transfer of a non-negative amount moves exactly
  it), and of the host \<open>host_ok\<close> (nobody signs for the contract itself). Integers keep their
  width: \<open>u64\<close> and \<open>u32\<close> values are naturals and \<open>i128\<close> values integers with the overflow trap of
  each checked operation and the saturation of each saturating one written out.

  \<^bold>\<open>Theories.\<close>
  \<^item> \<open>Heirloom_Prelude\<close>: the handler monad, its loops, and the calculus the proofs use: \<open>wp m Q w\<close>
    (if the call commits, \<open>Q\<close> holds), \<open>runs m Q w\<close> (it commits and \<open>Q\<close> holds), \<open>keeps f m\<close> (the view
    \<open>f\<close> of the state is unchanged), with the collections \<open>wp_simps\<close>, \<open>run_simps\<close>, \<open>exec\<close>, \<open>frame\<close>.
  \<^item> \<open>Vault_Types\<close>, \<open>Vault_Topics\<close>: the structs, enums, error codes and event topics of types.rs
    and lib.rs; \<open>Feature_Types\<close>: those of the features around a vault. \<open>Vault_Ledger\<close>: the storage keys as
    records of maps, and the type \<open>world\<close>. \<open>Vault_Storage\<close>: loading and saving vaults, rent, authorisation, the
    owner and beneficiary indexes, logs, and the account invariants \<open>solvent\<close> and \<open>splits_ok\<close>.
  \<^item> \<open>Vault_Admin\<close>: initialize, pausing, limits, token whitelist, bridges, upgrade, configuration,
    admin transfer. \<open>Vault_CheckIn\<close>: create_vault and check_in with passkeys, delegates, cooldown,
    rotation, penalty, history and streak. \<open>Vault_Funds\<close>: deposits, withdrawals, limits, batches,
    escrow, rollback, reversal, schedules. \<open>Vault_Ttl\<close>: expiry, hibernation, batched check-ins,
    proof of work, decay, borrowing, countdowns. \<open>Vault_Release\<close>: the release with its conditions,
    gates and waterfall, partial release, archiving. \<open>Vault_Beneficiaries\<close>: splits, rotation,
    acceptance, veto, proof of life, votes. \<open>Vault_Ownership\<close>: ownership and beneficiary changes,
    cancellation, pausing a vault. \<open>Vault_Passkeys\<close>: passkeys, backup codes, recovery and two-factor codes.
    \<open>Vault_Multisig\<close>: co-signers, proposals, approvals, vetoes and the execution of the five
    operations. \<open>Vault_Vesting\<close>: time schedules with cliff, penalty, catch-up and bonus,
    reversible claims, clawback, tranches, milestones, schedules per beneficiary;
    \<open>Vesting_Effects\<close>: what each of these calls does to the accounts.
    \<open>Vault_Allocation\<close>: the allocation modules caps.rs, floors.rs, matching.rs and ranking.rs,
    which keep their own storage. \<open>Host_Collections\<close>: the host's ordered maps and the sorting loop
    of these modules. \<open>Module_Store\<close>: what the independent modules of the crate share, and the pairing of
    their storage with the vault's for the entry points around them (\<open>f_entry\<close> is the entry point of lib.rs
    around the module function \<open>f\<close>). \<open>Credentials\<close>: credential_lifecycle.rs and credential_anchoring.rs.
    \<open>Composition_Rules\<close>: composition_rules.rs. \<open>Templates\<close>: template_inheritance.rs.
    \<open>Slice_Voting\<close>: slice_consensus_voting.rs. \<open>Slice_Network\<close>: slice_failover.rs and slice_performance.rs.
    \<open>Slice_Selection\<close>: slice_attribute_matching.rs, slice_cost_tracking.rs and slice_composition_optimizer.rs.
    \<open>Sbt_Compression\<close>: the codec sbt/src/compression.rs on 8-bit words. \<open>Sbt_Contract\<close>: sbt/src/lib.rs,
    with its own state \<open>sbt\<close>, environment \<open>sbt_env\<close> and failures. \<open>Zk_Verifier\<close>: zk_verifier/src/lib.rs,
    compression.rs and consistency.rs, with the state \<open>zk\<close> and the environment \<open>zk_env\<close> (time, signatures, hash
    function, decoding of XDR).
    Every definition has the name of the function it translates; a function too long for one
    definition is split where its source has a loop or a phase, and the parts are named after
    what they do.
  \<^item> \<open>Vault_Safety\<close>: the entry points as a transition system (\<open>vault_step\<close>), an interpretation of the
    locales \<open>invariant_system\<close> and \<open>monotone_system\<close> (what holds in every reachable state)
    of \<open>Transition_Systems\<close> on the contract. \<open>Vault_Scenario\<close>: a concrete host and ledger for the witnesses.
  \<^item> \<open>Release_Properties\<close>, \<open>Custody_Properties\<close>, \<open>Ttl_Properties\<close>, \<open>Governance_Properties\<close> (locale
    \<open>timelock\<close>, interpreted four times), \<open>Multisig_Properties\<close> (a second interpretation of
    \<open>monotone_system\<close>, on the proposals), \<open>Vesting_Properties\<close>, \<open>Passkey_Properties\<close>,
    \<open>Allocation_Properties\<close> (\<open>invariant_system\<close> on the ranks), \<open>Credential_Properties\<close> (\<open>monotone_system\<close> on the
    credentials), \<open>Rules_Properties\<close>, \<open>Template_Properties\<close> (\<open>invariant_system\<close> on the templates),
    \<open>Voting_Properties\<close> (\<open>monotone_system\<close> on the votes), \<open>Network_Properties\<close> and \<open>Selection_Properties\<close>
    (\<open>invariant_system\<close> on the ratings, the backups and the directory of attestors), \<open>Compression_Properties\<close>,
    \<open>Sbt_Properties\<close> (\<open>invariant_system\<close> on the numbering, the component graph and the escrows of the tokens),
    \<open>Zk_Properties\<close> (\<open>invariant_system\<close> on credentials, snapshots and disputes, with the clock), \<open>Vault_History\<close> (locale \<open>bounded_log\<close>, interpreted three
    times) hold the properties of single operations; this theory those of whole histories.

  \<^bold>\<open>What is shown.\<close> In every state the calls of \<open>vault_step\<close> can reach, the contract owns what its vaults record, token by
  token, and no split exceeds the whole; a status only moves from locked to released to cancelled, from locked to released
  never before the deadline, and from released to cancelled only by an approved proposal of co-signers. A release happens only if
  every gate of the code is open, pays exactly the waterfall's amounts, happens at most once,
  and does happen when the gates are open. Deposits are accepted exactly
  under the stated conditions, withdrawals move exactly their amount, what \<open>withdraw\<close> takes in any
  window of the limits stays within them, and
  cancelling refunds everything. Admin (through whole histories), configuration, owner and beneficiary changes obey their
  time locks. Backup and recovery codes work once. The check-in ring and the bounded logs refine the lists they stand for. The
  byte-wise proof of work is a threshold test. Time is conserved by hibernation and lending.
  Several properties show defects of the code: \<open>batch_overdraws\<close>, \<open>rollback_mints\<close>,
  \<open>limit_locks_rest\<close>, \<open>stale_transfer\<close>, \<open>decay_compounds\<close>, \<open>repay_mints\<close>, \<open>stranger_recovers\<close>, \<open>stranger_extends\<close>.
  Proposals of co-signers are executed at most once, as proposed, and after the approvals the threshold asks for, at
  least two. Vesting claims without penalty, rollover and acceleration pay exactly the unlocked installments, in any rhythm; pending claims can be
  undone; milestones pay once. Caps, floors and ranks conserve the money they distribute. Revoked credentials stay revoked and
  are never verified; slices are validated exactly by their enabled rules; templates form a forest
  of bounded depth whose cache is coherent. Votes on slices are counted once per attestor, registered when voting, and decided
  by half as many as were registered when the proposal was made; weights always add up to the whole; reputations replay their history; a backup takes
  over exactly at its threshold; a search leaves out no better active attestor. A soulbound token changes its
  holder only by a batch transfer the holder signs or by a recovery code that is used up; the composition graph stays
  acyclic; escrows are released together or not at all; the codec restores what it compressed.
  A claim is verified exactly while an oracle that attested it is registered and no dispute about it was upheld; votes on
  disputes are counted once per oracle; queries about the past return the right snapshot. \<open>vesting_cancel_mints\<close> and \<open>milestones_overpay\<close> show defects.

  \<^bold>\<open>Termination and bounds.\<close> Every loop of the modelled code runs over a stored list or a fixed range,
  so almost every definition is a total function by structural recursion (\<open>foldM\<close>, \<open>forM\<close>); the
  loops without such a bound (\<open>redistribute_excess\<close>, \<open>pay_tiers\<close>, the walks over the ancestors of a
  template, the encoder and decoder of the codec, the search and the resolution in the composition graph, the
  binary search over snapshots and the walks over ancestors of a credential) are
  functions with termination proofs. No
  fuel is used anywhere. Archived entries and rent expiry of the host are modelled only as the
  \<open>ttl_log\<close> of requested extensions: entries do not vanish from the model's storage.

  \<^bold>\<open>Outside the transition system.\<close> \<open>rollback_withdrawal\<close>, \<open>reverse_withdrawal\<close> and
  \<open>verify_withdrawal_escrow\<close> are modelled, but are not steps of \<open>vault_step\<close>: they credit or debit
  a vault without a token movement or a balance check, and solvency is false with them.
  \<open>batch_withdraw\<close> is a step for distinct vaults only, and \<open>decline_beneficiary_role\<close> where no
  forfeiture is configured, for the same reason. \<open>cancel_vesting_schedule\<close> credits a vault with
  money that is not there and is no step either.

  \<^bold>\<open>Not modelled.\<close>
  The vault contract's clones, merges, snapshots, metadata, beneficiary auctions, commitments, disputes,
  pools, swaps, messages and the records of staking, lending, collateral and hedging: their storage is part of
  \<open>world\<close>, their handlers are not translated. The backend and services, which
  are I/O around third-party crates.
\<close>

section \<open>Every history of the vault contract\<close>

lemma host_step:
  assumes "entry (host n) w m" "commits m w"
  shows "vault_step ledger_balance VAULT w (after m w)"
  using assms host_ok_host [of n] by (fastforce simp: vault_step_def after_def commits_def split: sum.splits)

lemma deposit_is_entry: "entry (host 200) created (deposit (host 200) 1 OWNER 500)"
  by (auto simp: entry_def intro: paying.intros)

lemma deposited_committed: "deposit (host 200) 1 OWNER 500 created = Inr ((), deposited)"
  using deposited_run by (auto simp: deposited_def after_def runs_def split: sum.splits)

lemma genesis_to_created: "reachable (deployed ledger_balance VAULT) (vault_step ledger_balance VAULT) created"
proof -
  have "vault_step ledger_balance VAULT genesis initialized"
    unfolding initialized_def
    by (rule host_step [where n = 50]) (use initialized_run in \<open>auto simp: entry_def runs_iff intro: quiet.intros\<close>)
  moreover have "vault_step ledger_balance VAULT initialized created"
  proof -
    have "commits (ignore (create_vault (host 100) OWNER HEIR 1000 None)) initialized"
      using created_run by (auto simp: commits_def ignore_def bindM_def returnM_def runs_def split: sum.splits)
    moreover have "after (ignore (create_vault (host 100) OWNER HEIR 1000 None)) initialized = created"
      by (simp add: created_def after_def ignore_def bindM_def returnM_def split: sum.splits)
    ultimately show ?thesis
      using host_step [where n = 100 and m = "ignore (create_vault (host 100) OWNER HEIR 1000 None)"]
      by (metis entry_def paying.create_entry)
  qed
  ultimately show ?thesis
    using reachable_start [of "deployed ledger_balance VAULT", OF genesis_deployed] by (blast intro: reachable_step)
qed

lemma genesis_to_deposited: "reachable (deployed ledger_balance VAULT) (vault_step ledger_balance VAULT) deposited"
  using genesis_to_created deposit_is_entry deposited_committed host_ok_host
  by (fastforce simp: vault_step_def intro: reachable_step)

text \<open>C1. Through every history of the calls admitted by \<open>vault_step\<close>, the contract owns at
  least the sum of what its vaults record, token by token, and no vault's balance is negative. Not admitted, because each
  of them breaks this, are \<open>rollback_withdrawal\<close>, \<open>reverse_withdrawal\<close>, \<open>verify_withdrawal_escrow\<close>,
  \<open>cancel_vesting_schedule\<close>, \<open>batch_withdraw\<close> with a vault named twice and \<open>decline_beneficiary_role\<close> with a
  configured forfeiture (\<open>batch_overdraws\<close>, \<open>rollback_mints\<close>, \<open>vesting_cancel_mints\<close>).\<close>

theorem reachable_solvent:
  assumes "reachable (deployed bal self) (vault_step bal self) w"
  shows "solvent bal self w"
  using contract.inv_reachable [OF assms] by (simp add: safe_def)

theorem reachable_solvent_witness: "solvent ledger_balance VAULT deposited \<and> p_Vault deposited 1 = Some vault1"
  using reachable_solvent [OF genesis_to_deposited] by simp

text \<open>C7. Whatever the history, no vault and no scheduled rotation promises its
  beneficiaries more than 10000 basis points, nothing burns more than the whole, and spending
  limits are positive.\<close>

theorem reachable_splits:
  assumes "reachable (deployed bal self) (vault_step bal self) w"
  shows "splits_ok w"
  using contract.inv_reachable [OF assms] by (simp add: safe_def)

theorem reachable_splits_witness: "splits_ok deposited \<and> sane vault1"
  using reachable_splits [OF genesis_to_deposited] splits_okD(1) [of deposited 1 vault1] by simp

lemma unlocked_change:
  assumes "status_changes e t u" "p_Vault t i = Some v" "v_status v \<noteq> Locked" "statuses u i \<noteq> Some (v_status v)"
  shows "statuses u i = Some Cancelled \<and> (\<exists>n p. executes e i n (v_owner v) v p t)"
proof -
  have "statuses t i = Some (v_status v)" using assms(2) by (simp add: statuses_def)
  then have "statuses u i = Some Cancelled \<and> cosigned e t i"
    using assms(1,3,4) unfolding status_changes_def by (metis option.distinct(1) option.inject)
  then show ?thesis using assms(2) by (auto simp: cosigned_def executes_def)
qed

text \<open>C6. Through every history of the calls admitted by \<open>vault_step\<close> no vault disappears and a
  vault's status only moves forward: a locked vault stays locked until it is released or cancelled, a cancelled one is
  cancelled for ever, and a released one stays released, except that a call by which its signing owner executes an
  approved multi-signature proposal can cancel it (\<open>multisig_revives\<close>): such a call is the only one that changes the
  status of a released vault.\<close>

theorem status_forward:
  assumes "reachable (deployed bal self) (vault_step bal self) w" "(vault_step bal self)\<^sup>*\<^sup>* w t"
    "p_Vault w i = Some v"
  shows "\<exists>v'. p_Vault t i = Some v' \<and>
    (v_status v' = v_status v \<or> v_status v = Locked \<or> v_status v' = Cancelled) \<and>
    (\<forall>e m u. entry e t m \<and> host_ok e self bal \<and> m t = Inr ((), u) \<and> v_status v' \<noteq> Locked \<and>
       statuses u i \<noteq> Some (v_status v') \<longrightarrow>
       statuses u i = Some Cancelled \<and> (\<exists>n p. executes e i n (v_owner v') v' p t))"
proof -
  have safe: "safe bal self w" using contract.inv_reachable [OF assms(1)] .
  have "status_evolves w t" using contract.evolves_steps [OF assms(2)] safe by blast
  then obtain v' where v': "p_Vault t i = Some v'" "v_status v' = v_status v \<or> v_status v = Locked \<or> v_status v' = Cancelled"
    using assms(3) by (auto simp: status_evolves_def statuses_def dest!: spec [of _ i])
  have "safe bal self t" using contract.inv_steps [OF assms(2) safe] .
  then have "status_changes e t u" if "entry e t m" "m t = Inr ((), u)" for e m u
    using wpD [OF entry_status [OF that(1)] that(2)] by simp
  then show ?thesis using v' unlocked_change [OF _ v'(1)] by blast
qed

theorem status_forward_witness:
  "\<exists>v'. p_Vault deposited 1 = Some v' \<and> (v_status v' = v_status vault1 \<or> v_status vault1 = Locked \<or> v_status v' = Cancelled)"
  using status_forward [OF genesis_to_deposited, of deposited 1 vault1] by auto

text \<open>C9. From every reachable state, a call admitted by \<open>vault_step\<close> marks a locked vault released
  only if the vault's deadline, extended by its hibernation, has passed at the time of the call; before that
  \<open>trigger_release\<close>, \<open>trigger_release_manual\<close> and \<open>panic_release\<close> all fail, although \<open>panic_release\<close> is documented to
  release regardless of other conditions. (The owner can pay out of a vault that stays locked at any time:
  \<open>partial_release\<close>.)\<close>

theorem no_early_release:
  assumes "reachable (deployed bal self) (vault_step bal self) w" "p_Vault w i = Some v" "v_status v = Locked"
    "\<not> expired (ledger_timestamp e) v (p_Hibernation (rel w) i)"
  shows "(entry e w m \<and> m w = Inr ((), t) \<longrightarrow> statuses t i \<in> {Some Locked, Some Cancelled}) \<and>
    \<not> commits (trigger_release e i) w \<and> \<not> commits (trigger_release_manual e i) w \<and> \<not> commits (panic_release e i c) w"
proof -
  have safe: "safe bal self w" using contract.inv_reachable [OF assms(1)] .
  then have "entry e w m \<and> m w = Inr ((), t) \<longrightarrow> status_changes e w t" using wpD [OF entry_status] by blast
  then have "entry e w m \<and> m w = Inr ((), t) \<longrightarrow> statuses t i \<in> {Some Locked, Some Cancelled}"
    using assms(2-4) by (auto simp: status_changes_def statuses_def overdue_def dest!: spec [of _ i])
  then show ?thesis using safe releases_need_expiry [OF _ assms(2,4)] by (auto simp: safe_def)
qed

theorem no_early_release_witness:
  "statuses deposited 1 \<in> {Some Locked, Some Cancelled} \<and> \<not> commits (panic_release (host 200) 1 OWNER) created"
  using no_early_release [OF genesis_to_created, of 1 "new_vault OWNER HEIR 1000 100 XLM" "host 200"
      "deposit (host 200) 1 OWNER 500" deposited OWNER] deposit_is_entry deposited_committed
  by (simp add: new_vault_def expired_def deadline_of_def release0_def)

end
